(* ===== verification/Prelude.thy ===== *)
theory Prelude
  imports Complex_Main "HOL-Library.Word" "HOL-Library.AList" "HOL-Library.Multiset"
begin

text \<open>
  What the components share: Go errors and the result of a Go call, the state passing
  combinators that mirror the source's \<^verbatim>\<open>if err != nil\<close> idiom, 64-bit integers, the
  functions of the standard packages strings, sort and strconv that the source calls, and
  dynamic (JSON) values. Lemmas about them are declared to the simplifier or to one of the
  collections below, so that a component's proofs are a few steps.
\<close>

named_theorems go_defs "definitions of the state passing combinators"
named_theorems ok_simps "decomposition of a successful run"
named_theorems moves_intros "relational frame rules of the combinators"

section \<open>Errors\<close>

text \<open>The sentinel errors of the packages waitlist, segments, emailblasts, rewards, campaign,
  referral, email, webhooks, analytics, campaignemails, blastemails, auth, billing and subscriptions.\<close>

datatype wl_error =
    WL_ErrUserNotFound | WL_ErrCampaignNotFound | WL_ErrEmailAlreadyExists
  | WL_ErrInvalidReferralCode | WL_ErrInvalidStatus | WL_ErrInvalidSource | WL_ErrUnauthorized
  | WL_ErrInvalidVerificationToken | WL_ErrEmailAlreadyVerified | WL_ErrMaxSignupsReached
  | WL_ErrCaptchaRequired | WL_ErrCaptchaFailed | WL_ErrCampaignNotActive
  | WL_ErrJSONExportNotAvailable | WL_ErrLeadsLimitReached | WL_ErrEmailVerificationNotAvailable
  | WL_ErrCustomFieldFilteringUnavailable

datatype sg_error =
    SG_ErrSegmentNotFound | SG_ErrCampaignNotFound | SG_ErrUnauthorized | SG_ErrInvalidCriteria
  | SG_ErrSegmentInUse

datatype eb_error =
    EB_ErrBlastNotFound | EB_ErrSegmentNotFound | EB_ErrTemplateNotFound | EB_ErrCampaignNotFound
  | EB_ErrUnauthorized | EB_ErrBlastCannotModify | EB_ErrBlastCannotDelete
  | EB_ErrBlastCannotStart | EB_ErrBlastCannotPause | EB_ErrBlastCannotResume
  | EB_ErrBlastCannotCancel | EB_ErrInvalidScheduleTime | EB_ErrNoRecipients
  | EB_ErrEmailBlastsNotAvailable

datatype rw_error =
    RW_ErrRewardNotFound | RW_ErrUserRewardNotFound | RW_ErrInvalidRewardType
  | RW_ErrInvalidTriggerType | RW_ErrInvalidDeliveryMethod | RW_ErrInvalidRewardStatus
  | RW_ErrUnauthorized | RW_ErrRewardLimitReached | RW_ErrUserLimitReached

datatype cp_error =
    CP_ErrCampaignNotFound | CP_ErrSlugAlreadyExists | CP_ErrInvalidCampaignStatus
  | CP_ErrInvalidCampaignType | CP_ErrUnauthorized | CP_ErrCampaignLimitReached
  | CP_ErrTrackingPixelsNotAvailable | CP_ErrAntiSpamNotAvailable

datatype rf_error =
    RF_ErrReferralNotFound | RF_ErrCampaignNotFound | RF_ErrUserNotFound | RF_ErrUnauthorized
  | RF_ErrInvalidStatus | RF_ErrInvalidReferral | RF_ErrReferralCodeEmpty
  | RF_ErrReferralSystemNotAvailable

datatype em_error =
    EM_ErrInvalidEmailAddress | EM_ErrSendingEmail | EM_ErrEmptyTemplate

datatype wb_error =
    WB_ErrWebhooksNotAvailable
  | WB_ErrWebhookNotFound

datatype an_error =
    AN_ErrCampaignNotFound
  | AN_ErrUnauthorized
  | AN_ErrInvalidDateRange
  | AN_ErrInvalidGranularity

datatype ce_error =
    CE_ErrCampaignEmailTemplateNotFound
  | CE_ErrCampaignNotFound
  | CE_ErrUnauthorized
  | CE_ErrInvalidTemplateType
  | CE_ErrInvalidTemplateContent
  | CE_ErrTestEmailFailed
  | CE_ErrVisualEmailBuilderNotAvailable

datatype be_error =
    BE_ErrBlastEmailTemplateNotFound
  | BE_ErrUnauthorized
  | BE_ErrInvalidTemplateContent
  | BE_ErrTestEmailFailed
  | BE_ErrBlastEmailTemplatesNotAvailable

datatype au_error =
    AU_ErrEmailAlreadyExists
  | AU_ErrEmailDoesNotExist
  | AU_ErrFailedSignup
  | AU_ErrFailedLogin
  | AU_ErrIncorrectPassword
  | AU_ErrFailedGetUser
  | AU_ErrUserNotFound
  | AU_ErrInvalidJWTToken
  | AU_ErrExpiredToken
  | AU_ErrParseJWTToken
  | AU_ErrFailedSignIn

datatype bl_error =
    BL_ErrFailedToCreateCustomer
  | BL_ErrNoActiveSubscription
  | BL_ErrSubscriptionAlreadyExists
  | BL_ErrFailedToCancelSubscription
  | BL_ErrFailedToUpdateSubscription
  | BL_ErrFailedToGetSubscription
  | BL_ErrFailedToCreateFreeSubscription
  | BL_ErrFailedToGetPaymentMethod
  | BL_ErrFailedToUpdatePaymentMethod
  | BL_ErrNoSubscription

datatype sentinel =
    WL wl_error
  | SG sg_error
  | EB eb_error
  | RW rw_error
  | CP cp_error
  | RF rf_error
  | EM em_error
  | WB wb_error
  | AN an_error
  | CE ce_error
  | BE be_error
  | AU au_error
  | BL bl_error

text \<open>
  An error value: store.ErrNotFound, sql.ErrNoRows, an error of the database driver, an error
  of code outside the repository, a sentinel, an error made by errors.New or by fmt.Errorf
  without \<^verbatim>\<open>%w\<close>, and one made by fmt.Errorf with \<^verbatim>\<open>"msg: %w"\<close> or \<^verbatim>\<open>"%w: msg"\<close>.
\<close>

datatype err =
    ErrNotFound
  | ErrNoRows
  | DbErr string
  | ExtErr string
  | Sentinel sentinel
  | NewErr string
  | Wrap string err
  | Annotated err string

fun errors_Is :: "err \<Rightarrow> err \<Rightarrow> bool" where
  "errors_Is (Wrap msg e) target = (Wrap msg e = target \<or> errors_Is e target)"
| "errors_Is (Annotated e msg) target = (Annotated e msg = target \<or> errors_Is e target)"
| "errors_Is e target = (e = target)"

fun err_root :: "err \<Rightarrow> err" where
  "err_root (Wrap msg e) = err_root e"
| "err_root (Annotated e msg) = err_root e"
| "err_root e = e"

lemma errors_Is_NotFound: "errors_Is e ErrNotFound \<longleftrightarrow> err_root e = ErrNotFound"
  by (induction e) auto

text \<open>The text of an error, err.Error().\<close>

primrec wl_error_text :: "wl_error \<Rightarrow> string" where
  "wl_error_text WL_ErrUserNotFound = ''user not found''"
| "wl_error_text WL_ErrCampaignNotFound = ''campaign not found''"
| "wl_error_text WL_ErrEmailAlreadyExists = ''email already exists for this campaign''"
| "wl_error_text WL_ErrInvalidReferralCode = ''invalid referral code''"
| "wl_error_text WL_ErrInvalidStatus = ''invalid user status''"
| "wl_error_text WL_ErrInvalidSource = ''invalid user source''"
| "wl_error_text WL_ErrUnauthorized = ''unauthorized access to campaign''"
| "wl_error_text WL_ErrInvalidVerificationToken = ''invalid verification token''"
| "wl_error_text WL_ErrEmailAlreadyVerified = ''email already verified''"
| "wl_error_text WL_ErrMaxSignupsReached = ''campaign has reached maximum signups''"
| "wl_error_text WL_ErrCaptchaRequired = ''captcha verification required''"
| "wl_error_text WL_ErrCaptchaFailed = ''captcha verification failed''"
| "wl_error_text WL_ErrCampaignNotActive = ''campaign is not accepting signups''"
| "wl_error_text WL_ErrJSONExportNotAvailable = ''JSON export is not available in your plan''"
| "wl_error_text WL_ErrLeadsLimitReached = ''leads limit reached for your plan''"
| "wl_error_text WL_ErrEmailVerificationNotAvailable = ''email verification is not available in your plan''"
| "wl_error_text WL_ErrCustomFieldFilteringUnavailable = ''custom field filtering requires enhanced lead data feature''"

primrec sg_error_text :: "sg_error \<Rightarrow> string" where
  "sg_error_text SG_ErrSegmentNotFound = ''segment not found''"
| "sg_error_text SG_ErrCampaignNotFound = ''campaign not found''"
| "sg_error_text SG_ErrUnauthorized = ''unauthorized access to segment''"
| "sg_error_text SG_ErrInvalidCriteria = ''invalid filter criteria''"
| "sg_error_text SG_ErrSegmentInUse = ''segment is in use by an email blast''"

primrec eb_error_text :: "eb_error \<Rightarrow> string" where
  "eb_error_text EB_ErrBlastNotFound = ''email blast not found''"
| "eb_error_text EB_ErrSegmentNotFound = ''segment not found''"
| "eb_error_text EB_ErrTemplateNotFound = ''email template not found''"
| "eb_error_text EB_ErrCampaignNotFound = ''campaign not found''"
| "eb_error_text EB_ErrUnauthorized = ''unauthorized access to email blast''"
| "eb_error_text EB_ErrBlastCannotModify = ''blast cannot be modified in current status''"
| "eb_error_text EB_ErrBlastCannotDelete = ''blast cannot be deleted in current status''"
| "eb_error_text EB_ErrBlastCannotStart = ''blast cannot be started in current status''"
| "eb_error_text EB_ErrBlastCannotPause = ''blast cannot be paused in current status''"
| "eb_error_text EB_ErrBlastCannotResume = ''blast cannot be resumed in current status''"
| "eb_error_text EB_ErrBlastCannotCancel = ''blast cannot be cancelled in current status''"
| "eb_error_text EB_ErrInvalidScheduleTime = ''scheduled time must be in the future''"
| "eb_error_text EB_ErrNoRecipients = ''segment has no matching users''"
| "eb_error_text EB_ErrEmailBlastsNotAvailable = ''email blasts are not available in your plan''"

primrec rw_error_text :: "rw_error \<Rightarrow> string" where
  "rw_error_text RW_ErrRewardNotFound = ''reward not found''"
| "rw_error_text RW_ErrUserRewardNotFound = ''user reward not found''"
| "rw_error_text RW_ErrInvalidRewardType = ''invalid reward type''"
| "rw_error_text RW_ErrInvalidTriggerType = ''invalid trigger type''"
| "rw_error_text RW_ErrInvalidDeliveryMethod = ''invalid delivery method''"
| "rw_error_text RW_ErrInvalidRewardStatus = ''invalid reward status''"
| "rw_error_text RW_ErrUnauthorized = ''unauthorized access to reward''"
| "rw_error_text RW_ErrRewardLimitReached = ''reward limit reached''"
| "rw_error_text RW_ErrUserLimitReached = ''user has already claimed maximum rewards''"

primrec cp_error_text :: "cp_error \<Rightarrow> string" where
  "cp_error_text CP_ErrCampaignNotFound = ''campaign not found''"
| "cp_error_text CP_ErrSlugAlreadyExists = ''slug already exists''"
| "cp_error_text CP_ErrInvalidCampaignStatus = ''invalid campaign status''"
| "cp_error_text CP_ErrInvalidCampaignType = ''invalid campaign type''"
| "cp_error_text CP_ErrUnauthorized = ''unauthorized access to campaign''"
| "cp_error_text CP_ErrCampaignLimitReached = ''campaign limit reached for your plan''"
| "cp_error_text CP_ErrTrackingPixelsNotAvailable = ''tracking pixels feature is not available in your plan''"
| "cp_error_text CP_ErrAntiSpamNotAvailable = ''anti-spam protection is not available in your plan''"

primrec rf_error_text :: "rf_error \<Rightarrow> string" where
  "rf_error_text RF_ErrReferralNotFound = ''referral not found''"
| "rf_error_text RF_ErrCampaignNotFound = ''campaign not found''"
| "rf_error_text RF_ErrUserNotFound = ''user not found''"
| "rf_error_text RF_ErrUnauthorized = ''unauthorized access to campaign''"
| "rf_error_text RF_ErrInvalidStatus = ''invalid referral status''"
| "rf_error_text RF_ErrInvalidReferral = ''invalid referral code''"
| "rf_error_text RF_ErrReferralCodeEmpty = ''referral code is required''"
| "rf_error_text RF_ErrReferralSystemNotAvailable = ''referral system is not available in your plan''"

primrec em_error_text :: "em_error \<Rightarrow> string" where
  "em_error_text EM_ErrInvalidEmailAddress = ''invalid email address''"
| "em_error_text EM_ErrSendingEmail = ''error sending email''"
| "em_error_text EM_ErrEmptyTemplate = ''email template is empty''"

primrec wb_error_text :: "wb_error \<Rightarrow> string" where
  "wb_error_text WB_ErrWebhooksNotAvailable = ''webhooks are not available in your plan''"
| "wb_error_text WB_ErrWebhookNotFound = ''webhook not found''"

primrec an_error_text :: "an_error \<Rightarrow> string" where
  "an_error_text AN_ErrCampaignNotFound = ''campaign not found''"
| "an_error_text AN_ErrUnauthorized = ''unauthorized access to campaign''"
| "an_error_text AN_ErrInvalidDateRange = ''invalid date range''"
| "an_error_text AN_ErrInvalidGranularity = ''invalid granularity''"

primrec ce_error_text :: "ce_error \<Rightarrow> string" where
  "ce_error_text CE_ErrCampaignEmailTemplateNotFound = ''campaign email template not found''"
| "ce_error_text CE_ErrCampaignNotFound = ''campaign not found''"
| "ce_error_text CE_ErrUnauthorized = ''unauthorized access to template''"
| "ce_error_text CE_ErrInvalidTemplateType = ''invalid template type''"
| "ce_error_text CE_ErrInvalidTemplateContent = ''invalid template content''"
| "ce_error_text CE_ErrTestEmailFailed = ''failed to send test email''"
| "ce_error_text CE_ErrVisualEmailBuilderNotAvailable = ''visual email builder is not available in your plan''"

primrec be_error_text :: "be_error \<Rightarrow> string" where
  "be_error_text BE_ErrBlastEmailTemplateNotFound = ''blast email template not found''"
| "be_error_text BE_ErrUnauthorized = ''unauthorized access to template''"
| "be_error_text BE_ErrInvalidTemplateContent = ''invalid template content''"
| "be_error_text BE_ErrTestEmailFailed = ''failed to send test email''"
| "be_error_text BE_ErrBlastEmailTemplatesNotAvailable = ''blast email templates are not available in your plan''"

primrec au_error_text :: "au_error \<Rightarrow> string" where
  "au_error_text AU_ErrEmailAlreadyExists = ''email already exists''"
| "au_error_text AU_ErrEmailDoesNotExist = ''email does not exist''"
| "au_error_text AU_ErrFailedSignup = ''failed to sign up''"
| "au_error_text AU_ErrFailedLogin = ''failed to login''"
| "au_error_text AU_ErrIncorrectPassword = ''incorrect password''"
| "au_error_text AU_ErrFailedGetUser = ''failed to get user''"
| "au_error_text AU_ErrUserNotFound = ''user not found''"
| "au_error_text AU_ErrInvalidJWTToken = ''invalid jwt token''"
| "au_error_text AU_ErrExpiredToken = ''expired jwt token''"
| "au_error_text AU_ErrParseJWTToken = ''failed to parse jwt token''"
| "au_error_text AU_ErrFailedSignIn = ''failed to sign in''"

primrec bl_error_text :: "bl_error \<Rightarrow> string" where
  "bl_error_text BL_ErrFailedToCreateCustomer = ''failed to create customer''"
| "bl_error_text BL_ErrNoActiveSubscription = ''no active subscription found''"
| "bl_error_text BL_ErrSubscriptionAlreadyExists = ''user already has an active subscription''"
| "bl_error_text BL_ErrFailedToCancelSubscription = ''failed to cancel subscription''"
| "bl_error_text BL_ErrFailedToUpdateSubscription = ''failed to update subscription''"
| "bl_error_text BL_ErrFailedToGetSubscription = ''failed to get subscription''"
| "bl_error_text BL_ErrFailedToCreateFreeSubscription = ''failed to create free subscription''"
| "bl_error_text BL_ErrFailedToGetPaymentMethod = ''failed to get payment method''"
| "bl_error_text BL_ErrFailedToUpdatePaymentMethod = ''failed to update payment method''"
| "bl_error_text BL_ErrNoSubscription = ''no active subscription found''"

primrec sentinel_text :: "sentinel \<Rightarrow> string" where
  "sentinel_text (WL e) = wl_error_text e"
| "sentinel_text (SG e) = sg_error_text e"
| "sentinel_text (EB e) = eb_error_text e"
| "sentinel_text (RW e) = rw_error_text e"
| "sentinel_text (CP e) = cp_error_text e"
| "sentinel_text (RF e) = rf_error_text e"
| "sentinel_text (EM e) = em_error_text e"
| "sentinel_text (WB e) = wb_error_text e"
| "sentinel_text (AN e) = an_error_text e"
| "sentinel_text (CE e) = ce_error_text e"
| "sentinel_text (BE e) = be_error_text e"
| "sentinel_text (AU e) = au_error_text e"
| "sentinel_text (BL e) = bl_error_text e"

primrec err_Error :: "err \<Rightarrow> string" where
  "err_Error ErrNotFound = ''not found''"
| "err_Error ErrNoRows = ''sql: no rows in result set''"
| "err_Error (DbErr msg) = msg"
| "err_Error (ExtErr msg) = msg"
| "err_Error (Sentinel s) = sentinel_text s"
| "err_Error (NewErr msg) = msg"
| "err_Error (Wrap msg e) = msg @ '': '' @ err_Error e"
| "err_Error (Annotated e msg) = err_Error e @ '': '' @ msg"

text \<open>The outcome of a Go call that returns a value and an error: the value, the error, or a panic.\<close>

datatype 'a result = Ok 'a | Err err | Panic string

fun is_Ok :: "'a result \<Rightarrow> bool" where
  "is_Ok (Ok _) = True"
| "is_Ok _ = False"

section \<open>State passing\<close>

type_synonym ('s, 'a) go = "'s \<Rightarrow> 'a result \<times> 's"

definition retE :: "'a \<Rightarrow> ('s, 'a) go" where
  [go_defs]: "retE x s = (Ok x, s)"

definition failE :: "err \<Rightarrow> ('s, 'a) go" where
  [go_defs]: "failE e s = (Err e, s)"

definition panicE :: "string \<Rightarrow> ('s, 'a) go" where
  [go_defs]: "panicE msg s = (Panic msg, s)"

definition getE :: "('s \<Rightarrow> 'a) \<Rightarrow> ('s, 'a) go" where
  [go_defs]: "getE f s = (Ok (f s), s)"

definition modifyE :: "('s \<Rightarrow> 's) \<Rightarrow> ('s, unit) go" where
  [go_defs]: "modifyE f s = (Ok (), f s)"

text \<open>
  \<^term>\<open>tryE\<close>: run a call, continue with the second argument when it returns an error and with
  the third when it returns a value; a panic goes through.
\<close>

definition tryE :: "('s, 'a) go \<Rightarrow> (err \<Rightarrow> ('s, 'b) go) \<Rightarrow> ('a \<Rightarrow> ('s, 'b) go) \<Rightarrow> ('s, 'b) go" where
  [go_defs]: "tryE m h k s = (case m s of
       (Ok x, s') \<Rightarrow> k x s'
     | (Err e, s') \<Rightarrow> h e s'
     | (Panic p, s') \<Rightarrow> (Panic p, s'))"

text \<open>\<^term>\<open>bindE\<close>: \<^verbatim>\<open>if err != nil { return err }\<close>.\<close>

definition bindE :: "('s, 'a) go \<Rightarrow> ('a \<Rightarrow> ('s, 'b) go) \<Rightarrow> ('s, 'b) go" where
  [go_defs]: "bindE m k = tryE m failE k"

text \<open>\<^term>\<open>wrapE\<close>: \<^verbatim>\<open>if err != nil { return fmt.Errorf("msg: %w", err) }\<close>.\<close>

definition wrapE :: "string \<Rightarrow> ('s, 'a) go \<Rightarrow> ('s, 'a) go" where
  [go_defs]: "wrapE msg m = tryE m (\<lambda>e. failE (Wrap msg e)) retE"

text \<open>\<^term>\<open>logE\<close>: an error that is logged and dropped, or assigned to the blank identifier.\<close>

definition logE :: "('s, 'a) go \<Rightarrow> ('s, unit) go" where
  [go_defs]: "logE m = tryE m (\<lambda>e. retE ()) (\<lambda>x. retE ())"

text \<open>A for-range loop whose body may return an error.\<close>

primrec forE :: "'a list \<Rightarrow> ('a \<Rightarrow> ('s, unit) go) \<Rightarrow> ('s, unit) go" where
  "forE [] f = retE ()"
| "forE (x # xs) f = bindE (f x) (\<lambda>u. forE xs f)"

text \<open>The same with an accumulator, the locals the loop assigns.\<close>

primrec foldE :: "('a \<Rightarrow> 'b \<Rightarrow> ('s, 'b) go) \<Rightarrow> 'a list \<Rightarrow> 'b \<Rightarrow> ('s, 'b) go" where
  "foldE f [] acc = retE acc"
| "foldE f (x # xs) acc = bindE (f x acc) (foldE f xs)"

subsection \<open>Successful runs\<close>

lemma retE_Ok [ok_simps]: "retE x s = (Ok y, s') \<longleftrightarrow> x = y \<and> s = s'"
  by (simp add: go_defs)

lemma failE_Ok [ok_simps]: "failE e s = (Ok y, s') \<longleftrightarrow> False"
  by (simp add: go_defs)

lemma panicE_Ok [ok_simps]: "panicE e s = (Ok y, s') \<longleftrightarrow> False"
  by (simp add: go_defs)

lemma getE_Ok [ok_simps]: "getE f s = (Ok y, s') \<longleftrightarrow> f s = y \<and> s = s'"
  by (simp add: go_defs)

lemma modifyE_Ok [ok_simps]: "modifyE f s = (Ok y, s') \<longleftrightarrow> f s = s'"
  by (simp add: go_defs)

lemma tryE_Ok [ok_simps]:
  "tryE m h k s = (Ok y, s') \<longleftrightarrow>
     (\<exists>x s1. m s = (Ok x, s1) \<and> k x s1 = (Ok y, s')) \<or>
     (\<exists>e s1. m s = (Err e, s1) \<and> h e s1 = (Ok y, s'))"
  by (auto simp: tryE_def split: prod.splits result.splits)

lemma bindE_Ok [ok_simps]:
  "bindE m k s = (Ok y, s') \<longleftrightarrow> (\<exists>x s1. m s = (Ok x, s1) \<and> k x s1 = (Ok y, s'))"
  by (simp add: bindE_def ok_simps)

text \<open>The same as elimination rules, to take a successful run apart step by step.\<close>

lemma bindE_OkE:
  assumes "bindE m k s = (Ok y, s')"
  obtains x s1 where "m s = (Ok x, s1)" "k x s1 = (Ok y, s')"
  using assms by (auto simp: bindE_Ok)

lemma bindE_ErrE:
  assumes "bindE m k s = (Err e, s')"
  obtains (first) "m s = (Err e, s')"
  | (second) x s1 where "m s = (Ok x, s1)" "k x s1 = (Err e, s')"
  using assms by (auto simp: bindE_def tryE_def failE_def split: prod.splits result.splits)

lemma tryE_OkE:
  assumes "tryE m h k s = (Ok y, s')"
  obtains (ok) x s1 where "m s = (Ok x, s1)" "k x s1 = (Ok y, s')"
  | (err) e s1 where "m s = (Err e, s1)" "h e s1 = (Ok y, s')"
  using assms by (auto simp: tryE_Ok)

lemma wrapE_Ok [ok_simps]: "wrapE msg m s = (Ok y, s') \<longleftrightarrow> m s = (Ok y, s')"
  by (simp add: wrapE_def ok_simps)

lemma if_Ok [ok_simps]:
  "(if b then m else m') s = (Ok y, s') \<longleftrightarrow> (if b then m s = (Ok y, s') else m' s = (Ok y, s'))"
  by simp

text \<open>Two continuations that agree on what the first call can return give the same call.\<close>

lemma bindE_cong_Ok:
  assumes "\<And>x s s'. m s = (Ok x, s') \<Longrightarrow> k x = k' x"
  shows "bindE m k = bindE m k'"
  by (rule ext) (auto simp: go_defs dest: assms split: prod.splits result.splits)

lemma bindE_retE [simp]: "bindE (retE x) k = k x"
  by (rule ext) (simp add: go_defs)

lemma bindE_failE [simp]: "bindE (failE e) k = failE e"
  by (rule ext) (simp add: go_defs)

lemma bindE_getE: "bindE (getE f) k s = k (f s) s"
  by (simp add: go_defs)

lemma bindE_assoc: "bindE (bindE m k) h = bindE m (\<lambda>x. bindE (k x) h)"
  by (rule ext) (auto simp: go_defs split: prod.splits result.splits)

lemma bindE_right_retE [simp]: "bindE m retE = m"
  by (rule ext) (auto simp: go_defs split: prod.splits result.splits)

subsection \<open>Relational frame rules\<close>

text \<open>
  \<^term>\<open>moves R m\<close>: every run of \<^term>\<open>m\<close>, whatever its outcome, moves the state along R. An
  invariant and a frame condition are the two uses.
\<close>

definition moves :: "('s \<Rightarrow> 's \<Rightarrow> bool) \<Rightarrow> ('s, 'a) go \<Rightarrow> bool" where
  "moves R m = (\<forall>s. R s (snd (m s)))"

definition keeps :: "('s \<Rightarrow> bool) \<Rightarrow> 's \<Rightarrow> 's \<Rightarrow> bool" where
  "keeps I s s' = (I s \<longrightarrow> I s')"

definition frame :: "('s \<Rightarrow> 'x) \<Rightarrow> 's \<Rightarrow> 's \<Rightarrow> bool" where
  "frame f s s' = (f s' = f s)"

locale step_preorder =
  fixes R :: "'s \<Rightarrow> 's \<Rightarrow> bool"
  assumes step_refl: "R s s"
    and step_trans: "R s t \<Longrightarrow> R t u \<Longrightarrow> R s u"
begin

lemma moves_retE: "moves R (retE x)"
  by (simp add: moves_def retE_def step_refl)

lemma moves_failE: "moves R (failE e)"
  by (simp add: moves_def failE_def step_refl)

lemma moves_panicE: "moves R (panicE e)"
  by (simp add: moves_def panicE_def step_refl)

lemma moves_getE: "moves R (getE f)"
  by (simp add: moves_def getE_def step_refl)

lemma moves_tryE:
  assumes "moves R m" "\<And>e. moves R (h e)" "\<And>x. moves R (k x)"
  shows "moves R (tryE m h k)"
proof -
  have "R s (snd (tryE m h k s))" for s
  proof -
    obtain r s1 where m: "m s = (r, s1)" by fastforce
    have "R s s1" using assms(1) m unfolding moves_def by (metis snd_conv)
    moreover have "R s1 (snd (tryE m h k s))"
      using assms(2,3) m unfolding moves_def
      by (cases r) (auto simp: tryE_def step_refl)
    ultimately show ?thesis by (rule step_trans)
  qed
  then show ?thesis by (simp add: moves_def)
qed

lemma moves_bindE: "moves R m \<Longrightarrow> (\<And>x. moves R (k x)) \<Longrightarrow> moves R (bindE m k)"
  by (simp add: bindE_def moves_tryE moves_failE)

text \<open>The same when what the first call can return is known.\<close>

lemma moves_bindE_val:
  assumes "moves R m" "\<And>s x s'. m s = (Ok x, s') \<Longrightarrow> V x" "\<And>x. V x \<Longrightarrow> moves R (k x)"
  shows "moves R (bindE m k)"
proof -
  have "R s (snd (bindE m k s))" for s
  proof -
    obtain r s1 where m: "m s = (r, s1)" by fastforce
    have "R s s1" using assms(1) m unfolding moves_def by (metis snd_conv)
    moreover have "R s1 (snd (bindE m k s))"
    proof (cases r)
      case (Ok x)
      then have "moves R (k x)" using assms(2,3) m by blast
      then show ?thesis using m Ok by (simp add: bindE_def tryE_def moves_def)
    qed (simp_all add: m bindE_def tryE_def failE_def step_refl)
    ultimately show ?thesis by (rule step_trans)
  qed
  then show ?thesis by (simp add: moves_def)
qed

lemma moves_wrapE: "moves R m \<Longrightarrow> moves R (wrapE msg m)"
  by (simp add: wrapE_def moves_tryE moves_failE moves_retE)

lemma moves_logE: "moves R m \<Longrightarrow> moves R (logE m)"
  by (simp add: logE_def moves_tryE moves_retE)

lemma moves_forE: "(\<And>x. moves R (f x)) \<Longrightarrow> moves R (forE xs f)"
  by (induction xs) (auto intro: moves_retE moves_bindE)

lemma moves_foldE: "(\<And>x acc. moves R (f x acc)) \<Longrightarrow> moves R (foldE f xs acc)"
  by (induction xs arbitrary: acc) (auto intro: moves_retE moves_bindE)

lemmas moves_combinators =
  moves_retE moves_failE moves_panicE moves_getE moves_tryE moves_bindE moves_wrapE
  moves_logE moves_forE moves_foldE

end

interpretation keeps: step_preorder "keeps I" for I :: "'s \<Rightarrow> bool"
  by unfold_locales (auto simp: keeps_def)

interpretation frame: step_preorder "frame f" for f :: "'s \<Rightarrow> 'x"
  by unfold_locales (auto simp: frame_def)

lemma moves_if [moves_intros]:
  "moves R m \<Longrightarrow> moves R m' \<Longrightarrow> moves R (if b then m else m')"
  by simp

lemma moves_case_option [moves_intros]:
  "moves R m \<Longrightarrow> (\<And>x. moves R (m' x)) \<Longrightarrow> moves R (case v of None \<Rightarrow> m | Some x \<Rightarrow> m' x)"
  by (cases v) auto

lemma moves_case_prod [moves_intros]:
  "(\<And>x y. moves R (m x y)) \<Longrightarrow> moves R (case v of (x, y) \<Rightarrow> m x y)"
  by (cases v) auto

lemma moves_Let [moves_intros]: "moves R (m v) \<Longrightarrow> moves R (Let v m)"
  by simp

lemmas moves_rules = moves_intros keeps.moves_combinators frame.moves_combinators

lemma moves_frameD: "moves (frame f) m \<Longrightarrow> m s = (r, s') \<Longrightarrow> f s' = f s"
  unfolding moves_def frame_def by (metis snd_conv)

lemma moves_keepsD: "moves (keeps I) m \<Longrightarrow> m s = (r, s') \<Longrightarrow> I s \<Longrightarrow> I s'"
  unfolding moves_def keeps_def by (metis snd_conv)

lemma moves_modifyE_frame: "(\<And>s. f (g s) = f s) \<Longrightarrow> moves (frame f) (modifyE g)"
  by (simp add: moves_def frame_def modifyE_def)

lemma moves_modifyE_keeps: "(\<And>s. I s \<Longrightarrow> I (g s)) \<Longrightarrow> moves (keeps I) (modifyE g)"
  by (simp add: moves_def keeps_def modifyE_def)

subsection \<open>Failing without a trace\<close>

text \<open>
  \<^term>\<open>atomic_on f m\<close>: a run of \<^term>\<open>m\<close> that returns an error leaves the part f of the state as it
  was. Steps that never touch that part may come first, steps that never fail last.
\<close>

definition atomic_on :: "('s \<Rightarrow> 'x) \<Rightarrow> ('s, 'a) go \<Rightarrow> bool" where
  "atomic_on f m = (\<forall>s e s'. m s = (Err e, s') \<longrightarrow> f s' = f s)"

definition never_fails :: "('s, 'a) go \<Rightarrow> bool" where
  "never_fails m = (\<forall>s. \<exists>x s'. m s = (Ok x, s'))"

lemma atomic_onD: "atomic_on f m \<Longrightarrow> m s = (Err e, s') \<Longrightarrow> f s' = f s"
  by (simp add: atomic_on_def)

lemma atomic_frame: "moves (frame f) m \<Longrightarrow> atomic_on f m"
  unfolding atomic_on_def by (intro allI impI) (rule moves_frameD)

lemma atomic_first:
  assumes "moves (frame f) m" "\<And>x. atomic_on f (k x)"
  shows "atomic_on f (bindE m k)"
  unfolding atomic_on_def
proof (intro allI impI)
  fix s e s' assume "bindE m k s = (Err e, s')"
  then show "f s' = f s"
  proof (cases rule: bindE_ErrE)
    case first
    then show ?thesis by (rule moves_frameD [OF assms(1)])
  next
    case (second x s1)
    have "f s1 = f s" by (rule moves_frameD [OF assms(1) second(1)])
    moreover have "f s' = f s1" by (rule atomic_onD [OF assms(2) second(2)])
    ultimately show ?thesis by simp
  qed
qed

lemma atomic_last:
  assumes "atomic_on f m" "\<And>x. never_fails (k x)"
  shows "atomic_on f (bindE m k)"
  unfolding atomic_on_def
proof (intro allI impI)
  fix s e s' assume "bindE m k s = (Err e, s')"
  then show "f s' = f s"
  proof (cases rule: bindE_ErrE)
    case first
    then show ?thesis by (rule atomic_onD [OF assms(1)])
  next
    case (second x s1)
    moreover obtain y s2 where "k x s1 = (Ok y, s2)" using assms(2) [of x] unfolding never_fails_def by blast
    ultimately show ?thesis by simp
  qed
qed

lemma atomic_if: "atomic_on f m \<Longrightarrow> atomic_on f m' \<Longrightarrow> atomic_on f (if b then m else m')"
  by simp

lemma atomic_wrapE:
  assumes "atomic_on f m"
  shows "atomic_on f (wrapE msg m)"
  unfolding atomic_on_def
proof (intro allI impI)
  fix s e s' assume "wrapE msg m s = (Err e, s')"
  then obtain e' where "m s = (Err e', s')"
    by (auto simp: wrapE_def tryE_def retE_def failE_def split: prod.splits result.splits)
  then show "f s' = f s" by (rule atomic_onD [OF assms])
qed

lemma never_fails_retE: "never_fails (retE x)"
  by (simp add: never_fails_def retE_def)

lemma never_fails_getE: "never_fails (getE g)"
  by (simp add: never_fails_def getE_def)

lemma never_fails_bindE: "never_fails m \<Longrightarrow> (\<And>x. never_fails (k x)) \<Longrightarrow> never_fails (bindE m k)"
  unfolding never_fails_def
proof
  fix s assume m: "\<forall>s. \<exists>x s'. m s = (Ok x, s')" and k: "\<And>x. \<forall>s. \<exists>y s'. k x s = (Ok y, s')"
  obtain x s1 where "m s = (Ok x, s1)" using m by blast
  moreover obtain y s2 where "k x s1 = (Ok y, s2)" using k by blast
  ultimately show "\<exists>y s'. bindE m k s = (Ok y, s')" by (simp add: bindE_def tryE_def)
qed

lemmas never_fails_rules = never_fails_retE never_fails_getE never_fails_bindE

end
