(* ===== verification/GoLib.thy ===== *)
theory GoLib
  imports Prelude "HOL-Library.Char_ord" "HOL-Library.List_Lexorder" "HOL-Library.Product_Lexorder"
begin

text \<open>
  The part of the Go language and its standard library that the source uses: the 64-bit
  \<^verbatim>\<open>int\<close> with its wrap-around and truncating division, byte strings with the functions of
  the package strings, strconv's decimal conversion, sort.Slice, and dynamic values with the
  JSON round trip an event makes through the message queue.
\<close>

section \<open>Integers\<close>

text \<open>The value an \<^verbatim>\<open>int\<close> expression has after a 64-bit overflow.\<close>

definition wrap64 :: "int \<Rightarrow> int" where
  "wrap64 x = (x + 2 ^ 63) mod 2 ^ 64 - 2 ^ 63"

definition int64 :: "int \<Rightarrow> bool" where
  "int64 x = (- (2 ^ 63) \<le> x \<and> x < 2 ^ 63)"

lemma wrap64_id [simp]: "int64 x \<Longrightarrow> wrap64 x = x"
  by (simp add: wrap64_def int64_def)

lemma int64_wrap64 [simp]: "int64 (wrap64 x)"
  by (simp add: wrap64_def int64_def)

lemma wrap64_cong: "wrap64 x mod 2 ^ 64 = x mod 2 ^ 64"
  unfolding wrap64_def by (simp add: mod_simps)

lemma wrap64_word: "wrap64 x = sint (word_of_int x :: 64 word)"
  by (simp add: wrap64_def sint_word_ariths signed_take_bit_eq_take_bit_shift take_bit_eq_mod
      sint_sbintrunc' algebra_simps)

text \<open>Go's \<^verbatim>\<open>/\<close> on integers truncates towards zero; a zero divisor panics (\<^term>\<open>None\<close>).\<close>

definition go_quot :: "int \<Rightarrow> int \<Rightarrow> int option" where
  "go_quot a b = (if b = 0 then None else Some (sgn a * sgn b * (\<bar>a\<bar> div \<bar>b\<bar>)))"

lemma go_quot_pos: "0 \<le> a \<Longrightarrow> 0 < b \<Longrightarrow> go_quot a b = Some (a div b)"
  by (cases "a = 0") (auto simp: go_quot_def)

text \<open>The float64 nearest to an integer, ties to even: the 53 leading bits are kept.\<close>

fun bit_length :: "nat \<Rightarrow> nat" where
  "bit_length n = (if n = 0 then 0 else Suc (bit_length (n div 2)))"

declare bit_length.simps [simp del]

definition round_bits :: "nat \<Rightarrow> nat \<Rightarrow> nat" where
  "round_bits e n = (let q = n div 2 ^ e; r = n mod 2 ^ e; half = 2 ^ (e - 1) in
     (if half < r \<or> half = r \<and> odd q then q + 1 else q) * 2 ^ e)"

definition float64_of_int :: "int \<Rightarrow> rat" where
  "float64_of_int i = (let n = nat \<bar>i\<bar>; e = bit_length n - 53 in
     of_int (sgn i) * of_nat (if e = 0 then n else round_bits e n))"

lemma bit_length_le: "n < 2 ^ k \<Longrightarrow> bit_length n \<le> k"
proof (induction k arbitrary: n)
  case (Suc k)
  then have "n div 2 < 2 ^ k" by auto
  then show ?case using Suc.IH [of "n div 2"] by (simp add: bit_length.simps [of n])
qed (simp add: bit_length.simps)

lemma float64_of_int_exact: "\<bar>i\<bar> < 2 ^ 53 \<Longrightarrow> float64_of_int i = of_int i"
proof -
  assume "\<bar>i\<bar> < 2 ^ 53"
  then have "nat \<bar>i\<bar> < 2 ^ 53" by (simp add: nat_less_iff)
  then have "bit_length (nat \<bar>i\<bar>) - 53 = 0" using bit_length_le by simp
  moreover have "of_int (sgn i) * of_nat (nat \<bar>i\<bar>) = (of_int i :: rat)"
    by (simp add: sgn_if abs_if of_nat_nat)
  ultimately show ?thesis by (simp add: float64_of_int_def Let_def)
qed

section \<open>Strings\<close>

definition is_upper :: "char \<Rightarrow> bool" where
  "is_upper c = (65 \<le> (of_char c :: nat) \<and> (of_char c :: nat) \<le> 90)"

definition is_lower :: "char \<Rightarrow> bool" where
  "is_lower c = (97 \<le> (of_char c :: nat) \<and> (of_char c :: nat) \<le> 122)"

definition is_digit :: "char \<Rightarrow> bool" where
  "is_digit c = (48 \<le> (of_char c :: nat) \<and> (of_char c :: nat) \<le> 57)"

definition lower_char :: "char \<Rightarrow> char" where
  "lower_char c = (if is_upper c then char_of ((of_char c :: nat) + 32) else c)"

definition upper_char :: "char \<Rightarrow> char" where
  "upper_char c = (if is_lower c then char_of ((of_char c :: nat) - 32) else c)"

text \<open>strings.ToLower and strings.ToUpper on the bytes of an ASCII string.\<close>

definition ToLower :: "string \<Rightarrow> string" where
  "ToLower s = map lower_char s"

definition ToUpper :: "string \<Rightarrow> string" where
  "ToUpper s = map upper_char s"

definition is_space :: "char \<Rightarrow> bool" where
  "is_space c = ((of_char c :: nat) \<in> {9, 10, 11, 12, 13, 32})"

definition trim_by :: "(char \<Rightarrow> bool) \<Rightarrow> string \<Rightarrow> string" where
  "trim_by P s = rev (dropWhile P (rev (dropWhile P s)))"

definition TrimSpace :: "string \<Rightarrow> string" where
  "TrimSpace s = trim_by is_space s"

text \<open>strings.Trim(s, cutset) and strings.TrimRight(s, cutset).\<close>

definition strings_Trim :: "string \<Rightarrow> string \<Rightarrow> string" where
  "strings_Trim s cutset = trim_by (\<lambda>c. c \<in> set cutset) s"

definition TrimRight :: "string \<Rightarrow> string \<Rightarrow> string" where
  "TrimRight s cutset = rev (dropWhile (\<lambda>c. c \<in> set cutset) (rev s))"

text \<open>strings.Split(s, sep) for a separator of one byte; the result is never empty.\<close>

fun strings_Split :: "string \<Rightarrow> char \<Rightarrow> string list" where
  "strings_Split [] sep = [[]]"
| "strings_Split (c # s) sep =
     (if c = sep then [] # strings_Split s sep
      else (case strings_Split s sep of [] \<Rightarrow> [[c]] | p # ps \<Rightarrow> (c # p) # ps))"

fun strings_Join :: "string list \<Rightarrow> string \<Rightarrow> string" where
  "strings_Join [] sep = []"
| "strings_Join [s] sep = s"
| "strings_Join (s # t # ts) sep = s @ sep @ strings_Join (t # ts) sep"

definition HasPrefix :: "string \<Rightarrow> string \<Rightarrow> bool" where
  "HasPrefix s p = (take (length p) s = p)"

fun strings_Contains :: "string \<Rightarrow> string \<Rightarrow> bool" where
  "strings_Contains [] sub = (sub = [])"
| "strings_Contains (c # s) sub = (HasPrefix (c # s) sub \<or> strings_Contains s sub)"

text \<open>strconv.Itoa, and the verb \<^verbatim>\<open>%d\<close>.\<close>

fun nat_digits :: "nat \<Rightarrow> string" where
  "nat_digits n = (if n < 10 then [char_of (48 + n)] else nat_digits (n div 10) @ [char_of (48 + n mod 10)])"

declare nat_digits.simps [simp del]

definition Itoa :: "int \<Rightarrow> string" where
  "Itoa i = (if i < 0 then ''-'' @ nat_digits (nat (- i)) else nat_digits (nat i))"

lemma lower_char_idem [simp]: "lower_char (lower_char c) = lower_char c"
  by (auto simp: lower_char_def is_upper_def)

lemma ToLower_idem [simp]: "ToLower (ToLower s) = ToLower s"
  by (simp add: ToLower_def comp_def)

lemma ToLower_Nil [simp]: "ToLower [] = []"
  by (simp add: ToLower_def)

lemma length_ToLower [simp]: "length (ToLower s) = length s"
  by (simp add: ToLower_def)

lemma length_ToUpper [simp]: "length (ToUpper s) = length s"
  by (simp add: ToUpper_def)

lemma dropWhile_idem [simp]: "dropWhile P (dropWhile P xs) = dropWhile P xs"
  by (induction xs) auto

lemma trim_by_id:
  assumes "s = [] \<or> \<not> P (hd s) \<and> \<not> P (last s)"
  shows "trim_by P s = s"
proof (cases s)
  case (Cons c cs)
  then have "\<not> P c" "\<not> P (last s)" using assms by auto
  moreover have "rev s = last s # rev (butlast s)" 
    using Cons by (metis append_butlast_last_id list.distinct(1) rev.simps(2) rev_rev_ident)
  ultimately show ?thesis using Cons by (simp add: trim_by_def)
qed (simp add: trim_by_def)

lemma trim_by_ends: "trim_by P s = [] \<or> \<not> P (hd (trim_by P s)) \<and> \<not> P (last (trim_by P s))"
proof -
  define t where "t = dropWhile P s"
  define r where "r = dropWhile P (rev t)"
  have t: "t = [] \<or> \<not> P (hd t)" unfolding t_def by (metis hd_dropWhile)
  have r: "r = [] \<or> \<not> P (hd r)" unfolding r_def by (metis hd_dropWhile)
  obtain pre where pre: "rev t = pre @ r" unfolding r_def by (metis takeWhile_dropWhile_id)
  have tr: "t = rev r @ rev pre" using pre by (metis rev_append rev_rev_ident)
  show ?thesis
  proof (cases "r = []")
    case True then show ?thesis by (simp add: trim_by_def t_def [symmetric] r_def [symmetric])
  next
    case False
    then have "\<not> P (hd (rev r))" using t tr by auto
    moreover have "\<not> P (last (rev r))" using r False by (simp add: last_rev)
    ultimately show ?thesis by (simp add: trim_by_def t_def [symmetric] r_def [symmetric])
  qed
qed

lemma trim_by_idem [simp]: "trim_by P (trim_by P s) = trim_by P s"
  using trim_by_ends by (rule trim_by_id)

lemma TrimSpace_idem [simp]: "TrimSpace (TrimSpace s) = TrimSpace s"
  by (simp add: TrimSpace_def)

lemma strings_Split_not_Nil [simp]: "strings_Split s sep \<noteq> []"
  by (induction s) (auto split: list.splits)

lemma strings_Split_no_sep: "sep \<notin> set s \<Longrightarrow> strings_Split s sep = [s]"
  by (induction s) auto

lemma strings_Split_append:
  "sep \<notin> set p \<Longrightarrow> strings_Split (p @ sep # s) sep = p # strings_Split s sep"
  by (induction p) auto

lemma strings_Split_Join:
  assumes "xs \<noteq> []" "\<forall>x\<in>set xs. sep \<notin> set x"
  shows "strings_Split (strings_Join xs [sep]) sep = xs"
  using assms
proof (induction xs "[sep]" rule: strings_Join.induct)
  case (2 s) then show ?case by (simp add: strings_Split_no_sep)
next
  case (3 s t ts) then show ?case by (simp add: strings_Split_append)
qed simp

lemma strings_Join_Split: "strings_Join (strings_Split s sep) [sep] = s"
proof (induction s)
  case (Cons c s)
  then show ?case by (cases "strings_Split s sep"; cases "tl (strings_Split s sep)") auto
qed simp

section \<open>Sorting\<close>

text \<open>
  sort.Slice(xs, less). The package promises a permutation in which no element is less than an
  earlier one, and neither stability nor an algorithm; the model inserts. The lemmas below show
  that for a comparator which compares by a key, with distinct keys, every such permutation is
  the same list, so what the model computes is what any implementation returns.
\<close>

primrec insert_by :: "('a \<Rightarrow> 'a \<Rightarrow> bool) \<Rightarrow> 'a \<Rightarrow> 'a list \<Rightarrow> 'a list" where
  "insert_by lt x [] = [x]"
| "insert_by lt x (y # ys) = (if lt y x then y # insert_by lt x ys else x # y # ys)"

primrec sort_Slice :: "('a \<Rightarrow> 'a \<Rightarrow> bool) \<Rightarrow> 'a list \<Rightarrow> 'a list" where
  "sort_Slice lt [] = []"
| "sort_Slice lt (x # xs) = insert_by lt x (sort_Slice lt xs)"

definition slice_sorted :: "('a \<Rightarrow> 'a \<Rightarrow> bool) \<Rightarrow> 'a list \<Rightarrow> bool" where
  "slice_sorted lt = sorted_wrt (\<lambda>x y. \<not> lt y x)"

lemma mset_insert_by [simp]: "mset (insert_by lt x xs) = add_mset x (mset xs)"
  by (induction xs) auto

lemma set_insert_by [simp]: "set (insert_by lt x xs) = insert x (set xs)"
  by (induction xs) auto

lemma mset_sort_Slice [simp]: "mset (sort_Slice lt xs) = mset xs"
  by (induction xs) auto

lemma set_sort_Slice [simp]: "set (sort_Slice lt xs) = set xs"
  by (metis mset_sort_Slice set_mset_mset)

lemma length_sort_Slice [simp]: "length (sort_Slice lt xs) = length xs"
  by (metis mset_sort_Slice size_mset)

lemma distinct_sort_Slice [simp]: "distinct (map f (sort_Slice lt xs)) = distinct (map f xs)"
  by (rule mset_eq_imp_distinct_iff) simp

lemma map_insert_by: "(\<And>a b. lt (f a) (f b) = lt' a b) \<Longrightarrow> insert_by lt (f x) (map f xs) = map f (insert_by lt' x xs)"
  by (induction xs) auto

lemma map_sort_Slice: "(\<And>a b. lt (f a) (f b) = lt' a b) \<Longrightarrow> sort_Slice lt (map f xs) = map f (sort_Slice lt' xs)"
  by (induction xs) (auto simp: map_insert_by [of lt f lt'])

lemma sort_Slice_snoc_first: "\<forall>x\<in>set xs. lt r x \<Longrightarrow> sort_Slice lt (xs @ [r]) = r # sort_Slice lt xs"
  by (induction xs) auto

locale keyed_less =
  fixes lt :: "'a \<Rightarrow> 'a \<Rightarrow> bool"
    and key :: "'a \<Rightarrow> 'k::linorder"
  assumes less_key: "lt x y \<longleftrightarrow> key x < key y"
begin

lemma slice_sorted_key: "slice_sorted lt xs \<longleftrightarrow> sorted (map key xs)"
  by (simp add: slice_sorted_def less_key sorted_map not_less)

lemma insert_by_sorted: "slice_sorted lt xs \<Longrightarrow> slice_sorted lt (insert_by lt x xs)"
proof (induction xs)
  case (Cons y ys)
  show ?case using Cons by (auto simp: slice_sorted_def less_key not_less)
qed (simp add: slice_sorted_def)

lemma sort_Slice_sorted: "slice_sorted lt (sort_Slice lt xs)"
proof (induction xs)
  case (Cons x xs) then show ?case by (simp add: insert_by_sorted)
qed (simp add: slice_sorted_def)

lemma sort_Slice_unique:
  assumes "mset ys = mset xs" "slice_sorted lt ys" "inj_on key (set xs)"
  shows "ys = sort_Slice lt xs"
proof -
  have "map key ys = map key (sort_Slice lt xs)"
    using assms(1,2) sort_Slice_sorted [of xs] unfolding slice_sorted_key
    by (metis mset_map mset_sort_Slice properties_for_sort sorted_sort_id)
  moreover have "inj_on key (set ys \<union> set (sort_Slice lt xs))"
    using assms(1,3) by (metis set_mset_mset set_sort_Slice sup.idem)
  ultimately show ?thesis by (metis map_inj_on)
qed

lemma sort_Slice_perm:
  assumes "mset ys = mset xs" "inj_on key (set xs)"
  shows "sort_Slice lt ys = sort_Slice lt xs"
  by (rule sort_Slice_unique) (simp_all add: assms sort_Slice_sorted)

lemma sort_Slice_nth_less:
  assumes "i < j" "j < length xs"
  shows "\<not> lt (sort_Slice lt xs ! j) (sort_Slice lt xs ! i)"
  using sort_Slice_sorted [of xs] assms by (auto simp: slice_sorted_def sorted_wrt_iff_nth_less)

end

interpretation string_less: keyed_less "(\<lambda>s t. s < (t :: string))" id
  by unfold_locales simp

section \<open>Dynamic values\<close>

text \<open>
  The values of an \<^verbatim>\<open>interface{}\<close>: a Go \<^verbatim>\<open>int\<close> and a \<^verbatim>\<open>float64\<close> are different dynamic types,
  as are \<^verbatim>\<open>[]interface{}\<close> and \<^verbatim>\<open>[]string\<close>, or \<^verbatim>\<open>map[string]interface{}\<close> and
  \<^verbatim>\<open>map[string]string\<close>. A float64 is the rational it denotes.
\<close>

datatype jval =
    JNull
  | JBool bool
  | JInt int
  | JFloat rat
  | JStr string
  | JArr "jval list"
  | JStrs "string list"
  | JObj "(string \<times> jval) list"
  | JStrMap "(string \<times> string) list"

text \<open>A map with string keys and dynamic values; \<^term>\<open>None\<close> is the nil map, which reads as empty.\<close>

type_synonym jsonb = "(string \<times> jval) list option"

definition jmap :: "jsonb \<Rightarrow> (string \<times> jval) list" where
  "jmap m = (case m of None \<Rightarrow> [] | Some kvs \<Rightarrow> kvs)"

definition jget :: "jsonb \<Rightarrow> string \<Rightarrow> jval option" where
  "jget m k = map_of (jmap m) k"

text \<open>json.Marshal followed by json.Unmarshal into an \<^verbatim>\<open>interface{}\<close>.\<close>

fun json_trip :: "jval \<Rightarrow> jval" where
  "json_trip (JInt i) = JFloat (float64_of_int i)"
| "json_trip (JStrs ss) = JArr (map JStr ss)"
| "json_trip (JArr vs) = JArr (map json_trip vs)"
| "json_trip (JObj kvs) = JObj (map (\<lambda>kv. (fst kv, json_trip (snd kv))) kvs)"
| "json_trip (JStrMap kvs) = JObj (map (\<lambda>kv. (fst kv, JStr (snd kv))) kvs)"
| "json_trip v = v"

definition json_trip_map :: "(string \<times> jval) list \<Rightarrow> (string \<times> jval) list" where
  "json_trip_map kvs = map (\<lambda>kv. (fst kv, json_trip (snd kv))) kvs"

lemma json_trip_idem [simp]: "json_trip (json_trip v) = json_trip v"
  by (induction v rule: json_trip.induct) (auto simp: comp_def)

lemma map_of_json_trip: "map_of (json_trip_map kvs) k = map_option json_trip (map_of kvs k)"
  by (induction kvs) (auto simp: json_trip_map_def)

text \<open>A jsonb column read back: what Value() marshalled and Scan() unmarshals.\<close>

definition jsonb_stored :: "jsonb \<Rightarrow> jsonb" where
  "jsonb_stored = map_option json_trip_map"

definition RFC3339 :: string where
  "RFC3339 = ''2006-01-02T15:04:05Z07:00''"

text \<open>The value \<^verbatim>\<open>int(f)\<close> of a float64: the fraction is dropped.\<close>

definition float_to_int :: "rat \<Rightarrow> int" where
  "float_to_int r = (if r < 0 then - \<lfloor>- r\<rfloor> else \<lfloor>r\<rfloor>)"

lemma float_to_int_of_int [simp]: "float_to_int (of_int i) = i"
  by (simp add: float_to_int_def)

end
