(* ===== verification/Models.thy ===== *)
theory Models
  imports GoLib
begin

text \<open>
  The rows of the database as store/models.go declares them: one record per struct, a field
  \<^verbatim>\<open>Name\<close> of the struct as \<^verbatim>\<open>xx_Name\<close> with a two-letter prefix per struct. A pointer is an
  option, a slice is a list (nil and empty slices are not told apart here; theory Arrays models
  the difference where a slice is stored), a map is an association list, a time is an int
  (nanoseconds), a uuid a 128-bit word with uuid.Nil as 0, a float64 the rational it denotes.
\<close>

type_synonym uuid = "128 word"
type_synonym time = int

abbreviation (input) uuid_Nil :: uuid where
  "uuid_Nil \<equiv> 0"

record Account =
  ac_ID :: uuid
  ac_Name :: string
  ac_Slug :: string
  ac_OwnerUserID :: uuid
  ac_Plan :: string
  ac_Status :: string
  ac_StripeCustomerID :: "string option"
  ac_TrialEndsAt :: "time option"
  ac_Settings :: jsonb
  ac_CreatedAt :: time
  ac_UpdatedAt :: time
  ac_DeletedAt :: "time option"

record CampaignEmailSettings =
  es_ID :: uuid
  es_CampaignID :: uuid
  es_FromName :: "string option"
  es_FromEmail :: "string option"
  es_ReplyTo :: "string option"
  es_VerificationRequired :: bool
  es_SendWelcomeEmail :: bool
  es_CreatedAt :: time
  es_UpdatedAt :: time

record CampaignBrandingSettings =
  bs_ID :: uuid
  bs_CampaignID :: uuid
  bs_LogoURL :: "string option"
  bs_PrimaryColor :: "string option"
  bs_FontFamily :: "string option"
  bs_CustomDomain :: "string option"
  bs_CreatedAt :: time
  bs_UpdatedAt :: time

record CampaignFormSettings =
  fs_ID :: uuid
  fs_CampaignID :: uuid
  fs_CaptchaEnabled :: bool
  fs_CaptchaProvider :: "string option"
  fs_CaptchaSiteKey :: "string option"
  fs_DoubleOptIn :: bool
  fs_Design :: jsonb
  fs_SuccessTitle :: "string option"
  fs_SuccessMessage :: "string option"
  fs_CreatedAt :: time
  fs_UpdatedAt :: time

record CampaignReferralSettings =
  rs_ID :: uuid
  rs_CampaignID :: uuid
  rs_Enabled :: bool
  rs_PointsPerReferral :: int
  rs_VerifiedOnly :: bool
  rs_PositionsToJump :: int
  rs_ReferrerPositionsToJump :: int
  rs_SharingChannels :: "string list"
  rs_CreatedAt :: time
  rs_UpdatedAt :: time

record CampaignFormField =
  ff_ID :: uuid
  ff_CampaignID :: uuid
  ff_Name :: string
  ff_FieldType :: string
  ff_Label :: string
  ff_Placeholder :: "string option"
  ff_Required :: bool
  ff_ValidationPattern :: "string option"
  ff_Options :: "string list"
  ff_DisplayOrder :: int
  ff_CreatedAt :: time
  ff_UpdatedAt :: time

record CampaignShareMessage =
  sm_ID :: uuid
  sm_CampaignID :: uuid
  sm_Channel :: string
  sm_Message :: string
  sm_CreatedAt :: time
  sm_UpdatedAt :: time

record CampaignTrackingIntegration =
  ti_ID :: uuid
  ti_CampaignID :: uuid
  ti_IntegrationType :: string
  ti_Enabled :: bool
  ti_TrackingID :: string
  ti_TrackingLabel :: "string option"
  ti_CreatedAt :: time
  ti_UpdatedAt :: time

record Campaign =
  cp_ID :: uuid
  cp_AccountID :: uuid
  cp_Name :: string
  cp_Slug :: string
  cp_Description :: "string option"
  cp_Status :: string
  cp_Type :: string
  cp_LaunchDate :: "time option"
  cp_EndDate :: "time option"
  cp_PrivacyPolicyURL :: "string option"
  cp_TermsURL :: "string option"
  cp_MaxSignups :: "int option"
  cp_TotalSignups :: int
  cp_TotalVerified :: int
  cp_TotalReferrals :: int
  cp_CreatedAt :: time
  cp_UpdatedAt :: time
  cp_DeletedAt :: "time option"
  cp_EmailSettings :: "CampaignEmailSettings option"
  cp_BrandingSettings :: "CampaignBrandingSettings option"
  cp_FormSettings :: "CampaignFormSettings option"
  cp_ReferralSettings :: "CampaignReferralSettings option"
  cp_FormFields :: "CampaignFormField list"
  cp_ShareMessages :: "CampaignShareMessage list"
  cp_TrackingIntegrations :: "CampaignTrackingIntegration list"

record WaitlistUser =
  wu_ID :: uuid
  wu_CampaignID :: uuid
  wu_Email :: string
  wu_FirstName :: "string option"
  wu_LastName :: "string option"
  wu_Status :: string
  wu_Position :: int
  wu_OriginalPosition :: int
  wu_ReferralCode :: string
  wu_ReferredByID :: "uuid option"
  wu_ReferralCount :: int
  wu_VerifiedReferralCount :: int
  wu_Points :: int
  wu_EmailVerified :: bool
  wu_VerificationToken :: "string option"
  wu_VerificationSentAt :: "time option"
  wu_VerifiedAt :: "time option"
  wu_Source :: "string option"
  wu_UTMSource :: "string option"
  wu_UTMMedium :: "string option"
  wu_UTMCampaign :: "string option"
  wu_UTMTerm :: "string option"
  wu_UTMContent :: "string option"
  wu_IPAddress :: "string option"
  wu_UserAgent :: "string option"
  wu_CountryCode :: "string option"
  wu_City :: "string option"
  wu_DeviceFingerprint :: "string option"
  wu_Country :: "string option"
  wu_Region :: "string option"
  wu_RegionCode :: "string option"
  wu_PostalCode :: "string option"
  wu_UserTimezone :: "string option"
  wu_Latitude :: "rat option"
  wu_Longitude :: "rat option"
  wu_MetroCode :: "string option"
  wu_DeviceType :: "string option"
  wu_DeviceOS :: "string option"
  wu_Metadata :: jsonb
  wu_MarketingConsent :: bool
  wu_MarketingConsentAt :: "time option"
  wu_TermsAccepted :: bool
  wu_TermsAcceptedAt :: "time option"
  wu_LastActivityAt :: "time option"
  wu_ShareCount :: int
  wu_CreatedAt :: time
  wu_UpdatedAt :: time
  wu_DeletedAt :: "time option"

record Referral =
  rf_ID :: uuid
  rf_CampaignID :: uuid
  rf_ReferrerID :: uuid
  rf_ReferredID :: uuid
  rf_Status :: string
  rf_Source :: "string option"
  rf_IPAddress :: "string option"
  rf_VerifiedAt :: "time option"
  rf_ConvertedAt :: "time option"
  rf_CreatedAt :: time
  rf_UpdatedAt :: time

record Reward =
  rw_ID :: uuid
  rw_CampaignID :: uuid
  rw_Name :: string
  rw_Description :: "string option"
  rw_Type :: string
  rw_Config :: jsonb
  rw_TriggerType :: string
  rw_TriggerConfig :: jsonb
  rw_DeliveryMethod :: string
  rw_DeliveryConfig :: jsonb
  rw_TotalAvailable :: "int option"
  rw_TotalClaimed :: int
  rw_UserLimit :: int
  rw_Status :: string
  rw_StartsAt :: "time option"
  rw_ExpiresAt :: "time option"
  rw_CreatedAt :: time
  rw_UpdatedAt :: time
  rw_DeletedAt :: "time option"

record UserReward =
  ur_ID :: uuid
  ur_UserID :: uuid
  ur_RewardID :: uuid
  ur_CampaignID :: uuid
  ur_Status :: string
  ur_RewardData :: jsonb
  ur_EarnedAt :: time
  ur_DeliveredAt :: "time option"
  ur_RedeemedAt :: "time option"
  ur_RevokedAt :: "time option"
  ur_ExpiresAt :: "time option"
  ur_DeliveryAttempts :: int
  ur_LastDeliveryAttemptAt :: "time option"
  ur_DeliveryError :: "string option"
  ur_RevokedReason :: "string option"
  ur_RevokedBy :: "uuid option"
  ur_CreatedAt :: time
  ur_UpdatedAt :: time

record BlastEmailTemplate =
  bt_ID :: uuid
  bt_AccountID :: uuid
  bt_Name :: string
  bt_Subject :: string
  bt_HTMLBody :: string
  bt_BlocksJSON :: "jsonb option"
  bt_CreatedAt :: time
  bt_UpdatedAt :: time
  bt_DeletedAt :: "time option"

record Webhook =
  wh_ID :: uuid
  wh_AccountID :: uuid
  wh_CampaignID :: "uuid option"
  wh_URL :: string
  wh_Secret :: string
  wh_Events :: "string list"
  wh_Status :: string
  wh_RetryEnabled :: bool
  wh_MaxRetries :: int
  wh_TotalSent :: int
  wh_TotalFailed :: int
  wh_LastSuccessAt :: "time option"
  wh_LastFailureAt :: "time option"
  wh_CreatedAt :: time
  wh_UpdatedAt :: time
  wh_DeletedAt :: "time option"

record WebhookDelivery =
  wd_ID :: uuid
  wd_WebhookID :: uuid
  wd_EventType :: string
  wd_Payload :: jsonb
  wd_Status :: string
  wd_RequestHeaders :: jsonb
  wd_ResponseStatus :: "int option"
  wd_ResponseBody :: "string option"
  wd_ResponseHeaders :: jsonb
  wd_DurationMs :: "int option"
  wd_AttemptNumber :: int
  wd_NextRetryAt :: "time option"
  wd_ErrorMessage :: "string option"
  wd_CreatedAt :: time
  wd_DeliveredAt :: "time option"

record UserChannelCode =
  cc_ID :: uuid
  cc_UserID :: uuid
  cc_Channel :: string
  cc_Code :: string
  cc_CreatedAt :: time

record FraudDetection =
  fd_ID :: uuid
  fd_CampaignID :: uuid
  fd_UserID :: "uuid option"
  fd_DetectionType :: string
  fd_ConfidenceScore :: rat
  fd_Details :: jsonb
  fd_Status :: string
  fd_ReviewedBy :: "uuid option"
  fd_ReviewedAt :: "time option"
  fd_ReviewNotes :: "string option"
  fd_CreatedAt :: time

record SegmentFilterCriteria =
  sf_Statuses :: "string list"
  sf_Sources :: "string list"
  sf_EmailVerified :: "bool option"
  sf_HasReferrals :: "bool option"
  sf_MinReferrals :: "int option"
  sf_MinPosition :: "int option"
  sf_MaxPosition :: "int option"
  sf_DateFrom :: "time option"
  sf_DateTo :: "time option"
  sf_CustomFields :: "(string \<times> string) list"

record Segment =
  sg_ID :: uuid
  sg_CampaignID :: uuid
  sg_Name :: string
  sg_Description :: "string option"
  sg_FilterCriteria :: jsonb
  sg_CachedUserCount :: int
  sg_CachedAt :: "time option"
  sg_Status :: string
  sg_CreatedAt :: time
  sg_UpdatedAt :: time
  sg_DeletedAt :: "time option"

record EmailBlast =
  eb_ID :: uuid
  eb_AccountID :: uuid
  eb_BlastTemplateID :: uuid
  eb_SegmentIDs :: "uuid list"
  eb_Name :: string
  eb_Subject :: string
  eb_ScheduledAt :: "time option"
  eb_StartedAt :: "time option"
  eb_CompletedAt :: "time option"
  eb_Status :: string
  eb_TotalRecipients :: int
  eb_SentCount :: int
  eb_DeliveredCount :: int
  eb_OpenedCount :: int
  eb_ClickedCount :: int
  eb_BouncedCount :: int
  eb_FailedCount :: int
  eb_BatchSize :: int
  eb_CurrentBatch :: int
  eb_LastBatchAt :: "time option"
  eb_ErrorMessage :: "string option"
  eb_SendThrottlePerSecond :: "int option"
  eb_CreatedBy :: "uuid option"
  eb_CreatedAt :: time
  eb_UpdatedAt :: time
  eb_DeletedAt :: "time option"

record BlastRecipient =
  br_ID :: uuid
  br_BlastID :: uuid
  br_UserID :: uuid
  br_Email :: string
  br_Status :: string
  br_EmailLogID :: "uuid option"
  br_QueuedAt :: "time option"
  br_SentAt :: "time option"
  br_DeliveredAt :: "time option"
  br_OpenedAt :: "time option"
  br_ClickedAt :: "time option"
  br_BouncedAt :: "time option"
  br_FailedAt :: "time option"
  br_ErrorMessage :: "string option"
  br_BatchNumber :: "int option"
  br_CreatedAt :: time
  br_UpdatedAt :: time

record CampaignEmailTemplate =
  ct_ID :: uuid
  ct_CampaignID :: uuid
  ct_Name :: string
  ct_Type :: string
  ct_Subject :: string
  ct_HTMLBody :: string
  ct_BlocksJSON :: "jsonb option"
  ct_Enabled :: bool
  ct_SendAutomatically :: bool
  ct_VariantName :: "string option"
  ct_VariantWeight :: "int option"
  ct_CreatedAt :: time
  ct_UpdatedAt :: time
  ct_DeletedAt :: "time option"

record EmailLog =
  lg_ID :: uuid
  lg_CampaignID :: uuid
  lg_UserID :: "uuid option"
  lg_BlastID :: "uuid option"
  lg_CampaignTemplateID :: "uuid option"
  lg_BlastTemplateID :: "uuid option"
  lg_RecipientEmail :: string
  lg_Subject :: string
  lg_Type :: string
  lg_Status :: string
  lg_ProviderMessageID :: "string option"
  lg_SentAt :: "time option"
  lg_DeliveredAt :: "time option"
  lg_OpenedAt :: "time option"
  lg_ClickedAt :: "time option"
  lg_BouncedAt :: "time option"
  lg_FailedAt :: "time option"
  lg_ErrorMessage :: "string option"
  lg_BounceReason :: "string option"
  lg_OpenCount :: int
  lg_ClickCount :: int
  lg_CreatedAt :: time
  lg_UpdatedAt :: time

record APIKey =
  ak_ID :: uuid
  ak_AccountID :: uuid
  ak_Name :: string
  ak_KeyHash :: string
  ak_KeyPrefix :: string
  ak_Scopes :: "string list"
  ak_RateLimitTier :: string
  ak_Status :: string
  ak_LastUsedAt :: "time option"
  ak_TotalRequests :: int
  ak_ExpiresAt :: "time option"
  ak_CreatedBy :: "uuid option"
  ak_CreatedAt :: time
  ak_RevokedAt :: "time option"
  ak_RevokedBy :: "uuid option"

record CampaignAnalytics =
  ca_Time :: time
  ca_CampaignID :: uuid
  ca_NewSignups :: int
  ca_NewVerified :: int
  ca_NewReferrals :: int
  ca_NewConversions :: int
  ca_EmailsSent :: int
  ca_EmailsOpened :: int
  ca_EmailsClicked :: int
  ca_RewardsEarned :: int
  ca_RewardsDelivered :: int
  ca_TotalSignups :: int
  ca_TotalVerified :: int
  ca_TotalReferrals :: int

record AuditLog =
  al_ID :: uuid
  al_AccountID :: "uuid option"
  al_ActorUserID :: "uuid option"
  al_ActorType :: string
  al_ActorIdentifier :: "string option"
  al_Action :: string
  al_ResourceType :: string
  al_ResourceID :: "uuid option"
  al_Changes :: jsonb
  al_IPAddress :: "string option"
  al_UserAgent :: "string option"
  al_CreatedAt :: time

record IntegrationSubscription =
  is_ID :: uuid
  is_AccountID :: uuid
  is_APIKeyID :: "uuid option"
  is_IntegrationType :: string
  is_TargetURL :: string
  is_EventType :: string
  is_CampaignID :: "uuid option"
  is_Config :: jsonb
  is_Status :: string
  is_LastTriggeredAt :: "time option"
  is_TriggerCount :: int
  is_ErrorCount :: int
  is_LastError :: "string option"
  is_CreatedAt :: time
  is_UpdatedAt :: time
  is_DeletedAt :: "time option"

record IntegrationDelivery =
  id_ID :: uuid
  id_SubscriptionID :: uuid
  id_EventType :: string
  id_Status :: string
  id_ResponseStatus :: "int option"
  id_DurationMs :: "int option"
  id_ErrorMessage :: "string option"
  id_CreatedAt :: time

record Subscription =
  su_ID :: uuid
  su_UserID :: uuid
  su_PriceID :: uuid
  su_StripeID :: string
  su_Status :: string
  su_StartDate :: time
  su_EndDate :: time
  su_NextBillingDate :: time

record Feature =
  ft_ID :: uuid
  ft_Name :: string
  ft_Description :: "string option"
  ft_CreatedAt :: time
  ft_UpdatedAt :: time
  ft_DeletedAt :: "time option"

record Limit =
  lm_ID :: uuid
  lm_FeatureID :: uuid
  lm_LimitName :: string
  lm_LimitValue :: int
  lm_CreatedAt :: time
  lm_UpdatedAt :: time
  lm_DeletedAt :: "time option"

record PlanFeatureLimit =
  pl_PlanID :: uuid
  pl_FeatureID :: uuid
  pl_LimitID :: "uuid option"
  pl_Enabled :: bool
  pl_CreatedAt :: time
  pl_UpdatedAt :: time
  pl_DeletedAt :: "time option"

record Price =
  pr_ID :: uuid
  pr_ProductID :: uuid
  pr_StripeID :: string
  pr_Description :: string
  pr_UnitAmount :: "int option"
  pr_Currency :: "string option"
  pr_Interval :: "string option"
  pr_CreatedAt :: string
  pr_UpdatedAt :: string

record TemplateData =
  td_FirstName :: string
  td_Email :: string
  td_ResetLink :: string
  td_SubscriptionID :: string
  td_PlanName :: string
  td_VerificationLink :: string
  td_Position :: int
  td_ReferralLink :: string
  td_ReferralCount :: int
  td_CampaignName :: string

record EventMessage =
  em_ID :: string
  em_Type :: string
  em_AccountID :: string
  em_CampaignID :: "string option"
  em_Data :: jsonb
  em_Timestamp :: string

end
