(* ===== verification/World.thy ===== *)
theory World
  imports Models
begin

text \<open>
  The state the handlers run on: the tables of the database, the messages published to the
  event topic, the mails handed to the mail provider and the HTTP requests sent, beside the
  environment. A SQL statement is one atomic step of \<^term>\<open>db\<close>, which the environment may let fail
  with a driver error (\<^verbatim>\<open>w_fault\<close>, indexed by the number of statements run so far). What the code
  calls and does not define is a field of the environment: the uuid package, the mail and captcha
  providers, HTTP, the hash functions, package text/template (whose Parse gives an error text or
  none), JSON text, time layouts, the DATE_TRUNC of the database session's time zone, the rounding of a float64 operation and ILIKE matching. The
  clock stands still during one handler: \<^verbatim>\<open>w_now\<close> is both time.Now() and CURRENT_TIMESTAMP.
  PostgreSQL's row order without ORDER BY is the insertion order and sorts are stable, one of
  the orders the database may choose. RowsAffected of the pgx driver never returns an error.
\<close>

record price_row = Price +
  pr_DeletedAt :: "time option"

record subscription_row = Subscription +
  su_CreatedAt :: time

record mail =
  ml_To :: string
  ml_Subject :: string
  ml_Body :: string

datatype http_reply =
    RequestError string
  | SendError string
  | Reply int "string option"

record http_request =
  hr_Method :: string
  hr_URL :: string
  hr_Header :: "(string \<times> string) list"
  hr_Body :: string

record world =
  t_accounts :: "Account list"
  t_subscriptions :: "subscription_row list"
  t_prices :: "price_row list"
  t_features :: "Feature list"
  t_limits :: "Limit list"
  t_plan_feature_limits :: "PlanFeatureLimit list"
  t_campaigns :: "Campaign list"
  t_email_settings :: "CampaignEmailSettings list"
  t_branding_settings :: "CampaignBrandingSettings list"
  t_form_settings :: "CampaignFormSettings list"
  t_referral_settings :: "CampaignReferralSettings list"
  t_form_fields :: "CampaignFormField list"
  t_share_messages :: "CampaignShareMessage list"
  t_tracking_integrations :: "CampaignTrackingIntegration list"
  t_waitlist_users :: "WaitlistUser list"
  t_user_channel_codes :: "UserChannelCode list"
  t_referrals :: "Referral list"
  t_rewards :: "Reward list"
  t_user_rewards :: "UserReward list"
  t_segments :: "Segment list"
  t_blast_templates :: "BlastEmailTemplate list"
  t_email_blasts :: "EmailBlast list"
  t_blast_recipients :: "BlastRecipient list"
  t_webhooks :: "Webhook list"
  t_webhook_deliveries :: "WebhookDelivery list"
  t_fraud_detections :: "FraudDetection list"
  t_campaign_templates :: "CampaignEmailTemplate list"
  t_api_keys :: "APIKey list"
  t_integration_subscriptions :: "IntegrationSubscription list"
  t_integration_deliveries :: "IntegrationDelivery list"
  t_campaign_analytics :: "CampaignAnalytics list"
  t_audit_logs :: "AuditLog list"
  t_email_logs :: "EmailLog list"
  w_queue :: "EventMessage list"
  w_outbox :: "mail list"
  w_http_log :: "http_request list"
  w_calls :: nat
  w_fresh :: nat
  w_rand_n :: nat
  w_now :: time
  w_fault :: "nat \<Rightarrow> string option"
  w_uuids :: "nat \<Rightarrow> uuid"
  w_rand :: "nat \<Rightarrow> nat \<Rightarrow> (nat list) option"
  w_uuid_String :: "uuid \<Rightarrow> string"
  w_uuid_Parse :: "string \<Rightarrow> uuid option"
  w_time_Parse :: "string \<Rightarrow> string \<Rightarrow> time option"
  w_time_Format :: "time \<Rightarrow> string"
  w_date_trunc :: "string \<Rightarrow> time \<Rightarrow> time"
  w_ilike :: "string \<Rightarrow> string \<Rightarrow> bool"
  w_json_text :: "jval \<Rightarrow> string"
  w_json_Marshal :: "jval \<Rightarrow> string"
  w_hmac_sha256 :: "string \<Rightarrow> string \<Rightarrow> nat list"
  w_sha256 :: "string \<Rightarrow> nat list"
  w_publish_fault :: "nat \<Rightarrow> string option"
  w_mail_fault :: "nat \<Rightarrow> string option"
  w_template_Parse :: "string \<Rightarrow> string option"
  w_template_Execute :: "string \<Rightarrow> TemplateData \<Rightarrow> string result"
  w_template_Render :: "string \<Rightarrow> (string \<times> jval) list \<Rightarrow> string result"
  w_round :: "rat \<Rightarrow> rat"
  w_captcha_enabled :: bool
  w_captcha_verify :: "string \<Rightarrow> string \<Rightarrow> bool"
  w_http :: "nat \<Rightarrow> http_reply \<times> int"

section \<open>Statements\<close>

definition db :: "(world, 'a) go \<Rightarrow> (world, 'a) go" where
  "db f w = (let w' = w\<lparr>w_calls := Suc (w_calls w)\<rparr> in
     case w_fault w (w_calls w) of
       Some msg \<Rightarrow> (Err (DbErr msg), w')
     | None \<Rightarrow> f w')"

text \<open>A query whose value is read from the tables.\<close>

definition sql_query :: "(world \<Rightarrow> 'a) \<Rightarrow> (world, 'a) go" where
  "sql_query q = db (\<lambda>w. (Ok (q w), w))"

text \<open>A query of one row: the first that matches, or sql.ErrNoRows.\<close>

definition sql_get :: "(world \<Rightarrow> 'r list) \<Rightarrow> (world, 'r) go" where
  "sql_get q = db (\<lambda>w. (case q w of [] \<Rightarrow> (Err ErrNoRows, w) | r # rs \<Rightarrow> (Ok r, w)))"

text \<open>LIMIT and OFFSET; PostgreSQL rejects negative values.\<close>

definition sql_page :: "(world \<Rightarrow> 'r list) \<Rightarrow> int \<Rightarrow> int \<Rightarrow> (world, 'r list) go" where
  "sql_page q lmt off = db (\<lambda>w.
     if lmt < 0 then (Err (DbErr ''LIMIT must not be negative''), w)
     else if off < 0 then (Err (DbErr ''OFFSET must not be negative''), w)
     else (Ok (take (nat lmt) (drop (nat off) (q w))), w))"

definition upd_where :: "('r \<Rightarrow> bool) \<Rightarrow> ('r \<Rightarrow> 'r) \<Rightarrow> 'r list \<Rightarrow> 'r list" where
  "upd_where P f rows = map (\<lambda>r. if P r then f r else r) rows"

text \<open>
  An UPDATE: the rows that match, their new contents (which may read the clock), a check of the
  table's constraints on the new contents, and the number of rows affected.
\<close>

type_synonym 'r table = "(world \<Rightarrow> 'r list) \<times> (('r list \<Rightarrow> 'r list) \<Rightarrow> world \<Rightarrow> world)"

definition sql_update ::
    "'r table \<Rightarrow> ('r list \<Rightarrow> string option) \<Rightarrow> ('r \<Rightarrow> bool) \<Rightarrow> (world \<Rightarrow> 'r \<Rightarrow> 'r) \<Rightarrow> (world, int) go" where
  "sql_update tbl chk P f = db (\<lambda>w.
     let rows = upd_where P (f w) (fst tbl w) in
     case chk rows of
       Some msg \<Rightarrow> (Err (DbErr msg), w)
     | None \<Rightarrow> (Ok (int (length (filter P (fst tbl w)))), snd tbl (\<lambda>_. rows) w))"

text \<open>UPDATE ... RETURNING, read as one row.\<close>

definition sql_update_returning ::
    "'r table \<Rightarrow> ('r list \<Rightarrow> string option) \<Rightarrow> ('r \<Rightarrow> bool) \<Rightarrow> (world \<Rightarrow> 'r \<Rightarrow> 'r) \<Rightarrow> (world, 'r) go" where
  "sql_update_returning tbl chk P f = db (\<lambda>w.
     let rows = upd_where P (f w) (fst tbl w) in
     case filter P (fst tbl w) of
       [] \<Rightarrow> (Err ErrNoRows, w)
     | r # rs \<Rightarrow> (case chk rows of
           Some msg \<Rightarrow> (Err (DbErr msg), w)
         | None \<Rightarrow> (Ok (f w r), snd tbl (\<lambda>_. rows) w)))"

text \<open>INSERT ... RETURNING: the new row is made from the default id and the clock.\<close>

definition sql_insert ::
    "'r table \<Rightarrow> (world \<Rightarrow> 'r list \<Rightarrow> 'r \<Rightarrow> string option) \<Rightarrow> (uuid \<Rightarrow> time \<Rightarrow> 'r) \<Rightarrow> (world, 'r) go" where
  "sql_insert tbl chk mk = db (\<lambda>w.
     let r = mk (w_uuids w (w_fresh w)) (w_now w); w' = w\<lparr>w_fresh := Suc (w_fresh w)\<rparr> in
     case chk w (fst tbl w) r of
       Some msg \<Rightarrow> (Err (DbErr msg), w')
     | None \<Rightarrow> (Ok r, snd tbl (\<lambda>rows. rows @ [r]) w'))"

definition sql_delete :: "'r table \<Rightarrow> ('r \<Rightarrow> bool) \<Rightarrow> (world, int) go" where
  "sql_delete tbl P = db (\<lambda>w.
     (Ok (int (length (filter P (fst tbl w)))), snd tbl (filter (\<lambda>r. \<not> P r)) w))"

definition no_check :: "'r list \<Rightarrow> string option" where
  "no_check rows = None"

text \<open>\<^verbatim>\<open>if errors.Is(err, sql.ErrNoRows) { return ErrNotFound }; return fmt.Errorf("msg: %w", err)\<close>.\<close>

definition row_or :: "string \<Rightarrow> ('s, 'a) go \<Rightarrow> ('s, 'a) go" where
  "row_or msg m = tryE m
     (\<lambda>e. if errors_Is e ErrNoRows then failE ErrNotFound else failE (Wrap msg e)) retE"

text \<open>An ExecContext whose RowsAffected of 0 is ErrNotFound.\<close>

definition affected_or :: "string \<Rightarrow> ('s, int) go \<Rightarrow> ('s, unit) go" where
  "affected_or msg m = bindE (wrapE msg m) (\<lambda>n. if n = 0 then failE ErrNotFound else retE ())"

definition exec_or :: "string \<Rightarrow> ('s, int) go \<Rightarrow> ('s, unit) go" where
  "exec_or msg m = bindE (wrapE msg m) (\<lambda>n. retE ())"

text \<open>uuid.New() of the uuid package, and rand.Read of n bytes.\<close>

definition uuid_New :: "(world, uuid) go" where
  "uuid_New w = (Ok (w_uuids w (w_fresh w)), w\<lparr>w_fresh := Suc (w_fresh w)\<rparr>)"

definition rand_Read :: "nat \<Rightarrow> (world, nat list) go" where
  "rand_Read n w = (let w' = w\<lparr>w_rand_n := Suc (w_rand_n w)\<rparr> in
     case w_rand w (w_rand_n w) n of None \<Rightarrow> (Err (ExtErr ''rand''), w') | Some bs \<Rightarrow> (Ok bs, w'))"

section \<open>Laws of the statements\<close>

lemma upd_where_Nil [simp]: "upd_where P f [] = []"
  by (simp add: upd_where_def)

lemma length_upd_where [simp]: "length (upd_where P f rows) = length rows"
  by (simp add: upd_where_def)

lemma map_upd_where: "(\<And>r. k (f r) = k r) \<Longrightarrow> map k (upd_where P f rows) = map k rows"
  by (simp add: upd_where_def)

lemma set_upd_where: "r \<in> set (upd_where P f rows) \<longleftrightarrow> (\<exists>s\<in>set rows. r = (if P s then f s else s))"
  by (auto simp: upd_where_def)

lemma upd_where_none: "\<forall>r\<in>set rows. \<not> P r \<Longrightarrow> upd_where P f rows = rows"
  by (auto simp: upd_where_def intro: map_idI)

lemma filter_upd_where_other:
  "(\<And>r. P r \<Longrightarrow> \<not> Q r \<and> \<not> Q (f r)) \<Longrightarrow> filter Q (upd_where P f rows) = filter Q rows"
  by (induction rows) (auto simp: upd_where_def)

text \<open>A step that changes no table and nothing outside: only the statement counter moves.\<close>

definition tick :: "world \<Rightarrow> world \<Rightarrow> bool" where
  "tick w w' = (\<exists>n. w' = w\<lparr>w_calls := n\<rparr>)"

lemma tick_frame: "tick w w' \<Longrightarrow> (\<And>w n. f (w\<lparr>w_calls := n\<rparr>) = f w) \<Longrightarrow> f w' = f w"
  by (auto simp: tick_def)

interpretation tick: step_preorder tick
proof
  show "tick w w" for w unfolding tick_def by (rule exI [of _ "w_calls w"]) simp
  show "tick u v \<Longrightarrow> tick v w \<Longrightarrow> tick u w" for u v w unfolding tick_def by auto
qed

named_theorems reads "operations that only read"

lemma sql_query_reads [reads]: "moves tick (sql_query q)"
  by (auto simp: moves_def sql_query_def db_def tick_def Let_def split: option.splits)

lemma sql_get_reads [reads]: "moves tick (sql_get q)"
  by (auto simp: moves_def sql_get_def db_def tick_def Let_def split: option.splits list.splits)

lemma sql_page_reads [reads]: "moves tick (sql_page q lmt off)"
  by (auto simp: moves_def sql_page_def db_def tick_def Let_def split: option.splits)

lemma row_or_reads [reads]: "moves tick m \<Longrightarrow> moves tick (row_or msg m)"
  unfolding row_or_def by (intro tick.moves_combinators moves_if) auto

lemmas tick_rules = tick.moves_combinators moves_intros

lemma readsD: "moves tick m \<Longrightarrow> m w = (r, w') \<Longrightarrow> \<exists>n. w' = w\<lparr>w_calls := n\<rparr>"
  unfolding moves_def tick_def by (metis snd_conv)

text \<open>Successful statements.\<close>

definition ticked :: "world \<Rightarrow> world" where
  "ticked w = w\<lparr>w_calls := Suc (w_calls w)\<rparr>"

lemma sql_query_Ok [ok_simps]:
  "sql_query q w = (Ok x, w') \<longleftrightarrow> w_fault w (w_calls w) = None \<and> x = q (ticked w) \<and> w' = ticked w"
  by (auto simp: sql_query_def db_def ticked_def Let_def split: option.splits)

lemma sql_get_Ok [ok_simps]:
  "sql_get q w = (Ok x, w') \<longleftrightarrow>
     w_fault w (w_calls w) = None \<and> (\<exists>xs. q (ticked w) = x # xs) \<and> w' = ticked w"
  by (auto simp: sql_get_def db_def ticked_def Let_def split: option.splits list.splits)

lemma sql_page_Ok [ok_simps]:
  "sql_page q lmt off w = (Ok x, w') \<longleftrightarrow>
     w_fault w (w_calls w) = None \<and> 0 \<le> lmt \<and> 0 \<le> off \<and>
     x = take (nat lmt) (drop (nat off) (q (ticked w))) \<and> w' = ticked w"
  by (auto simp: sql_page_def db_def ticked_def Let_def split: option.splits)

lemma sql_update_Ok [ok_simps]:
  "sql_update tbl chk P f w = (Ok n, w') \<longleftrightarrow>
     w_fault w (w_calls w) = None \<and>
     chk (upd_where P (f (ticked w)) (fst tbl (ticked w))) = None \<and>
     n = int (length (filter P (fst tbl (ticked w)))) \<and>
     w' = snd tbl (\<lambda>_. upd_where P (f (ticked w)) (fst tbl (ticked w))) (ticked w)"
  by (auto simp: sql_update_def db_def ticked_def Let_def split: option.splits)

lemma sql_update_returning_Ok [ok_simps]:
  "sql_update_returning tbl chk P f w = (Ok x, w') \<longleftrightarrow>
     w_fault w (w_calls w) = None \<and>
     chk (upd_where P (f (ticked w)) (fst tbl (ticked w))) = None \<and>
     (\<exists>r rs. filter P (fst tbl (ticked w)) = r # rs \<and> x = f (ticked w) r) \<and>
     w' = snd tbl (\<lambda>_. upd_where P (f (ticked w)) (fst tbl (ticked w))) (ticked w)"
  by (auto simp: sql_update_returning_def db_def ticked_def Let_def split: option.splits list.splits)

lemma sql_insert_Ok [ok_simps]:
  "sql_insert tbl chk mk w = (Ok x, w') \<longleftrightarrow>
     w_fault w (w_calls w) = None \<and>
     x = mk (w_uuids w (w_fresh w)) (w_now w) \<and>
     chk (ticked w) (fst tbl (ticked w)) x = None \<and>
     w' = snd tbl (\<lambda>rows. rows @ [x]) ((ticked w)\<lparr>w_fresh := Suc (w_fresh w)\<rparr>)"
  by (auto simp: sql_insert_def db_def ticked_def Let_def split: option.splits)

lemma row_or_Ok [ok_simps]: "row_or msg m w = (Ok x, w') \<longleftrightarrow> m w = (Ok x, w')"
  by (auto simp: row_or_def ok_simps split: if_splits)

lemma affected_or_Ok [ok_simps]:
  "affected_or msg m w = (Ok x, w') \<longleftrightarrow> (\<exists>n. m w = (Ok n, w') \<and> n \<noteq> 0)"
  by (auto simp: affected_or_def ok_simps split: if_splits)

lemma exec_or_Ok [ok_simps]: "exec_or msg m w = (Ok x, w') \<longleftrightarrow> (\<exists>n. m w = (Ok n, w'))"
  by (auto simp: exec_or_def ok_simps)

text \<open>Frames: a statement changes at most its own table and the counters.\<close>

lemma db_frame:
  assumes "\<And>w n. f (w\<lparr>w_calls := n\<rparr>) = f w" "\<And>w. f (snd (m w)) = f w"
  shows "moves (frame f) (db m)"
  unfolding moves_def frame_def db_def by (auto simp: Let_def assms split: option.splits)

lemma sql_update_frame:
  assumes "\<And>w n. f (w\<lparr>w_calls := n\<rparr>) = f w" "\<And>g w. f (snd tbl g w) = f w"
  shows "moves (frame f) (sql_update tbl chk P g)"
  unfolding sql_update_def
  by (rule db_frame [OF assms(1)]) (auto simp: Let_def assms split: option.splits)

lemma sql_update_returning_frame:
  assumes "\<And>w n. f (w\<lparr>w_calls := n\<rparr>) = f w" "\<And>g w. f (snd tbl g w) = f w"
  shows "moves (frame f) (sql_update_returning tbl chk P g)"
  unfolding sql_update_returning_def
  by (rule db_frame [OF assms(1)]) (auto simp: Let_def assms split: option.splits list.splits)

lemma sql_insert_frame:
  assumes "\<And>w n. f (w\<lparr>w_calls := n\<rparr>) = f w" "\<And>w n. f (w\<lparr>w_fresh := n\<rparr>) = f w"
    "\<And>g w. f (snd tbl g w) = f w"
  shows "moves (frame f) (sql_insert tbl chk mk)"
  unfolding sql_insert_def
  by (rule db_frame [OF assms(1)]) (auto simp: Let_def assms split: option.splits)

lemma sql_delete_frame:
  assumes "\<And>w n. f (w\<lparr>w_calls := n\<rparr>) = f w" "\<And>g w. f (snd tbl g w) = f w"
  shows "moves (frame f) (sql_delete tbl P)"
  unfolding sql_delete_def by (rule db_frame [OF assms(1)]) (auto simp: assms)

lemma tick_moves_frame:
  assumes "moves tick m" "\<And>w n. f (w\<lparr>w_calls := n\<rparr>) = f w"
  shows "moves (frame f) m"
  using assms unfolding moves_def tick_def frame_def by (metis (no_types))

lemma row_or_frame: "moves (frame f) m \<Longrightarrow> moves (frame f) (row_or msg m)"
  unfolding row_or_def by (intro frame.moves_combinators moves_if) auto

lemma affected_or_frame: "moves (frame f) m \<Longrightarrow> moves (frame f) (affected_or msg m)"
  unfolding affected_or_def by (intro frame.moves_combinators moves_if) auto

lemma exec_or_frame: "moves (frame f) m \<Longrightarrow> moves (frame f) (exec_or msg m)"
  unfolding exec_or_def by (intro frame.moves_combinators) auto

lemmas frame_rules =
  frame.moves_combinators moves_intros sql_update_frame sql_update_returning_frame
  sql_insert_frame sql_delete_frame row_or_frame affected_or_frame exec_or_frame

text \<open>
  Partial correctness of an update as a relation: what holds of a statement counter step and of
  the update of the table holds of the statement.
\<close>

lemma db_moves:
  assumes "\<And>w n. R w (w\<lparr>w_calls := n\<rparr>)" "\<And>w. R w (snd (m w))" "\<And>u v w. R u v \<Longrightarrow> R v w \<Longrightarrow> R u w"
  shows "moves R (db m)"
  unfolding moves_def db_def by (auto simp: Let_def split: option.splits intro: assms)

section \<open>Tables\<close>

abbreviation "accounts_tbl \<equiv> (t_accounts, t_accounts_update)"
abbreviation "subscriptions_tbl \<equiv> (t_subscriptions, t_subscriptions_update)"
abbreviation "campaigns_tbl \<equiv> (t_campaigns, t_campaigns_update)"
abbreviation "waitlist_users_tbl \<equiv> (t_waitlist_users, t_waitlist_users_update)"
abbreviation "user_channel_codes_tbl \<equiv> (t_user_channel_codes, t_user_channel_codes_update)"
abbreviation "referrals_tbl \<equiv> (t_referrals, t_referrals_update)"
abbreviation "rewards_tbl \<equiv> (t_rewards, t_rewards_update)"
abbreviation "user_rewards_tbl \<equiv> (t_user_rewards, t_user_rewards_update)"
abbreviation "segments_tbl \<equiv> (t_segments, t_segments_update)"
abbreviation "blast_templates_tbl \<equiv> (t_blast_templates, t_blast_templates_update)"
abbreviation "email_blasts_tbl \<equiv> (t_email_blasts, t_email_blasts_update)"
abbreviation "blast_recipients_tbl \<equiv> (t_blast_recipients, t_blast_recipients_update)"
abbreviation "webhooks_tbl \<equiv> (t_webhooks, t_webhooks_update)"
abbreviation "webhook_deliveries_tbl \<equiv> (t_webhook_deliveries, t_webhook_deliveries_update)"
abbreviation "fraud_detections_tbl \<equiv> (t_fraud_detections, t_fraud_detections_update)"
abbreviation "campaign_templates_tbl \<equiv> (t_campaign_templates, t_campaign_templates_update)"
abbreviation "api_keys_tbl \<equiv> (t_api_keys, t_api_keys_update)"
abbreviation "integration_subscriptions_tbl \<equiv> (t_integration_subscriptions, t_integration_subscriptions_update)"
abbreviation "integration_deliveries_tbl \<equiv> (t_integration_deliveries, t_integration_deliveries_update)"
abbreviation "email_settings_tbl \<equiv> (t_email_settings, t_email_settings_update)"
abbreviation "branding_settings_tbl \<equiv> (t_branding_settings, t_branding_settings_update)"
abbreviation "form_settings_tbl \<equiv> (t_form_settings, t_form_settings_update)"
abbreviation "referral_settings_tbl \<equiv> (t_referral_settings, t_referral_settings_update)"
abbreviation "form_fields_tbl \<equiv> (t_form_fields, t_form_fields_update)"
abbreviation "share_messages_tbl \<equiv> (t_share_messages, t_share_messages_update)"
abbreviation "tracking_integrations_tbl \<equiv> (t_tracking_integrations, t_tracking_integrations_update)"

lemma ticked_simps [simp]:
  "w_calls (ticked w) = Suc (w_calls w)" "w_fault (ticked w) = w_fault w"
  "w_now (ticked w) = w_now w" "w_fresh (ticked w) = w_fresh w" "w_uuids (ticked w) = w_uuids w"
  "w_queue (ticked w) = w_queue w" "w_outbox (ticked w) = w_outbox w"
  "t_accounts (ticked w) = t_accounts w" "t_subscriptions (ticked w) = t_subscriptions w"
  "t_prices (ticked w) = t_prices w" "t_features (ticked w) = t_features w"
  "t_limits (ticked w) = t_limits w"
  "t_plan_feature_limits (ticked w) = t_plan_feature_limits w"
  "t_campaigns (ticked w) = t_campaigns w" "t_waitlist_users (ticked w) = t_waitlist_users w"
  "t_email_settings (ticked w) = t_email_settings w"
  "t_branding_settings (ticked w) = t_branding_settings w"
  "t_form_settings (ticked w) = t_form_settings w"
  "t_referral_settings (ticked w) = t_referral_settings w"
  "t_form_fields (ticked w) = t_form_fields w" "t_share_messages (ticked w) = t_share_messages w"
  "t_tracking_integrations (ticked w) = t_tracking_integrations w"
  "t_user_channel_codes (ticked w) = t_user_channel_codes w"
  "t_referrals (ticked w) = t_referrals w" "t_rewards (ticked w) = t_rewards w"
  "t_user_rewards (ticked w) = t_user_rewards w" "t_segments (ticked w) = t_segments w"
  "t_blast_templates (ticked w) = t_blast_templates w"
  "t_email_blasts (ticked w) = t_email_blasts w"
  "t_blast_recipients (ticked w) = t_blast_recipients w" "t_webhooks (ticked w) = t_webhooks w"
  "t_webhook_deliveries (ticked w) = t_webhook_deliveries w"
  "t_fraud_detections (ticked w) = t_fraud_detections w"
  "t_campaign_templates (ticked w) = t_campaign_templates w" "t_api_keys (ticked w) = t_api_keys w"
  "t_integration_subscriptions (ticked w) = t_integration_subscriptions w"
  "t_integration_deliveries (ticked w) = t_integration_deliveries w"
  "w_http_log (ticked w) = w_http_log w" "w_uuid_String (ticked w) = w_uuid_String w"
  "w_uuid_Parse (ticked w) = w_uuid_Parse w" "w_time_Parse (ticked w) = w_time_Parse w"
  "w_time_Format (ticked w) = w_time_Format w" "w_publish_fault (ticked w) = w_publish_fault w"
  "w_http (ticked w) = w_http w"
  by (simp_all add: ticked_def)

text \<open>No statement fails.\<close>

definition no_faults :: "world \<Rightarrow> bool" where
  "no_faults w = (\<forall>k. w_fault w k = None)"

lemma no_faults_ticked [simp]: "no_faults (ticked w) = no_faults w"
  by (simp add: no_faults_def)

end
