(* ===== verification/Enums.thy ===== *)
theory Enums
  imports World
begin

text \<open>
  The constants of store/enums.go and of the status types of store/models.go, under their names,
  with the PostgreSQL enum types of the migrations as lists of admissible values. A column of an
  enum type rejects any other text.
\<close>

named_theorems enums "values of the string constants"

definition AccountPlanFree :: string where [enums]: "AccountPlanFree = ''free''"
definition AccountPlanStarter :: string where [enums]: "AccountPlanStarter = ''starter''"
definition AccountPlanPro :: string where [enums]: "AccountPlanPro = ''pro''"
definition AccountPlanEnterprise :: string where [enums]: "AccountPlanEnterprise = ''enterprise''"
definition AccountStatusActive :: string where [enums]: "AccountStatusActive = ''active''"
definition AccountStatusSuspended :: string where [enums]: "AccountStatusSuspended = ''suspended''"
definition AccountStatusCanceled :: string where [enums]: "AccountStatusCanceled = ''canceled''"
definition TeamMemberRoleOwner :: string where [enums]: "TeamMemberRoleOwner = ''owner''"
definition TeamMemberRoleAdmin :: string where [enums]: "TeamMemberRoleAdmin = ''admin''"
definition TeamMemberRoleEditor :: string where [enums]: "TeamMemberRoleEditor = ''editor''"
definition TeamMemberRoleViewer :: string where [enums]: "TeamMemberRoleViewer = ''viewer''"
definition CampaignStatusDraft :: string where [enums]: "CampaignStatusDraft = ''draft''"
definition CampaignStatusActive :: string where [enums]: "CampaignStatusActive = ''active''"
definition CampaignStatusPaused :: string where [enums]: "CampaignStatusPaused = ''paused''"
definition CampaignStatusCompleted :: string where [enums]: "CampaignStatusCompleted = ''completed''"
definition CampaignTypeWaitlist :: string where [enums]: "CampaignTypeWaitlist = ''waitlist''"
definition CampaignTypeReferral :: string where [enums]: "CampaignTypeReferral = ''referral''"
definition CampaignTypeContest :: string where [enums]: "CampaignTypeContest = ''contest''"
definition WaitlistUserStatusPending :: string where [enums]: "WaitlistUserStatusPending = ''pending''"
definition WaitlistUserStatusVerified :: string where [enums]: "WaitlistUserStatusVerified = ''verified''"
definition WaitlistUserStatusConverted :: string where [enums]: "WaitlistUserStatusConverted = ''converted''"
definition WaitlistUserStatusRemoved :: string where [enums]: "WaitlistUserStatusRemoved = ''removed''"
definition WaitlistUserStatusBlocked :: string where [enums]: "WaitlistUserStatusBlocked = ''blocked''"
definition UserSourceDirect :: string where [enums]: "UserSourceDirect = ''direct''"
definition UserSourceReferral :: string where [enums]: "UserSourceReferral = ''referral''"
definition UserSourceSocial :: string where [enums]: "UserSourceSocial = ''social''"
definition UserSourceAd :: string where [enums]: "UserSourceAd = ''ad''"
definition ReferralStatusPending :: string where [enums]: "ReferralStatusPending = ''pending''"
definition ReferralStatusVerified :: string where [enums]: "ReferralStatusVerified = ''verified''"
definition ReferralStatusConverted :: string where [enums]: "ReferralStatusConverted = ''converted''"
definition ReferralStatusInvalid :: string where [enums]: "ReferralStatusInvalid = ''invalid''"
definition ReferralSourceEmail :: string where [enums]: "ReferralSourceEmail = ''email''"
definition ReferralSourceTwitter :: string where [enums]: "ReferralSourceTwitter = ''twitter''"
definition ReferralSourceFacebook :: string where [enums]: "ReferralSourceFacebook = ''facebook''"
definition ReferralSourceLinkedIn :: string where [enums]: "ReferralSourceLinkedIn = ''linkedin''"
definition ReferralSourceWhatsApp :: string where [enums]: "ReferralSourceWhatsApp = ''whatsapp''"
definition ReferralSourceDirect :: string where [enums]: "ReferralSourceDirect = ''direct''"
definition RewardTypeEarlyAccess :: string where [enums]: "RewardTypeEarlyAccess = ''early_access''"
definition RewardTypeDiscount :: string where [enums]: "RewardTypeDiscount = ''discount''"
definition RewardTypePremiumFeature :: string where [enums]: "RewardTypePremiumFeature = ''premium_feature''"
definition RewardTypeMerchandise :: string where [enums]: "RewardTypeMerchandise = ''merchandise''"
definition RewardTypeCustom :: string where [enums]: "RewardTypeCustom = ''custom''"
definition RewardTriggerTypeReferralCount :: string where [enums]: "RewardTriggerTypeReferralCount = ''referral_count''"
definition RewardTriggerTypePosition :: string where [enums]: "RewardTriggerTypePosition = ''position''"
definition RewardTriggerTypeMilestone :: string where [enums]: "RewardTriggerTypeMilestone = ''milestone''"
definition RewardTriggerTypeManual :: string where [enums]: "RewardTriggerTypeManual = ''manual''"
definition RewardDeliveryMethodEmail :: string where [enums]: "RewardDeliveryMethodEmail = ''email''"
definition RewardDeliveryMethodWebhook :: string where [enums]: "RewardDeliveryMethodWebhook = ''webhook''"
definition RewardDeliveryMethodManual :: string where [enums]: "RewardDeliveryMethodManual = ''manual''"
definition RewardStatusActive :: string where [enums]: "RewardStatusActive = ''active''"
definition RewardStatusPaused :: string where [enums]: "RewardStatusPaused = ''paused''"
definition RewardStatusExpired :: string where [enums]: "RewardStatusExpired = ''expired''"
definition UserRewardStatusPending :: string where [enums]: "UserRewardStatusPending = ''pending''"
definition UserRewardStatusEarned :: string where [enums]: "UserRewardStatusEarned = ''earned''"
definition UserRewardStatusDelivered :: string where [enums]: "UserRewardStatusDelivered = ''delivered''"
definition UserRewardStatusRedeemed :: string where [enums]: "UserRewardStatusRedeemed = ''redeemed''"
definition UserRewardStatusRevoked :: string where [enums]: "UserRewardStatusRevoked = ''revoked''"
definition UserRewardStatusExpired :: string where [enums]: "UserRewardStatusExpired = ''expired''"
definition EmailTemplateTypeVerification :: string where [enums]: "EmailTemplateTypeVerification = ''verification''"
definition EmailTemplateTypeWelcome :: string where [enums]: "EmailTemplateTypeWelcome = ''welcome''"
definition EmailTemplateTypePositionUpdate :: string where [enums]: "EmailTemplateTypePositionUpdate = ''position_update''"
definition EmailTemplateTypeRewardEarned :: string where [enums]: "EmailTemplateTypeRewardEarned = ''reward_earned''"
definition EmailTemplateTypeMilestone :: string where [enums]: "EmailTemplateTypeMilestone = ''milestone''"
definition EmailTemplateTypeCustom :: string where [enums]: "EmailTemplateTypeCustom = ''custom''"
definition EmailLogStatusPending :: string where [enums]: "EmailLogStatusPending = ''pending''"
definition EmailLogStatusSent :: string where [enums]: "EmailLogStatusSent = ''sent''"
definition EmailLogStatusDelivered :: string where [enums]: "EmailLogStatusDelivered = ''delivered''"
definition EmailLogStatusOpened :: string where [enums]: "EmailLogStatusOpened = ''opened''"
definition EmailLogStatusClicked :: string where [enums]: "EmailLogStatusClicked = ''clicked''"
definition EmailLogStatusBounced :: string where [enums]: "EmailLogStatusBounced = ''bounced''"
definition EmailLogStatusFailed :: string where [enums]: "EmailLogStatusFailed = ''failed''"
definition WebhookStatusActive :: string where [enums]: "WebhookStatusActive = ''active''"
definition WebhookStatusPaused :: string where [enums]: "WebhookStatusPaused = ''paused''"
definition WebhookStatusFailed :: string where [enums]: "WebhookStatusFailed = ''failed''"
definition WebhookDeliveryStatusPending :: string where [enums]: "WebhookDeliveryStatusPending = ''pending''"
definition WebhookDeliveryStatusSuccess :: string where [enums]: "WebhookDeliveryStatusSuccess = ''success''"
definition WebhookDeliveryStatusFailed :: string where [enums]: "WebhookDeliveryStatusFailed = ''failed''"
definition APIKeyRateLimitTierStandard :: string where [enums]: "APIKeyRateLimitTierStandard = ''standard''"
definition APIKeyRateLimitTierPro :: string where [enums]: "APIKeyRateLimitTierPro = ''pro''"
definition APIKeyRateLimitTierEnterprise :: string where [enums]: "APIKeyRateLimitTierEnterprise = ''enterprise''"
definition APIKeyStatusActive :: string where [enums]: "APIKeyStatusActive = ''active''"
definition APIKeyStatusRevoked :: string where [enums]: "APIKeyStatusRevoked = ''revoked''"
definition ActorTypeUser :: string where [enums]: "ActorTypeUser = ''user''"
definition ActorTypeAPIKey :: string where [enums]: "ActorTypeAPIKey = ''api_key''"
definition ActorTypeSystem :: string where [enums]: "ActorTypeSystem = ''system''"
definition FraudDetectionTypeSelfReferral :: string where [enums]: "FraudDetectionTypeSelfReferral = ''self_referral''"
definition FraudDetectionTypeFakeEmail :: string where [enums]: "FraudDetectionTypeFakeEmail = ''fake_email''"
definition FraudDetectionTypeBot :: string where [enums]: "FraudDetectionTypeBot = ''bot''"
definition FraudDetectionTypeSuspiciousIP :: string where [enums]: "FraudDetectionTypeSuspiciousIP = ''suspicious_ip''"
definition FraudDetectionTypeVelocity :: string where [enums]: "FraudDetectionTypeVelocity = ''velocity''"
definition FraudDetectionStatusPending :: string where [enums]: "FraudDetectionStatusPending = ''pending''"
definition FraudDetectionStatusConfirmed :: string where [enums]: "FraudDetectionStatusConfirmed = ''confirmed''"
definition FraudDetectionStatusFalsePositive :: string where [enums]: "FraudDetectionStatusFalsePositive = ''false_positive''"
definition FraudDetectionStatusResolved :: string where [enums]: "FraudDetectionStatusResolved = ''resolved''"
definition SegmentStatusActive :: string where [enums]: "SegmentStatusActive = ''active''"
definition SegmentStatusArchived :: string where [enums]: "SegmentStatusArchived = ''archived''"
definition EmailBlastStatusDraft :: string where [enums]: "EmailBlastStatusDraft = ''draft''"
definition EmailBlastStatusScheduled :: string where [enums]: "EmailBlastStatusScheduled = ''scheduled''"
definition EmailBlastStatusProcessing :: string where [enums]: "EmailBlastStatusProcessing = ''processing''"
definition EmailBlastStatusSending :: string where [enums]: "EmailBlastStatusSending = ''sending''"
definition EmailBlastStatusCompleted :: string where [enums]: "EmailBlastStatusCompleted = ''completed''"
definition EmailBlastStatusPaused :: string where [enums]: "EmailBlastStatusPaused = ''paused''"
definition EmailBlastStatusCancelled :: string where [enums]: "EmailBlastStatusCancelled = ''cancelled''"
definition EmailBlastStatusFailed :: string where [enums]: "EmailBlastStatusFailed = ''failed''"
definition BlastRecipientStatusPending :: string where [enums]: "BlastRecipientStatusPending = ''pending''"
definition BlastRecipientStatusQueued :: string where [enums]: "BlastRecipientStatusQueued = ''queued''"
definition BlastRecipientStatusSending :: string where [enums]: "BlastRecipientStatusSending = ''sending''"
definition BlastRecipientStatusSent :: string where [enums]: "BlastRecipientStatusSent = ''sent''"
definition BlastRecipientStatusDelivered :: string where [enums]: "BlastRecipientStatusDelivered = ''delivered''"
definition BlastRecipientStatusOpened :: string where [enums]: "BlastRecipientStatusOpened = ''opened''"
definition BlastRecipientStatusClicked :: string where [enums]: "BlastRecipientStatusClicked = ''clicked''"
definition BlastRecipientStatusBounced :: string where [enums]: "BlastRecipientStatusBounced = ''bounced''"
definition BlastRecipientStatusFailed :: string where [enums]: "BlastRecipientStatusFailed = ''failed''"

definition sql_waitlist_user_status :: "string list" where
  [enums]: "sql_waitlist_user_status = [''pending'', ''verified'', ''converted'', ''removed'', ''blocked'']"

definition sql_user_source :: "string list" where
  [enums]: "sql_user_source = [''direct'', ''referral'', ''social'', ''ad'']"

definition sql_referral_status :: "string list" where
  [enums]: "sql_referral_status = [''pending'', ''verified'', ''converted'', ''invalid'']"

definition sql_referral_source :: "string list" where
  [enums]: "sql_referral_source = [''email'', ''twitter'', ''facebook'', ''linkedin'', ''whatsapp'', ''direct'']"

definition sql_device_type :: "string list" where
  [enums]: "sql_device_type = [''desktop'', ''mobile'', ''tablet'', ''smarttv'', ''unknown'']"

definition sql_device_os :: "string list" where
  [enums]: "sql_device_os = [''android'', ''ios'', ''other'']"

definition sql_campaign_status :: "string list" where
  [enums]: "sql_campaign_status = [''draft'', ''active'', ''paused'', ''completed'']"

definition sql_campaign_type :: "string list" where
  [enums]: "sql_campaign_type = [''waitlist'', ''referral'', ''contest'']"

definition sql_segment_status :: "string list" where
  [enums]: "sql_segment_status = [''active'', ''archived'']"

definition sql_email_blast_status :: "string list" where
  [enums]: "sql_email_blast_status = [''draft'', ''scheduled'', ''processing'', ''sending'', ''completed'', ''paused'', ''cancelled'', ''failed'']"

definition sql_blast_recipient_status :: "string list" where
  [enums]: "sql_blast_recipient_status = [''pending'', ''queued'', ''sending'', ''sent'', ''delivered'', ''opened'', ''clicked'', ''bounced'', ''failed'']"

definition sql_webhook_status :: "string list" where
  [enums]: "sql_webhook_status = [''active'', ''paused'', ''failed'']"

definition sql_webhook_delivery_status :: "string list" where
  [enums]: "sql_webhook_delivery_status = [''pending'', ''success'', ''failed'']"

definition sql_sharing_channel :: "string list" where
  [enums]: "sql_sharing_channel = [''email'', ''twitter'', ''facebook'', ''linkedin'', ''whatsapp'']"

text \<open>A value of an enum column: NULL or one of the labels.\<close>

definition enum_ok :: "string list \<Rightarrow> string option \<Rightarrow> bool" where
  "enum_ok labels v = (case v of None \<Rightarrow> True | Some s \<Rightarrow> s \<in> set labels)"

text \<open>The constants the code writes into a status column are labels of its type.\<close>

lemma blast_status_labels:
  "{EmailBlastStatusDraft, EmailBlastStatusScheduled, EmailBlastStatusProcessing,
    EmailBlastStatusSending, EmailBlastStatusCompleted, EmailBlastStatusPaused,
    EmailBlastStatusCancelled, EmailBlastStatusFailed} = set sql_email_blast_status"
  by (simp add: enums)

lemma waitlist_status_labels:
  "{WaitlistUserStatusPending, WaitlistUserStatusVerified, WaitlistUserStatusConverted,
    WaitlistUserStatusRemoved, WaitlistUserStatusBlocked} = set sql_waitlist_user_status"
  by (simp add: enums)

end
