(* ===== verification/CampaignStore.thy ===== *)
theory CampaignStore
  imports Enums
begin

text \<open>
  Campaigns: store/campaign.go with the queries of the settings tables that
  loadCampaignSettings runs. The reading queries join the waitlist to compute the totals; only
  GetCampaignWithSettings and GetCampaignBySlugWithSettings fill in the related settings.
\<close>

record CreateCampaignParams =
  ccp_AccountID :: uuid
  ccp_Name :: string
  ccp_Slug :: string
  ccp_Description :: "string option"
  ccp_Type :: string
  ccp_PrivacyPolicyURL :: "string option"
  ccp_TermsURL :: "string option"
  ccp_MaxSignups :: "int option"

record UpdateCampaignParams =
  ucp_Name :: "string option"
  ucp_Description :: "string option"
  ucp_Status :: "string option"
  ucp_LaunchDate :: "time option"
  ucp_EndDate :: "time option"
  ucp_PrivacyPolicyURL :: "string option"
  ucp_TermsURL :: "string option"
  ucp_MaxSignups :: "int option"

record ListCampaignsParams =
  lcp_AccountID :: uuid
  lcp_Status :: "string option"
  lcp_Type :: "string option"
  lcp_Page :: int
  lcp_Limit :: int

record ListCampaignsResult =
  lcr_Campaigns :: "Campaign list"
  lcr_TotalCount :: int
  lcr_Page :: int
  lcr_Limit :: int
  lcr_TotalPages :: int

text \<open>COALESCE($n, column) of an UPDATE for a non-null column and for a nullable one.\<close>

definition coalesce :: "'a option \<Rightarrow> 'a \<Rightarrow> 'a" where
  "coalesce v d = (case v of None \<Rightarrow> d | Some x \<Rightarrow> x)"

definition coalesce_opt :: "'a option \<Rightarrow> 'a option \<Rightarrow> 'a option" where
  "coalesce_opt v d = (case v of None \<Rightarrow> d | Some x \<Rightarrow> Some x)"

section \<open>Writing\<close>

definition campaign_constraints :: "world \<Rightarrow> Campaign list \<Rightarrow> Campaign \<Rightarrow> string option" where
  "campaign_constraints w rows c =
     (if cp_ID c \<in> set (map cp_ID rows) then Some ''campaigns_pkey''
      else if \<not> list_ex (\<lambda>a. ac_ID a = cp_AccountID c) (t_accounts w) then Some ''campaigns_account_id_fkey''
      else if list_ex (\<lambda>r. cp_AccountID r = cp_AccountID c \<and> cp_Slug r = cp_Slug c) rows
        then Some ''campaigns_account_id_slug_key''
      else if \<not> enum_ok sql_campaign_type (Some (cp_Type c)) then Some ''campaign_type''
      else None)"

definition store_CreateCampaign :: "CreateCampaignParams \<Rightarrow> (world, Campaign) go" where
  "store_CreateCampaign p = wrapE ''failed to create campaign''
     (sql_insert campaigns_tbl campaign_constraints (\<lambda>id now. \<lparr>
        cp_ID = id, cp_AccountID = ccp_AccountID p, cp_Name = ccp_Name p, cp_Slug = ccp_Slug p,
        cp_Description = ccp_Description p, cp_Status = CampaignStatusDraft, cp_Type = ccp_Type p,
        cp_LaunchDate = None, cp_EndDate = None, cp_PrivacyPolicyURL = ccp_PrivacyPolicyURL p,
        cp_TermsURL = ccp_TermsURL p, cp_MaxSignups = ccp_MaxSignups p, cp_TotalSignups = 0,
        cp_TotalVerified = 0, cp_TotalReferrals = 0, cp_CreatedAt = now, cp_UpdatedAt = now,
        cp_DeletedAt = None, cp_EmailSettings = None, cp_BrandingSettings = None,
        cp_FormSettings = None, cp_ReferralSettings = None, cp_FormFields = [],
        cp_ShareMessages = [], cp_TrackingIntegrations = []\<rparr>))"

definition campaign_status_check :: "Campaign list \<Rightarrow> string option" where
  "campaign_status_check rows =
     (if list_all (\<lambda>c. enum_ok sql_campaign_status (Some (cp_Status c))) rows then None
      else Some ''campaign_status'')"

definition store_UpdateCampaign :: "uuid \<Rightarrow> uuid \<Rightarrow> UpdateCampaignParams \<Rightarrow> (world, Campaign) go" where
  "store_UpdateCampaign accountID campaignID p = row_or ''failed to update campaign''
     (sql_update_returning campaigns_tbl campaign_status_check
        (\<lambda>c. cp_ID c = campaignID \<and> cp_AccountID c = accountID \<and> cp_DeletedAt c = None)
        (\<lambda>w c. c\<lparr>cp_Name := coalesce (ucp_Name p) (cp_Name c),
          cp_Description := coalesce_opt (ucp_Description p) (cp_Description c),
          cp_Status := coalesce (ucp_Status p) (cp_Status c),
          cp_LaunchDate := coalesce_opt (ucp_LaunchDate p) (cp_LaunchDate c),
          cp_EndDate := coalesce_opt (ucp_EndDate p) (cp_EndDate c),
          cp_PrivacyPolicyURL := coalesce_opt (ucp_PrivacyPolicyURL p) (cp_PrivacyPolicyURL c),
          cp_TermsURL := coalesce_opt (ucp_TermsURL p) (cp_TermsURL c),
          cp_MaxSignups := coalesce_opt (ucp_MaxSignups p) (cp_MaxSignups c),
          cp_UpdatedAt := w_now w\<rparr>))"

definition store_UpdateCampaignStatus :: "uuid \<Rightarrow> uuid \<Rightarrow> string \<Rightarrow> (world, Campaign) go" where
  "store_UpdateCampaignStatus accountID campaignID st = row_or ''failed to update campaign status''
     (sql_update_returning campaigns_tbl campaign_status_check
        (\<lambda>c. cp_ID c = campaignID \<and> cp_AccountID c = accountID \<and> cp_DeletedAt c = None)
        (\<lambda>w c. c\<lparr>cp_Status := st, cp_UpdatedAt := w_now w\<rparr>))"

definition store_DeleteCampaign :: "uuid \<Rightarrow> uuid \<Rightarrow> (world, unit) go" where
  "store_DeleteCampaign accountID campaignID = affected_or ''failed to delete campaign''
     (sql_update campaigns_tbl no_check
        (\<lambda>c. cp_ID c = campaignID \<and> cp_AccountID c = accountID \<and> cp_DeletedAt c = None)
        (\<lambda>w c. c\<lparr>cp_DeletedAt := Some (w_now w)\<rparr>))"

definition store_IncrementCampaignSignups :: "uuid \<Rightarrow> (world, unit) go" where
  "store_IncrementCampaignSignups campaignID = exec_or ''failed to increment campaign signups''
     (sql_update campaigns_tbl no_check (\<lambda>c. cp_ID c = campaignID)
        (\<lambda>w c. c\<lparr>cp_TotalSignups := cp_TotalSignups c + 1, cp_UpdatedAt := w_now w\<rparr>))"

definition store_IncrementCampaignVerified :: "uuid \<Rightarrow> (world, unit) go" where
  "store_IncrementCampaignVerified campaignID = exec_or ''failed to increment campaign verified''
     (sql_update campaigns_tbl no_check (\<lambda>c. cp_ID c = campaignID)
        (\<lambda>w c. c\<lparr>cp_TotalVerified := cp_TotalVerified c + 1, cp_UpdatedAt := w_now w\<rparr>))"

definition store_IncrementCampaignReferrals :: "uuid \<Rightarrow> (world, unit) go" where
  "store_IncrementCampaignReferrals campaignID = exec_or ''failed to increment campaign referrals''
     (sql_update campaigns_tbl no_check (\<lambda>c. cp_ID c = campaignID)
        (\<lambda>w c. c\<lparr>cp_TotalReferrals := cp_TotalReferrals c + 1, cp_UpdatedAt := w_now w\<rparr>))"

section \<open>Reading\<close>

text \<open>The joined counts, and the struct a SELECT fills: the related settings stay nil.\<close>

definition waitlist_count :: "uuid \<Rightarrow> (WaitlistUser \<Rightarrow> bool) \<Rightarrow> world \<Rightarrow> int" where
  "waitlist_count campaignID P w = int (length (filter
     (\<lambda>u. wu_CampaignID u = campaignID \<and> wu_DeletedAt u = None \<and> P u) (t_waitlist_users w)))"

definition campaign_view :: "world \<Rightarrow> Campaign \<Rightarrow> Campaign" where
  "campaign_view w c = c\<lparr>
     cp_TotalSignups := waitlist_count (cp_ID c) (\<lambda>u. True) w,
     cp_TotalVerified := waitlist_count (cp_ID c) wu_EmailVerified w,
     cp_TotalReferrals := waitlist_count (cp_ID c) (\<lambda>u. wu_ReferredByID u \<noteq> None) w,
     cp_EmailSettings := None, cp_BrandingSettings := None, cp_FormSettings := None,
     cp_ReferralSettings := None, cp_FormFields := [], cp_ShareMessages := [],
     cp_TrackingIntegrations := []\<rparr>"

definition campaigns_where :: "(Campaign \<Rightarrow> bool) \<Rightarrow> world \<Rightarrow> Campaign list" where
  "campaigns_where P w =
     map (campaign_view w) (filter (\<lambda>c. P c \<and> cp_DeletedAt c = None) (t_campaigns w))"

definition by_created_desc :: "Campaign list \<Rightarrow> Campaign list" where
  "by_created_desc = sort_Slice (\<lambda>a b. cp_CreatedAt b < cp_CreatedAt a)"

definition store_GetCampaignByID :: "uuid \<Rightarrow> (world, Campaign) go" where
  "store_GetCampaignByID campaignID = row_or ''failed to get campaign by id''
     (sql_get (campaigns_where (\<lambda>c. cp_ID c = campaignID)))"

definition store_GetCampaignBySlug :: "uuid \<Rightarrow> string \<Rightarrow> (world, Campaign) go" where
  "store_GetCampaignBySlug accountID slug = row_or ''failed to get campaign by slug''
     (sql_get (campaigns_where (\<lambda>c. cp_AccountID c = accountID \<and> cp_Slug c = slug)))"

definition store_GetCampaignsByAccountID :: "uuid \<Rightarrow> (world, Campaign list) go" where
  "store_GetCampaignsByAccountID accountID = wrapE ''failed to get campaigns by account id''
     (sql_query (\<lambda>w. by_created_desc (campaigns_where (\<lambda>c. cp_AccountID c = accountID) w)))"

definition store_GetCampaignsByStatus :: "uuid \<Rightarrow> string \<Rightarrow> (world, Campaign list) go" where
  "store_GetCampaignsByStatus accountID st = wrapE ''failed to get campaigns by status''
     (sql_query (\<lambda>w. by_created_desc
        (campaigns_where (\<lambda>c. cp_AccountID c = accountID \<and> cp_Status c = st) w)))"

definition list_campaigns_filter :: "ListCampaignsParams \<Rightarrow> Campaign \<Rightarrow> bool" where
  "list_campaigns_filter p c = (cp_AccountID c = lcp_AccountID p \<and>
     (case lcp_Status p of None \<Rightarrow> True | Some s \<Rightarrow> cp_Status c = s) \<and>
     (case lcp_Type p of None \<Rightarrow> True | Some t \<Rightarrow> cp_Type c = t))"

definition store_ListCampaigns :: "ListCampaignsParams \<Rightarrow> (world, ListCampaignsResult) go" where
  "store_ListCampaigns p =
     bindE (wrapE ''failed to get total campaign count''
       (sql_query (\<lambda>w. int (length (campaigns_where (list_campaigns_filter p) w))))) (\<lambda>totalCount.
     let off = wrap64 (wrap64 (lcp_Page p - 1) * lcp_Limit p) in
     bindE (wrapE ''failed to list campaigns''
       (sql_page (\<lambda>w. by_created_desc (campaigns_where (list_campaigns_filter p) w))
          (lcp_Limit p) off)) (\<lambda>campaigns.
     case go_quot (wrap64 (totalCount + lcp_Limit p - 1)) (lcp_Limit p) of
       None \<Rightarrow> panicE ''integer divide by zero''
     | Some totalPages \<Rightarrow> retE \<lparr>lcr_Campaigns = campaigns, lcr_TotalCount = totalCount,
         lcr_Page = lcp_Page p, lcr_Limit = lcp_Limit p, lcr_TotalPages = totalPages\<rparr>))"

definition store_CountCampaignsByAccountID :: "uuid \<Rightarrow> (world, int) go" where
  "store_CountCampaignsByAccountID accountID = wrapE ''failed to count campaigns by account id''
     (sql_query (\<lambda>w. int (length (campaigns_where (\<lambda>c. cp_AccountID c = accountID) w))))"

section \<open>Settings\<close>

definition store_GetCampaignEmailSettings :: "uuid \<Rightarrow> (world, CampaignEmailSettings) go" where
  "store_GetCampaignEmailSettings campaignID = row_or ''failed to get campaign email settings''
     (sql_get (\<lambda>w. filter (\<lambda>s. es_CampaignID s = campaignID) (t_email_settings w)))"

definition store_GetCampaignBrandingSettings :: "uuid \<Rightarrow> (world, CampaignBrandingSettings) go" where
  "store_GetCampaignBrandingSettings campaignID = row_or ''failed to get campaign branding settings''
     (sql_get (\<lambda>w. filter (\<lambda>s. bs_CampaignID s = campaignID) (t_branding_settings w)))"

definition store_GetCampaignFormSettings :: "uuid \<Rightarrow> (world, CampaignFormSettings) go" where
  "store_GetCampaignFormSettings campaignID = row_or ''failed to get campaign form settings''
     (sql_get (\<lambda>w. filter (\<lambda>s. fs_CampaignID s = campaignID) (t_form_settings w)))"

definition store_GetCampaignReferralSettings :: "uuid \<Rightarrow> (world, CampaignReferralSettings) go" where
  "store_GetCampaignReferralSettings campaignID = row_or ''failed to get campaign referral settings''
     (sql_get (\<lambda>w. filter (\<lambda>s. rs_CampaignID s = campaignID) (t_referral_settings w)))"

definition store_GetCampaignFormFields :: "uuid \<Rightarrow> (world, CampaignFormField list) go" where
  "store_GetCampaignFormFields campaignID = wrapE ''failed to get campaign form fields''
     (sql_query (\<lambda>w. sort_Slice (\<lambda>a b. ff_DisplayOrder a < ff_DisplayOrder b)
        (filter (\<lambda>f. ff_CampaignID f = campaignID) (t_form_fields w))))"

text \<open>ORDER BY a column of an enum type sorts by the position of the label in the type.\<close>

definition enum_rank :: "string list \<Rightarrow> string \<Rightarrow> nat" where
  "enum_rank labels v = length (takeWhile (\<lambda>x. x \<noteq> v) labels)"

definition sql_tracking_type :: "string list" where
  "sql_tracking_type = [''google_analytics'', ''meta_pixel'', ''google_ads'', ''tiktok_pixel'', ''linkedin_insight'']"

definition store_GetCampaignShareMessages :: "uuid \<Rightarrow> (world, CampaignShareMessage list) go" where
  "store_GetCampaignShareMessages campaignID = wrapE ''failed to get campaign share messages''
     (sql_query (\<lambda>w. sort_Slice (\<lambda>a b. enum_rank sql_sharing_channel (sm_Channel a)
          < enum_rank sql_sharing_channel (sm_Channel b))
        (filter (\<lambda>m. sm_CampaignID m = campaignID) (t_share_messages w))))"

definition store_GetCampaignTrackingIntegrations ::
    "uuid \<Rightarrow> (world, CampaignTrackingIntegration list) go" where
  "store_GetCampaignTrackingIntegrations campaignID = wrapE ''failed to get campaign tracking integrations''
     (sql_query (\<lambda>w. sort_Slice (\<lambda>a b. enum_rank sql_tracking_type (ti_IntegrationType a)
          < enum_rank sql_tracking_type (ti_IntegrationType b))
        (filter (\<lambda>t. ti_CampaignID t = campaignID) (t_tracking_integrations w))))"

text \<open>A settings row that may be missing: any error other than ErrNotFound ends the load.\<close>

definition optional_row :: "string \<Rightarrow> (world, 'a) go \<Rightarrow> (world, 'a option) go" where
  "optional_row msg m = tryE m
     (\<lambda>e. if errors_Is e ErrNotFound then retE None else failE (Wrap msg e)) (\<lambda>x. retE (Some x))"

definition loadCampaignSettings :: "Campaign \<Rightarrow> (world, Campaign) go" where
  "loadCampaignSettings c =
     bindE (optional_row ''failed to load email settings'' (store_GetCampaignEmailSettings (cp_ID c))) (\<lambda>es.
     bindE (optional_row ''failed to load branding settings'' (store_GetCampaignBrandingSettings (cp_ID c))) (\<lambda>bs.
     bindE (optional_row ''failed to load form settings'' (store_GetCampaignFormSettings (cp_ID c))) (\<lambda>fs.
     bindE (optional_row ''failed to load referral settings'' (store_GetCampaignReferralSettings (cp_ID c))) (\<lambda>rs.
     bindE (wrapE ''failed to load form fields'' (store_GetCampaignFormFields (cp_ID c))) (\<lambda>ff.
     bindE (wrapE ''failed to load share messages'' (store_GetCampaignShareMessages (cp_ID c))) (\<lambda>sm.
     bindE (wrapE ''failed to load tracking integrations'' (store_GetCampaignTrackingIntegrations (cp_ID c))) (\<lambda>ti.
     retE (c\<lparr>
       cp_EmailSettings := (case es of None \<Rightarrow> cp_EmailSettings c | Some x \<Rightarrow> Some x),
       cp_BrandingSettings := (case bs of None \<Rightarrow> cp_BrandingSettings c | Some x \<Rightarrow> Some x),
       cp_FormSettings := (case fs of None \<Rightarrow> cp_FormSettings c | Some x \<Rightarrow> Some x),
       cp_ReferralSettings := (case rs of None \<Rightarrow> cp_ReferralSettings c | Some x \<Rightarrow> Some x),
       cp_FormFields := ff, cp_ShareMessages := sm, cp_TrackingIntegrations := ti\<rparr>))))))))"

definition store_GetCampaignWithSettings :: "uuid \<Rightarrow> (world, Campaign) go" where
  "store_GetCampaignWithSettings campaignID =
     bindE (store_GetCampaignByID campaignID) loadCampaignSettings"

definition store_GetCampaignBySlugWithSettings :: "uuid \<Rightarrow> string \<Rightarrow> (world, Campaign) go" where
  "store_GetCampaignBySlugWithSettings accountID slug =
     bindE (store_GetCampaignBySlug accountID slug) loadCampaignSettings"

primrec store_LoadCampaignsSettings :: "Campaign list \<Rightarrow> (world, Campaign list) go" where
  "store_LoadCampaignsSettings [] = retE []"
| "store_LoadCampaignsSettings (c # cs) =
     bindE (loadCampaignSettings c) (\<lambda>c'.
     bindE (store_LoadCampaignsSettings cs) (\<lambda>cs'. retE (c' # cs')))"

section \<open>Lemmas\<close>

lemma campaign_reads [reads]:
  "moves tick (store_GetCampaignByID c)" "moves tick (store_GetCampaignBySlug a s)"
  "moves tick (store_CountCampaignsByAccountID a)"
  unfolding store_GetCampaignByID_def store_GetCampaignBySlug_def store_CountCampaignsByAccountID_def
  by (intro tick_rules reads)+

lemma settings_reads [reads]:
  "moves tick (store_GetCampaignEmailSettings c)" "moves tick (store_GetCampaignBrandingSettings c)"
  "moves tick (store_GetCampaignFormSettings c)" "moves tick (store_GetCampaignReferralSettings c)"
  "moves tick (store_GetCampaignFormFields c)" "moves tick (store_GetCampaignShareMessages c)"
  "moves tick (store_GetCampaignTrackingIntegrations c)"
  unfolding store_GetCampaignEmailSettings_def store_GetCampaignBrandingSettings_def
    store_GetCampaignFormSettings_def store_GetCampaignReferralSettings_def
    store_GetCampaignFormFields_def store_GetCampaignShareMessages_def
    store_GetCampaignTrackingIntegrations_def
  by (intro tick_rules reads)+

lemma optional_row_reads: "moves tick m \<Longrightarrow> moves tick (optional_row msg m)"
  unfolding optional_row_def by (intro tick_rules)

lemma loadCampaignSettings_reads [reads]: "moves tick (loadCampaignSettings c)"
  unfolding loadCampaignSettings_def by (intro tick_rules reads optional_row_reads)

lemma campaign_view_simps [simp]:
  "cp_ID (campaign_view w c) = cp_ID c" "cp_AccountID (campaign_view w c) = cp_AccountID c"
  "cp_Status (campaign_view w c) = cp_Status c" "cp_Slug (campaign_view w c) = cp_Slug c"
  "cp_Name (campaign_view w c) = cp_Name c" "cp_MaxSignups (campaign_view w c) = cp_MaxSignups c"
  "cp_DeletedAt (campaign_view w c) = cp_DeletedAt c"
  "cp_TotalSignups (campaign_view w c) = waitlist_count (cp_ID c) (\<lambda>u. True) w"
  "cp_EmailSettings (campaign_view w c) = None" "cp_FormSettings (campaign_view w c) = None"
  "cp_ReferralSettings (campaign_view w c) = None" "cp_BrandingSettings (campaign_view w c) = None"
  by (simp_all add: campaign_view_def)

lemma in_campaigns_where:
  "v \<in> set (campaigns_where P w) \<longleftrightarrow>
     (\<exists>c\<in>set (t_campaigns w). P c \<and> cp_DeletedAt c = None \<and> v = campaign_view w c)"
  by (auto simp: campaigns_where_def)

lemma GetCampaignByID_Ok:
  assumes "store_GetCampaignByID i w = (Ok c, w')"
  shows "cp_ID c = i" "cp_DeletedAt c = None" "cp_FormSettings c = None"
    "cp_EmailSettings c = None" "cp_ReferralSettings c = None"
    "\<exists>r\<in>set (t_campaigns w). cp_ID r = i \<and> cp_DeletedAt r = None \<and> c = campaign_view (ticked w) r"
    "w' = ticked w"
proof -
  obtain cs where "campaigns_where (\<lambda>c. cp_ID c = i) (ticked w) = c # cs" and w': "w' = ticked w"
    using assms by (auto simp: store_GetCampaignByID_def ok_simps)
  then have "c \<in> set (campaigns_where (\<lambda>c. cp_ID c = i) (ticked w))" by simp
  then obtain r where "r \<in> set (t_campaigns w)" "cp_ID r = i" "cp_DeletedAt r = None"
    "c = campaign_view (ticked w) r"
    by (auto simp: in_campaigns_where)
  then show "cp_ID c = i" "cp_DeletedAt c = None" "cp_FormSettings c = None"
    "cp_EmailSettings c = None" "cp_ReferralSettings c = None"
    "\<exists>r\<in>set (t_campaigns w). cp_ID r = i \<and> cp_DeletedAt r = None \<and> c = campaign_view (ticked w) r"
    by auto
  show "w' = ticked w" by (rule w')
qed

end
