(* ===== verification/Samples.thy ===== *)
theory Samples
  imports World
begin

text \<open>
  Small concrete states on which the properties of the other theories are instantiated: a fresh
  deployment with no rows, and one with an account on the free plan, an active campaign and two
  users, the second referred by the first.
\<close>

definition empty_world :: world where
  "empty_world = \<lparr>
     t_accounts = [], t_subscriptions = [], t_prices = [], t_features = [], t_limits = [],
     t_plan_feature_limits = [], t_campaigns = [], t_email_settings = [], t_branding_settings = [],
     t_form_settings = [], t_referral_settings = [], t_form_fields = [], t_share_messages = [],
     t_tracking_integrations = [], t_waitlist_users = [], t_user_channel_codes = [],
     t_referrals = [], t_rewards = [], t_user_rewards = [], t_segments = [], t_blast_templates = [],
     t_email_blasts = [], t_blast_recipients = [], t_webhooks = [], t_webhook_deliveries = [],
     t_fraud_detections = [], t_campaign_templates = [], t_api_keys = [],
     t_integration_subscriptions = [], t_integration_deliveries = [], t_campaign_analytics = [], t_audit_logs = [], t_email_logs = [], w_queue = [], w_outbox = [], w_http_log = [],
     w_calls = 0, w_fresh = 0, w_rand_n = 0, w_now = 1000,
     w_fault = (\<lambda>k. None), w_uuids = (\<lambda>k. of_nat (k + 100)),
     w_rand = (\<lambda>k n. Some (map (\<lambda>i. (i + k) mod 256) [0..<n])),
     w_uuid_String = (\<lambda>i. replicate (unat i) CHR ''0''),
     w_uuid_Parse = (\<lambda>s. Some (of_nat (length s))),
     w_time_Parse = (\<lambda>l s. None), w_time_Format = (\<lambda>t. ''now''), w_date_trunc = (\<lambda>p t. t), w_ilike = (\<lambda>p s. p = s),
     w_json_text = (\<lambda>v. ''''), w_json_Marshal = (\<lambda>v. ''{}''),
     w_hmac_sha256 = (\<lambda>k m. [length k, length m]), w_sha256 = (\<lambda>m. [length m]), w_publish_fault = (\<lambda>k. None), w_mail_fault = (\<lambda>k. None),
     w_template_Parse = (\<lambda>t. None), w_template_Execute = (\<lambda>t d. Ok t),
     w_template_Render = (\<lambda>t d. Ok t),
     w_round = (\<lambda>x. x), w_captcha_enabled = True, w_captcha_verify = (\<lambda>t ip. False),
     w_http = (\<lambda>k. (Reply 200 (Some ''ok''), 5))\<rparr>"

definition sample_account :: Account where
  "sample_account = \<lparr>ac_ID = 1, ac_Name = ''acme'', ac_Slug = ''acme'', ac_OwnerUserID = 2,
     ac_Plan = ''free'', ac_Status = ''active'', ac_StripeCustomerID = None, ac_TrialEndsAt = None,
     ac_Settings = None, ac_CreatedAt = 0, ac_UpdatedAt = 0, ac_DeletedAt = None\<rparr>"

definition sample_campaign :: Campaign where
  "sample_campaign = \<lparr>cp_ID = 10, cp_AccountID = 1, cp_Name = ''launch'', cp_Slug = ''launch'',
     cp_Description = None, cp_Status = ''active'', cp_Type = ''waitlist'', cp_LaunchDate = None,
     cp_EndDate = None, cp_PrivacyPolicyURL = None, cp_TermsURL = None, cp_MaxSignups = None,
     cp_TotalSignups = 0, cp_TotalVerified = 0, cp_TotalReferrals = 0, cp_CreatedAt = 0,
     cp_UpdatedAt = 0, cp_DeletedAt = None, cp_EmailSettings = None, cp_BrandingSettings = None,
     cp_FormSettings = None, cp_ReferralSettings = None, cp_FormFields = [],
     cp_ShareMessages = [], cp_TrackingIntegrations = []\<rparr>"

definition sample_user :: "uuid \<Rightarrow> string \<Rightarrow> string \<Rightarrow> time \<Rightarrow> WaitlistUser" where
  "sample_user i email code created = \<lparr>
     wu_ID = i, wu_CampaignID = 10, wu_Email = email, wu_FirstName = None, wu_LastName = None,
     wu_Status = ''pending'', wu_Position = -1, wu_OriginalPosition = -1, wu_ReferralCode = code,
     wu_ReferredByID = None, wu_ReferralCount = 0, wu_VerifiedReferralCount = 0, wu_Points = 0,
     wu_EmailVerified = False, wu_VerificationToken = Some code, wu_VerificationSentAt = None,
     wu_VerifiedAt = None, wu_Source = Some ''direct'', wu_UTMSource = None, wu_UTMMedium = None,
     wu_UTMCampaign = None, wu_UTMTerm = None, wu_UTMContent = None, wu_IPAddress = None,
     wu_UserAgent = None, wu_CountryCode = None, wu_City = Some ''Oslo'', wu_DeviceFingerprint = None,
     wu_Country = Some ''Norway'', wu_Region = None, wu_RegionCode = None, wu_PostalCode = None,
     wu_UserTimezone = None, wu_Latitude = None, wu_Longitude = None, wu_MetroCode = None,
     wu_DeviceType = None, wu_DeviceOS = None, wu_Metadata = None, wu_MarketingConsent = False,
     wu_MarketingConsentAt = None, wu_TermsAccepted = True, wu_TermsAcceptedAt = None,
     wu_LastActivityAt = None, wu_ShareCount = 0, wu_CreatedAt = created, wu_UpdatedAt = created,
     wu_DeletedAt = None\<rparr>"

definition sample_world :: world where
  "sample_world = empty_world\<lparr>t_accounts := [sample_account], t_campaigns := [sample_campaign],
     t_waitlist_users := [
       (sample_user 21 ''ann@x.io'' ''ANN'' 5)\<lparr>wu_ReferralCount := 1\<rparr>,
       (sample_user 22 ''bob@x.io'' ''BOB'' 3)\<lparr>wu_ReferredByID := Some 21\<rparr>]\<rparr>"

lemma empty_world_no_faults: "no_faults empty_world"
  by (simp add: no_faults_def empty_world_def)

lemma sample_world_no_faults: "no_faults sample_world"
  by (simp add: no_faults_def sample_world_def empty_world_def)

lemma sample_world_simps [simp]:
  "t_campaigns sample_world = [sample_campaign]" "t_accounts sample_world = [sample_account]"
  "w_fault sample_world = (\<lambda>k. None)" "w_calls sample_world = 0" "w_now sample_world = 1000"
  by (simp_all add: sample_world_def empty_world_def)

lemma inj_uuid_String: "inj (w_uuid_String sample_world)"
proof (rule injI)
  fix i j :: uuid assume "w_uuid_String sample_world i = w_uuid_String sample_world j"
  then have "length (replicate (unat i) CHR ''0'') = length (replicate (unat j) CHR ''0'')"
    by (simp only: sample_world_def empty_world_def world.select_convs world.update_convs)
  then have "unat i = unat j" by simp
  then show "i = j" by (rule unsigned_word_eqI)
qed

end
