(* ===== verification/Tiers.thy ===== *)
theory Tiers
  imports Enums Samples
begin

text \<open>
  The subscription tiers: store/tier.go with the queries of store/account.go and
  store/subscription.go it uses, and the package tiers (service.go, config.go). A tier gives an
  account its boolean features and its resource limits.
\<close>

section \<open>Store\<close>

record PlanFeatureWithLimit =
  pf_FeatureName :: string
  pf_Enabled :: bool
  pf_LimitValue :: "int option"

record TierInfo =
  st_PriceID :: uuid
  st_PriceDescription :: string
  st_Features :: "(string \<times> bool) list"
  st_Limits :: "(string \<times> int option) list"

definition store_GetAccountByID :: "uuid \<Rightarrow> (world, Account) go" where
  "store_GetAccountByID accountID = row_or ''failed to get account by id''
     (sql_get (\<lambda>w. filter (\<lambda>a. ac_ID a = accountID \<and> ac_DeletedAt a = None) (t_accounts w)))"

text \<open>ORDER BY created_at DESC, first row.\<close>

definition store_GetSubscriptionByUserID :: "uuid \<Rightarrow> (world, subscription_row) go" where
  "store_GetSubscriptionByUserID userID = row_or ''failed to get subscription''
     (sql_get (\<lambda>w. sort_Slice (\<lambda>a b. su_CreatedAt b < su_CreatedAt a)
        (filter (\<lambda>s. su_UserID s = userID) (t_subscriptions w))))"

text \<open>The left join drops a feature whose limit row is soft-deleted.\<close>

definition plan_features :: "uuid \<Rightarrow> world \<Rightarrow> PlanFeatureWithLimit list" where
  "plan_features priceID w = concat (map (\<lambda>pfl. concat (map (\<lambda>f.
       (case filter (\<lambda>l. Some (lm_ID l) = pl_LimitID pfl) (t_limits w) of
          [] \<Rightarrow> [\<lparr>pf_FeatureName = ft_Name f, pf_Enabled = pl_Enabled pfl, pf_LimitValue = None\<rparr>]
        | ls \<Rightarrow> map (\<lambda>l. \<lparr>pf_FeatureName = ft_Name f, pf_Enabled = pl_Enabled pfl,
                           pf_LimitValue = Some (lm_LimitValue l)\<rparr>)
                  (filter (\<lambda>l. lm_DeletedAt l = None) ls)))
     (filter (\<lambda>f. ft_ID f = pl_FeatureID pfl \<and> ft_DeletedAt f = None) (t_features w))))
     (filter (\<lambda>p. pl_PlanID p = priceID \<and> pl_DeletedAt p = None) (t_plan_feature_limits w)))"

definition store_GetPlanFeaturesWithLimitsByPriceID :: "uuid \<Rightarrow> (world, PlanFeatureWithLimit list) go" where
  "store_GetPlanFeaturesWithLimitsByPriceID priceID =
     wrapE ''failed to get plan features with limits'' (sql_query (plan_features priceID))"

definition store_GetPriceDescriptionByID :: "uuid \<Rightarrow> (world, string) go" where
  "store_GetPriceDescriptionByID priceID = row_or ''failed to get price description''
     (sql_get (\<lambda>w. map pr_Description
        (filter (\<lambda>p. pr_ID p = priceID \<and> pr_DeletedAt p = None) (t_prices w))))"

definition resourceFeatures :: "string list" where
  "resourceFeatures = [''campaigns'', ''leads'', ''team_members'']"

text \<open>One iteration of the loop that builds the two maps.\<close>

definition add_feature :: "PlanFeatureWithLimit \<Rightarrow> TierInfo \<Rightarrow> TierInfo" where
  "add_feature f ti =
     (if pf_FeatureName f \<in> set resourceFeatures
      then ti\<lparr>st_Limits := AList.update (pf_FeatureName f) (pf_LimitValue f) (st_Limits ti)\<rparr>
      else ti\<lparr>st_Features := AList.update (pf_FeatureName f) (pf_Enabled f) (st_Features ti)\<rparr>)"

definition store_GetTierInfoByPriceID :: "uuid \<Rightarrow> (world, TierInfo) go" where
  "store_GetTierInfoByPriceID priceID =
     bindE (wrapE ''failed to get price description'' (store_GetPriceDescriptionByID priceID)) (\<lambda>desc.
     bindE (wrapE ''failed to get features with limits''
              (store_GetPlanFeaturesWithLimitsByPriceID priceID)) (\<lambda>fs.
     retE (fold add_feature fs
        \<lparr>st_PriceID = priceID, st_PriceDescription = desc, st_Features = [], st_Limits = []\<rparr>)))"

definition getDefaultFreeTier :: TierInfo where
  "getDefaultFreeTier = \<lparr>
     st_PriceID = uuid_Nil,
     st_PriceDescription = ''free'',
     st_Features = [
       (''email_verification'', False), (''referral_system'', False),
       (''visual_form_builder'', True), (''visual_email_builder'', False),
       (''all_widget_types'', False), (''remove_branding'', False),
       (''anti_spam_protection'', False), (''enhanced_lead_data'', False),
       (''tracking_pixels'', False), (''webhooks_zapier'', False),
       (''email_blasts'', False), (''json_export'', False)],
     st_Limits = [(''campaigns'', Some 1), (''leads'', Some 200), (''team_members'', Some 1)]\<rparr>"

definition store_GetFreeTierInfo :: "(world, TierInfo) go" where
  "store_GetFreeTierInfo =
     tryE (sql_get (\<lambda>w. map pr_ID
             (filter (\<lambda>p. pr_Description p = ''free'' \<and> pr_DeletedAt p = None) (t_prices w))))
       (\<lambda>e. if errors_Is e ErrNoRows then retE getDefaultFreeTier
            else failE (Wrap ''failed to get free price'' e))
       store_GetTierInfoByPriceID"

definition store_GetTierInfoByUserID :: "uuid \<Rightarrow> (world, TierInfo) go" where
  "store_GetTierInfoByUserID userID =
     tryE (store_GetSubscriptionByUserID userID)
       (\<lambda>e. if errors_Is e ErrNotFound then store_GetFreeTierInfo
            else failE (Wrap ''failed to get subscription'' e))
       (\<lambda>s. if su_Status s \<noteq> ''active'' \<and> su_Status s \<noteq> ''trialing'' then store_GetFreeTierInfo
            else store_GetTierInfoByPriceID (su_PriceID s))"

definition store_GetTierInfoByAccountID :: "uuid \<Rightarrow> (world, TierInfo) go" where
  "store_GetTierInfoByAccountID accountID =
     bindE (wrapE ''failed to get account'' (store_GetAccountByID accountID)) (\<lambda>account.
     store_GetTierInfoByUserID (ac_OwnerUserID account))"

text \<open>A read of a map from names to booleans, and to nullable limits, with the zero value.\<close>

definition has_feature :: "(string \<times> bool) list \<Rightarrow> string \<Rightarrow> bool" where
  "has_feature fs name = (map_of fs name = Some True)"

definition limit_of :: "(string \<times> int option) list \<Rightarrow> string \<Rightarrow> int option" where
  "limit_of ls name = (case map_of ls name of None \<Rightarrow> None | Some l \<Rightarrow> l)"

definition store_HasFeature :: "uuid \<Rightarrow> string \<Rightarrow> (world, bool) go" where
  "store_HasFeature priceID name =
     bindE (store_GetTierInfoByPriceID priceID) (\<lambda>ti. retE (has_feature (st_Features ti) name))"

definition store_GetLimit :: "uuid \<Rightarrow> string \<Rightarrow> (world, int option) go" where
  "store_GetLimit priceID name =
     bindE (store_GetTierInfoByPriceID priceID) (\<lambda>ti. retE (limit_of (st_Limits ti) name))"

section \<open>Tier names\<close>

definition PriceDescriptionToTier :: "(string \<times> string) list" where
  "PriceDescriptionToTier =
     [(''free'', ''free''), (''lc_pro_monthly'', ''pro''), (''lc_pro_annual'', ''pro''),
      (''lc_team_monthly'', ''team''), (''lc_team_annual'', ''team'')]"

definition TierDisplayNames :: "(string \<times> string) list" where
  "TierDisplayNames = [(''free'', ''Free''), (''pro'', ''Pro''), (''team'', ''Team'')]"

definition GetTierForPriceDescription :: "string \<Rightarrow> string" where
  "GetTierForPriceDescription d = (case map_of PriceDescriptionToTier d of
       Some t \<Rightarrow> t
     | None \<Rightarrow> (case map_of PriceDescriptionToTier (ToLower d) of Some t \<Rightarrow> t | None \<Rightarrow> ''free''))"

definition GetTierDisplayName :: "string \<Rightarrow> string" where
  "GetTierDisplayName t = (case map_of TierDisplayNames t of Some n \<Rightarrow> n | None \<Rightarrow> ''Free'')"

section \<open>Service\<close>

record TierView =
  tv_TierName :: string
  tv_DisplayName :: string
  tv_PriceDescription :: string
  tv_Features :: "(string \<times> bool) list"
  tv_Limits :: "(string \<times> int option) list"

definition convertStoreTierInfo :: "TierInfo \<Rightarrow> TierView" where
  "convertStoreTierInfo ti = (let name = GetTierForPriceDescription (st_PriceDescription ti) in
     \<lparr>tv_TierName = name, tv_DisplayName = GetTierDisplayName name,
      tv_PriceDescription = st_PriceDescription ti, tv_Features = st_Features ti,
      tv_Limits = st_Limits ti\<rparr>)"

definition GetTierInfoByAccountID :: "uuid \<Rightarrow> (world, TierView) go" where
  "GetTierInfoByAccountID accountID =
     bindE (store_GetTierInfoByAccountID accountID) (\<lambda>ti. retE (convertStoreTierInfo ti))"

definition GetTierInfoByUserID :: "uuid \<Rightarrow> (world, TierView) go" where
  "GetTierInfoByUserID userID =
     bindE (store_GetTierInfoByUserID userID) (\<lambda>ti. retE (convertStoreTierInfo ti))"

definition GetFreeTierInfo :: "(world, TierView) go" where
  "GetFreeTierInfo = bindE store_GetFreeTierInfo (\<lambda>ti. retE (convertStoreTierInfo ti))"

definition HasFeatureByAccountID :: "uuid \<Rightarrow> string \<Rightarrow> (world, bool) go" where
  "HasFeatureByAccountID accountID name =
     bindE (GetTierInfoByAccountID accountID) (\<lambda>ti. retE (has_feature (tv_Features ti) name))"

definition GetLimitByAccountID :: "uuid \<Rightarrow> string \<Rightarrow> (world, int option) go" where
  "GetLimitByAccountID accountID name =
     bindE (GetTierInfoByAccountID accountID) (\<lambda>ti. retE (limit_of (tv_Limits ti) name))"

section \<open>Lemmas\<close>

text \<open>Every operation of the tiers only reads.\<close>

lemma tier_store_reads [reads]:
  "moves tick (store_GetAccountByID a)" "moves tick (store_GetSubscriptionByUserID u)"
  "moves tick (store_GetPlanFeaturesWithLimitsByPriceID p)" "moves tick (store_GetPriceDescriptionByID p)"
  by (simp_all add: store_GetAccountByID_def store_GetSubscriptionByUserID_def
      store_GetPlanFeaturesWithLimitsByPriceID_def store_GetPriceDescriptionByID_def reads
      tick.moves_wrapE)

lemma store_GetTierInfoByPriceID_reads [reads]: "moves tick (store_GetTierInfoByPriceID p)"
  unfolding store_GetTierInfoByPriceID_def by (intro tick_rules reads)

lemma store_GetFreeTierInfo_reads [reads]: "moves tick store_GetFreeTierInfo"
  unfolding store_GetFreeTierInfo_def by (intro tick_rules reads)

lemma store_GetTierInfoByAccountID_reads [reads]:
  "moves tick (store_GetTierInfoByUserID u)" "moves tick (store_GetTierInfoByAccountID a)"
  unfolding store_GetTierInfoByAccountID_def store_GetTierInfoByUserID_def
  by (intro tick_rules reads)+

lemma tier_service_reads [reads]:
  "moves tick (HasFeatureByAccountID a n)" "moves tick (GetLimitByAccountID a n)"
  unfolding HasFeatureByAccountID_def GetLimitByAccountID_def GetTierInfoByAccountID_def
  by (intro tick_rules reads)+

lemma map_of_features_fold:
  "map_of (st_Features (fold add_feature fs ti)) n =
     (if n \<in> set resourceFeatures then map_of (st_Features ti) n
      else (case filter (\<lambda>f. pf_FeatureName f = n) fs of
              [] \<Rightarrow> map_of (st_Features ti) n
            | gs \<Rightarrow> Some (pf_Enabled (last gs))))"
  by (induction fs arbitrary: ti)
     (auto simp: add_feature_def update_conv' split: list.splits)

lemma map_of_limits_fold:
  "map_of (st_Limits (fold add_feature fs ti)) n =
     (if n \<notin> set resourceFeatures then map_of (st_Limits ti) n
      else (case filter (\<lambda>f. pf_FeatureName f = n) fs of
              [] \<Rightarrow> map_of (st_Limits ti) n
            | gs \<Rightarrow> Some (pf_LimitValue (last gs))))"
  by (induction fs arbitrary: ti)
     (auto simp: add_feature_def update_conv' split: list.splits)

section \<open>What a tier is\<close>

text \<open>
  The specification the handlers rely on: an account's tier is the plan of its owner's latest
  subscription while that is active or trialing, otherwise the plan whose price is described as
  free, otherwise the built-in free tier.
\<close>

definition latest_subscription :: "uuid \<Rightarrow> world \<Rightarrow> subscription_row option" where
  "latest_subscription userID w = (case sort_Slice (\<lambda>a b. su_CreatedAt b < su_CreatedAt a)
       (filter (\<lambda>s. su_UserID s = userID) (t_subscriptions w)) of [] \<Rightarrow> None | s # ss \<Rightarrow> Some s)"

definition live_prices :: "(price_row \<Rightarrow> bool) \<Rightarrow> world \<Rightarrow> price_row list" where
  "live_prices P w = filter (\<lambda>p. P p \<and> pr_DeletedAt p = None) (t_prices w)"

definition plan_tier :: "uuid \<Rightarrow> world \<Rightarrow> TierInfo option" where
  "plan_tier priceID w = (case live_prices (\<lambda>p. pr_ID p = priceID) w of
       [] \<Rightarrow> None
     | p # ps \<Rightarrow> Some (fold add_feature (plan_features priceID w)
         \<lparr>st_PriceID = priceID, st_PriceDescription = pr_Description p, st_Features = [], st_Limits = []\<rparr>))"

definition free_tier :: "world \<Rightarrow> TierInfo option" where
  "free_tier w = (case live_prices (\<lambda>p. pr_Description p = ''free'') w of
       [] \<Rightarrow> Some getDefaultFreeTier
     | p # ps \<Rightarrow> plan_tier (pr_ID p) w)"

definition user_tier :: "uuid \<Rightarrow> world \<Rightarrow> TierInfo option" where
  "user_tier userID w = (case latest_subscription userID w of
       None \<Rightarrow> free_tier w
     | Some s \<Rightarrow> (if su_Status s = ''active'' \<or> su_Status s = ''trialing''
                 then plan_tier (su_PriceID s) w else free_tier w))"

definition account_tier :: "uuid \<Rightarrow> world \<Rightarrow> TierInfo option" where
  "account_tier accountID w =
     (case filter (\<lambda>a. ac_ID a = accountID \<and> ac_DeletedAt a = None) (t_accounts w) of
        [] \<Rightarrow> None
      | a # as \<Rightarrow> user_tier (ac_OwnerUserID a) w)"

lemma tick_tables:
  assumes "tick w w'"
  shows "t_prices w' = t_prices w" "t_features w' = t_features w" "t_limits w' = t_limits w"
    "t_plan_feature_limits w' = t_plan_feature_limits w" "t_subscriptions w' = t_subscriptions w"
    "t_accounts w' = t_accounts w" "w_fault w' = w_fault w"
  using assms by (auto simp: tick_def)

lemma tick_plan_features: "tick w w' \<Longrightarrow> plan_features p w' = plan_features p w"
  by (simp add: plan_features_def tick_tables)

lemma tick_plan_tier: "tick w w' \<Longrightarrow> plan_tier p w' = plan_tier p w"
  by (simp add: plan_tier_def live_prices_def tick_plan_features tick_tables split: list.split option.split)

lemma tick_free_tier: "tick w w' \<Longrightarrow> free_tier w' = free_tier w"
  by (simp add: free_tier_def live_prices_def tick_plan_tier tick_tables split: list.split option.split)

lemma tick_user_tier: "tick w w' \<Longrightarrow> user_tier u w' = user_tier u w"
  by (simp add: user_tier_def latest_subscription_def tick_plan_tier tick_free_tier tick_tables split: list.split option.split)

lemma tick_account_tier: "tick w w' \<Longrightarrow> account_tier a w' = account_tier a w"
  by (simp add: account_tier_def tick_user_tier tick_tables split: list.split option.split)

lemma tick_ticked: "tick w (ticked w)"
  unfolding tick_def ticked_def by blast

lemmas spec_ticked [simp] =
  tick_plan_features [OF tick_ticked] tick_plan_tier [OF tick_ticked]
  tick_free_tier [OF tick_ticked] tick_user_tier [OF tick_ticked] tick_account_tier [OF tick_ticked]

lemma sql_get_no_faults:
  "no_faults w \<Longrightarrow> sql_get q w =
     (case q (ticked w) of [] \<Rightarrow> (Err ErrNoRows, ticked w) | r # rs \<Rightarrow> (Ok r, ticked w))"
  by (simp add: sql_get_def db_def no_faults_def ticked_def Let_def split: list.splits)

lemma sql_query_no_faults: "no_faults w \<Longrightarrow> sql_query q w = (Ok (q (ticked w)), ticked w)"
  by (simp add: sql_query_def db_def no_faults_def ticked_def Let_def)

text \<open>An operation answers a specification when it returns its value whenever no statement
  fails and an error when the specification has no value, reading only.\<close>

definition outcome :: "world \<Rightarrow> 'a result \<times> world \<Rightarrow> 'a option \<Rightarrow> bool" where
  "outcome w r v = (tick w (snd r) \<and> (case v of Some x \<Rightarrow> fst r = Ok x | None \<Rightarrow> (\<exists>e. fst r = Err e)))"

definition answers :: "(world, 'a) go \<Rightarrow> (world \<Rightarrow> 'a option) \<Rightarrow> bool" where
  "answers m spec = (\<forall>w. no_faults w \<longrightarrow> outcome w (m w) (spec w))"

lemma answersD: "answers m spec \<Longrightarrow> no_faults w \<Longrightarrow> spec w = Some x \<Longrightarrow> \<exists>w'. m w = (Ok x, w') \<and> tick w w'"
  unfolding answers_def outcome_def by (cases "m w") force

lemma answers_NoneD: "answers m spec \<Longrightarrow> no_faults w \<Longrightarrow> spec w = None \<Longrightarrow> \<exists>e w'. m w = (Err e, w') \<and> tick w w'"
  unfolding answers_def outcome_def by (cases "m w") force

lemma answers_ticked:
  "answers m spec \<Longrightarrow> no_faults w \<Longrightarrow> spec (ticked w) = spec w \<Longrightarrow> outcome w (m (ticked w)) (spec w)"
  unfolding answers_def outcome_def using tick.step_trans [OF tick_ticked]
  by (metis no_faults_ticked)

lemma tick_no_faults: "tick w w' \<Longrightarrow> no_faults w' = no_faults w"
  by (auto simp: tick_def no_faults_def)

lemma plan_tier_answers: "answers (store_GetTierInfoByPriceID p) (plan_tier p)"
  unfolding answers_def
proof (intro allI impI)
  fix w assume w: "no_faults w"
  have t: "tick w (ticked (ticked w))" "tick w (ticked w)"
    by (auto intro: tick.step_trans tick_ticked)
  show "outcome w (store_GetTierInfoByPriceID p w) (plan_tier p w)"
    using w t
    by (auto simp: store_GetTierInfoByPriceID_def store_GetPriceDescriptionByID_def outcome_def
        store_GetPlanFeaturesWithLimitsByPriceID_def plan_tier_def live_prices_def row_or_def
        sql_get_no_faults sql_query_no_faults go_defs split: list.splits)
qed

lemma free_tier_answers: "answers store_GetFreeTierInfo free_tier"
  unfolding answers_def
proof (intro allI impI)
  fix w assume w: "no_faults w"
  have "store_GetFreeTierInfo w = (case live_prices (\<lambda>p. pr_Description p = ''free'') w of
      [] \<Rightarrow> (Ok getDefaultFreeTier, ticked w)
    | r # rs \<Rightarrow> store_GetTierInfoByPriceID (pr_ID r) (ticked w))"
    using w by (simp add: store_GetFreeTierInfo_def sql_get_no_faults go_defs live_prices_def
        split: list.splits)
  then show "outcome w (store_GetFreeTierInfo w) (free_tier w)"
    by (auto simp: free_tier_def outcome_def [of w "(Ok _, _)"] tick_ticked split: list.split
        intro: answers_ticked [OF plan_tier_answers w])
qed

lemma user_tier_answers: "answers (store_GetTierInfoByUserID u) (user_tier u)"
  unfolding answers_def
proof (intro allI impI)
  fix w assume w: "no_faults w"
  have "store_GetTierInfoByUserID u w = (case latest_subscription u w of
        None \<Rightarrow> store_GetFreeTierInfo (ticked w)
      | Some s \<Rightarrow> (if su_Status s = ''active'' \<or> su_Status s = ''trialing''
                 then store_GetTierInfoByPriceID (su_PriceID s) (ticked w)
                 else store_GetFreeTierInfo (ticked w)))"
    using w by (auto simp: store_GetTierInfoByUserID_def store_GetSubscriptionByUserID_def row_or_def
        sql_get_no_faults go_defs latest_subscription_def split: list.splits)
  then show "outcome w (store_GetTierInfoByUserID u w) (user_tier u w)"
    by (auto simp: user_tier_def split: option.split
        intro: answers_ticked [OF plan_tier_answers w] answers_ticked [OF free_tier_answers w])
qed

lemma account_tier_answers: "answers (store_GetTierInfoByAccountID a) (account_tier a)"
  unfolding answers_def
proof (intro allI impI)
  fix w assume w: "no_faults w"
  have "store_GetTierInfoByAccountID a w =
      (case filter (\<lambda>x. ac_ID x = a \<and> ac_DeletedAt x = None) (t_accounts w) of
        [] \<Rightarrow> (Err (Wrap ''failed to get account'' ErrNotFound), ticked w)
      | x # xs \<Rightarrow> store_GetTierInfoByUserID (ac_OwnerUserID x) (ticked w))"
    using w by (auto simp: store_GetTierInfoByAccountID_def store_GetAccountByID_def row_or_def
        sql_get_no_faults go_defs split: list.splits)
  then show "outcome w (store_GetTierInfoByAccountID a w) (account_tier a w)"
    by (auto simp: account_tier_def outcome_def [of w "(Err _, _)"] tick_ticked split: list.split
        intro: answers_ticked [OF user_tier_answers w])
qed

lemma answers_map:
  assumes "answers m spec" "\<And>w. m' w = (case m w of (Ok x, w') \<Rightarrow> (Ok (f x), w')
      | (Err e, w') \<Rightarrow> (Err e, w') | (Panic p, w') \<Rightarrow> (Panic p, w'))"
  shows "answers m' (\<lambda>w. map_option f (spec w))"
  unfolding answers_def
proof (intro allI impI)
  fix w assume "no_faults w"
  then have "outcome w (m w) (spec w)" using assms(1) by (simp add: answers_def)
  then show "outcome w (m' w) (map_option f (spec w))"
    unfolding assms(2) outcome_def by (cases "m w"; cases "fst (m w)"; cases "spec w") auto
qed

lemma feature_answers:
  "answers (HasFeatureByAccountID a n) (\<lambda>w. map_option (\<lambda>ti. has_feature (st_Features ti) n) (account_tier a w))"
  by (rule answers_map [OF account_tier_answers])
     (auto simp: HasFeatureByAccountID_def GetTierInfoByAccountID_def go_defs convertStoreTierInfo_def
       Let_def split: prod.splits result.splits)

lemma limit_answers:
  "answers (GetLimitByAccountID a n) (\<lambda>w. map_option (\<lambda>ti. limit_of (st_Limits ti) n) (account_tier a w))"
  by (rule answers_map [OF account_tier_answers])
     (auto simp: GetLimitByAccountID_def GetTierInfoByAccountID_def go_defs convertStoreTierInfo_def
       Let_def split: prod.splits result.splits)


section \<open>Properties\<close>

text \<open>C11: The feature and limit gates compute the specification: with no database fault,
  HasFeatureByAccountID and GetLimitByAccountID return the feature flag and the limit of the
  account's tier, an error exactly when the account has no tier, and change nothing.\<close>

theorem tier_gates_refine:
  assumes "no_faults w"
  shows "outcome w (HasFeatureByAccountID a n w)
      (map_option (\<lambda>ti. has_feature (st_Features ti) n) (account_tier a w)) \<and>
    outcome w (GetLimitByAccountID a n w)
      (map_option (\<lambda>ti. limit_of (st_Limits ti) n) (account_tier a w))"
  using feature_answers limit_answers assms by (simp add: answers_def)

theorem tier_gates_refine_witness:
  "outcome sample_world (HasFeatureByAccountID 1 ''visual_form_builder'' sample_world) (Some True) \<and>
   outcome sample_world (GetLimitByAccountID 1 ''leads'' sample_world) (Some (Some 200))"
proof -
  have "account_tier 1 sample_world = Some getDefaultFreeTier"
    by (simp add: account_tier_def user_tier_def latest_subscription_def free_tier_def live_prices_def
        sample_account_def sample_world_def empty_world_def)
  then show ?thesis
    using tier_gates_refine [OF sample_world_no_faults, of 1 "''visual_form_builder''"]
      tier_gates_refine [OF sample_world_no_faults, of 1 "''leads''"]
    by (simp add: getDefaultFreeTier_def has_feature_def limit_of_def)
qed

definition sample_lapsed :: world where
  "sample_lapsed = sample_world\<lparr>t_subscriptions := [
     \<lparr>su_ID = 5, su_UserID = 2, su_PriceID = 7, su_StripeID = ''s'', su_Status = ''active'',
      su_StartDate = 0, su_EndDate = 0, su_NextBillingDate = 0, su_CreatedAt = 1\<rparr>,
     \<lparr>su_ID = 6, su_UserID = 2, su_PriceID = 7, su_StripeID = ''t'', su_Status = ''canceled'',
      su_StartDate = 0, su_EndDate = 0, su_NextBillingDate = 0, su_CreatedAt = 2\<rparr>]\<rparr>"

text \<open>A user whose latest subscription is neither active nor trialing is on the free tier,
  whatever older subscriptions say; without a free price that is the built-in default.\<close>

theorem lapsed_subscription_is_free:
  assumes "no_faults w" "latest_subscription u w = Some s"
    "su_Status s \<notin> {''active'', ''trialing''}"
  shows "case free_tier w of
      None \<Rightarrow> (\<exists>e. fst (store_GetTierInfoByUserID u w) = Err e)
    | Some ti \<Rightarrow> fst (store_GetTierInfoByUserID u w) = Ok ti"
proof -
  have "user_tier u w = free_tier w" using assms by (simp add: user_tier_def)
  then have "outcome w (store_GetTierInfoByUserID u w) (free_tier w)"
    using user_tier_answers [of u] assms(1) unfolding answers_def by fastforce
  then show ?thesis by (auto simp: outcome_def split: option.splits)
qed

theorem lapsed_subscription_is_free_witness:
  "fst (store_GetTierInfoByUserID 2 sample_lapsed) = Ok getDefaultFreeTier"
proof -
  have nf: "no_faults sample_lapsed" using sample_world_no_faults by (simp add: sample_lapsed_def no_faults_def)
  have f: "free_tier sample_lapsed = Some getDefaultFreeTier"
    by (simp add: free_tier_def live_prices_def sample_lapsed_def sample_world_def empty_world_def)
  obtain s where "latest_subscription 2 sample_lapsed = Some s" "su_Status s = ''canceled''"
    by (simp add: latest_subscription_def sample_lapsed_def)
  then show ?thesis using lapsed_subscription_is_free [OF nf] f by fastforce
qed

definition sample_deleted_limit :: world where
  "sample_deleted_limit = sample_world\<lparr>
     t_prices := [\<lparr>pr_ID = 7, pr_ProductID = 8, pr_StripeID = ''p'', pr_Description = ''free'',
        pr_UnitAmount = None, pr_Currency = None, pr_Interval = None, pr_CreatedAt = '''', pr_UpdatedAt = '''',
        pr_DeletedAt = None\<rparr>],
     t_features := [\<lparr>ft_ID = 3, ft_Name = ''leads'', ft_Description = None, ft_CreatedAt = 0, ft_UpdatedAt = 0, ft_DeletedAt = None\<rparr>],
     t_limits := [\<lparr>lm_ID = 4, lm_FeatureID = 3, lm_LimitName = ''leads'', lm_LimitValue = 200,
        lm_CreatedAt = 0, lm_UpdatedAt = 0, lm_DeletedAt = Some 9\<rparr>],
     t_plan_feature_limits := [\<lparr>pl_PlanID = 7, pl_FeatureID = 3, pl_LimitID = Some 4,
        pl_Enabled = True, pl_CreatedAt = 0, pl_UpdatedAt = 0, pl_DeletedAt = None\<rparr>]\<rparr>"

lemma dropped_feature:
  assumes "\<forall>pfl\<in>set (t_plan_feature_limits w). \<forall>f\<in>set (t_features w).
      pl_PlanID pfl = p \<and> pl_FeatureID pfl = ft_ID f \<and> ft_Name f = n \<longrightarrow>
      (\<exists>l\<in>set (t_limits w). Some (lm_ID l) = pl_LimitID pfl) \<and>
      (\<forall>l\<in>set (t_limits w). Some (lm_ID l) = pl_LimitID pfl \<longrightarrow> lm_DeletedAt l \<noteq> None)"
  shows "filter (\<lambda>f. pf_FeatureName f = n) (plan_features p w) = []"
proof -
  have "pf_FeatureName x \<noteq> n" if "x \<in> set (plan_features p w)" for x
  proof
    assume n: "pf_FeatureName x = n"
    from that obtain pfl f where pf: "pfl \<in> set (t_plan_feature_limits w)" "pl_PlanID pfl = p"
      "f \<in> set (t_features w)" "ft_ID f = pl_FeatureID pfl" and
      x: "x \<in> set (case filter (\<lambda>l. Some (lm_ID l) = pl_LimitID pfl) (t_limits w) of
          [] \<Rightarrow> [\<lparr>pf_FeatureName = ft_Name f, pf_Enabled = pl_Enabled pfl, pf_LimitValue = None\<rparr>]
        | l # ls \<Rightarrow> map (\<lambda>l. \<lparr>pf_FeatureName = ft_Name f, pf_Enabled = pl_Enabled pfl,
                           pf_LimitValue = Some (lm_LimitValue l)\<rparr>)
                  (filter (\<lambda>l. lm_DeletedAt l = None) (l # ls)))"
      by (fastforce simp: plan_features_def)
    let ?ls = "filter (\<lambda>l. Some (lm_ID l) = pl_LimitID pfl) (t_limits w)"
    have "ft_Name f = n" using x n by (auto split: list.splits if_splits)
    then have "?ls \<noteq> []" "\<forall>l\<in>set ?ls. lm_DeletedAt l \<noteq> None"
      using assms pf by (fastforce simp: filter_empty_conv)+
    then obtain l ls where "?ls = l # ls" "filter (\<lambda>l. lm_DeletedAt l = None) (l # ls) = []"
      by (cases ?ls) (auto simp: filter_empty_conv)
    then show False using x by (simp split: if_splits)
  qed
  then show ?thesis by (auto simp: filter_empty_conv)
qed

text \<open>A plan whose rows for a resource all point to soft-deleted limits has no limit on that
  resource: GetLimit returns nil, which every caller reads as unlimited.\<close>

theorem deleted_limit_is_unlimited:
  assumes "no_faults w" "live_prices (\<lambda>x. pr_ID x = p) w \<noteq> []" "n \<in> set resourceFeatures"
    "\<forall>pfl\<in>set (t_plan_feature_limits w). \<forall>f\<in>set (t_features w).
      pl_PlanID pfl = p \<and> pl_FeatureID pfl = ft_ID f \<and> ft_Name f = n \<longrightarrow>
      (\<exists>l\<in>set (t_limits w). Some (lm_ID l) = pl_LimitID pfl) \<and>
      (\<forall>l\<in>set (t_limits w). Some (lm_ID l) = pl_LimitID pfl \<longrightarrow> lm_DeletedAt l \<noteq> None)"
  shows "fst (store_GetLimit p n w) = Ok None"
proof -
  obtain ti where ti: "plan_tier p w = Some ti" "map_of (st_Limits ti) n = None"
    using assms(2,3) dropped_feature [OF assms(4)]
    by (cases "live_prices (\<lambda>x. pr_ID x = p) w") (auto simp: plan_tier_def map_of_limits_fold)
  obtain w' where "store_GetTierInfoByPriceID p w = (Ok ti, w')"
    using answersD [OF plan_tier_answers assms(1) ti(1)] by blast
  then show ?thesis using ti(2) by (simp add: store_GetLimit_def limit_of_def go_defs)
qed

theorem deleted_limit_is_unlimited_witness:
  "fst (store_GetLimit 7 ''leads'' sample_deleted_limit) = Ok None"
  by (rule deleted_limit_is_unlimited)
     (use sample_world_no_faults in \<open>simp_all add: sample_deleted_limit_def no_faults_def
       live_prices_def resourceFeatures_def\<close>)

end
