(* ===== verification/Access.thy ===== *)
theory Access
  imports CampaignStore Tiers
begin

text \<open>
  The steps the processors share: translating the store's ErrNotFound, and the check that a
  campaign exists and belongs to the account, which every campaign-scoped handler makes first.
\<close>

text \<open>\<^verbatim>\<open>if errors.Is(err, store.ErrNotFound) { return ErrX }; return err\<close>.\<close>

definition not_found_as :: "sentinel \<Rightarrow> ('s, 'a) go \<Rightarrow> ('s, 'a) go" where
  "not_found_as s m = tryE m (\<lambda>e. if errors_Is e ErrNotFound then failE (Sentinel s) else failE e) retE"

text \<open>The check with the processor's own sentinels for a missing and for a foreign campaign.\<close>

definition owned_campaign :: "sentinel \<Rightarrow> sentinel \<Rightarrow> uuid \<Rightarrow> uuid \<Rightarrow> (world, Campaign) go" where
  "owned_campaign missing foreign accountID campaignID =
     bindE (not_found_as missing (store_GetCampaignByID campaignID)) (\<lambda>campaign.
     if cp_AccountID campaign \<noteq> accountID then failE (Sentinel foreign) else retE campaign)"

section \<open>Lemmas\<close>

lemma not_found_as_Ok: "not_found_as e m w = (Ok x, w') \<longleftrightarrow> m w = (Ok x, w')"
  by (auto simp: not_found_as_def ok_simps split: if_splits)

lemma not_found_as_reads [reads]: "moves tick m \<Longrightarrow> moves tick (not_found_as e m)"
  unfolding not_found_as_def by (intro tick_rules moves_if) auto

text \<open>The account owns a live campaign.\<close>

definition owns :: "uuid \<Rightarrow> uuid \<Rightarrow> world \<Rightarrow> bool" where
  "owns accountID campaignID w = (\<exists>r\<in>set (t_campaigns w).
     cp_ID r = campaignID \<and> cp_AccountID r = accountID \<and> cp_DeletedAt r = None)"

lemma owned_campaign_Ok:
  assumes "owned_campaign e1 e2 a c w = (Ok cp, w')"
  shows "owns a c w" "w' = ticked w" "cp_ID cp = c" "cp_AccountID cp = a"
proof -
  have g: "store_GetCampaignByID c w = (Ok cp, w')" "cp_AccountID cp = a"
    using assms by (auto simp: owned_campaign_def ok_simps not_found_as_Ok split: if_splits)
  show "w' = ticked w" "cp_ID cp = c" "cp_AccountID cp = a"
    using GetCampaignByID_Ok(1,7) [OF g(1)] g(2) by simp_all
  obtain r where r: "r \<in> set (t_campaigns w)" "cp_ID r = c" "cp_DeletedAt r = None"
    "cp = campaign_view (ticked w) r"
    using GetCampaignByID_Ok(6) [OF g(1)] by blast
  then have "cp_AccountID r = a" using g(2) by simp
  then show "owns a c w" unfolding owns_def using r by blast
qed

lemma owned_campaign_reads [reads]: "moves tick (owned_campaign e1 e2 a c)"
  unfolding owned_campaign_def by (intro tick_rules reads)

end
