(* ===== verification/WaitlistStore.thy ===== *)
theory WaitlistStore
  imports CampaignStore
begin

text \<open>
  The waitlist users: store/waitlist_user.go and store/user_channel_codes.go. The listing and
  counting operations build their SQL text at run time, numbering the placeholders by hand; the
  builders are modelled as they are written, producing conditions that refer to placeholders and
  the argument list beside them, and evaluated against the table. The lemmas compare the result
  with a filter written directly over the parameters.
\<close>

record CreateWaitlistUserParams =
  cwp_CampaignID :: uuid
  cwp_Email :: string
  cwp_FirstName :: "string option"
  cwp_LastName :: "string option"
  cwp_ReferralCode :: string
  cwp_ReferredByID :: "uuid option"
  cwp_Position :: int
  cwp_OriginalPosition :: int
  cwp_Source :: "string option"
  cwp_UTMSource :: "string option"
  cwp_UTMMedium :: "string option"
  cwp_UTMCampaign :: "string option"
  cwp_UTMTerm :: "string option"
  cwp_UTMContent :: "string option"
  cwp_IPAddress :: "string option"
  cwp_UserAgent :: "string option"
  cwp_CountryCode :: "string option"
  cwp_City :: "string option"
  cwp_DeviceFingerprint :: "string option"
  cwp_Country :: "string option"
  cwp_Region :: "string option"
  cwp_RegionCode :: "string option"
  cwp_PostalCode :: "string option"
  cwp_UserTimezone :: "string option"
  cwp_Latitude :: "rat option"
  cwp_Longitude :: "rat option"
  cwp_MetroCode :: "string option"
  cwp_DeviceType :: "string option"
  cwp_DeviceOS :: "string option"
  cwp_Metadata :: jsonb
  cwp_MarketingConsent :: bool
  cwp_TermsAccepted :: bool
  cwp_VerificationToken :: "string option"

record UpdateWaitlistUserParams =
  uwp_FirstName :: "string option"
  uwp_LastName :: "string option"
  uwp_Status :: "string option"
  uwp_Position :: "int option"
  uwp_Points :: "int option"
  uwp_Metadata :: jsonb

record ListWaitlistUsersParams =
  pgp_Limit :: int
  pgp_Offset :: int

record SearchWaitlistUsersParams =
  swp_CampaignID :: uuid
  swp_Query :: "string option"
  swp_Statuses :: "string list"
  swp_Verified :: "bool option"
  swp_MinReferrals :: "int option"
  swp_DateFrom :: "string option"
  swp_DateTo :: "string option"
  swp_SortBy :: string
  swp_SortOrder :: string
  swp_Limit :: int
  swp_Offset :: int

record ListWaitlistUsersWithFiltersParams =
  lwp_CampaignID :: uuid
  lwp_Status :: "string option"
  lwp_Verified :: "bool option"
  lwp_SortBy :: string
  lwp_SortOrder :: string
  lwp_Limit :: int
  lwp_Offset :: int

record ExtendedListWaitlistUsersParams =
  ewp_CampaignID :: uuid
  ewp_Statuses :: "string list"
  ewp_Sources :: "string list"
  ewp_HasReferrals :: "bool option"
  ewp_MinPosition :: "int option"
  ewp_MaxPosition :: "int option"
  ewp_DateFrom :: "time option"
  ewp_DateTo :: "time option"
  ewp_CustomFields :: "(string \<times> string) list"
  ewp_SortBy :: string
  ewp_SortOrder :: string
  ewp_Limit :: int
  ewp_Offset :: int

record BasicListWaitlistUsersParams =
  bwp_CampaignID :: uuid
  bwp_Statuses :: "string list"
  bwp_Sources :: "string list"
  bwp_HasReferrals :: "bool option"
  bwp_MinPosition :: "int option"
  bwp_MaxPosition :: "int option"
  bwp_DateFrom :: "time option"
  bwp_DateTo :: "time option"
  bwp_SortBy :: string
  bwp_SortOrder :: string
  bwp_Limit :: int
  bwp_Offset :: int

section \<open>Writing\<close>

definition varchar :: "nat \<Rightarrow> string option \<Rightarrow> bool" where
  "varchar n v = (case v of None \<Rightarrow> True | Some s \<Rightarrow> length s \<le> n)"

text \<open>The CHECK, enum and varchar constraints of one row.\<close>

definition waitlist_row_ok :: "WaitlistUser \<Rightarrow> bool" where
  "waitlist_row_ok u =
     ((wu_Position u = -1 \<or> 0 < wu_Position u) \<and>
      enum_ok sql_waitlist_user_status (Some (wu_Status u)) \<and> enum_ok sql_user_source (wu_Source u) \<and>
      enum_ok sql_device_type (wu_DeviceType u) \<and> enum_ok sql_device_os (wu_DeviceOS u) \<and>
      varchar 255 (Some (wu_Email u)) \<and> varchar 100 (wu_FirstName u) \<and> varchar 100 (wu_LastName u) \<and>
      varchar 50 (Some (wu_ReferralCode u)) \<and> varchar 255 (wu_VerificationToken u) \<and>
      varchar 255 (wu_UTMSource u) \<and> varchar 255 (wu_UTMMedium u) \<and> varchar 255 (wu_UTMCampaign u) \<and>
      varchar 255 (wu_UTMTerm u) \<and> varchar 255 (wu_UTMContent u) \<and> varchar 2 (wu_CountryCode u) \<and>
      varchar 100 (wu_City u) \<and> varchar 255 (wu_DeviceFingerprint u) \<and> varchar 100 (wu_Country u) \<and>
      varchar 100 (wu_Region u) \<and> varchar 10 (wu_RegionCode u) \<and> varchar 20 (wu_PostalCode u) \<and>
      varchar 50 (wu_UserTimezone u) \<and> varchar 10 (wu_MetroCode u))"

definition waitlist_check :: "WaitlistUser list \<Rightarrow> string option" where
  "waitlist_check rows = (if list_all waitlist_row_ok rows then None else Some ''waitlist_users'')"

definition waitlist_constraints :: "world \<Rightarrow> WaitlistUser list \<Rightarrow> WaitlistUser \<Rightarrow> string option" where
  "waitlist_constraints w rows u =
     (if wu_ID u \<in> set (map wu_ID rows) then Some ''waitlist_users_pkey''
      else if \<not> list_ex (\<lambda>c. cp_ID c = wu_CampaignID u) (t_campaigns w)
        then Some ''waitlist_users_campaign_id_fkey''
      else if list_ex (\<lambda>r. wu_CampaignID r = wu_CampaignID u \<and> wu_Email r = wu_Email u) rows
        then Some ''waitlist_users_campaign_id_email_key''
      else if list_ex (\<lambda>r. wu_ReferralCode r = wu_ReferralCode u) rows
        then Some ''waitlist_users_referral_code_key''
      else if (case wu_ReferredByID u of None \<Rightarrow> False | Some i \<Rightarrow> i \<notin> set (map wu_ID rows))
        then Some ''waitlist_users_referred_by_id_fkey''
      else if \<not> waitlist_row_ok u then Some ''waitlist_users''
      else None)"

definition new_waitlist_user :: "CreateWaitlistUserParams \<Rightarrow> uuid \<Rightarrow> time \<Rightarrow> WaitlistUser" where
  "new_waitlist_user p i now = \<lparr>
     wu_ID = i, wu_CampaignID = cwp_CampaignID p, wu_Email = cwp_Email p,
     wu_FirstName = cwp_FirstName p, wu_LastName = cwp_LastName p, wu_Status = WaitlistUserStatusPending,
     wu_Position = cwp_Position p, wu_OriginalPosition = cwp_OriginalPosition p,
     wu_ReferralCode = cwp_ReferralCode p, wu_ReferredByID = cwp_ReferredByID p, wu_ReferralCount = 0,
     wu_VerifiedReferralCount = 0, wu_Points = 0, wu_EmailVerified = False,
     wu_VerificationToken = cwp_VerificationToken p, wu_VerificationSentAt = None, wu_VerifiedAt = None,
     wu_Source = cwp_Source p, wu_UTMSource = cwp_UTMSource p, wu_UTMMedium = cwp_UTMMedium p,
     wu_UTMCampaign = cwp_UTMCampaign p, wu_UTMTerm = cwp_UTMTerm p, wu_UTMContent = cwp_UTMContent p,
     wu_IPAddress = cwp_IPAddress p, wu_UserAgent = cwp_UserAgent p, wu_CountryCode = cwp_CountryCode p,
     wu_City = cwp_City p, wu_DeviceFingerprint = cwp_DeviceFingerprint p, wu_Country = cwp_Country p,
     wu_Region = cwp_Region p, wu_RegionCode = cwp_RegionCode p, wu_PostalCode = cwp_PostalCode p,
     wu_UserTimezone = cwp_UserTimezone p, wu_Latitude = cwp_Latitude p, wu_Longitude = cwp_Longitude p,
     wu_MetroCode = cwp_MetroCode p, wu_DeviceType = cwp_DeviceType p, wu_DeviceOS = cwp_DeviceOS p,
     wu_Metadata = cwp_Metadata p, wu_MarketingConsent = cwp_MarketingConsent p,
     wu_MarketingConsentAt = None, wu_TermsAccepted = cwp_TermsAccepted p, wu_TermsAcceptedAt = None,
     wu_LastActivityAt = None, wu_ShareCount = 0, wu_CreatedAt = now, wu_UpdatedAt = now,
     wu_DeletedAt = None\<rparr>"

definition store_CreateWaitlistUser :: "CreateWaitlistUserParams \<Rightarrow> (world, WaitlistUser) go" where
  "store_CreateWaitlistUser p = wrapE ''failed to create waitlist user''
     (sql_insert waitlist_users_tbl waitlist_constraints (new_waitlist_user p))"

definition live_user :: "uuid \<Rightarrow> WaitlistUser \<Rightarrow> bool" where
  "live_user userID u = (wu_ID u = userID \<and> wu_DeletedAt u = None)"

definition store_UpdateWaitlistUser :: "uuid \<Rightarrow> UpdateWaitlistUserParams \<Rightarrow> (world, WaitlistUser) go" where
  "store_UpdateWaitlistUser userID p = row_or ''failed to update waitlist user''
     (sql_update_returning waitlist_users_tbl waitlist_check (live_user userID)
        (\<lambda>w u. u\<lparr>wu_FirstName := coalesce_opt (uwp_FirstName p) (wu_FirstName u),
          wu_LastName := coalesce_opt (uwp_LastName p) (wu_LastName u),
          wu_Status := coalesce (uwp_Status p) (wu_Status u),
          wu_Position := coalesce (uwp_Position p) (wu_Position u),
          wu_Points := coalesce (uwp_Points p) (wu_Points u),
          wu_Metadata := coalesce_opt (uwp_Metadata p) (wu_Metadata u),
          wu_UpdatedAt := w_now w\<rparr>))"

definition store_VerifyWaitlistUserEmail :: "uuid \<Rightarrow> (world, unit) go" where
  "store_VerifyWaitlistUserEmail userID = affected_or ''failed to verify waitlist user email''
     (sql_update waitlist_users_tbl no_check (live_user userID)
        (\<lambda>w u. u\<lparr>wu_EmailVerified := True, wu_VerifiedAt := Some (w_now w),
          wu_VerificationToken := None, wu_UpdatedAt := w_now w\<rparr>))"

definition store_IncrementReferralCount :: "uuid \<Rightarrow> (world, unit) go" where
  "store_IncrementReferralCount userID = exec_or ''failed to increment referral count''
     (sql_update waitlist_users_tbl no_check (\<lambda>u. wu_ID u = userID)
        (\<lambda>w u. u\<lparr>wu_ReferralCount := wu_ReferralCount u + 1, wu_UpdatedAt := w_now w\<rparr>))"

definition store_IncrementVerifiedReferralCount :: "uuid \<Rightarrow> (world, unit) go" where
  "store_IncrementVerifiedReferralCount userID = exec_or ''failed to increment verified referral count''
     (sql_update waitlist_users_tbl no_check (\<lambda>u. wu_ID u = userID)
        (\<lambda>w u. u\<lparr>wu_VerifiedReferralCount := wu_VerifiedReferralCount u + 1, wu_UpdatedAt := w_now w\<rparr>))"

definition store_UpdateWaitlistUserPosition :: "uuid \<Rightarrow> int \<Rightarrow> (world, unit) go" where
  "store_UpdateWaitlistUserPosition userID position = exec_or ''failed to update waitlist user position''
     (sql_update waitlist_users_tbl waitlist_check (\<lambda>u. wu_ID u = userID)
        (\<lambda>w u. u\<lparr>wu_Position := position, wu_UpdatedAt := w_now w\<rparr>))"

definition store_UpdateLastActivity :: "uuid \<Rightarrow> (world, unit) go" where
  "store_UpdateLastActivity userID = exec_or ''failed to update last activity''
     (sql_update waitlist_users_tbl no_check (\<lambda>u. wu_ID u = userID)
        (\<lambda>w u. u\<lparr>wu_LastActivityAt := Some (w_now w), wu_UpdatedAt := w_now w\<rparr>))"

definition store_DeleteWaitlistUser :: "uuid \<Rightarrow> (world, unit) go" where
  "store_DeleteWaitlistUser userID = affected_or ''failed to delete waitlist user''
     (sql_update waitlist_users_tbl no_check (live_user userID)
        (\<lambda>w u. u\<lparr>wu_DeletedAt := Some (w_now w)\<rparr>))"

definition store_UpdateVerificationToken :: "uuid \<Rightarrow> string \<Rightarrow> (world, unit) go" where
  "store_UpdateVerificationToken userID token = affected_or ''failed to update verification token''
     (sql_update waitlist_users_tbl waitlist_check (live_user userID)
        (\<lambda>w u. u\<lparr>wu_VerificationToken := Some token, wu_VerificationSentAt := Some (w_now w),
          wu_UpdatedAt := w_now w\<rparr>))"

definition store_BlockWaitlistUser :: "uuid \<Rightarrow> (world, unit) go" where
  "store_BlockWaitlistUser userID = affected_or ''failed to block waitlist user''
     (sql_update waitlist_users_tbl no_check (live_user userID)
        (\<lambda>w u. u\<lparr>wu_Status := WaitlistUserStatusBlocked, wu_UpdatedAt := w_now w\<rparr>))"

text \<open>UPDATE ... FROM two parallel arrays; the ids are distinct keys of a Go map.\<close>

definition store_BulkUpdateWaitlistUserPositions :: "uuid list \<Rightarrow> int list \<Rightarrow> (world, unit) go" where
  "store_BulkUpdateWaitlistUserPositions userIDs positions =
     (if length userIDs \<noteq> length positions
      then failE (NewErr ''userIDs and positions must have same length'')
      else if userIDs = [] then retE ()
      else exec_or ''failed to bulk update waitlist user positions''
        (sql_update waitlist_users_tbl waitlist_check (\<lambda>u. wu_ID u \<in> set userIDs)
          (\<lambda>w u. u\<lparr>wu_Position := (case map_of (zip userIDs positions) (wu_ID u) of
               None \<Rightarrow> wu_Position u | Some p \<Rightarrow> p), wu_UpdatedAt := w_now w\<rparr>)))"

section \<open>Reading\<close>

definition users_where :: "(WaitlistUser \<Rightarrow> bool) \<Rightarrow> world \<Rightarrow> WaitlistUser list" where
  "users_where P w = filter (\<lambda>u. P u \<and> wu_DeletedAt u = None) (t_waitlist_users w)"

definition store_GetWaitlistUserByID :: "uuid \<Rightarrow> (world, WaitlistUser) go" where
  "store_GetWaitlistUserByID userID = row_or ''failed to get waitlist user by id''
     (sql_get (users_where (\<lambda>u. wu_ID u = userID)))"

definition store_GetWaitlistUserByEmail :: "uuid \<Rightarrow> string \<Rightarrow> (world, WaitlistUser) go" where
  "store_GetWaitlistUserByEmail campaignID email = row_or ''failed to get waitlist user by email''
     (sql_get (users_where (\<lambda>u. wu_CampaignID u = campaignID \<and> wu_Email u = email)))"

definition store_GetWaitlistUserByReferralCode :: "string \<Rightarrow> (world, WaitlistUser) go" where
  "store_GetWaitlistUserByReferralCode code = row_or ''failed to get waitlist user by referral code''
     (sql_get (users_where (\<lambda>u. wu_ReferralCode u = code)))"

definition store_GetWaitlistUserByVerificationToken :: "string \<Rightarrow> (world, WaitlistUser) go" where
  "store_GetWaitlistUserByVerificationToken token =
     row_or ''failed to get waitlist user by verification token''
     (sql_get (users_where (\<lambda>u. wu_VerificationToken u = Some token)))"

definition by_position :: "WaitlistUser list \<Rightarrow> WaitlistUser list" where
  "by_position = sort_Slice (\<lambda>a b. wu_Position a < wu_Position b)"

definition store_GetWaitlistUsersByCampaign ::
    "uuid \<Rightarrow> ListWaitlistUsersParams \<Rightarrow> (world, WaitlistUser list) go" where
  "store_GetWaitlistUsersByCampaign campaignID p = wrapE ''failed to get waitlist users by campaign''
     (sql_page (\<lambda>w. by_position (users_where (\<lambda>u. wu_CampaignID u = campaignID) w))
        (pgp_Limit p) (pgp_Offset p))"

definition store_GetWaitlistUsersByStatus :: "uuid \<Rightarrow> string \<Rightarrow> (world, WaitlistUser list) go" where
  "store_GetWaitlistUsersByStatus campaignID st = wrapE ''failed to get waitlist users by status''
     (sql_query (\<lambda>w. by_position
        (users_where (\<lambda>u. wu_CampaignID u = campaignID \<and> wu_Status u = st) w)))"

definition store_CountWaitlistUsersByCampaign :: "uuid \<Rightarrow> (world, int) go" where
  "store_CountWaitlistUsersByCampaign campaignID = wrapE ''failed to count waitlist users''
     (sql_query (\<lambda>w. int (length (users_where (\<lambda>u. wu_CampaignID u = campaignID) w))))"

definition store_CountWaitlistUsersByStatus :: "uuid \<Rightarrow> string \<Rightarrow> (world, int) go" where
  "store_CountWaitlistUsersByStatus campaignID st = wrapE ''failed to count waitlist users by status''
     (sql_query (\<lambda>w. int (length
        (users_where (\<lambda>u. wu_CampaignID u = campaignID \<and> wu_Status u = st) w))))"

definition store_CountRecentSignupsByIP :: "uuid \<Rightarrow> string \<Rightarrow> time \<Rightarrow> (world, int) go" where
  "store_CountRecentSignupsByIP campaignID ip since = wrapE ''failed to count recent signups by IP''
     (sql_query (\<lambda>w. int (length (users_where (\<lambda>u. wu_CampaignID u = campaignID \<and>
        wu_IPAddress u = Some ip \<and> since < wu_CreatedAt u) w))))"

text \<open>ORDER BY created_at ASC, id ASC; a uuid orders by its bytes.\<close>

definition store_GetAllWaitlistUsersForPositionCalculation :: "uuid \<Rightarrow> (world, WaitlistUser list) go" where
  "store_GetAllWaitlistUsersForPositionCalculation campaignID =
     wrapE ''failed to get all waitlist users for position calculation''
     (sql_query (\<lambda>w. sort_Slice (\<lambda>a b. (wu_CreatedAt a, uint (wu_ID a)) < (wu_CreatedAt b, uint (wu_ID b)))
        (users_where (\<lambda>u. wu_CampaignID u = campaignID) w)))"

section \<open>Queries built at run time\<close>

datatype arg =
    AUuid uuid
  | AStr string
  | AStrs "string list"
  | ABool bool
  | AInt int
  | ATime time
  | ATimeText string

text \<open>The conditions the builders append, with the number of the placeholder in each.\<close>

datatype cond =
    CCampaign nat
  | CNotDeleted
  | CSearch nat
  | CStatusAny nat
  | CStatusEq nat
  | CSourceAny nat
  | CVerified nat
  | CMinVerifiedReferrals nat
  | CReferralCountPos
  | CPosGe nat
  | CPosLe nat
  | CCreatedGe nat
  | CCreatedLe nat
  | CMeta nat nat
  | CStatusIn "nat list"
  | CSourceIn "nat list"
  | CReferralCountZero
  | CReferralCountGe nat

record query =
  qb_conds :: "cond list"
  qb_args :: "arg list"
  qb_count :: nat

definition lookup_arg :: "arg list \<Rightarrow> nat \<Rightarrow> arg option" where
  "lookup_arg args n = (if 1 \<le> n \<and> n \<le> length args then Some (args ! (n - 1)) else None)"

definition arg_time :: "world \<Rightarrow> arg option \<Rightarrow> time option" where
  "arg_time w a = (case a of
       Some (ATime t) \<Rightarrow> Some t
     | Some (ATimeText s) \<Rightarrow> w_time_Parse w ''timestamptz'' s
     | _ \<Rightarrow> None)"

text \<open>\<^verbatim>\<open>metadata ->> key\<close>: the text of the value, NULL for a missing key or a JSON null.\<close>

definition json_field :: "world \<Rightarrow> jsonb \<Rightarrow> string \<Rightarrow> string option" where
  "json_field w m k = (case jget m k of
       None \<Rightarrow> None
     | Some JNull \<Rightarrow> None
     | Some (JStr s) \<Rightarrow> Some s
     | Some v \<Rightarrow> Some (w_json_text w v))"

definition ilike :: "world \<Rightarrow> string \<Rightarrow> string option \<Rightarrow> bool" where
  "ilike w pat v = (case v of None \<Rightarrow> False | Some s \<Rightarrow> w_ilike w pat s)"

text \<open>Whether PostgreSQL accepts the argument a condition refers to.\<close>

fun cond_ok :: "world \<Rightarrow> arg list \<Rightarrow> cond \<Rightarrow> bool" where
  "cond_ok w as (CCampaign n) = (case lookup_arg as n of Some (AUuid c) \<Rightarrow> True | _ \<Rightarrow> False)"
| "cond_ok w as CNotDeleted = True"
| "cond_ok w as (CSearch n) = (case lookup_arg as n of Some (AStr s) \<Rightarrow> True | _ \<Rightarrow> False)"
| "cond_ok w as (CStatusAny n) = (case lookup_arg as n of
     Some (AStrs ss) \<Rightarrow> set ss \<subseteq> set sql_waitlist_user_status | _ \<Rightarrow> False)"
| "cond_ok w as (CStatusEq n) = (case lookup_arg as n of
     Some (AStr s) \<Rightarrow> s \<in> set sql_waitlist_user_status | _ \<Rightarrow> False)"
| "cond_ok w as (CSourceAny n) = (case lookup_arg as n of
     Some (AStrs ss) \<Rightarrow> set ss \<subseteq> set sql_user_source | _ \<Rightarrow> False)"
| "cond_ok w as (CVerified n) = (case lookup_arg as n of Some (ABool b) \<Rightarrow> True | _ \<Rightarrow> False)"
| "cond_ok w as (CMinVerifiedReferrals n) = (case lookup_arg as n of Some (AInt i) \<Rightarrow> True | _ \<Rightarrow> False)"
| "cond_ok w as CReferralCountPos = True"
| "cond_ok w as (CPosGe n) = (case lookup_arg as n of Some (AInt i) \<Rightarrow> True | _ \<Rightarrow> False)"
| "cond_ok w as (CPosLe n) = (case lookup_arg as n of Some (AInt i) \<Rightarrow> True | _ \<Rightarrow> False)"
| "cond_ok w as (CCreatedGe n) = (arg_time w (lookup_arg as n) \<noteq> None)"
| "cond_ok w as (CCreatedLe n) = (arg_time w (lookup_arg as n) \<noteq> None)"
| "cond_ok w as (CMeta n m) = (case (lookup_arg as n, lookup_arg as m) of
     (Some (AStr k), Some (AStr v)) \<Rightarrow> True | _ \<Rightarrow> False)"
| "cond_ok w as (CStatusIn ns) = list_all (\<lambda>n. case lookup_arg as n of
     Some (AStr s) \<Rightarrow> s \<in> set sql_waitlist_user_status | _ \<Rightarrow> False) ns"
| "cond_ok w as (CSourceIn ns) = list_all (\<lambda>n. case lookup_arg as n of
     Some (AStr s) \<Rightarrow> s \<in> set sql_user_source | _ \<Rightarrow> False) ns"
| "cond_ok w as CReferralCountZero = True"
| "cond_ok w as (CReferralCountGe n) = (case lookup_arg as n of Some (AInt i) \<Rightarrow> True | _ \<Rightarrow> False)"

text \<open>Whether a row satisfies a condition (NULL counts as false).\<close>

fun cond_holds :: "world \<Rightarrow> arg list \<Rightarrow> cond \<Rightarrow> WaitlistUser \<Rightarrow> bool" where
  "cond_holds w as (CCampaign n) u = (case lookup_arg as n of Some (AUuid c) \<Rightarrow> wu_CampaignID u = c | _ \<Rightarrow> False)"
| "cond_holds w as CNotDeleted u = (wu_DeletedAt u = None)"
| "cond_holds w as (CSearch n) u = (case lookup_arg as n of
     Some (AStr s) \<Rightarrow> ilike w s (Some (wu_Email u)) \<or> ilike w s (wu_FirstName u) \<or> ilike w s (wu_LastName u)
   | _ \<Rightarrow> False)"
| "cond_holds w as (CStatusAny n) u = (case lookup_arg as n of Some (AStrs ss) \<Rightarrow> wu_Status u \<in> set ss | _ \<Rightarrow> False)"
| "cond_holds w as (CStatusEq n) u = (case lookup_arg as n of Some (AStr s) \<Rightarrow> wu_Status u = s | _ \<Rightarrow> False)"
| "cond_holds w as (CSourceAny n) u = (case lookup_arg as n of
     Some (AStrs ss) \<Rightarrow> (case wu_Source u of None \<Rightarrow> False | Some s \<Rightarrow> s \<in> set ss) | _ \<Rightarrow> False)"
| "cond_holds w as (CVerified n) u = (case lookup_arg as n of Some (ABool b) \<Rightarrow> wu_EmailVerified u = b | _ \<Rightarrow> False)"
| "cond_holds w as (CMinVerifiedReferrals n) u = (case lookup_arg as n of
     Some (AInt i) \<Rightarrow> i \<le> wu_VerifiedReferralCount u | _ \<Rightarrow> False)"
| "cond_holds w as CReferralCountPos u = (0 < wu_ReferralCount u)"
| "cond_holds w as (CPosGe n) u = (case lookup_arg as n of Some (AInt i) \<Rightarrow> i \<le> wu_Position u | _ \<Rightarrow> False)"
| "cond_holds w as (CPosLe n) u = (case lookup_arg as n of Some (AInt i) \<Rightarrow> wu_Position u \<le> i | _ \<Rightarrow> False)"
| "cond_holds w as (CCreatedGe n) u = (case arg_time w (lookup_arg as n) of Some t \<Rightarrow> t \<le> wu_CreatedAt u | None \<Rightarrow> False)"
| "cond_holds w as (CCreatedLe n) u = (case arg_time w (lookup_arg as n) of Some t \<Rightarrow> wu_CreatedAt u \<le> t | None \<Rightarrow> False)"
| "cond_holds w as (CMeta n m) u = (case (lookup_arg as n, lookup_arg as m) of
     (Some (AStr k), Some (AStr v)) \<Rightarrow> ilike w v (json_field w (wu_Metadata u) k) | _ \<Rightarrow> False)"
| "cond_holds w as (CStatusIn ns) u = list_ex (\<lambda>n. lookup_arg as n = Some (AStr (wu_Status u))) ns"
| "cond_holds w as (CSourceIn ns) u = (case wu_Source u of
     None \<Rightarrow> False | Some s \<Rightarrow> list_ex (\<lambda>n. lookup_arg as n = Some (AStr s)) ns)"
| "cond_holds w as CReferralCountZero u = (wu_ReferralCount u = 0)"
| "cond_holds w as (CReferralCountGe n) u = (case lookup_arg as n of
     Some (AInt i) \<Rightarrow> i \<le> wu_ReferralCount u | _ \<Rightarrow> False)"

text \<open>The start of every query; one clause with its argument (\<^verbatim>\<open>argCount++\<close>, the clause with
  \<^verbatim>\<open>$argCount\<close>, the append); and a clause that needs no argument.\<close>

definition qb_start :: "uuid \<Rightarrow> query" where
  "qb_start campaignID =
     \<lparr>qb_conds = [CCampaign 1, CNotDeleted], qb_args = [AUuid campaignID], qb_count = 1\<rparr>"

definition qb_add :: "(nat \<Rightarrow> cond) \<Rightarrow> arg \<Rightarrow> query \<Rightarrow> query" where
  "qb_add c a q = (let n = qb_count q + 1 in
     q\<lparr>qb_conds := qb_conds q @ [c n], qb_args := qb_args q @ [a], qb_count := n\<rparr>)"

definition qb_plain :: "cond \<Rightarrow> query \<Rightarrow> query" where
  "qb_plain c q = q\<lparr>qb_conds := qb_conds q @ [c]\<rparr>"

definition qb_opt :: "(nat \<Rightarrow> cond) \<Rightarrow> ('a \<Rightarrow> arg) \<Rightarrow> 'a option \<Rightarrow> query \<Rightarrow> query" where
  "qb_opt c mk v q = (case v of None \<Rightarrow> q | Some x \<Rightarrow> qb_add c (mk x) q)"

definition qb_list :: "(nat \<Rightarrow> cond) \<Rightarrow> string list \<Rightarrow> query \<Rightarrow> query" where
  "qb_list c xs q = (if xs = [] then q else qb_add c (AStrs xs) q)"

text \<open>One iteration of the loop over the custom fields: two placeholders, counted in two steps.\<close>

definition qb_custom :: "string \<times> string \<Rightarrow> query \<Rightarrow> query" where
  "qb_custom kv q = (let n = qb_count q + 1 in
     q\<lparr>qb_conds := qb_conds q @ [CMeta n (n + 1)],
       qb_args := qb_args q @ [AStr (fst kv), AStr (''%'' @ snd kv @ ''%'')],
       qb_count := n + 1\<rparr>)"

definition has_referrals_clause :: "bool option \<Rightarrow> query \<Rightarrow> query" where
  "has_referrals_clause v q = (if v = Some True then qb_plain CReferralCountPos q else q)"

definition search_query :: "SearchWaitlistUsersParams \<Rightarrow> query" where
  "search_query p =
     qb_opt CCreatedLe ATimeText (swp_DateTo p)
    (qb_opt CCreatedGe ATimeText (swp_DateFrom p)
    (qb_opt CMinVerifiedReferrals AInt (swp_MinReferrals p)
    (qb_opt CVerified ABool (swp_Verified p)
    (qb_list CStatusAny (swp_Statuses p)
    ((case swp_Query p of
        None \<Rightarrow> id
      | Some s \<Rightarrow> (if s = '''' then id else qb_add CSearch (AStr (''%'' @ s @ ''%''))))
    (qb_start (swp_CampaignID p)))))))"

definition filters_query :: "uuid \<Rightarrow> string option \<Rightarrow> bool option \<Rightarrow> query" where
  "filters_query campaignID st verified =
     qb_opt CVerified ABool verified (qb_opt CStatusEq AStr st (qb_start campaignID))"

definition extended_query :: "ExtendedListWaitlistUsersParams \<Rightarrow> query" where
  "extended_query p =
     fold qb_custom (ewp_CustomFields p)
    (qb_opt CCreatedLe ATime (ewp_DateTo p)
    (qb_opt CCreatedGe ATime (ewp_DateFrom p)
    (qb_opt CPosLe AInt (ewp_MaxPosition p)
    (qb_opt CPosGe AInt (ewp_MinPosition p)
    (has_referrals_clause (ewp_HasReferrals p)
    (qb_list CSourceAny (ewp_Sources p)
    (qb_list CStatusAny (ewp_Statuses p)
    (qb_start (ewp_CampaignID p)))))))))"

definition basic_query :: "BasicListWaitlistUsersParams \<Rightarrow> query" where
  "basic_query p =
     qb_opt CCreatedLe ATime (bwp_DateTo p)
    (qb_opt CCreatedGe ATime (bwp_DateFrom p)
    (qb_opt CPosLe AInt (bwp_MaxPosition p)
    (qb_opt CPosGe AInt (bwp_MinPosition p)
    (has_referrals_clause (bwp_HasReferrals p)
    (qb_list CSourceAny (bwp_Sources p)
    (qb_list CStatusAny (bwp_Statuses p)
    (qb_start (bwp_CampaignID p))))))))"

text \<open>ORDER BY a column, in either direction; NULL sorts after every value.\<close>

definition source_rank :: "string option \<Rightarrow> nat" where
  "source_rank v = (case v of None \<Rightarrow> length sql_user_source + 1 | Some s \<Rightarrow> enum_rank sql_user_source s)"

definition column_less :: "string \<Rightarrow> (WaitlistUser \<Rightarrow> WaitlistUser \<Rightarrow> bool) option" where
  "column_less col =
     (if col = ''position'' then Some (\<lambda>a b. wu_Position a < wu_Position b)
      else if col = ''created_at'' then Some (\<lambda>a b. wu_CreatedAt a < wu_CreatedAt b)
      else if col = ''referral_count'' then Some (\<lambda>a b. wu_ReferralCount a < wu_ReferralCount b)
      else if col = ''email'' then Some (\<lambda>a b. wu_Email a < wu_Email b)
      else if col = ''status'' then Some (\<lambda>a b.
        enum_rank sql_waitlist_user_status (wu_Status a) < enum_rank sql_waitlist_user_status (wu_Status b))
      else if col = ''source'' then Some (\<lambda>a b. source_rank (wu_Source a) < source_rank (wu_Source b))
      else None)"

definition sort_column :: "string list \<Rightarrow> string \<Rightarrow> string" where
  "sort_column valid sortBy = (if sortBy \<noteq> '''' \<and> sortBy \<in> set valid then sortBy else ''position'')"

definition sort_desc :: "string \<Rightarrow> bool" where
  "sort_desc sortOrder = (sortOrder = ''desc'')"

definition listSortFields :: "string list" where
  "listSortFields = [''position'', ''created_at'', ''referral_count'', ''email'', ''status'', ''source'']"

definition filterSortFields :: "string list" where
  "filterSortFields = [''position'', ''created_at'', ''referral_count'']"

definition query_ok :: "world \<Rightarrow> query \<Rightarrow> bool" where
  "query_ok w q = list_all (cond_ok w (qb_args q)) (qb_conds q)"

definition query_rows :: "world \<Rightarrow> query \<Rightarrow> WaitlistUser list" where
  "query_rows w q =
     filter (\<lambda>u. list_all (\<lambda>c. cond_holds w (qb_args q) c u) (qb_conds q)) (t_waitlist_users w)"

text \<open>The SELECT: the two pagination arguments are appended and referred to by number.\<close>

definition run_list ::
    "(WaitlistUser \<Rightarrow> WaitlistUser) \<Rightarrow> query \<Rightarrow> string \<Rightarrow> bool \<Rightarrow> int \<Rightarrow> int \<Rightarrow> (world, WaitlistUser list) go" where
  "run_list columns q col desc lmt off = db (\<lambda>w.
     let args = qb_args q @ [AInt lmt, AInt off]; n = qb_count q + 1 in
     case (column_less col, lookup_arg args n, lookup_arg args (n + 1)) of
       (Some lt, Some (AInt l), Some (AInt o')) \<Rightarrow>
         (if \<not> list_all (cond_ok w args) (qb_conds q) then (Err (DbErr ''invalid argument''), w)
          else if l < 0 then (Err (DbErr ''LIMIT must not be negative''), w)
          else if o' < 0 then (Err (DbErr ''OFFSET must not be negative''), w)
          else (Ok (map columns (take (nat l) (drop (nat o')
            (sort_Slice (\<lambda>a b. if desc then lt b a else lt a b)
              (filter (\<lambda>u. list_all (\<lambda>c. cond_holds w args c u) (qb_conds q)) (t_waitlist_users w)))))), w))
     | _ \<Rightarrow> (Err (DbErr ''invalid query''), w))"

definition run_count :: "query \<Rightarrow> (world, int) go" where
  "run_count q = db (\<lambda>w.
     if query_ok w q then (Ok (int (length (query_rows w q))), w)
     else (Err (DbErr ''invalid argument''), w))"

text \<open>The columns of a free-tier listing, and of the channel-code lookup: what is not selected is nil.\<close>

definition basic_columns :: "WaitlistUser \<Rightarrow> WaitlistUser" where
  "basic_columns u = u\<lparr>wu_CountryCode := None, wu_City := None, wu_Country := None, wu_Region := None,
     wu_RegionCode := None, wu_PostalCode := None, wu_UserTimezone := None, wu_Latitude := None,
     wu_Longitude := None, wu_MetroCode := None, wu_DeviceType := None, wu_DeviceOS := None\<rparr>"

definition channel_columns :: "WaitlistUser \<Rightarrow> WaitlistUser" where
  "channel_columns u = u\<lparr>wu_Country := None, wu_Region := None, wu_RegionCode := None,
     wu_PostalCode := None, wu_UserTimezone := None, wu_Latitude := None, wu_Longitude := None,
     wu_MetroCode := None, wu_DeviceType := None, wu_DeviceOS := None\<rparr>"

definition store_SearchWaitlistUsers :: "SearchWaitlistUsersParams \<Rightarrow> (world, WaitlistUser list) go" where
  "store_SearchWaitlistUsers p = wrapE ''failed to search waitlist users''
     (run_list id (search_query p) (if swp_SortBy p \<noteq> '''' then swp_SortBy p else ''position'')
        (sort_desc (swp_SortOrder p)) (swp_Limit p) (swp_Offset p))"

definition store_GetWaitlistUsersByCampaignWithFilters ::
    "ListWaitlistUsersWithFiltersParams \<Rightarrow> (world, WaitlistUser list) go" where
  "store_GetWaitlistUsersByCampaignWithFilters p = wrapE ''failed to get waitlist users with filters''
     (run_list id (filters_query (lwp_CampaignID p) (lwp_Status p) (lwp_Verified p))
        (sort_column filterSortFields (lwp_SortBy p)) (sort_desc (lwp_SortOrder p))
        (lwp_Limit p) (lwp_Offset p))"

definition store_CountWaitlistUsersWithFilters ::
    "uuid \<Rightarrow> string option \<Rightarrow> bool option \<Rightarrow> (world, int) go" where
  "store_CountWaitlistUsersWithFilters campaignID st verified =
     wrapE ''failed to count waitlist users with filters''
     (run_count (filters_query campaignID st verified))"

definition store_ListWaitlistUsersWithExtendedFilters ::
    "ExtendedListWaitlistUsersParams \<Rightarrow> (world, WaitlistUser list) go" where
  "store_ListWaitlistUsersWithExtendedFilters p =
     wrapE ''failed to list waitlist users with extended filters''
     (run_list id (extended_query p) (sort_column listSortFields (ewp_SortBy p))
        (sort_desc (ewp_SortOrder p)) (ewp_Limit p) (ewp_Offset p))"

definition store_CountWaitlistUsersWithExtendedFilters ::
    "ExtendedListWaitlistUsersParams \<Rightarrow> (world, int) go" where
  "store_CountWaitlistUsersWithExtendedFilters p =
     wrapE ''failed to count waitlist users with extended filters'' (run_count (extended_query p))"

definition store_ListWaitlistUsersBasic :: "BasicListWaitlistUsersParams \<Rightarrow> (world, WaitlistUser list) go" where
  "store_ListWaitlistUsersBasic p = wrapE ''failed to list waitlist users basic''
     (run_list basic_columns (basic_query p) (sort_column listSortFields (bwp_SortBy p))
        (sort_desc (bwp_SortOrder p)) (bwp_Limit p) (bwp_Offset p))"

definition store_CountWaitlistUsersBasic :: "BasicListWaitlistUsersParams \<Rightarrow> (world, int) go" where
  "store_CountWaitlistUsersBasic p =
     wrapE ''failed to count waitlist users basic'' (run_count (basic_query p))"

section \<open>Channel codes\<close>

definition channel_code_constraints :: "world \<Rightarrow> UserChannelCode list \<Rightarrow> UserChannelCode \<Rightarrow> string option" where
  "channel_code_constraints w rows r =
     (if cc_ID r \<in> set (map cc_ID rows) then Some ''user_channel_codes_pkey''
      else if cc_UserID r \<notin> set (map wu_ID (t_waitlist_users w)) then Some ''user_channel_codes_user_id_fkey''
      else if list_ex (\<lambda>x. cc_UserID x = cc_UserID r \<and> cc_Channel x = cc_Channel r) rows
        then Some ''uq_user_channel''
      else if cc_Code r \<in> set (map cc_Code rows) then Some ''uq_channel_code''
      else if \<not> (length (cc_Channel r) \<le> 20 \<and> length (cc_Code r) \<le> 20) then Some ''varchar''
      else None)"

definition store_CreateUserChannelCode :: "uuid \<Rightarrow> string \<Rightarrow> string \<Rightarrow> (world, UserChannelCode) go" where
  "store_CreateUserChannelCode userID channel code = wrapE ''failed to create user channel code''
     (sql_insert user_channel_codes_tbl channel_code_constraints
        (\<lambda>id now. \<lparr>cc_ID = id, cc_UserID = userID, cc_Channel = channel, cc_Code = code, cc_CreatedAt = now\<rparr>))"

definition store_CreateUserChannelCodes ::
    "uuid \<Rightarrow> (string \<times> string) list \<Rightarrow> (world, UserChannelCode list) go" where
  "store_CreateUserChannelCodes userID codes =
     foldE (\<lambda>kv created. bindE (store_CreateUserChannelCode userID (fst kv) (snd kv))
        (\<lambda>c. retE (created @ [c]))) codes []"

definition store_GetUserChannelCodes :: "uuid \<Rightarrow> (world, (string \<times> string) list) go" where
  "store_GetUserChannelCodes userID =
     bindE (wrapE ''failed to get user channel codes''
       (sql_query (\<lambda>w. sort_Slice (\<lambda>a b. cc_Channel a < cc_Channel b)
          (filter (\<lambda>c. cc_UserID c = userID) (t_user_channel_codes w))))) (\<lambda>codes.
     retE (fold (\<lambda>c m. AList.update (cc_Channel c) (cc_Code c) m) codes []))"

text \<open>A code nobody has is no error: a nil user.\<close>

definition store_GetUserByChannelCode :: "string \<Rightarrow> (world, WaitlistUser option \<times> string) go" where
  "store_GetUserByChannelCode code =
     tryE (sql_get (\<lambda>w. concat (map (\<lambda>u. map (\<lambda>c. channel_columns u)
              (filter (\<lambda>c. cc_UserID c = wu_ID u \<and> cc_Code c = code) (t_user_channel_codes w)))
            (filter (\<lambda>u. wu_DeletedAt u = None) (t_waitlist_users w)))))
       (\<lambda>e. if errors_Is e ErrNoRows then retE (None, '''')
            else failE (Wrap ''failed to get user by channel code'' e))
       (\<lambda>u. bindE (wrapE ''failed to get channel for code''
              (sql_get (\<lambda>w. map cc_Channel (filter (\<lambda>c. cc_Code c = code) (t_user_channel_codes w)))))
          (\<lambda>channel. retE (Some u, channel)))"

definition store_DeleteUserChannelCodes :: "uuid \<Rightarrow> (world, unit) go" where
  "store_DeleteUserChannelCodes userID = exec_or ''failed to delete user channel codes''
     (sql_delete user_channel_codes_tbl (\<lambda>c. cc_UserID c = userID))"

section \<open>What the built queries mean\<close>

text \<open>
  A builder state represents a predicate when, whatever arguments are appended later, its
  conditions select the rows of the predicate; it accepts exactly when the condition A holds.
  Keeping the count equal to the number of arguments is what lines placeholders up.
\<close>

definition represents :: "world \<Rightarrow> query \<Rightarrow> (WaitlistUser \<Rightarrow> bool) \<Rightarrow> bool \<Rightarrow> bool" where
  "represents w q P A = (qb_count q = length (qb_args q) \<and>
     (\<forall>ext u. list_all (\<lambda>c. cond_holds w (qb_args q @ ext) c u) (qb_conds q) = P u) \<and>
     (\<forall>ext. list_all (cond_ok w (qb_args q @ ext)) (qb_conds q) = A))"

lemma lookup_arg_last [simp]: "lookup_arg (as @ a # ext) (Suc (length as)) = Some a"
  by (simp add: lookup_arg_def nth_append)

lemma lookup_arg_first [simp]: "lookup_arg (a # ext) (Suc 0) = Some a"
  by (simp add: lookup_arg_def)

lemma represents_start: "represents w (qb_start c) (\<lambda>u. wu_CampaignID u = c \<and> wu_DeletedAt u = None) True"
  by (simp add: represents_def qb_start_def)

lemma represents_add:
  assumes "represents w q P A"
    and "\<And>as ext u. cond_holds w (as @ a # ext) (c (Suc (length as))) u = C u"
    and "\<And>as ext. cond_ok w (as @ a # ext) (c (Suc (length as))) = B"
  shows "represents w (qb_add c a q) (\<lambda>u. P u \<and> C u) (A \<and> B)"
  using assms by (auto simp: represents_def qb_add_def Let_def)

lemma represents_plain:
  assumes "represents w q P A" "\<And>as u. cond_holds w as c u = C u" "\<And>as. cond_ok w as c"
  shows "represents w (qb_plain c q) (\<lambda>u. P u \<and> C u) A"
  using assms by (auto simp: represents_def qb_plain_def)

lemma represents_opt:
  assumes "represents w q P A"
    and "\<And>x as ext u. v = Some x \<Longrightarrow> cond_holds w (as @ mk x # ext) (c (Suc (length as))) u = C x u"
    and "\<And>x as ext. v = Some x \<Longrightarrow> cond_ok w (as @ mk x # ext) (c (Suc (length as))) = B x"
  shows "represents w (qb_opt c mk v q) (\<lambda>u. P u \<and> (case v of None \<Rightarrow> True | Some x \<Rightarrow> C x u))
           (A \<and> (case v of None \<Rightarrow> True | Some x \<Rightarrow> B x))"
  using assms(1) represents_add [OF assms(1) assms(2) assms(3)]
  by (cases v) (auto simp: qb_opt_def)

lemma represents_list:
  assumes "represents w q P A"
    and "\<And>as ext u. cond_holds w (as @ AStrs xs # ext) (c (Suc (length as))) u = C u"
    and "\<And>as ext. cond_ok w (as @ AStrs xs # ext) (c (Suc (length as))) = B"
  shows "represents w (qb_list c xs q) (\<lambda>u. P u \<and> (xs = [] \<or> C u)) (A \<and> (xs = [] \<or> B))"
  using assms(1) represents_add [OF assms(1) assms(2) assms(3)] by (cases xs) (auto simp: qb_list_def)

lemma represents_custom:
  assumes "represents w q P A"
  shows "represents w (qb_custom kv q)
    (\<lambda>u. P u \<and> ilike w (''%'' @ snd kv @ ''%'') (json_field w (wu_Metadata u) (fst kv))) A"
proof -
  have l: "lookup_arg (as @ a # b # ext) (Suc (Suc (length as))) = Some b" for as a b ext
    using lookup_arg_last [of "as @ [a]" b ext] by simp
  show ?thesis
    using assms by (auto simp: represents_def qb_custom_def Let_def l)
qed

lemma represents_customs:
  assumes "represents w q P A"
  shows "represents w (fold qb_custom kvs q)
    (\<lambda>u. P u \<and> (\<forall>kv\<in>set kvs. ilike w (''%'' @ snd kv @ ''%'') (json_field w (wu_Metadata u) (fst kv)))) A"
  using assms
proof (induction kvs arbitrary: q P)
  case (Cons kv kvs)
  show ?case using Cons.IH [OF represents_custom [OF Cons.prems, of kv]] by (simp add: conj_assoc)
qed simp

lemma represents_has_referrals:
  assumes "represents w q P A"
  shows "represents w (has_referrals_clause v q) (\<lambda>u. P u \<and> (v = Some True \<longrightarrow> 0 < wu_ReferralCount u)) A"
  using assms represents_plain [OF assms, of CReferralCountPos] by (auto simp: has_referrals_clause_def)

lemma represents_eq: "represents w q P A \<Longrightarrow> P = P' \<Longrightarrow> A = A' \<Longrightarrow> represents w q P' A'"
  by simp

text \<open>The filters written directly over the parameters.\<close>

definition common_matches ::
    "uuid \<Rightarrow> string list \<Rightarrow> string list \<Rightarrow> bool option \<Rightarrow> int option \<Rightarrow> int option \<Rightarrow>
     time option \<Rightarrow> time option \<Rightarrow> WaitlistUser \<Rightarrow> bool" where
  "common_matches campaignID statuses sources hasReferrals minPos maxPos dateFrom dateTo u =
     (wu_CampaignID u = campaignID \<and> wu_DeletedAt u = None \<and>
      (statuses = [] \<or> wu_Status u \<in> set statuses) \<and>
      (sources = [] \<or> (\<exists>s\<in>set sources. wu_Source u = Some s)) \<and>
      (hasReferrals = Some True \<longrightarrow> 0 < wu_ReferralCount u) \<and>
      (\<forall>i. minPos = Some i \<longrightarrow> i \<le> wu_Position u) \<and>
      (\<forall>i. maxPos = Some i \<longrightarrow> wu_Position u \<le> i) \<and>
      (\<forall>t. dateFrom = Some t \<longrightarrow> t \<le> wu_CreatedAt u) \<and>
      (\<forall>t. dateTo = Some t \<longrightarrow> wu_CreatedAt u \<le> t))"

definition basic_matches :: "BasicListWaitlistUsersParams \<Rightarrow> WaitlistUser \<Rightarrow> bool" where
  "basic_matches p = common_matches (bwp_CampaignID p) (bwp_Statuses p) (bwp_Sources p)
     (bwp_HasReferrals p) (bwp_MinPosition p) (bwp_MaxPosition p) (bwp_DateFrom p) (bwp_DateTo p)"

definition extended_matches :: "world \<Rightarrow> ExtendedListWaitlistUsersParams \<Rightarrow> WaitlistUser \<Rightarrow> bool" where
  "extended_matches w p u =
     (common_matches (ewp_CampaignID p) (ewp_Statuses p) (ewp_Sources p) (ewp_HasReferrals p)
        (ewp_MinPosition p) (ewp_MaxPosition p) (ewp_DateFrom p) (ewp_DateTo p) u \<and>
      (\<forall>kv\<in>set (ewp_CustomFields p).
         ilike w (''%'' @ snd kv @ ''%'') (json_field w (wu_Metadata u) (fst kv))))"

definition labels_ok :: "string list \<Rightarrow> string list \<Rightarrow> bool" where
  "labels_ok statuses sources =
     (set statuses \<subseteq> set sql_waitlist_user_status \<and> set sources \<subseteq> set sql_user_source)"

lemmas query_clauses =
  represents_opt represents_list represents_has_referrals represents_customs represents_start

lemma basic_query_represents:
  "represents w (basic_query p) (basic_matches p) (labels_ok (bwp_Statuses p) (bwp_Sources p))"
  unfolding basic_query_def
  apply (rule represents_eq)
    apply (rule query_clauses; (simp only: cond_holds.simps cond_ok.simps lookup_arg_last arg_time_def
        option.case arg.case)?)+
   apply (auto simp: basic_matches_def common_matches_def fun_eq_iff split: option.splits)[1]
  apply (auto simp: labels_ok_def split: option.splits)[1]
  done

lemma extended_query_represents:
  "represents w (extended_query p) (extended_matches w p) (labels_ok (ewp_Statuses p) (ewp_Sources p))"
  unfolding extended_query_def
  apply (rule represents_eq)
    apply (rule query_clauses; (simp only: cond_holds.simps cond_ok.simps lookup_arg_last arg_time_def
        option.case arg.case)?)+
   apply (auto simp: extended_matches_def common_matches_def fun_eq_iff split: option.splits)[1]
  apply (auto simp: labels_ok_def split: option.splits)[1]
  done

definition filters_matches :: "uuid \<Rightarrow> string option \<Rightarrow> bool option \<Rightarrow> WaitlistUser \<Rightarrow> bool" where
  "filters_matches campaignID st verified u =
     (wu_CampaignID u = campaignID \<and> wu_DeletedAt u = None \<and>
      (\<forall>s. st = Some s \<longrightarrow> wu_Status u = s) \<and> (\<forall>b. verified = Some b \<longrightarrow> wu_EmailVerified u = b))"

lemma filters_query_represents:
  "represents w (filters_query c st v) (filters_matches c st v)
     (\<forall>s. st = Some s \<longrightarrow> s \<in> set sql_waitlist_user_status)"
  unfolding filters_query_def
  apply (rule represents_eq)
    apply (rule query_clauses; (simp only: cond_holds.simps cond_ok.simps lookup_arg_last
        option.case arg.case)?)+
   apply (auto simp: filters_matches_def fun_eq_iff split: option.splits)[1]
  apply (auto split: option.splits)[1]
  done

definition search_time :: "world \<Rightarrow> string \<Rightarrow> time option" where
  "search_time w s = w_time_Parse w ''timestamptz'' s"

definition search_matches :: "world \<Rightarrow> SearchWaitlistUsersParams \<Rightarrow> WaitlistUser \<Rightarrow> bool" where
  "search_matches w p u =
     (wu_CampaignID u = swp_CampaignID p \<and> wu_DeletedAt u = None \<and>
      (\<forall>s. swp_Query p = Some s \<and> s \<noteq> '''' \<longrightarrow>
         (\<exists>v\<in>{Some (wu_Email u), wu_FirstName u, wu_LastName u}. ilike w (''%'' @ s @ ''%'') v)) \<and>
      (swp_Statuses p = [] \<or> wu_Status u \<in> set (swp_Statuses p)) \<and>
      (\<forall>b. swp_Verified p = Some b \<longrightarrow> wu_EmailVerified u = b) \<and>
      (\<forall>i. swp_MinReferrals p = Some i \<longrightarrow> i \<le> wu_VerifiedReferralCount u) \<and>
      (\<forall>s t. swp_DateFrom p = Some s \<and> search_time w s = Some t \<longrightarrow> t \<le> wu_CreatedAt u) \<and>
      (\<forall>s t. swp_DateTo p = Some s \<and> search_time w s = Some t \<longrightarrow> wu_CreatedAt u \<le> t))"

definition search_accepted :: "world \<Rightarrow> SearchWaitlistUsersParams \<Rightarrow> bool" where
  "search_accepted w p =
     (set (swp_Statuses p) \<subseteq> set sql_waitlist_user_status \<and>
      (\<forall>s. swp_DateFrom p = Some s \<longrightarrow> search_time w s \<noteq> None) \<and>
      (\<forall>s. swp_DateTo p = Some s \<longrightarrow> search_time w s \<noteq> None))"

lemma represents_text_search:
  assumes "represents w q P A"
  shows "represents w ((case v of None \<Rightarrow> id
      | Some s \<Rightarrow> (if s = '''' then id else qb_add CSearch (AStr (''%'' @ s @ ''%'')))) q)
    (\<lambda>u. P u \<and> (\<forall>s. v = Some s \<and> s \<noteq> '''' \<longrightarrow>
       (\<exists>x\<in>{Some (wu_Email u), wu_FirstName u, wu_LastName u}. ilike w (''%'' @ s @ ''%'') x))) A"
proof (cases v)
  case (Some s)
  have "represents w (qb_add CSearch (AStr (''%'' @ s @ ''%'')) q)
      (\<lambda>u. P u \<and> (ilike w (''%'' @ s @ ''%'') (Some (wu_Email u)) \<or>
        ilike w (''%'' @ s @ ''%'') (wu_FirstName u) \<or> ilike w (''%'' @ s @ ''%'') (wu_LastName u))) (A \<and> True)"
    by (rule represents_add [OF assms]) simp_all
  then show ?thesis using assms Some by (cases "s = ''''") auto
qed (simp add: assms)

lemma search_query_represents:
  assumes "search_accepted w p"
  shows "represents w (search_query p) (search_matches w p) True"
  unfolding search_query_def
  apply (rule represents_eq)
    apply (rule represents_opt represents_list represents_text_search represents_start;
      (simp only: cond_holds.simps cond_ok.simps lookup_arg_last arg_time_def option.case arg.case)?)+
  using assms
   apply (auto simp: search_matches_def search_accepted_def search_time_def fun_eq_iff split: option.splits)[1]
  using assms
  apply (auto simp: search_accepted_def search_time_def split: option.splits)[1]
  done

text \<open>Running a query: exactly the rows of the predicate, sorted, and one page of them.\<close>

lemma run_list_Ok:
  assumes "represents (ticked w) q P A" "column_less col = Some lt"
  shows "run_list columns q col desc lmt off w = (Ok us, w') \<longleftrightarrow>
    w_fault w (w_calls w) = None \<and> A \<and> 0 \<le> lmt \<and> 0 \<le> off \<and> w' = ticked w \<and>
    us = map columns (take (nat lmt) (drop (nat off)
      (sort_Slice (\<lambda>a b. if desc then lt b a else lt a b) (filter P (t_waitlist_users w)))))"
proof -
  have l: "lookup_arg (qb_args q @ [AInt lmt, AInt off]) (Suc (qb_count q)) = Some (AInt lmt)"
    "lookup_arg (qb_args q @ [AInt lmt, AInt off]) (Suc (Suc (qb_count q))) = Some (AInt off)"
    using assms(1) lookup_arg_last [of "qb_args q" "AInt lmt" "[AInt off]"]
      lookup_arg_last [of "qb_args q @ [AInt lmt]" "AInt off" "[]"]
    by (auto simp: represents_def)
  have c: "list_all (cond_ok (ticked w) (qb_args q @ [AInt lmt, AInt off])) (qb_conds q) = A"
    "filter (\<lambda>u. list_all (\<lambda>c. cond_holds (ticked w) (qb_args q @ [AInt lmt, AInt off]) c u) (qb_conds q)) us
      = filter P us" for us
    using assms(1) by (auto simp: represents_def)
  show ?thesis
    unfolding run_list_def db_def using assms(2) l c
    by (auto simp: Let_def ticked_def [symmetric] split: option.split)
qed

lemma run_count_Ok:
  assumes "represents (ticked w) q P A"
  shows "run_count q w = (Ok n, w') \<longleftrightarrow>
    w_fault w (w_calls w) = None \<and> A \<and> w' = ticked w \<and> n = int (length (filter P (t_waitlist_users w)))"
proof -
  have "query_ok (ticked w) q = A" "query_rows (ticked w) q = filter P (t_waitlist_users w)"
    using assms spec [of "\<lambda>ext. \<forall>u. list_all (\<lambda>c. cond_holds (ticked w) (qb_args q @ ext) c u) (qb_conds q) = P u" "[]"]
      spec [of "\<lambda>ext. list_all (cond_ok (ticked w) (qb_args q @ ext)) (qb_conds q) = A" "[]"]
    by (auto simp: represents_def query_ok_def query_rows_def)
  then show ?thesis
    unfolding run_count_def db_def
    by (auto simp: Let_def ticked_def [symmetric] split: option.split)
qed

lemma db_reads: "(\<And>w. snd (m w) = w) \<Longrightarrow> moves tick (db m)"
  unfolding moves_def db_def tick_def by (auto simp: Let_def split: option.split)

lemma run_list_reads [reads]: "moves tick (run_list columns q col desc lmt off)"
  unfolding run_list_def by (rule db_reads) (simp add: Let_def split: option.split arg.split)

lemma run_count_reads [reads]: "moves tick (run_count q)"
  unfolding run_count_def by (rule db_reads) simp

lemma sort_column_known: "\<exists>lt. column_less (sort_column listSortFields s) = Some lt"
  by (auto simp: sort_column_def listSortFields_def column_less_def)

text \<open>The total order a listing is sorted by: the column, ties in table order.\<close>

definition listing_order :: "string \<Rightarrow> string \<Rightarrow> WaitlistUser \<Rightarrow> WaitlistUser \<Rightarrow> bool" where
  "listing_order sortBy sortOrder a b =
     (case column_less (sort_column listSortFields sortBy) of
        None \<Rightarrow> False
      | Some lt \<Rightarrow> (if sort_desc sortOrder then lt b a else lt a b))"

lemma ilike_ticked [simp]: "ilike (ticked w) pat v = ilike w pat v"
  by (cases v) (simp_all add: ilike_def ticked_def)

lemma json_field_ticked [simp]: "json_field (ticked w) m k = json_field w m k"
  by (simp add: json_field_def ticked_def split: option.split jval.split)

lemma matches_ticked [simp]: "extended_matches (ticked w) p = extended_matches w p"
  by (rule ext) (simp add: extended_matches_def)

lemma ListWaitlistUsersWithExtendedFilters_Ok:
  "store_ListWaitlistUsersWithExtendedFilters p w = (Ok us, w') \<longleftrightarrow>
    w_fault w (w_calls w) = None \<and> labels_ok (ewp_Statuses p) (ewp_Sources p) \<and>
    0 \<le> ewp_Limit p \<and> 0 \<le> ewp_Offset p \<and> w' = ticked w \<and>
    us = take (nat (ewp_Limit p)) (drop (nat (ewp_Offset p))
      (sort_Slice (listing_order (ewp_SortBy p) (ewp_SortOrder p))
        (filter (extended_matches w p) (t_waitlist_users w))))"
proof -
  obtain lt where lt: "column_less (sort_column listSortFields (ewp_SortBy p)) = Some lt"
    using sort_column_known by blast
  have o: "listing_order (ewp_SortBy p) (ewp_SortOrder p)
      = (\<lambda>a b. if sort_desc (ewp_SortOrder p) then lt b a else lt a b)"
    by (intro ext) (simp add: listing_order_def lt)
  show ?thesis
    unfolding store_ListWaitlistUsersWithExtendedFilters_def wrapE_Ok
      run_list_Ok [OF extended_query_represents lt] o by (simp add: labels_ok_def)
qed

lemma ListWaitlistUsersBasic_Ok:
  "store_ListWaitlistUsersBasic p w = (Ok us, w') \<longleftrightarrow>
    w_fault w (w_calls w) = None \<and> labels_ok (bwp_Statuses p) (bwp_Sources p) \<and>
    0 \<le> bwp_Limit p \<and> 0 \<le> bwp_Offset p \<and> w' = ticked w \<and>
    us = map basic_columns (take (nat (bwp_Limit p)) (drop (nat (bwp_Offset p))
      (sort_Slice (listing_order (bwp_SortBy p) (bwp_SortOrder p))
        (filter (basic_matches p) (t_waitlist_users w)))))"
proof -
  obtain lt where lt: "column_less (sort_column listSortFields (bwp_SortBy p)) = Some lt"
    using sort_column_known by blast
  have o: "listing_order (bwp_SortBy p) (bwp_SortOrder p)
      = (\<lambda>a b. if sort_desc (bwp_SortOrder p) then lt b a else lt a b)"
    by (intro ext) (simp add: listing_order_def lt)
  show ?thesis
    unfolding store_ListWaitlistUsersBasic_def wrapE_Ok
      run_list_Ok [OF basic_query_represents lt] o by simp
qed

lemma CountWaitlistUsers_Ok:
  "store_CountWaitlistUsersWithExtendedFilters ep w = (Ok n, w') \<longleftrightarrow>
    w_fault w (w_calls w) = None \<and> labels_ok (ewp_Statuses ep) (ewp_Sources ep) \<and> w' = ticked w \<and>
    n = int (length (filter (extended_matches w ep) (t_waitlist_users w)))"
  "store_CountWaitlistUsersBasic bp w = (Ok n, w') \<longleftrightarrow>
    w_fault w (w_calls w) = None \<and> labels_ok (bwp_Statuses bp) (bwp_Sources bp) \<and> w' = ticked w \<and>
    n = int (length (filter (basic_matches bp) (t_waitlist_users w)))"
  unfolding store_CountWaitlistUsersWithExtendedFilters_def store_CountWaitlistUsersBasic_def wrapE_Ok
    run_count_Ok [OF extended_query_represents] run_count_Ok [OF basic_query_represents]
  by simp_all

text \<open>Frames and reads of the whole group.\<close>

lemma waitlist_get_reads [reads]:
  "moves tick (store_GetWaitlistUserByID u)" "moves tick (store_GetWaitlistUserByEmail c e)"
  "moves tick (store_GetWaitlistUserByReferralCode r)"
  "moves tick (store_GetWaitlistUserByVerificationToken t)"
  "moves tick (store_CountWaitlistUsersByCampaign c)"
  "moves tick (store_GetAllWaitlistUsersForPositionCalculation c)"
  "moves tick (store_GetUserByChannelCode r)"
  "moves tick (store_SearchWaitlistUsers sp)"
  "moves tick (store_ListWaitlistUsersWithExtendedFilters ep)"
  "moves tick (store_CountWaitlistUsersWithExtendedFilters ep)"
  "moves tick (store_ListWaitlistUsersBasic bp)" "moves tick (store_CountWaitlistUsersBasic bp)"
  unfolding store_GetWaitlistUserByID_def store_GetWaitlistUserByEmail_def
    store_GetWaitlistUserByReferralCode_def store_GetWaitlistUserByVerificationToken_def
    store_CountWaitlistUsersByCampaign_def store_GetAllWaitlistUsersForPositionCalculation_def
    store_GetUserByChannelCode_def store_SearchWaitlistUsers_def
    store_ListWaitlistUsersWithExtendedFilters_def store_CountWaitlistUsersWithExtendedFilters_def
    store_ListWaitlistUsersBasic_def store_CountWaitlistUsersBasic_def
  by (intro tick_rules reads)+

end
