(* ===== verification/Events.thy ===== *)
theory Events
  imports Enums
begin

text \<open>
  Publishing events: webhooks/events/events.go, webhooks/producer/producer.go and
  clients/kafka/producer.go. A published message is appended to the topic as a consumer will
  read it, that is with its data after a JSON round trip. The Kafka writer is asynchronous; the
  environment may let a write fail (\<^verbatim>\<open>w_publish_fault\<close>, indexed by the ids drawn so far).
\<close>

section \<open>Event types\<close>

definition EventUserCreated :: string where [enums]: "EventUserCreated = ''user.created''"
definition EventUserUpdated :: string where [enums]: "EventUserUpdated = ''user.updated''"
definition EventUserVerified :: string where [enums]: "EventUserVerified = ''user.verified''"
definition EventUserDeleted :: string where [enums]: "EventUserDeleted = ''user.deleted''"
definition EventUserPositionChanged :: string where [enums]: "EventUserPositionChanged = ''user.position_changed''"
definition EventUserConverted :: string where [enums]: "EventUserConverted = ''user.converted''"
definition EventReferralCreated :: string where [enums]: "EventReferralCreated = ''referral.created''"
definition EventReferralVerified :: string where [enums]: "EventReferralVerified = ''referral.verified''"
definition EventReferralConverted :: string where [enums]: "EventReferralConverted = ''referral.converted''"
definition EventRewardEarned :: string where [enums]: "EventRewardEarned = ''reward.earned''"
definition EventRewardDelivered :: string where [enums]: "EventRewardDelivered = ''reward.delivered''"
definition EventRewardRedeemed :: string where [enums]: "EventRewardRedeemed = ''reward.redeemed''"
definition EventCampaignMilestone :: string where [enums]: "EventCampaignMilestone = ''campaign.milestone''"
definition EventCampaignLaunched :: string where [enums]: "EventCampaignLaunched = ''campaign.launched''"
definition EventCampaignCompleted :: string where [enums]: "EventCampaignCompleted = ''campaign.completed''"
definition EventEmailSent :: string where [enums]: "EventEmailSent = ''email.sent''"
definition EventEmailDelivered :: string where [enums]: "EventEmailDelivered = ''email.delivered''"
definition EventEmailOpened :: string where [enums]: "EventEmailOpened = ''email.opened''"
definition EventEmailClicked :: string where [enums]: "EventEmailClicked = ''email.clicked''"
definition EventEmailBounced :: string where [enums]: "EventEmailBounced = ''email.bounced''"
definition EventBlastStarted :: string where [enums]: "EventBlastStarted = ''blast.started''"
definition EventBlastBatchSend :: string where [enums]: "EventBlastBatchSend = ''blast.batch''"
definition EventBlastCompleted :: string where [enums]: "EventBlastCompleted = ''blast.completed''"

section \<open>Producer\<close>

definition kafka_PublishEvent :: "EventMessage \<Rightarrow> (world, unit) go" where
  "kafka_PublishEvent ev w =
     (case w_publish_fault w (w_fresh w) of
        Some msg \<Rightarrow> (Err (Wrap ''failed to write message to kafka'' (ExtErr msg)), w)
      | None \<Rightarrow> (Ok (), w\<lparr>w_queue := w_queue w @
          [ev\<lparr>em_Data := map_option json_trip_map (em_Data ev)\<rparr>]\<rparr>))"

definition PublishEvent ::
    "uuid \<Rightarrow> uuid option \<Rightarrow> string \<Rightarrow> (string \<times> jval) list \<Rightarrow> (world, unit) go" where
  "PublishEvent accountID campaignID eventType data =
     bindE uuid_New (\<lambda>i.
     bindE (getE (\<lambda>w. w)) (\<lambda>w.
     wrapE ''failed to publish event to kafka'' (kafka_PublishEvent
       \<lparr>em_ID = w_uuid_String w i, em_Type = eventType, em_AccountID = w_uuid_String w accountID,
        em_CampaignID = map_option (w_uuid_String w) campaignID, em_Data = Some data,
        em_Timestamp = w_time_Format w (w_now w)\<rparr>)))"

definition uuid_string :: "uuid \<Rightarrow> (world, string) go" where
  "uuid_string i = getE (\<lambda>w. w_uuid_String w i)"

text \<open>The dispatchers whose errors are only logged.\<close>

definition dispatch_logged ::
    "uuid \<Rightarrow> uuid \<Rightarrow> string \<Rightarrow> (string \<times> jval) list \<Rightarrow> (world, unit) go" where
  "dispatch_logged accountID campaignID eventType kvs =
     bindE (uuid_string campaignID) (\<lambda>c.
     logE (PublishEvent accountID (Some campaignID) eventType ((''campaign_id'', JStr c) # kvs)))"

definition DispatchUserCreated :: "uuid \<Rightarrow> uuid \<Rightarrow> (string \<times> jval) list \<Rightarrow> (world, unit) go" where
  "DispatchUserCreated accountID campaignID userData =
     dispatch_logged accountID campaignID EventUserCreated [(''user'', JObj userData)]"

definition DispatchUserVerified :: "uuid \<Rightarrow> uuid \<Rightarrow> (string \<times> jval) list \<Rightarrow> (world, unit) go" where
  "DispatchUserVerified accountID campaignID userData =
     dispatch_logged accountID campaignID EventUserVerified [(''user'', JObj userData)]"

definition DispatchUserPositionChanged ::
    "uuid \<Rightarrow> uuid \<Rightarrow> (string \<times> jval) list \<Rightarrow> int \<Rightarrow> int \<Rightarrow> (world, unit) go" where
  "DispatchUserPositionChanged accountID campaignID userData oldPosition newPosition =
     dispatch_logged accountID campaignID EventUserPositionChanged
       [(''user'', JObj userData), (''old_position'', JInt oldPosition), (''new_position'', JInt newPosition)]"

definition DispatchReferralCreated :: "uuid \<Rightarrow> uuid \<Rightarrow> (string \<times> jval) list \<Rightarrow> (world, unit) go" where
  "DispatchReferralCreated accountID campaignID referralData =
     dispatch_logged accountID campaignID EventReferralCreated [(''referral'', JObj referralData)]"

definition DispatchReferralVerified :: "uuid \<Rightarrow> uuid \<Rightarrow> (string \<times> jval) list \<Rightarrow> (world, unit) go" where
  "DispatchReferralVerified accountID campaignID referralData =
     dispatch_logged accountID campaignID EventReferralVerified [(''referral'', JObj referralData)]"

definition DispatchRewardEarned :: "uuid \<Rightarrow> uuid \<Rightarrow> (string \<times> jval) list \<Rightarrow> (world, unit) go" where
  "DispatchRewardEarned accountID campaignID rewardData =
     dispatch_logged accountID campaignID EventRewardEarned [(''reward'', JObj rewardData)]"

definition DispatchCampaignMilestone :: "uuid \<Rightarrow> uuid \<Rightarrow> int \<Rightarrow> int \<Rightarrow> (world, unit) go" where
  "DispatchCampaignMilestone accountID campaignID milestone totalSignups =
     dispatch_logged accountID campaignID EventCampaignMilestone
       [(''milestone'', JInt milestone), (''total_signups'', JInt totalSignups)]"

definition DispatchEmailSent :: "uuid \<Rightarrow> uuid \<Rightarrow> (string \<times> jval) list \<Rightarrow> (world, unit) go" where
  "DispatchEmailSent accountID campaignID emailData =
     dispatch_logged accountID campaignID EventEmailSent [(''email'', JObj emailData)]"

definition DispatchEmailDelivered :: "uuid \<Rightarrow> uuid \<Rightarrow> (string \<times> jval) list \<Rightarrow> (world, unit) go" where
  "DispatchEmailDelivered accountID campaignID emailData =
     dispatch_logged accountID campaignID EventEmailDelivered [(''email'', JObj emailData)]"

text \<open>The dispatchers of the blast events, which return the error.\<close>

definition DispatchBlastStarted :: "uuid \<Rightarrow> uuid \<Rightarrow> (world, unit) go" where
  "DispatchBlastStarted accountID blastID =
     bindE (uuid_string blastID) (\<lambda>b.
     PublishEvent accountID None EventBlastStarted [(''blast_id'', JStr b)])"

definition DispatchBlastBatchSend :: "uuid \<Rightarrow> uuid \<Rightarrow> int \<Rightarrow> (world, unit) go" where
  "DispatchBlastBatchSend accountID blastID batchNumber =
     bindE (uuid_string blastID) (\<lambda>b.
     PublishEvent accountID None EventBlastBatchSend
       [(''blast_id'', JStr b), (''batch_number'', JInt batchNumber)])"

definition DispatchBlastCompleted :: "uuid \<Rightarrow> uuid \<Rightarrow> (world, unit) go" where
  "DispatchBlastCompleted accountID blastID =
     bindE (uuid_string blastID) (\<lambda>b.
     PublishEvent accountID None EventBlastCompleted [(''blast_id'', JStr b)])"

section \<open>Lemmas\<close>

text \<open>A publication changes the topic and the id counter, nothing else; on success the topic
  grows by exactly the message.\<close>

lemma PublishEvent_cases:
  "PublishEvent a c t d w =
     (let i = w_uuids w (w_fresh w); w' = w\<lparr>w_fresh := Suc (w_fresh w)\<rparr> in
      case w_publish_fault w (Suc (w_fresh w)) of
        Some msg \<Rightarrow> (Err (Wrap ''failed to publish event to kafka''
            (Wrap ''failed to write message to kafka'' (ExtErr msg))), w')
      | None \<Rightarrow> (Ok (), w'\<lparr>w_queue := w_queue w @ [
          \<lparr>em_ID = w_uuid_String w i, em_Type = t, em_AccountID = w_uuid_String w a,
           em_CampaignID = map_option (w_uuid_String w) c, em_Data = Some (json_trip_map d),
           em_Timestamp = w_time_Format w (w_now w)\<rparr>]\<rparr>))"
  by (simp add: PublishEvent_def kafka_PublishEvent_def uuid_New_def go_defs Let_def split: option.split)

definition publishes :: "world \<Rightarrow> world \<Rightarrow> bool" where
  "publishes w w' = (\<exists>q n. w' = w\<lparr>w_queue := w_queue w @ q, w_fresh := n\<rparr>)"

lemma publishesI: "w' = w\<lparr>w_queue := w_queue w @ q, w_fresh := n\<rparr> \<Longrightarrow> publishes w w'"
  unfolding publishes_def by blast

interpretation publishes: step_preorder publishes
proof
  show "publishes w w" for w
    by (rule publishesI [where q = "[]" and n = "w_fresh w"]) simp
  show "publishes u w" if uv: "publishes u v" and vw: "publishes v w" for u v w
  proof -
    obtain q n q' n' where "v = u\<lparr>w_queue := w_queue u @ q, w_fresh := n\<rparr>"
      "w = v\<lparr>w_queue := w_queue v @ q', w_fresh := n'\<rparr>"
      using uv vw unfolding publishes_def by blast
    then show ?thesis by (intro publishesI [where q = "q @ q'" and n = n']) simp
  qed
qed

lemmas publishes_rules = publishes.moves_combinators moves_intros

lemma PublishEvent_publishes: "moves publishes (PublishEvent a c t d)"
proof -
  have "publishes w (snd (PublishEvent a c t d w))" for w
  proof (cases "w_publish_fault w (Suc (w_fresh w))")
    case None
    then obtain ev where "snd (PublishEvent a c t d w) =
        w\<lparr>w_fresh := Suc (w_fresh w), w_queue := w_queue w @ [ev]\<rparr>"
      by (simp add: PublishEvent_cases Let_def)
    then show ?thesis by (intro publishesI [where q = "[ev]" and n = "Suc (w_fresh w)"]) simp
  next
    case (Some msg)
    show ?thesis
      unfolding PublishEvent_cases
      by (rule publishesI [where q = "[]" and n = "Suc (w_fresh w)"]) (simp add: Some Let_def)
  qed
  then show ?thesis by (simp add: moves_def)
qed

lemma uuid_string_publishes: "moves publishes (uuid_string i)"
  unfolding uuid_string_def by (rule publishes.moves_getE)

lemma dispatch_publishes:
  "moves publishes (dispatch_logged a c t d)" "moves publishes (DispatchUserCreated a c u)"
  "moves publishes (DispatchUserVerified a c u)" "moves publishes (DispatchBlastStarted a b)"
  "moves publishes (DispatchBlastBatchSend a b n)" "moves publishes (DispatchBlastCompleted a b)"
  unfolding DispatchUserCreated_def DispatchUserVerified_def dispatch_logged_def
    DispatchBlastStarted_def DispatchBlastBatchSend_def DispatchBlastCompleted_def
  by (intro publishes_rules PublishEvent_publishes uuid_string_publishes)+

lemma publishes_frame: "moves publishes m \<Longrightarrow>
    (\<And>w q n. f (w\<lparr>w_queue := q, w_fresh := n\<rparr>) = f w) \<Longrightarrow> moves (frame f) m"
  unfolding moves_def
proof
  fix s assume m: "\<forall>s. publishes s (snd (m s))" and f: "\<And>w q n. f (w\<lparr>w_queue := q, w_fresh := n\<rparr>) = f w"
  obtain q n where "snd (m s) = s\<lparr>w_queue := w_queue s @ q, w_fresh := n\<rparr>"
    using m unfolding publishes_def by blast
  then show "frame f s (snd (m s))" by (simp add: frame_def f)
qed

lemma dispatch_logged_Ok: "\<exists>w'. dispatch_logged a c t d w = (Ok (), w')"
  by (simp add: dispatch_logged_def uuid_string_def PublishEvent_cases go_defs Let_def split: option.split)

end
