(* ===== verification/Utils.thy ===== *)
theory Utils
  imports Samples
begin

text \<open>
  waitlist/utils/utils.go: referral codes, verification tokens, channel codes and referral
  links, with the URL-safe base64 encoding of the standard library they are made by. Random
  bytes come from the environment.
\<close>

section \<open>Base64\<close>

definition b64_alphabet :: string where
  "b64_alphabet = ''ABCDEFGHIJKLMNOPQRSTUVWXYZabcdefghijklmnopqrstuvwxyz0123456789-_''"

definition b64_char :: "nat \<Rightarrow> char" where
  "b64_char n = b64_alphabet ! (n mod 64)"

text \<open>base64.URLEncoding.EncodeToString: three bytes to four characters, padded with =.\<close>

fun base64_URLEncoding :: "nat list \<Rightarrow> string" where
  "base64_URLEncoding (a # b # c # bs) =
     b64_char (a div 4) # b64_char (16 * (a mod 4) + b div 16) #
     b64_char (4 * (b mod 16) + c div 64) # b64_char (c mod 64) # base64_URLEncoding bs"
| "base64_URLEncoding [a, b] =
     [b64_char (a div 4), b64_char (16 * (a mod 4) + b div 16), b64_char (4 * (b mod 16)), CHR ''='']"
| "base64_URLEncoding [a] = [b64_char (a div 4), b64_char (16 * (a mod 4)), CHR ''='', CHR ''='']"
| "base64_URLEncoding [] = []"

section \<open>Codes and links\<close>

definition code_of_bytes :: "nat \<Rightarrow> nat list \<Rightarrow> string" where
  "code_of_bytes n bs = (let code = TrimRight (base64_URLEncoding bs) ''='' in
     ToUpper (if n < length code then take n code else code))"

definition GenerateReferralCode :: "int \<Rightarrow> (world, string) go" where
  "GenerateReferralCode l = (let l' = (if l \<le> 0 then 8 else l) in
     bindE (wrapE ''failed to generate random bytes'' (rand_Read (nat l'))) (\<lambda>bs.
     retE (code_of_bytes (nat l') bs)))"

definition GenerateVerificationToken :: "(world, string) go" where
  "GenerateVerificationToken =
     bindE (wrapE ''failed to generate verification token'' (rand_Read 32)) (\<lambda>bs.
     retE (base64_URLEncoding bs))"

definition BuildReferralLink :: "string \<Rightarrow> string \<Rightarrow> string \<Rightarrow> string" where
  "BuildReferralLink baseURL campaignSlug referralCode =
     baseURL @ ''/join/'' @ campaignSlug @ ''?ref='' @ referralCode"

definition CalculatePositionChange :: "int \<Rightarrow> int \<Rightarrow> int \<Rightarrow> int" where
  "CalculatePositionChange currentPosition referralCount pointsPerReferral =
     (if referralCount \<le> 0 \<or> pointsPerReferral \<le> 0 then currentPosition
      else (let positionBoost = wrap64 (referralCount * pointsPerReferral);
                newPosition = wrap64 (currentPosition - positionBoost) in
            if newPosition < 1 then 1 else newPosition))"

text \<open>time.Duration counts nanoseconds in 64 bits.\<close>

definition IsVerificationTokenExpired :: "time option \<Rightarrow> int \<Rightarrow> time \<Rightarrow> bool" where
  "IsVerificationTokenExpired sentAt expiryHours now = (case sentAt of
       None \<Rightarrow> True
     | Some t \<Rightarrow> t + wrap64 (expiryHours * 3600000000000) < now)"

definition ChannelSuffixes :: "(string \<times> string) list" where
  "ChannelSuffixes = [(''twitter'', ''TW''), (''facebook'', ''FB''), (''linkedin'', ''LI''),
     (''whatsapp'', ''WA''), (''email'', ''EM'')]"

definition add_channel_code :: "string \<Rightarrow> string \<Rightarrow> (string \<times> string) list \<Rightarrow> (string \<times> string) list" where
  "add_channel_code baseCode channel codes = (case map_of ChannelSuffixes channel of
       None \<Rightarrow> codes
     | Some suffix \<Rightarrow> AList.update channel (baseCode @ ''_'' @ suffix) codes)"

definition GenerateChannelCodes :: "string list \<Rightarrow> (world, (string \<times> string) list) go" where
  "GenerateChannelCodes channels =
     (if channels = [] then retE []
      else bindE (wrapE ''failed to generate base code'' (GenerateReferralCode 6)) (\<lambda>baseCode.
        retE (fold (add_channel_code baseCode) channels [])))"

section \<open>Lemmas\<close>

definition is_bytes :: "nat \<Rightarrow> nat list \<Rightarrow> bool" where
  "is_bytes n bs = (length bs = n \<and> (\<forall>b\<in>set bs. b < 256))"

text \<open>The random source returns as many bytes as it was asked for.\<close>

definition rand_ok :: "world \<Rightarrow> bool" where
  "rand_ok w = (\<forall>k n bs. w_rand w k n = Some bs \<longrightarrow> is_bytes n bs)"

lemma b64_alphabet_length [simp]: "length b64_alphabet = 64"
  by (simp add: b64_alphabet_def)

lemma b64_char_in: "b64_char n \<in> set b64_alphabet"
  by (simp add: b64_char_def)

lemma b64_alphabet_no_pad: "CHR ''='' \<notin> set b64_alphabet"
  by (simp add: b64_alphabet_def)

lemma b64_distinct: "distinct b64_alphabet"
  by (simp add: b64_alphabet_def)

lemma b64_char_inj: "m < 64 \<Longrightarrow> n < 64 \<Longrightarrow> b64_char m = b64_char n \<longleftrightarrow> m = n"
  using nth_eq_iff_index_eq [OF b64_distinct] by (simp add: b64_char_def)

lemma base64_length: "length (base64_URLEncoding bs) = 4 * ((length bs + 2) div 3)"
proof (induction bs rule: base64_URLEncoding.induct)
  case (1 a b c bs)
  have "(length bs + 2 + 3) div 3 = Suc ((length bs + 2) div 3)" by presburger
  then show ?case using 1 by (simp add: add.commute)
qed auto

text \<open>What TrimRight leaves: the characters before the padding.\<close>

fun b64_body :: "nat list \<Rightarrow> string" where
  "b64_body (a # b # c # bs) =
     b64_char (a div 4) # b64_char (16 * (a mod 4) + b div 16) #
     b64_char (4 * (b mod 16) + c div 64) # b64_char (c mod 64) # b64_body bs"
| "b64_body [a, b] = [b64_char (a div 4), b64_char (16 * (a mod 4) + b div 16), b64_char (4 * (b mod 16))]"
| "b64_body [a] = [b64_char (a div 4), b64_char (16 * (a mod 4))]"
| "b64_body [] = []"

lemma b64_body_pad: "\<exists>n. base64_URLEncoding bs = b64_body bs @ replicate n (CHR ''='')"
proof (induction bs rule: base64_URLEncoding.induct)
  case (2 a b) show ?case by (rule exI [of _ 1]) simp
next
  case (3 a) show ?case by (rule exI [of _ 2]) (simp add: numeral_2_eq_2)
qed auto

lemma b64_body_chars: "set (b64_body bs) \<subseteq> set b64_alphabet"
  by (induction bs rule: b64_body.induct) (auto simp: b64_char_in)

lemma b64_body_length: "length (b64_body bs) = (4 * length bs + 2) div 3"
  by (induction bs rule: b64_body.induct) auto

lemma TrimRight_pad:
  assumes "CHR ''='' \<notin> set s"
  shows "TrimRight (s @ replicate n (CHR ''='')) ''='' = s"
proof -
  have "dropWhile (\<lambda>c. c \<in> set ''='') (rev s) = rev s"
    using assms by (cases "rev s") (auto simp: in_set_conv_decomp rev_eq_Cons_iff)
  moreover have "dropWhile (\<lambda>c. c \<in> set ''='') (replicate n (CHR ''='') @ xs)
      = dropWhile (\<lambda>c. c \<in> set ''='') xs" for xs
    by (induction n) auto
  ultimately show ?thesis by (simp add: TrimRight_def)
qed

lemma code_of_bytes_body: "code_of_bytes n bs = ToUpper (take n (b64_body bs))"
proof -
  obtain k where "base64_URLEncoding bs = b64_body bs @ replicate k (CHR ''='')"
    using b64_body_pad by blast
  moreover have "CHR ''='' \<notin> set (b64_body bs)"
    using b64_body_chars b64_alphabet_no_pad by blast
  ultimately show ?thesis
    by (simp add: code_of_bytes_def TrimRight_pad Let_def)
qed

lemma code_of_bytes_length: "length bs = n \<Longrightarrow> length (code_of_bytes n bs) = n"
  by (simp add: code_of_bytes_body b64_body_length)

definition code_alphabet :: string where
  "code_alphabet = ''ABCDEFGHIJKLMNOPQRSTUVWXYZ0123456789-_''"

lemma upper_b64_alphabet: "set (map upper_char b64_alphabet) = set code_alphabet"
  by code_simp

lemma code_of_bytes_chars: "set (code_of_bytes n bs) \<subseteq> set code_alphabet"
  using b64_body_chars [of bs] upper_b64_alphabet
  by (auto simp: code_of_bytes_body ToUpper_def dest!: in_set_takeD)

lemma digits_eq:
  fixes x y :: nat
  assumes "k * x + y = k * x' + y'" "y < k" "y' < k"
  shows "x = x'" "y = y'"
proof -
  have "(k * x + y) div k = x" "(k * x' + y') div k = x'" "(k * x + y) mod k = y" "(k * x' + y') mod k = y'"
    using assms(2,3) by simp_all
  then show "x = x'" "y = y'" using assms(1) by simp_all
qed

lemma div_mod_eqI: "(a :: nat) div k = a' div k \<Longrightarrow> a mod k = a' mod k \<Longrightarrow> a = a'"
  by (metis div_mult_mod_eq)

lemma b64_char_injD: "b64_char m = b64_char n \<Longrightarrow> m < 64 \<Longrightarrow> n < 64 \<Longrightarrow> m = n"
  by (simp only: b64_char_inj)

text \<open>The characters determine the bytes: three, two or one of them.\<close>

lemma b64_bounds:
  fixes x y z :: nat
  assumes "x < 256" "y < 256" "z < 256"
  shows "x div 4 < 64" "16 * (x mod 4) + y div 16 < 64" "4 * (y mod 16) + z div 64 < 64" "z mod 64 < 64"
  using assms by linarith+

lemma b64_quad_inj:
  fixes a b c a' b' c' :: nat
  assumes "a < 256" "b < 256" "c < 256" "a' < 256" "b' < 256" "c' < 256"
    and e: "b64_char (a div 4) = b64_char (a' div 4)"
      "b64_char (16 * (a mod 4) + b div 16) = b64_char (16 * (a' mod 4) + b' div 16)"
      "b64_char (4 * (b mod 16) + c div 64) = b64_char (4 * (b' mod 16) + c' div 64)"
      "b64_char (c mod 64) = b64_char (c' mod 64)"
  shows "a = a' \<and> b = b' \<and> c = c'"
proof -
  note l = b64_bounds [OF assms(1-3)] and r = b64_bounds [OF assms(4-6)]
  note e1 = b64_char_injD [OF e(1) l(1) r(1)]
  have s: "b div 16 < 16" "b' div 16 < 16" "c div 64 < 4" "c' div 64 < 4"
    using assms by (simp_all add: less_mult_imp_div_less)
  have "a mod 4 = a' mod 4" "b div 16 = b' div 16"
    using digits_eq [OF b64_char_injD [OF e(2) l(2) r(2)] s(1,2)] .
  moreover have "b mod 16 = b' mod 16" "c div 64 = c' div 64"
    using digits_eq [OF b64_char_injD [OF e(3) l(3) r(3)] s(3,4)] .
  moreover note e4 = b64_char_injD [OF e(4) l(4) r(4)]
  ultimately show ?thesis using e1 by (metis div_mod_eqI)
qed

lemma base64_inj:
  assumes "length as = length bs" "\<forall>a\<in>set as. a < 256" "\<forall>b\<in>set bs. b < 256"
    "base64_URLEncoding as = base64_URLEncoding bs"
  shows "as = bs"
  using assms
proof (induction as arbitrary: bs rule: base64_URLEncoding.induct)
  case (1 a b c cs)
  then have "length bs = Suc (Suc (Suc (length cs)))" by simp
  then obtain a' b' c' cs' where bs: "bs = a' # b' # c' # cs'"
    by (metis length_Suc_conv)
  have "a = a' \<and> b = b' \<and> c = c'"
    by (rule b64_quad_inj) (use 1(3-5) bs in simp_all)
  moreover have "cs = cs'" using 1 bs by simp
  ultimately show ?case using bs by simp
next
  case (2 a b)
  then have "length bs = Suc (Suc 0)" by simp
  then obtain a' b' where bs: "bs = [a', b']" by (metis length_Suc_conv length_0_conv)
  have "a = a' \<and> b = b' \<and> (0::nat) = 0"
    by (rule b64_quad_inj) (use 2(2-4) bs in simp_all)
  then show ?case using bs by simp
next
  case (3 a)
  then have "length bs = Suc 0" by simp
  then obtain a' where bs: "bs = [a']" by (metis length_Suc_conv length_0_conv)
  have "a = a' \<and> (0::nat) = 0 \<and> (0::nat) = 0"
    by (rule b64_quad_inj) (use 3(2-4) bs in simp_all)
  then show ?case using bs by simp
qed auto

text \<open>Drawing random bytes moves only the counter of the source.\<close>

definition draws :: "world \<Rightarrow> world \<Rightarrow> bool" where
  "draws w w' = (\<exists>n. w' = w\<lparr>w_rand_n := n\<rparr>)"

interpretation draws: step_preorder draws
proof
  show "draws w w" for w unfolding draws_def by (rule exI [of _ "w_rand_n w"]) simp
  show "draws u v \<Longrightarrow> draws v w \<Longrightarrow> draws u w" for u v w unfolding draws_def by auto
qed

lemma rand_Read_draws: "moves draws (rand_Read n)"
  by (auto simp: moves_def rand_Read_def draws_def Let_def split: option.split)

lemma codes_draw:
  "moves draws (GenerateReferralCode l)" "moves draws GenerateVerificationToken"
  unfolding GenerateReferralCode_def GenerateVerificationToken_def Let_def
  by (intro draws.moves_combinators moves_intros rand_Read_draws)+

lemma channel_codes_draw: "moves draws (GenerateChannelCodes cs)"
  unfolding GenerateChannelCodes_def
  by (intro draws.moves_combinators moves_intros codes_draw)

lemma draws_frame: "moves draws m \<Longrightarrow> (\<And>w n. f (w\<lparr>w_rand_n := n\<rparr>) = f w) \<Longrightarrow> moves (frame f) m"
  unfolding moves_def
proof
  fix s assume m: "\<forall>s. draws s (snd (m s))" and f: "\<And>w n. f (w\<lparr>w_rand_n := n\<rparr>) = f w"
  obtain n where "snd (m s) = s\<lparr>w_rand_n := n\<rparr>" using m unfolding draws_def by blast
  then show "frame f s (snd (m s))" by (simp add: frame_def f)
qed

lemma GenerateReferralCode_Ok:
  assumes "GenerateReferralCode l w = (Ok code, w')" "rand_ok w" "0 < l"
  shows "length code = nat l" "set code \<subseteq> set code_alphabet"
proof -
  obtain bs where "w_rand w (w_rand_n w) (nat l) = Some bs" "code = code_of_bytes (nat l) bs"
    using assms(1,3) by (auto simp: GenerateReferralCode_def ok_simps rand_Read_def Let_def split: option.splits)
  then show "length code = nat l" "set code \<subseteq> set code_alphabet"
    using assms(2) by (auto simp: rand_ok_def is_bytes_def code_of_bytes_length code_of_bytes_chars
        intro: code_of_bytes_length dest: subsetD [OF code_of_bytes_chars])
qed

section \<open>Properties\<close>

text \<open>A referral code has exactly the requested length and only characters of the upper-case
  URL-safe alphabet, whatever bytes the random source returned.\<close>

theorem referral_code_format:
  assumes "GenerateReferralCode l w = (Ok code, w')" "rand_ok w" "0 < l"
  shows "length code = nat l \<and> set code \<subseteq> set code_alphabet"
  using GenerateReferralCode_Ok [OF assms] by simp

theorem referral_code_format_witness:
  "\<exists>code w'. GenerateReferralCode 8 sample_world = (Ok code, w') \<and> length code = 8"
proof -
  have r: "rand_ok sample_world"
    by (auto simp: rand_ok_def is_bytes_def sample_world_def empty_world_def)
  have "is_Ok (fst (GenerateReferralCode 8 sample_world))" by code_simp
  then obtain code w' where g: "GenerateReferralCode 8 sample_world = (Ok code, w')"
    by (cases "GenerateReferralCode 8 sample_world") (auto elim: is_Ok.elims)
  show ?thesis using referral_code_format [OF g r] g by auto
qed

text \<open>Verification tokens are a faithful encoding: every token has 44 characters, so it fits
  its column, and two tokens are equal only if the 32 random bytes behind them were.\<close>

theorem verification_token_faithful:
  assumes "GenerateVerificationToken w = (Ok t, w1)" "GenerateVerificationToken v = (Ok t, v1)"
    "rand_ok w" "rand_ok v"
  shows "length t = 44 \<and> w_rand w (w_rand_n w) 32 = w_rand v (w_rand_n v) 32"
proof -
  obtain bs where bs: "w_rand w (w_rand_n w) 32 = Some bs" "t = base64_URLEncoding bs"
    using assms(1) by (auto simp: GenerateVerificationToken_def ok_simps rand_Read_def Let_def split: option.splits)
  obtain cs where cs: "w_rand v (w_rand_n v) 32 = Some cs" "t = base64_URLEncoding cs"
    using assms(2) by (auto simp: GenerateVerificationToken_def ok_simps rand_Read_def Let_def split: option.splits)
  have b: "is_bytes 32 bs" "is_bytes 32 cs" using bs(1) cs(1) assms(3,4) by (auto simp: rand_ok_def)
  then have "bs = cs" using bs(2) cs(2) base64_inj [of bs cs] by (auto simp: is_bytes_def)
  then show ?thesis using bs cs b by (simp add: base64_length is_bytes_def)
qed

theorem verification_token_faithful_witness:
  "\<exists>t w'. GenerateVerificationToken sample_world = (Ok t, w') \<and> length t = 44"
proof -
  have r: "rand_ok sample_world"
    by (auto simp: rand_ok_def is_bytes_def sample_world_def empty_world_def)
  have "is_Ok (fst (GenerateVerificationToken sample_world))" by code_simp
  then obtain t w' where g: "GenerateVerificationToken sample_world = (Ok t, w')"
    by (cases "GenerateVerificationToken sample_world") (auto elim: is_Ok.elims)
  show ?thesis using verification_token_faithful [OF g g r r] g by auto
qed

text \<open>Within 64 bits, referrals only move a user forward: the new position is between 1 and
  the current one, and exactly the points earned ahead unless the front is reached.\<close>

theorem position_change_bounds:
  assumes "1 \<le> cur" "int64 cur" "referrals * points < 2 ^ 63"
  shows "1 \<le> CalculatePositionChange cur referrals points \<and>
    CalculatePositionChange cur referrals points \<le> cur \<and>
    (0 < referrals \<and> 0 < points \<longrightarrow>
      CalculatePositionChange cur referrals points = max 1 (cur - referrals * points))"
proof (cases "referrals \<le> 0 \<or> points \<le> 0")
  case True
  then show ?thesis using assms by (auto simp: CalculatePositionChange_def)
next
  case False
  then have pos: "0 < referrals * points" by simp
  then have 1: "wrap64 (referrals * points) = referrals * points"
    using assms(3) by (intro wrap64_id) (simp add: int64_def)
  have 2: "wrap64 (cur - referrals * points) = cur - referrals * points"
    using pos assms by (intro wrap64_id) (auto simp: int64_def)
  show ?thesis using False pos assms(1) unfolding CalculatePositionChange_def Let_def 1 2 by auto
qed

theorem position_change_bounds_witness:
  "CalculatePositionChange 100 3 10 = 70"
  using position_change_bounds [of 100 3 10] by (simp add: int64_def)

end
