(* ===== verification/Waitlist.thy ===== *)
theory Waitlist
  imports Access WaitlistStore Events Utils
begin

text \<open>
  The waitlist processor, waitlist/processor/processor.go: signing up, listing, searching,
  updating, deleting and verifying the users of a campaign. Each handler is one definition that
  runs the store operations in the order of the source; what is logged and dropped there is
  \<^term>\<open>logE\<close> here. A processor is built with a non-nil event dispatcher; a nil or disabled captcha
  verifier is the environment's \<^verbatim>\<open>w_captcha_enabled = False\<close>.
\<close>

record SignupUserRequest =
  sr_Email :: string
  sr_FirstName :: "string option"
  sr_LastName :: "string option"
  sr_ReferralCode :: "string option"
  sr_CustomFields :: "(string \<times> string) list"
  sr_UTMSource :: "string option"
  sr_UTMMedium :: "string option"
  sr_UTMCampaign :: "string option"
  sr_UTMTerm :: "string option"
  sr_UTMContent :: "string option"
  sr_MarketingConsent :: bool
  sr_TermsAccepted :: bool
  sr_IPAddress :: "string option"
  sr_UserAgent :: "string option"
  sr_CaptchaToken :: "string option"
  sr_Country :: "string option"
  sr_Region :: "string option"
  sr_RegionCode :: "string option"
  sr_PostalCode :: "string option"
  sr_UserTimezone :: "string option"
  sr_Latitude :: "rat option"
  sr_Longitude :: "rat option"
  sr_MetroCode :: "string option"
  sr_DeviceType :: "string option"
  sr_DeviceOS :: "string option"

record SignupUserResponse =
  sp_User :: WaitlistUser
  sp_Position :: int
  sp_ReferralLink :: string
  sp_ReferralCodes :: "(string \<times> string) list"
  sp_Message :: string

record ListUsersRequest =
  lr_Statuses :: "string list"
  lr_Sources :: "string list"
  lr_HasReferrals :: "bool option"
  lr_MinPosition :: "int option"
  lr_MaxPosition :: "int option"
  lr_DateFrom :: "string option"
  lr_DateTo :: "string option"
  lr_CustomFields :: "(string \<times> string) list"
  lr_SortBy :: string
  lr_SortOrder :: string
  lr_Page :: int
  lr_Limit :: int

record ListUsersResponse =
  ls_Users :: "WaitlistUser list"
  ls_TotalCount :: int
  ls_Page :: int
  ls_PageSize :: int
  ls_TotalPages :: int

record UpdateUserRequest =
  uq_FirstName :: "string option"
  uq_LastName :: "string option"
  uq_Status :: "string option"
  uq_Metadata :: jsonb

record SearchUsersRequest =
  sq_Query :: "string option"
  sq_Statuses :: "string list"
  sq_Verified :: "bool option"
  sq_MinReferrals :: "int option"
  sq_DateFrom :: "string option"
  sq_DateTo :: "string option"
  sq_Page :: int
  sq_Limit :: int

record CheckLeadsLimitResult =
  cl_CurrentCount :: int
  cl_Limit :: "int option"
  cl_CanAdd :: int

section \<open>Helpers\<close>

abbreviation (input) wl_fail :: "wl_error \<Rightarrow> (world, 'a) go" where
  "wl_fail e \<equiv> failE (Sentinel (WL e))"

definition wl_verifyCampaignAccess :: "uuid \<Rightarrow> uuid \<Rightarrow> (world, unit) go" where
  "wl_verifyCampaignAccess accountID campaignID =
     bindE (not_found_as (WL WL_ErrCampaignNotFound) (store_GetCampaignByID campaignID)) (\<lambda>campaign.
     if cp_AccountID campaign \<noteq> accountID then wl_fail WL_ErrUnauthorized else retE ())"

definition isValidUserStatus :: "string \<Rightarrow> bool" where
  "isValidUserStatus st = (st \<in> set [WaitlistUserStatusPending, WaitlistUserStatusVerified,
     WaitlistUserStatusConverted, WaitlistUserStatusRemoved, WaitlistUserStatusBlocked])"

definition isValidUserSource :: "string \<Rightarrow> bool" where
  "isValidUserSource src =
     (src \<in> set [UserSourceDirect, UserSourceReferral, UserSourceSocial, UserSourceAd])"

definition StripEnhancedLeadData :: "WaitlistUser \<Rightarrow> WaitlistUser" where
  "StripEnhancedLeadData u = u\<lparr>wu_Country := None, wu_Region := None, wu_RegionCode := None,
     wu_PostalCode := None, wu_City := None, wu_CountryCode := None, wu_UserTimezone := None,
     wu_Latitude := None, wu_Longitude := None, wu_MetroCode := None,
     wu_DeviceType := None, wu_DeviceOS := None\<rparr>"

definition StripEnhancedLeadDataFromSlice :: "WaitlistUser list \<Rightarrow> WaitlistUser list" where
  "StripEnhancedLeadDataFromSlice us = map StripEnhancedLeadData us"

text \<open>A pointer to a string inside dynamic data.\<close>

definition jopt :: "string option \<Rightarrow> jval" where
  "jopt v = (case v of None \<Rightarrow> JNull | Some s \<Rightarrow> JStr s)"

section \<open>Signing up\<close>

text \<open>The check that the email is free; a nil uuid does not count as a user.\<close>

definition check_email_free :: "uuid \<Rightarrow> string \<Rightarrow> (world, unit) go" where
  "check_email_free campaignID email =
     tryE (store_GetWaitlistUserByEmail campaignID email)
       (\<lambda>e. if errors_Is e ErrNotFound then retE () else failE e)
       (\<lambda>u. if wu_ID u \<noteq> uuid_Nil then wl_fail WL_ErrEmailAlreadyExists else retE ())"

definition check_captcha :: "Campaign \<Rightarrow> SignupUserRequest \<Rightarrow> (world, unit) go" where
  "check_captcha campaign req =
     bindE (getE (\<lambda>w. w)) (\<lambda>w.
     if w_captcha_enabled w \<and>
        (case cp_FormSettings campaign of None \<Rightarrow> False | Some fs \<Rightarrow> fs_CaptchaEnabled fs)
     then (case sr_CaptchaToken req of
         None \<Rightarrow> wl_fail WL_ErrCaptchaRequired
       | Some token \<Rightarrow>
           (if token = '''' then wl_fail WL_ErrCaptchaRequired
            else if w_captcha_verify w token (case sr_IPAddress req of None \<Rightarrow> '''' | Some ip \<Rightarrow> ip)
            then retE () else wl_fail WL_ErrCaptchaFailed))
     else retE ())"

text \<open>The referrer and the source: a channel code of this campaign, else a referral code of this
  campaign, else a direct signup.\<close>

definition legacy_referral :: "uuid \<Rightarrow> string \<Rightarrow> (world, uuid option \<times> string) go" where
  "legacy_referral campaignID rc =
     tryE (store_GetWaitlistUserByReferralCode rc)
       (\<lambda>e. if errors_Is e ErrNotFound then retE (None, ''direct'') else failE e)
       (\<lambda>r. if wu_CampaignID r \<noteq> campaignID then retE (None, ''direct'')
            else retE (Some (wu_ID r), ''referral''))"

definition resolve_referral :: "uuid \<Rightarrow> string option \<Rightarrow> (world, uuid option \<times> string) go" where
  "resolve_referral campaignID code = (case code of
       None \<Rightarrow> retE (None, ''direct'')
     | Some rc \<Rightarrow>
        (if rc = '''' then retE (None, ''direct'')
         else bindE (store_GetUserByChannelCode rc) (\<lambda>rch.
           (case fst rch of
              None \<Rightarrow> legacy_referral campaignID rc
            | Some r \<Rightarrow> (if wu_CampaignID r = campaignID then retE (Some (wu_ID r), snd rch)
                       else legacy_referral campaignID rc)))))"

definition signup_metadata :: "(string \<times> string) list \<Rightarrow> jsonb" where
  "signup_metadata kvs = Some (fold (\<lambda>kv m. AList.update (fst kv) (JStr (snd kv)) m) kvs [])"

definition signup_params ::
    "uuid \<Rightarrow> SignupUserRequest \<Rightarrow> uuid option \<Rightarrow> string \<Rightarrow> string \<Rightarrow> string \<Rightarrow> CreateWaitlistUserParams" where
  "signup_params campaignID req referredByID src referralCode verificationToken = \<lparr>
     cwp_CampaignID = campaignID, cwp_Email = ToLower (TrimSpace (sr_Email req)),
     cwp_FirstName = sr_FirstName req, cwp_LastName = sr_LastName req,
     cwp_ReferralCode = referralCode, cwp_ReferredByID = referredByID, cwp_Position = -1,
     cwp_OriginalPosition = -1, cwp_Source = Some src, cwp_UTMSource = sr_UTMSource req,
     cwp_UTMMedium = sr_UTMMedium req, cwp_UTMCampaign = sr_UTMCampaign req,
     cwp_UTMTerm = sr_UTMTerm req, cwp_UTMContent = sr_UTMContent req,
     cwp_IPAddress = sr_IPAddress req, cwp_UserAgent = sr_UserAgent req, cwp_CountryCode = None,
     cwp_City = None, cwp_DeviceFingerprint = None, cwp_Country = sr_Country req,
     cwp_Region = sr_Region req, cwp_RegionCode = sr_RegionCode req,
     cwp_PostalCode = sr_PostalCode req, cwp_UserTimezone = sr_UserTimezone req,
     cwp_Latitude = sr_Latitude req, cwp_Longitude = sr_Longitude req,
     cwp_MetroCode = sr_MetroCode req, cwp_DeviceType = sr_DeviceType req,
     cwp_DeviceOS = sr_DeviceOS req, cwp_Metadata = signup_metadata (sr_CustomFields req),
     cwp_MarketingConsent = sr_MarketingConsent req, cwp_TermsAccepted = sr_TermsAccepted req,
     cwp_VerificationToken = Some verificationToken\<rparr>"

text \<open>The channel codes: a failure to generate or to store them is logged, and none are returned.\<close>

definition signup_channel_codes :: "Campaign \<Rightarrow> uuid \<Rightarrow> (world, (string \<times> string) list) go" where
  "signup_channel_codes campaign userID = (case cp_ReferralSettings campaign of
       None \<Rightarrow> retE []
     | Some rs \<Rightarrow>
        (if rs_SharingChannels rs = [] then retE []
         else tryE (GenerateChannelCodes (rs_SharingChannels rs)) (\<lambda>e. retE [])
           (\<lambda>codes. if codes = [] then retE []
              else tryE (store_CreateUserChannelCodes userID codes) (\<lambda>e. retE []) (\<lambda>cs. retE codes))))"

definition user_created_data ::
    "world \<Rightarrow> WaitlistUser \<Rightarrow> string \<Rightarrow> Campaign \<Rightarrow> (string \<times> jval) list" where
  "user_created_data w u referralLink campaign =
     [(''id'', JStr (w_uuid_String w (wu_ID u))), (''email'', JStr (wu_Email u)),
      (''first_name'', jopt (wu_FirstName u)), (''last_name'', jopt (wu_LastName u)),
      (''position'', JInt (wu_Position u)), (''referral_code'', JStr (wu_ReferralCode u)),
      (''referral_link'', JStr referralLink), (''verification_token'', jopt (wu_VerificationToken u)),
      (''email_verified'', JBool (wu_EmailVerified u)), (''campaign_name'', JStr (cp_Name campaign)),
      (''campaign_slug'', JStr (cp_Slug campaign))]"

definition SignupUser :: "uuid \<Rightarrow> SignupUserRequest \<Rightarrow> string \<Rightarrow> (world, SignupUserResponse) go" where
  "SignupUser campaignID req baseURL =
     bindE (not_found_as (WL WL_ErrCampaignNotFound) (store_GetCampaignByID campaignID)) (\<lambda>campaign.
     if cp_Status campaign \<noteq> CampaignStatusActive then wl_fail WL_ErrCampaignNotActive
     else bindE (check_email_free campaignID (sr_Email req)) (\<lambda>_.
     if (case cp_MaxSignups campaign of None \<Rightarrow> False | Some m \<Rightarrow> m \<le> cp_TotalSignups campaign)
     then wl_fail WL_ErrMaxSignupsReached
     else bindE (check_captcha campaign req) (\<lambda>_.
     bindE (resolve_referral campaignID (sr_ReferralCode req)) (\<lambda>ref.
     bindE (wrapE ''failed to generate referral code'' (GenerateReferralCode 8)) (\<lambda>referralCode.
     bindE (wrapE ''failed to generate verification token'' GenerateVerificationToken) (\<lambda>verificationToken.
     bindE (store_CreateWaitlistUser
              (signup_params campaignID req (fst ref) (snd ref) referralCode verificationToken)) (\<lambda>user.
     bindE (case fst ref of None \<Rightarrow> retE () | Some r \<Rightarrow> logE (store_IncrementReferralCount r)) (\<lambda>_.
     let referralLink = BuildReferralLink baseURL (cp_Slug campaign) referralCode in
     bindE (signup_channel_codes campaign (wu_ID user)) (\<lambda>referralCodes.
     bindE (getE (\<lambda>w. user_created_data w user referralLink campaign)) (\<lambda>userData.
     bindE (DispatchUserCreated (cp_AccountID campaign) (cp_ID campaign) userData) (\<lambda>_.
     retE \<lparr>sp_User = user, sp_Position = -1, sp_ReferralLink = referralLink,
       sp_ReferralCodes = referralCodes,
       sp_Message = ''Successfully joined the waitlist! Please check your email to verify your address.''\<rparr>
     )))))))))))"

section \<open>Listing and searching\<close>

text \<open>A date given as text: RFC3339, else a plain date (moved to the end of its day for date_to),
  else ignored.\<close>

definition parse_date :: "world \<Rightarrow> int \<Rightarrow> string option \<Rightarrow> time option" where
  "parse_date w dayShift v = (case v of
       None \<Rightarrow> None
     | Some s \<Rightarrow>
        (if s = '''' then None
         else (case w_time_Parse w RFC3339 s of
             Some t \<Rightarrow> Some t
           | None \<Rightarrow> map_option (\<lambda>t. t + dayShift) (w_time_Parse w ''2006-01-02'' s))))"

definition end_of_day :: int where
  "end_of_day = (23 * 3600 + 59 * 60 + 59) * 1000000000"

definition page_of :: "int \<Rightarrow> int" where
  "page_of page = (if page < 1 then 1 else page)"

definition limit_clamp :: "int \<Rightarrow> int" where
  "limit_clamp l = (let l' = (if l < 1 then 25 else l) in if 10000 < l' then 10000 else l')"

definition page_offset :: "int \<Rightarrow> int \<Rightarrow> int" where
  "page_offset page l = wrap64 ((page - 1) * l)"

text \<open>The leads limit: the part of the page beyond the first tierLimit users is cut off.\<close>

definition truncate_leads :: "int option \<Rightarrow> int \<Rightarrow> int \<Rightarrow> 'a list \<Rightarrow> 'a list" where
  "truncate_leads tierLimit totalCount off users = (case tierLimit of
       None \<Rightarrow> users
     | Some accessibleCount \<Rightarrow>
        (if totalCount \<le> accessibleCount then users
         else if accessibleCount \<le> off then []
         else if accessibleCount < wrap64 (off + int (length users)) then
           (let usersToShow = wrap64 (accessibleCount - off) in
            if 0 < usersToShow \<and> usersToShow < int (length users)
            then take (nat usersToShow) users else users)
         else users))"

definition extended_params ::
    "uuid \<Rightarrow> ListUsersRequest \<Rightarrow> time option \<times> time option \<Rightarrow> int \<Rightarrow> int \<Rightarrow> ExtendedListWaitlistUsersParams" where
  "extended_params campaignID req dates l off = \<lparr>ewp_CampaignID = campaignID,
     ewp_Statuses = lr_Statuses req, ewp_Sources = lr_Sources req,
     ewp_HasReferrals = lr_HasReferrals req, ewp_MinPosition = lr_MinPosition req,
     ewp_MaxPosition = lr_MaxPosition req, ewp_DateFrom = fst dates, ewp_DateTo = snd dates,
     ewp_CustomFields = lr_CustomFields req, ewp_SortBy = lr_SortBy req,
     ewp_SortOrder = lr_SortOrder req, ewp_Limit = l, ewp_Offset = off\<rparr>"

definition basic_params ::
    "uuid \<Rightarrow> ListUsersRequest \<Rightarrow> time option \<times> time option \<Rightarrow> int \<Rightarrow> int \<Rightarrow> BasicListWaitlistUsersParams" where
  "basic_params campaignID req dates l off = \<lparr>bwp_CampaignID = campaignID,
     bwp_Statuses = lr_Statuses req, bwp_Sources = lr_Sources req,
     bwp_HasReferrals = lr_HasReferrals req, bwp_MinPosition = lr_MinPosition req,
     bwp_MaxPosition = lr_MaxPosition req, bwp_DateFrom = fst dates, bwp_DateTo = snd dates,
     bwp_SortBy = lr_SortBy req, bwp_SortOrder = lr_SortOrder req, bwp_Limit = l, bwp_Offset = off\<rparr>"

definition fetch_users ::
    "bool \<Rightarrow> uuid \<Rightarrow> ListUsersRequest \<Rightarrow> int \<Rightarrow> int \<Rightarrow> (world, WaitlistUser list \<times> int) go" where
  "fetch_users hasEnhancedData campaignID req l off =
     bindE (getE (\<lambda>w. (parse_date w 0 (lr_DateFrom req), parse_date w end_of_day (lr_DateTo req)))) (\<lambda>dates.
     if hasEnhancedData then
       (let params = extended_params campaignID req dates l off in
        bindE (store_ListWaitlistUsersWithExtendedFilters params) (\<lambda>users.
        bindE (store_CountWaitlistUsersWithExtendedFilters params) (\<lambda>totalCount.
        retE (users, totalCount))))
     else
       (let params = basic_params campaignID req dates l off in
        bindE (store_ListWaitlistUsersBasic params) (\<lambda>users.
        bindE (store_CountWaitlistUsersBasic params) (\<lambda>totalCount.
        retE (users, totalCount)))))"

definition ListUsers :: "uuid \<Rightarrow> uuid \<Rightarrow> ListUsersRequest \<Rightarrow> (world, ListUsersResponse) go" where
  "ListUsers accountID campaignID req =
     bindE (wl_verifyCampaignAccess accountID campaignID) (\<lambda>_.
     bindE (HasFeatureByAccountID accountID ''enhanced_lead_data'') (\<lambda>hasEnhancedData.
     if lr_CustomFields req \<noteq> [] \<and> \<not> hasEnhancedData
     then wl_fail WL_ErrCustomFieldFilteringUnavailable
     else (let page = page_of (lr_Page req); l = limit_clamp (lr_Limit req) in
     if \<not> list_all isValidUserStatus (lr_Statuses req) then wl_fail WL_ErrInvalidStatus
     else if \<not> list_all isValidUserSource (lr_Sources req) then wl_fail WL_ErrInvalidSource
     else (let off = page_offset page l in
     bindE (fetch_users hasEnhancedData campaignID req l off) (\<lambda>uc.
     (case go_quot (wrap64 (snd uc + l - 1)) l of
        None \<Rightarrow> panicE ''integer divide by zero''
      | Some totalPages \<Rightarrow>
     bindE (tryE (GetLimitByAccountID accountID ''leads'') (\<lambda>e. retE (fst uc))
              (\<lambda>tierLimit. retE (truncate_leads tierLimit (snd uc) off (fst uc)))) (\<lambda>users.
     retE \<lparr>ls_Users = users, ls_TotalCount = snd uc, ls_Page = page, ls_PageSize = l,
       ls_TotalPages = totalPages\<rparr>)))))))"

definition SearchUsers :: "uuid \<Rightarrow> uuid \<Rightarrow> SearchUsersRequest \<Rightarrow> (world, ListUsersResponse) go" where
  "SearchUsers accountID campaignID req =
     bindE (wl_verifyCampaignAccess accountID campaignID) (\<lambda>_.
     bindE (HasFeatureByAccountID accountID ''enhanced_lead_data'') (\<lambda>hasEnhancedData.
     let page = page_of (sq_Page req); l = limit_clamp (sq_Limit req) in
     if \<not> list_all isValidUserStatus (sq_Statuses req) then wl_fail WL_ErrInvalidStatus
     else
     bindE (store_SearchWaitlistUsers \<lparr>swp_CampaignID = campaignID, swp_Query = sq_Query req,
              swp_Statuses = sq_Statuses req, swp_Verified = sq_Verified req,
              swp_MinReferrals = sq_MinReferrals req, swp_DateFrom = sq_DateFrom req,
              swp_DateTo = sq_DateTo req, swp_SortBy = ''position'', swp_SortOrder = ''asc'',
              swp_Limit = l, swp_Offset = page_offset page l\<rparr>) (\<lambda>users.
     let totalCount = (if int (length users) = l then wrap64 (page * l) else int (length users)) in
     (case go_quot (wrap64 (totalCount + l - 1)) l of
        None \<Rightarrow> panicE ''integer divide by zero''
      | Some totalPages \<Rightarrow>
          retE \<lparr>ls_Users = (if hasEnhancedData then users else StripEnhancedLeadDataFromSlice users),
            ls_TotalCount = totalCount, ls_Page = page, ls_PageSize = l,
            ls_TotalPages = totalPages\<rparr>))))"

section \<open>One user\<close>

text \<open>The user of the campaign with this id.\<close>

definition campaign_user :: "uuid \<Rightarrow> uuid \<Rightarrow> (world, WaitlistUser) go" where
  "campaign_user campaignID userID =
     bindE (not_found_as (WL WL_ErrUserNotFound) (store_GetWaitlistUserByID userID)) (\<lambda>u.
     if wu_CampaignID u \<noteq> campaignID then wl_fail WL_ErrUserNotFound else retE u)"

definition GetUser :: "uuid \<Rightarrow> uuid \<Rightarrow> uuid \<Rightarrow> (world, WaitlistUser) go" where
  "GetUser accountID campaignID userID =
     bindE (wl_verifyCampaignAccess accountID campaignID) (\<lambda>_.
     bindE (campaign_user campaignID userID) (\<lambda>user.
     bindE (HasFeatureByAccountID accountID ''enhanced_lead_data'') (\<lambda>hasEnhancedData.
     retE (if hasEnhancedData then user else StripEnhancedLeadData user))))"

definition UpdateUser :: "uuid \<Rightarrow> uuid \<Rightarrow> uuid \<Rightarrow> UpdateUserRequest \<Rightarrow> (world, WaitlistUser) go" where
  "UpdateUser accountID campaignID userID req =
     bindE (wl_verifyCampaignAccess accountID campaignID) (\<lambda>_.
     bindE (campaign_user campaignID userID) (\<lambda>existingUser.
     if (case uq_Status req of None \<Rightarrow> False | Some s \<Rightarrow> \<not> isValidUserStatus s)
     then wl_fail WL_ErrInvalidStatus
     else not_found_as (WL WL_ErrUserNotFound) (store_UpdateWaitlistUser userID
       \<lparr>uwp_FirstName = uq_FirstName req, uwp_LastName = uq_LastName req,
        uwp_Status = uq_Status req, uwp_Position = None, uwp_Points = None,
        uwp_Metadata = uq_Metadata req\<rparr>)))"

definition DeleteUser :: "uuid \<Rightarrow> uuid \<Rightarrow> uuid \<Rightarrow> (world, unit) go" where
  "DeleteUser accountID campaignID userID =
     bindE (wl_verifyCampaignAccess accountID campaignID) (\<lambda>_.
     bindE (campaign_user campaignID userID) (\<lambda>user.
     not_found_as (WL WL_ErrUserNotFound) (store_DeleteWaitlistUser userID)))"

section \<open>Features and limits\<close>

definition CheckJSONExportFeature :: "uuid \<Rightarrow> (world, unit) go" where
  "CheckJSONExportFeature accountID =
     bindE (HasFeatureByAccountID accountID ''json_export'') (\<lambda>hasFeature.
     if hasFeature then retE () else wl_fail WL_ErrJSONExportNotAvailable)"

text \<open>The pure part of CheckLeadsLimit: the result, and whether the error accompanies it.\<close>

definition leads_check :: "int \<Rightarrow> int option \<Rightarrow> int \<Rightarrow> CheckLeadsLimitResult \<times> bool" where
  "leads_check currentCount leadsLimit countToAdd = (case leadsLimit of
       None \<Rightarrow> (\<lparr>cl_CurrentCount = currentCount, cl_Limit = None, cl_CanAdd = -1\<rparr>, False)
     | Some lmt \<Rightarrow>
        (let remaining = wrap64 (lmt - currentCount);
             canAdd = (if remaining < 0 then 0 else remaining) in
         (\<lparr>cl_CurrentCount = currentCount, cl_Limit = Some lmt, cl_CanAdd = canAdd\<rparr>,
          0 < countToAdd \<and> lmt < wrap64 (currentCount + countToAdd))))"

text \<open>A Go call that returns a value beside its error: the error is the second component.\<close>

definition CheckLeadsLimit ::
    "uuid \<Rightarrow> uuid \<Rightarrow> int \<Rightarrow> (world, CheckLeadsLimitResult \<times> err option) go" where
  "CheckLeadsLimit accountID campaignID countToAdd =
     bindE (store_CountWaitlistUsersByCampaign campaignID) (\<lambda>currentCount.
     bindE (GetLimitByAccountID accountID ''leads'') (\<lambda>leadsLimit.
     let r = leads_check currentCount leadsLimit countToAdd in
     retE (fst r, if snd r then Some (Sentinel (WL WL_ErrLeadsLimitReached)) else None)))"

section \<open>Verification\<close>

definition credit_referrer :: "WaitlistUser \<Rightarrow> (world, unit) go" where
  "credit_referrer u = (case wu_ReferredByID u of
       None \<Rightarrow> retE ()
     | Some r \<Rightarrow> logE (store_IncrementVerifiedReferralCount r))"

definition VerifyUser :: "uuid \<Rightarrow> uuid \<Rightarrow> uuid \<Rightarrow> (world, unit) go" where
  "VerifyUser accountID campaignID userID =
     bindE (HasFeatureByAccountID accountID ''email_verification'') (\<lambda>hasFeature.
     if \<not> hasFeature then wl_fail WL_ErrEmailVerificationNotAvailable
     else bindE (wl_verifyCampaignAccess accountID campaignID) (\<lambda>_.
     bindE (campaign_user campaignID userID) (\<lambda>user.
     if wu_EmailVerified user then wl_fail WL_ErrEmailAlreadyVerified
     else bindE (not_found_as (WL WL_ErrUserNotFound) (store_VerifyWaitlistUserEmail userID)) (\<lambda>_.
     credit_referrer user))))"

definition ResendVerificationToken :: "uuid \<Rightarrow> uuid \<Rightarrow> uuid \<Rightarrow> (world, string) go" where
  "ResendVerificationToken accountID campaignID userID =
     bindE (HasFeatureByAccountID accountID ''email_verification'') (\<lambda>hasFeature.
     if \<not> hasFeature then wl_fail WL_ErrEmailVerificationNotAvailable
     else bindE (wl_verifyCampaignAccess accountID campaignID) (\<lambda>_.
     bindE (campaign_user campaignID userID) (\<lambda>user.
     if wu_EmailVerified user then wl_fail WL_ErrEmailAlreadyVerified
     else bindE (wrapE ''failed to generate verification token'' GenerateVerificationToken) (\<lambda>token.
     bindE (not_found_as (WL WL_ErrUserNotFound) (store_UpdateVerificationToken userID token)) (\<lambda>_.
     retE token)))))"

definition VerifyCampaignOwnership :: "uuid \<Rightarrow> uuid \<Rightarrow> (world, unit) go" where
  "VerifyCampaignOwnership accountID campaignID = wl_verifyCampaignAccess accountID campaignID"

definition user_verified_data :: "world \<Rightarrow> WaitlistUser \<Rightarrow> Campaign \<Rightarrow> (string \<times> jval) list" where
  "user_verified_data w u campaign =
     [(''id'', JStr (w_uuid_String w (wu_ID u))), (''email'', JStr (wu_Email u)),
      (''first_name'', jopt (wu_FirstName u)), (''last_name'', jopt (wu_LastName u)),
      (''position'', JInt (wu_Position u)), (''referral_code'', JStr (wu_ReferralCode u)),
      (''campaign_name'', JStr (cp_Name campaign)), (''campaign_slug'', JStr (cp_Slug campaign))]"

definition VerifyUserByToken :: "uuid \<Rightarrow> string \<Rightarrow> (world, unit) go" where
  "VerifyUserByToken campaignID token =
     bindE (not_found_as (WL WL_ErrInvalidVerificationToken)
              (store_GetWaitlistUserByVerificationToken token)) (\<lambda>user.
     if wu_CampaignID user \<noteq> campaignID then wl_fail WL_ErrInvalidVerificationToken
     else if wu_EmailVerified user then wl_fail WL_ErrEmailAlreadyVerified
     else bindE (not_found_as (WL WL_ErrUserNotFound) (store_VerifyWaitlistUserEmail (wu_ID user))) (\<lambda>_.
     bindE (credit_referrer user) (\<lambda>_.
     tryE (store_GetCampaignByID campaignID) (\<lambda>e. retE ())
       (\<lambda>campaign. bindE (getE (\<lambda>w. user_verified_data w user campaign)) (\<lambda>userData.
          DispatchUserVerified (cp_AccountID campaign) (cp_ID campaign) userData)))))"

end
