(* ===== verification/Position.thy ===== *)
theory Position
  imports Waitlist
begin

text \<open>
  The position calculator, waitlist/processor/position_calculator.go. Positions are recomputed
  from scratch: all live users of a campaign are sorted by an effective score and numbered from 1.
  The per-campaign mutex only orders whole calculations within one process; a calculation is one
  step here. The worker that calls it is in PositionWorker.
\<close>

section \<open>The algorithm\<close>

definition effective_score :: "bool \<Rightarrow> int \<Rightarrow> int \<Rightarrow> WaitlistUser \<Rightarrow> int" where
  "effective_score emailVerificationRequired positionsToJump referrerPositionsToJump u =
     (let count = (if emailVerificationRequired then wu_VerifiedReferralCount u else wu_ReferralCount u);
          score = wrap64 (count * referrerPositionsToJump) in
      if wu_ReferredByID u \<noteq> None \<and> 0 < positionsToJump then wrap64 (score + positionsToJump) else score)"

text \<open>The comparator given to sort.Slice.\<close>

definition position_less :: "(uuid \<Rightarrow> string) \<Rightarrow> bool \<Rightarrow> int \<Rightarrow> int \<Rightarrow> WaitlistUser \<Rightarrow> WaitlistUser \<Rightarrow> bool" where
  "position_less str ver jump refJump u v =
     (let countI = effective_score ver jump refJump u; countJ = effective_score ver jump refJump v in
      if countI \<noteq> countJ then countJ < countI
      else if wu_CreatedAt u \<noteq> wu_CreatedAt v then wu_CreatedAt u < wu_CreatedAt v
      else str (wu_ID u) < str (wu_ID v))"

primrec assign_positions :: "WaitlistUser list \<Rightarrow> int \<Rightarrow> (uuid \<times> int) list \<Rightarrow> (uuid \<times> int) list" where
  "assign_positions [] i m = m"
| "assign_positions (u # us) i m = assign_positions us (i + 1) (AList.update (wu_ID u) (i + 1) m)"

definition calculatePositions ::
    "(uuid \<Rightarrow> string) \<Rightarrow> WaitlistUser list \<Rightarrow> bool \<Rightarrow> int \<Rightarrow> int \<Rightarrow> (uuid \<times> int) list" where
  "calculatePositions str users ver jump refJump =
     assign_positions (sort_Slice (position_less str ver jump refJump) users) 0 []"

text \<open>The settings the calculation reads off the campaign.\<close>

definition calc_verification :: "Campaign \<Rightarrow> bool" where
  "calc_verification c = (case cp_EmailSettings c of None \<Rightarrow> False | Some s \<Rightarrow> es_VerificationRequired s)"

definition calc_jump :: "Campaign \<Rightarrow> int" where
  "calc_jump c = (case cp_ReferralSettings c of None \<Rightarrow> 0 | Some s \<Rightarrow> rs_PositionsToJump s)"

definition calc_ref_jump :: "Campaign \<Rightarrow> int" where
  "calc_ref_jump c = (case cp_ReferralSettings c of
       None \<Rightarrow> 1
     | Some s \<Rightarrow> (if 0 < rs_ReferrerPositionsToJump s then rs_ReferrerPositionsToJump s else 1))"

definition CalculatePositionsForCampaign :: "uuid \<Rightarrow> (world, unit) go" where
  "CalculatePositionsForCampaign campaignID =
     bindE (tryE (store_GetCampaignByID campaignID)
       (\<lambda>e. if errors_Is e ErrNotFound then wl_fail WL_ErrCampaignNotFound
            else failE (Wrap ''failed to get campaign'' e)) retE) (\<lambda>campaign.
     bindE (wrapE ''failed to get users''
       (store_GetAllWaitlistUsersForPositionCalculation campaignID)) (\<lambda>users.
     if users = [] then retE ()
     else bindE (getE w_uuid_String) (\<lambda>str.
     let userPositions = calculatePositions str users (calc_verification campaign)
           (calc_jump campaign) (calc_ref_jump campaign) in
     wrapE ''failed to update positions''
       (store_BulkUpdateWaitlistUserPositions (map fst userPositions) (map snd userPositions)))))"

section \<open>The comparator is a total order\<close>

text \<open>The key the comparator compares by, with its order as a type class instance.\<close>

datatype position_key = PositionKey (pk_score: int) (pk_created: int) (pk_id: string)

definition pk_tuple :: "position_key \<Rightarrow> int \<times> int \<times> string" where
  "pk_tuple k = (- pk_score k, pk_created k, pk_id k)"

lemma pk_tuple_inj: "pk_tuple k = pk_tuple l \<Longrightarrow> k = l"
  by (cases k; cases l) (simp add: pk_tuple_def)

instantiation position_key :: linorder
begin

definition less_eq_position_key :: "position_key \<Rightarrow> position_key \<Rightarrow> bool" where
  "less_eq_position_key k l = (pk_tuple k \<le> pk_tuple l)"

definition less_position_key :: "position_key \<Rightarrow> position_key \<Rightarrow> bool" where
  "less_position_key k l = (pk_tuple k < pk_tuple l)"

instance
  by standard (auto simp: less_eq_position_key_def less_position_key_def dest: pk_tuple_inj)

end

definition position_key :: "(uuid \<Rightarrow> string) \<Rightarrow> bool \<Rightarrow> int \<Rightarrow> int \<Rightarrow> WaitlistUser \<Rightarrow> position_key" where
  "position_key str ver jump refJump u =
     PositionKey (effective_score ver jump refJump u) (wu_CreatedAt u) (str (wu_ID u))"

interpretation position: keyed_less "position_less str ver jump refJump" "position_key str ver jump refJump"
  for str :: "uuid \<Rightarrow> string" and ver :: bool and jump :: int and refJump :: int
  by unfold_locales
     (auto simp: position_less_def position_key_def less_position_key_def pk_tuple_def Let_def)

lemma position_key_inj:
  assumes "inj str" "distinct (map wu_ID us)"
  shows "inj_on (position_key str ver jump refJump) (set us)"
  using assms by (auto simp: inj_on_def position_key_def distinct_map)

section \<open>Ranks\<close>

text \<open>The place of an element in the sorted list is the number of elements before it in the order.\<close>

definition rank_in :: "('a \<Rightarrow> 'a \<Rightarrow> bool) \<Rightarrow> 'a list \<Rightarrow> 'a \<Rightarrow> nat" where
  "rank_in lt xs x = length (filter (\<lambda>y. lt y x) xs)"

context keyed_less
begin

lemma rank_insert: "rank_in lt (insert_by lt x xs) y = rank_in lt (x # xs) y"
  by (induction xs) (auto simp: rank_in_def)

lemma rank_sort: "rank_in lt (sort_Slice lt xs) y = rank_in lt xs y"
proof -
  have "mset (filter (\<lambda>z. lt z y) (sort_Slice lt xs)) = mset (filter (\<lambda>z. lt z y) xs)"
    by simp
  then show ?thesis unfolding rank_in_def by (metis size_mset)
qed

lemma rank_sorted_nth:
  assumes "slice_sorted lt xs" "inj_on key (set xs)" "distinct xs" "i < length xs"
  shows "rank_in lt xs (xs ! i) = i"
proof -
  have s: "sorted (map key xs)" and d: "distinct (map key xs)"
    using assms by (simp_all add: slice_sorted_key distinct_map)
  then have st: "sorted_wrt (<) (map key xs)" by (simp add: strict_sorted_iff)
  have "filter (\<lambda>y. lt y (xs ! i)) xs = take i xs"
  proof -
    have split: "xs = take i xs @ drop i xs" by simp
    have "lt y (xs ! i)" if "y \<in> set (take i xs)" for y
      using st that assms(4) by (auto simp: less_key in_set_conv_nth sorted_wrt_iff_nth_less)
    moreover have "\<not> lt y (xs ! i)" if y: "y \<in> set (drop i xs)" for y
    proof -
      obtain j where "j < length (drop i xs)" "y = drop i xs ! j" using y by (auto simp: in_set_conv_nth)
      then have "i \<le> i + j" "i + j < length xs" "y = xs ! (i + j)" by auto
      then have "key (xs ! i) \<le> key y" using s by (simp add: sorted_iff_nth_mono)
      then show ?thesis by (simp add: less_key)
    qed
    ultimately have "filter (\<lambda>y. lt y (xs ! i)) (take i xs) = take i xs"
        "filter (\<lambda>y. lt y (xs ! i)) (drop i xs) = []"
      by (auto simp: filter_id_conv filter_empty_conv)
    then show ?thesis using split by (metis append_Nil2 filter_append)
  qed
  then show ?thesis using assms(4) by (simp add: rank_in_def)
qed

lemma sort_index:
  assumes "x \<in> set xs" "inj_on key (set xs)" "distinct xs"
  shows "rank_in lt xs x < length xs \<and> sort_Slice lt xs ! rank_in lt xs x = x"
proof -
  have d: "distinct (sort_Slice lt xs)"
    using distinct_sort_Slice [of id lt xs] assms(3) by simp
  obtain i where i: "i < length (sort_Slice lt xs)" "sort_Slice lt xs ! i = x"
    using assms(1) by (metis in_set_conv_nth set_sort_Slice)
  have "rank_in lt (sort_Slice lt xs) (sort_Slice lt xs ! i) = i"
    by (rule rank_sorted_nth) (use assms d i sort_Slice_sorted in simp_all)
  then show ?thesis using i by (simp add: rank_sort)
qed

end

lemma assign_positions_other: "k \<notin> wu_ID ` set us \<Longrightarrow> map_of (assign_positions us i m) k = map_of m k"
  by (induction us arbitrary: i m) (auto simp: update_conv')

lemma assign_positions_nth:
  "distinct (map wu_ID us) \<Longrightarrow> j < length us \<Longrightarrow>
   map_of (assign_positions us i m) (wu_ID (us ! j)) = Some (i + int j + 1)"
proof (induction us arbitrary: i j m)
  case (Cons u us)
  show ?case
  proof (cases j)
    case 0
    then show ?thesis using Cons.prems assign_positions_other [of "wu_ID u" us]
      by (auto simp: update_conv')
  next
    case (Suc j')
    then show ?thesis using Cons by simp
  qed
qed simp

lemma assign_positions_keys:
  "fst ` set (assign_positions us i m) = fst ` set m \<union> wu_ID ` set us"
  by (induction us arbitrary: i m) (auto simp: dom_update)

lemma assign_positions_distinct:
  "distinct (map fst m) \<Longrightarrow> distinct (map fst (assign_positions us i m))"
  by (induction us arbitrary: i m) (auto simp: distinct_update)

text \<open>The functional specification of the algorithm: one plus the number of users before.\<close>

definition position_of :: "(uuid \<Rightarrow> string) \<Rightarrow> bool \<Rightarrow> int \<Rightarrow> int \<Rightarrow> WaitlistUser list \<Rightarrow> WaitlistUser \<Rightarrow> int" where
  "position_of str ver jump refJump us u = 1 + int (rank_in (position_less str ver jump refJump) us u)"

lemma calculatePositions_lookup:
  assumes "inj str" "distinct (map wu_ID us)" "u \<in> set us"
  shows "map_of (calculatePositions str us ver jump refJump) (wu_ID u)
    = Some (position_of str ver jump refJump us u)"
proof -
  let ?lt = "position_less str ver jump refJump"
  have "rank_in ?lt us u < length us \<and> sort_Slice ?lt us ! rank_in ?lt us u = u"
    by (rule position.sort_index) (use assms position_key_inj in \<open>auto simp: distinct_map\<close>)
  then show ?thesis
    using assign_positions_nth [of "sort_Slice ?lt us" "rank_in ?lt us u" 0 "[]"] assms(2)
    by (simp add: calculatePositions_def position_of_def)
qed

lemma calculatePositions_keys: "fst ` set (calculatePositions str us ver jump refJump) = wu_ID ` set us"
  by (simp add: calculatePositions_def assign_positions_keys)

lemma rank_in_perm:
  assumes "mset xs = mset ys"
  shows "rank_in lt xs u = rank_in lt ys u"
proof -
  have "mset (filter (\<lambda>y. lt y u) xs) = mset (filter (\<lambda>y. lt y u) ys)" using assms by simp
  then show ?thesis unfolding rank_in_def by (rule mset_eq_length)
qed

lemma position_of_perm: "mset us = mset vs \<Longrightarrow> position_of str ver jump rj us u = position_of str ver jump rj vs u"
  unfolding position_of_def by (simp only: rank_in_perm [of us vs])

text \<open>The live users of a campaign, and the table after their positions are stored.\<close>

definition campaign_users :: "uuid \<Rightarrow> world \<Rightarrow> WaitlistUser list" where
  "campaign_users campaignID w = users_where (\<lambda>u. wu_CampaignID u = campaignID) w"

definition ranked_table :: "bool \<Rightarrow> int \<Rightarrow> int \<Rightarrow> uuid \<Rightarrow> world \<Rightarrow> WaitlistUser list" where
  "ranked_table ver jump rj campaignID w = map (\<lambda>u.
     if wu_CampaignID u = campaignID \<and> wu_DeletedAt u = None
     then u\<lparr>wu_Position := position_of (w_uuid_String w) ver jump rj (campaign_users campaignID w) u,
            wu_UpdatedAt := w_now w\<rparr>
     else u) (t_waitlist_users w)"

lemma distinct_ids_filter: "distinct (map wu_ID us) \<Longrightarrow> distinct (map wu_ID (filter P us))"
  by (induction us) auto

lemma in_campaign_users:
  "u \<in> set (campaign_users c w) \<longleftrightarrow> u \<in> set (t_waitlist_users w) \<and> wu_CampaignID u = c \<and> wu_DeletedAt u = None"
  by (auto simp: campaign_users_def users_where_def)

lemma campaign_ids:
  assumes "distinct (map wu_ID (t_waitlist_users w))" "u \<in> set (t_waitlist_users w)"
  shows "wu_ID u \<in> wu_ID ` set (campaign_users c w) \<longleftrightarrow> wu_CampaignID u = c \<and> wu_DeletedAt u = None"
proof
  assume "wu_ID u \<in> wu_ID ` set (campaign_users c w)"
  then obtain v where v: "v \<in> set (campaign_users c w)" "wu_ID u = wu_ID v" by blast
  have "inj_on wu_ID (set (t_waitlist_users w))" using assms(1) by (simp add: distinct_map)
  then have "v = u"
    by (rule inj_onD) (use v assms(2) in \<open>simp_all add: in_campaign_users\<close>)
  then show "wu_CampaignID u = c \<and> wu_DeletedAt u = None" using v(1) by (simp add: in_campaign_users)
next
  assume "wu_CampaignID u = c \<and> wu_DeletedAt u = None"
  then show "wu_ID u \<in> wu_ID ` set (campaign_users c w)"
    using assms(2) by (simp add: in_campaign_users)
qed

text \<open>The bulk update with the computed map stores the rank of every live user of the campaign.\<close>

lemma bulk_update_ranked:
  fixes ver :: bool and jump rj :: int
  assumes "inj (w_uuid_String w)" "distinct (map wu_ID (t_waitlist_users w))"
    and us: "mset us = mset (campaign_users c w)"
  defines "ps \<equiv> calculatePositions (w_uuid_String w) us ver jump rj"
  shows "upd_where (\<lambda>u. wu_ID u \<in> set (map fst ps))
     (\<lambda>u. u\<lparr>wu_Position := (case map_of (zip (map fst ps) (map snd ps)) (wu_ID u) of
        None \<Rightarrow> wu_Position u | Some p \<Rightarrow> p), wu_UpdatedAt := w_now w\<rparr>) (t_waitlist_users w)
     = ranked_table ver jump rj c w"
proof -
  have su: "set us = set (campaign_users c w)" using us by (metis set_mset_mset)
  have du: "distinct (map wu_ID us)"
    using distinct_ids_filter [OF assms(2)] us
    by (metis campaign_users_def mset_eq_imp_distinct_iff mset_map users_where_def)
  have keys: "set (map fst ps) = wu_ID ` set (campaign_users c w)"
    using calculatePositions_keys [of "w_uuid_String w" us] su by (simp add: ps_def)
  have look: "map_of ps (wu_ID u) = Some (position_of (w_uuid_String w) ver jump rj (campaign_users c w) u)"
    if "u \<in> set (campaign_users c w)" for u
    using calculatePositions_lookup [OF assms(1) du] that su position_of_perm [OF us]
    by (simp add: ps_def)
  show ?thesis
    unfolding upd_where_def ranked_table_def
  proof (rule map_cong [OF refl])
    fix u assume u: "u \<in> set (t_waitlist_users w)"
    show "(if wu_ID u \<in> set (map fst ps)
           then u\<lparr>wu_Position := (case map_of (zip (map fst ps) (map snd ps)) (wu_ID u) of
                None \<Rightarrow> wu_Position u | Some p \<Rightarrow> p), wu_UpdatedAt := w_now w\<rparr> else u)
        = (if wu_CampaignID u = c \<and> wu_DeletedAt u = None
           then u\<lparr>wu_Position := position_of (w_uuid_String w) ver jump rj (campaign_users c w) u,
                wu_UpdatedAt := w_now w\<rparr> else u)"
    proof (cases "wu_CampaignID u = c \<and> wu_DeletedAt u = None")
      case True
      then have "u \<in> set (campaign_users c w)" using u by (simp add: in_campaign_users)
      then show ?thesis using True look [of u] unfolding keys zip_map_fst_snd by simp
    next
      case False
      then show ?thesis unfolding keys campaign_ids [OF assms(2) u, of c] by (simp only: if_False)
    qed
  qed
qed

text \<open>A successful calculation: the campaign's settings are never loaded by GetCampaignByID, so
  every run uses the defaults.\<close>

lemma CalculatePositions_Ok:
  assumes "CalculatePositionsForCampaign c w = (Ok (), w')"
    "inj (w_uuid_String w)" "distinct (map wu_ID (t_waitlist_users w))"
  shows "t_waitlist_users w' = ranked_table False 0 1 c w"
proof -
  let ?us = "sort_Slice (\<lambda>a b. (wu_CreatedAt a, uint (wu_ID a)) < (wu_CreatedAt b, uint (wu_ID b)))
    (users_where (\<lambda>u. wu_CampaignID u = c) (ticked w))"
  obtain cp where cp: "store_GetCampaignByID c w = (Ok cp, ticked w)"
    and rest: "bindE (wrapE ''failed to get users''
       (store_GetAllWaitlistUsersForPositionCalculation c)) (\<lambda>users.
     if users = [] then retE ()
     else bindE (getE w_uuid_String) (\<lambda>str.
     let ps = calculatePositions str users (calc_verification cp) (calc_jump cp) (calc_ref_jump cp) in
     wrapE ''failed to update positions''
       (store_BulkUpdateWaitlistUserPositions (map fst ps) (map snd ps)))) (ticked w) = (Ok (), w')"
  proof -
    from assms(1) obtain cp w1 where h: "store_GetCampaignByID c w = (Ok cp, w1)" and r:
      "bindE (wrapE ''failed to get users''
         (store_GetAllWaitlistUsersForPositionCalculation c)) (\<lambda>users.
       if users = [] then retE ()
       else bindE (getE w_uuid_String) (\<lambda>str.
       let ps = calculatePositions str users (calc_verification cp) (calc_jump cp) (calc_ref_jump cp) in
       wrapE ''failed to update positions''
         (store_BulkUpdateWaitlistUserPositions (map fst ps) (map snd ps)))) w1 = (Ok (), w')"
      unfolding CalculatePositionsForCampaign_def bindE_Ok [of "tryE _ _ _"] tryE_Ok retE_Ok if_Ok failE_Ok
      by (simp split: if_splits) blast
    show thesis by (rule that [OF _ r [unfolded GetCampaignByID_Ok(7) [OF h]]])
      (use h GetCampaignByID_Ok(7) [OF h] in simp)
  qed
  have all: "store_GetAllWaitlistUsersForPositionCalculation c (ticked w) = (r, w1) \<Longrightarrow>
      r = Ok x \<Longrightarrow> x = ?us \<and> w1 = ticked (ticked w)" for r x w1
    by (simp add: store_GetAllWaitlistUsersForPositionCalculation_def users_where_def ok_simps)
  from rest have run: "(if ?us = [] then retE ()
      else bindE (getE w_uuid_String) (\<lambda>str.
        let ps = calculatePositions str ?us (calc_verification cp) (calc_jump cp) (calc_ref_jump cp) in
        wrapE ''failed to update positions''
          (store_BulkUpdateWaitlistUserPositions (map fst ps) (map snd ps)))) (ticked (ticked w)) = (Ok (), w')"
    unfolding bindE_Ok [of "wrapE _ _"] wrapE_Ok by (elim exE conjE) (drule all [OF _ refl], simp only:)
  have s: "calc_verification cp = False" "calc_jump cp = 0" "calc_ref_jump cp = 1"
    using GetCampaignByID_Ok(4,5) [OF cp] by (simp_all add: calc_verification_def calc_jump_def calc_ref_jump_def)
  have m: "mset ?us = mset (campaign_users c w)"
    by (simp add: campaign_users_def users_where_def)
  show ?thesis
  proof (cases "?us = []")
    case True
    then have "campaign_users c w = []" using m by simp
    then have "\<not> (wu_CampaignID u = c \<and> wu_DeletedAt u = None)" if "u \<in> set (t_waitlist_users w)" for u
      using that in_campaign_users [of u c w] by auto
    then have "ranked_table False 0 1 c w = t_waitlist_users w"
      unfolding ranked_table_def by (intro map_idI) (simp only: if_False)
    moreover have "w' = ticked (ticked w)" using run True by (simp add: ok_simps)
    ultimately show ?thesis by simp
  next
    case False
    let ?ps = "calculatePositions (w_uuid_String w) ?us False 0 1"
    have ne: "?ps \<noteq> []"
      using False calculatePositions_keys [of "w_uuid_String w" ?us False 0 1] by auto
    have "t_waitlist_users w' = upd_where (\<lambda>u. wu_ID u \<in> set (map fst ?ps))
       (\<lambda>u. u\<lparr>wu_Position := (case map_of (zip (map fst ?ps) (map snd ?ps)) (wu_ID u) of
          None \<Rightarrow> wu_Position u | Some p \<Rightarrow> p), wu_UpdatedAt := w_now w\<rparr>) (t_waitlist_users w)"
      using run False ne
      by (simp add: ok_simps s Let_def store_BulkUpdateWaitlistUserPositions_def ticked_def)
    then show ?thesis using bulk_update_ranked [OF assms(2,3) m, of False 0 1] by simp
  qed
qed

section \<open>Properties\<close>

lemma position_index:
  assumes "inj str" "distinct (map wu_ID us)" "u \<in> set us"
  obtains i where "i < length us" "sort_Slice (position_less str ver jump rj) us ! i = u"
    "position_of str ver jump rj us u = 1 + int i"
  using that position.sort_index [of u us str ver jump rj] assms position_key_inj [OF assms(1,2)]
  by (auto simp: distinct_map position_of_def)



text \<open>C6: The positions of n users are exactly 1 to n, each given once.\<close>

theorem positions_bijective:
  assumes "inj str" "distinct (map wu_ID us)"
  shows "bij_betw (\<lambda>u. the (map_of (calculatePositions str us ver jump rj) (wu_ID u)))
    (set us) {1..int (length us)}"
proof -
  let ?p = "position_of str ver jump rj us"
  have "bij_betw ?p (set us) {1..int (length us)}"
  proof (rule bij_betw_imageI)
    show inj: "inj_on ?p (set us)"
    proof (rule inj_onI)
      fix u v assume "u \<in> set us" "v \<in> set us" "?p u = ?p v"
      note uv = this
      obtain i where i: "sort_Slice (position_less str ver jump rj) us ! i = u" "?p u = 1 + int i"
        by (rule position_index [OF assms uv(1)])
      obtain j where j: "sort_Slice (position_less str ver jump rj) us ! j = v" "?p v = 1 + int j"
        by (rule position_index [OF assms uv(2)])
      have "i = j" using i(2) j(2) uv(3) by simp
      then show "u = v" using i(1) j(1) by simp
    qed
    have "?p ` set us \<subseteq> {1..int (length us)}"
    proof
      fix p assume "p \<in> ?p ` set us"
      then obtain u where u: "u \<in> set us" "p = ?p u" by blast
      obtain i where "i < length us" "?p u = 1 + int i" by (rule position_index [OF assms u(1)])
      then show "p \<in> {1..int (length us)}" using u(2) by simp
    qed
    moreover have "card (?p ` set us) = length us"
      using card_image [OF inj] distinct_card [of us] assms(2) by (simp add: distinct_map)
    ultimately show "?p ` set us = {1..int (length us)}" by (intro card_subset_eq) auto
  qed
  then show ?thesis
    by (rule bij_betw_cong [THEN iffD1, rotated]) (simp add: calculatePositions_lookup [OF assms])
qed

theorem positions_bijective_witness:
  "bij_betw (\<lambda>u. the (map_of (calculatePositions (w_uuid_String sample_world)
     (t_waitlist_users sample_world) True 5 2) (wu_ID u))) (set (t_waitlist_users sample_world)) {1..2}"
  using positions_bijective [OF inj_uuid_String, of "t_waitlist_users sample_world" True 5 2]
  by (simp add: sample_world_def sample_user_def)

text \<open>C7: A user is placed before another exactly when it wins the comparison: a higher effective
  score, on a tie the earlier signup, then the smaller id; and the placement does not depend on the
  order the rows were read in, nor on the sorting algorithm.\<close>

theorem positions_ordered:
  assumes "inj str" "distinct (map wu_ID us)" "u \<in> set us" "v \<in> set us" "mset vs = mset us"
  shows "(the (map_of (calculatePositions str us ver jump rj) (wu_ID u))
      < the (map_of (calculatePositions str us ver jump rj) (wu_ID v)) \<longleftrightarrow>
      position_less str ver jump rj u v) \<and>
    map_of (calculatePositions str vs ver jump rj) (wu_ID u) = map_of (calculatePositions str us ver jump rj) (wu_ID u) \<and>
    (\<forall>ys. mset ys = mset us \<and> slice_sorted (position_less str ver jump rj) ys \<longrightarrow>
       ys = sort_Slice (position_less str ver jump rj) us)"
proof -
  let ?lt = "position_less str ver jump rj"
  obtain i where i: "i < length us" "sort_Slice ?lt us ! i = u" "position_of str ver jump rj us u = 1 + int i"
    by (rule position_index [OF assms(1-3)])
  obtain j where j: "j < length us" "sort_Slice ?lt us ! j = v" "position_of str ver jump rj us v = 1 + int j"
    by (rule position_index [OF assms(1,2,4)])
  have inj: "inj_on (position_key str ver jump rj) (set us)" by (rule position_key_inj [OF assms(1,2)])
  have "i < j \<longleftrightarrow> ?lt u v"
  proof
    assume "i < j"
    then have "\<not> ?lt v u" using position.sort_Slice_nth_less [of i j us] i j by blast
    moreover have "u \<noteq> v"
      using \<open>i < j\<close> i j assms(2) distinct_sort_Slice [of wu_ID ?lt us] nth_eq_iff_index_eq [of "sort_Slice ?lt us" i j]
      by (auto simp: distinct_map)
    moreover have "position_key str ver jump rj u \<noteq> position_key str ver jump rj v" if "u \<noteq> v"
      using inj_onD [OF inj _ assms(3,4)] that by blast
    ultimately show "?lt u v" unfolding position.less_key by (meson linorder_less_linear)
  next
    assume lt: "?lt u v"
    then have "\<not> j < i" using position.sort_Slice_nth_less [of j i us] i j by blast
    moreover have "i \<noteq> j" using lt i(2) j(2) by (auto simp: position.less_key)
    ultimately show "i < j" by simp
  qed
  moreover have "map_of (calculatePositions str vs ver jump rj) (wu_ID u)
      = Some (position_of str ver jump rj vs u)"
    using assms by (intro calculatePositions_lookup) (auto simp: mset_eq_imp_distinct_iff [of "map wu_ID vs" "map wu_ID us"] dest: mset_eq_setD)
  ultimately show ?thesis
    using i(3) j(3) calculatePositions_lookup [OF assms(1-3)] calculatePositions_lookup [OF assms(1,2,4)]
      position_of_perm [OF assms(5)] position.sort_Slice_unique inj by auto
qed

theorem positions_ordered_witness:
  "the (map_of (calculatePositions (w_uuid_String sample_world) (t_waitlist_users sample_world) False 0 1) 21)
   < the (map_of (calculatePositions (w_uuid_String sample_world) (t_waitlist_users sample_world) False 0 1) 22)"
proof -
  let ?us = "t_waitlist_users sample_world"
  have us: "distinct (map wu_ID ?us)" "?us ! 0 \<in> set ?us" "?us ! 1 \<in> set ?us" "wu_ID (?us ! 0) = 21" "wu_ID (?us ! 1) = 22"
    by (simp_all add: sample_world_def sample_user_def)
  have "position_less (w_uuid_String sample_world) False 0 1 (?us ! 0) (?us ! 1)" by code_simp
  then show ?thesis
    using positions_ordered [OF inj_uuid_String us(1-3) refl, of False 0 1] us(4,5) by simp
qed

end
