(* ===== verification/WaitlistFacts.thy ===== *)
theory WaitlistFacts
  imports Waitlist
begin

text \<open>
  What the handlers of the waitlist processor (theory Waitlist) promise: the access check, the
  listing and its limits, signing up, and the verification token. The lemmas first take a
  successful run of each shared step apart; a property then follows a run from step to step.
\<close>

section \<open>Shared steps\<close>

lemma verifyCampaignAccess_Ok:
  assumes "wl_verifyCampaignAccess a c w = (Ok x, w')"
  shows "owns a c w" "w' = ticked w"
proof -
  obtain cp where g: "store_GetCampaignByID c w = (Ok cp, w')" "cp_AccountID cp = a"
    using assms by (auto simp: wl_verifyCampaignAccess_def ok_simps not_found_as_Ok split: if_splits)
  then show "owns a c w" "w' = ticked w"
    using GetCampaignByID_Ok(6,7) [OF g(1)] by (auto simp: owns_def)
qed

lemma campaign_user_Ok:
  assumes "campaign_user c i w = (Ok u, w')"
  shows "u \<in> set (t_waitlist_users w)" "wu_ID u = i" "wu_CampaignID u = c" "wu_DeletedAt u = None"
    "w' = ticked w"
proof -
  have g: "store_GetWaitlistUserByID i w = (Ok u, w')" and r1: "wu_CampaignID u = c"
    using assms unfolding campaign_user_def
    by (auto elim!: bindE_OkE simp: not_found_as_Ok retE_Ok failE_Ok split: if_splits)
  obtain us where "users_where (\<lambda>u. wu_ID u = i) (ticked w) = u # us" and r: "wu_CampaignID u = c" "w' = ticked w"
    using g r1 unfolding store_GetWaitlistUserByID_def row_or_Ok sql_get_Ok by blast
  then have "u \<in> set (users_where (\<lambda>u. wu_ID u = i) (ticked w))" by simp
  then show "u \<in> set (t_waitlist_users w)" "wu_ID u = i" "wu_DeletedAt u = None"
    by (auto simp: users_where_def)
  show "wu_CampaignID u = c" "w' = ticked w" using r by auto
qed

lemma HasFeature_Ok:
  assumes "HasFeatureByAccountID a n w = (Ok b, w')" "no_faults w"
  shows "\<exists>ti. account_tier a w = Some ti \<and> b = has_feature (st_Features ti) n" "tick w w'"
proof -
  have "outcome w (HasFeatureByAccountID a n w)
      (map_option (\<lambda>ti. has_feature (st_Features ti) n) (account_tier a w))"
    using feature_answers [of a n] assms(2) unfolding answers_def by blast
  then show "\<exists>ti. account_tier a w = Some ti \<and> b = has_feature (st_Features ti) n" "tick w w'"
    unfolding assms(1) outcome_def by (cases "account_tier a w"; simp)+
qed

lemma GetLimit_run:
  assumes "account_tier a w = Some ti" "no_faults w"
  obtains w' where "GetLimitByAccountID a n w = (Ok (limit_of (st_Limits ti) n), w')" "tick w w'"
  using answersD [OF limit_answers [of a n] assms(2)] assms(1) by auto

lemma tick_users:
  assumes "tick w w'"
  shows "t_waitlist_users w' = t_waitlist_users w" "t_campaigns w' = t_campaigns w"
    "no_faults w' = no_faults w" "account_tier a w' = account_tier a w"
  using assms tick_account_tier [OF assms] by (auto simp: tick_def no_faults_def)

lemmas tick_trans = tick.step_trans

section \<open>Listing\<close>

lemma basic_columns_strip: "basic_columns = StripEnhancedLeadData"
  by (rule ext) (simp add: basic_columns_def StripEnhancedLeadData_def)

lemma Strip_simps [simp]:
  "wu_CampaignID (StripEnhancedLeadData u) = wu_CampaignID u"
  "wu_DeletedAt (StripEnhancedLeadData u) = wu_DeletedAt u"
  "wu_ID (StripEnhancedLeadData u) = wu_ID u"
  "StripEnhancedLeadData (StripEnhancedLeadData u) = StripEnhancedLeadData u"
  by (simp_all add: StripEnhancedLeadData_def)

lemma page_bounds: "1 \<le> page_of p" "1 \<le> limit_clamp l" "limit_clamp l \<le> 10000"
  by (auto simp: page_of_def limit_clamp_def Let_def)

lemma set_page: "set (take n (drop m (sort_Slice lt xs))) \<subseteq> set xs"
  by (metis set_drop_subset set_sort_Slice set_take_subset subset_trans)

text \<open>One fetched page: a part of the sorted list of the users a filter selects, and their number.\<close>

definition page_of_users ::
    "bool \<Rightarrow> uuid \<Rightarrow> int \<Rightarrow> int \<Rightarrow> WaitlistUser list \<Rightarrow> WaitlistUser list \<Rightarrow> int \<Rightarrow> bool" where
  "page_of_users enhanced c l off rows us n = (\<exists>M lt.
     (\<forall>u. M u \<longrightarrow> wu_CampaignID u = c \<and> wu_DeletedAt u = None) \<and> 0 \<le> off \<and>
     us = map (if enhanced then id else StripEnhancedLeadData)
       (take (nat l) (drop (nat off) (sort_Slice lt (filter M rows)))) \<and>
     n = int (length (filter M rows)))"

lemma page_of_extended:
  assumes "store_ListWaitlistUsersWithExtendedFilters p w = (Ok us, w1)"
    "store_CountWaitlistUsersWithExtendedFilters p w1 = (Ok n, w')"
  shows "page_of_users True (ewp_CampaignID p) (ewp_Limit p) (ewp_Offset p) (t_waitlist_users w) us n \<and> tick w w'"
proof
  have "w1 = ticked w" "w' = ticked w1"
    using assms unfolding ListWaitlistUsersWithExtendedFilters_Ok CountWaitlistUsers_Ok by blast+
  then show "tick w w'" using tick_trans tick_ticked by blast
  show "page_of_users True (ewp_CampaignID p) (ewp_Limit p) (ewp_Offset p) (t_waitlist_users w) us n"
    unfolding page_of_users_def
    by (rule exI [of _ "extended_matches w p"], rule exI [of _ "listing_order (ewp_SortBy p) (ewp_SortOrder p)"])
       (use assms in \<open>auto simp: ListWaitlistUsersWithExtendedFilters_Ok CountWaitlistUsers_Ok
         extended_matches_def common_matches_def\<close>)
qed

lemma page_of_basic:
  assumes "store_ListWaitlistUsersBasic p w = (Ok us, w1)"
    "store_CountWaitlistUsersBasic p w1 = (Ok n, w')"
  shows "page_of_users False (bwp_CampaignID p) (bwp_Limit p) (bwp_Offset p) (t_waitlist_users w) us n \<and> tick w w'"
proof
  have "w1 = ticked w" "w' = ticked w1"
    using assms unfolding ListWaitlistUsersBasic_Ok CountWaitlistUsers_Ok by blast+
  then show "tick w w'" using tick_trans tick_ticked by blast
  show "page_of_users False (bwp_CampaignID p) (bwp_Limit p) (bwp_Offset p) (t_waitlist_users w) us n"
    unfolding page_of_users_def
    by (rule exI [of _ "basic_matches p"], rule exI [of _ "listing_order (bwp_SortBy p) (bwp_SortOrder p)"])
       (use assms in \<open>auto simp: ListWaitlistUsersBasic_Ok CountWaitlistUsers_Ok
         basic_matches_def common_matches_def basic_columns_strip\<close>)
qed

lemma fetch_users_Ok:
  assumes "fetch_users b c req l off w = (Ok un, w')"
  shows "page_of_users b c l off (t_waitlist_users w) (fst un) (snd un) \<and> tick w w'"
proof (cases b)
  case True
  then show ?thesis
    using assms page_of_extended [of "extended_params c req _ l off"] unfolding fetch_users_def
    by (auto elim!: bindE_OkE simp: getE_Ok retE_Ok Let_def extended_params_def)
next
  case False
  then show ?thesis
    using assms page_of_basic [of "basic_params c req _ l off"] unfolding fetch_users_def
    by (auto elim!: bindE_OkE simp: getE_Ok retE_Ok Let_def basic_params_def)
qed

lemma page_of_users_length:
  assumes "page_of_users b c l off rows us n" "0 \<le> l"
  shows "int (length us) \<le> l" "us \<noteq> [] \<Longrightarrow> off + int (length us) \<le> n" "0 \<le> off" "n \<le> int (length rows)"
  using assms length_filter_le [of _ rows] by (auto simp: page_of_users_def)

lemma truncate_leads_take: "\<exists>k. truncate_leads t n off us = take k us"
  unfolding truncate_leads_def Let_def
  by (auto split: option.split intro: exI [of _ "length us"] exI [of _ 0])

lemma truncate_leads_bound:
  assumes "us \<noteq> [] \<Longrightarrow> off + int (length us) \<le> n" "n < 2 ^ 63" "0 \<le> off"
    "truncate_leads (Some L) n off us \<noteq> []"
  shows "off + int (length (truncate_leads (Some L) n off us)) \<le> L"
proof -
  have us: "us \<noteq> []" using assms(4) truncate_leads_take [of "Some L" n off us] by auto
  then have b: "off + int (length us) \<le> n" by (rule assms(1))
  have w1: "wrap64 (off + int (length us)) = off + int (length us)"
    by (rule wrap64_id) (use b assms(2,3) in \<open>auto simp: int64_def\<close>)
  show ?thesis
  proof (cases "n \<le> L \<or> L \<le> off")
    case True
    then show ?thesis using b assms(4) by (auto simp: truncate_leads_def)
  next
    case False
    have w2: "wrap64 (L - off) = L - off"
      by (rule wrap64_id) (use False assms(2,3) in \<open>auto simp: int64_def\<close>)
    show ?thesis using False b assms(4) by (auto simp: truncate_leads_def w1 w2 Let_def)
  qed
qed

text \<open>A successful call of ListUsers, step by step.\<close>

lemma ListUsers_run:
  assumes "ListUsers a c req w = (Ok r, w')" "no_faults w"
  obtains ti us where
    "owns a c w" "account_tier a w = Some ti"
    "lr_CustomFields req \<noteq> [] \<longrightarrow> has_feature (st_Features ti) ''enhanced_lead_data''"
    "page_of_users (has_feature (st_Features ti) ''enhanced_lead_data'') c (limit_clamp (lr_Limit req))
       (page_offset (page_of (lr_Page req)) (limit_clamp (lr_Limit req))) (t_waitlist_users w) us (ls_TotalCount r)"
    "ls_Users r = truncate_leads (limit_of (st_Limits ti) ''leads'') (ls_TotalCount r)
       (page_offset (page_of (lr_Page req)) (limit_clamp (lr_Limit req))) us"
    "ls_Page r = page_of (lr_Page req)" "ls_PageSize r = limit_clamp (lr_Limit req)"
    "go_quot (wrap64 (ls_TotalCount r + ls_PageSize r - 1)) (ls_PageSize r) = Some (ls_TotalPages r)"
    "tick w w'"
proof -
  let ?l = "limit_clamp (lr_Limit req)"
  let ?off = "page_offset (page_of (lr_Page req)) ?l"
  from assms(1) obtain x b un pages us w1 w2 w3 w4 where
    1: "wl_verifyCampaignAccess a c w = (Ok x, w1)" and
    2: "HasFeatureByAccountID a ''enhanced_lead_data'' w1 = (Ok b, w2)" and
    cf: "lr_CustomFields req \<noteq> [] \<longrightarrow> b" and
    3: "fetch_users b c req ?l ?off w2 = (Ok un, w3)" and
    q: "go_quot (wrap64 (snd un + ?l - 1)) ?l = Some pages" and
    4: "tryE (GetLimitByAccountID a ''leads'') (\<lambda>e. retE (fst un))
          (\<lambda>tierLimit. retE (truncate_leads tierLimit (snd un) ?off (fst un))) w3 = (Ok us, w4)" and
    r: "r = \<lparr>ls_Users = us, ls_TotalCount = snd un, ls_Page = page_of (lr_Page req), ls_PageSize = ?l,
       ls_TotalPages = pages\<rparr>" "w' = w4"
    unfolding ListUsers_def
    by (auto elim!: bindE_OkE simp: Let_def retE_Ok failE_Ok panicE_Ok split: if_splits option.splits)
  have t1: "tick w w1" using verifyCampaignAccess_Ok(2) [OF 1] by (simp add: tick_ticked)
  then have nf1: "no_faults w1" using assms(2) by (simp add: tick_users)
  have t2: "tick w w2" using HasFeature_Ok(2) [OF 2 nf1] tick_trans [OF t1] by blast
  obtain ti where ti: "account_tier a w = Some ti" "b = has_feature (st_Features ti) ''enhanced_lead_data''"
    using HasFeature_Ok(1) [OF 2 nf1] tick_users(4) [OF t1] by auto
  note f = fetch_users_Ok [OF 3]
  have t3: "tick w w3" using f tick_trans [OF t2] by blast
  have nf3: "no_faults w3" using assms(2) t3 by (simp add: tick_users)
  have ti3: "account_tier a w3 = Some ti" using ti(1) t3 by (simp add: tick_users)
  obtain w5 where g: "GetLimitByAccountID a ''leads'' w3 = (Ok (limit_of (st_Limits ti) ''leads''), w5)" "tick w3 w5"
    using GetLimit_run [OF ti3 nf3] by blast
  have us: "us = truncate_leads (limit_of (st_Limits ti) ''leads'') (snd un) ?off (fst un)" "w4 = w5"
    using 4 by (auto simp: tryE_def g retE_def)
  show thesis
  proof (rule that [of ti "fst un"])
    show "owns a c w" by (rule verifyCampaignAccess_Ok(1) [OF 1])
    show "page_of_users (has_feature (st_Features ti) ''enhanced_lead_data'') c ?l ?off (t_waitlist_users w)
        (fst un) (ls_TotalCount r)"
      using f ti(2) tick_users(1) [OF t2] r by simp
    show "tick w w'" using tick_trans [OF t3 g(2)] us(2) r(2) by simp
  qed (use ti cf q us r in simp_all)
qed

definition sample_list_request :: ListUsersRequest where
  "sample_list_request = \<lparr>lr_Statuses = [''pending''], lr_Sources = [], lr_HasReferrals = None,
     lr_MinPosition = None, lr_MaxPosition = None, lr_DateFrom = None, lr_DateTo = None,
     lr_CustomFields = [], lr_SortBy = ''created_at'', lr_SortOrder = ''desc'', lr_Page = 0, lr_Limit = 50\<rparr>"

text \<open>C4: ListUsers returns only live users of the campaign, which the account owns, at most one
  page of them and none beyond the leads limit of the account's tier; without the enhanced lead
  data feature the location and device columns are empty and no custom-field filter was given.\<close>

theorem ListUsers_contract:
  assumes "ListUsers a c req w = (Ok r, w')" "no_faults w"
    "int (length (t_waitlist_users w)) < 2 ^ 63"
  shows "owns a c w \<and> (\<exists>ti. account_tier a w = Some ti \<and>
    (\<forall>u\<in>set (ls_Users r). wu_CampaignID u = c \<and> wu_DeletedAt u = None) \<and>
    1 \<le> ls_PageSize r \<and> ls_PageSize r \<le> 10000 \<and> int (length (ls_Users r)) \<le> ls_PageSize r \<and>
    (\<not> has_feature (st_Features ti) ''enhanced_lead_data'' \<longrightarrow> lr_CustomFields req = [] \<and>
       (\<forall>u\<in>set (ls_Users r). StripEnhancedLeadData u = u)) \<and>
    (\<forall>L. limit_of (st_Limits ti) ''leads'' = Some L \<and> ls_Users r \<noteq> [] \<longrightarrow>
       page_offset (ls_Page r) (ls_PageSize r) + int (length (ls_Users r)) \<le> L))"
proof -
  obtain ti us where r: "owns a c w" "account_tier a w = Some ti"
    "lr_CustomFields req \<noteq> [] \<longrightarrow> has_feature (st_Features ti) ''enhanced_lead_data''"
    "page_of_users (has_feature (st_Features ti) ''enhanced_lead_data'') c (ls_PageSize r)
       (page_offset (ls_Page r) (ls_PageSize r)) (t_waitlist_users w) us (ls_TotalCount r)"
    "ls_Users r = truncate_leads (limit_of (st_Limits ti) ''leads'') (ls_TotalCount r)
       (page_offset (ls_Page r) (ls_PageSize r)) us"
    "ls_PageSize r = limit_clamp (lr_Limit req)"
    using ListUsers_run [OF assms(1,2)] by metis
  obtain k where k: "ls_Users r = take k us" using truncate_leads_take r(5) by metis
  have sub: "set (ls_Users r) \<subseteq> set us" unfolding k by (rule set_take_subset)
  obtain M lt where M: "\<forall>u. M u \<longrightarrow> wu_CampaignID u = c \<and> wu_DeletedAt u = None"
    and us: "us = map (if has_feature (st_Features ti) ''enhanced_lead_data'' then id else StripEnhancedLeadData)
       (take (nat (ls_PageSize r)) (drop (nat (page_offset (ls_Page r) (ls_PageSize r)))
         (sort_Slice lt (filter M (t_waitlist_users w)))))"
    using r(4) unfolding page_of_users_def by blast
  have "wu_CampaignID u = c \<and> wu_DeletedAt u = None" if "u \<in> set us" for u
    using that M us by (auto dest!: subsetD [OF set_page])
  then have live: "\<forall>u\<in>set (ls_Users r). wu_CampaignID u = c \<and> wu_DeletedAt u = None" using sub by blast
  have strip: "\<forall>u\<in>set (ls_Users r). StripEnhancedLeadData u = u"
    if "\<not> has_feature (st_Features ti) ''enhanced_lead_data''"
    using that us sub by auto
  have len: "int (length (ls_Users r)) \<le> ls_PageSize r"
    using page_of_users_length(1) [OF r(4)] k page_bounds(2) [of "lr_Limit req"] r(6) by auto
  have bound: "page_offset (ls_Page r) (ls_PageSize r) + int (length (ls_Users r)) \<le> L"
    if "limit_of (st_Limits ti) ''leads'' = Some L" "ls_Users r \<noteq> []" for L
    using truncate_leads_bound [of us "page_offset (ls_Page r) (ls_PageSize r)" "ls_TotalCount r" L]
      page_of_users_length [OF r(4)] page_bounds(2) [of "lr_Limit req"] r(5,6) assms(3) that by auto
  show ?thesis using r live strip len bound page_bounds(2,3) [of "lr_Limit req"] by auto
qed

theorem ListUsers_contract_witness:
  "\<exists>r w'. ListUsers 1 10 sample_list_request sample_world = (Ok r, w') \<and> length (ls_Users r) = 2 \<and>
     (\<forall>u\<in>set (ls_Users r). StripEnhancedLeadData u = u)"
proof -
  have "(case ListUsers 1 10 sample_list_request sample_world of (Ok r, w) \<Rightarrow> length (ls_Users r) | _ \<Rightarrow> 0) = 2"
    by code_simp
  then obtain r w' where r: "ListUsers 1 10 sample_list_request sample_world = (Ok r, w')" "length (ls_Users r) = 2"
    by (auto split: prod.splits result.splits)
  have "account_tier 1 sample_world = Some getDefaultFreeTier"
    by (simp add: account_tier_def user_tier_def latest_subscription_def free_tier_def live_prices_def
        sample_account_def sample_world_def empty_world_def)
  then have "\<forall>u\<in>set (ls_Users r). StripEnhancedLeadData u = u"
    using ListUsers_contract [OF r(1) sample_world_no_faults]
    by (auto simp: getDefaultFreeTier_def has_feature_def sample_world_def)
  then show ?thesis using r by blast
qed

definition as_extended :: "BasicListWaitlistUsersParams \<Rightarrow> ExtendedListWaitlistUsersParams" where
  "as_extended p = \<lparr>ewp_CampaignID = bwp_CampaignID p, ewp_Statuses = bwp_Statuses p,
     ewp_Sources = bwp_Sources p, ewp_HasReferrals = bwp_HasReferrals p,
     ewp_MinPosition = bwp_MinPosition p, ewp_MaxPosition = bwp_MaxPosition p,
     ewp_DateFrom = bwp_DateFrom p, ewp_DateTo = bwp_DateTo p, ewp_CustomFields = [],
     ewp_SortBy = bwp_SortBy p, ewp_SortOrder = bwp_SortOrder p, ewp_Limit = bwp_Limit p,
     ewp_Offset = bwp_Offset p\<rparr>"

text \<open>The free-tier query is the full one with the location and device columns cut out: the
  basic listing returns exactly the stripped users of the extended listing with the same filters
  and no custom fields, succeeding and failing together.\<close>

theorem basic_listing_is_stripped:
  "store_ListWaitlistUsersBasic p w = (Ok us, w') \<longleftrightarrow>
     (\<exists>vs. store_ListWaitlistUsersWithExtendedFilters (as_extended p) w = (Ok vs, w') \<and>
       us = StripEnhancedLeadDataFromSlice vs)"
proof -
  have "extended_matches w (as_extended p) = basic_matches p"
    by (rule ext) (simp add: extended_matches_def basic_matches_def as_extended_def)
  then show ?thesis
    unfolding ListWaitlistUsersBasic_Ok ListWaitlistUsersWithExtendedFilters_Ok
      StripEnhancedLeadDataFromSlice_def basic_columns_strip by (auto simp: as_extended_def)
qed

section \<open>Signing up\<close>

lemma moves_tickD: "moves tick m \<Longrightarrow> m w = (r, w') \<Longrightarrow> tick w w'"
  unfolding moves_def by (metis snd_conv)

lemma moves_drawsD: "moves draws m \<Longrightarrow> m w = (r, w') \<Longrightarrow> draws w w'"
  unfolding moves_def by (metis snd_conv)

lemma draws_users:
  assumes "draws w w'"
  shows "t_waitlist_users w' = t_waitlist_users w" "t_campaigns w' = t_campaigns w"
    "no_faults w' = no_faults w" "w_now w' = w_now w" "w_queue w' = w_queue w"
    "t_user_channel_codes w' = t_user_channel_codes w"
  using assms by (auto simp: draws_def no_faults_def)

lemma tick_more:
  assumes "tick w w'"
  shows "w_now w' = w_now w" "w_queue w' = w_queue w" "t_user_channel_codes w' = t_user_channel_codes w"
    "w_rand w' = w_rand w" "w_rand_n w' = w_rand_n w"
  using assms by (auto simp: tick_def)

lemma signup_checks_read: "moves tick (check_email_free c email)" "moves tick (check_captcha cp req)"
proof -
  show "moves tick (check_email_free c email)"
    unfolding check_email_free_def by (intro tick_rules reads)
  show "moves tick (check_captcha cp req)"
    unfolding check_captcha_def by (intro tick_rules)
qed

text \<open>A referrer is a live user of the same campaign.\<close>

definition referrer_in :: "uuid \<Rightarrow> world \<Rightarrow> uuid option \<Rightarrow> bool" where
  "referrer_in c w ro = (case ro of None \<Rightarrow> True
     | Some i \<Rightarrow> (\<exists>u\<in>set (t_waitlist_users w). wu_ID u = i \<and> wu_CampaignID u = c \<and> wu_DeletedAt u = None))"

lemma GetUserByReferralCode_Ok:
  assumes "store_GetWaitlistUserByReferralCode rc w = (Ok u, w')"
  shows "u \<in> set (t_waitlist_users w)" "wu_ReferralCode u = rc" "wu_DeletedAt u = None"
proof -
  obtain us where "users_where (\<lambda>u. wu_ReferralCode u = rc) (ticked w) = u # us"
    using assms unfolding store_GetWaitlistUserByReferralCode_def row_or_Ok sql_get_Ok by blast
  then have "u \<in> set (users_where (\<lambda>u. wu_ReferralCode u = rc) (ticked w))" by simp
  then show "u \<in> set (t_waitlist_users w)" "wu_ReferralCode u = rc" "wu_DeletedAt u = None"
    by (auto simp: users_where_def)
qed

lemma GetUserByChannelCode_Ok:
  assumes "store_GetUserByChannelCode rc w = (Ok (Some u, ch), w')"
  shows "\<exists>x\<in>set (t_waitlist_users w). u = channel_columns x \<and> wu_DeletedAt x = None"
    "\<exists>cc\<in>set (t_user_channel_codes w). cc_Code cc = rc \<and> cc_Channel cc = ch"
proof -
  let ?q = "\<lambda>w. concat (map (\<lambda>u. map (\<lambda>c. channel_columns u)
      (filter (\<lambda>c. cc_UserID c = wu_ID u \<and> cc_Code c = rc) (t_user_channel_codes w)))
      (filter (\<lambda>u. wu_DeletedAt u = None) (t_waitlist_users w)))"
  obtain w1 where 1: "sql_get ?q w = (Ok u, w1)" and
    2: "sql_get (\<lambda>w. map cc_Channel (filter (\<lambda>c. cc_Code c = rc) (t_user_channel_codes w))) w1 = (Ok ch, w')"
    using assms unfolding store_GetUserByChannelCode_def
    by (auto elim!: tryE_OkE bindE_OkE simp: wrapE_Ok retE_Ok failE_Ok split: if_splits)
  have "u \<in> set (?q (ticked w))" "w1 = ticked w" using 1 unfolding sql_get_Ok by (metis list.set_intros(1))+
  then show "\<exists>x\<in>set (t_waitlist_users w). u = channel_columns x \<and> wu_DeletedAt x = None" by auto
  have "ch \<in> set (map cc_Channel (filter (\<lambda>c. cc_Code c = rc) (t_user_channel_codes (ticked w1))))"
    using 2 unfolding sql_get_Ok by (metis list.set_intros(1))
  then show "\<exists>cc\<in>set (t_user_channel_codes w). cc_Code cc = rc \<and> cc_Channel cc = ch"
    using \<open>w1 = ticked w\<close> by auto
qed

lemma channel_columns_simps [simp]:
  "wu_ID (channel_columns u) = wu_ID u" "wu_CampaignID (channel_columns u) = wu_CampaignID u"
  by (simp_all add: channel_columns_def)

lemma legacy_referral_Ok:
  assumes "legacy_referral c rc w = (Ok rs, w')"
  shows "referrer_in c w (fst rs)" "snd rs \<in> {''direct'', ''referral''}"
proof -
  have "rs = (None, ''direct'') \<or> (\<exists>r w1. store_GetWaitlistUserByReferralCode rc w = (Ok r, w1) \<and>
      wu_CampaignID r = c \<and> rs = (Some (wu_ID r), ''referral''))"
    using assms unfolding legacy_referral_def
    by (auto elim!: tryE_OkE simp: retE_Ok failE_Ok split: if_splits)
  then show "referrer_in c w (fst rs)" "snd rs \<in> {''direct'', ''referral''}"
    using GetUserByReferralCode_Ok by (auto simp: referrer_in_def) blast
qed

lemma resolve_referral_reads: "moves tick (resolve_referral c code)"
  unfolding resolve_referral_def legacy_referral_def by (intro tick_rules reads)

lemma resolve_referral_Ok:
  assumes "resolve_referral c code w = (Ok rs, w')"
  shows "tick w w'" "referrer_in c w (fst rs)"
    "snd rs \<in> {''direct'', ''referral''} \<union> cc_Channel ` set (t_user_channel_codes w)"
proof -
  show "tick w w'" by (rule moves_tickD [OF resolve_referral_reads assms])
  have "referrer_in c w (fst rs) \<and>
      snd rs \<in> {''direct'', ''referral''} \<union> cc_Channel ` set (t_user_channel_codes w)"
  proof (cases "code = None \<or> code = Some ''''")
    case True
    then show ?thesis using assms by (auto simp: resolve_referral_def retE_Ok referrer_in_def)
  next
    case False
    then obtain rc where rc: "code = Some rc" "rc \<noteq> ''''" by auto
    obtain rch w1 where "store_GetUserByChannelCode rc w = (Ok rch, w1)" and
      "(case fst rch of None \<Rightarrow> legacy_referral c rc
         | Some r \<Rightarrow> (if wu_CampaignID r = c then retE (Some (wu_ID r), snd rch) else legacy_referral c rc)) w1 = (Ok rs, w')"
      using assms rc unfolding resolve_referral_def by (auto elim!: bindE_OkE)
    then obtain ro ch where g: "store_GetUserByChannelCode rc w = (Ok (ro, ch), w1)" and
      k: "(case ro of None \<Rightarrow> legacy_referral c rc
         | Some r \<Rightarrow> (if wu_CampaignID r = c then retE (Some (wu_ID r), ch) else legacy_referral c rc)) w1 = (Ok rs, w')"
      by (cases rch) (simp only: fst_conv snd_conv)
    have "moves tick (store_GetUserByChannelCode rc)" by (rule reads)
    then have t: "tick w w1" using g by (rule moves_tickD)
    have same: "referrer_in c w1 = referrer_in c w"
      by (rule ext) (simp add: referrer_in_def tick_users(1) [OF t] split: option.split)
    show ?thesis
    proof (cases "\<exists>r. ro = Some r \<and> wu_CampaignID r = c")
      case True
      then obtain r where r: "ro = Some r" "wu_CampaignID r = c" by blast
      then have "rs = (Some (wu_ID r), ch)" using k by (simp add: retE_Ok)
      then show ?thesis using GetUserByChannelCode_Ok [OF g [unfolded r(1)]] r(2)
        by (force simp: referrer_in_def)
    next
      case False
      then have "legacy_referral c rc w1 = (Ok rs, w')" using k by (auto split: option.splits if_splits)
      then show ?thesis using legacy_referral_Ok [of c rc w1 rs w'] same by auto
    qed
  qed
  then show "referrer_in c w (fst rs)"
    "snd rs \<in> {''direct'', ''referral''} \<union> cc_Channel ` set (t_user_channel_codes w)" by auto
qed

text \<open>The campaign a handler works with never carries its settings.\<close>

lemma campaign_or_not_found_Ok:
  assumes "not_found_as e (store_GetCampaignByID c) w = (Ok cp, w')"
  shows "\<exists>r\<in>set (t_campaigns w). cp_ID r = c \<and> cp_DeletedAt r = None \<and> cp = campaign_view (ticked w) r"
    "cp_ReferralSettings cp = None" "cp_FormSettings cp = None" "w' = ticked w"
  using GetCampaignByID_Ok [of c w cp w'] assms by (auto simp: not_found_as_Ok)

lemma no_channel_codes: "cp_ReferralSettings cp = None \<Longrightarrow> signup_channel_codes cp i = retE []"
  by (simp add: signup_channel_codes_def)

lemma no_captcha: "cp_FormSettings cp = None \<Longrightarrow> check_captcha cp req = retE ()"
  by (rule ext) (simp add: check_captcha_def go_defs)

text \<open>The users after the referrer was credited with one signup.\<close>

definition credited :: "uuid option \<Rightarrow> time \<Rightarrow> WaitlistUser list \<Rightarrow> WaitlistUser list" where
  "credited ro now rows = (case ro of
       None \<Rightarrow> rows
     | Some i \<Rightarrow> upd_where (\<lambda>u. wu_ID u = i)
         (\<lambda>u. u\<lparr>wu_ReferralCount := wu_ReferralCount u + 1, wu_UpdatedAt := now\<rparr>) rows)"

lemma credit_signup_run:
  assumes "no_faults w"
  obtains w' where "(case ro of None \<Rightarrow> retE () | Some r \<Rightarrow> logE (store_IncrementReferralCount r)) w = (Ok (), w')"
    "t_waitlist_users w' = credited ro (w_now w) (t_waitlist_users w)"
  using assms
  by (cases ro) (auto simp: credited_def retE_def logE_def tryE_def store_IncrementReferralCount_def exec_or_def
      wrapE_def bindE_def sql_update_def db_def no_faults_def no_check_def Let_def)

text \<open>The rest of a signup after the row was stored.\<close>

definition after_create ::
    "Campaign \<Rightarrow> uuid option \<Rightarrow> string \<Rightarrow> string \<Rightarrow> WaitlistUser \<Rightarrow> (world, SignupUserResponse) go" where
  "after_create campaign ro referralCode baseURL user =
     bindE (case ro of None \<Rightarrow> retE () | Some r \<Rightarrow> logE (store_IncrementReferralCount r)) (\<lambda>_.
     let referralLink = BuildReferralLink baseURL (cp_Slug campaign) referralCode in
     bindE (signup_channel_codes campaign (wu_ID user)) (\<lambda>referralCodes.
     bindE (getE (\<lambda>w. user_created_data w user referralLink campaign)) (\<lambda>userData.
     bindE (DispatchUserCreated (cp_AccountID campaign) (cp_ID campaign) userData) (\<lambda>_.
     retE \<lparr>sp_User = user, sp_Position = -1, sp_ReferralLink = referralLink,
       sp_ReferralCodes = referralCodes,
       sp_Message = ''Successfully joined the waitlist! Please check your email to verify your address.''\<rparr>))))"

lemma DispatchUserCreated_run:
  obtains w' where "DispatchUserCreated a c u w = (Ok (), w')" "publishes w w'"
proof -
  obtain w' where "DispatchUserCreated a c u w = (Ok (), w')"
    using dispatch_logged_Ok unfolding DispatchUserCreated_def by blast
  moreover have "moves publishes (DispatchUserCreated a c u)" by (rule dispatch_publishes)
  ultimately show thesis using that unfolding moves_def by (metis snd_conv)
qed

lemma publishes_users:
  assumes "publishes w w'"
  shows "t_waitlist_users w' = t_waitlist_users w" "no_faults w' = no_faults w"
  using assms by (auto simp: publishes_def no_faults_def)

lemma logE_exec_Ok: "\<exists>w'. logE (exec_or msg (sql_update tbl chk P f)) w = (Ok (), w')"
  by (auto simp: logE_def tryE_def exec_or_def wrapE_def bindE_def retE_def failE_def
      sql_update_def db_def Let_def split: option.splits)

lemma after_create_run:
  assumes "cp_ReferralSettings campaign = None"
  obtains r w' where "after_create campaign ro code b user w = (Ok r, w')" "sp_User r = user"
    "sp_Position r = -1" "sp_ReferralCodes r = []"
    "sp_ReferralLink r = BuildReferralLink b (cp_Slug campaign) code"
    "no_faults w \<longrightarrow> t_waitlist_users w' = credited ro (w_now w) (t_waitlist_users w)"
proof -
  let ?c = "case ro of None \<Rightarrow> retE () | Some r \<Rightarrow> logE (store_IncrementReferralCount r)"
  have "\<exists>w1. ?c w = (Ok (), w1)"
    unfolding store_IncrementReferralCount_def
    by (auto simp: retE_def logE_exec_Ok split: option.split)
  then obtain w1 where c: "?c w = (Ok (), w1)" by blast
  let ?link = "BuildReferralLink b (cp_Slug campaign) code"
  obtain w2 where d: "DispatchUserCreated (cp_AccountID campaign) (cp_ID campaign)
      (user_created_data w1 user ?link campaign) w1 = (Ok (), w2)" "publishes w1 w2"
    by (rule DispatchUserCreated_run)
  show thesis
  proof (rule that)
    show "after_create campaign ro code b user w = (Ok \<lparr>sp_User = user, sp_Position = -1,
        sp_ReferralLink = ?link, sp_ReferralCodes = [],
        sp_Message = ''Successfully joined the waitlist! Please check your email to verify your address.''\<rparr>, w2)"
      unfolding after_create_def Let_def no_channel_codes [OF assms]
      using c d(1) by (simp add: bindE_def tryE_def retE_def getE_def)
    show "no_faults w \<longrightarrow> t_waitlist_users w2 = credited ro (w_now w) (t_waitlist_users w)"
    proof
      assume "no_faults w"
      then obtain w3 where "?c w = (Ok (), w3)"
        "t_waitlist_users w3 = credited ro (w_now w) (t_waitlist_users w)"
        by (rule credit_signup_run)
      then show "t_waitlist_users w2 = credited ro (w_now w) (t_waitlist_users w)"
        using c publishes_users(1) [OF d(2)] by simp
    qed
  qed simp_all
qed

text \<open>The whole signup, with its last part under a name.\<close>

lemma SignupUser_after_create:
  "SignupUser c req b =
     bindE (not_found_as (WL WL_ErrCampaignNotFound) (store_GetCampaignByID c)) (\<lambda>campaign.
     if cp_Status campaign \<noteq> CampaignStatusActive then wl_fail WL_ErrCampaignNotActive
     else bindE (check_email_free c (sr_Email req)) (\<lambda>_.
     if (case cp_MaxSignups campaign of None \<Rightarrow> False | Some m \<Rightarrow> m \<le> cp_TotalSignups campaign)
     then wl_fail WL_ErrMaxSignupsReached
     else bindE (check_captcha campaign req) (\<lambda>_.
     bindE (resolve_referral c (sr_ReferralCode req)) (\<lambda>ref.
     bindE (wrapE ''failed to generate referral code'' (GenerateReferralCode 8)) (\<lambda>code.
     bindE (wrapE ''failed to generate verification token'' GenerateVerificationToken) (\<lambda>tok.
     bindE (store_CreateWaitlistUser (signup_params c req (fst ref) (snd ref) code tok))
       (after_create campaign (fst ref) code b)))))))"
  unfolding SignupUser_def after_create_def by (rule refl)

lemma users_frame:
  "moves tick m \<Longrightarrow> moves (frame t_waitlist_users) m"
  "moves draws m' \<Longrightarrow> moves (frame t_waitlist_users) m'"
  by (erule tick_moves_frame, simp) (erule draws_frame, simp)

lemma not_found_campaign_reads: "moves tick (not_found_as e (store_GetCampaignByID c))"
  by (rule reads)+

lemma create_user_atomic: "atomic_on t_waitlist_users (store_CreateWaitlistUser p)"
  unfolding store_CreateWaitlistUser_def
  by (rule atomic_wrapE)
     (auto simp: atomic_on_def sql_insert_def db_def Let_def split: option.splits)

lemma wrapped_draws:
  "moves draws (wrapE msg (GenerateReferralCode n))" "moves draws (wrapE msg GenerateVerificationToken)"
  by (intro draws.moves_combinators codes_draw)+

text \<open>The campaign handed to the last part has no referral settings, so that part cannot fail.\<close>

lemma signup_last_atomic:
  assumes "cp_ReferralSettings cp = None"
  shows "atomic_on t_waitlist_users (bindE (store_CreateWaitlistUser p) (after_create cp ro code b))"
proof (rule atomic_last [OF create_user_atomic])
  fix u show "never_fails (after_create cp ro code b u)"
    unfolding never_fails_def
  proof
    fix s show "\<exists>x s'. after_create cp ro code b u s = (Ok x, s')"
      by (rule after_create_run [OF assms, of ro code b u s]) blast
  qed
qed

definition sample_signup :: "string \<Rightarrow> string option \<Rightarrow> SignupUserRequest" where
  "sample_signup email code = \<lparr>sr_Email = email, sr_FirstName = None, sr_LastName = None,
     sr_ReferralCode = code, sr_CustomFields = [], sr_UTMSource = None, sr_UTMMedium = None,
     sr_UTMCampaign = None, sr_UTMTerm = None, sr_UTMContent = None, sr_MarketingConsent = False,
     sr_TermsAccepted = True, sr_IPAddress = None, sr_UserAgent = None, sr_CaptchaToken = None,
     sr_Country = None, sr_Region = None, sr_RegionCode = None, sr_PostalCode = None,
     sr_UserTimezone = None, sr_Latitude = None, sr_Longitude = None, sr_MetroCode = None,
     sr_DeviceType = None, sr_DeviceOS = None\<rparr>"

lemma SignupUser_error_users:
  assumes "SignupUser c req b w = (Err e, w')"
  shows "t_waitlist_users w' = t_waitlist_users w"
  using assms unfolding SignupUser_after_create
proof (cases rule: bindE_ErrE)
  case first
  then show ?thesis by (rule moves_frameD [OF users_frame(1) [OF not_found_campaign_reads]])
next
  case (second cp w1)
  have rs: "cp_ReferralSettings cp = None" and w1: "w1 = ticked w"
    using campaign_or_not_found_Ok(2,4) [OF second(1)] by auto
  have "atomic_on t_waitlist_users
    (if cp_Status cp \<noteq> CampaignStatusActive then wl_fail WL_ErrCampaignNotActive
     else bindE (check_email_free c (sr_Email req)) (\<lambda>_.
     if (case cp_MaxSignups cp of None \<Rightarrow> False | Some m \<Rightarrow> m \<le> cp_TotalSignups cp)
     then wl_fail WL_ErrMaxSignupsReached
     else bindE (check_captcha cp req) (\<lambda>_.
     bindE (resolve_referral c (sr_ReferralCode req)) (\<lambda>ref.
     bindE (wrapE ''failed to generate referral code'' (GenerateReferralCode 8)) (\<lambda>code.
     bindE (wrapE ''failed to generate verification token'' GenerateVerificationToken) (\<lambda>tok.
     bindE (store_CreateWaitlistUser (signup_params c req (fst ref) (snd ref) code tok))
       (after_create cp (fst ref) code b)))))))"
    by (intro atomic_if atomic_first signup_last_atomic [OF rs] users_frame signup_checks_read
        resolve_referral_reads wrapped_draws atomic_frame [OF frame.moves_failE])
  from atomic_onD [OF this second(2)] show ?thesis using w1 by simp
qed

text \<open>C2: A signup that returns an error leaves the waitlist as it was, whatever statement or
  call failed: no half-made user and no counted referral stay behind.\<close>

theorem SignupUser_error_atomic:
  assumes "SignupUser c req b w = (Err e, w')"
  shows "t_waitlist_users w' = t_waitlist_users w"
  using assms by (rule SignupUser_error_users)

theorem SignupUser_error_atomic_witness:
  "\<exists>w'. SignupUser 10 (sample_signup ''ANN@X.io'' None) '''' sample_world =
      (Err (Wrap ''failed to create waitlist user'' (DbErr ''waitlist_users_campaign_id_email_key'')), w') \<and>
    t_waitlist_users w' = t_waitlist_users sample_world"
proof -
  have "fst (SignupUser 10 (sample_signup ''ANN@X.io'' None) '''' sample_world) =
      Err (Wrap ''failed to create waitlist user'' (DbErr ''waitlist_users_campaign_id_email_key''))"
    by code_simp
  then show ?thesis using SignupUser_error_atomic by (metis prod.collapse)
qed

text \<open>C1: A successful signup of an active campaign below its maximum stores exactly one new
  pending, unverified user with position -1, the normalized email, which no row of the campaign
  has, and a fresh verification token; a referrer is a user of the same campaign and its count
  goes up by one; nothing else of the waitlist changes.\<close>

theorem SignupUser_success:
  assumes "SignupUser c req b w = (Ok r, w')" "no_faults w"
  shows "(\<exists>cp\<in>set (t_campaigns w). cp_ID cp = c \<and> cp_DeletedAt cp = None \<and>
        cp_Status cp = CampaignStatusActive \<and>
        (\<forall>m. cp_MaxSignups cp = Some m \<longrightarrow> waitlist_count c (\<lambda>u. True) w < m)) \<and>
    (\<exists>u. sp_User r = u \<and> sp_Position r = -1 \<and>
      t_waitlist_users w' = credited (wu_ReferredByID u) (w_now w) (t_waitlist_users w @ [u]) \<and>
      referrer_in c w (wu_ReferredByID u) \<and> wu_CampaignID u = c \<and>
      wu_Email u = ToLower (TrimSpace (sr_Email req)) \<and>
      (\<forall>v\<in>set (t_waitlist_users w). wu_CampaignID v = c \<longrightarrow> wu_Email v \<noteq> wu_Email u) \<and>
      wu_ID u \<notin> wu_ID ` set (t_waitlist_users w) \<and>
      wu_Status u = WaitlistUserStatusPending \<and> \<not> wu_EmailVerified u \<and> wu_Position u = -1 \<and>
      wu_VerificationToken u \<noteq> None \<and> wu_Source u \<in> Some ` set sql_user_source)"
proof -
  from assms(1) obtain cp rs code tok w1 w2 w3 w4 w5 w6 w7 u where
    1: "not_found_as (WL WL_ErrCampaignNotFound) (store_GetCampaignByID c) w = (Ok cp, w1)" and
    g: "cp_Status cp = CampaignStatusActive" "\<not> (case cp_MaxSignups cp of None \<Rightarrow> False | Some m \<Rightarrow> m \<le> cp_TotalSignups cp)" and
    2: "check_email_free c (sr_Email req) w1 = (Ok (), w2)" and
    3: "check_captcha cp req w2 = (Ok (), w3)" and
    4: "resolve_referral c (sr_ReferralCode req) w3 = (Ok rs, w4)" and
    5: "wrapE ''failed to generate referral code'' (GenerateReferralCode 8) w4 = (Ok code, w5)" and
    6: "wrapE ''failed to generate verification token'' GenerateVerificationToken w5 = (Ok tok, w6)" and
    7: "store_CreateWaitlistUser (signup_params c req (fst rs) (snd rs) code tok) w6 = (Ok u, w7)" and
    8: "after_create cp (fst rs) code b u w7 = (Ok r, w')"
    unfolding SignupUser_after_create
    by (elim bindE_OkE) (auto simp: failE_Ok elim!: bindE_OkE split: if_splits)
  obtain row where row: "row \<in> set (t_campaigns w)" "cp_ID row = c" "cp_DeletedAt row = None"
      "cp = campaign_view (ticked w) row" and w1: "w1 = ticked w" and rsn: "cp_ReferralSettings cp = None"
    using campaign_or_not_found_Ok [OF 1] by blast
  have "tick w1 w3" using moves_tickD [OF signup_checks_read(1) 2] moves_tickD [OF signup_checks_read(2) 3]
    by (rule tick_trans)
  then have t3: "tick w w3" using w1 tick_trans [OF tick_ticked] by blast
  then have t4: "tick w w4" using resolve_referral_Ok(1) [OF 4] tick_trans by blast
  have d: "draws w4 w6"
    using moves_drawsD [OF wrapped_draws(1) 5] moves_drawsD [OF wrapped_draws(2) 6] by (rule draws.step_trans)
  have same: "t_waitlist_users w6 = t_waitlist_users w" "no_faults w6" "w_now w6 = w_now w"
    using draws_users [OF d] tick_users [OF t4] tick_more [OF t4] assms(2) by simp_all
  have ref: "referrer_in c w (fst rs)"
    using resolve_referral_Ok(2) [OF 4] unfolding referrer_in_def tick_users(1) [OF t3] .
  have u: "u = new_waitlist_user (signup_params c req (fst rs) (snd rs) code tok) (w_uuids w6 (w_fresh w6)) (w_now w)"
    and ok: "waitlist_constraints (ticked w6) (t_waitlist_users w) u = None"
    and w7: "t_waitlist_users w7 = t_waitlist_users w @ [u]" "no_faults w7" "w_now w7 = w_now w"
    using 7 same unfolding store_CreateWaitlistUser_def wrapE_Ok sql_insert_Ok
    by (auto simp: no_faults_def)
  obtain r' w8 where a: "after_create cp (fst rs) code b u w7 = (Ok r', w8)" "sp_User r' = u" "sp_Position r' = -1"
    "no_faults w7 \<longrightarrow> t_waitlist_users w8 = credited (fst rs) (w_now w7) (t_waitlist_users w7)"
    by (rule after_create_run [OF rsn, where ro = "fst rs" and code = code and b = b and user = u and w = w7])
  have r: "r = r'" "w' = w8" using a(1) 8 by simp_all
  have f: "wu_ReferredByID u = fst rs" "wu_Source u = Some (snd rs)" "wu_CampaignID u = c"
    "wu_Email u = ToLower (TrimSpace (sr_Email req))" "wu_Status u = WaitlistUserStatusPending"
    "\<not> wu_EmailVerified u" "wu_Position u = -1" "wu_VerificationToken u = Some tok"
    by (simp_all add: u new_waitlist_user_def signup_params_def)
  have "waitlist_row_ok u" "wu_ID u \<notin> wu_ID ` set (t_waitlist_users w)"
    "\<not> list_ex (\<lambda>x. wu_CampaignID x = wu_CampaignID u \<and> wu_Email x = wu_Email u) (t_waitlist_users w)"
    using ok by (simp_all add: waitlist_constraints_def split: if_splits)
  moreover have "enum_ok sql_user_source (wu_Source u)"
    using \<open>waitlist_row_ok u\<close> by (simp add: waitlist_row_ok_def)
  ultimately show ?thesis
    using row g ref r a(2,3) a(4) w7 f
    by (auto simp: list_ex_iff enum_ok_def waitlist_count_def)
qed

theorem SignupUser_success_witness:
  "\<exists>r w'. SignupUser 10 (sample_signup '' Cal@X.io '' (Some ''ANN'')) '''' sample_world = (Ok r, w') \<and>
     wu_Email (sp_User r) = ''cal@x.io'' \<and> length (t_waitlist_users w') = 3"
proof -
  let ?m = "SignupUser 10 (sample_signup '' Cal@X.io '' (Some ''ANN'')) '''' sample_world"
  have "(case fst ?m of Ok r \<Rightarrow> wu_Email (sp_User r) = ''cal@x.io'' | _ \<Rightarrow> False)" by code_simp
  then obtain r w' where r: "?m = (Ok r, w')" "wu_Email (sp_User r) = ''cal@x.io''"
    by (cases ?m) (auto split: result.splits)
  have "length (t_waitlist_users w') = 3"
    using SignupUser_success [OF r(1) sample_world_no_faults]
    by (auto simp: credited_def sample_world_def split: option.splits)
  then show ?thesis using r by blast
qed

text \<open>A signup without the captcha check.\<close>

definition SignupUser_unchecked :: "uuid \<Rightarrow> SignupUserRequest \<Rightarrow> string \<Rightarrow> (world, SignupUserResponse) go" where
  "SignupUser_unchecked c req b =
     bindE (not_found_as (WL WL_ErrCampaignNotFound) (store_GetCampaignByID c)) (\<lambda>campaign.
     if cp_Status campaign \<noteq> CampaignStatusActive then wl_fail WL_ErrCampaignNotActive
     else bindE (check_email_free c (sr_Email req)) (\<lambda>_.
     if (case cp_MaxSignups campaign of None \<Rightarrow> False | Some m \<Rightarrow> m \<le> cp_TotalSignups campaign)
     then wl_fail WL_ErrMaxSignupsReached
     else
     bindE (resolve_referral c (sr_ReferralCode req)) (\<lambda>ref.
     bindE (wrapE ''failed to generate referral code'' (GenerateReferralCode 8)) (\<lambda>code.
     bindE (wrapE ''failed to generate verification token'' GenerateVerificationToken) (\<lambda>tok.
     bindE (store_CreateWaitlistUser (signup_params c req (fst ref) (snd ref) code tok))
       (after_create campaign (fst ref) code b))))))"

text \<open>A signup never consults the captcha: the campaign it loads carries no form settings, so
  on every state it is the signup without the check, whatever token is given.\<close>

theorem SignupUser_ignores_captcha:
  "SignupUser c req b = SignupUser_unchecked c req b \<and>
   SignupUser c (req\<lparr>sr_CaptchaToken := t\<rparr>) b = SignupUser c req b"
proof -
  have *: "SignupUser c (req\<lparr>sr_CaptchaToken := t\<rparr>) b = SignupUser_unchecked c req b" for t
    unfolding SignupUser_after_create SignupUser_unchecked_def
    by (rule bindE_cong_Ok) (simp add: no_captcha campaign_or_not_found_Ok(3) signup_params_def)
  from * [of t] * [of "sr_CaptchaToken req"] show ?thesis by simp
qed

section \<open>Verification\<close>

definition verified :: "time \<Rightarrow> uuid \<Rightarrow> WaitlistUser list \<Rightarrow> WaitlistUser list" where
  "verified now i rows = upd_where (live_user i)
     (\<lambda>u. u\<lparr>wu_EmailVerified := True, wu_VerifiedAt := Some now, wu_VerificationToken := None,
       wu_UpdatedAt := now\<rparr>) rows"

definition credited_verified :: "uuid option \<Rightarrow> time \<Rightarrow> WaitlistUser list \<Rightarrow> WaitlistUser list" where
  "credited_verified ro now rows = (case ro of
       None \<Rightarrow> rows
     | Some i \<Rightarrow> upd_where (\<lambda>u. wu_ID u = i)
         (\<lambda>u. u\<lparr>wu_VerifiedReferralCount := wu_VerifiedReferralCount u + 1, wu_UpdatedAt := now\<rparr>) rows)"

lemma credit_referrer_run:
  assumes "no_faults w"
  obtains w' where "credit_referrer u w = (Ok (), w')" "no_faults w'"
    "t_waitlist_users w' = credited_verified (wu_ReferredByID u) (w_now w) (t_waitlist_users w)"
  using assms
  by (cases "wu_ReferredByID u") (auto simp: credit_referrer_def credited_verified_def retE_def logE_def
      tryE_def store_IncrementVerifiedReferralCount_def exec_or_def wrapE_def bindE_def sql_update_def
      db_def no_faults_def no_check_def Let_def)

lemma verify_email_Ok:
  assumes "store_VerifyWaitlistUserEmail i w = (Ok x, w')"
  shows "t_waitlist_users w' = verified (w_now w) i (t_waitlist_users w)"
    "no_faults w' = no_faults w" "w_now w' = w_now w"
  using assms unfolding store_VerifyWaitlistUserEmail_def affected_or_Ok sql_update_Ok
  by (auto simp: verified_def no_faults_def)

text \<open>What happens to the waitlist in a verification: one user, then its referrer.\<close>

definition verification_of :: "world \<Rightarrow> WaitlistUser \<Rightarrow> WaitlistUser list" where
  "verification_of w u = credited_verified (wu_ReferredByID u) (w_now w)
     (verified (w_now w) (wu_ID u) (t_waitlist_users w))"

lemma verify_step:
  assumes "not_found_as e (store_VerifyWaitlistUserEmail (wu_ID u)) w1 = (Ok (), w2)"
    "credit_referrer u w2 = (Ok (), w3)" "tick w w1" "no_faults w"
  shows "t_waitlist_users w3 = verification_of w u" "no_faults w3"
proof -
  have 1: "t_waitlist_users w2 = verified (w_now w) (wu_ID u) (t_waitlist_users w)" "no_faults w2" "w_now w2 = w_now w"
    using verify_email_Ok [of "wu_ID u" w1 "()" w2] assms(1,4) tick_users [OF assms(3)] tick_more [OF assms(3)]
    by (simp_all add: not_found_as_Ok)
  obtain w' where "credit_referrer u w2 = (Ok (), w')" "no_faults w'"
    "t_waitlist_users w' = credited_verified (wu_ReferredByID u) (w_now w2) (t_waitlist_users w2)"
    using credit_referrer_run [OF 1(2)] by metis
  then show "t_waitlist_users w3 = verification_of w u" "no_faults w3"
    using assms(2) 1 by (simp_all add: verification_of_def)
qed

lemma GetUserByToken_Ok:
  assumes "store_GetWaitlistUserByVerificationToken t w = (Ok u, w')"
  shows "u \<in> set (t_waitlist_users w)" "wu_VerificationToken u = Some t" "wu_DeletedAt u = None" "w' = ticked w"
proof -
  obtain us where us: "users_where (\<lambda>u. wu_VerificationToken u = Some t) (ticked w) = u # us" and w': "w' = ticked w"
    using assms unfolding store_GetWaitlistUserByVerificationToken_def row_or_Ok sql_get_Ok by blast
  have "u \<in> set (users_where (\<lambda>u. wu_VerificationToken u = Some t) (ticked w))" by (simp add: us)
  then show "u \<in> set (t_waitlist_users w)" "wu_VerificationToken u = Some t" "wu_DeletedAt u = None"
    by (auto simp: users_where_def)
  show "w' = ticked w" by (rule w')
qed

lemma DispatchUserVerified_run:
  obtains w' where "DispatchUserVerified a c u w = (Ok (), w')" "publishes w w'"
proof -
  obtain w' where "DispatchUserVerified a c u w = (Ok (), w')"
    using dispatch_logged_Ok unfolding DispatchUserVerified_def by blast
  moreover have "moves publishes (DispatchUserVerified a c u)" by (rule dispatch_publishes)
  ultimately show thesis using that unfolding moves_def by (metis snd_conv)
qed

lemma VerifyUserByToken_run:
  assumes "VerifyUserByToken c t w = (Ok x, w')" "no_faults w"
  obtains u where "u \<in> set (t_waitlist_users w)" "wu_VerificationToken u = Some t" "wu_DeletedAt u = None"
    "wu_CampaignID u = c" "\<not> wu_EmailVerified u" "t_waitlist_users w' = verification_of w u" "no_faults w'"
proof -
  from assms(1) obtain u w1 w2 w3 where
    1: "not_found_as (WL WL_ErrInvalidVerificationToken) (store_GetWaitlistUserByVerificationToken t) w = (Ok u, w1)"
    and g: "wu_CampaignID u = c" "\<not> wu_EmailVerified u" and
    2: "not_found_as (WL WL_ErrUserNotFound) (store_VerifyWaitlistUserEmail (wu_ID u)) w1 = (Ok (), w2)" and
    3: "credit_referrer u w2 = (Ok (), w3)" and
    4: "tryE (store_GetCampaignByID c) (\<lambda>e. retE ())
       (\<lambda>campaign. bindE (getE (\<lambda>w. user_verified_data w u campaign)) (\<lambda>userData.
          DispatchUserVerified (cp_AccountID campaign) (cp_ID campaign) userData)) w3 = (Ok x, w')"
    unfolding VerifyUserByToken_def
    by (elim bindE_OkE) (auto simp: failE_Ok elim!: bindE_OkE split: if_splits)
  note u = GetUserByToken_Ok [OF 1 [unfolded not_found_as_Ok]]
  note v = verify_step [OF 2 3, OF tick_ticked [of w, folded u(4)] assms(2)]
  from 4 have "t_waitlist_users w' = t_waitlist_users w3 \<and> no_faults w' = no_faults w3"
  proof (cases rule: tryE_OkE)
    case (ok cp s1)
    note eq = GetCampaignByID_Ok(7) [OF ok(1)]
    obtain s2 where "DispatchUserVerified (cp_AccountID cp) (cp_ID cp) (user_verified_data s1 u cp) s1 = (Ok (), s2)"
      "publishes s1 s2" by (rule DispatchUserVerified_run)
    then show ?thesis using ok(2) eq publishes_users [of s1 s2] by (simp add: bindE_getE)
  next
    case (err e s1)
    have "moves tick (store_GetCampaignByID c)" by (rule reads)+
    then have "tick w3 s1" using err(1) by (rule moves_tickD)
    then show ?thesis using err(2) tick_users by (simp add: retE_Ok)
  qed
  then show thesis using that u g v by auto
qed

lemma filter_upd_where_gone: "(\<And>r. P r \<Longrightarrow> \<not> P (f r)) \<Longrightarrow> filter P (upd_where P f rows) = []"
  by (induction rows) (simp_all add: upd_where_def)

text \<open>C8: Verifying by token marks the one unverified user that holds the token, in this campaign,
  as verified and spends the token; the referrer's verified count goes up by one; every other row
  stays, and no row, the verified one included, changes its status.\<close>

theorem VerifyUserByToken_success:
  assumes "VerifyUserByToken c t w = (Ok (), w')" "no_faults w"
  shows "\<exists>u\<in>set (t_waitlist_users w). wu_VerificationToken u = Some t \<and> wu_CampaignID u = c \<and>
    wu_DeletedAt u = None \<and> \<not> wu_EmailVerified u \<and>
    t_waitlist_users w' = credited_verified (wu_ReferredByID u) (w_now w)
      (verified (w_now w) (wu_ID u) (t_waitlist_users w)) \<and>
    map wu_Status (t_waitlist_users w') = map wu_Status (t_waitlist_users w)"
proof -
  obtain u where u: "u \<in> set (t_waitlist_users w)" "wu_VerificationToken u = Some t" "wu_DeletedAt u = None"
    "wu_CampaignID u = c" "\<not> wu_EmailVerified u" "t_waitlist_users w' = verification_of w u"
    using VerifyUserByToken_run [OF assms] by metis
  moreover have "map wu_Status (verification_of w u) = map wu_Status (t_waitlist_users w)"
    by (simp add: verification_of_def credited_verified_def verified_def map_upd_where split: option.split)
  ultimately show ?thesis by (auto simp: verification_of_def)
qed

lemma verified_sample:
  obtains w' where "VerifyUserByToken 10 ''BOB'' sample_world = (Ok (), w')"
proof -
  have "is_Ok (fst (VerifyUserByToken 10 ''BOB'' sample_world))" by code_simp
  then show thesis using that by (cases "VerifyUserByToken 10 ''BOB'' sample_world") (auto elim: is_Ok.elims)
qed

theorem VerifyUserByToken_success_witness:
  "\<exists>w'. VerifyUserByToken 10 ''BOB'' sample_world = (Ok (), w') \<and>
     map wu_Status (t_waitlist_users w') = [''pending'', ''pending'']"
proof -
  obtain w' where w': "VerifyUserByToken 10 ''BOB'' sample_world = (Ok (), w')" by (rule verified_sample)
  have "map wu_Status (t_waitlist_users w') = map wu_Status (t_waitlist_users sample_world)"
    using VerifyUserByToken_success [OF w' sample_world_no_faults] by blast
  then show ?thesis using w' by (auto simp: sample_world_def sample_user_def)
qed

lemma token_spent:
  assumes "\<forall>u\<in>set rows. \<forall>v\<in>set rows. wu_DeletedAt u = None \<and> wu_DeletedAt v = None \<and>
      wu_VerificationToken u = Some t \<and> wu_VerificationToken v = Some t \<longrightarrow> wu_ID u = wu_ID v"
    "u \<in> set rows" "wu_VerificationToken u = Some t" "wu_DeletedAt u = None"
    "v \<in> set (credited_verified ro now (verified now (wu_ID u) rows))" "wu_DeletedAt v = None"
  shows "wu_VerificationToken v \<noteq> Some t"
proof -
  obtain v' where v': "v' \<in> set (verified now (wu_ID u) rows)" "wu_VerificationToken v' = wu_VerificationToken v"
    "wu_DeletedAt v' = None"
    using assms(5,6) by (auto simp: credited_verified_def set_upd_where split: option.splits if_splits)
  then obtain x where x: "x \<in> set rows" "v' = (if live_user (wu_ID u) x
      then x\<lparr>wu_EmailVerified := True, wu_VerifiedAt := Some now, wu_VerificationToken := None,
       wu_UpdatedAt := now\<rparr> else x)"
    by (auto simp: verified_def set_upd_where)
  show ?thesis
  proof (cases "live_user (wu_ID u) x")
    case True
    then show ?thesis using x(2) v'(2) by simp
  next
    case False
    then have v'x: "v' = x" using x(2) by simp
    show ?thesis
    proof
      assume "wu_VerificationToken v = Some t"
      then have "wu_ID u = wu_ID x" using assms(1) [rule_format, OF assms(2) x(1)] assms(3,4) v'(2,3) v'x by simp
      then show False using False v'(3) v'x by (simp add: live_user_def)
    qed
  qed
qed

text \<open>C9: A verification token works once: when at most one live user holds it, a second call
  with it is refused as an invalid token.\<close>

theorem verification_token_single_use:
  assumes "VerifyUserByToken c t w = (Ok (), w')" "no_faults w"
    "\<forall>u\<in>set (t_waitlist_users w). \<forall>v\<in>set (t_waitlist_users w). wu_DeletedAt u = None \<and>
      wu_DeletedAt v = None \<and> wu_VerificationToken u = Some t \<and> wu_VerificationToken v = Some t \<longrightarrow> wu_ID u = wu_ID v"
  shows "fst (VerifyUserByToken c' t w') = Err (Sentinel (WL WL_ErrInvalidVerificationToken))"
proof -
  obtain u where u: "u \<in> set (t_waitlist_users w)" "wu_VerificationToken u = Some t" "wu_DeletedAt u = None"
    "t_waitlist_users w' = verification_of w u" "no_faults w'"
    using VerifyUserByToken_run [OF assms(1,2)] by metis
  have "users_where (\<lambda>u. wu_VerificationToken u = Some t) w' = []"
    using token_spent [OF assms(3) u(1-3)] u(4) by (auto simp: users_where_def filter_empty_conv verification_of_def)
  then have "users_where (\<lambda>u. wu_VerificationToken u = Some t) (ticked w') = []" by (simp add: users_where_def)
  then show ?thesis
    using u(5) by (simp add: VerifyUserByToken_def store_GetWaitlistUserByVerificationToken_def row_or_def
        sql_get_no_faults not_found_as_def go_defs)
qed

theorem verification_token_single_use_witness:
  "\<exists>w'. VerifyUserByToken 10 ''BOB'' sample_world = (Ok (), w') \<and>
     fst (VerifyUserByToken 10 ''BOB'' w') = Err (Sentinel (WL WL_ErrInvalidVerificationToken))"
proof -
  obtain w' where w': "VerifyUserByToken 10 ''BOB'' sample_world = (Ok (), w')" by (rule verified_sample)
  have "fst (VerifyUserByToken 10 ''BOB'' w') = Err (Sentinel (WL WL_ErrInvalidVerificationToken))"
    by (rule verification_token_single_use [OF w' sample_world_no_faults])
       (simp add: sample_world_def sample_user_def)
  then show ?thesis using w' by blast
qed

section \<open>Accounts\<close>

definition sample_update :: UpdateUserRequest where
  "sample_update = \<lparr>uq_FirstName = Some ''Bob'', uq_LastName = None, uq_Status = Some ''verified'', uq_Metadata = None\<rparr>"

text \<open>C10: The single-user operations stay within the account and the campaign: when one succeeds
  the account owns the live campaign, the user read, updated or deleted is a live user of it, and
  every other row of the waitlist is untouched.\<close>

theorem user_operations_isolated:
  "(GetUser a c i w = (Ok u, w') \<longrightarrow> owns a c w \<and> t_waitlist_users w' = t_waitlist_users w \<and>
      (\<exists>v\<in>set (t_waitlist_users w). live_user i v \<and> wu_CampaignID v = c \<and> (u = v \<or> u = StripEnhancedLeadData v))) \<and>
   (UpdateUser a c i req w = (Ok u, w') \<longrightarrow> owns a c w \<and>
      (\<exists>v\<in>set (t_waitlist_users w). live_user i v \<and> wu_CampaignID v = c) \<and>
      filter (\<lambda>v. \<not> live_user i v) (t_waitlist_users w') = filter (\<lambda>v. \<not> live_user i v) (t_waitlist_users w)) \<and>
   (DeleteUser a c i w = (Ok (), w') \<longrightarrow> owns a c w \<and>
      (\<exists>v\<in>set (t_waitlist_users w). live_user i v \<and> wu_CampaignID v = c) \<and>
      filter (live_user i) (t_waitlist_users w') = [] \<and>
      filter (\<lambda>v. wu_ID v \<noteq> i) (t_waitlist_users w') = filter (\<lambda>v. wu_ID v \<noteq> i) (t_waitlist_users w))"
proof (intro conjI impI)
  assume "GetUser a c i w = (Ok u, w')"
  then obtain v w1 w2 b where 1: "wl_verifyCampaignAccess a c w = (Ok (), w1)" and
    2: "campaign_user c i w1 = (Ok v, w2)" and 3: "HasFeatureByAccountID a ''enhanced_lead_data'' w2 = (Ok b, w')"
    and u: "u = (if b then v else StripEnhancedLeadData v)"
    unfolding GetUser_def by (auto elim!: bindE_OkE simp: retE_Ok)
  have m: "moves tick (HasFeatureByAccountID a ''enhanced_lead_data'')" by (rule reads)+
  from moves_tickD [OF m 3] have "tick w2 w'" .
  then show "owns a c w" "t_waitlist_users w' = t_waitlist_users w"
    "\<exists>v\<in>set (t_waitlist_users w). live_user i v \<and> wu_CampaignID v = c \<and> (u = v \<or> u = StripEnhancedLeadData v)"
    using verifyCampaignAccess_Ok [OF 1] campaign_user_Ok [OF 2] u by (auto simp: tick_users live_user_def)
next
  assume "UpdateUser a c i req w = (Ok u, w')"
  then obtain v w1 w2 p where 1: "wl_verifyCampaignAccess a c w = (Ok (), w1)" and
    2: "campaign_user c i w1 = (Ok v, w2)" and 3: "store_UpdateWaitlistUser i p w2 = (Ok u, w')"
    unfolding UpdateUser_def by (auto elim!: bindE_OkE simp: failE_Ok not_found_as_Ok split: if_splits)
  show "owns a c w" "\<exists>v\<in>set (t_waitlist_users w). live_user i v \<and> wu_CampaignID v = c"
    using verifyCampaignAccess_Ok [OF 1] campaign_user_Ok [OF 2] by (auto simp: live_user_def)
  have "t_waitlist_users w2 = t_waitlist_users w"
    using verifyCampaignAccess_Ok [OF 1] campaign_user_Ok [OF 2] by simp
  then show "filter (\<lambda>v. \<not> live_user i v) (t_waitlist_users w') = filter (\<lambda>v. \<not> live_user i v) (t_waitlist_users w)"
    using 3 unfolding store_UpdateWaitlistUser_def row_or_Ok sql_update_returning_Ok
    by (auto simp: live_user_def intro!: filter_upd_where_other)
next
  assume "DeleteUser a c i w = (Ok (), w')"
  then obtain v w1 w2 where 1: "wl_verifyCampaignAccess a c w = (Ok (), w1)" and
    2: "campaign_user c i w1 = (Ok v, w2)" and 3: "store_DeleteWaitlistUser i w2 = (Ok (), w')"
    unfolding DeleteUser_def by (auto elim!: bindE_OkE simp: not_found_as_Ok)
  show "owns a c w" "\<exists>v\<in>set (t_waitlist_users w). live_user i v \<and> wu_CampaignID v = c"
    using verifyCampaignAccess_Ok [OF 1] campaign_user_Ok [OF 2] by (auto simp: live_user_def)
  have "t_waitlist_users w2 = t_waitlist_users w"
    using verifyCampaignAccess_Ok [OF 1] campaign_user_Ok [OF 2] by simp
  then have rows: "t_waitlist_users w' = upd_where (live_user i)
      (\<lambda>u. u\<lparr>wu_DeletedAt := Some (w_now (ticked w2))\<rparr>) (t_waitlist_users w)"
    using 3 unfolding store_DeleteWaitlistUser_def affected_or_Ok sql_update_Ok by auto
  show "filter (live_user i) (t_waitlist_users w') = []"
    unfolding rows by (rule filter_upd_where_gone) (simp add: live_user_def)
  show "filter (\<lambda>v. wu_ID v \<noteq> i) (t_waitlist_users w') = filter (\<lambda>v. wu_ID v \<noteq> i) (t_waitlist_users w)"
    unfolding rows by (rule filter_upd_where_other) (auto simp: live_user_def)
qed

theorem user_operations_isolated_witness:
  "owns 1 10 sample_world \<and> (\<exists>v\<in>set (t_waitlist_users sample_world). live_user 22 v \<and> wu_CampaignID v = 10)"
proof -
  have "is_Ok (fst (UpdateUser 1 10 22 sample_update sample_world))" by code_simp
  then obtain u w' where "UpdateUser 1 10 22 sample_update sample_world = (Ok u, w')"
    by (cases "UpdateUser 1 10 22 sample_update sample_world") (auto elim: is_Ok.elims)
  then show ?thesis using user_operations_isolated [of 1 10 22 sample_world u w' sample_update] by blast
qed

end
