(* ===== verification/Tables.thy ===== *)
theory Tables
  imports Enums
begin

text \<open>
  What the statements do to one table, once for all tables: a locale for a table of the world
  with its key column, and one for a relation between the old and the new rows that the
  statements are shown to respect. The relations used most are that the rows with another key
  stay as they are, and that keys stay distinct.
\<close>

lemma distinct_key: "distinct (map key rows) \<Longrightarrow> a \<in> set rows \<Longrightarrow> b \<in> set rows \<Longrightarrow> key a = key b \<Longrightarrow> a = b"
  by (metis distinct_map inj_onD)

locale table =
  fixes get :: "world \<Rightarrow> 'r list"
    and upd :: "('r list \<Rightarrow> 'r list) \<Rightarrow> world \<Rightarrow> world"
    and key :: "'r \<Rightarrow> uuid"
  assumes get_upd: "get (upd g w) = g (get w)"
    and get_calls: "get (w\<lparr>w_calls := n\<rparr>) = get w"
    and get_fresh: "get (w\<lparr>w_fresh := n\<rparr>) = get w"
begin

lemma get_ticked: "get (ticked w) = get w"
  by (simp add: ticked_def get_calls)

lemma get_tick: "tick w w' \<Longrightarrow> get w' = get w"
  by (auto simp: tick_def get_calls)

lemma update_rows:
  assumes "sql_update (get, upd) chk P f w = (r, w')"
  shows "get w' = get w \<or> chk (upd_where P (f (ticked w)) (get w)) = None \<and>
    get w' = upd_where P (f (ticked w)) (get w)"
  using assms by (auto simp: sql_update_def db_def ticked_def Let_def get_calls get_upd split: option.splits)

lemma update_returning_rows:
  assumes "sql_update_returning (get, upd) chk P f w = (r, w')"
  shows "get w' = get w \<or> chk (upd_where P (f (ticked w)) (get w)) = None \<and>
    get w' = upd_where P (f (ticked w)) (get w)"
  using assms
  by (auto simp: sql_update_returning_def db_def ticked_def Let_def get_calls get_upd
      split: option.splits list.splits)

lemma insert_rows:
  assumes "sql_insert (get, upd) chk mk w = (r, w')"
  shows "get w' = get w \<or> chk (ticked w) (get w) (mk (w_uuids w (w_fresh w)) (w_now w)) = None \<and>
    get w' = get w @ [mk (w_uuids w (w_fresh w)) (w_now w)]"
  using assms
  by (auto simp: sql_insert_def db_def ticked_def Let_def get_calls get_upd get_fresh split: option.splits)

end

locale row_relation = table get upd key
  for get :: "world \<Rightarrow> 'r list" and upd and key +
  fixes Q :: "'r list \<Rightarrow> 'r list \<Rightarrow> bool"
  assumes rel_refl: "Q rows rows"
    and rel_trans: "Q r s \<Longrightarrow> Q s t \<Longrightarrow> Q r t"
begin

definition rel :: "world \<Rightarrow> world \<Rightarrow> bool" where
  "rel w w' = Q (get w) (get w')"

lemma rel_same: "get w' = get w \<Longrightarrow> rel w w'"
  by (simp add: rel_def rel_refl)

lemma rel_frame: "moves (frame get) m \<Longrightarrow> moves rel m"
  by (simp add: moves_def frame_def rel_same)

lemma rel_reads: "moves tick m \<Longrightarrow> moves rel m"
  unfolding moves_def by (blast intro: rel_same get_tick)

lemma rel_update:
  assumes "\<And>w rows. chk (upd_where P (f w) rows) = None \<Longrightarrow> Q rows (upd_where P (f w) rows)"
  shows "moves rel (sql_update (get, upd) chk P f)"
    "moves rel (sql_update_returning (get, upd) chk P f)"
  unfolding moves_def rel_def
  using update_rows [OF prod.collapse [symmetric]] update_returning_rows [OF prod.collapse [symmetric]]
    assms rel_refl by metis+

lemma rel_insert:
  assumes "\<And>w rows i t. chk w rows (mk i t) = None \<Longrightarrow> Q rows (rows @ [mk i t])"
  shows "moves rel (sql_insert (get, upd) chk mk)"
  unfolding moves_def rel_def
  using insert_rows [OF prod.collapse [symmetric]] assms rel_refl by metis

lemma relD: "moves rel m \<Longrightarrow> m w = (r, w') \<Longrightarrow> Q (get w) (get w')"
  unfolding moves_def rel_def by (metis snd_conv)

end

sublocale row_relation \<subseteq> rel: step_preorder rel
  by unfold_locales (auto simp: rel_def rel_refl intro: rel_trans)

text \<open>The relations.\<close>

definition same_others :: "('r \<Rightarrow> uuid) \<Rightarrow> uuid \<Rightarrow> 'r list \<Rightarrow> 'r list \<Rightarrow> bool" where
  "same_others key i rows rows' = (filter (\<lambda>r. key r \<noteq> i) rows' = filter (\<lambda>r. key r \<noteq> i) rows)"

definition keeps_distinct :: "('r \<Rightarrow> uuid) \<Rightarrow> 'r list \<Rightarrow> 'r list \<Rightarrow> bool" where
  "keeps_distinct key rows rows' = (distinct (map key rows) \<longrightarrow> distinct (map key rows'))"

lemma same_others_update:
  "(\<And>r. P r \<Longrightarrow> key r = i) \<Longrightarrow> (\<And>r. key (f r) = key r) \<Longrightarrow> same_others key i rows (upd_where P f rows)"
  unfolding same_others_def by (rule filter_upd_where_other) auto

lemma keeps_distinct_update:
  "(\<And>r. key (f r) = key r) \<Longrightarrow> keeps_distinct key rows (upd_where P f rows)"
  by (simp add: keeps_distinct_def map_upd_where)

locale other_rows = table get upd key for get :: "world \<Rightarrow> 'r list" and upd and key

sublocale other_rows \<subseteq> row_relation get upd key "same_others key i" for i
  by unfold_locales (simp_all add: same_others_def)

context other_rows begin

lemma update_others:
  assumes "\<And>r. P r \<Longrightarrow> key r = i" "\<And>w r. key (f w r) = key r"
  shows "moves (rel i) (sql_update (get, upd) chk P f)"
    "moves (rel i) (sql_update_returning (get, upd) chk P f)"
  by (rule rel_update same_others_update assms; assumption?)+

end

interpretation segments: other_rows t_segments t_segments_update sg_ID
  by unfold_locales simp_all

interpretation blasts: other_rows t_email_blasts t_email_blasts_update eb_ID
  by unfold_locales simp_all

end
