(* ===== verification/Segments.thy ===== *)
theory Segments
  imports Access WaitlistStore Tables
begin

text \<open>
  Segments, the saved filters over the users of a campaign: store/segment.go with its query
  builder and the JSON form of the criteria, and the handlers of segments/processor/processor.go.
  A query is the list of clauses the builder writes, each with the numbers of its placeholders,
  beside the argument list; the lemmas show that it selects what the criteria say. A status or
  source list takes one placeholder per element, all other clauses as in theory WaitlistStore.
\<close>

section \<open>Store\<close>

record CreateSegmentParams =
  csp_CampaignID :: uuid
  csp_Name :: string
  csp_Description :: "string option"
  csp_FilterCriteria :: jsonb

record UpdateSegmentParams =
  usp_Name :: "string option"
  usp_Description :: "string option"
  usp_FilterCriteria :: "jsonb option"
  usp_Status :: "string option"

definition segment_check :: "Segment list \<Rightarrow> string option" where
  "segment_check rows = (if \<forall>s\<in>set rows. sg_Status s \<in> set sql_segment_status then None
     else Some ''invalid input value for enum segment_status'')"

definition live_segment :: "uuid \<Rightarrow> Segment \<Rightarrow> bool" where
  "live_segment i s = (sg_ID s = i \<and> sg_DeletedAt s = None)"

definition store_CreateSegment :: "CreateSegmentParams \<Rightarrow> (world, Segment) go" where
  "store_CreateSegment p = wrapE ''failed to create segment''
     (sql_insert segments_tbl (\<lambda>w rows r. if sg_ID r \<in> sg_ID ` set rows
          then Some ''duplicate key value violates unique constraint segments_pkey'' else None)
        (\<lambda>i now. \<lparr>sg_ID = i, sg_CampaignID = csp_CampaignID p, sg_Name = csp_Name p,
           sg_Description = csp_Description p, sg_FilterCriteria = jsonb_stored (csp_FilterCriteria p),
           sg_CachedUserCount = 0, sg_CachedAt = None, sg_Status = SegmentStatusActive,
           sg_CreatedAt = now, sg_UpdatedAt = now, sg_DeletedAt = None\<rparr>))"

definition store_GetSegmentByID :: "uuid \<Rightarrow> (world, Segment) go" where
  "store_GetSegmentByID segmentID = row_or ''failed to get segment''
     (sql_get (\<lambda>w. filter (live_segment segmentID) (t_segments w)))"

definition segments_by_created :: "Segment list \<Rightarrow> Segment list" where
  "segments_by_created = sort_Slice (\<lambda>a b. sg_CreatedAt b < sg_CreatedAt a)"

definition store_GetSegmentsByCampaign :: "uuid \<Rightarrow> (world, Segment list) go" where
  "store_GetSegmentsByCampaign campaignID = wrapE ''failed to get segments''
     (sql_query (\<lambda>w. segments_by_created
        (filter (\<lambda>s. sg_CampaignID s = campaignID \<and> sg_DeletedAt s = None) (t_segments w))))"

definition store_GetActiveSegmentsByCampaign :: "uuid \<Rightarrow> (world, Segment list) go" where
  "store_GetActiveSegmentsByCampaign campaignID = wrapE ''failed to get active segments''
     (sql_query (\<lambda>w. segments_by_created
        (filter (\<lambda>s. sg_CampaignID s = campaignID \<and> sg_Status s = ''active'' \<and> sg_DeletedAt s = None)
           (t_segments w))))"

definition store_UpdateSegment :: "uuid \<Rightarrow> UpdateSegmentParams \<Rightarrow> (world, Segment) go" where
  "store_UpdateSegment segmentID p = row_or ''failed to update segment''
     (sql_update_returning segments_tbl segment_check (live_segment segmentID)
        (\<lambda>w s. s\<lparr>sg_Name := coalesce (usp_Name p) (sg_Name s),
          sg_Description := coalesce_opt (usp_Description p) (sg_Description s),
          sg_FilterCriteria := coalesce (map_option jsonb_stored (usp_FilterCriteria p)) (sg_FilterCriteria s),
          sg_Status := coalesce (usp_Status p) (sg_Status s), sg_UpdatedAt := w_now w\<rparr>))"

definition store_DeleteSegment :: "uuid \<Rightarrow> (world, unit) go" where
  "store_DeleteSegment segmentID = affected_or ''failed to delete segment''
     (sql_update segments_tbl no_check (live_segment segmentID)
        (\<lambda>w s. s\<lparr>sg_DeletedAt := Some (w_now w)\<rparr>))"

definition store_UpdateSegmentCachedCount :: "uuid \<Rightarrow> int \<Rightarrow> (world, unit) go" where
  "store_UpdateSegmentCachedCount segmentID n = affected_or ''failed to update segment cached count''
     (sql_update segments_tbl no_check (live_segment segmentID)
        (\<lambda>w s. s\<lparr>sg_CachedUserCount := n, sg_CachedAt := Some (w_now w), sg_UpdatedAt := w_now w\<rparr>))"

section \<open>The query of a segment\<close>

text \<open>A status or source list: \<^verbatim>\<open>argCount++\<close>, the placeholders \<^verbatim>\<open>argCount+i\<close>, the appends, and
  \<^verbatim>\<open>argCount += len - 1\<close>.\<close>

definition placeholders :: "nat \<Rightarrow> nat \<Rightarrow> nat list" where
  "placeholders n k = map (\<lambda>i. n + i) [0..<k]"

definition qb_in :: "(nat list \<Rightarrow> cond) \<Rightarrow> string list \<Rightarrow> query \<Rightarrow> query" where
  "qb_in c xs q = (if xs = [] then q else (let n = qb_count q + 1 in
     q\<lparr>qb_conds := qb_conds q @ [c (placeholders n (length xs))],
       qb_args := qb_args q @ map AStr xs, qb_count := n + (length xs - 1)\<rparr>))"

definition referrals_clause :: "bool option \<Rightarrow> query \<Rightarrow> query" where
  "referrals_clause v q = (case v of
       None \<Rightarrow> q
     | Some True \<Rightarrow> qb_plain CReferralCountPos q
     | Some False \<Rightarrow> qb_plain CReferralCountZero q)"

definition segment_where :: "uuid \<Rightarrow> SegmentFilterCriteria \<Rightarrow> query" where
  "segment_where campaignID cr =
     fold qb_custom (sf_CustomFields cr)
    (qb_opt CCreatedLe ATime (sf_DateTo cr)
    (qb_opt CCreatedGe ATime (sf_DateFrom cr)
    (qb_opt CPosLe AInt (sf_MaxPosition cr)
    (qb_opt CPosGe AInt (sf_MinPosition cr)
    (qb_opt CReferralCountGe AInt (sf_MinReferrals cr)
    (referrals_clause (sf_HasReferrals cr)
    (qb_opt CVerified ABool (sf_EmailVerified cr)
    (qb_in CSourceIn (sf_Sources cr)
    (qb_in CStatusIn (sf_Statuses cr)
    (qb_start campaignID))))))))))"

text \<open>The whole query: a count, or the rows by position with LIMIT and OFFSET when positive.\<close>

record segment_query =
  bq_where :: query
  bq_countOnly :: bool
  bq_limit :: "nat option"
  bq_offset :: "nat option"

definition qb_page :: "int \<Rightarrow> query \<Rightarrow> query \<times> nat option" where
  "qb_page v q = (if 0 < v
     then (q\<lparr>qb_args := qb_args q @ [AInt v], qb_count := qb_count q + 1\<rparr>, Some (qb_count q + 1))
     else (q, None))"

definition buildSegmentFilterQuery ::
    "uuid \<Rightarrow> SegmentFilterCriteria \<Rightarrow> bool \<Rightarrow> int \<Rightarrow> int \<Rightarrow> segment_query" where
  "buildSegmentFilterQuery campaignID cr countOnly lmt off =
     (let q = segment_where campaignID cr in
      if countOnly then \<lparr>bq_where = q, bq_countOnly = True, bq_limit = None, bq_offset = None\<rparr>
      else (let (q1, l) = qb_page lmt q; (q2, k) = qb_page off q1 in
        \<lparr>bq_where = q2, bq_countOnly = False, bq_limit = l, bq_offset = k\<rparr>))"

text \<open>The columns of the SELECT do not include the geo columns beyond country_code and city.\<close>

definition segment_columns :: "WaitlistUser \<Rightarrow> WaitlistUser" where
  "segment_columns u = u\<lparr>wu_Country := None, wu_Region := None, wu_RegionCode := None,
     wu_PostalCode := None, wu_UserTimezone := None, wu_Latitude := None, wu_Longitude := None,
     wu_MetroCode := None, wu_DeviceType := None, wu_DeviceOS := None\<rparr>"

definition page_arg :: "arg list \<Rightarrow> nat option \<Rightarrow> nat option" where
  "page_arg as v = (case v of None \<Rightarrow> None
     | Some n \<Rightarrow> (case lookup_arg as n of Some (AInt i) \<Rightarrow> Some (nat i) | _ \<Rightarrow> None))"

definition run_segment_query :: "segment_query \<Rightarrow> (world, WaitlistUser list) go" where
  "run_segment_query q = db (\<lambda>w. let as = qb_args (bq_where q) in
     if query_ok w (bq_where q)
     then (Ok ((case page_arg as (bq_limit q) of None \<Rightarrow> (\<lambda>us. us) | Some n \<Rightarrow> take n)
          ((case page_arg as (bq_offset q) of None \<Rightarrow> (\<lambda>us. us) | Some n \<Rightarrow> drop n)
          (map segment_columns (sort_Slice (\<lambda>a b. wu_Position a < wu_Position b)
             (query_rows w (bq_where q)))))), w)
     else (Err (DbErr ''invalid argument''), w))"

definition store_CountUsersMatchingCriteria :: "uuid \<Rightarrow> SegmentFilterCriteria \<Rightarrow> (world, int) go" where
  "store_CountUsersMatchingCriteria campaignID cr =
     wrapE ''failed to count users matching criteria''
       (run_count (bq_where (buildSegmentFilterQuery campaignID cr True 0 0)))"

definition store_GetUsersMatchingCriteria ::
    "uuid \<Rightarrow> SegmentFilterCriteria \<Rightarrow> int \<Rightarrow> int \<Rightarrow> (world, WaitlistUser list) go" where
  "store_GetUsersMatchingCriteria campaignID cr lmt off =
     wrapE ''failed to get users matching criteria''
       (run_segment_query (buildSegmentFilterQuery campaignID cr False lmt off))"

definition store_GetUsersForBlast :: "uuid \<Rightarrow> SegmentFilterCriteria \<Rightarrow> (world, WaitlistUser list) go" where
  "store_GetUsersForBlast campaignID cr = wrapE ''failed to get users for blast''
     (run_segment_query (buildSegmentFilterQuery campaignID cr False 0 0))"

section \<open>Criteria as JSON\<close>

text \<open>The strings among the elements of a list of dynamic values.\<close>

definition jstrings :: "jval list \<Rightarrow> string list" where
  "jstrings vs = concat (map (\<lambda>v. case v of JStr s \<Rightarrow> [s] | _ \<Rightarrow> []) vs)"

definition get_strings :: "jsonb \<Rightarrow> string \<Rightarrow> string list" where
  "get_strings j k = (case jget j k of Some (JArr vs) \<Rightarrow> jstrings vs | _ \<Rightarrow> [])"

definition get_bool :: "jsonb \<Rightarrow> string \<Rightarrow> bool option" where
  "get_bool j k = (case jget j k of Some (JBool b) \<Rightarrow> Some b | _ \<Rightarrow> None)"

definition get_int :: "jsonb \<Rightarrow> string \<Rightarrow> int option" where
  "get_int j k = (case jget j k of Some (JFloat r) \<Rightarrow> Some (float_to_int r) | _ \<Rightarrow> None)"

definition get_date :: "(string \<Rightarrow> string \<Rightarrow> time option) \<Rightarrow> jsonb \<Rightarrow> string \<Rightarrow> time option" where
  "get_date parse j k = (case jget j k of Some (JStr s) \<Rightarrow> parse RFC3339 s | _ \<Rightarrow> None)"

definition get_fields :: "jsonb \<Rightarrow> string \<Rightarrow> (string \<times> string) list" where
  "get_fields j k = (case jget j k of
       Some (JObj kvs) \<Rightarrow> concat (map (\<lambda>kv. case snd kv of JStr s \<Rightarrow> [(fst kv, s)] | _ \<Rightarrow> []) kvs)
     | _ \<Rightarrow> [])"

text \<open>The parser's error result is always nil.\<close>

definition ParseFilterCriteria :: "(string \<Rightarrow> string \<Rightarrow> time option) \<Rightarrow> jsonb \<Rightarrow> SegmentFilterCriteria" where
  "ParseFilterCriteria parse j = \<lparr>
     sf_Statuses = get_strings j ''statuses'', sf_Sources = get_strings j ''sources'',
     sf_EmailVerified = get_bool j ''email_verified'', sf_HasReferrals = get_bool j ''has_referrals'',
     sf_MinReferrals = get_int j ''min_referrals'', sf_MinPosition = get_int j ''min_position'',
     sf_MaxPosition = get_int j ''max_position'',
     sf_DateFrom = get_date parse j ''date_from'', sf_DateTo = get_date parse j ''date_to'',
     sf_CustomFields = get_fields j ''custom_fields''\<rparr>"

definition put_if :: "bool \<Rightarrow> string \<Rightarrow> jval \<Rightarrow> (string \<times> jval) list" where
  "put_if b k v = (if b then [(k, v)] else [])"

definition put_opt :: "string \<Rightarrow> ('a \<Rightarrow> jval) \<Rightarrow> 'a option \<Rightarrow> (string \<times> jval) list" where
  "put_opt k f v = (case v of None \<Rightarrow> [] | Some x \<Rightarrow> [(k, f x)])"

definition filterCriteriaToJSONB :: "(time \<Rightarrow> string) \<Rightarrow> SegmentFilterCriteria \<Rightarrow> jsonb" where
  "filterCriteriaToJSONB format cr = Some (
     put_if (sf_Statuses cr \<noteq> []) ''statuses'' (JStrs (sf_Statuses cr)) @
     put_if (sf_Sources cr \<noteq> []) ''sources'' (JStrs (sf_Sources cr)) @
     put_opt ''email_verified'' JBool (sf_EmailVerified cr) @
     put_opt ''has_referrals'' JBool (sf_HasReferrals cr) @
     put_opt ''min_referrals'' JInt (sf_MinReferrals cr) @
     put_opt ''min_position'' JInt (sf_MinPosition cr) @
     put_opt ''max_position'' JInt (sf_MaxPosition cr) @
     put_opt ''date_from'' (\<lambda>t. JStr (format t)) (sf_DateFrom cr) @
     put_opt ''date_to'' (\<lambda>t. JStr (format t)) (sf_DateTo cr) @
     put_if (sf_CustomFields cr \<noteq> []) ''custom_fields'' (JStrMap (sf_CustomFields cr)))"

section \<open>Processor\<close>

record CreateSegmentRequest =
  cgr_Name :: string
  cgr_Description :: "string option"
  cgr_FilterCriteria :: SegmentFilterCriteria

record UpdateSegmentRequest =
  ugr_Name :: "string option"
  ugr_Description :: "string option"
  ugr_FilterCriteria :: "SegmentFilterCriteria option"
  ugr_Status :: "string option"

record PreviewSegmentRequest =
  pgr_FilterCriteria :: SegmentFilterCriteria
  pgr_SampleLimit :: int

record SegmentPreview =
  pv_Count :: int
  pv_SampleUsers :: "WaitlistUser list"

definition isValidSegmentStatus :: "string \<Rightarrow> bool" where
  "isValidSegmentStatus st = (st \<in> set [''active'', ''archived''])"

abbreviation (input) segment_campaign :: "uuid \<Rightarrow> uuid \<Rightarrow> (world, Campaign) go" where
  "segment_campaign \<equiv> owned_campaign (SG SG_ErrCampaignNotFound) (SG SG_ErrUnauthorized)"

text \<open>Count the users and cache the number; both errors are logged.\<close>

definition cache_count :: "uuid \<Rightarrow> SegmentFilterCriteria \<Rightarrow> Segment \<Rightarrow> (world, Segment) go" where
  "cache_count campaignID cr segment =
     tryE (store_CountUsersMatchingCriteria campaignID cr) (\<lambda>e. retE segment) (\<lambda>count.
     bindE (logE (store_UpdateSegmentCachedCount (sg_ID segment) count)) (\<lambda>u.
     retE (segment\<lparr>sg_CachedUserCount := count\<rparr>)))"

definition sg_CreateSegment :: "uuid \<Rightarrow> uuid \<Rightarrow> CreateSegmentRequest \<Rightarrow> (world, Segment) go" where
  "sg_CreateSegment accountID campaignID req =
     bindE (segment_campaign accountID campaignID) (\<lambda>campaign.
     bindE (getE w_time_Format) (\<lambda>format.
     bindE (store_CreateSegment \<lparr>csp_CampaignID = campaignID, csp_Name = cgr_Name req,
       csp_Description = cgr_Description req,
       csp_FilterCriteria = filterCriteriaToJSONB format (cgr_FilterCriteria req)\<rparr>) (\<lambda>segment.
     cache_count campaignID (cgr_FilterCriteria req) segment)))"

definition campaign_segment :: "uuid \<Rightarrow> uuid \<Rightarrow> (world, Segment) go" where
  "campaign_segment campaignID segmentID =
     bindE (not_found_as (SG SG_ErrSegmentNotFound) (store_GetSegmentByID segmentID)) (\<lambda>segment.
     if sg_CampaignID segment \<noteq> campaignID then failE (Sentinel (SG SG_ErrUnauthorized))
     else retE segment)"

definition sg_GetSegment :: "uuid \<Rightarrow> uuid \<Rightarrow> uuid \<Rightarrow> (world, Segment) go" where
  "sg_GetSegment accountID campaignID segmentID =
     bindE (segment_campaign accountID campaignID) (\<lambda>campaign.
     campaign_segment campaignID segmentID)"

definition sg_ListSegments :: "uuid \<Rightarrow> uuid \<Rightarrow> (world, Segment list) go" where
  "sg_ListSegments accountID campaignID =
     bindE (segment_campaign accountID campaignID) (\<lambda>campaign.
     store_GetSegmentsByCampaign campaignID)"

definition sg_UpdateSegment ::
    "uuid \<Rightarrow> uuid \<Rightarrow> uuid \<Rightarrow> UpdateSegmentRequest \<Rightarrow> (world, Segment) go" where
  "sg_UpdateSegment accountID campaignID segmentID req =
     bindE (segment_campaign accountID campaignID) (\<lambda>campaign.
     bindE (campaign_segment campaignID segmentID) (\<lambda>existing.
     if (case ugr_Status req of None \<Rightarrow> False | Some st \<Rightarrow> \<not> isValidSegmentStatus st)
     then failE (Sentinel (SG SG_ErrInvalidCriteria))
     else bindE (getE w_time_Format) (\<lambda>format.
       bindE (not_found_as (SG SG_ErrSegmentNotFound) (store_UpdateSegment segmentID
         \<lparr>usp_Name = ugr_Name req, usp_Description = ugr_Description req,
          usp_FilterCriteria = map_option (filterCriteriaToJSONB format) (ugr_FilterCriteria req),
          usp_Status = ugr_Status req\<rparr>)) (\<lambda>segment.
       case ugr_FilterCriteria req of None \<Rightarrow> retE segment
       | Some cr \<Rightarrow> cache_count campaignID cr segment))))"

definition sg_DeleteSegment :: "uuid \<Rightarrow> uuid \<Rightarrow> uuid \<Rightarrow> (world, unit) go" where
  "sg_DeleteSegment accountID campaignID segmentID =
     bindE (segment_campaign accountID campaignID) (\<lambda>campaign.
     bindE (campaign_segment campaignID segmentID) (\<lambda>existing.
     not_found_as (SG SG_ErrSegmentNotFound) (store_DeleteSegment segmentID)))"

definition sample_limit :: "int \<Rightarrow> int" where
  "sample_limit l = (let l' = (if l \<le> 0 then 10 else l) in if 100 < l' then 100 else l')"

definition sg_PreviewSegment :: "uuid \<Rightarrow> uuid \<Rightarrow> PreviewSegmentRequest \<Rightarrow> (world, SegmentPreview) go" where
  "sg_PreviewSegment accountID campaignID req =
     bindE (segment_campaign accountID campaignID) (\<lambda>campaign.
     bindE (store_CountUsersMatchingCriteria campaignID (pgr_FilterCriteria req)) (\<lambda>count.
     bindE (store_GetUsersMatchingCriteria campaignID (pgr_FilterCriteria req)
              (sample_limit (pgr_SampleLimit req)) 0) (\<lambda>users.
     retE \<lparr>pv_Count = count, pv_SampleUsers = users\<rparr>)))"

definition sg_RefreshSegmentCount :: "uuid \<Rightarrow> uuid \<Rightarrow> uuid \<Rightarrow> (world, int) go" where
  "sg_RefreshSegmentCount accountID campaignID segmentID =
     bindE (sg_GetSegment accountID campaignID segmentID) (\<lambda>segment.
     bindE (getE w_time_Parse) (\<lambda>parse.
     bindE (store_CountUsersMatchingCriteria campaignID
              (ParseFilterCriteria parse (sg_FilterCriteria segment))) (\<lambda>count.
     bindE (store_UpdateSegmentCachedCount segmentID count) (\<lambda>u.
     retE count))))"

section \<open>The query selects what the criteria say\<close>

lemma lookup_arg_range:
  "i < length xs \<Longrightarrow> lookup_arg (as @ map f xs @ ext) (Suc (length as + i)) = Some (f (xs ! i))"
  by (simp add: lookup_arg_def nth_append)

lemma in_placeholders:
  "list_ex (\<lambda>n. lookup_arg (as @ map AStr xs @ ext) n = Some (AStr s))
     (placeholders (Suc (length as)) (length xs)) \<longleftrightarrow> s \<in> set xs"
  by (auto simp: list_ex_iff placeholders_def lookup_arg_range in_set_conv_nth)

lemma ok_placeholders:
  "list_all (\<lambda>n. case lookup_arg (as @ map AStr xs @ ext) n of Some (AStr s) \<Rightarrow> s \<in> A | _ \<Rightarrow> False)
     (placeholders (Suc (length as)) (length xs)) \<longleftrightarrow> set xs \<subseteq> A"
  by (auto simp: list_all_iff placeholders_def lookup_arg_range in_set_conv_nth subset_iff; blast)

lemma represents_in:
  assumes q: "represents w q P A"
    and c: "\<And>as ext u. cond_holds w (as @ map AStr xs @ ext)
        (c (placeholders (Suc (length as)) (length xs))) u = C u"
    and k: "\<And>as ext. cond_ok w (as @ map AStr xs @ ext)
        (c (placeholders (Suc (length as)) (length xs))) = B"
  shows "represents w (qb_in c xs q) (\<lambda>u. P u \<and> (xs = [] \<or> C u)) (A \<and> (xs = [] \<or> B))"
proof (cases "xs = []")
  case False
  then show ?thesis using q c k by (auto simp: represents_def qb_in_def Let_def)
qed (use q in \<open>simp add: qb_in_def\<close>)

lemma represents_status_in:
  "represents w q P A \<Longrightarrow> represents w (qb_in CStatusIn xs q)
     (\<lambda>u. P u \<and> (xs = [] \<or> wu_Status u \<in> set xs)) (A \<and> (xs = [] \<or> set xs \<subseteq> set sql_waitlist_user_status))"
  by (rule represents_in) (simp_all only: cond_holds.simps cond_ok.simps in_placeholders ok_placeholders)

lemma represents_source_in:
  "represents w q P A \<Longrightarrow> represents w (qb_in CSourceIn xs q)
     (\<lambda>u. P u \<and> (xs = [] \<or> (\<exists>s. wu_Source u = Some s \<and> s \<in> set xs)))
     (A \<and> (xs = [] \<or> set xs \<subseteq> set sql_user_source))"
  by (rule represents_in)
     (auto simp only: cond_holds.simps cond_ok.simps in_placeholders ok_placeholders split: option.splits)

lemma represents_referrals:
  assumes "represents w q P A"
  shows "represents w (referrals_clause v q)
    (\<lambda>u. P u \<and> (case v of None \<Rightarrow> True | Some b \<Rightarrow> if b then 0 < wu_ReferralCount u else wu_ReferralCount u = 0)) A"
  using assms represents_plain [OF assms, of CReferralCountPos] represents_plain [OF assms, of CReferralCountZero]
  by (auto simp: referrals_clause_def split: option.split bool.split)

lemma case_option_all: "(case v of None \<Rightarrow> True | Some x \<Rightarrow> C x) \<longleftrightarrow> (\<forall>x. v = Some x \<longrightarrow> C x)"
  by (cases v) auto

text \<open>The criteria, read directly.\<close>

definition criteria_match :: "world \<Rightarrow> uuid \<Rightarrow> SegmentFilterCriteria \<Rightarrow> WaitlistUser \<Rightarrow> bool" where
  "criteria_match w campaignID cr u =
     (wu_CampaignID u = campaignID \<and> wu_DeletedAt u = None \<and>
      (sf_Statuses cr = [] \<or> wu_Status u \<in> set (sf_Statuses cr)) \<and>
      (sf_Sources cr = [] \<or> (\<exists>s. wu_Source u = Some s \<and> s \<in> set (sf_Sources cr))) \<and>
      (\<forall>b. sf_EmailVerified cr = Some b \<longrightarrow> wu_EmailVerified u = b) \<and>
      (\<forall>b. sf_HasReferrals cr = Some b \<longrightarrow> (if b then 0 < wu_ReferralCount u else wu_ReferralCount u = 0)) \<and>
      (\<forall>i. sf_MinReferrals cr = Some i \<longrightarrow> i \<le> wu_ReferralCount u) \<and>
      (\<forall>i. sf_MinPosition cr = Some i \<longrightarrow> i \<le> wu_Position u) \<and>
      (\<forall>i. sf_MaxPosition cr = Some i \<longrightarrow> wu_Position u \<le> i) \<and>
      (\<forall>t. sf_DateFrom cr = Some t \<longrightarrow> t \<le> wu_CreatedAt u) \<and>
      (\<forall>t. sf_DateTo cr = Some t \<longrightarrow> wu_CreatedAt u \<le> t) \<and>
      (\<forall>kv\<in>set (sf_CustomFields cr).
         ilike w (''%'' @ snd kv @ ''%'') (json_field w (wu_Metadata u) (fst kv))))"

definition criteria_ok :: "SegmentFilterCriteria \<Rightarrow> bool" where
  "criteria_ok cr = labels_ok (sf_Statuses cr) (sf_Sources cr)"

lemma segment_where_represents:
  "represents w (segment_where c cr) (criteria_match w c cr) (criteria_ok cr)"
  unfolding segment_where_def
  apply (rule represents_eq)
    apply (rule query_clauses represents_status_in represents_source_in represents_referrals;
      (simp only: cond_holds.simps cond_ok.simps lookup_arg_last arg_time_def option.case arg.case)?)+
   apply (simp only: criteria_match_def fun_eq_iff case_option_all conj_assoc simp_thms)[1]
  apply (simp add: criteria_ok_def labels_ok_def case_option_all; (metis empty_iff empty_set subsetI)?)[1]
  done

lemma represents_rows:
  assumes "represents w q P A"
  shows "query_rows w q = filter P (t_waitlist_users w)" "query_ok w q = A"
    "query_rows w (q\<lparr>qb_args := qb_args q @ ext, qb_count := n\<rparr>) = filter P (t_waitlist_users w)"
    "query_ok w (q\<lparr>qb_args := qb_args q @ ext, qb_count := n\<rparr>) = A"
  using assms unfolding represents_def query_rows_def query_ok_def
  by (metis append_Nil2, metis append_Nil2, simp_all)

text \<open>The users a segment has, in the order of a page.\<close>

definition segment_users :: "world \<Rightarrow> uuid \<Rightarrow> SegmentFilterCriteria \<Rightarrow> WaitlistUser list" where
  "segment_users w c cr = map segment_columns
     (sort_Slice (\<lambda>a b. wu_Position a < wu_Position b) (filter (criteria_match w c cr) (t_waitlist_users w)))"

lemma criteria_match_ticked [simp]: "criteria_match (ticked w) c cr = criteria_match w c cr"
  by (rule ext) (simp add: criteria_match_def)

lemma segment_users_ticked [simp]: "segment_users (ticked w) c cr = segment_users w c cr"
  by (simp add: segment_users_def)

lemma length_segment_users:
  "length (segment_users w c cr) = length (filter (criteria_match w c cr) (t_waitlist_users w))"
  by (simp add: segment_users_def)

definition page_from :: "int \<Rightarrow> int \<Rightarrow> 'a list \<Rightarrow> 'a list" where
  "page_from lmt off xs = (let ys = (if 0 < off then drop (nat off) xs else xs) in
     if 0 < lmt then take (nat lmt) ys else ys)"

lemma run_count_segment:
  "run_count (bq_where (buildSegmentFilterQuery c cr True l k)) w =
     (case w_fault w (w_calls w) of Some m \<Rightarrow> (Err (DbErr m), ticked w)
      | None \<Rightarrow> ((if criteria_ok cr then Ok (int (length (segment_users w c cr)))
                  else Err (DbErr ''invalid argument'')), ticked w))"
  by (simp add: run_count_def db_def Let_def buildSegmentFilterQuery_def length_segment_users
      represents_rows [OF segment_where_represents] flip: ticked_def split: option.split)

lemma page_arg_last [simp]: "page_arg (as @ AInt v # ext) (Some (Suc (length as))) = Some (nat v)"
  by (simp add: page_arg_def)

lemma represents_count: "represents w q P A \<Longrightarrow> qb_count q = length (qb_args q)"
  by (simp add: represents_def)

lemma run_segment_query_page:
  "run_segment_query (buildSegmentFilterQuery c cr False l k) w =
     (case w_fault w (w_calls w) of Some m \<Rightarrow> (Err (DbErr m), ticked w)
      | None \<Rightarrow> ((if criteria_ok cr then Ok (page_from l k (segment_users w c cr))
                  else Err (DbErr ''invalid argument'')), ticked w))"
proof -
  note rows = represents_rows [OF segment_where_represents]
  have n: "qb_count (segment_where c cr) = length (qb_args (segment_where c cr))"
    using segment_where_represents represents_count by blast
  have two: "page_arg (as @ [a, AInt v]) (Some (Suc (Suc (length as)))) = Some (nat v)" for as a v
    using page_arg_last [of "as @ [a]" v "[]"] by simp
  show ?thesis
    by (simp add: run_segment_query_def db_def Let_def buildSegmentFilterQuery_def qb_page_def n rows two
        page_arg_def [of _ None] page_from_def segment_users_def [symmetric] flip: ticked_def split: option.split)
qed

section \<open>Properties\<close>

lemma criteria_store_reads [reads]:
  "moves tick (store_CountUsersMatchingCriteria c cr)" "moves tick (store_GetUsersMatchingCriteria c cr l k)"
  "moves tick (store_GetUsersForBlast c cr)" "moves tick (store_GetSegmentByID i)"
proof -
  have t: "tick w (w\<lparr>w_calls := n\<rparr>)" for w n unfolding tick_def by blast
  have c: "moves tick (run_count q)" for q
    unfolding run_count_def by (rule db_moves) (auto simp: t tick.step_refl intro: tick.step_trans)
  have r: "moves tick (run_segment_query q)" for q
    unfolding run_segment_query_def by (rule db_moves) (auto simp: t tick.step_refl Let_def intro: tick.step_trans)
  show "moves tick (store_CountUsersMatchingCriteria c cr)" "moves tick (store_GetUsersMatchingCriteria c cr l k)"
    "moves tick (store_GetUsersForBlast c cr)" "moves tick (store_GetSegmentByID i)"
    unfolding store_CountUsersMatchingCriteria_def store_GetUsersMatchingCriteria_def
      store_GetUsersForBlast_def store_GetSegmentByID_def
    by (intro tick_rules reads c r)+
qed

lemma segment_query_runs:
  "store_CountUsersMatchingCriteria c cr w = (case w_fault w (w_calls w) of
       Some m \<Rightarrow> (Err (Wrap ''failed to count users matching criteria'' (DbErr m)), ticked w)
     | None \<Rightarrow> ((if criteria_ok cr then Ok (int (length (filter (criteria_match w c cr) (t_waitlist_users w))))
          else Err (Wrap ''failed to count users matching criteria'' (DbErr ''invalid argument''))), ticked w)) \<and>
   store_GetUsersMatchingCriteria c cr l k w = (case w_fault w (w_calls w) of
       Some m \<Rightarrow> (Err (Wrap ''failed to get users matching criteria'' (DbErr m)), ticked w)
     | None \<Rightarrow> ((if criteria_ok cr then Ok (page_from l k (segment_users w c cr))
          else Err (Wrap ''failed to get users matching criteria'' (DbErr ''invalid argument''))), ticked w)) \<and>
   store_GetUsersForBlast c cr w = (case w_fault w (w_calls w) of
       Some m \<Rightarrow> (Err (Wrap ''failed to get users for blast'' (DbErr m)), ticked w)
     | None \<Rightarrow> ((if criteria_ok cr then Ok (segment_users w c cr)
          else Err (Wrap ''failed to get users for blast'' (DbErr ''invalid argument''))), ticked w))"
  unfolding store_CountUsersMatchingCriteria_def store_GetUsersMatchingCriteria_def
    store_GetUsersForBlast_def wrapE_def tryE_def run_count_segment run_segment_query_page
  by (simp add: retE_def failE_def length_segment_users page_from_def split: option.split)


subsection \<open>The JSON form\<close>

lemma jget_put:
  "jget (Some (put_if b k v @ kvs)) k' = (if b \<and> k' = k then Some v else jget (Some kvs) k')"
  "jget (Some (put_opt k f x @ kvs)) k' = (if x \<noteq> None \<and> k' = k then Some (f (the x)) else jget (Some kvs) k')"
  "jget (Some (put_if b k v)) k' = (if b \<and> k' = k then Some v else None)"
  by (auto simp: jget_def jmap_def put_if_def put_opt_def split: option.split)

lemma jget_stored: "jget (jsonb_stored j) k = map_option json_trip (jget j k)"
  by (cases j) (simp_all add: jget_def jmap_def jsonb_stored_def map_of_json_trip)

lemma jstrings_JStr: "jstrings (map JStr ss) = ss"
  by (induction ss) (simp_all add: jstrings_def)

lemma field_strings:
  "concat (map (\<lambda>kv. case snd kv of JStr s \<Rightarrow> [(fst kv, s)] | _ \<Rightarrow> [])
     (map (\<lambda>kv. (fst kv, JStr (snd kv))) kvs)) = kvs"
  by (induction kvs) simp_all

text \<open>Integers a float64 holds exactly, and times the RFC3339 layout holds exactly.\<close>

definition exact_criteria :: "(string \<Rightarrow> string \<Rightarrow> time option) \<Rightarrow> (time \<Rightarrow> string) \<Rightarrow> SegmentFilterCriteria \<Rightarrow> bool" where
  "exact_criteria parse format cr =
     ((\<forall>i. Some i \<in> {sf_MinReferrals cr, sf_MinPosition cr, sf_MaxPosition cr} \<longrightarrow> \<bar>i\<bar> < 2 ^ 53) \<and>
      (\<forall>t. Some t \<in> {sf_DateFrom cr, sf_DateTo cr} \<longrightarrow> parse RFC3339 (format t) = Some t))"

definition sample_criteria :: SegmentFilterCriteria where
  "sample_criteria = \<lparr>sf_Statuses = [''pending''], sf_Sources = [''direct'', ''referral''],
     sf_EmailVerified = Some False, sf_HasReferrals = Some True, sf_MinReferrals = Some 1,
     sf_MinPosition = None, sf_MaxPosition = Some 100, sf_DateFrom = Some 2, sf_DateTo = None,
     sf_CustomFields = [(''company'', ''acme'')]\<rparr>"

lemma criteria_trip:
  assumes "exact_criteria parse format cr"
  shows "ParseFilterCriteria parse (jsonb_stored (filterCriteriaToJSONB format cr)) = cr"
proof -
  have i: "\<bar>i\<bar> < 2 ^ 53 \<Longrightarrow> float_to_int (float64_of_int i) = i" for i
    by (simp add: float64_of_int_exact)
  have ints: "sf_MinReferrals cr = Some i \<Longrightarrow> \<bar>i\<bar> < 2 ^ 53" "sf_MinPosition cr = Some i \<Longrightarrow> \<bar>i\<bar> < 2 ^ 53"
    "sf_MaxPosition cr = Some i \<Longrightarrow> \<bar>i\<bar> < 2 ^ 53" for i
    using assms by (auto simp: exact_criteria_def)
  have dates: "sf_DateFrom cr = Some t \<Longrightarrow> parse RFC3339 (format t) = Some t"
    "sf_DateTo cr = Some t \<Longrightarrow> parse RFC3339 (format t) = Some t" for t
    using assms by (auto simp: exact_criteria_def)
  let ?j = "jsonb_stored (filterCriteriaToJSONB format cr)"
  note js = jget_stored filterCriteriaToJSONB_def jget_put
  have "get_strings ?j ''statuses'' = sf_Statuses cr" "get_strings ?j ''sources'' = sf_Sources cr"
    by (simp_all add: get_strings_def js jstrings_JStr)
  moreover have "get_bool ?j ''email_verified'' = sf_EmailVerified cr"
    "get_bool ?j ''has_referrals'' = sf_HasReferrals cr"
    by (auto simp: get_bool_def js)
  moreover have "get_int ?j ''min_referrals'' = sf_MinReferrals cr"
    "get_int ?j ''min_position'' = sf_MinPosition cr" "get_int ?j ''max_position'' = sf_MaxPosition cr"
    using i ints by (auto simp: get_int_def js)
  moreover have "get_date parse ?j ''date_from'' = sf_DateFrom cr" "get_date parse ?j ''date_to'' = sf_DateTo cr"
    using dates by (auto simp: get_date_def js)
  moreover have "get_fields ?j ''custom_fields'' = sf_CustomFields cr"
    by (simp add: get_fields_def js field_strings del: map_map)
  ultimately show ?thesis unfolding ParseFilterCriteria_def by simp
qed

text \<open>C13: criteria written by a handler, marshalled into the jsonb column, read back and parsed by
  the worker are the same criteria, whenever the integers fit a float64 exactly and the dates
  survive the RFC3339 layout (whole seconds).\<close>

theorem criteria_roundtrip:
  assumes "exact_criteria parse format cr"
  shows "ParseFilterCriteria parse (jsonb_stored (filterCriteriaToJSONB format cr)) = cr"
  by (rule criteria_trip [OF assms])

theorem criteria_roundtrip_witness:
  "ParseFilterCriteria (\<lambda>l s. Some (int (length s)))
     (jsonb_stored (filterCriteriaToJSONB (\<lambda>t. replicate (nat t) CHR ''t'') sample_criteria)) = sample_criteria"
proof (rule criteria_roundtrip)
  show "exact_criteria (\<lambda>l s. Some (int (length s))) (\<lambda>t. replicate (nat t) CHR ''t'') sample_criteria"
    by (auto simp: exact_criteria_def sample_criteria_def)
qed

subsection \<open>The handlers\<close>

lemma cache_count_run:
  assumes "no_faults w" "criteria_ok cr"
  shows "\<exists>w'. cache_count c cr s w =
      (Ok (s\<lparr>sg_CachedUserCount := int (length (filter (criteria_match w c cr) (t_waitlist_users w)))\<rparr>), w') \<and>
    t_segments w' = upd_where (live_segment (sg_ID s)) (\<lambda>r. r\<lparr>
      sg_CachedUserCount := int (length (filter (criteria_match w c cr) (t_waitlist_users w))),
      sg_CachedAt := Some (w_now w), sg_UpdatedAt := w_now w\<rparr>) (t_segments w)"
proof -
  have f: "w_fault w k = None" for k using assms(1) by (simp add: no_faults_def)
  show ?thesis
    unfolding cache_count_def tryE_def
    by (simp add: segment_query_runs f assms(2) store_UpdateSegmentCachedCount_def affected_or_def
        wrapE_def sql_update_def db_def no_check_def Let_def bindE_def tryE_def logE_def retE_def failE_def)
qed

lemma upd_where_snoc:
  "(\<forall>r\<in>set rows. \<not> P r) \<Longrightarrow> P s \<Longrightarrow> upd_where P f (rows @ [s]) = rows @ [f s]"
  by (auto simp: upd_where_def intro: map_idI)

definition sample_segment_request :: CreateSegmentRequest where
  "sample_segment_request = \<lparr>cgr_Name = ''friends'', cgr_Description = None,
     cgr_FilterCriteria = sample_criteria\<lparr>sf_DateFrom := None, sf_CustomFields := []\<rparr>\<rparr>"

text \<open>creating a segment stores, as the last row and for a campaign the account owns, criteria
  that parse back to the request's, with the number of users they select cached; the returned
  segment is that row but for the time of the count.\<close>

theorem CreateSegment_success:
  assumes run: "sg_CreateSegment a c req w = (Ok s, w')" and nf: "no_faults w"
    and ex: "exact_criteria (w_time_Parse w) (w_time_Format w) (cgr_FilterCriteria req)"
    and ok: "criteria_ok (cgr_FilterCriteria req)"
  shows "owns a c w \<and> sg_CampaignID s = c \<and> sg_Name s = cgr_Name req \<and> sg_Status s = SegmentStatusActive \<and>
    ParseFilterCriteria (w_time_Parse w) (sg_FilterCriteria s) = cgr_FilterCriteria req \<and>
    sg_CachedUserCount s =
      int (length (filter (criteria_match w c (cgr_FilterCriteria req)) (t_waitlist_users w))) \<and>
    t_segments w' = t_segments w @ [s\<lparr>sg_CachedAt := Some (w_now w)\<rparr>]"
proof -
  let ?cr = "cgr_FilterCriteria req"
  let ?j = "filterCriteriaToJSONB (w_time_Format w) ?cr"
  let ?n = "int (length (filter (criteria_match w c ?cr) (t_waitlist_users w)))"
  from run obtain cp w1 s0 w2 where
    1: "segment_campaign a c w = (Ok cp, w1)" and
    2: "store_CreateSegment \<lparr>csp_CampaignID = c, csp_Name = cgr_Name req, csp_Description = cgr_Description req,
          csp_FilterCriteria = filterCriteriaToJSONB (w_time_Format w1) ?cr\<rparr> w1 = (Ok s0, w2)" and
    3: "cache_count c ?cr s0 w2 = (Ok s, w')"
    unfolding sg_CreateSegment_def by (elim bindE_OkE) (auto simp: getE_Ok)
  note o = owned_campaign_Ok [OF 1]
  have w2: "w2 = t_segments_update (\<lambda>rows. rows @ [s0]) ((ticked w1)\<lparr>w_fresh := Suc (w_fresh w1)\<rparr>)"
    and new: "sg_ID s0 \<notin> sg_ID ` set (t_segments w)"
    and s0: "sg_CampaignID s0 = c" "sg_Name s0 = cgr_Name req" "sg_Status s0 = SegmentStatusActive"
      "sg_FilterCriteria s0 = jsonb_stored ?j" "sg_UpdatedAt s0 = w_now w" "sg_DeletedAt s0 = None"
    using 2 by (auto simp: store_CreateSegment_def wrapE_Ok sql_insert_Ok o(2) ticked_def split: if_splits)
  have nf2: "no_faults w2" using nf by (simp add: w2 o(2) no_faults_def)
  have m: "criteria_match w2 c ?cr = criteria_match w c ?cr"
    by (rule ext) (simp add: criteria_match_def ilike_def json_field_def w2 o(2) ticked_def
        split: option.split jval.split)
  have u: "t_waitlist_users w2 = t_waitlist_users w" "w_now w2 = w_now w" "t_segments w2 = t_segments w @ [s0]"
    by (simp_all add: w2 o(2))
  obtain s: "s = s0\<lparr>sg_CachedUserCount := ?n\<rparr>" and rows: "t_segments w' = upd_where (live_segment (sg_ID s0))
      (\<lambda>r. r\<lparr>sg_CachedUserCount := ?n, sg_CachedAt := Some (w_now w), sg_UpdatedAt := w_now w\<rparr>) (t_segments w @ [s0])"
    using cache_count_run [OF nf2 ok, of c s0] 3 by (auto simp: m u)
  have "t_segments w' = t_segments w @ [s\<lparr>sg_CachedAt := Some (w_now w)\<rparr>]"
  proof -
    have "\<forall>r\<in>set (t_segments w). \<not> live_segment (sg_ID s0) r"
      using new by (metis image_eqI live_segment_def)
    moreover have "live_segment (sg_ID s0) s0" by (simp add: live_segment_def s0)
    ultimately show ?thesis unfolding rows by (simp add: upd_where_snoc s s0)
  qed
  then show ?thesis using o(1) s s0 criteria_trip [OF ex] by simp
qed

theorem CreateSegment_success_witness:
  "\<exists>s w'. sg_CreateSegment 1 10 sample_segment_request sample_world = (Ok s, w') \<and>
     sg_CachedUserCount s = 1 \<and> t_segments w' = [s\<lparr>sg_CachedAt := Some 1000\<rparr>]"
proof -
  have "is_Ok (fst (sg_CreateSegment 1 10 sample_segment_request sample_world))" by code_simp
  then obtain s w' where r: "sg_CreateSegment 1 10 sample_segment_request sample_world = (Ok s, w')"
    by (cases "sg_CreateSegment 1 10 sample_segment_request sample_world") (auto elim: is_Ok.elims)
  have n: "int (length (filter (criteria_match sample_world 10 (cgr_FilterCriteria sample_segment_request))
      (t_waitlist_users sample_world))) = 1"
    by (simp add: criteria_match_def sample_segment_request_def sample_criteria_def sample_world_def sample_user_def)
  have s: "t_segments sample_world = []" by (simp add: sample_world_def empty_world_def)
  have "exact_criteria (w_time_Parse sample_world) (w_time_Format sample_world)
      (cgr_FilterCriteria sample_segment_request)"
    by (auto simp: exact_criteria_def sample_segment_request_def sample_criteria_def)
  moreover have "criteria_ok (cgr_FilterCriteria sample_segment_request)"
    by (simp add: criteria_ok_def labels_ok_def sample_segment_request_def sample_criteria_def enums)
  ultimately show ?thesis
    using r CreateSegment_success [OF r sample_world_no_faults] unfolding n s by simp
qed

text \<open>a preview shows at most 100 users, the first by position of those the criteria select,
  and counts them all.\<close>

theorem PreviewSegment_bounds:
  assumes "sg_PreviewSegment a c req w = (Ok p, w')"
  shows "owns a c w \<and> tick w w' \<and>
    pv_Count p = int (length (segment_users w c (pgr_FilterCriteria req))) \<and>
    (\<exists>n. 1 \<le> n \<and> n \<le> 100 \<and> pv_SampleUsers p = take n (segment_users w c (pgr_FilterCriteria req))) \<and>
    int (length (pv_SampleUsers p)) \<le> min 100 (pv_Count p)"
proof -
  let ?cr = "pgr_FilterCriteria req"
  let ?l = "sample_limit (pgr_SampleLimit req)"
  from assms obtain cp w1 n w2 us where
    1: "segment_campaign a c w = (Ok cp, w1)" and
    2: "store_CountUsersMatchingCriteria c ?cr w1 = (Ok n, w2)" and
    3: "store_GetUsersMatchingCriteria c ?cr ?l 0 w2 = (Ok us, w')" and
    p: "p = \<lparr>pv_Count = n, pv_SampleUsers = us\<rparr>"
    unfolding sg_PreviewSegment_def by (elim bindE_OkE) (auto simp: retE_Ok)
  note o = owned_campaign_Ok [OF 1]
  have n: "n = int (length (segment_users w c ?cr))" "w2 = ticked w1"
    using 2 by (auto simp: segment_query_runs o(2) length_segment_users split: option.splits if_splits)
  have l: "1 \<le> ?l" "?l \<le> 100" by (auto simp: sample_limit_def Let_def)
  have us: "us = take (nat ?l) (segment_users w c ?cr)" "w' = ticked w2"
    using 3 l by (auto simp: segment_query_runs o(2) n(2) page_from_def split: option.splits if_splits)
  have "tick w w'" unfolding us(2) n(2) o(2)
    by (rule tick.step_trans [OF tick_ticked tick.step_trans [OF tick_ticked tick_ticked]])
  moreover have "\<exists>k. 1 \<le> k \<and> k \<le> 100 \<and> us = take k (segment_users w c ?cr)"
    using l by (intro exI [of _ "nat ?l"]) (auto simp: us(1) le_nat_iff)
  moreover have "int (length us) \<le> min 100 n" using l by (simp add: us(1) n(1))
  ultimately show ?thesis using o(1) n(1) by (simp add: p)
qed

theorem PreviewSegment_bounds_witness:
  "\<exists>p w'. sg_PreviewSegment 1 10 \<lparr>pgr_FilterCriteria = sample_criteria\<lparr>sf_DateFrom := None, sf_CustomFields := []\<rparr>,
       pgr_SampleLimit = 1000\<rparr> sample_world = (Ok p, w') \<and> int (length (pv_SampleUsers p)) \<le> min 100 (pv_Count p)"
proof -
  let ?r = "\<lparr>pgr_FilterCriteria = sample_criteria\<lparr>sf_DateFrom := None, sf_CustomFields := []\<rparr>, pgr_SampleLimit = 1000\<rparr>"
  have "is_Ok (fst (sg_PreviewSegment 1 10 ?r sample_world))" by code_simp
  then obtain p w' where r: "sg_PreviewSegment 1 10 ?r sample_world = (Ok p, w')"
    by (cases "sg_PreviewSegment 1 10 ?r sample_world") (auto elim: is_Ok.elims)
  then show ?thesis using PreviewSegment_bounds [OF r] by blast
qed

text \<open>A segment reached through a campaign of the account.\<close>

definition has_segment :: "uuid \<Rightarrow> uuid \<Rightarrow> world \<Rightarrow> bool" where
  "has_segment c i w = (\<exists>s\<in>set (t_segments w). sg_ID s = i \<and> sg_CampaignID s = c \<and> sg_DeletedAt s = None)"

lemma campaign_segment_Ok:
  assumes "campaign_segment c i w = (Ok s, w')"
  shows "has_segment c i w" "w' = ticked w" "sg_ID s = i" "sg_CampaignID s = c"
proof -
  obtain ss where "filter (live_segment i) (t_segments w) = s # ss" and s: "sg_CampaignID s = c" "w' = ticked w"
    using assms unfolding campaign_segment_def
    by (auto elim!: bindE_OkE simp: not_found_as_Ok retE_Ok failE_Ok store_GetSegmentByID_def row_or_Ok
        sql_get_Ok split: if_splits)
  then have "s \<in> set (filter (live_segment i) (t_segments w))" by simp
  then show "has_segment c i w" "sg_ID s = i" using s(1) by (auto simp: has_segment_def live_segment_def)
  show "w' = ticked w" "sg_CampaignID s = c" using s by auto
qed

lemma campaign_segment_reads [reads]: "moves tick (campaign_segment c i)"
  unfolding campaign_segment_def by (intro tick_rules reads)

lemmas segment_rel_rules = segments.rel.moves_combinators moves_intros

lemma not_found_as_moves:
  "step_preorder R \<Longrightarrow> moves R m \<Longrightarrow> moves R (not_found_as e m)"
  unfolding not_found_as_def
  by (intro step_preorder.moves_tryE step_preorder.moves_retE moves_if step_preorder.moves_failE)

lemma affected_or_moves: "step_preorder R \<Longrightarrow> moves R m \<Longrightarrow> moves R (affected_or msg m)"
  unfolding affected_or_def
  by (intro step_preorder.moves_bindE step_preorder.moves_wrapE step_preorder.moves_retE moves_if
      step_preorder.moves_failE)

lemma row_or_moves: "step_preorder R \<Longrightarrow> moves R m \<Longrightarrow> moves R (row_or msg m)"
  unfolding row_or_def
  by (intro step_preorder.moves_tryE step_preorder.moves_retE moves_if step_preorder.moves_failE)

lemma segment_writes:
  "moves (segments.rel i) (store_UpdateSegment i p)" "moves (segments.rel i) (store_DeleteSegment i)"
  "moves (segments.rel i) (store_UpdateSegmentCachedCount i n)"
  unfolding store_UpdateSegment_def store_DeleteSegment_def store_UpdateSegmentCachedCount_def
  by (rule row_or_moves affected_or_moves segments.rel.step_preorder_axioms segments.update_others |
      simp add: live_segment_def)+

lemma cache_count_moves: "sg_ID s = i \<Longrightarrow> moves (segments.rel i) (cache_count c cr s)"
  unfolding cache_count_def
  by (rule segment_rel_rules | simp add: segment_writes | rule segments.rel_reads, rule reads)+

lemma UpdateSegment_ID: "store_UpdateSegment i p w = (Ok s, w') \<Longrightarrow> sg_ID s = i"
  by (auto simp: store_UpdateSegment_def row_or_Ok sql_update_returning_Ok live_segment_def
      dest!: filter_eq_ConsD)

lemma update_then_count_moves:
  "moves (segments.rel i) (bindE (not_found_as e (store_UpdateSegment i p)) (\<lambda>segment.
     case cr of None \<Rightarrow> retE segment | Some x \<Rightarrow> cache_count c x segment))"
  by (rule segments.rel.moves_bindE_val [where V = "\<lambda>s. sg_ID s = i"])
     (auto intro!: moves_case_option segments.rel.moves_retE cache_count_moves segment_writes
        not_found_as_moves [OF segments.rel.step_preorder_axioms] simp: not_found_as_Ok UpdateSegment_ID)

lemma delete_segment_moves: "moves (segments.rel i) (not_found_as e (store_DeleteSegment i))"
  by (intro not_found_as_moves segments.rel.step_preorder_axioms segment_writes)

lemma sg_GetSegment_reads [reads]: "moves tick (sg_GetSegment a c i)"
  unfolding sg_GetSegment_def by (intro tick_rules reads)

lemma segment_ops_moves:
  "moves (segments.rel i) (sg_GetSegment a c i)" "moves (segments.rel i) (sg_UpdateSegment a c i req)"
  "moves (segments.rel i) (sg_DeleteSegment a c i)" "moves (segments.rel i) (sg_RefreshSegmentCount a c i)"
  unfolding sg_UpdateSegment_def sg_DeleteSegment_def sg_RefreshSegmentCount_def
  by (rule update_then_count_moves delete_segment_moves segment_writes | rule segment_rel_rules
      | rule segments.rel_reads, rule reads)+

lemma segment_ops_Ok:
  "sg_GetSegment a c i w = (Ok s, w') \<Longrightarrow> owns a c w \<and> has_segment c i w"
  "sg_UpdateSegment a c i req w = (Ok s, w') \<Longrightarrow> owns a c w \<and> has_segment c i w"
  "sg_DeleteSegment a c i w = (Ok u, w') \<Longrightarrow> owns a c w \<and> has_segment c i w"
  "sg_RefreshSegmentCount a c i w = (Ok n, w') \<Longrightarrow> owns a c w \<and> has_segment c i w"
proof -
  have s: "owns a c w \<and> has_segment c i w"
    if "segment_campaign a c w = (Ok cp, w1)" "campaign_segment c i w1 = (Ok s, w2)" for cp w1 s w2
    using owned_campaign_Ok(1,2) [OF that(1)] campaign_segment_Ok(1) [OF that(2)] by (simp add: has_segment_def)
  show "sg_GetSegment a c i w = (Ok s, w') \<Longrightarrow> owns a c w \<and> has_segment c i w"
    unfolding sg_GetSegment_def by (elim bindE_OkE) (rule s)
  show "sg_UpdateSegment a c i req w = (Ok s, w') \<Longrightarrow> owns a c w \<and> has_segment c i w"
    unfolding sg_UpdateSegment_def by (elim bindE_OkE) (rule s)
  show "sg_DeleteSegment a c i w = (Ok u, w') \<Longrightarrow> owns a c w \<and> has_segment c i w"
    unfolding sg_DeleteSegment_def by (elim bindE_OkE) (rule s)
  show "sg_RefreshSegmentCount a c i w = (Ok n, w') \<Longrightarrow> owns a c w \<and> has_segment c i w"
    unfolding sg_RefreshSegmentCount_def sg_GetSegment_def by (elim bindE_OkE) (rule s)
qed

text \<open>What a handler on one segment may do: change that segment's row only, and succeed only for a
  live segment of the named campaign, which the account owns.\<close>

definition confined :: "uuid \<Rightarrow> uuid \<Rightarrow> uuid \<Rightarrow> world \<Rightarrow> 'x result \<times> world \<Rightarrow> bool" where
  "confined a c i w out = (same_others sg_ID i (t_segments w) (t_segments (snd out)) \<and>
     (is_Ok (fst out) \<longrightarrow> owns a c w \<and> has_segment c i w))"

lemma confinedI:
  assumes "moves (segments.rel i) m" "\<And>x w'. m w = (Ok x, w') \<Longrightarrow> owns a c w \<and> has_segment c i w"
  shows "confined a c i w (m w)"
proof (cases "m w")
  case (Pair r w')
  then show ?thesis
    using segments.relD [OF assms(1) Pair] assms(2) by (auto simp: confined_def elim: is_Ok.elims)
qed

text \<open>Reading, updating, deleting and refreshing a segment leave every other segment as it was,
  whatever they return, and succeed only for a live segment of the named campaign, which the
  account owns.\<close>

theorem segment_operations_isolated:
  "confined a c i w (sg_GetSegment a c i w) \<and> confined a c i w (sg_UpdateSegment a c i req w) \<and>
   confined a c i w (sg_DeleteSegment a c i w) \<and> confined a c i w (sg_RefreshSegmentCount a c i w)"
  by (rule conjI confinedI segment_ops_moves segment_ops_Ok | assumption)+

end
