(* ===== verification/Blasts.thy ===== *)
theory Blasts
  imports Segments Events
begin

text \<open>
  Storage of email blasts, store/email_blast.go with the template lookup of
  store/blast_email_template.go, and the part of email/service.go that sends a blast's mails.
  Recipients are inserted inside one transaction: any failure leaves the table as it was.
\<close>

section \<open>Blasts\<close>

record CreateEmailBlastParams =
  cbp_AccountID :: uuid
  cbp_BlastTemplateID :: uuid
  cbp_SegmentIDs :: "uuid list"
  cbp_Name :: string
  cbp_Subject :: string
  cbp_ScheduledAt :: "time option"
  cbp_BatchSize :: int
  cbp_SendThrottlePerSecond :: "int option"
  cbp_CreatedBy :: "uuid option"

record UpdateEmailBlastParams =
  ubp_Name :: "string option"
  ubp_Subject :: "string option"
  ubp_ScheduledAt :: "time option"
  ubp_BatchSize :: "int option"

definition live_blast :: "uuid \<Rightarrow> EmailBlast \<Rightarrow> bool" where
  "live_blast i b = (eb_ID b = i \<and> eb_DeletedAt b = None)"

definition blast_check :: "EmailBlast list \<Rightarrow> string option" where
  "blast_check rows = (if \<forall>b\<in>set rows. eb_Status b \<in> set sql_email_blast_status then None
     else Some ''invalid input value for enum email_blast_status'')"

definition store_CreateEmailBlast :: "CreateEmailBlastParams \<Rightarrow> (world, EmailBlast) go" where
  "store_CreateEmailBlast p = wrapE ''failed to create email blast''
     (sql_insert email_blasts_tbl (\<lambda>w rows r. if eb_ID r \<in> eb_ID ` set rows
          then Some ''duplicate key value violates unique constraint email_blasts_pkey'' else None)
        (\<lambda>i now. \<lparr>eb_ID = i, eb_AccountID = cbp_AccountID p, eb_BlastTemplateID = cbp_BlastTemplateID p,
           eb_SegmentIDs = cbp_SegmentIDs p, eb_Name = cbp_Name p, eb_Subject = cbp_Subject p,
           eb_ScheduledAt = cbp_ScheduledAt p, eb_StartedAt = None, eb_CompletedAt = None,
           eb_Status = (if cbp_ScheduledAt p \<noteq> None then ''scheduled'' else ''draft''),
           eb_TotalRecipients = 0, eb_SentCount = 0, eb_DeliveredCount = 0, eb_OpenedCount = 0,
           eb_ClickedCount = 0, eb_BouncedCount = 0, eb_FailedCount = 0,
           eb_BatchSize = cbp_BatchSize p, eb_CurrentBatch = 0, eb_LastBatchAt = None,
           eb_ErrorMessage = None, eb_SendThrottlePerSecond = cbp_SendThrottlePerSecond p,
           eb_CreatedBy = cbp_CreatedBy p, eb_CreatedAt = now, eb_UpdatedAt = now, eb_DeletedAt = None\<rparr>))"

definition store_GetEmailBlastByID :: "uuid \<Rightarrow> (world, EmailBlast) go" where
  "store_GetEmailBlastByID blastID = row_or ''failed to get email blast''
     (sql_get (\<lambda>w. filter (live_blast blastID) (t_email_blasts w)))"

definition account_blasts :: "uuid \<Rightarrow> world \<Rightarrow> EmailBlast list" where
  "account_blasts accountID w =
     filter (\<lambda>b. eb_AccountID b = accountID \<and> eb_DeletedAt b = None) (t_email_blasts w)"

definition store_GetEmailBlastsByAccount :: "uuid \<Rightarrow> int \<Rightarrow> int \<Rightarrow> (world, EmailBlast list) go" where
  "store_GetEmailBlastsByAccount accountID lmt off = wrapE ''failed to get email blasts''
     (sql_page (\<lambda>w. sort_Slice (\<lambda>a b. eb_CreatedAt b < eb_CreatedAt a) (account_blasts accountID w)) lmt off)"

definition store_CountEmailBlastsByAccount :: "uuid \<Rightarrow> (world, int) go" where
  "store_CountEmailBlastsByAccount accountID = wrapE ''failed to count email blasts''
     (sql_query (\<lambda>w. int (length (account_blasts accountID w))))"

definition store_UpdateEmailBlast :: "uuid \<Rightarrow> UpdateEmailBlastParams \<Rightarrow> (world, EmailBlast) go" where
  "store_UpdateEmailBlast blastID p = row_or ''failed to update email blast''
     (sql_update_returning email_blasts_tbl no_check (\<lambda>b. live_blast blastID b \<and> eb_Status b = ''draft'')
        (\<lambda>w b. b\<lparr>eb_Name := coalesce (ubp_Name p) (eb_Name b),
          eb_Subject := coalesce (ubp_Subject p) (eb_Subject b),
          eb_ScheduledAt := coalesce_opt (ubp_ScheduledAt p) (eb_ScheduledAt b),
          eb_BatchSize := coalesce (ubp_BatchSize p) (eb_BatchSize b), eb_UpdatedAt := w_now w\<rparr>))"

definition store_DeleteEmailBlast :: "uuid \<Rightarrow> (world, unit) go" where
  "store_DeleteEmailBlast blastID = affected_or ''failed to delete email blast''
     (sql_update email_blasts_tbl no_check
        (\<lambda>b. live_blast blastID b \<and>
           eb_Status b \<in> set [''draft'', ''scheduled'', ''cancelled'', ''completed'', ''failed''])
        (\<lambda>w b. b\<lparr>eb_DeletedAt := Some (w_now w)\<rparr>))"

definition set_status :: "string \<Rightarrow> string option \<Rightarrow> time \<Rightarrow> EmailBlast \<Rightarrow> EmailBlast" where
  "set_status st msg now b = b\<lparr>eb_Status := st, eb_ErrorMessage := msg,
     eb_StartedAt := (if st \<in> set [''processing'', ''sending''] \<and> eb_StartedAt b = None
                      then Some now else eb_StartedAt b),
     eb_CompletedAt := (if st \<in> set [''completed'', ''cancelled'', ''failed''] then Some now
                        else eb_CompletedAt b),
     eb_UpdatedAt := now\<rparr>"

definition store_UpdateEmailBlastStatus ::
    "uuid \<Rightarrow> string \<Rightarrow> string option \<Rightarrow> (world, EmailBlast) go" where
  "store_UpdateEmailBlastStatus blastID st msg = row_or ''failed to update email blast status''
     (sql_update_returning email_blasts_tbl blast_check (live_blast blastID)
        (\<lambda>w. set_status st msg (w_now w)))"

definition store_UpdateEmailBlastTotalRecipients :: "uuid \<Rightarrow> int \<Rightarrow> (world, unit) go" where
  "store_UpdateEmailBlastTotalRecipients blastID n =
     affected_or ''failed to update email blast total recipients''
       (sql_update email_blasts_tbl no_check (live_blast blastID)
          (\<lambda>w b. b\<lparr>eb_TotalRecipients := n, eb_UpdatedAt := w_now w\<rparr>))"

definition store_IncrementEmailBlastSentCount :: "uuid \<Rightarrow> (world, unit) go" where
  "store_IncrementEmailBlastSentCount blastID = exec_or ''failed to increment email blast sent count''
     (sql_update email_blasts_tbl no_check (live_blast blastID)
        (\<lambda>w b. b\<lparr>eb_SentCount := eb_SentCount b + 1, eb_UpdatedAt := w_now w\<rparr>))"

definition store_IncrementEmailBlastFailedCount :: "uuid \<Rightarrow> (world, unit) go" where
  "store_IncrementEmailBlastFailedCount blastID = exec_or ''failed to increment email blast failed count''
     (sql_update email_blasts_tbl no_check (live_blast blastID)
        (\<lambda>w b. b\<lparr>eb_FailedCount := eb_FailedCount b + 1, eb_UpdatedAt := w_now w\<rparr>))"

definition store_UpdateEmailBlastProgress :: "uuid \<Rightarrow> int \<Rightarrow> (world, unit) go" where
  "store_UpdateEmailBlastProgress blastID currentBatch = affected_or ''failed to update email blast progress''
     (sql_update email_blasts_tbl no_check (live_blast blastID)
        (\<lambda>w b. b\<lparr>eb_CurrentBatch := currentBatch, eb_LastBatchAt := Some (w_now w), eb_UpdatedAt := w_now w\<rparr>))"

definition store_UpdateEmailBlastProgressWithSent :: "uuid \<Rightarrow> int \<Rightarrow> int \<Rightarrow> (world, unit) go" where
  "store_UpdateEmailBlastProgressWithSent blastID sentCount currentBatch =
     affected_or ''failed to update email blast progress''
       (sql_update email_blasts_tbl no_check (live_blast blastID)
          (\<lambda>w b. b\<lparr>eb_SentCount := sentCount, eb_CurrentBatch := currentBatch,
            eb_LastBatchAt := Some (w_now w), eb_UpdatedAt := w_now w\<rparr>))"

text \<open>WHERE status = 'scheduled' AND scheduled_at \<open>\<le>\<close> the time; ORDER BY scheduled_at.\<close>

definition due :: "time \<Rightarrow> EmailBlast \<Rightarrow> bool" where
  "due t b = (eb_Status b = ''scheduled'' \<and> eb_DeletedAt b = None \<and>
     (case eb_ScheduledAt b of None \<Rightarrow> False | Some s \<Rightarrow> s \<le> t))"

definition store_GetScheduledBlasts :: "time \<Rightarrow> (world, EmailBlast list) go" where
  "store_GetScheduledBlasts t = wrapE ''failed to get scheduled blasts''
     (sql_query (\<lambda>w. sort_Slice (\<lambda>a b. the (eb_ScheduledAt a) < the (eb_ScheduledAt b))
        (filter (due t) (t_email_blasts w))))"

definition store_ScheduleBlast :: "uuid \<Rightarrow> time \<Rightarrow> (world, EmailBlast) go" where
  "store_ScheduleBlast blastID scheduledAt = row_or ''failed to schedule blast''
     (sql_update_returning email_blasts_tbl no_check (\<lambda>b. live_blast blastID b \<and> eb_Status b = ''draft'')
        (\<lambda>w b. b\<lparr>eb_Status := ''scheduled'', eb_ScheduledAt := Some scheduledAt, eb_UpdatedAt := w_now w\<rparr>))"

definition store_GetBlastEmailTemplateByID :: "uuid \<Rightarrow> (world, BlastEmailTemplate) go" where
  "store_GetBlastEmailTemplateByID templateID = row_or ''failed to get blast email template''
     (sql_get (\<lambda>w. filter (\<lambda>t. bt_ID t = templateID \<and> bt_DeletedAt t = None) (t_blast_templates w)))"

section \<open>Recipients\<close>

record CreateBlastRecipientParams =
  crp_BlastID :: uuid
  crp_UserID :: uuid
  crp_Email :: string
  crp_BatchNumber :: "int option"

definition new_recipient :: "CreateBlastRecipientParams \<Rightarrow> uuid \<Rightarrow> time \<Rightarrow> BlastRecipient" where
  "new_recipient p i now = \<lparr>br_ID = i, br_BlastID = crp_BlastID p, br_UserID = crp_UserID p,
     br_Email = crp_Email p, br_Status = BlastRecipientStatusPending, br_EmailLogID = None,
     br_QueuedAt = None, br_SentAt = None, br_DeliveredAt = None, br_OpenedAt = None,
     br_ClickedAt = None, br_BouncedAt = None, br_FailedAt = None, br_ErrorMessage = None,
     br_BatchNumber = crp_BatchNumber p, br_CreatedAt = now, br_UpdatedAt = now\<rparr>"

definition same_recipient :: "BlastRecipient \<Rightarrow> BlastRecipient \<Rightarrow> bool" where
  "same_recipient r s = (br_BlastID s = br_BlastID r \<and> br_UserID s = br_UserID r)"

definition recipient_key_check :: "world \<Rightarrow> BlastRecipient list \<Rightarrow> BlastRecipient \<Rightarrow> string option" where
  "recipient_key_check w rows r = (if br_ID r \<in> br_ID ` set rows
     then Some ''duplicate key value violates unique constraint blast_recipients_pkey'' else None)"

definition recipient_check :: "world \<Rightarrow> BlastRecipient list \<Rightarrow> BlastRecipient \<Rightarrow> string option" where
  "recipient_check w rows r = (case recipient_key_check w rows r of Some m \<Rightarrow> Some m
     | None \<Rightarrow> if \<exists>s\<in>set rows. same_recipient r s
         then Some ''duplicate key value violates unique constraint blast_recipients_blast_id_user_id_key''
         else None)"

definition store_CreateBlastRecipient :: "CreateBlastRecipientParams \<Rightarrow> (world, BlastRecipient) go" where
  "store_CreateBlastRecipient p = wrapE ''failed to create blast recipient''
     (sql_insert blast_recipients_tbl recipient_check (new_recipient p))"

text \<open>The prepared statement: ON CONFLICT (blast_id, user_id) DO NOTHING.\<close>

definition insert_recipient :: "CreateBlastRecipientParams \<Rightarrow> (world, unit) go" where
  "insert_recipient p = db (\<lambda>w.
     let r = new_recipient p (w_uuids w (w_fresh w)) (w_now w);
         w' = w\<lparr>w_fresh := Suc (w_fresh w)\<rparr> in
     if \<exists>s\<in>set (t_blast_recipients w). same_recipient r s then (Ok (), w')
     else (case recipient_key_check w (t_blast_recipients w) r of
         Some m \<Rightarrow> (Err (DbErr m), w')
       | None \<Rightarrow> (Ok (), w'\<lparr>t_blast_recipients := t_blast_recipients w @ [r]\<rparr>)))"

text \<open>A statement that only talks to the server: BEGIN, PREPARE, COMMIT.\<close>

definition tx_step :: "(world, unit) go" where
  "tx_step = db (\<lambda>w. (Ok (), w))"

definition insert_users :: "uuid \<Rightarrow> int \<Rightarrow> (nat \<times> WaitlistUser) list \<Rightarrow> (world, unit) go" where
  "insert_users blastID batchSize ius = forE ius (\<lambda>(i, user).
     case go_quot (int i) batchSize of
       None \<Rightarrow> panicE ''integer divide by zero''
     | Some batchNumber \<Rightarrow> wrapE ''failed to insert blast recipient''
         (insert_recipient \<lparr>crp_BlastID = blastID, crp_UserID = wu_ID user, crp_Email = wu_Email user,
            crp_BatchNumber = Some batchNumber\<rparr>))"

text \<open>The deferred Rollback runs on every way out but a successful commit.\<close>

definition with_rollback :: "(world, unit) go \<Rightarrow> (world, unit) go" where
  "with_rollback m w = (case m w of
       (Ok u, w') \<Rightarrow> (Ok u, w')
     | (r, w') \<Rightarrow> (r, w'\<lparr>t_blast_recipients := t_blast_recipients w\<rparr>))"

definition store_CreateBlastRecipientsBulk ::
    "uuid \<Rightarrow> WaitlistUser list \<Rightarrow> int \<Rightarrow> (world, unit) go" where
  "store_CreateBlastRecipientsBulk blastID users batchSize =
     bindE (wrapE ''failed to begin transaction'' tx_step) (\<lambda>u.
     with_rollback (
       bindE (wrapE ''failed to prepare statement'' tx_step) (\<lambda>u.
       bindE (insert_users blastID batchSize (enumerate 0 users)) (\<lambda>u.
       wrapE ''failed to commit transaction'' tx_step))))"

text \<open>The inner loop: a user whose email was not seen yet is appended.\<close>

definition add_unseen :: "WaitlistUser \<Rightarrow> string list \<times> WaitlistUser list \<Rightarrow> string list \<times> WaitlistUser list" where
  "add_unseen u acc = (if wu_Email u \<in> set (fst acc) then acc
     else (wu_Email u # fst acc, snd acc @ [u]))"

definition wrap_id :: "string \<Rightarrow> string \<Rightarrow> uuid \<Rightarrow> (world, 'a) go \<Rightarrow> (world, 'a) go" where
  "wrap_id pre post i m = bindE (uuid_string i) (\<lambda>s. wrapE (pre @ s @ post) m)"

definition segment_blast_users :: "uuid \<Rightarrow> (world, WaitlistUser list) go" where
  "segment_blast_users segmentID =
     bindE (wrap_id ''failed to get segment '' '''' segmentID (store_GetSegmentByID segmentID)) (\<lambda>segment.
     bindE (getE w_time_Parse) (\<lambda>parse.
     wrap_id ''failed to get users for segment '' '''' segmentID
       (store_GetUsersForBlast (sg_CampaignID segment)
          (ParseFilterCriteria parse (sg_FilterCriteria segment)))))"

definition store_CreateBlastRecipientsFromMultipleSegments ::
    "uuid \<Rightarrow> uuid list \<Rightarrow> int \<Rightarrow> (world, int) go" where
  "store_CreateBlastRecipientsFromMultipleSegments blastID segmentIDs batchSize =
     (if segmentIDs = [] then retE 0
      else bindE (foldE (\<lambda>i acc. bindE (segment_blast_users i) (\<lambda>users. retE (fold add_unseen users acc)))
             segmentIDs ([], [])) (\<lambda>acc.
        if snd acc = [] then retE 0
        else bindE (store_CreateBlastRecipientsBulk blastID (snd acc) batchSize) (\<lambda>u.
          retE (int (length (snd acc))))))"

definition store_GetBlastRecipientByID :: "uuid \<Rightarrow> (world, BlastRecipient) go" where
  "store_GetBlastRecipientByID recipientID = row_or ''failed to get blast recipient''
     (sql_get (\<lambda>w. filter (\<lambda>r. br_ID r = recipientID) (t_blast_recipients w)))"

definition recipients_where :: "(BlastRecipient \<Rightarrow> bool) \<Rightarrow> world \<Rightarrow> BlastRecipient list" where
  "recipients_where P w =
     sort_Slice (\<lambda>a b. br_CreatedAt a < br_CreatedAt b) (filter P (t_blast_recipients w))"

definition store_GetPendingBlastRecipients :: "uuid \<Rightarrow> int \<Rightarrow> int \<Rightarrow> (world, BlastRecipient list) go" where
  "store_GetPendingBlastRecipients blastID batchNumber lmt = wrapE ''failed to get pending blast recipients''
     (sql_page (recipients_where (\<lambda>r. br_BlastID r = blastID \<and> br_BatchNumber r = Some batchNumber \<and>
        br_Status r = ''pending'')) lmt 0)"

definition store_GetBlastRecipientsByBlast :: "uuid \<Rightarrow> int \<Rightarrow> int \<Rightarrow> (world, BlastRecipient list) go" where
  "store_GetBlastRecipientsByBlast blastID lmt off = wrapE ''failed to get blast recipients''
     (sql_page (recipients_where (\<lambda>r. br_BlastID r = blastID)) lmt off)"

definition recipient_count :: "(BlastRecipient \<Rightarrow> bool) \<Rightarrow> world \<Rightarrow> int" where
  "recipient_count P w = int (length (filter P (t_blast_recipients w)))"

definition store_CountBlastRecipientsByBlast :: "uuid \<Rightarrow> (world, int) go" where
  "store_CountBlastRecipientsByBlast blastID = wrapE ''failed to count blast recipients''
     (sql_query (recipient_count (\<lambda>r. br_BlastID r = blastID)))"

definition keep_unless :: "bool \<Rightarrow> time \<Rightarrow> time option \<Rightarrow> time option" where
  "keep_unless b now v = (if b then Some now else v)"

definition set_recipient_status ::
    "string \<Rightarrow> uuid option \<Rightarrow> string option \<Rightarrow> time \<Rightarrow> BlastRecipient \<Rightarrow> BlastRecipient" where
  "set_recipient_status st emailLogID msg now r = r\<lparr>br_Status := st,
     br_EmailLogID := coalesce_opt emailLogID (br_EmailLogID r),
     br_QueuedAt := keep_unless (st = ''queued'') now (br_QueuedAt r),
     br_SentAt := keep_unless (st = ''sent'') now (br_SentAt r),
     br_DeliveredAt := keep_unless (st = ''delivered'') now (br_DeliveredAt r),
     br_OpenedAt := keep_unless (st = ''opened'' \<and> br_OpenedAt r = None) now (br_OpenedAt r),
     br_ClickedAt := keep_unless (st = ''clicked'' \<and> br_ClickedAt r = None) now (br_ClickedAt r),
     br_BouncedAt := keep_unless (st = ''bounced'') now (br_BouncedAt r),
     br_FailedAt := keep_unless (st = ''failed'') now (br_FailedAt r),
     br_ErrorMessage := coalesce_opt msg (br_ErrorMessage r), br_UpdatedAt := now\<rparr>"

definition recipient_status_check :: "BlastRecipient list \<Rightarrow> string option" where
  "recipient_status_check rows = (if \<forall>r\<in>set rows. br_Status r \<in> set sql_blast_recipient_status then None
     else Some ''invalid input value for enum blast_recipient_status'')"

definition store_UpdateBlastRecipientStatus ::
    "uuid \<Rightarrow> string \<Rightarrow> uuid option \<Rightarrow> string option \<Rightarrow> (world, unit) go" where
  "store_UpdateBlastRecipientStatus recipientID st emailLogID msg =
     affected_or ''failed to update blast recipient status''
       (sql_update blast_recipients_tbl recipient_status_check (\<lambda>r. br_ID r = recipientID)
          (\<lambda>w. set_recipient_status st emailLogID msg (w_now w)))"

record BlastRecipientStats =
  bst_Total :: int
  bst_Pending :: int
  bst_Queued :: int
  bst_Sending :: int
  bst_Sent :: int
  bst_Delivered :: int
  bst_Opened :: int
  bst_Clicked :: int
  bst_Bounced :: int
  bst_Failed :: int

definition recipient_stats :: "uuid \<Rightarrow> world \<Rightarrow> BlastRecipientStats" where
  "recipient_stats blastID w = (let n = (\<lambda>st. recipient_count (\<lambda>r. br_BlastID r = blastID \<and> br_Status r = st) w) in
     \<lparr>bst_Total = recipient_count (\<lambda>r. br_BlastID r = blastID) w, bst_Pending = n ''pending'',
      bst_Queued = n ''queued'', bst_Sending = n ''sending'', bst_Sent = n ''sent'',
      bst_Delivered = n ''delivered'', bst_Opened = n ''opened'', bst_Clicked = n ''clicked'',
      bst_Bounced = n ''bounced'', bst_Failed = n ''failed''\<rparr>)"

definition store_GetBlastRecipientStats :: "uuid \<Rightarrow> (world, BlastRecipientStats) go" where
  "store_GetBlastRecipientStats blastID = wrapE ''failed to get blast recipient stats''
     (sql_query (recipient_stats blastID))"

definition store_GetMaxBatchNumber :: "uuid \<Rightarrow> (world, int) go" where
  "store_GetMaxBatchNumber blastID = wrapE ''failed to get max batch number''
     (sql_query (\<lambda>w. (case concat (map (\<lambda>r. case br_BatchNumber r of None \<Rightarrow> [] | Some n \<Rightarrow> [n])
          (filter (\<lambda>r. br_BlastID r = blastID) (t_blast_recipients w))) of
        [] \<Rightarrow> 0 | n # ns \<Rightarrow> fold max ns n)))"

definition store_GetBlastRecipientsByBatch :: "uuid \<Rightarrow> int \<Rightarrow> (world, BlastRecipient list) go" where
  "store_GetBlastRecipientsByBatch blastID batchNumber = wrapE ''failed to get blast recipients by batch''
     (sql_query (recipients_where (\<lambda>r. br_BlastID r = blastID \<and> br_BatchNumber r = Some batchNumber)))"

definition store_CountBlastRecipientsByStatus :: "uuid \<Rightarrow> string \<Rightarrow> (world, int) go" where
  "store_CountBlastRecipientsByStatus blastID st = wrapE ''failed to count blast recipients by status''
     (sql_query (recipient_count (\<lambda>r. br_BlastID r = blastID \<and> br_Status r = st)))"

section \<open>Preview\<close>

record BlastRecipientsSegmentInfo =
  bsi_SegmentID :: uuid
  bsi_SegmentName :: string
  bsi_UserCount :: int

record BlastRecipientsPreview =
  brp_TotalCount :: int
  brp_DuplicatesCount :: int
  brp_BySegment :: "BlastRecipientsSegmentInfo list"

text \<open>The locals of the loop: the preview, the seen emails and the sum of the counts.\<close>

definition preview_segment ::
    "uuid \<Rightarrow> BlastRecipientsPreview \<times> string list \<times> int \<Rightarrow>
     (world, BlastRecipientsPreview \<times> string list \<times> int) go" where
  "preview_segment segmentID acc = (case acc of (preview, seen, before) \<Rightarrow>
     bindE (wrap_id ''failed to get segment '' '''' segmentID (store_GetSegmentByID segmentID)) (\<lambda>segment.
     bindE (getE w_time_Parse) (\<lambda>parse.
     let cr = ParseFilterCriteria parse (sg_FilterCriteria segment) in
     bindE (wrap_id ''failed to count users for segment '' '''' segmentID
              (store_CountUsersMatchingCriteria (sg_CampaignID segment) cr)) (\<lambda>n.
     bindE (wrap_id ''failed to get users for segment '' '''' segmentID
              (store_GetUsersForBlast (sg_CampaignID segment) cr)) (\<lambda>users.
     let (seen', fresh) = fold add_unseen users (seen, []) in
     retE (preview\<lparr>
         brp_BySegment := brp_BySegment preview @
           [\<lparr>bsi_SegmentID = segmentID, bsi_SegmentName = sg_Name segment, bsi_UserCount = n\<rparr>],
         brp_TotalCount := brp_TotalCount preview + int (length fresh)\<rparr>,
       seen', before + n))))))"

definition store_PreviewBlastRecipients :: "uuid list \<Rightarrow> (world, BlastRecipientsPreview) go" where
  "store_PreviewBlastRecipients segmentIDs =
     (let empty = \<lparr>brp_TotalCount = 0, brp_DuplicatesCount = 0, brp_BySegment = []\<rparr> in
      if segmentIDs = [] then retE empty
      else bindE (foldE preview_segment segmentIDs (empty, [], 0)) (\<lambda>(preview, seen, before).
        retE (preview\<lparr>brp_DuplicatesCount := before - brp_TotalCount preview\<rparr>)))"

section \<open>Sending a mail\<close>

text \<open>clients/mail/client.go and the custom-template path of the email service. The provider's
  answer is the environment's, indexed by the statements run so far.\<close>

definition mail_SendEmail :: "string \<Rightarrow> string \<Rightarrow> string \<Rightarrow> (world, unit) go" where
  "mail_SendEmail recipient subject html w = (case w_mail_fault w (w_calls w) of
       Some msg \<Rightarrow> (Err (Wrap ''failed to send email'' (ExtErr msg)), w)
     | None \<Rightarrow> (Ok (), w\<lparr>w_outbox := w_outbox w @
         [\<lparr>ml_To = recipient, ml_Subject = subject, ml_Body = html\<rparr>]\<rparr>))"

definition RenderCustomTemplate :: "string \<Rightarrow> TemplateData \<Rightarrow> (world, string) go" where
  "RenderCustomTemplate content data =
     (if content = '''' then failE (Sentinel (EM EM_ErrEmptyTemplate))
      else bindE (getE (\<lambda>w. w)) (\<lambda>w. case w_template_Parse w content of
          Some msg \<Rightarrow> failE (Wrap ''failed to parse template'' (ExtErr msg))
        | None \<Rightarrow> (case w_template_Execute w content data of
            Ok html \<Rightarrow> retE html
          | Err e \<Rightarrow> failE (Wrap ''failed to execute template'' e)
          | Panic p \<Rightarrow> panicE p)))"

definition annotateE :: "sentinel \<Rightarrow> (world, 'a) go \<Rightarrow> (world, 'a) go" where
  "annotateE s m = tryE m (\<lambda>e. failE (Annotated (Sentinel s) (err_Error e))) retE"

definition SendCustomTemplateEmail :: "string \<Rightarrow> string \<Rightarrow> string \<Rightarrow> TemplateData \<Rightarrow> (world, unit) go" where
  "SendCustomTemplateEmail recipient subject content data =
     bindE (annotateE (EM EM_ErrEmptyTemplate) (RenderCustomTemplate content data)) (\<lambda>html.
     annotateE (EM EM_ErrSendingEmail) (mail_SendEmail recipient subject html))"

definition SendEmail :: "string \<Rightarrow> string \<Rightarrow> string \<Rightarrow> (world, unit) go" where
  "SendEmail recipient subject html =
     (if html = '''' then failE (Sentinel (EM EM_ErrEmptyTemplate))
      else annotateE (EM EM_ErrSendingEmail) (mail_SendEmail recipient subject html))"

end
