(* ===== verification/EmailBlasts.thy ===== *)
theory EmailBlasts
  imports Blasts
begin

text \<open>
  The handlers of emailblasts/processor/processor.go, the worker that consumes the blast events
  (workers/blast/processor.go) and the scheduler (workers/blast/scheduler.go). Together they move
  a blast through its life cycle: a handler or the scheduler starts it, the worker writes its
  recipients, mails batch after batch and completes it, each step publishing the next event.
\<close>

section \<open>Handlers\<close>

record CreateEmailBlastRequest =
  cbr_Name :: string
  cbr_SegmentIDs :: "uuid list"
  cbr_BlastTemplateID :: uuid
  cbr_Subject :: string
  cbr_ScheduledAt :: "time option"
  cbr_BatchSize :: int
  cbr_SendThrottlePerSecond :: "int option"

abbreviation (input) eb_fail :: "eb_error \<Rightarrow> (world, 'a) go" where
  "eb_fail e \<equiv> failE (Sentinel (EB e))"

text \<open>One iteration of the check of the segments.\<close>

definition check_segment :: "uuid \<Rightarrow> uuid \<Rightarrow> (world, unit) go" where
  "check_segment accountID segmentID =
     bindE (not_found_as (EB EB_ErrSegmentNotFound) (store_GetSegmentByID segmentID)) (\<lambda>segment.
     bindE (owned_campaign (EB EB_ErrCampaignNotFound) (EB EB_ErrUnauthorized) accountID (sg_CampaignID segment))
       (\<lambda>campaign. retE ()))"

definition default_batch_size :: "int \<Rightarrow> int" where
  "default_batch_size n = (if n \<le> 0 then 100 else n)"

definition CreateEmailBlast ::
    "uuid \<Rightarrow> uuid option \<Rightarrow> CreateEmailBlastRequest \<Rightarrow> (world, EmailBlast) go" where
  "CreateEmailBlast accountID userID req =
     bindE (HasFeatureByAccountID accountID ''email_blasts'') (\<lambda>hasFeature.
     if \<not> hasFeature then eb_fail EB_ErrEmailBlastsNotAvailable
     else if cbr_SegmentIDs req = [] then eb_fail EB_ErrSegmentNotFound
     else bindE (forE (cbr_SegmentIDs req) (check_segment accountID)) (\<lambda>u.
     bindE (not_found_as (EB EB_ErrTemplateNotFound) (store_GetBlastEmailTemplateByID (cbr_BlastTemplateID req))) (\<lambda>template.
     if bt_AccountID template \<noteq> accountID then eb_fail EB_ErrUnauthorized
     else bindE (getE w_now) (\<lambda>now.
     if (case cbr_ScheduledAt req of None \<Rightarrow> False | Some t \<Rightarrow> t < now) then eb_fail EB_ErrInvalidScheduleTime
     else store_CreateEmailBlast \<lparr>cbp_AccountID = accountID, cbp_BlastTemplateID = cbr_BlastTemplateID req,
       cbp_SegmentIDs = cbr_SegmentIDs req, cbp_Name = cbr_Name req, cbp_Subject = cbr_Subject req,
       cbp_ScheduledAt = cbr_ScheduledAt req, cbp_BatchSize = default_batch_size (cbr_BatchSize req),
       cbp_SendThrottlePerSecond = cbr_SendThrottlePerSecond req, cbp_CreatedBy = userID\<rparr>))))"

definition GetEmailBlast :: "uuid \<Rightarrow> uuid \<Rightarrow> (world, EmailBlast) go" where
  "GetEmailBlast accountID blastID =
     bindE (not_found_as (EB EB_ErrBlastNotFound) (store_GetEmailBlastByID blastID)) (\<lambda>blast.
     if eb_AccountID blast \<noteq> accountID then eb_fail EB_ErrUnauthorized else retE blast)"

definition eb_page :: "int \<Rightarrow> int" where
  "eb_page page = (if page \<le> 0 then 1 else page)"

definition eb_limit :: "int \<Rightarrow> int" where
  "eb_limit l = (let l' = (if l \<le> 0 then 25 else l) in if 100 < l' then 100 else l')"

record 'a eb_list =
  el_Rows :: "'a list"
  el_Total :: int
  el_Page :: int
  el_Limit :: int
  el_TotalPages :: int

text \<open>A page and the total, as both listings assemble them.\<close>

definition paged :: "(int \<Rightarrow> int \<Rightarrow> (world, 'a list) go) \<Rightarrow> (world, int) go \<Rightarrow> int \<Rightarrow> int \<Rightarrow> (world, 'a eb_list) go" where
  "paged fetch counted page lmt =
     bindE (fetch lmt (wrap64 ((page - 1) * lmt))) (\<lambda>rows.
     bindE counted (\<lambda>n.
     case go_quot (wrap64 (n + lmt - 1)) lmt of
       None \<Rightarrow> panicE ''integer divide by zero''
     | Some pages \<Rightarrow> retE \<lparr>el_Rows = rows, el_Total = n, el_Page = page, el_Limit = lmt, el_TotalPages = pages\<rparr>))"

definition ListEmailBlasts :: "uuid \<Rightarrow> int \<Rightarrow> int \<Rightarrow> (world, EmailBlast eb_list) go" where
  "ListEmailBlasts accountID page l =
     paged (store_GetEmailBlastsByAccount accountID) (store_CountEmailBlastsByAccount accountID)
       (eb_page page) (eb_limit l)"

record UpdateEmailBlastRequest =
  ubr_Name :: "string option"
  ubr_Subject :: "string option"
  ubr_BatchSize :: "int option"

definition UpdateEmailBlast :: "uuid \<Rightarrow> uuid \<Rightarrow> UpdateEmailBlastRequest \<Rightarrow> (world, EmailBlast) go" where
  "UpdateEmailBlast accountID blastID req =
     bindE (GetEmailBlast accountID blastID) (\<lambda>existing.
     if eb_Status existing \<noteq> EmailBlastStatusDraft then eb_fail EB_ErrBlastCannotModify
     else not_found_as (EB EB_ErrBlastNotFound) (store_UpdateEmailBlast blastID
       \<lparr>ubp_Name = ubr_Name req, ubp_Subject = ubr_Subject req, ubp_ScheduledAt = None,
        ubp_BatchSize = ubr_BatchSize req\<rparr>))"

definition DeleteEmailBlast :: "uuid \<Rightarrow> uuid \<Rightarrow> (world, unit) go" where
  "DeleteEmailBlast accountID blastID =
     bindE (GetEmailBlast accountID blastID) (\<lambda>existing.
     not_found_as (EB EB_ErrBlastCannotDelete) (store_DeleteEmailBlast blastID))"

definition ScheduleBlast :: "uuid \<Rightarrow> uuid \<Rightarrow> time \<Rightarrow> (world, EmailBlast) go" where
  "ScheduleBlast accountID blastID scheduledAt =
     bindE (getE w_now) (\<lambda>now.
     if scheduledAt < now then eb_fail EB_ErrInvalidScheduleTime
     else bindE (GetEmailBlast accountID blastID) (\<lambda>existing.
     if eb_Status existing \<noteq> EmailBlastStatusDraft then eb_fail EB_ErrBlastCannotModify
     else not_found_as (EB EB_ErrBlastNotFound) (store_ScheduleBlast blastID scheduledAt)))"

definition SendBlastNow :: "uuid \<Rightarrow> uuid \<Rightarrow> (world, EmailBlast) go" where
  "SendBlastNow accountID blastID =
     bindE (GetEmailBlast accountID blastID) (\<lambda>existing.
     if eb_Status existing \<noteq> EmailBlastStatusDraft \<and> eb_Status existing \<noteq> EmailBlastStatusScheduled
     then eb_fail EB_ErrBlastCannotStart
     else bindE (store_UpdateEmailBlastStatus blastID EmailBlastStatusProcessing None) (\<lambda>blast.
     tryE (DispatchBlastStarted accountID blastID)
       (\<lambda>e. bindE (logE (store_UpdateEmailBlastStatus blastID EmailBlastStatusDraft None)) (\<lambda>u. failE e))
       (\<lambda>u. retE blast)))"

definition PauseBlast :: "uuid \<Rightarrow> uuid \<Rightarrow> (world, EmailBlast) go" where
  "PauseBlast accountID blastID =
     bindE (GetEmailBlast accountID blastID) (\<lambda>existing.
     if eb_Status existing \<noteq> EmailBlastStatusSending \<and> eb_Status existing \<noteq> EmailBlastStatusProcessing
     then eb_fail EB_ErrBlastCannotPause
     else store_UpdateEmailBlastStatus blastID EmailBlastStatusPaused None)"

definition ResumeBlast :: "uuid \<Rightarrow> uuid \<Rightarrow> (world, EmailBlast) go" where
  "ResumeBlast accountID blastID =
     bindE (GetEmailBlast accountID blastID) (\<lambda>existing.
     if eb_Status existing \<noteq> EmailBlastStatusPaused then eb_fail EB_ErrBlastCannotResume
     else bindE (store_UpdateEmailBlastStatus blastID EmailBlastStatusSending None) (\<lambda>blast.
     bindE (logE (DispatchBlastBatchSend accountID blastID (eb_CurrentBatch existing + 1))) (\<lambda>u.
     retE blast)))"

definition cancellable :: "string list" where
  "cancellable = [EmailBlastStatusDraft, EmailBlastStatusScheduled, EmailBlastStatusProcessing,
     EmailBlastStatusSending, EmailBlastStatusPaused]"

definition CancelBlast :: "uuid \<Rightarrow> uuid \<Rightarrow> (world, EmailBlast) go" where
  "CancelBlast accountID blastID =
     bindE (GetEmailBlast accountID blastID) (\<lambda>existing.
     if eb_Status existing \<notin> set cancellable then eb_fail EB_ErrBlastCannotCancel
     else store_UpdateEmailBlastStatus blastID EmailBlastStatusCancelled None)"

record BlastAnalytics =
  ba_BlastID :: uuid
  ba_Name :: string
  ba_Status :: string
  ba_TotalRecipients :: int
  ba_Sent :: int
  ba_Delivered :: int
  ba_Opened :: int
  ba_Clicked :: int
  ba_Bounced :: int
  ba_Failed :: int
  ba_OpenRate :: rat
  ba_ClickRate :: rat
  ba_BounceRate :: rat
  ba_StartedAt :: "time option"
  ba_CompletedAt :: "time option"
  ba_DurationSeconds :: "int option"

text \<open>\<^verbatim>\<open>float64(n) / float64(d) * 100\<close>, each operation rounded.\<close>

definition percent :: "(rat \<Rightarrow> rat) \<Rightarrow> int \<Rightarrow> int \<Rightarrow> rat" where
  "percent rnd n d = rnd (rnd (float64_of_int n / float64_of_int d) * 100)"

text \<open>\<^verbatim>\<open>int(d.Seconds())\<close>: whole seconds and the rest are converted apart and added.\<close>

definition duration_seconds :: "(rat \<Rightarrow> rat) \<Rightarrow> int \<Rightarrow> int" where
  "duration_seconds rnd d = (let q = sgn d * (\<bar>d\<bar> div 1000000000); r = sgn d * (\<bar>d\<bar> mod 1000000000) in
     float_to_int (rnd (float64_of_int q + rnd (float64_of_int r / 1000000000))))"

definition analytics_of :: "(rat \<Rightarrow> rat) \<Rightarrow> EmailBlast \<Rightarrow> BlastRecipientStats \<Rightarrow> BlastAnalytics" where
  "analytics_of rnd blast s =
     (let sent = bst_Sent s + bst_Delivered s + bst_Opened s + bst_Clicked s;
          opened = bst_Opened s + bst_Clicked s;
          rate = (\<lambda>n. if 0 < sent then percent rnd n sent else 0) in
      \<lparr>ba_BlastID = eb_ID blast, ba_Name = eb_Name blast, ba_Status = eb_Status blast,
       ba_TotalRecipients = eb_TotalRecipients blast, ba_Sent = sent,
       ba_Delivered = bst_Delivered s + bst_Opened s + bst_Clicked s, ba_Opened = opened,
       ba_Clicked = bst_Clicked s, ba_Bounced = bst_Bounced s, ba_Failed = bst_Failed s,
       ba_OpenRate = rate opened, ba_ClickRate = rate (bst_Clicked s), ba_BounceRate = rate (bst_Bounced s),
       ba_StartedAt = eb_StartedAt blast, ba_CompletedAt = eb_CompletedAt blast,
       ba_DurationSeconds = (case (eb_StartedAt blast, eb_CompletedAt blast) of
           (Some b, Some e) \<Rightarrow> Some (duration_seconds rnd (e - b)) | _ \<Rightarrow> None)\<rparr>)"

definition GetBlastAnalytics :: "uuid \<Rightarrow> uuid \<Rightarrow> (world, BlastAnalytics) go" where
  "GetBlastAnalytics accountID blastID =
     bindE (GetEmailBlast accountID blastID) (\<lambda>blast.
     bindE (store_GetBlastRecipientStats blastID) (\<lambda>stats.
     bindE (getE w_round) (\<lambda>rnd.
     retE (analytics_of rnd blast stats))))"

definition ListBlastRecipients :: "uuid \<Rightarrow> uuid \<Rightarrow> int \<Rightarrow> int \<Rightarrow> (world, BlastRecipient eb_list) go" where
  "ListBlastRecipients accountID blastID page l =
     bindE (GetEmailBlast accountID blastID) (\<lambda>blast.
     paged (store_GetBlastRecipientsByBlast blastID) (store_CountBlastRecipientsByBlast blastID)
       (eb_page page) (eb_limit l))"

section \<open>Worker\<close>

definition parseBlastEventData :: "EventMessage \<Rightarrow> (world, uuid \<times> uuid) go" where
  "parseBlastEventData event = bindE (getE w_uuid_Parse) (\<lambda>parse.
     case parse (em_AccountID event) of
       None \<Rightarrow> failE (Wrap ''invalid account_id'' (ExtErr ''invalid UUID''))
     | Some accountID \<Rightarrow>
        (case (case jget (em_Data event) ''blast_id'' of
                 None \<Rightarrow> Some '''' | Some JNull \<Rightarrow> Some '''' | Some (JStr s) \<Rightarrow> Some s | Some v \<Rightarrow> None) of
           None \<Rightarrow> failE (Wrap ''failed to unmarshal event data'' (ExtErr ''json''))
         | Some s \<Rightarrow> (case parse s of
             None \<Rightarrow> failE (Wrap ''invalid blast_id'' (ExtErr ''invalid UUID''))
           | Some blastID \<Rightarrow> retE (blastID, accountID))))"

definition failBlast :: "uuid \<Rightarrow> err \<Rightarrow> (world, 'a) go" where
  "failBlast blastID e =
     bindE (logE (store_UpdateEmailBlastStatus blastID EmailBlastStatusFailed (Some (err_Error e)))) (\<lambda>u. failE e)"

text \<open>\<^verbatim>\<open>if err != nil { return p.failBlast(ctx, blastID, fmt.Errorf("msg: %w", err)) }\<close>.\<close>

definition or_fail :: "uuid \<Rightarrow> string \<Rightarrow> (world, 'a) go \<Rightarrow> ('a \<Rightarrow> (world, 'b) go) \<Rightarrow> (world, 'b) go" where
  "or_fail blastID msg m k = tryE m (\<lambda>e. failBlast blastID (Wrap msg e)) k"

definition checkBlastCompletion :: "uuid \<Rightarrow> uuid \<Rightarrow> (world, unit) go" where
  "checkBlastCompletion blastID accountID =
     bindE (wrapE ''failed to count pending recipients''
              (store_CountBlastRecipientsByStatus blastID BlastRecipientStatusPending)) (\<lambda>pendingCount.
     if pendingCount = 0
     then wrapE ''failed to dispatch completion event'' (DispatchBlastCompleted accountID blastID)
     else retE ())"

definition handleBlastStarted :: "EventMessage \<Rightarrow> (world, unit) go" where
  "handleBlastStarted event = bindE (parseBlastEventData event) (\<lambda>(blastID, accountID).
     bindE (wrapE ''failed to get blast'' (store_GetEmailBlastByID blastID)) (\<lambda>blast.
     if eb_Status blast \<noteq> EmailBlastStatusProcessing then retE ()
     else or_fail blastID ''failed to create blast recipients''
       (store_CreateBlastRecipientsFromMultipleSegments blastID (eb_SegmentIDs blast)
          (default_batch_size (eb_BatchSize blast))) (\<lambda>totalRecipients.
     if totalRecipients = 0
     then bindE (wrapE ''failed to update blast status''
            (store_UpdateEmailBlastStatus blastID EmailBlastStatusCompleted None)) (\<lambda>b. retE ())
     else or_fail blastID ''failed to update total recipients''
       (store_UpdateEmailBlastTotalRecipients blastID totalRecipients) (\<lambda>u.
     or_fail blastID ''failed to update blast status''
       (store_UpdateEmailBlastStatus blastID EmailBlastStatusSending None) (\<lambda>b.
     or_fail blastID ''failed to dispatch first batch''
       (DispatchBlastBatchSend accountID blastID 1) retE)))))"

definition batch_number :: "EventMessage \<Rightarrow> int" where
  "batch_number event = (case jget (em_Data event) ''batch_number'' of
       Some (JFloat r) \<Rightarrow> float_to_int r | _ \<Rightarrow> 1)"

definition mail_data :: "string \<Rightarrow> TemplateData" where
  "mail_data email = \<lparr>td_FirstName = '''', td_Email = email, td_ResetLink = '''', td_SubscriptionID = '''',
     td_PlanName = '''', td_VerificationLink = '''', td_Position = 0, td_ReferralLink = '''',
     td_ReferralCount = 0, td_CampaignName = ''''\<rparr>"

definition sendBlastEmail :: "BlastRecipient \<Rightarrow> EmailBlast \<Rightarrow> BlastEmailTemplate \<Rightarrow> (world, unit) go" where
  "sendBlastEmail recipient blast template = wrapE ''failed to send email''
     (SendCustomTemplateEmail (br_Email recipient) (eb_Subject blast) (bt_HTMLBody template)
        (mail_data (br_Email recipient)))"

text \<open>The re-check of the status inside the loop: None when the batch stops.\<close>

definition recheck :: "uuid \<Rightarrow> int \<Rightarrow> int \<Rightarrow> EmailBlast \<Rightarrow> (world, EmailBlast option) go" where
  "recheck blastID batchNumber sentCount blast =
     (if 1 < batchNumber \<and> sentCount mod 10 = 0
      then tryE (store_GetEmailBlastByID blastID) (\<lambda>e. retE None)
        (\<lambda>b. retE (if eb_Status b \<noteq> EmailBlastStatusSending then None else Some b))
      else retE (Some blast))"

text \<open>The loop over the recipients; its locals are the blast as last read and the sent count.\<close>

primrec send_recipients ::
    "uuid \<Rightarrow> int \<Rightarrow> BlastEmailTemplate \<Rightarrow> BlastRecipient list \<Rightarrow> EmailBlast \<Rightarrow> int \<Rightarrow>
     (world, (EmailBlast \<times> int) option) go" where
  "send_recipients blastID batchNumber template [] blast sentCount = retE (Some (blast, sentCount))"
| "send_recipients blastID batchNumber template (recipient # rs) blast sentCount =
     bindE (recheck blastID batchNumber sentCount blast) (\<lambda>st. case st of
       None \<Rightarrow> retE None
     | Some blast' \<Rightarrow> tryE (sendBlastEmail recipient blast' template)
         (\<lambda>e. bindE (logE (store_UpdateBlastRecipientStatus (br_ID recipient) BlastRecipientStatusFailed
                 None (Some (err_Error e)))) (\<lambda>u.
              send_recipients blastID batchNumber template rs blast' sentCount))
         (\<lambda>u. bindE (logE (store_UpdateBlastRecipientStatus (br_ID recipient) BlastRecipientStatusSent
                 None None)) (\<lambda>u.
              send_recipients blastID batchNumber template rs blast' (sentCount + 1))))"

definition handleBlastBatch :: "EventMessage \<Rightarrow> (world, unit) go" where
  "handleBlastBatch event = bindE (parseBlastEventData event) (\<lambda>(blastID, accountID).
     let batchNumber = batch_number event in
     bindE (wrapE ''failed to get blast'' (store_GetEmailBlastByID blastID)) (\<lambda>blast.
     if eb_Status blast \<noteq> EmailBlastStatusSending then retE ()
     else or_fail blastID ''failed to get template''
       (store_GetBlastEmailTemplateByID (eb_BlastTemplateID blast)) (\<lambda>template.
     or_fail blastID ''failed to get batch recipients''
       (store_GetBlastRecipientsByBatch blastID batchNumber) (\<lambda>recipients.
     if recipients = [] then checkBlastCompletion blastID accountID
     else bindE (send_recipients blastID batchNumber template recipients blast 0) (\<lambda>out. case out of
       None \<Rightarrow> retE ()
     | Some (blast', sentCount) \<Rightarrow>
        bindE (logE (store_UpdateEmailBlastProgressWithSent blastID
                 (wrap64 (eb_SentCount blast' + sentCount)) batchNumber)) (\<lambda>u.
        or_fail blastID ''failed to check next batch''
          (store_GetBlastRecipientsByBatch blastID (batchNumber + 1)) (\<lambda>next.
        if next \<noteq> []
        then or_fail blastID ''failed to dispatch next batch''
          (DispatchBlastBatchSend accountID blastID (batchNumber + 1)) retE
        else checkBlastCompletion blastID accountID)))))))"

definition handleBlastCompleted :: "EventMessage \<Rightarrow> (world, unit) go" where
  "handleBlastCompleted event = bindE (parseBlastEventData event) (\<lambda>(blastID, accountID).
     bindE (wrapE ''failed to get blast'' (store_GetEmailBlastByID blastID)) (\<lambda>blast.
     if eb_Status blast = EmailBlastStatusSending
     then bindE (wrapE ''failed to update blast status''
            (store_UpdateEmailBlastStatus blastID EmailBlastStatusCompleted None)) (\<lambda>b. retE ())
     else retE ()))"

definition blast_Process :: "EventMessage \<Rightarrow> (world, unit) go" where
  "blast_Process event =
     (if em_Type event = EventBlastStarted then handleBlastStarted event
      else if em_Type event = EventBlastBatchSend then handleBlastBatch event
      else if em_Type event = EventBlastCompleted then handleBlastCompleted event
      else retE ())"

section \<open>Scheduler\<close>

definition trigger_blast :: "EmailBlast \<Rightarrow> (world, unit) go" where
  "trigger_blast blast =
     tryE (store_UpdateEmailBlastStatus (eb_ID blast) EmailBlastStatusProcessing None) (\<lambda>e. retE ()) (\<lambda>b.
     tryE (DispatchBlastStarted (eb_AccountID blast) (eb_ID blast))
       (\<lambda>e. logE (store_UpdateEmailBlastStatus (eb_ID blast) EmailBlastStatusFailed
               (Some (''failed to dispatch blast started event: '' @ err_Error e))))
       (\<lambda>u. retE ()))"

definition checkScheduledBlasts :: "(world, unit) go" where
  "checkScheduledBlasts = bindE (getE w_now) (\<lambda>now.
     tryE (store_GetScheduledBlasts now) (\<lambda>e. retE ()) (\<lambda>blasts. forE blasts trigger_blast))"

end
