(* ===== verification/Wp.thy ===== *)
theory Wp
  imports Tables Access
begin

text \<open>
  Weakest preconditions of Go calls, for reasoning forward through a handler: \<^term>\<open>wp m S E w\<close>
  holds when the run of m from w ends with a value x and S x, or with an error e and
  \<^term>\<open>E (Some e)\<close>, or with a panic and \<^term>\<open>E None\<close>. One rule per combinator and per kind of
  statement; a handler is unfolded and the rules are applied from the outside in.
\<close>

definition wp :: "('s, 'a) go \<Rightarrow> ('a \<Rightarrow> 's \<Rightarrow> bool) \<Rightarrow> (err option \<Rightarrow> 's \<Rightarrow> bool) \<Rightarrow> 's \<Rightarrow> bool" where
  "wp m S E w = (case m w of
       (Ok x, w') \<Rightarrow> S x w'
     | (Err e, w') \<Rightarrow> E (Some e) w'
     | (Panic p, w') \<Rightarrow> E None w')"

named_theorems wp_rules "backward rules of the combinators"

lemma wp_retE [wp_rules]: "S x w \<Longrightarrow> wp (retE x) S E w"
  by (simp add: wp_def retE_def)

lemma wp_failE [wp_rules]: "E (Some e) w \<Longrightarrow> wp (failE e) S E w"
  by (simp add: wp_def failE_def)

lemma wp_panicE [wp_rules]: "E None w \<Longrightarrow> wp (panicE p) S E w"
  by (simp add: wp_def panicE_def)

lemma wp_getE [wp_rules]: "S (f w) w \<Longrightarrow> wp (getE f) S E w"
  by (simp add: wp_def getE_def)

lemma wp_tryE:
  "wp (tryE m h k) S E w \<longleftrightarrow>
     wp m (\<lambda>x. wp (k x) S E) (\<lambda>e. case e of Some e' \<Rightarrow> wp (h e') S E | None \<Rightarrow> E None) w"
  by (simp add: wp_def tryE_def split: prod.split result.split)

lemma wp_tryI [wp_rules]:
  "wp m (\<lambda>x. wp (k x) S E) (\<lambda>e. case e of Some e' \<Rightarrow> wp (h e') S E | None \<Rightarrow> E None) w \<Longrightarrow>
   wp (tryE m h k) S E w"
  by (simp add: wp_tryE)

text \<open>What is left of a handled error.\<close>

lemma wp_handled [wp_rules]:
  "(\<And>e'. e = Some e' \<Longrightarrow> wp (h e') S E w) \<Longrightarrow> (e = None \<Longrightarrow> E None w) \<Longrightarrow>
   (case e of None \<Rightarrow> E None | Some e' \<Rightarrow> wp (h e') S E) w"
  by (cases e) auto

lemma wp_logged [wp_rules]:
  "(e \<noteq> None \<Longrightarrow> S w) \<Longrightarrow> (e = None \<Longrightarrow> F w) \<Longrightarrow> (case e of None \<Rightarrow> F | Some e' \<Rightarrow> S) w"
  by (cases e) auto

lemma wp_bindE: "wp (bindE m k) S E w \<longleftrightarrow> wp m (\<lambda>x. wp (k x) S E) E w"
  by (simp add: wp_def bindE_def tryE_def failE_def split: prod.split result.split)

lemma wp_bindI [wp_rules]: "wp m (\<lambda>x. wp (k x) S E) E w \<Longrightarrow> wp (bindE m k) S E w"
  by (simp add: wp_bindE)

lemma wp_wrapI [wp_rules]: "wp m S (\<lambda>e. E (map_option (Wrap msg) e)) w \<Longrightarrow> wp (wrapE msg m) S E w"
  by (simp add: wp_def wrapE_def tryE_def failE_def retE_def split: prod.splits result.splits)

lemma wp_logI [wp_rules]:
  "wp m (\<lambda>x. S ()) (\<lambda>e. case e of Some e' \<Rightarrow> S () | None \<Rightarrow> E None) w \<Longrightarrow> wp (logE m) S E w"
  by (simp add: wp_def logE_def tryE_def retE_def split: prod.splits result.splits)

lemma wp_if [wp_rules]:
  "(b \<Longrightarrow> wp m S E w) \<Longrightarrow> (\<not> b \<Longrightarrow> wp m' S E w) \<Longrightarrow> wp (if b then m else m') S E w"
  by simp

lemma wp_case_option [wp_rules]:
  "(v = None \<Longrightarrow> wp m S E w) \<Longrightarrow> (\<And>x. v = Some x \<Longrightarrow> wp (m' x) S E w) \<Longrightarrow>
   wp (case v of None \<Rightarrow> m | Some x \<Rightarrow> m' x) S E w"
  by (cases v) auto

lemma wp_case_prod [wp_rules]:
  "(\<And>x y. v = (x, y) \<Longrightarrow> wp (m x y) S E w) \<Longrightarrow> wp (case v of (x, y) \<Rightarrow> m x y) S E w"
  by (cases v) auto

lemma wp_Let [wp_rules]: "(\<And>x. x = v \<Longrightarrow> wp (m x) S E w) \<Longrightarrow> wp (Let v m) S E w"
  by simp

lemma wp_mono:
  assumes "wp m S E w" "\<And>x w'. S x w' \<Longrightarrow> S' x w'" "\<And>e w'. E e w' \<Longrightarrow> E' e w'"
  shows "wp m S' E' w"
  using assms by (auto simp: wp_def split: prod.splits result.splits)

lemma wp_forE:
  assumes "I w" "\<And>x w. x \<in> set xs \<Longrightarrow> I w \<Longrightarrow> wp (f x) (\<lambda>u. I) E w" "\<And>w. I w \<Longrightarrow> S () w"
  shows "wp (forE xs f) S E w"
  using assms(1,2)
proof (induction xs arbitrary: w)
  case Nil
  then show ?case using assms(3) by (simp add: wp_retE)
next
  case (Cons x xs)
  have "wp (f x) (\<lambda>u. wp (forE xs f) S E) E w"
    by (rule wp_mono [OF Cons.prems(2) [OF _ Cons.prems(1)]]) (auto intro!: Cons.IH Cons.prems(2))
  then show ?case by (simp add: wp_bindE)
qed

lemma wp_foldE:
  assumes "I acc w" "\<And>x acc w. x \<in> set xs \<Longrightarrow> I acc w \<Longrightarrow> wp (f x acc) I E w" "\<And>acc w. I acc w \<Longrightarrow> S acc w"
  shows "wp (foldE f xs acc) S E w"
  using assms(1,2)
proof (induction xs arbitrary: acc w)
  case Nil
  then show ?case using assms(3) by (simp add: wp_retE)
next
  case (Cons x xs)
  have "wp (f x acc) (\<lambda>y. wp (foldE f xs y) S E) E w"
    by (rule wp_mono [OF Cons.prems(2) [OF _ Cons.prems(1)]]) (auto intro!: Cons.IH Cons.prems(2))
  then show ?case by (simp add: wp_bindE)
qed

text \<open>The same with an invariant over the elements still to come.\<close>

lemma wp_forE_rest:
  assumes "I xs w" "\<And>x xs w. I (x # xs) w \<Longrightarrow> wp (f x) (\<lambda>u. I xs) E w" "\<And>w. I [] w \<Longrightarrow> S () w"
  shows "wp (forE xs f) S E w"
  using assms(1)
proof (induction xs arbitrary: w)
  case Nil
  then show ?case using assms(3) by (simp add: wp_retE)
next
  case (Cons x xs)
  have "wp (f x) (\<lambda>u. wp (forE xs f) S E) E w"
    by (rule wp_mono [OF assms(2) [OF Cons.prems]]) (auto intro: Cons.IH)
  then show ?case by (simp add: wp_bindE)
qed

text \<open>A call that only reads, one that only publishes, and what a wp says of a run.\<close>

lemma wp_moves:
  assumes "moves R m" "\<And>x w'. R w w' \<Longrightarrow> S x w'" "\<And>e w'. R w w' \<Longrightarrow> E e w'"
  shows "wp m S E w"
  using assms unfolding moves_def wp_def
  by (cases "m w") (auto split: result.split, (metis snd_conv)+)

lemmas wp_reads = wp_moves [where R = tick]

lemma wpD:
  assumes "wp m (\<lambda>x. S) (\<lambda>e. S) w"
  shows "S (snd (m w))"
  using assms by (auto simp: wp_def split: prod.splits result.splits)

lemma wp_run: "wp m (\<lambda>x. S) (\<lambda>e. S) w \<Longrightarrow> m w = (r, w') \<Longrightarrow> S w'"
  by (drule wpD) simp

lemma wp_Ok: "wp m S E w \<Longrightarrow> m w = (Ok x, w') \<Longrightarrow> S x w'"
  by (simp add: wp_def)

text \<open>Statements: a failure leaves the tables alone.\<close>

lemma wp_sql_get:
  assumes "\<And>x w'. tick w w' \<Longrightarrow> x \<in> set (q (ticked w)) \<Longrightarrow> S x w'" "\<And>e w'. tick w w' \<Longrightarrow> E e w'"
  shows "wp (sql_get q) S E w"
proof -
  have t: "tick w (ticked w)" unfolding tick_def ticked_def by blast
  then show ?thesis
    using assms [OF t]
    by (auto simp: wp_def sql_get_def db_def ticked_def Let_def split: option.splits list.splits)
qed

lemma wp_sql_query:
  assumes "\<And>w'. tick w w' \<Longrightarrow> S (q (ticked w)) w'" "\<And>e w'. tick w w' \<Longrightarrow> E e w'"
  shows "wp (sql_query q) S E w"
proof -
  have t: "tick w (ticked w)" unfolding tick_def ticked_def by blast
  then show ?thesis
    using assms [OF t] by (auto simp: wp_def sql_query_def db_def ticked_def Let_def split: option.splits)
qed

lemma wp_row_or [wp_rules]:
  "wp m S (\<lambda>e. E (map_option (\<lambda>e'. if errors_Is e' ErrNoRows then ErrNotFound else Wrap msg e') e)) w \<Longrightarrow>
   wp (row_or msg m) S E w"
  by (auto simp: wp_def row_or_def tryE_def failE_def retE_def split: prod.splits result.splits if_splits)

lemma wp_affected_or [wp_rules]:
  "wp m (\<lambda>n w. if n = 0 then E (Some ErrNotFound) w else S () w) (\<lambda>e. E (map_option (Wrap msg) e)) w \<Longrightarrow>
   wp (affected_or msg m) S E w"
  by (auto simp: wp_def affected_or_def wrapE_def bindE_def tryE_def failE_def retE_def
      split: prod.splits result.splits if_splits)

lemma wp_exec_or [wp_rules]:
  "wp m (\<lambda>n w. S () w) (\<lambda>e. E (map_option (Wrap msg) e)) w \<Longrightarrow> wp (exec_or msg m) S E w"
  by (auto simp: wp_def exec_or_def wrapE_def bindE_def tryE_def failE_def retE_def
      split: prod.splits result.splits)

lemma wp_sql_update:
  assumes "\<And>w'. chk (upd_where P (f (ticked w)) (fst tbl (ticked w))) = None \<Longrightarrow>
      w' = snd tbl (\<lambda>_. upd_where P (f (ticked w)) (fst tbl (ticked w))) (ticked w) \<Longrightarrow>
      S (int (length (filter P (fst tbl (ticked w))))) w'"
    and "\<And>e. E e (ticked w)"
  shows "wp (sql_update tbl chk P f) S E w"
  using assms by (auto simp: wp_def sql_update_def db_def ticked_def Let_def split: option.splits)

lemma wp_sql_update_returning:
  assumes "\<And>r w'. chk (upd_where P (f (ticked w)) (fst tbl (ticked w))) = None \<Longrightarrow>
      r \<in> set (fst tbl (ticked w)) \<Longrightarrow> P r \<Longrightarrow>
      w' = snd tbl (\<lambda>_. upd_where P (f (ticked w)) (fst tbl (ticked w))) (ticked w) \<Longrightarrow>
      S (f (ticked w) r) w'"
    and "\<And>e. E e (ticked w)"
  shows "wp (sql_update_returning tbl chk P f) S E w"
proof (cases "filter P (fst tbl (ticked w))")
  case Nil
  then show ?thesis
    using assms(2) by (auto simp: wp_def sql_update_returning_def db_def ticked_def Let_def split: option.splits)
next
  case (Cons r rs)
  then have "r \<in> set (filter P (fst tbl (ticked w)))" by simp
  then have "r \<in> set (fst tbl (ticked w))" "P r" by auto
  then show ?thesis
    using assms Cons
    by (auto simp: wp_def sql_update_returning_def db_def ticked_def Let_def split: option.splits)
qed

lemma wp_sql_insert:
  assumes "\<And>r w'. chk (ticked w) (fst tbl (ticked w)) r = None \<Longrightarrow> r = mk (w_uuids w (w_fresh w)) (w_now w) \<Longrightarrow>
      w' = snd tbl (\<lambda>rows. rows @ [r]) ((ticked w)\<lparr>w_fresh := Suc (w_fresh w)\<rparr>) \<Longrightarrow> S r w'"
    and "\<And>e n. E e ((ticked w)\<lparr>w_fresh := n\<rparr>)"
  shows "wp (sql_insert tbl chk mk) S E w"
proof -
  have "E e (ticked w)" for e using assms(2) [of e "w_fresh w"] by (simp add: ticked_def)
  then show ?thesis
    using assms by (auto simp: wp_def sql_insert_def db_def ticked_def Let_def split: option.splits)
qed

lemma wp_not_found_as [wp_rules]:
  "wp m S (\<lambda>e. E (map_option (\<lambda>e'. if errors_Is e' ErrNotFound then Sentinel s else e') e)) w \<Longrightarrow>
   wp (not_found_as s m) S E w"
  by (auto simp: wp_def not_found_as_def tryE_def failE_def retE_def split: prod.splits result.splits if_splits)

lemma wp_sql_page:
  assumes "0 \<le> lmt \<Longrightarrow> 0 \<le> off \<Longrightarrow> S (take (nat lmt) (drop (nat off) (q (ticked w)))) (ticked w)"
    "\<And>e. E e (ticked w)"
  shows "wp (sql_page q lmt off) S E w"
  using assms by (auto simp: wp_def sql_page_def db_def ticked_def Let_def split: option.splits)

text \<open>An insert that fails has a reason.\<close>

lemma wp_sql_insert_why:
  assumes "\<And>r w'. chk (ticked w) (fst tbl (ticked w)) r = None \<Longrightarrow> r = mk (w_uuids w (w_fresh w)) (w_now w) \<Longrightarrow>
      w' = snd tbl (\<lambda>rows. rows @ [r]) ((ticked w)\<lparr>w_fresh := Suc (w_fresh w)\<rparr>) \<Longrightarrow> S r w'"
    and "\<And>e n. w_fault w (w_calls w) \<noteq> None \<or>
      chk (ticked w) (fst tbl (ticked w)) (mk (w_uuids w (w_fresh w)) (w_now w)) \<noteq> None \<Longrightarrow>
      E e ((ticked w)\<lparr>w_fresh := n\<rparr>)"
  shows "wp (sql_insert tbl chk mk) S E w"
proof -
  have "w_fault w (w_calls w) \<noteq> None \<Longrightarrow> E e (ticked w)" for e
    using assms(2) [of e "w_fresh w"] by (simp add: ticked_def)
  then show ?thesis
    using assms by (auto simp: wp_def sql_insert_def db_def ticked_def Let_def split: option.splits)
qed

section \<open>Calls that never panic\<close>

fun panics :: "'a result \<Rightarrow> bool" where
  "panics (Panic p) = True"
| "panics _ = False"

definition calm :: "('s, 'a) go \<Rightarrow> bool" where
  "calm m = (\<forall>w. \<not> panics (fst (m w)))"

lemma calmD: "calm m \<Longrightarrow> m w \<noteq> (Panic p, w')"
  unfolding calm_def by (metis fst_conv panics.simps(1))

lemma calm_base: "calm (retE x)" "calm (failE e)" "calm (getE g)"
  by (simp_all add: calm_def go_defs)

lemma calm_tryE:
  assumes "calm m" "\<And>e. calm (h e)" "\<And>x. calm (k x)"
  shows "calm (tryE m h k)"
  unfolding calm_def
proof
  fix w
  have "\<not> panics (fst (m w))" using assms(1) by (simp add: calm_def)
  then show "\<not> panics (fst (tryE m h k w))"
    using assms(2,3) by (auto simp: tryE_def calm_def split: prod.split result.split)
qed

lemma calm_bindE: "calm m \<Longrightarrow> (\<And>x. calm (k x)) \<Longrightarrow> calm (bindE m k)"
  unfolding bindE_def by (intro calm_tryE calm_base)

lemma calm_wrapE: "calm m \<Longrightarrow> calm (wrapE msg m)" and calm_logE: "calm m \<Longrightarrow> calm (logE m)"
  unfolding wrapE_def logE_def by (auto intro: calm_tryE calm_base)

lemma calm_forE: "(\<And>x. calm (f x)) \<Longrightarrow> calm (forE xs f)"
  by (induction xs) (simp_all add: calm_base calm_bindE)

lemma calm_if: "calm m \<Longrightarrow> calm m' \<Longrightarrow> calm (if b then m else m')"
  by simp

lemma calm_case_prod: "(\<And>x y. calm (m x y)) \<Longrightarrow> calm (case v of (x, y) \<Rightarrow> m x y)"
  by (cases v) simp

lemma calm_sql: "calm (sql_query q)" "calm (sql_get g)" "calm (sql_page g lmt off)"
  "calm (sql_update tbl chk P f)" "calm (sql_insert tbl ichk mk)" "calm uuid_New"
  by (auto simp: calm_def sql_query_def sql_get_def sql_page_def sql_update_def sql_insert_def db_def Let_def
      uuid_New_def split: option.splits list.splits prod.splits)

lemma calm_or: "calm m \<Longrightarrow> calm (row_or msg m)" "calm n \<Longrightarrow> calm (affected_or msg n)" "calm n \<Longrightarrow> calm (exec_or msg n)"
  unfolding row_or_def affected_or_def exec_or_def by (auto intro!: calm_tryE calm_bindE calm_wrapE calm_base)

lemmas calm_rules = calm_base calm_tryE calm_bindE calm_wrapE calm_logE calm_forE calm_if calm_case_prod
  calm_sql calm_or

end
