(* ===== verification/BlastLife.thy ===== *)
theory BlastLife
  imports EmailBlasts Wp
begin

text \<open>
  The life cycle of a blast as a state machine: the edges between statuses, and that every
  handler, the worker and the scheduler move every blast along them only, whatever statements,
  publications or mails fail. A system step is one handler call, one delivery of any message of
  the topic to the worker (any number of times, in any order), one run of the scheduler, or a
  change elsewhere; a handler runs as a whole.
\<close>

section \<open>The diagram\<close>

inductive status_edge :: "string \<Rightarrow> string \<Rightarrow> bool" where
  schedule: "status_edge ''draft'' ''scheduled''"
| start_draft: "status_edge ''draft'' ''processing''"
| start_scheduled: "status_edge ''scheduled'' ''processing''"
| revert: "status_edge ''processing'' ''draft''"
| send: "status_edge ''processing'' ''sending''"
| empty: "status_edge ''processing'' ''completed''"
| pause_processing: "status_edge ''processing'' ''paused''"
| pause: "status_edge ''sending'' ''paused''"
| resume: "status_edge ''paused'' ''sending''"
| finish: "status_edge ''sending'' ''completed''"
| fail: "st \<in> set [''processing'', ''sending''] \<Longrightarrow> status_edge st ''failed''"
| cancel: "st \<in> set [''draft'', ''scheduled'', ''processing'', ''sending'', ''paused''] \<Longrightarrow>
    status_edge st ''cancelled''"

inductive_cases status_edgeE: "status_edge st st'"

inductive_simps status_edge_from_completed: "status_edge ''completed'' st"
inductive_simps status_edge_from_cancelled: "status_edge ''cancelled'' st"
inductive_simps status_edge_from_failed: "status_edge ''failed'' st"
inductive_simps status_edge_to_processing: "status_edge st ''processing''"

text \<open>The diagram as a list of pairs, to evaluate it.\<close>

definition status_edges :: "(string \<times> string) list" where
  "status_edges = [(''draft'', ''scheduled''), (''draft'', ''processing''), (''scheduled'', ''processing''),
     (''processing'', ''draft''), (''processing'', ''sending''), (''processing'', ''completed''),
     (''processing'', ''paused''), (''sending'', ''paused''), (''paused'', ''sending''), (''sending'', ''completed''),
     (''processing'', ''failed''), (''sending'', ''failed''), (''draft'', ''cancelled''),
     (''scheduled'', ''cancelled''), (''processing'', ''cancelled''), (''sending'', ''cancelled''),
     (''paused'', ''cancelled'')]"

lemma status_edge_code [code]: "status_edge st st' \<longleftrightarrow> (st, st') \<in> set status_edges"
proof
  show "status_edge st st' \<Longrightarrow> (st, st') \<in> set status_edges"
    by (induction rule: status_edge.induct) (auto simp: status_edges_def)
  show "(st, st') \<in> set status_edges \<Longrightarrow> status_edge st st'"
    by (auto simp: status_edges_def intro: status_edge.intros)
qed

abbreviation status_path :: "string \<Rightarrow> string \<Rightarrow> bool" where
  "status_path \<equiv> status_edge\<^sup>*\<^sup>*"

lemmas edge_path = r_into_rtranclp [of status_edge]

text \<open>The terminal statuses: no edge leaves them.\<close>

lemma terminal_path:
  assumes "status_path st st'" "st \<in> {''completed'', ''cancelled'', ''failed''}"
  shows "st' = st"
  using assms
proof (induction rule: rtranclp_induct)
  case (step y z)
  then have "status_edge st z" "st \<in> {''completed'', ''cancelled'', ''failed''}" by auto
  then show ?case
    by (auto simp: status_edge_from_completed status_edge_from_cancelled status_edge_from_failed)
qed simp

section \<open>Evolution of the rows\<close>

text \<open>What may happen to one row, and to the table: rows stay in place, a deleted one is frozen,
  new ones are appended and were once a draft.\<close>

definition blast_evolves :: "EmailBlast \<Rightarrow> EmailBlast \<Rightarrow> bool" where
  "blast_evolves b b' = (eb_ID b' = eb_ID b \<and> eb_AccountID b' = eb_AccountID b \<and>
     eb_BlastTemplateID b' = eb_BlastTemplateID b \<and> eb_SegmentIDs b' = eb_SegmentIDs b \<and>
     status_path (eb_Status b) (eb_Status b') \<and> (eb_DeletedAt b \<noteq> None \<longrightarrow> b' = b))"

definition blasts_evolve :: "EmailBlast list \<Rightarrow> EmailBlast list \<Rightarrow> bool" where
  "blasts_evolve rows rows' = (distinct (map eb_ID rows) \<longrightarrow> distinct (map eb_ID rows') \<and>
     (\<exists>old new. rows' = old @ new \<and> list_all2 blast_evolves rows old \<and>
        (\<forall>b\<in>set new. status_path ''draft'' (eb_Status b))))"

lemma blast_evolves_refl: "blast_evolves b b"
  by (simp add: blast_evolves_def)

lemma blast_evolves_trans: "blast_evolves a b \<Longrightarrow> blast_evolves b c \<Longrightarrow> blast_evolves a c"
  by (auto simp: blast_evolves_def)

lemma blasts_evolveI:
  assumes "distinct (map eb_ID rows) \<Longrightarrow> distinct (map eb_ID rows')" "rows' = old @ new"
    "list_all2 blast_evolves rows old" "\<And>b. b \<in> set new \<Longrightarrow> status_path ''draft'' (eb_Status b)"
  shows "blasts_evolve rows rows'"
  unfolding blasts_evolve_def using assms by blast

lemma all_evolve_refl: "list_all2 blast_evolves rows rows"
  by (rule list.rel_refl) (rule blast_evolves_refl)

lemma blasts_evolve_refl: "blasts_evolve rows rows"
  by (rule blasts_evolveI [where old = rows and new = "[]"]) (simp_all add: all_evolve_refl)

lemma blasts_evolve_trans:
  assumes "blasts_evolve r s" "blasts_evolve s t"
  shows "blasts_evolve r t"
  unfolding blasts_evolve_def
proof
  assume d: "distinct (map eb_ID r)"
  obtain old new where 1: "s = old @ new" "list_all2 blast_evolves r old"
    "\<forall>b\<in>set new. status_path ''draft'' (eb_Status b)" "distinct (map eb_ID s)"
    using assms(1) d unfolding blasts_evolve_def by blast
  obtain old' new' where 2: "t = old' @ new'" "list_all2 blast_evolves s old'"
    "\<forall>b\<in>set new'. status_path ''draft'' (eb_Status b)" "distinct (map eb_ID t)"
    using assms(2) 1(4) unfolding blasts_evolve_def by blast
  obtain o1 o2 where 3: "old' = o1 @ o2" "list_all2 blast_evolves old o1" "list_all2 blast_evolves new o2"
    using 2(2) unfolding 1(1) by (auto simp: list_all2_append1)
  have "list_all2 blast_evolves r o1"
    by (rule list_all2_trans [OF blast_evolves_trans 1(2) 3(2)])
  moreover have "status_path ''draft'' (eb_Status b)" if b: "b \<in> set o2" for b
  proof -
    obtain k where "k < length o2" "b = o2 ! k" using b by (metis in_set_conv_nth)
    then have "new ! k \<in> set new" "blast_evolves (new ! k) b"
      using 3(3) by (simp_all add: list_all2_conv_all_nth)
    then have "status_path ''draft'' (eb_Status (new ! k))" "status_path (eb_Status (new ! k)) (eb_Status b)"
      using 1(3) by (simp_all add: blast_evolves_def)
    then show ?thesis by (rule rtranclp_trans)
  qed
  ultimately show "distinct (map eb_ID t) \<and> (\<exists>old new. t = old @ new \<and> list_all2 blast_evolves r old \<and>
      (\<forall>b\<in>set new. status_path ''draft'' (eb_Status b)))"
    using 2 3(1) by (intro conjI exI [of _ o1] exI [of _ "o2 @ new'"]) auto
qed

interpretation life: row_relation t_email_blasts t_email_blasts_update eb_ID blasts_evolve
  by unfold_locales (simp_all add: blasts_evolve_refl, erule (1) blasts_evolve_trans)

lemma blasts_evolve_update:
  assumes "\<And>b. b \<in> set rows \<Longrightarrow> P b \<Longrightarrow> blast_evolves b (f b)"
  shows "blasts_evolve rows (upd_where P f rows)"
proof -
  have "list_all2 blast_evolves rows (upd_where P f rows)"
    using assms by (auto simp: upd_where_def list_all2_conv_all_nth blast_evolves_refl)
  moreover have "map eb_ID (upd_where P f rows) = map eb_ID rows"
    using assms by (auto simp: upd_where_def blast_evolves_def)
  ultimately show ?thesis
    by (intro blasts_evolveI [where old = "upd_where P f rows" and new = "[]"]) simp_all
qed

lemma blasts_evolve_insert:
  assumes "eb_ID b \<notin> eb_ID ` set rows" "status_path ''draft'' (eb_Status b)"
  shows "blasts_evolve rows (rows @ [b])"
  using assms by (intro blasts_evolveI [where old = rows and new = "[b]"]) (auto simp: all_evolve_refl)

section \<open>Rules of the statements\<close>

text \<open>The state seen from a handler that began in w0 and has found blast i in status st.\<close>

definition seen :: "world \<Rightarrow> uuid \<Rightarrow> string \<Rightarrow> world \<Rightarrow> bool" where
  "seen w0 i st w = (life.rel w0 w \<and> distinct (map eb_ID (t_email_blasts w)) \<and>
     (\<forall>b\<in>set (t_email_blasts w). live_blast i b \<longrightarrow> eb_Status b = st))"

definition started :: "world \<Rightarrow> world \<Rightarrow> bool" where
  "started w0 w = (life.rel w0 w \<and> distinct (map eb_ID (t_email_blasts w)))"

lemma seen_started: "seen w0 i st w \<Longrightarrow> started w0 w"
  by (simp add: seen_def started_def)

lemma started_refl: "distinct (map eb_ID (t_email_blasts w)) \<Longrightarrow> started w w"
  by (simp add: started_def life.rel.step_refl)

lemma started_rel: "started w0 w \<Longrightarrow> life.rel w0 w"
  by (simp add: started_def)

lemma seen_cong:
  assumes "t_email_blasts w' = t_email_blasts w"
  shows "seen w0 i st w' = seen w0 i st w" "started w0 w' = started w0 w"
  using assms by (simp_all add: seen_def started_def life.rel_def)

lemma seen_ticked [simp]:
  "seen w0 i st (ticked w) = seen w0 i st w" "started w0 (ticked w) = started w0 w"
  by (rule seen_cong, simp)+

lemma started_step:
  assumes "started w0 w" "blasts_evolve (t_email_blasts w) (t_email_blasts w')"
  shows "started w0 w'"
  using assms life.rel.step_trans [of w0 w w'] unfolding started_def life.rel_def blasts_evolve_def by blast

text \<open>Any call that leaves the table of blasts alone.\<close>

lemma wp_frame:
  assumes "moves (frame f) m" "\<And>x w'. f w' = f w \<Longrightarrow> S x w'" "\<And>e w'. f w' = f w \<Longrightarrow> E e w'"
  shows "wp m S E w"
  by (rule wp_moves [OF assms(1)]) (simp_all add: frame_def assms(2,3))

lemma wp_apart:
  assumes "moves (frame t_email_blasts) m" "seen w0 i st w"
    "\<And>x w'. seen w0 i st w' \<Longrightarrow> S x w'" "\<And>e w'. seen w0 i st w' \<Longrightarrow> E e w'"
  shows "wp m S E w"
  by (rule wp_frame [OF assms(1)]) (simp_all add: assms(2-4) seen_cong)

lemma wp_get_blast:
  assumes "started w0 w" "\<And>b w'. seen w0 i (eb_Status b) w' \<Longrightarrow> eb_ID b = i \<Longrightarrow> S b w'"
    "\<And>e w'. started w0 w' \<Longrightarrow> E e w'"
  shows "wp (store_GetEmailBlastByID i) S E w"
  unfolding store_GetEmailBlastByID_def
proof (rule wp_row_or, rule wp_sql_get)
  fix b w' assume t: "tick w w'" and b: "b \<in> set (filter (live_blast i) (t_email_blasts (ticked w)))"
  have e: "t_email_blasts w' = t_email_blasts w" by (rule blasts.get_tick [OF t])
  have "c = b" if "c \<in> set (t_email_blasts w)" "live_blast i c" for c
    using assms(1) b that by (auto simp: started_def live_blast_def dest: distinct_map [THEN iffD1] inj_onD)
  then have "seen w0 i (eb_Status b) w'"
    using assms(1) unfolding seen_cong(1) [OF e] by (auto simp: started_def seen_def)
  then show "S b w'" using b by (intro assms(2)) (auto simp: live_blast_def)
next
  fix e w' assume "tick w w'"
  then have "started w0 w'" using assms(1) by (simp add: seen_cong(2) [OF blasts.get_tick])
  then show "E (map_option (\<lambda>e'. if errors_Is e' ErrNoRows then ErrNotFound
      else Wrap ''failed to get email blast'' e') e) w'" by (rule assms(3))
qed

lemma set_status_simps [simp]:
  "eb_ID (set_status st msg t b) = eb_ID b" "eb_Status (set_status st msg t b) = st"
  "eb_DeletedAt (set_status st msg t b) = eb_DeletedAt b"
  "eb_CurrentBatch (set_status st msg t b) = eb_CurrentBatch b"
  by (simp_all add: set_status_def)

lemma set_status_evolves:
  "live_blast i b \<Longrightarrow> status_path (eb_Status b) st \<Longrightarrow> blast_evolves b (set_status st msg t b)"
  by (auto simp: blast_evolves_def set_status_def live_blast_def)

lemma seen_update:
  assumes "seen w0 i st w" "t_email_blasts w' = upd_where P f (t_email_blasts w)"
    "\<And>b. P b \<Longrightarrow> eb_Status b = st \<or> \<not> live_blast i b \<Longrightarrow> blast_evolves b (f b)"
    "\<And>b. live_blast i (if P b then f b else b) \<Longrightarrow> eb_Status b = st \<or> \<not> live_blast i b \<Longrightarrow>
       eb_Status (if P b then f b else b) = st'"
  shows "seen w0 i st' w'"
proof -
  have st: "eb_Status b = st \<or> \<not> live_blast i b" if "b \<in> set (t_email_blasts w)" for b
    using assms(1) that by (auto simp: seen_def)
  have "blasts_evolve (t_email_blasts w) (t_email_blasts w')"
    unfolding assms(2) by (rule blasts_evolve_update) (rule assms(3), assumption, rule st)
  then have "started w0 w'" by (rule started_step [OF seen_started [OF assms(1)]])
  moreover have "eb_Status b = st'" if b: "b \<in> set (t_email_blasts w')" "live_blast i b" for b
  proof -
    obtain s where s: "s \<in> set (t_email_blasts w)" "b = (if P s then f s else s)"
      using b(1) unfolding assms(2) set_upd_where by blast
    show ?thesis using assms(4) [of s] b(2) st [OF s(1)] unfolding s(2) by blast
  qed
  ultimately show ?thesis unfolding seen_def started_def by blast
qed

text \<open>An UPDATE that moves the row from status st to st', plain or RETURNING.\<close>

lemma wp_update_status:
  assumes "seen w0 i st w"
    "\<And>v b. P b \<Longrightarrow> eb_Status b = st \<or> \<not> live_blast i b \<Longrightarrow> blast_evolves b (f v b)"
    "\<And>v b. live_blast i (if P b then f v b else b) \<Longrightarrow> eb_Status b = st \<or> \<not> live_blast i b \<Longrightarrow>
       eb_Status (if P b then f v b else b) = st'"
  shows "(\<And>n w'. seen w0 i st' w' \<Longrightarrow> S n w') \<Longrightarrow> (\<And>e w'. seen w0 i st w' \<Longrightarrow> E e w') \<Longrightarrow>
      wp (sql_update email_blasts_tbl chk P f) S E w"
    and "(\<And>b w'. seen w0 i st' w' \<Longrightarrow> S' b w') \<Longrightarrow> (\<And>e w'. seen w0 i st w' \<Longrightarrow> E e w') \<Longrightarrow>
      wp (sql_update_returning email_blasts_tbl chk P f) S' E w"
proof -
  note step = seen_update [OF assms(1) _ assms(2,3)]
  have err: "seen w0 i st (ticked w)" using assms(1) by simp
  show "wp (sql_update email_blasts_tbl chk P f) S E w"
    if S: "\<And>n w'. seen w0 i st' w' \<Longrightarrow> S n w'" and E: "\<And>e w'. seen w0 i st w' \<Longrightarrow> E e w'"
  proof (rule wp_sql_update)
    fix w' assume "w' = snd email_blasts_tbl (\<lambda>_. upd_where P (f (ticked w)) (fst email_blasts_tbl (ticked w))) (ticked w)"
    then have "t_email_blasts w' = upd_where P (f (ticked w)) (t_email_blasts w)" by simp
    then show "S (int (length (filter P (fst email_blasts_tbl (ticked w))))) w'" by (rule S [OF step])
  qed (rule E [OF err])
  show "wp (sql_update_returning email_blasts_tbl chk P f) S' E w"
    if S: "\<And>n w'. seen w0 i st' w' \<Longrightarrow> S' n w'" and E: "\<And>e w'. seen w0 i st w' \<Longrightarrow> E e w'"
  proof (rule wp_sql_update_returning)
    fix r w' assume "w' = snd email_blasts_tbl (\<lambda>_. upd_where P (f (ticked w)) (fst email_blasts_tbl (ticked w))) (ticked w)"
    then have "t_email_blasts w' = upd_where P (f (ticked w)) (t_email_blasts w)" by simp
    then show "S' (f (ticked w) r) w'" by (rule S [OF step])
  qed (rule E [OF err])
qed

lemma wp_set_status:
  assumes "seen w0 i st0 w" "status_path st0 st"
    "\<And>b w'. seen w0 i st w' \<Longrightarrow> S b w'" "\<And>e w'. seen w0 i st0 w' \<Longrightarrow> E e w'"
  shows "wp (store_UpdateEmailBlastStatus i st msg) S E w"
  unfolding store_UpdateEmailBlastStatus_def
  by (rule wp_row_or, rule wp_update_status(2) [OF assms(1)])
     (use assms(2) in \<open>auto simp: assms(3,4) live_blast_def blast_evolves_def set_status_def split: if_splits\<close>)

lemma wp_store_UpdateEmailBlast:
  assumes "seen w0 i st w" "\<And>b w'. seen w0 i st w' \<Longrightarrow> S b w'" "\<And>e w'. seen w0 i st w' \<Longrightarrow> E e w'"
  shows "wp (store_UpdateEmailBlast i p) S E w"
  unfolding store_UpdateEmailBlast_def
  by (rule wp_row_or, rule wp_update_status(2) [OF assms(1)])
     (auto simp: assms live_blast_def blast_evolves_def split: if_splits)

lemma wp_store_DeleteEmailBlast:
  assumes "seen w0 i st w" "\<And>b w'. seen w0 i st w' \<Longrightarrow> S b w'" "\<And>e w'. seen w0 i st w' \<Longrightarrow> E e w'"
  shows "wp (store_DeleteEmailBlast i) S E w"
  unfolding store_DeleteEmailBlast_def
  by (rule wp_affected_or, rule wp_update_status(1) [OF assms(1)])
     (auto simp: assms live_blast_def blast_evolves_def split: if_splits)

lemma wp_store_ScheduleBlast:
  assumes "seen w0 i ''draft'' w" "\<And>b w'. seen w0 i ''scheduled'' w' \<Longrightarrow> S b w'" "\<And>e w'. seen w0 i ''draft'' w' \<Longrightarrow> E e w'"
  shows "wp (store_ScheduleBlast i t) S E w"
  unfolding store_ScheduleBlast_def
  by (rule wp_row_or, rule wp_update_status(2) [OF assms(1)])
     (auto simp: assms live_blast_def blast_evolves_def intro: edge_path status_edge.schedule split: if_splits)

lemma wp_store_progress:
  assumes "seen w0 i st w" "\<And>b w'. seen w0 i st w' \<Longrightarrow> S b w'" "\<And>e w'. seen w0 i st w' \<Longrightarrow> E e w'"
  shows "wp (store_UpdateEmailBlastTotalRecipients i n) S E w"
    "wp (store_UpdateEmailBlastProgressWithSent i n k) S E w"
  unfolding store_UpdateEmailBlastTotalRecipients_def store_UpdateEmailBlastProgressWithSent_def
  by (rule wp_affected_or, rule wp_update_status(1) [OF assms(1)],
      (auto simp: assms live_blast_def blast_evolves_def split: if_splits)[4])+

section \<open>The handlers\<close>

lemma publishes_blasts: "moves publishes m \<Longrightarrow> moves (frame t_email_blasts) m"
  by (rule publishes_frame) simp_all

lemma reads_blasts: "moves tick m \<Longrightarrow> moves (frame t_email_blasts) m"
  by (rule tick_moves_frame) simp_all

text \<open>The edges the code takes, over its constants.\<close>

lemma paths:
  "status_path ''draft'' ''scheduled''"
  "status_path EmailBlastStatusDraft EmailBlastStatusProcessing"
  "status_path EmailBlastStatusScheduled EmailBlastStatusProcessing"
  "status_path EmailBlastStatusProcessing EmailBlastStatusDraft"
  "status_path EmailBlastStatusProcessing EmailBlastStatusSending"
  "status_path EmailBlastStatusProcessing EmailBlastStatusCompleted"
  "status_path EmailBlastStatusProcessing EmailBlastStatusPaused"
  "status_path EmailBlastStatusSending EmailBlastStatusPaused"
  "status_path EmailBlastStatusPaused EmailBlastStatusSending"
  "status_path EmailBlastStatusSending EmailBlastStatusCompleted"
  "status_path EmailBlastStatusProcessing EmailBlastStatusFailed"
  "status_path EmailBlastStatusSending EmailBlastStatusFailed"
  "st \<in> set cancellable \<Longrightarrow> status_path st EmailBlastStatusCancelled"
  by (rule r_into_rtranclp; auto simp: status_edge_code status_edges_def enums cancellable_def)+

abbreviation ends :: "world \<Rightarrow> (world, 'a) go \<Rightarrow> world \<Rightarrow> bool" where
  "ends w0 m \<equiv> wp m (\<lambda>x. started w0) (\<lambda>e. started w0)"

lemma wp_GetEmailBlast:
  assumes "started w0 w" "\<And>b w'. seen w0 i (eb_Status b) w' \<Longrightarrow> eb_ID b = i \<Longrightarrow> eb_AccountID b = a \<Longrightarrow> S b w'"
    "\<And>e w'. started w0 w' \<Longrightarrow> E e w'"
  shows "wp (GetEmailBlast a i) S E w"
  unfolding GetEmailBlast_def
proof (rule wp_bindI, rule wp_not_found_as, rule wp_get_blast [OF assms(1)])
  fix b :: EmailBlast and w' assume b: "seen w0 i (eb_Status b) w'" "eb_ID b = i"
  then show "wp (if eb_AccountID b \<noteq> a then eb_fail EB_ErrUnauthorized else retE b) S E w'"
    by (cases "eb_AccountID b = a") (simp_all add: assms(2,3) seen_started wp_retE wp_failE)
qed (rule assms(3))


text \<open>The calls that leave the table of blasts alone.\<close>

lemma blast_free:
  "moves (frame t_email_blasts) (DispatchBlastStarted a i)"
  "moves (frame t_email_blasts) (DispatchBlastBatchSend a i n)"
  "moves (frame t_email_blasts) (DispatchBlastCompleted a i)"
  by (rule publishes_blasts dispatch_publishes)+

lemma ends_UpdateEmailBlast: "started w w \<Longrightarrow> ends w (UpdateEmailBlast a i req) w"
  unfolding UpdateEmailBlast_def
  by (rule wp_rules wp_GetEmailBlast wp_store_UpdateEmailBlast | assumption | erule seen_started)+

lemma ends_DeleteEmailBlast: "started w w \<Longrightarrow> ends w (DeleteEmailBlast a i) w"
  unfolding DeleteEmailBlast_def
  by (rule wp_rules wp_GetEmailBlast wp_store_DeleteEmailBlast | assumption | erule seen_started)+

lemma ends_ScheduleBlast: "started w w \<Longrightarrow> ends w (ScheduleBlast a i t) w"
  unfolding ScheduleBlast_def
  by (rule wp_rules wp_GetEmailBlast wp_store_ScheduleBlast | assumption | erule seen_started | simp add: enums)+

lemma ends_PauseBlast: "started w w \<Longrightarrow> ends w (PauseBlast a i) w"
  unfolding PauseBlast_def
  by (rule wp_rules wp_GetEmailBlast wp_set_status | assumption | erule seen_started | auto intro: paths)+

lemma ends_CancelBlast: "started w w \<Longrightarrow> ends w (CancelBlast a i) w"
  unfolding CancelBlast_def
  by (rule wp_rules wp_GetEmailBlast wp_set_status | assumption | erule seen_started | auto intro: paths)+

lemma ends_ResumeBlast: "started w w \<Longrightarrow> ends w (ResumeBlast a i) w"
  unfolding ResumeBlast_def
  by (rule wp_rules wp_GetEmailBlast wp_set_status wp_apart [OF blast_free(2)] | assumption
      | erule seen_started | auto intro: paths)+

lemma ends_SendBlastNow: "started w w \<Longrightarrow> ends w (SendBlastNow a i) w"
  unfolding SendBlastNow_def
  by (rule wp_rules wp_GetEmailBlast wp_set_status [where st = EmailBlastStatusProcessing]
        wp_set_status [where st = EmailBlastStatusDraft and ?st0.0 = EmailBlastStatusProcessing]
        wp_apart [OF blast_free(1)] | assumption
      | erule seen_started | auto intro: paths)+

subsection \<open>Creating\<close>

lemma check_segment_reads [reads]: "moves tick (check_segment a i)"
  unfolding check_segment_def by (intro tick_rules reads)

lemma store_GetBlastEmailTemplateByID_reads [reads]: "moves tick (store_GetBlastEmailTemplateByID i)"
  unfolding store_GetBlastEmailTemplateByID_def by (intro tick_rules reads)

lemma wp_started_reads:
  "moves tick m \<Longrightarrow> started w0 w \<Longrightarrow> (\<And>x w'. started w0 w' \<Longrightarrow> S x w') \<Longrightarrow> (\<And>e w'. started w0 w' \<Longrightarrow> E e w') \<Longrightarrow>
   wp m S E w"
  by (rule wp_reads) (simp_all add: seen_cong(2) [OF blasts.get_tick])

lemma wp_store_CreateEmailBlast:
  assumes "started w0 w" "\<And>x w'. started w0 w' \<Longrightarrow> S x w'" "\<And>e w'. started w0 w' \<Longrightarrow> E e w'"
  shows "wp (store_CreateEmailBlast p) S E w"
  unfolding store_CreateEmailBlast_def
proof (rule wp_wrapI, rule wp_sql_insert)
  fix r w'
  assume k: "(if eb_ID r \<in> eb_ID ` set (fst email_blasts_tbl (ticked w))
      then Some ''duplicate key value violates unique constraint email_blasts_pkey'' else None) = None"
    and w': "w' = snd email_blasts_tbl (\<lambda>rows. rows @ [r]) ((ticked w)\<lparr>w_fresh := Suc (w_fresh w)\<rparr>)"
    and r: "r = \<lparr>eb_ID = w_uuids w (w_fresh w), eb_AccountID = cbp_AccountID p,
      eb_BlastTemplateID = cbp_BlastTemplateID p, eb_SegmentIDs = cbp_SegmentIDs p, eb_Name = cbp_Name p,
      eb_Subject = cbp_Subject p, eb_ScheduledAt = cbp_ScheduledAt p, eb_StartedAt = None, eb_CompletedAt = None,
      eb_Status = (if cbp_ScheduledAt p \<noteq> None then ''scheduled'' else ''draft''),
      eb_TotalRecipients = 0, eb_SentCount = 0, eb_DeliveredCount = 0, eb_OpenedCount = 0,
      eb_ClickedCount = 0, eb_BouncedCount = 0, eb_FailedCount = 0, eb_BatchSize = cbp_BatchSize p,
      eb_CurrentBatch = 0, eb_LastBatchAt = None, eb_ErrorMessage = None,
      eb_SendThrottlePerSecond = cbp_SendThrottlePerSecond p, eb_CreatedBy = cbp_CreatedBy p,
      eb_CreatedAt = w_now w, eb_UpdatedAt = w_now w, eb_DeletedAt = None\<rparr>"
  have "status_path ''draft'' (eb_Status r)" by (simp add: r paths)
  moreover have "eb_ID r \<notin> eb_ID ` set (t_email_blasts w)" using k by (auto split: if_splits)
  ultimately have "blasts_evolve (t_email_blasts w) (t_email_blasts w')"
    by (simp add: w' blasts_evolve_insert)
  then show "S r w'" by (intro assms(2) started_step [OF assms(1)])
next
  fix e n
  have "started w0 ((ticked w)\<lparr>w_fresh := n\<rparr>)"
    using assms(1) by (simp add: seen_cong(2) [where w' = "(ticked w)\<lparr>w_fresh := n\<rparr>" and w = w])
  then show "E (map_option (Wrap ''failed to create email blast'') e) ((ticked w)\<lparr>w_fresh := n\<rparr>)" by (rule assms(3))
qed

lemma ends_CreateEmailBlast: "started w w \<Longrightarrow> ends w (CreateEmailBlast a u req) w"
  unfolding CreateEmailBlast_def
  by (rule wp_rules wp_store_CreateEmailBlast | (rule wp_started_reads, (rule tick_rules reads)+) | assumption)+

subsection \<open>The worker\<close>

lemma parse_reads [reads]: "moves tick (parseBlastEventData ev)"
  unfolding parseBlastEventData_def by (intro tick_rules)

lemma mail_frame:
  assumes "\<And>w ms. f (w\<lparr>w_outbox := ms\<rparr>) = f w"
  shows "moves (frame f) (sendBlastEmail r b t)"
proof -
  have "moves (frame f) (mail_SendEmail to subject html)" for to subject html
    unfolding moves_def frame_def mail_SendEmail_def by (auto simp: assms split: option.split)
  then show ?thesis
    unfolding sendBlastEmail_def SendCustomTemplateEmail_def annotateE_def RenderCustomTemplate_def
    by (intro frame_rules) (auto intro: frame_rules split: option.split result.split)
qed

lemma recipient_status_frame:
  assumes "\<And>w n. f (w\<lparr>w_calls := n\<rparr>) = f w" "\<And>g w. f (t_blast_recipients_update g w) = f w"
  shows "moves (frame f) (store_UpdateBlastRecipientStatus r st l m)"
  unfolding store_UpdateBlastRecipientStatus_def by (intro frame_rules) (simp_all add: assms)

lemma recheck_reads [reads]: "moves tick (recheck i n k b)"
proof -
  have "moves tick (store_GetEmailBlastByID i)"
    unfolding store_GetEmailBlastByID_def by (intro tick_rules reads)
  then show ?thesis unfolding recheck_def by (intro tick_rules)
qed

lemma send_recipients_frame:
  assumes "\<And>w n. f (w\<lparr>w_calls := n\<rparr>) = f w" "\<And>g w. f (t_blast_recipients_update g w) = f w"
    "\<And>w ms. f (w\<lparr>w_outbox := ms\<rparr>) = f w"
  shows "moves (frame f) (send_recipients i n t rs b k)"
proof (induction rs arbitrary: b k)
  case (Cons r rs)
  have "moves (frame f) (recheck i n k b)" by (rule tick_moves_frame [OF recheck_reads]) (rule assms)
  then show ?case
    unfolding send_recipients.simps
    by (intro frame_rules mail_frame recipient_status_frame Cons.IH) (simp_all add: assms)
qed (simp add: frame.moves_retE)

lemma with_rollback_frame:
  assumes "\<And>w g. f (t_blast_recipients_update g w) = f w" "moves (frame f) m"
  shows "moves (frame f) (with_rollback m)"
  using assms unfolding moves_def frame_def with_rollback_def
  by (auto split: prod.splits result.splits) (metis snd_conv)+

lemma insert_recipient_frame:
  assumes "\<And>w n. f (w\<lparr>w_calls := n\<rparr>) = f w" "\<And>w n. f (w\<lparr>w_fresh := n\<rparr>) = f w"
    "\<And>g w. f (t_blast_recipients_update g w) = f w"
  shows "moves (frame f) (insert_recipient p)" "moves (frame f) tx_step"
  unfolding insert_recipient_def tx_step_def
  by (rule db_frame; simp add: Let_def assms split: option.split)+

lemma segment_blast_users_reads [reads]: "moves tick (segment_blast_users i)"
  unfolding segment_blast_users_def wrap_id_def uuid_string_def by (intro tick_rules reads)

lemma create_recipients_frame:
  assumes "\<And>w n. f (w\<lparr>w_calls := n\<rparr>) = f w" "\<And>w n. f (w\<lparr>w_fresh := n\<rparr>) = f w"
    "\<And>g w. f (t_blast_recipients_update g w) = f w"
  shows "moves (frame f) (store_CreateBlastRecipientsFromMultipleSegments i ss n)"
proof -
  have r: "moves (frame f) (segment_blast_users j)" for j
    by (rule tick_moves_frame [OF segment_blast_users_reads]) (rule assms)
  show ?thesis
    unfolding store_CreateBlastRecipientsFromMultipleSegments_def store_CreateBlastRecipientsBulk_def insert_users_def
    by (intro frame_rules r with_rollback_frame insert_recipient_frame) (auto simp: assms intro!: frame_rules insert_recipient_frame split: option.split)
qed

lemma wp_failBlast:
  assumes "seen w0 i st w" "status_path st EmailBlastStatusFailed" "\<And>e w'. started w0 w' \<Longrightarrow> E e w'"
  shows "wp (failBlast i e) S E w"
  unfolding failBlast_def
  by (rule wp_rules wp_set_status [OF assms(1,2)] | rule assms(3) | erule seen_started)+

lemma wp_or_fail:
  assumes "seen w0 i st0 w"
    "wp m (\<lambda>x. wp (k x) S E) (\<lambda>e w. \<exists>st. seen w0 i st w \<and> status_path st EmailBlastStatusFailed) w"
    "\<And>e w'. started w0 w' \<Longrightarrow> E e w'"
  shows "wp (or_fail i msg m k) S E w"
  unfolding or_fail_def
proof (rule wp_tryI, rule wp_mono [OF assms(2)])
  fix e w' assume "\<exists>st. seen w0 i st w' \<and> status_path st EmailBlastStatusFailed"
  then obtain st where "seen w0 i st w'" "status_path st EmailBlastStatusFailed" by blast
  then show "(case e of None \<Rightarrow> E None | Some e' \<Rightarrow> wp (failBlast i (Wrap msg e')) S E) w'"
    by (cases e) (auto intro!: assms(3) wp_failBlast elim: seen_started)
qed

lemma life_of_queries [reads]:
  "moves tick (store_GetBlastRecipientsByBatch i n)" "moves tick (store_CountBlastRecipientsByStatus i st)"
  unfolding store_GetBlastRecipientsByBatch_def store_CountBlastRecipientsByStatus_def
  by (intro tick_rules reads)+

lemma blast_free_calls:
  "moves (frame t_email_blasts) (store_CreateBlastRecipientsFromMultipleSegments i ss n)"
  "moves (frame t_email_blasts) (send_recipients i n t rs b k)"
  "moves (frame t_email_blasts) (checkBlastCompletion i a)"
  "moves (frame t_email_blasts) (store_GetBlastRecipientsByBatch i n)"
  "moves (frame t_email_blasts) (store_GetBlastEmailTemplateByID i)"
proof -
  have c: "moves (frame t_email_blasts) (store_CountBlastRecipientsByStatus i st)" for st
    by (rule reads_blasts) (rule reads)
  show "moves (frame t_email_blasts) (checkBlastCompletion i a)"
    unfolding checkBlastCompletion_def by (intro frame_rules c blast_free)
qed (rule create_recipients_frame send_recipients_frame | rule reads_blasts, rule reads | simp)+

lemmas blast_apart = blast_free blast_free_calls

text \<open>The edge to failed is open as long as the blast is in work.\<close>

lemma can_fail:
  "seen w0 i st w \<Longrightarrow> st = EmailBlastStatusProcessing \<or> st = EmailBlastStatusSending \<Longrightarrow>
   \<exists>st. seen w0 i st w \<and> status_path st EmailBlastStatusFailed"
  using paths(11,12) by blast

lemma ends_handleBlastStarted: "started w w \<Longrightarrow> ends w (handleBlastStarted ev) w"
  unfolding handleBlastStarted_def
  by (rule wp_rules wp_or_fail wp_set_status wp_store_progress wp_get_blast
       wp_apart [OF blast_apart(1)] wp_apart [OF blast_apart(2)] wp_apart [OF blast_apart(4)]
      | (rule wp_started_reads, rule reads) | assumption | erule seen_started | (erule can_fail; simp) | simp add: paths)+

lemma ends_handleBlastBatch: "started w w \<Longrightarrow> ends w (handleBlastBatch ev) w"
  unfolding handleBlastBatch_def
  by (rule wp_rules wp_or_fail wp_set_status wp_store_progress wp_get_blast
       wp_apart [OF blast_apart(5)] wp_apart [OF blast_apart(6)] wp_apart [OF blast_apart(7)]
       wp_apart [OF blast_apart(8)] wp_apart [OF blast_apart(2)]
      | (rule wp_started_reads, rule reads) | assumption | erule seen_started | (erule can_fail; simp) | simp add: paths)+

lemma ends_handleBlastCompleted: "started w w \<Longrightarrow> ends w (handleBlastCompleted ev) w"
  unfolding handleBlastCompleted_def
  by (rule wp_rules wp_set_status wp_get_blast | (rule wp_started_reads, rule reads)
      | assumption | erule seen_started | simp add: paths)+

lemma ends_blast_Process: "started w w \<Longrightarrow> ends w (blast_Process ev) w"
  unfolding blast_Process_def
  by (rule wp_rules ends_handleBlastStarted ends_handleBlastBatch ends_handleBlastCompleted | assumption)+

subsection \<open>The scheduler\<close>

text \<open>A set of blasts all still scheduled.\<close>

definition waiting :: "world \<Rightarrow> uuid set \<Rightarrow> world \<Rightarrow> bool" where
  "waiting w0 J w = (started w0 w \<and> (\<forall>j\<in>J. seen w0 j ''scheduled'' w))"

lemma waiting_cong: "t_email_blasts w' = t_email_blasts w \<Longrightarrow> waiting w0 J w' = waiting w0 J w"
  unfolding waiting_def using seen_cong [of w' w w0] by simp

lemma waiting_subset: "waiting w0 J w \<Longrightarrow> K \<subseteq> J \<Longrightarrow> waiting w0 K w"
  by (auto simp: waiting_def)

lemma seen_other:
  assumes "seen w0 j st w" "started w0 w'" "t_email_blasts w' = upd_where (live_blast i) f (t_email_blasts w)"
    "\<And>b. eb_ID (f b) = eb_ID b" "j \<noteq> i"
  shows "seen w0 j st w'"
proof -
  have "eb_Status b = st" if b: "b \<in> set (t_email_blasts w')" "live_blast j b" for b
  proof -
    obtain s where s: "s \<in> set (t_email_blasts w)" "b = (if live_blast i s then f s else s)"
      using b(1) unfolding assms(3) set_upd_where by blast
    then have "\<not> live_blast i s" using b(2) assms(4,5) by (cases "live_blast i s") (auto simp: live_blast_def)
    then show ?thesis using s b(2) assms(1) by (auto simp: seen_def)
  qed
  then show ?thesis using assms(2) by (simp add: seen_def started_def)
qed

lemma wp_set_status_waiting:
  assumes "seen w0 i st0 w" "status_path st0 st" "waiting w0 J w" "i \<notin> J"
    "\<And>b w'. seen w0 i st w' \<Longrightarrow> waiting w0 J w' \<Longrightarrow> S b w'"
    "\<And>e w'. waiting w0 J w' \<Longrightarrow> E e w'"
  shows "wp (store_UpdateEmailBlastStatus i st msg) S E w"
  unfolding store_UpdateEmailBlastStatus_def
proof (rule wp_row_or, rule wp_sql_update_returning)
  fix r w'
  let ?f = "set_status st msg (w_now (ticked w))"
  assume "w' = snd email_blasts_tbl (\<lambda>_. upd_where (live_blast i) ?f (fst email_blasts_tbl (ticked w))) (ticked w)"
  then have rows: "t_email_blasts w' = upd_where (live_blast i) ?f (t_email_blasts w)" by simp
  have i: "seen w0 i st w'"
    by (rule seen_update [OF assms(1) rows])
       (use assms(2) in \<open>auto simp: live_blast_def blast_evolves_def set_status_def split: if_splits\<close>)
  have "seen w0 j ''scheduled'' w'" if "j \<in> J" for j
    using that assms(3,4) by (intro seen_other [OF _ seen_started [OF i] rows]) (auto simp: waiting_def)
  then have "waiting w0 J w'" using seen_started [OF i] by (simp add: waiting_def)
  then show "S (?f r) w'" by (rule assms(5) [OF i])
next
  fix e
  have "waiting w0 J (ticked w)" using assms(3) by (simp add: waiting_def)
  then show "E (map_option (\<lambda>e'. if errors_Is e' ErrNoRows then ErrNotFound
      else Wrap ''failed to update email blast status'' e') e) (ticked w)" by (rule assms(6))
qed

lemma wp_waiting_apart:
  assumes "moves (frame t_email_blasts) m" "seen w0 i st w" "waiting w0 J w"
    "\<And>x w'. seen w0 i st w' \<Longrightarrow> waiting w0 J w' \<Longrightarrow> S x w'"
    "\<And>e w'. seen w0 i st w' \<Longrightarrow> waiting w0 J w' \<Longrightarrow> E e w'"
  shows "wp m S E w"
  by (rule wp_frame [OF assms(1)]) (simp_all add: assms(2-5) seen_cong waiting_cong)

lemma path_start: "status_path ''scheduled'' EmailBlastStatusProcessing"
  by (rule paths(3) [unfolded EmailBlastStatusScheduled_def])

lemma waiting_started: "waiting w0 J w \<Longrightarrow> started w0 w"
  by (simp add: waiting_def)

lemma wp_trigger:
  assumes "seen w0 (eb_ID b) ''scheduled'' w" "waiting w0 J w" "eb_ID b \<notin> J"
  shows "wp (trigger_blast b) (\<lambda>u. waiting w0 J) (\<lambda>e. started w0) w"
  unfolding trigger_blast_def
  by (rule wp_rules wp_set_status_waiting [OF assms(1) _ assms(2,3), where st = EmailBlastStatusProcessing]
        wp_set_status_waiting [where st = EmailBlastStatusFailed and ?st0.0 = EmailBlastStatusProcessing and J = J]
        wp_waiting_apart [OF blast_free(1)] | assumption | rule assms(3) path_start paths(11)
      | erule waiting_started)+

lemma ends_trigger_all:
  "distinct (map eb_ID bs) \<Longrightarrow> waiting w0 (eb_ID ` set bs) w \<Longrightarrow> ends w0 (forE bs trigger_blast) w"
proof (induction bs arbitrary: w)
  case Nil
  then show ?case by (simp add: wp_retE waiting_def)
next
  case (Cons b bs)
  have s: "seen w0 (eb_ID b) ''scheduled'' w" and J: "waiting w0 (eb_ID ` set bs) w" "eb_ID b \<notin> eb_ID ` set bs"
    using Cons.prems by (auto simp: waiting_def)
  have "wp (trigger_blast b) (\<lambda>u. ends w0 (forE bs trigger_blast)) (\<lambda>e. started w0) w"
    by (rule wp_mono [OF wp_trigger [OF s J]]) (use Cons in auto)
  then show ?case by (simp add: wp_bindE)
qed

lemma ends_checkScheduledBlasts:
  assumes "started w w"
  shows "ends w checkScheduledBlasts w"
  unfolding checkScheduledBlasts_def store_GetScheduledBlasts_def
proof (rule wp_bindI, rule wp_getE, rule wp_tryI, rule wp_wrapI, rule wp_sql_query)
  fix w' assume t: "tick w w'"
  let ?bs = "sort_Slice (\<lambda>a b. the (eb_ScheduledAt a) < the (eb_ScheduledAt b))
      (filter (due (w_now w)) (t_email_blasts (ticked w)))"
  have d: "distinct (map eb_ID (t_email_blasts w))" using assms by (simp add: started_def)
  then have "distinct (map eb_ID ?bs)" by (simp add: distinct_map_filter)
  moreover have "seen w (eb_ID b) ''scheduled'' w'" if "b \<in> set ?bs" for b
  proof -
    have b: "b \<in> set (t_email_blasts w)" "eb_Status b = ''scheduled''" "eb_DeletedAt b = None"
      using that by (auto simp: due_def)
    have "eb_Status c = ''scheduled''" if "c \<in> set (t_email_blasts w)" "live_blast (eb_ID b) c" for c
      using distinct_key [OF d that(1) b(1)] that(2) b(2) by (simp add: live_blast_def)
    then show ?thesis using assms unfolding seen_cong(1) [OF blasts.get_tick [OF t]] by (simp add: seen_def started_def)
  qed
  ultimately show "ends w (forE ?bs trigger_blast) w'"
    using assms by (intro ends_trigger_all) (auto simp: waiting_def seen_cong(2) [OF blasts.get_tick [OF t]])
next
  fix e w' assume "tick w w'"
  then have "started w w'" using assms by (simp add: seen_cong(2) [OF blasts.get_tick])
  then show "(case map_option (Wrap ''failed to get scheduled blasts'') e of None \<Rightarrow> started w
      | Some e' \<Rightarrow> ends w (retE ())) w'"
    by (auto intro: wp_retE split: option.split)
qed

section \<open>The system\<close>

text \<open>What other components may do between two steps of this one: they leave blasts and recipients
  alone and publish no blast event.\<close>

definition elsewhere :: "world \<Rightarrow> world \<Rightarrow> bool" where
  "elsewhere w w' = (t_email_blasts w' = t_email_blasts w \<and> t_blast_recipients w' = t_blast_recipients w \<and>
     (\<exists>evs. w_queue w' = w_queue w @ evs \<and>
        (\<forall>ev\<in>set evs. em_Type ev \<notin> {EventBlastStarted, EventBlastBatchSend, EventBlastCompleted})) \<and>
     w_uuid_String w' = w_uuid_String w \<and> w_uuid_Parse w' = w_uuid_Parse w)"

inductive blast_step :: "world \<Rightarrow> world \<Rightarrow> bool" where
  create: "blast_step w (snd (CreateEmailBlast a u creq w))"
| update: "blast_step w (snd (UpdateEmailBlast a i ureq w))"
| delete: "blast_step w (snd (DeleteEmailBlast a i w))"
| schedule: "blast_step w (snd (ScheduleBlast a i t w))"
| send_now: "blast_step w (snd (SendBlastNow a i w))"
| pause: "blast_step w (snd (PauseBlast a i w))"
| resume: "blast_step w (snd (ResumeBlast a i w))"
| cancel: "blast_step w (snd (CancelBlast a i w))"
| deliver: "ev \<in> set (w_queue w) \<Longrightarrow> blast_step w (snd (blast_Process ev w))"
| scheduler: "blast_step w (snd (checkScheduledBlasts w))"
| elsewhere: "elsewhere w w' \<Longrightarrow> blast_step w w'"

inductive_cases blast_stepE: "blast_step w w'"

lemma ends_evolve: "ends w m w \<Longrightarrow> blasts_evolve (t_email_blasts w) (t_email_blasts (snd (m w)))"
  by (drule wpD) (simp add: started_def life.rel_def)

lemma step_evolves:
  assumes "blast_step w w'" "distinct (map eb_ID (t_email_blasts w))"
  shows "blasts_evolve (t_email_blasts w) (t_email_blasts w')"
  using assms(1)
proof cases
  case elsewhere
  then show ?thesis by (simp add: elsewhere_def blasts_evolve_refl)
qed (simp_all only:, (rule ends_evolve, rule ends_CreateEmailBlast ends_UpdateEmailBlast ends_DeleteEmailBlast
    ends_ScheduleBlast ends_SendBlastNow ends_PauseBlast ends_ResumeBlast ends_CancelBlast
    ends_blast_Process ends_checkScheduledBlasts, rule started_refl, rule assms(2))+)

lemma run_evolves:
  assumes "blast_step\<^sup>*\<^sup>* w0 w" "distinct (map eb_ID (t_email_blasts w0))"
  shows "blasts_evolve (t_email_blasts w0) (t_email_blasts w)"
  using assms(1)
proof (induction rule: rtranclp_induct)
  case (step v w)
  then have "distinct (map eb_ID (t_email_blasts v))" using assms(2) unfolding blasts_evolve_def by blast
  then show ?case using blasts_evolve_trans [OF step.IH step_evolves [OF step.hyps(2)]] by blast
qed (rule blasts_evolve_refl)

definition sample_blast :: "uuid \<Rightarrow> string \<Rightarrow> EmailBlast" where
  "sample_blast i st = \<lparr>eb_ID = i, eb_AccountID = 1, eb_BlastTemplateID = 41, eb_SegmentIDs = [31],
     eb_Name = ''news'', eb_Subject = ''hello'', eb_ScheduledAt = None, eb_StartedAt = None,
     eb_CompletedAt = None, eb_Status = st, eb_TotalRecipients = 0, eb_SentCount = 0,
     eb_DeliveredCount = 0, eb_OpenedCount = 0, eb_ClickedCount = 0, eb_BouncedCount = 0,
     eb_FailedCount = 0, eb_BatchSize = 1, eb_CurrentBatch = 0, eb_LastBatchAt = None,
     eb_ErrorMessage = None, eb_SendThrottlePerSecond = None, eb_CreatedBy = None, eb_CreatedAt = 0,
     eb_UpdatedAt = 0, eb_DeletedAt = None\<rparr>"

definition blast_world :: world where
  "blast_world = sample_world\<lparr>
     t_segments := [\<lparr>sg_ID = 31, sg_CampaignID = 10, sg_Name = ''all'', sg_Description = None,
       sg_FilterCriteria = Some [], sg_CachedUserCount = 0, sg_CachedAt = None, sg_Status = ''active'',
       sg_CreatedAt = 0, sg_UpdatedAt = 0, sg_DeletedAt = None\<rparr>],
     t_blast_templates := [\<lparr>bt_ID = 41, bt_AccountID = 1, bt_Name = ''t'', bt_Subject = ''s'',
       bt_HTMLBody = ''<p>hi</p>'', bt_BlocksJSON = None, bt_CreatedAt = 0, bt_UpdatedAt = 0, bt_DeletedAt = None\<rparr>],
     t_email_blasts := [sample_blast 51 ''draft'', sample_blast 52 ''cancelled'']\<rparr>"

text \<open>C14: however handler calls, deliveries of events (in any order, repeated or not), scheduler
  runs and failures interleave, every blast keeps its row, its status only follows the edges of
  the life cycle, and a completed, cancelled or failed blast stays so; ids stay unique.\<close>

theorem blast_life_cycle:
  assumes "blast_step\<^sup>*\<^sup>* w0 w" "distinct (map eb_ID (t_email_blasts w0))" "b \<in> set (t_email_blasts w0)"
  shows "distinct (map eb_ID (t_email_blasts w)) \<and>
    (\<exists>b'\<in>set (t_email_blasts w). eb_ID b' = eb_ID b \<and> eb_AccountID b' = eb_AccountID b \<and>
       status_path (eb_Status b) (eb_Status b') \<and>
       (eb_Status b \<in> {''completed'', ''cancelled'', ''failed''} \<longrightarrow> eb_Status b' = eb_Status b))"
proof -
  obtain old new where r: "distinct (map eb_ID (t_email_blasts w))" "t_email_blasts w = old @ new"
    "list_all2 blast_evolves (t_email_blasts w0) old"
    using run_evolves [OF assms(1,2)] assms(2) unfolding blasts_evolve_def by blast
  obtain k where "k < length (t_email_blasts w0)" "b = t_email_blasts w0 ! k"
    using assms(3) by (metis in_set_conv_nth)
  then have "old ! k \<in> set (t_email_blasts w)" "blast_evolves b (old ! k)"
    using r(2,3) by (auto simp: list_all2_conv_all_nth)
  then show ?thesis using r(1) terminal_path by (auto simp: blast_evolves_def intro!: bexI [of _ "old ! k"])
qed

theorem blast_life_cycle_witness:
  "\<exists>b'\<in>set (t_email_blasts (snd (CancelBlast 1 52 (snd (SendBlastNow 1 51 blast_world))))).
     eb_ID b' = 52 \<and> eb_Status b' = ''cancelled''"
proof -
  have "blast_step\<^sup>*\<^sup>* blast_world (snd (CancelBlast 1 52 (snd (SendBlastNow 1 51 blast_world))))"
    by (rule rtranclp.rtrancl_into_rtrancl [OF r_into_rtranclp]) (rule blast_step.send_now blast_step.cancel)+
  moreover have "distinct (map eb_ID (t_email_blasts blast_world))"
    by (simp add: blast_world_def sample_blast_def)
  moreover have "sample_blast 52 ''cancelled'' \<in> set (t_email_blasts blast_world)"
    by (simp add: blast_world_def)
  ultimately show ?thesis
    using blast_life_cycle [of blast_world _ "sample_blast 52 ''cancelled''"] by (fastforce simp: sample_blast_def)
qed

end
