(* ===== verification/BlastBatches.thy ===== *)
theory BlastBatches
  imports BlastLife
begin

text \<open>
  The batches of a blast. Recipients are numbered from batch 0, while the worker dispatches
  batches from 1 on: an invariant of the system steps of theory BlastLife shows that no recipient
  of batch 0 ever leaves the status pending, and that a blast with recipients never completes.
\<close>

section \<open>Batch numbers on the topic\<close>

lemma bit_length_lower: "0 < n \<Longrightarrow> 2 ^ (bit_length n - 1) \<le> n"
proof (induction n rule: bit_length.induct)
  case (1 n)
  show ?case
  proof (cases "n div 2 = 0")
    case False
    then have "2 ^ (bit_length (n div 2) - 1) \<le> n div 2" using 1 by simp
    moreover have "0 < bit_length (n div 2)" using False by (simp add: bit_length.simps [of "n div 2"])
    ultimately show ?thesis using 1(2) by (cases "bit_length (n div 2)") (auto simp: bit_length.simps [of n])
  qed (use 1 in \<open>simp add: bit_length.simps\<close>)
qed

lemma float64_of_int_pos: "1 \<le> i \<Longrightarrow> 1 \<le> float_to_int (float64_of_int i)"
proof -
  assume i: "1 \<le> i"
  define n where "n = nat \<bar>i\<bar>"
  define e where "e = bit_length n - 53"
  define m where "m = (if e = 0 then n else round_bits e n)"
  have n: "0 < n" using i by (simp add: n_def)
  have "1 \<le> m"
  proof (cases "e = 0")
    case False
    have "(2::nat) ^ e \<le> 2 ^ (bit_length n - 1)" using False by (intro power_increasing) (auto simp: e_def)
    then have "2 ^ e \<le> n" using bit_length_lower [OF n] by linarith
    then have "1 \<le> n div 2 ^ e" by (simp add: Suc_le_eq div_greater_zero_iff)
    then have "1 \<le> round_bits e n" by (auto simp: round_bits_def Let_def)
    then show ?thesis using False by (simp add: m_def)
  qed (use n in \<open>simp add: m_def\<close>)
  moreover have "float64_of_int i = of_int (int m)"
    using i by (simp add: float64_of_int_def Let_def n_def e_def m_def)
  ultimately show ?thesis by (simp only: float_to_int_of_int)
qed

section \<open>The invariant\<close>

text \<open>A batch message of the topic never names batch 0, a blast never records a negative batch,
  recipient ids are unique, the recipients of batch 0 are pending, and a blast with recipients has
  one of batch 0.\<close>

definition batch_messages_ok :: "EventMessage list \<Rightarrow> bool" where
  "batch_messages_ok evs = (\<forall>ev\<in>set evs. em_Type ev = EventBlastBatchSend \<longrightarrow> 1 \<le> batch_number ev)"

definition first_of :: "uuid \<Rightarrow> BlastRecipient list \<Rightarrow> bool" where
  "first_of i rs = (\<exists>s\<in>set rs. br_BlastID s = i \<and> br_BatchNumber s = Some 0)"

lemma first_of_map: "first_of i rs = ((i, Some 0) \<in> set (map (\<lambda>s. (br_BlastID s, br_BatchNumber s)) rs))"
  by (force simp: first_of_def)

lemma first_of_snoc: "first_of i (rs @ [r]) = (first_of i rs \<or> br_BlastID r = i \<and> br_BatchNumber r = Some 0)"
  by (auto simp: first_of_def)

definition first_batch_pending :: "BlastRecipient list \<Rightarrow> bool" where
  "first_batch_pending rs =
     (distinct (map br_ID rs) \<and> (\<forall>r\<in>set rs. br_BatchNumber r = Some 0 \<longrightarrow> br_Status r = ''pending'') \<and>
      (\<forall>r\<in>set rs. first_of (br_BlastID r) rs))"

definition batches_inv :: "world \<Rightarrow> bool" where
  "batches_inv w = (batch_messages_ok (w_queue w) \<and> first_batch_pending (t_blast_recipients w) \<and>
     (\<forall>b\<in>set (t_email_blasts w). 0 \<le> eb_CurrentBatch b))"

abbreviation inv_holds :: "(world, 'a) go \<Rightarrow> bool" where
  "inv_holds m \<equiv> moves (keeps batches_inv) m"

lemma inv_cong:
  "w_queue w' = w_queue w \<Longrightarrow> t_blast_recipients w' = t_blast_recipients w \<Longrightarrow>
   t_email_blasts w' = t_email_blasts w \<Longrightarrow> batches_inv w' = batches_inv w"
  by (simp add: batches_inv_def)

lemma inv_ticked [simp]: "batches_inv (ticked w) = batches_inv w"
  by (rule inv_cong) simp_all

lemma inv_reads: "moves tick m \<Longrightarrow> inv_holds m"
  unfolding moves_def keeps_def
proof (intro allI impI)
  fix w assume "\<forall>s. tick s (snd (m s))" "batches_inv w"
  then obtain n where "snd (m w) = w\<lparr>w_calls := n\<rparr>" unfolding tick_def by blast
  then show "batches_inv (snd (m w))" using \<open>batches_inv w\<close> by (simp add: batches_inv_def)
qed

lemma wp_inv:
  assumes "inv_holds m" "batches_inv w" "\<And>x w'. batches_inv w' \<Longrightarrow> S x w'" "\<And>e w'. batches_inv w' \<Longrightarrow> E e w'"
  shows "wp m S E w"
  by (rule wp_moves [OF assms(1)]) (use assms(2-4) in \<open>simp_all add: keeps_def\<close>)

lemma inv_of_wp: "(\<And>w. batches_inv w \<Longrightarrow> wp m (\<lambda>x. batches_inv) (\<lambda>e. batches_inv) w) \<Longrightarrow> inv_holds m"
  unfolding moves_def keeps_def by (intro allI impI) (rule wpD)

text \<open>Updates of a blast that do not lower its batch below 0.\<close>

lemma inv_update_blasts:
  assumes "\<And>w b. 0 \<le> eb_CurrentBatch b \<Longrightarrow> 0 \<le> eb_CurrentBatch (f w b)"
  shows "inv_holds (sql_update email_blasts_tbl chk P f)"
    "inv_holds (sql_update_returning email_blasts_tbl chk P f)"
proof -
  have u: "batches_inv (w\<lparr>t_email_blasts := upd_where P (f v) (t_email_blasts w)\<rparr>)" if "batches_inv w" for v w
    using that assms by (auto simp: batches_inv_def set_upd_where)
  show "inv_holds (sql_update email_blasts_tbl chk P f)"
    by (rule inv_of_wp, rule wp_sql_update)
       (use u in \<open>auto simp: batches_inv_def set_upd_where assms\<close>)
  show "inv_holds (sql_update_returning email_blasts_tbl chk P f)"
    by (rule inv_of_wp, rule wp_sql_update_returning)
       (use u in \<open>auto simp: batches_inv_def set_upd_where assms\<close>)
qed

lemmas keeps_rules = keeps.moves_combinators moves_intros

lemma inv_row_or: "inv_holds m \<Longrightarrow> inv_holds (row_or msg m)"
  unfolding row_or_def by (intro keeps_rules)

lemma inv_affected_or: "inv_holds m \<Longrightarrow> inv_holds (affected_or msg m)"
  unfolding affected_or_def by (intro keeps_rules)

lemma inv_not_found_as: "inv_holds m \<Longrightarrow> inv_holds (not_found_as s m)"
  unfolding not_found_as_def by (intro keeps_rules)

lemma inv_blast_store:
  "inv_holds (store_UpdateEmailBlastStatus i st msg)" "inv_holds (store_UpdateEmailBlast i p)"
  "inv_holds (store_DeleteEmailBlast i)" "inv_holds (store_ScheduleBlast i t)"
  "inv_holds (store_UpdateEmailBlastTotalRecipients i n)"
  "0 \<le> k \<Longrightarrow> inv_holds (store_UpdateEmailBlastProgressWithSent i n k)"
  unfolding store_UpdateEmailBlastStatus_def store_UpdateEmailBlast_def store_DeleteEmailBlast_def
    store_ScheduleBlast_def store_UpdateEmailBlastTotalRecipients_def store_UpdateEmailBlastProgressWithSent_def
  by (rule inv_row_or inv_affected_or inv_update_blasts | simp)+

lemma inv_create: "inv_holds (store_CreateEmailBlast p)"
  unfolding store_CreateEmailBlast_def
  by (rule keeps_rules, rule inv_of_wp, rule wp_sql_insert) (auto simp: batches_inv_def)

text \<open>Publishing.\<close>

lemma inv_publish:
  assumes "t = EventBlastBatchSend \<Longrightarrow> \<exists>n. 1 \<le> n \<and> map_of d ''batch_number'' = Some (JInt n)"
  shows "inv_holds (PublishEvent a c t d)"
proof -
  have "batch_messages_ok (evs @ [\<lparr>em_ID = x, em_Type = t, em_AccountID = y, em_CampaignID = z,
      em_Data = Some (json_trip_map d), em_Timestamp = s\<rparr>])" if "batch_messages_ok evs" for evs x y z s
    using that assms float64_of_int_pos
    by (auto simp: batch_messages_ok_def batch_number_def jget_def jmap_def map_of_json_trip)
  then show ?thesis
    unfolding moves_def keeps_def PublishEvent_cases by (auto simp: Let_def batches_inv_def split: option.split)
qed

lemma inv_dispatch:
  "inv_holds (DispatchBlastStarted a i)" "inv_holds (DispatchBlastCompleted a i)"
  "1 \<le> n \<Longrightarrow> inv_holds (DispatchBlastBatchSend a i n)"
  unfolding DispatchBlastStarted_def DispatchBlastCompleted_def DispatchBlastBatchSend_def uuid_string_def
  by (intro keeps_rules inv_publish; simp add: enums)+

text \<open>Recipients: an insert adds a pending row with a fresh id, of batch 0 unless the blast has
  recipients; a rollback restores the old rows.\<close>

definition has_recipient :: "uuid \<Rightarrow> world \<Rightarrow> bool" where
  "has_recipient i w = (\<exists>r\<in>set (t_blast_recipients w). br_BlastID r = i)"

lemma inv_add_recipient:
  assumes "batches_inv w" "x \<notin> br_ID ` set (t_blast_recipients w)"
    "crp_BatchNumber p = Some 0 \<or> has_recipient (crp_BlastID p) w"
  shows "batches_inv (w\<lparr>w_calls := k, w_fresh := n,
    t_blast_recipients := t_blast_recipients w @ [new_recipient p x t]\<rparr>)"
  using assms by (fastforce simp: batches_inv_def first_batch_pending_def new_recipient_def enums has_recipient_def first_of_snoc)

lemma wp_insert_recipient:
  assumes "batches_inv w" "crp_BatchNumber p = Some 0 \<or> has_recipient (crp_BlastID p) w"
  shows "wp (insert_recipient p) (\<lambda>u w'. batches_inv w' \<and> has_recipient (crp_BlastID p) w') (\<lambda>e. batches_inv) w"
proof -
  have "batches_inv (w\<lparr>w_calls := k, w_fresh := n\<rparr>)" "batches_inv (w\<lparr>w_calls := k\<rparr>)" for k n
    using assms(1) by (simp_all add: batches_inv_def)
  moreover note inv_add_recipient [OF assms(1) _ assms(2)]
  ultimately show ?thesis
    unfolding wp_def insert_recipient_def db_def
    by (auto simp: Let_def recipient_key_check_def has_recipient_def same_recipient_def new_recipient_def
        split: option.split)
qed

lemma inv_tx_step: "inv_holds tx_step"
  unfolding moves_def keeps_def tx_step_def db_def by (auto simp: Let_def batches_inv_def split: option.split)

lemma inv_insert_users:
  assumes "1 \<le> n"
  shows "inv_holds (insert_users i n (enumerate 0 us))"
proof (cases us)
  case Nil
  then show ?thesis by (simp add: insert_users_def keeps_rules)
next
  case (Cons u vs)
  let ?I = "\<lambda>w. batches_inv w \<and> has_recipient i w"
  let ?f = "\<lambda>(k, user). case go_quot (int k) n of None \<Rightarrow> panicE ''integer divide by zero''
     | Some batchNumber \<Rightarrow> wrapE ''failed to insert blast recipient''
         (insert_recipient \<lparr>crp_BlastID = i, crp_UserID = wu_ID user, crp_Email = wu_Email user,
            crp_BatchNumber = Some batchNumber\<rparr>)"
  have step: "wp (?f (k, user)) (\<lambda>u. ?I) (\<lambda>e. batches_inv) w" if "batches_inv w" "k = 0 \<or> has_recipient i w" for k user w
    using assms that wp_insert_recipient [of w "\<lparr>crp_BlastID = i, crp_UserID = wu_ID user, crp_Email = wu_Email user,
        crp_BatchNumber = Some (int k div n)\<rparr>"]
    by (auto simp: go_quot_pos intro: wp_wrapI)
  show ?thesis
    unfolding Cons insert_users_def
  proof (rule inv_of_wp)
    fix w assume w: "batches_inv w"
    have "wp (forE (enumerate 1 vs) ?f) (\<lambda>u. batches_inv) (\<lambda>e. batches_inv) v" if "?I v" for v
      by (rule wp_forE [where I = ?I, OF that]) (use step in fastforce)+
    then show "wp (forE (enumerate 0 (u # vs)) ?f) (\<lambda>u. batches_inv) (\<lambda>e. batches_inv) w"
      using wp_mono [OF step [OF w, of 0 u]] by (simp add: wp_bindE)
  qed
qed

lemma inv_with_rollback:
  assumes "inv_holds m"
  shows "inv_holds (with_rollback m)"
  unfolding moves_def keeps_def
proof (intro allI impI)
  fix w assume w: "batches_inv w"
  obtain r w' where m: "m w = (r, w')" by fastforce
  have "batches_inv w'" using assms w m unfolding moves_def keeps_def by (metis snd_conv)
  then have "batches_inv (w'\<lparr>t_blast_recipients := t_blast_recipients w\<rparr>)"
    using w by (simp add: batches_inv_def)
  then show "batches_inv (snd (with_rollback m w))"
    using \<open>batches_inv w'\<close> by (cases r) (simp_all add: with_rollback_def m)
qed

lemma inv_create_recipients:
  "1 \<le> n \<Longrightarrow> inv_holds (store_CreateBlastRecipientsFromMultipleSegments i ss n)"
  unfolding store_CreateBlastRecipientsFromMultipleSegments_def store_CreateBlastRecipientsBulk_def
  by (intro keeps_rules inv_with_rollback inv_insert_users inv_tx_step inv_reads [OF segment_blast_users_reads])

section \<open>The handlers keep it\<close>

lemma inv_GetEmailBlast: "inv_holds (GetEmailBlast a i)"
proof -
  have "moves tick (store_GetEmailBlastByID i)" unfolding store_GetEmailBlastByID_def by (intro tick_rules reads)
  then have "moves tick (GetEmailBlast a i)" unfolding GetEmailBlast_def by (intro tick_rules reads)
  then show ?thesis by (rule inv_reads)
qed

lemma store_GetEmailBlastByID_reads [reads]: "moves tick (store_GetEmailBlastByID i)"
  unfolding store_GetEmailBlastByID_def by (intro tick_rules reads)

lemma inv_owner_handlers:
  "inv_holds (UpdateEmailBlast a i ureq)" "inv_holds (DeleteEmailBlast a i)" "inv_holds (ScheduleBlast a i t)"
  "inv_holds (PauseBlast a i)" "inv_holds (CancelBlast a i)" "inv_holds (SendBlastNow a i)"
  unfolding UpdateEmailBlast_def DeleteEmailBlast_def ScheduleBlast_def PauseBlast_def CancelBlast_def SendBlastNow_def
  by (rule keeps_rules inv_GetEmailBlast inv_not_found_as inv_blast_store inv_dispatch)+

lemma inv_CreateEmailBlast: "inv_holds (CreateEmailBlast a u req)"
  unfolding CreateEmailBlast_def
  by (rule inv_create | rule keeps_rules | (rule inv_reads, (rule tick_rules reads)+))+

lemma inv_scheduler: "inv_holds checkScheduledBlasts"
  unfolding checkScheduledBlasts_def trigger_blast_def store_GetScheduledBlasts_def
  by (rule inv_blast_store inv_dispatch | rule keeps_rules | (rule inv_reads, (rule tick_rules reads)+))+

text \<open>Resuming publishes the batch after the recorded one, which is at least batch 1.\<close>

lemma inv_ResumeBlast: "inv_holds (ResumeBlast a i)"
proof (rule inv_of_wp)
  fix w assume w: "batches_inv w"
  have *: "wp (GetEmailBlast a i) (\<lambda>b w'. batches_inv w' \<and> 0 \<le> eb_CurrentBatch b) (\<lambda>e. batches_inv) w"
    unfolding GetEmailBlast_def
  proof (rule wp_bindI, rule wp_not_found_as)
    show "wp (store_GetEmailBlastByID i) (\<lambda>x. wp (if eb_AccountID x \<noteq> a then eb_fail EB_ErrUnauthorized else retE x)
        (\<lambda>b w'. batches_inv w' \<and> 0 \<le> eb_CurrentBatch b) (\<lambda>e. batches_inv)) (\<lambda>e. batches_inv) w"
      unfolding store_GetEmailBlastByID_def
    proof (rule wp_row_or, rule wp_sql_get)
      fix b :: EmailBlast and w' assume t: "tick w w'" and b: "b \<in> set (filter (live_blast i) (t_email_blasts (ticked w)))"
      have "batches_inv w'" using w t by (auto simp: tick_def batches_inv_def)
      moreover have "0 \<le> eb_CurrentBatch b" using w b by (auto simp: batches_inv_def)
      ultimately show "wp (if eb_AccountID b \<noteq> a then eb_fail EB_ErrUnauthorized else retE b)
          (\<lambda>b w'. batches_inv w' \<and> 0 \<le> eb_CurrentBatch b) (\<lambda>e. batches_inv) w'"
        by (simp add: wp_failE wp_retE)
    next
      fix e w' assume "tick w w'"
      then show "batches_inv w'" using w by (auto simp: tick_def batches_inv_def)
    qed
  qed
  show "wp (ResumeBlast a i) (\<lambda>x. batches_inv) (\<lambda>e. batches_inv) w"
    unfolding ResumeBlast_def
  proof (rule wp_bindI, rule wp_mono [OF *])
    fix b w' assume b: "batches_inv w' \<and> 0 \<le> eb_CurrentBatch b"
    have "inv_holds (DispatchBlastBatchSend a i (eb_CurrentBatch b + 1))" using b by (intro inv_dispatch) simp
    then have "inv_holds (if eb_Status b \<noteq> EmailBlastStatusPaused then eb_fail EB_ErrBlastCannotResume
        else bindE (store_UpdateEmailBlastStatus i EmailBlastStatusSending None) (\<lambda>blast.
          bindE (logE (DispatchBlastBatchSend a i (eb_CurrentBatch b + 1))) (\<lambda>u. retE blast)))"
      by (intro keeps_rules inv_blast_store)
    then show "wp (if eb_Status b \<noteq> EmailBlastStatusPaused then eb_fail EB_ErrBlastCannotResume
        else bindE (store_UpdateEmailBlastStatus i EmailBlastStatusSending None) (\<lambda>blast.
          bindE (logE (DispatchBlastBatchSend a i (eb_CurrentBatch b + 1))) (\<lambda>u. retE blast)))
        (\<lambda>x. batches_inv) (\<lambda>e. batches_inv) w'"
      using b by (intro wp_inv) auto
  qed
qed

subsection \<open>The worker\<close>

lemma inv_failBlast: "inv_holds (failBlast i e)"
  unfolding failBlast_def by (intro keeps_rules inv_blast_store)

lemma inv_or_fail: "inv_holds m \<Longrightarrow> (\<And>x. inv_holds (k x)) \<Longrightarrow> inv_holds (or_fail i msg m k)"
  unfolding or_fail_def by (intro keeps_rules inv_failBlast)

lemma inv_checkBlastCompletion: "inv_holds (checkBlastCompletion i a)"
  unfolding checkBlastCompletion_def
  by (rule keeps_rules inv_dispatch | rule inv_reads, rule reads)+

lemma inv_handleBlastStarted: "inv_holds (handleBlastStarted ev)"
  unfolding handleBlastStarted_def
  by (rule inv_or_fail inv_blast_store inv_create_recipients inv_dispatch | rule keeps_rules
      | (rule inv_reads, rule reads) | simp add: default_batch_size_def)+

lemma inv_handleBlastCompleted: "inv_holds (handleBlastCompleted ev)"
  unfolding handleBlastCompleted_def
  by (rule inv_blast_store | rule keeps_rules | rule inv_reads, rule reads)+

text \<open>Inside a batch: none of the recipients still to come has a row in batch 0.\<close>

definition later_batch :: "BlastRecipient list \<Rightarrow> world \<Rightarrow> bool" where
  "later_batch rs w = (batches_inv w \<and> (\<forall>r\<in>set rs. \<forall>s\<in>set (t_blast_recipients w).
     br_ID s = br_ID r \<longrightarrow> br_BatchNumber s \<noteq> Some 0))"

lemma later_batch_inv: "later_batch rs w \<Longrightarrow> batches_inv w"
  by (simp add: later_batch_def)

lemma later_batch_Cons: "later_batch (r # rs) w \<Longrightarrow> later_batch rs w"
  by (simp add: later_batch_def)

lemma later_batch_tick: "tick w w' \<Longrightarrow> later_batch rs w \<Longrightarrow> later_batch rs w'"
  by (auto simp: later_batch_def tick_def batches_inv_def)

lemma set_recipient_status_simps [simp]:
  "br_ID (set_recipient_status st l m t r) = br_ID r"
  "br_BatchNumber (set_recipient_status st l m t r) = br_BatchNumber r"
  "br_BlastID (set_recipient_status st l m t r) = br_BlastID r"
  "br_Email (set_recipient_status st l m t r) = br_Email r"
  "br_Status (set_recipient_status st l m t r) = st"
  "br_CreatedAt (set_recipient_status st l m t r) = br_CreatedAt r"
  by (simp_all add: set_recipient_status_def)

lemma set_recipient_status_if [simp]:
  "br_ID (if c then set_recipient_status st l m t r else r) = br_ID r"
  "br_BatchNumber (if c then set_recipient_status st l m t r else r) = br_BatchNumber r"
  by simp_all

lemma wp_recipient_status:
  assumes "later_batch (r # rs) w" "\<And>x w'. later_batch (r # rs) w' \<Longrightarrow> S x w'" "\<And>e w'. later_batch (r # rs) w' \<Longrightarrow> E e w'"
  shows "wp (store_UpdateBlastRecipientStatus (br_ID r) st l m) S E w"
  unfolding store_UpdateBlastRecipientStatus_def
proof (rule wp_affected_or, rule wp_sql_update)
  fix w'
  let ?f = "set_recipient_status st l m (w_now (ticked w))"
  assume w': "w' = snd blast_recipients_tbl (\<lambda>_. upd_where (\<lambda>s. br_ID s = br_ID r) ?f
      (fst blast_recipients_tbl (ticked w))) (ticked w)"
  have "map br_ID (upd_where (\<lambda>s. br_ID s = br_ID r) ?f (t_blast_recipients w)) = map br_ID (t_blast_recipients w)"
    by (rule map_upd_where) simp
  moreover have "first_of i (upd_where (\<lambda>s. br_ID s = br_ID r) ?f (t_blast_recipients w)) = first_of i (t_blast_recipients w)" for i
    unfolding first_of_map by (subst map_upd_where) simp_all
  ultimately have "later_batch (r # rs) w'"
    using assms(1) by (auto simp: later_batch_def batches_inv_def first_batch_pending_def w' set_upd_where)
  then show "if int (length (filter (\<lambda>s. br_ID s = br_ID r) (fst blast_recipients_tbl (ticked w)))) = 0
      then E (Some ErrNotFound) w' else S () w'"
    using assms(2,3) by simp
next
  fix e
  have "later_batch (r # rs) (ticked w)" using later_batch_tick [OF tick_ticked assms(1)] .
  then show "E (map_option (Wrap ''failed to update blast recipient status'') e) (ticked w)" by (rule assms(3))
qed

lemma sendBlastEmail_later:
  assumes "later_batch rs w" "\<And>x w'. later_batch rs w' \<Longrightarrow> S x w'" "\<And>e w'. later_batch rs w' \<Longrightarrow> E e w'"
  shows "wp (sendBlastEmail r b t) S E w"
proof (rule wp_frame [where f = "\<lambda>w. (w_queue w, t_blast_recipients w, t_email_blasts w)"])
  show "moves (frame (\<lambda>w. (w_queue w, t_blast_recipients w, t_email_blasts w))) (sendBlastEmail r b t)"
    by (rule mail_frame) simp
qed (use assms in \<open>auto simp: later_batch_def batches_inv_def\<close>)

lemma wp_send_recipients:
  "later_batch rs w \<Longrightarrow> (\<And>x w'. batches_inv w' \<Longrightarrow> S x w') \<Longrightarrow> (\<And>e w'. batches_inv w' \<Longrightarrow> E e w') \<Longrightarrow>
   wp (send_recipients i n t rs b k) S E w"
proof (induction rs arbitrary: w b k)
  case Nil
  then show ?case by (simp add: wp_retE later_batch_inv)
next
  case (Cons r rs)
  show ?case
    unfolding send_recipients.simps
  proof (rule wp_bindI, rule wp_reads [OF recheck_reads])
    fix st w' assume "tick w w'"
    then have w': "later_batch (r # rs) w'" by (rule later_batch_tick) (rule Cons.prems(1))
    have rest: "wp (send_recipients i n t rs b' k') S E v" if "later_batch (r # rs) v" for v b' k'
      using Cons.IH [OF later_batch_Cons [OF that]] Cons.prems(2,3) by blast
    show "wp (case st of None \<Rightarrow> retE None | Some blast' \<Rightarrow> tryE (sendBlastEmail r blast' t)
         (\<lambda>e. bindE (logE (store_UpdateBlastRecipientStatus (br_ID r) BlastRecipientStatusFailed
                 None (Some (err_Error e)))) (\<lambda>u. send_recipients i n t rs blast' k))
         (\<lambda>u. bindE (logE (store_UpdateBlastRecipientStatus (br_ID r) BlastRecipientStatusSent
                 None None)) (\<lambda>u. send_recipients i n t rs blast' (k + 1)))) S E w'"
      by (rule wp_rules sendBlastEmail_later [where rs = "r # rs"] wp_recipient_status [where rs = rs] rest
          | assumption | rule w' | (rule Cons.prems(2,3), erule later_batch_inv) | rule Cons.prems(2), rule later_batch_inv, rule w')+
  qed (rule Cons.prems(3), rule later_batch_inv, erule later_batch_tick, rule Cons.prems(1))
qed

lemma batch_recipients_later:
  assumes "batches_inv w" "1 \<le> n" "\<And>rs w'. later_batch rs w' \<Longrightarrow> S rs w'" "\<And>e w'. batches_inv w' \<Longrightarrow> E e w'"
  shows "wp (store_GetBlastRecipientsByBatch i n) S E w"
  unfolding store_GetBlastRecipientsByBatch_def
proof (rule wp_wrapI, rule wp_sql_query)
  fix w' assume t: "tick w w'"
  let ?rs = "recipients_where (\<lambda>r. br_BlastID r = i \<and> br_BatchNumber r = Some n) (ticked w)"
  have d: "distinct (map br_ID (t_blast_recipients w))" using assms(1) by (simp add: batches_inv_def first_batch_pending_def)
  have "br_BatchNumber s \<noteq> Some 0" if "r \<in> set ?rs" "s \<in> set (t_blast_recipients w)" "br_ID s = br_ID r" for r s
    using distinct_key [OF d that(2) _ that(3)] that(1) assms(2) by (auto simp: recipients_where_def)
  then have "later_batch ?rs w" using assms(1) by (auto simp: later_batch_def)
  then show "S ?rs w'" by (intro assms(3) later_batch_tick [OF t])
next
  fix e w' assume "tick w w'"
  then show "E (map_option (Wrap ''failed to get blast recipients by batch'') e) w'"
    using assms(1) by (intro assms(4)) (auto simp: tick_def batches_inv_def)
qed

lemma inv_handleBlastBatch:
  assumes "1 \<le> batch_number ev"
  shows "inv_holds (handleBlastBatch ev)"
proof (rule inv_of_wp)
  fix w assume w: "batches_inv w"
  have p: "0 \<le> batch_number ev" "1 \<le> batch_number ev + 1" using assms by auto
  have rest: "inv_holds (bindE (logE (store_UpdateEmailBlastProgressWithSent i m (batch_number ev))) (\<lambda>u.
      or_fail i s (store_GetBlastRecipientsByBatch i (batch_number ev + 1)) (\<lambda>next.
      if next \<noteq> [] then or_fail i s' (DispatchBlastBatchSend a i (batch_number ev + 1)) retE
      else checkBlastCompletion i a)))" for i m s s' a
    by (intro keeps_rules inv_or_fail inv_blast_store(6) [OF p(1)] inv_dispatch(3) [OF p(2)]
        inv_checkBlastCompletion inv_reads [OF life_of_queries(1)])
  have fail: "batches_inv v \<Longrightarrow> wp (failBlast i e) (\<lambda>x. batches_inv) (\<lambda>e. batches_inv) v" for i e v
    by (rule wp_inv [OF inv_failBlast])
  show "wp (handleBlastBatch ev) (\<lambda>x. batches_inv) (\<lambda>e. batches_inv) w"
    unfolding handleBlastBatch_def Let_def
    apply (rule wp_bindI, rule wp_inv [OF inv_reads [OF parse_reads] w])
     apply (rule wp_case_prod, rule wp_bindI, rule wp_wrapI, rule wp_inv [OF inv_reads [OF store_GetEmailBlastByID_reads]], assumption)
      apply (rule wp_if, erule wp_retE)
      apply (unfold or_fail_def [where msg = "''failed to get template''"] or_fail_def [where msg = "''failed to get batch recipients''"])
      apply (rule wp_tryI, rule wp_inv [OF inv_reads [OF store_GetBlastEmailTemplateByID_reads]], assumption)
       apply (rule wp_tryI, erule batch_recipients_later, rule assms)
        apply (rule wp_if, rule wp_inv [OF inv_checkBlastCompletion], erule later_batch_inv, assumption, assumption)
        apply (rule wp_bindI, erule wp_send_recipients)
         apply (rule wp_case_option, erule wp_retE)
         apply (rule wp_case_prod, rule wp_inv [OF rest], assumption, assumption, assumption, assumption)
    by (assumption | rule wp_handled, rule fail)+
qed

lemma inv_blast_Process:
  assumes "ev \<in> set (w_queue w)" "batches_inv w"
  shows "batches_inv (snd (blast_Process ev w))"
proof (cases "em_Type ev = EventBlastBatchSend")
  case True
  then have "1 \<le> batch_number ev" using assms by (simp add: batches_inv_def batch_messages_ok_def)
  then show ?thesis
    using inv_handleBlastBatch [of ev] assms(2) True by (simp add: blast_Process_def enums moves_def keeps_def)
next
  case False
  then have "inv_holds (blast_Process ev)"
    unfolding blast_Process_def using inv_handleBlastStarted inv_handleBlastCompleted by (simp add: keeps_rules)
  then show ?thesis using assms(2) by (simp add: moves_def keeps_def)
qed

lemma step_inv: "blast_step w w' \<Longrightarrow> batches_inv w \<Longrightarrow> batches_inv w'"
proof (induction rule: blast_step.induct)
  case (elsewhere w w')
  then show ?case by (auto simp: elsewhere_def batches_inv_def batch_messages_ok_def)
next
  case (deliver ev w)
  then show ?case by (rule inv_blast_Process)
qed (use inv_CreateEmailBlast inv_owner_handlers inv_ResumeBlast inv_scheduler in \<open>simp_all add: moves_def keeps_def\<close>)

lemma run_inv: "blast_step\<^sup>*\<^sup>* w0 w \<Longrightarrow> batches_inv w0 \<Longrightarrow> batches_inv w"
  by (induction rule: rtranclp_induct) (auto intro: step_inv)

section \<open>The first batch is never sent\<close>

lemma inv_start:
  "w_queue w = [] \<Longrightarrow> t_blast_recipients w = [] \<Longrightarrow> \<forall>b\<in>set (t_email_blasts w). 0 \<le> eb_CurrentBatch b \<Longrightarrow> batches_inv w"
  by (simp add: batches_inv_def batch_messages_ok_def first_batch_pending_def)

lemma pending_recipient:
  assumes "batches_inv w" "r \<in> set (t_blast_recipients w)"
  shows "\<exists>s\<in>set (t_blast_recipients w). br_BlastID s = br_BlastID r \<and> br_Status s = ''pending''"
  using assms by (fastforce simp: batches_inv_def first_batch_pending_def first_of_def)

text \<open>C15: from a system without recipients or messages, whatever the handlers, the worker and the
  scheduler do: a recipient of batch 0 stays pending, no batch 0 is ever on the topic, and every
  blast that has recipients has one of batch 0, so it always has a recipient nobody wrote to.\<close>

theorem first_batch_never_sent:
  assumes "blast_step\<^sup>*\<^sup>* w0 w" "w_queue w0 = []" "t_blast_recipients w0 = []"
    "\<forall>b\<in>set (t_email_blasts w0). 0 \<le> eb_CurrentBatch b"
  shows "(\<forall>r\<in>set (t_blast_recipients w). br_BatchNumber r = Some 0 \<longrightarrow> br_Status r = ''pending'') \<and>
    (\<forall>ev\<in>set (w_queue w). em_Type ev = EventBlastBatchSend \<longrightarrow> batch_number ev \<noteq> 0) \<and>
    (\<forall>r\<in>set (t_blast_recipients w). \<exists>s\<in>set (t_blast_recipients w).
       br_BlastID s = br_BlastID r \<and> br_BatchNumber s = Some 0)"
proof -
  have "batches_inv w" using run_inv [OF assms(1) inv_start [OF assms(2-4)]] .
  then show ?thesis
    by (fastforce simp: batches_inv_def first_batch_pending_def first_of_def batch_messages_ok_def)
qed

text \<open>Deliver the next \<open>k\<close> messages of the topic in order, from position \<open>n\<close> on.\<close>

definition deliver_nth :: "nat \<Rightarrow> world \<Rightarrow> world" where
  "deliver_nth n w = (if n < length (w_queue w) then snd (blast_Process (w_queue w ! n) w) else w)"

primrec drain :: "nat \<Rightarrow> nat \<Rightarrow> world \<Rightarrow> world" where
  "drain 0 n w = w"
| "drain (Suc k) n w = drain k (Suc n) (deliver_nth n w)"

lemma deliver_step: "blast_step\<^sup>*\<^sup>* w (deliver_nth n w)"
  using blast_step.deliver [OF nth_mem] by (auto simp: deliver_nth_def)

lemma drain_steps: "blast_step\<^sup>*\<^sup>* w (drain k n w)"
  by (induction k arbitrary: n w) (auto intro: rtranclp_trans [OF deliver_step])

lemma sample_run:
  "blast_step\<^sup>*\<^sup>* blast_world (drain 2 0 (snd (SendBlastNow 1 51 blast_world)))"
  "w_queue blast_world = []" "t_blast_recipients blast_world = []"
  "\<forall>b\<in>set (t_email_blasts blast_world). 0 \<le> eb_CurrentBatch b"
  "\<exists>r\<in>set (t_blast_recipients (drain 2 0 (snd (SendBlastNow 1 51 blast_world)))).
     br_BlastID r = 51 \<and> br_BatchNumber r = Some 0"
proof -
  show "blast_step\<^sup>*\<^sup>* blast_world (drain 2 0 (snd (SendBlastNow 1 51 blast_world)))"
    by (rule rtranclp_trans [OF r_into_rtranclp drain_steps]) (rule blast_step.send_now)
qed code_simp+

theorem first_batch_never_sent_witness:
  "\<exists>r\<in>set (t_blast_recipients (drain 2 0 (snd (SendBlastNow 1 51 blast_world)))).
     br_BatchNumber r = Some 0 \<and> br_Status r = ''pending''"
  using first_batch_never_sent [OF sample_run(1-4)] sample_run(5) by blast

text \<open>the worker closes no blast that has recipients: its completion check, whose only effect is
  to publish the completion event when nothing is pending, leaves the topic as it is.\<close>

theorem completion_needs_empty_blast:
  assumes "blast_step\<^sup>*\<^sup>* w0 w" "w_queue w0 = []" "t_blast_recipients w0 = []"
    "\<forall>b\<in>set (t_email_blasts w0). 0 \<le> eb_CurrentBatch b"
    "r \<in> set (t_blast_recipients w)"
  shows "w_queue (snd (checkBlastCompletion (br_BlastID r) a w)) = w_queue w"
proof -
  have "batches_inv w" using run_inv [OF assms(1) inv_start [OF assms(2-4)]] .
  from pending_recipient [OF this assms(5)]
  have "recipient_count (\<lambda>s. br_BlastID s = br_BlastID r \<and> br_Status s = ''pending'') (ticked w) \<noteq> 0"
    by (auto simp: recipient_count_def filter_empty_conv)
  then have "wp (checkBlastCompletion (br_BlastID r) a) (\<lambda>u w'. w_queue w' = w_queue w) (\<lambda>e w'. w_queue w' = w_queue w) w"
    unfolding checkBlastCompletion_def store_CountBlastRecipientsByStatus_def
    by (intro wp_bindI wp_wrapI wp_sql_query) (auto simp: enums wp_retE tick_def)
  then show ?thesis by (rule wpD)
qed

theorem completion_needs_empty_blast_witness:
  "w_queue (snd (checkBlastCompletion 51 1 (drain 2 0 (snd (SendBlastNow 1 51 blast_world))))) =
   w_queue (drain 2 0 (snd (SendBlastNow 1 51 blast_world)))"
  using completion_needs_empty_blast [OF sample_run(1-4), of _ 1] sample_run(5) by metis

end
