(* ===== verification/BlastRecipients.thy ===== *)
theory BlastRecipients
  imports BlastLife
begin

text \<open>
  Who receives a blast: the users of its segments, one per email address, in the order the segments
  list them, cut into batches of the batch size. The bulk insert and the preview are both shown to
  compute this list.
\<close>

section \<open>One user per email\<close>

fun first_by_email :: "WaitlistUser list \<Rightarrow> WaitlistUser list" where
  "first_by_email [] = []"
| "first_by_email (u # us) = u # filter (\<lambda>v. wu_Email v \<noteq> wu_Email u) (first_by_email us)"

lemma first_by_email_emails:
  "wu_Email ` set (first_by_email us) = wu_Email ` set us"
  "distinct (map wu_Email (first_by_email us))"
proof -
  show "wu_Email ` set (first_by_email us) = wu_Email ` set us"
  proof (induction us)
    case (Cons u us)
    have "wu_Email ` {v \<in> A. wu_Email v \<noteq> wu_Email u} = wu_Email ` A - {wu_Email u}" for A :: "WaitlistUser set" by auto
    then show ?case using Cons.IH by simp
  qed simp
  show "distinct (map wu_Email (first_by_email us))"
    by (induction us) (auto simp: distinct_map_filter)
qed

lemma first_by_email_subset: "set (first_by_email us) \<subseteq> set us"
  by (induction us) auto

lemma add_unseen_pair:
  "add_unseen u (es, acc) = (if wu_Email u \<in> set es then (es, acc) else (wu_Email u # es, acc @ [u]))"
  by (simp add: add_unseen_def)

lemma fold_add_unseen:
  "fold add_unseen us (es, acc) =
     (let new = filter (\<lambda>u. wu_Email u \<notin> set es) (first_by_email us)
      in (rev (map wu_Email new) @ es, acc @ new))"
proof (induction us arbitrary: es acc)
  case (Cons u us)
  show ?case
  proof (cases "wu_Email u \<in> set es")
    case True
    then have "filter (\<lambda>v. wu_Email v \<noteq> wu_Email u \<and> wu_Email v \<notin> set es) (first_by_email us) =
        filter (\<lambda>v. wu_Email v \<notin> set es) (first_by_email us)"
      by (intro filter_cong) auto
    then show ?thesis using True by (simp add: add_unseen_pair Cons.IH)
  next
    case False
    have "filter (\<lambda>v. wu_Email v \<noteq> wu_Email u \<and> wu_Email v \<notin> set es) (first_by_email us) =
        filter (\<lambda>v. wu_Email v \<notin> set (wu_Email u # es)) (first_by_email us)"
      by (intro filter_cong) auto
    then show ?thesis using False by (simp add: add_unseen_pair Cons.IH Let_def)
  qed
qed simp

lemma fold_add_unseen_Nil:
  "snd (fold add_unseen us ([], [])) = first_by_email us"
  by (simp add: fold_add_unseen Let_def)

section \<open>The users of the segments\<close>

definition blast_users :: "world \<Rightarrow> uuid \<Rightarrow> WaitlistUser list option" where
  "blast_users w i = (case filter (live_segment i) (t_segments w) of
       [] \<Rightarrow> None
     | s # _ \<Rightarrow> Some (segment_users w (sg_CampaignID s) (ParseFilterCriteria (w_time_Parse w) (sg_FilterCriteria s))))"

lemma criteria_match_calls: "criteria_match (w\<lparr>w_calls := n\<rparr>) c cr = criteria_match w c cr"
  by (rule ext) (simp add: criteria_match_def ilike_def json_field_def split: option.split jval.split)

lemma blast_users_tick: "tick w w' \<Longrightarrow> blast_users w' = blast_users w"
  by (rule ext) (auto simp: tick_def blast_users_def segment_users_def criteria_match_calls split: list.split)

lemma wrap_id_Ok [ok_simps]: "wrap_id pre post i m w = (Ok x, w') \<longleftrightarrow> m w = (Ok x, w')"
  by (simp add: wrap_id_def uuid_string_def ok_simps)

lemma GetUsersForBlast_Ok:
  "store_GetUsersForBlast c cr w = (Ok us, w') \<Longrightarrow> us = segment_users w c cr \<and> w' = ticked w"
  using segment_query_runs [of c cr w] by (auto split: option.splits if_splits)

lemma CountUsers_Ok:
  "store_CountUsersMatchingCriteria c cr w = (Ok n, w') \<Longrightarrow> n = int (length (segment_users w c cr)) \<and> w' = ticked w"
  using segment_query_runs [of c cr w] by (auto simp: length_segment_users split: option.splits if_splits)

lemma GetSegmentByID_Ok:
  "store_GetSegmentByID i w = (Ok s, w') \<Longrightarrow> (\<exists>ss. filter (live_segment i) (t_segments w) = s # ss) \<and> w' = ticked w"
  by (auto simp: store_GetSegmentByID_def ok_simps)

lemma segment_blast_users_Ok:
  assumes "segment_blast_users i w = (Ok us, w')"
  shows "blast_users w i = Some us" "tick w w'"
proof -
  show "tick w w'" using segment_blast_users_reads assms unfolding moves_def by (metis snd_conv)
  obtain s ss where "filter (live_segment i) (t_segments w) = s # ss"
    "store_GetUsersForBlast (sg_CampaignID s) (ParseFilterCriteria (w_time_Parse w) (sg_FilterCriteria s)) (ticked w) = (Ok us, w')"
    using assms unfolding segment_blast_users_def by (auto simp: ok_simps dest!: GetSegmentByID_Ok)
  then show "blast_users w i = Some us"
    by (auto simp: blast_users_def dest!: GetUsersForBlast_Ok)
qed

lemma collect_Ok:
  "foldE (\<lambda>i acc. bindE (segment_blast_users i) (\<lambda>users. retE (fold add_unseen users acc))) ss acc w = (Ok acc', w') \<Longrightarrow>
   tick w w' \<and> (\<exists>uss. map (blast_users w) ss = map Some uss \<and> acc' = fold add_unseen (concat uss) acc)"
proof (induction ss arbitrary: acc w)
  case Nil
  then show ?case by (simp add: ok_simps tick.step_refl)
next
  case (Cons i ss)
  then obtain us w1 where us: "segment_blast_users i w = (Ok us, w1)"
    and rest: "foldE (\<lambda>i acc. bindE (segment_blast_users i) (\<lambda>users. retE (fold add_unseen users acc))) ss
        (fold add_unseen us acc) w1 = (Ok acc', w')"
    by (auto simp: ok_simps)
  note s = segment_blast_users_Ok [OF us]
  obtain uss where uss: "tick w1 w'" "map (blast_users w1) ss = map Some uss"
      "acc' = fold add_unseen (concat uss) (fold add_unseen us acc)"
    using Cons.IH [OF rest] by blast
  have "map (blast_users w) ss = map Some uss" using uss(2) unfolding blast_users_tick [OF s(2)] .
  then show ?case
    using s(1) uss(1,3) tick.step_trans [OF s(2)] by (intro conjI exI [of _ "us # uss"]) simp_all
qed

section \<open>The recipients\<close>

definition recipient_of :: "uuid \<Rightarrow> int \<Rightarrow> nat \<times> WaitlistUser \<Rightarrow> BlastRecipient \<Rightarrow> bool" where
  "recipient_of i n ku r = (br_BlastID r = i \<and> br_UserID r = wu_ID (snd ku) \<and> br_Email r = wu_Email (snd ku) \<and>
     br_BatchNumber r = Some (int (fst ku) div n) \<and> br_Status r = ''pending'')"

lemma tx_step_Ok: "tx_step w = (Ok u, w') \<Longrightarrow> w' = ticked w"
  by (auto simp: tx_step_def db_def ticked_def Let_def split: option.splits)

lemma with_rollback_Ok: "with_rollback m w = (Ok u, w') \<longleftrightarrow> m w = (Ok u, w')"
  by (auto simp: with_rollback_def split: prod.split result.split)

lemma insert_recipient_Ok:
  assumes "insert_recipient p w = (Ok u, w')" "\<forall>s\<in>set (t_blast_recipients w). \<not> (br_BlastID s = crp_BlastID p \<and> br_UserID s = crp_UserID p)"
  shows "\<exists>i t. t_blast_recipients w' = t_blast_recipients w @ [new_recipient p i t]"
  using assms
  by (auto simp: insert_recipient_def db_def Let_def same_recipient_def new_recipient_def split: option.splits if_splits)

lemma insert_users_Ok:
  assumes "insert_users i n kus w = (Ok u, w')" "1 \<le> n" "distinct (map (wu_ID \<circ> snd) kus)"
    "\<forall>s\<in>set (t_blast_recipients w). br_BlastID s = i \<longrightarrow> br_UserID s \<notin> (wu_ID \<circ> snd) ` set kus"
  shows "\<exists>rows. t_blast_recipients w' = t_blast_recipients w @ rows \<and> list_all2 (recipient_of i n) kus rows"
  using assms
proof (induction kus arbitrary: w)
  case Nil
  then show ?case by (simp add: insert_users_def ok_simps)
next
  case (Cons ku kus)
  obtain k user where ku: "ku = (k, user)" by fastforce
  let ?p = "\<lparr>crp_BlastID = i, crp_UserID = wu_ID user, crp_Email = wu_Email user, crp_BatchNumber = Some (int k div n)\<rparr>"
  obtain w1 where ins: "insert_recipient ?p w = (Ok (), w1)" and rest: "insert_users i n kus w1 = (Ok u, w')"
    using Cons.prems(1,2) by (auto simp: insert_users_def ku go_quot_pos ok_simps)
  have "\<forall>s\<in>set (t_blast_recipients w). \<not> (br_BlastID s = crp_BlastID ?p \<and> br_UserID s = crp_UserID ?p)"
    using Cons.prems(4) ku by auto
  then obtain j t where w1: "t_blast_recipients w1 = t_blast_recipients w @ [new_recipient ?p j t]"
    using insert_recipient_Ok [OF ins] by blast
  have "\<forall>s\<in>set (t_blast_recipients w1). br_BlastID s = i \<longrightarrow> br_UserID s \<notin> (wu_ID \<circ> snd) ` set kus"
    using Cons.prems(3,4) ku by (auto simp: w1 new_recipient_def)
  then obtain rows where rows: "t_blast_recipients w' = t_blast_recipients w1 @ rows" "list_all2 (recipient_of i n) kus rows"
    using Cons.IH [OF rest Cons.prems(2)] Cons.prems(3) by auto
  have "recipient_of i n ku (new_recipient ?p j t)" by (simp add: recipient_of_def ku new_recipient_def enums)
  then show ?case using rows w1 by (intro exI [of _ "new_recipient ?p j t # rows"]) simp
qed

lemma create_bulk_Ok:
  assumes "store_CreateBlastRecipientsBulk i us n w = (Ok u, w')" "1 \<le> n" "distinct (map wu_ID us)"
    "\<forall>s\<in>set (t_blast_recipients w). br_BlastID s \<noteq> i"
  shows "\<exists>rows. t_blast_recipients w' = t_blast_recipients w @ rows \<and> list_all2 (recipient_of i n) (enumerate 0 us) rows"
proof -
  obtain w1 where ins: "insert_users i n (enumerate 0 us) (ticked (ticked w)) = (Ok (), w1)" and w': "w' = ticked w1"
    using assms(1) unfolding store_CreateBlastRecipientsBulk_def
    by (auto simp: with_rollback_Ok ok_simps dest!: tx_step_Ok)
  have "map (wu_ID \<circ> snd) (enumerate 0 us) = map wu_ID us" by (simp flip: map_map)
  with insert_users_Ok [OF ins assms(2)] assms(3,4) show ?thesis by (auto simp: w')
qed

lemma segment_user_row:
  assumes "map (blast_users w) ss = map Some uss" "u \<in> set (concat uss)"
  shows "\<exists>v\<in>set (t_waitlist_users w). u = segment_columns v"
proof -
  obtain us where us: "us \<in> set uss" "u \<in> set us" using assms(2) by auto
  then have "Some us \<in> set (map (blast_users w) ss)" using assms(1) by simp
  then show ?thesis
    using us(2) by (auto simp: blast_users_def segment_users_def split: list.splits)
qed

lemma segment_columns_keys [simp]:
  "wu_ID (segment_columns u) = wu_ID u" "wu_Email (segment_columns u) = wu_Email u"
  by (simp_all add: segment_columns_def)

lemma blast_user_ids:
  assumes "map (blast_users w) ss = map Some uss" "distinct (map wu_ID (t_waitlist_users w))"
  shows "distinct (map wu_ID (first_by_email (concat uss)))"
proof -
  let ?us = "first_by_email (concat uss)"
  have e: "distinct (map wu_Email ?us)" by (rule first_by_email_emails)
  have "inj_on wu_ID (set ?us)"
  proof (rule inj_onI)
    fix u v assume uv: "u \<in> set ?us" "v \<in> set ?us" "wu_ID u = wu_ID v"
    have "u \<in> set (concat uss)" "v \<in> set (concat uss)" using uv(1,2) first_by_email_subset by blast+
    then obtain u' v' where r: "u' \<in> set (t_waitlist_users w)" "u = segment_columns u'"
        "v' \<in> set (t_waitlist_users w)" "v = segment_columns v'"
      using segment_user_row [OF assms(1)] by meson
    then show "u = v" using distinct_key [OF assms(2) r(1,3)] uv(3) by simp
  qed
  then show ?thesis using e by (simp add: distinct_map)
qed

text \<open>The rows of one batch have consecutive indices, so there are at most as many as the size.\<close>

lemma batch_rows:
  assumes "list_all2 (recipient_of i n) (enumerate 0 us) rows" "1 \<le> n"
  shows "int (length (filter (\<lambda>r. br_BatchNumber r = Some b) rows)) \<le> n"
proof -
  have r: "length rows = length us" "\<And>j. j < length rows \<Longrightarrow> br_BatchNumber (rows ! j) = Some (int j div n)"
    using assms(1) by (auto simp: list_all2_conv_all_nth recipient_of_def nth_enumerate_eq)
  have "length (filter (\<lambda>r. br_BatchNumber r = Some b) rows) = card {j. j < length rows \<and> int j div n = b}"
    by (simp add: length_filter_conv_card r(2) cong: conj_cong)
  also have "\<dots> \<le> card ((\<lambda>k. nat (b * n + int k)) ` {..<nat n})"
  proof (rule card_mono)
    show "{j. j < length rows \<and> int j div n = b} \<subseteq> (\<lambda>k. nat (b * n + int k)) ` {..<nat n}"
    proof safe
      fix j assume "b = int j div n"
      then show "j \<in> (\<lambda>k. nat (int j div n * n + int k)) ` {..<nat n}"
        using assms(2) by (intro image_eqI [of _ _ "nat (int j mod n)"]) (simp_all add: nat_less_iff)
    qed
  qed simp
  also have "\<dots> \<le> nat n" using card_image_le [of "{..<nat n}" "\<lambda>k. nat (b * n + int k)"] by simp
  finally show ?thesis using assms(2) by linarith
qed

lemma create_run:
  assumes "store_CreateBlastRecipientsFromMultipleSegments i ss n w = (Ok k, w')"
  obtains uss w1 where "map (blast_users w) ss = map Some uss" "tick w w1"
    "if first_by_email (concat uss) = [] then k = 0 \<and> w' = w1
     else k = int (length (first_by_email (concat uss))) \<and>
       store_CreateBlastRecipientsBulk i (first_by_email (concat uss)) n w1 = (Ok (), w')"
proof (cases "ss = []")
  case True
  then have "k = 0 \<and> w' = w"
    using assms by (simp add: store_CreateBlastRecipientsFromMultipleSegments_def retE_Ok)
  then show thesis by (intro that [of "[]" w]) (simp_all add: True tick.step_refl)
next
  case False
  then obtain acc w1 where c: "foldE (\<lambda>i acc. bindE (segment_blast_users i) (\<lambda>users. retE (fold add_unseen users acc))) ss
        ([], []) w = (Ok acc, w1)"
      and k: "if snd acc = [] then k = 0 \<and> w' = w1 else k = int (length (snd acc)) \<and>
         store_CreateBlastRecipientsBulk i (snd acc) n w1 = (Ok (), w')"
    using assms unfolding store_CreateBlastRecipientsFromMultipleSegments_def
    by (fastforce elim!: bindE_OkE simp: retE_Ok if_Ok split: if_splits)
  from collect_Ok [OF c] obtain uss where uss: "tick w w1" "map (blast_users w) ss = map Some uss"
      "acc = fold add_unseen (concat uss) ([], [])" by blast
  show thesis using that [OF uss(2,1)] k unfolding uss(3) fold_add_unseen_Nil .
qed

lemma create_count:
  "store_CreateBlastRecipientsFromMultipleSegments i ss n w = (Ok k, w') \<Longrightarrow>
   \<exists>uss. map (blast_users w) ss = map Some uss \<and> k = int (length (first_by_email (concat uss)))"
  by (erule create_run) (auto split: if_splits)

text \<open>C16: a successful bulk creation for a blast without recipients adds one pending row per
  distinct email among the users of its segments, in the order of the segments, keeps every other
  row, numbers the \<open>j\<close>-th row with batch \<open>j div batchSize\<close>, so that no batch is larger than the
  batch size, and returns the number of rows.\<close>

theorem recipients_created:
  assumes "store_CreateBlastRecipientsFromMultipleSegments i ss n w = (Ok k, w')" "1 \<le> n"
    "distinct (map wu_ID (t_waitlist_users w))" "\<forall>r\<in>set (t_blast_recipients w). br_BlastID r \<noteq> i"
  shows "\<exists>uss rows. map (blast_users w) ss = map Some uss \<and>
    t_blast_recipients w' = t_blast_recipients w @ rows \<and> k = int (length rows) \<and>
    list_all2 (recipient_of i n) (enumerate 0 (first_by_email (concat uss))) rows \<and>
    distinct (map br_Email rows) \<and> br_Email ` set rows = wu_Email ` set (concat uss) \<and>
    (\<forall>b. int (length (filter (\<lambda>r. br_BatchNumber r = Some b) rows)) \<le> n)"
proof -
  obtain uss w1 where uss: "map (blast_users w) ss = map Some uss" "tick w w1"
    and new: "if first_by_email (concat uss) = [] then k = 0 \<and> w' = w1
       else k = int (length (first_by_email (concat uss))) \<and>
         store_CreateBlastRecipientsBulk i (first_by_email (concat uss)) n w1 = (Ok (), w')"
    by (rule create_run [OF assms(1)])
  let ?us = "first_by_email (concat uss)"
  have w1: "t_blast_recipients w1 = t_blast_recipients w" using uss(2) by (auto simp: tick_def)
  have "\<exists>rows. t_blast_recipients w' = t_blast_recipients w @ rows \<and> list_all2 (recipient_of i n) (enumerate 0 ?us) rows"
    using new create_bulk_Ok [OF _ assms(2) blast_user_ids [OF uss(1) assms(3)], of i w1 "()" w'] assms(4)
    by (auto simp: w1 split: if_splits)
  then obtain rows where rows: "t_blast_recipients w' = t_blast_recipients w @ rows"
    "list_all2 (recipient_of i n) (enumerate 0 ?us) rows" by blast
  have "map br_Email rows = map wu_Email ?us"
    using rows(2) by (auto simp: list_all2_conv_all_nth recipient_of_def nth_enumerate_eq intro!: nth_equalityI)
  then have "distinct (map br_Email rows)" "br_Email ` set rows = wu_Email ` set (concat uss)"
    using first_by_email_emails by (metis, metis list.set_map)
  moreover have "k = int (length rows)" using new list_all2_lengthD [OF rows(2)] by (auto split: if_splits)
  ultimately show ?thesis using uss(1) rows batch_rows [OF rows(2) assms(2)] by blast
qed

theorem recipients_created_witness:
  "\<exists>k w'. store_CreateBlastRecipientsFromMultipleSegments 51 [31] 2 blast_world = (Ok k, w') \<and>
     distinct (map br_Email (t_blast_recipients w'))"
proof -
  have "is_Ok (fst (store_CreateBlastRecipientsFromMultipleSegments 51 [31] 2 blast_world))" by code_simp
  then obtain k w' where r: "store_CreateBlastRecipientsFromMultipleSegments 51 [31] 2 blast_world = (Ok k, w')"
    by (cases "store_CreateBlastRecipientsFromMultipleSegments 51 [31] 2 blast_world") (auto elim: is_Ok.elims)
  have "distinct (map wu_ID (t_waitlist_users blast_world))" "t_blast_recipients blast_world = []" by code_simp+
  then show ?thesis using recipients_created [OF r] r by fastforce
qed

section \<open>The preview\<close>

lemma fold_add_unseen_append:
  "fold add_unseen us (es, acc @ acc') = (fst (fold add_unseen us (es, acc')), acc @ snd (fold add_unseen us (es, acc')))"
  by (simp add: fold_add_unseen Let_def)

lemma preview_segment_reads: "moves tick (preview_segment i acc)"
proof -
  have "moves tick (store_CountUsersMatchingCriteria c cr)" "moves tick (store_GetUsersForBlast c cr)"
    "moves tick (store_GetSegmentByID j)" for c cr j by (rule criteria_store_reads)+
  then show ?thesis
    unfolding preview_segment_def wrap_id_def uuid_string_def Let_def
    by (cases acc) (simp, intro tick_rules reads)
qed

text \<open>What an iteration adds to the three locals.\<close>

definition previewed :: "WaitlistUser list list \<Rightarrow> BlastRecipientsPreview \<times> string list \<times> int \<Rightarrow>
    BlastRecipientsPreview \<times> string list \<times> int \<Rightarrow> bool" where
  "previewed uss acc acc' = (case (acc, acc') of ((p, es, n), (p', es', n')) \<Rightarrow>
     (let r = fold add_unseen (concat uss) (es, []) in
      brp_TotalCount p' = brp_TotalCount p + int (length (snd r)) \<and> es' = fst r \<and>
      n' = n + int (length (concat uss)) \<and> brp_DuplicatesCount p' = brp_DuplicatesCount p \<and>
      map bsi_UserCount (brp_BySegment p') = map bsi_UserCount (brp_BySegment p) @ map (int \<circ> length) uss))"

lemma preview_segment_Ok:
  assumes "preview_segment i acc w = (Ok acc', w')"
  shows "\<exists>us. blast_users w i = Some us \<and> previewed [us] acc acc'"
proof -
  obtain p es n where acc: "acc = (p, es, n)" by (cases acc)
  obtain s where s: "\<exists>ss. filter (live_segment i) (t_segments w) = s # ss"
    and acc': "let us = segment_users w (sg_CampaignID s) (ParseFilterCriteria (w_time_Parse w) (sg_FilterCriteria s));
        (es', new) = fold add_unseen us (es, []) in
      acc' = (p\<lparr>brp_BySegment := brp_BySegment p @ [\<lparr>bsi_SegmentID = i, bsi_SegmentName = sg_Name s,
            bsi_UserCount = int (length us)\<rparr>],
          brp_TotalCount := brp_TotalCount p + int (length new)\<rparr>, es', n + int (length us))"
    using assms unfolding preview_segment_def acc
    by (auto elim!: bindE_OkE simp: Let_def getE_Ok wrap_id_Ok retE_Ok dest!: GetSegmentByID_Ok CountUsers_Ok
        GetUsersForBlast_Ok split: prod.splits)
  then show ?thesis
    by (auto simp: blast_users_def previewed_def acc Let_def split: prod.splits)
qed

lemma previewed_append:
  assumes "previewed uss acc acc1" "previewed vss acc1 acc2"
  shows "previewed (uss @ vss) acc acc2"
proof -
  obtain p es n p1 es1 n1 p2 es2 n2 where accs: "acc = (p, es, n)" "acc1 = (p1, es1, n1)" "acc2 = (p2, es2, n2)"
    by (cases acc, cases acc1, cases acc2)
  let ?r = "fold add_unseen (concat uss) (es, [])"
  have es1: "es1 = fst ?r" using assms(1) by (simp add: previewed_def accs Let_def)
  have "fold add_unseen (concat (uss @ vss)) (es, []) = fold add_unseen (concat vss) (fst ?r, snd ?r @ [])"
    by simp
  also have "\<dots> = (fst (fold add_unseen (concat vss) (es1, [])), snd ?r @ snd (fold add_unseen (concat vss) (es1, [])))"
    unfolding es1 by (rule fold_add_unseen_append)
  finally show ?thesis
    using assms by (simp add: previewed_def accs Let_def)
qed

lemma preview_fold_Ok:
  "foldE preview_segment ss acc w = (Ok acc', w') \<Longrightarrow>
   \<exists>uss. map (blast_users w) ss = map Some uss \<and> previewed uss acc acc'"
proof (induction ss arbitrary: acc w)
  case Nil
  then show ?case by (cases acc) (auto simp: retE_Ok previewed_def)
next
  case (Cons i ss)
  then obtain acc1 w1 where i: "preview_segment i acc w = (Ok acc1, w1)"
    and rest: "foldE preview_segment ss acc1 w1 = (Ok acc', w')"
    by (auto simp: bindE_Ok)
  have t: "tick w w1" using preview_segment_reads i unfolding moves_def by (metis snd_conv)
  obtain us where us: "blast_users w i = Some us" "previewed [us] acc acc1" using preview_segment_Ok [OF i] by blast
  obtain uss where uss: "map (blast_users w1) ss = map Some uss" "previewed uss acc1 acc'"
    using Cons.IH [OF rest] by blast
  have "map (blast_users w) (i # ss) = map Some (us # uss)"
    using us(1) uss(1) unfolding blast_users_tick [OF t] by simp
  then show ?case using previewed_append [OF us(2) uss(2)] by (metis append_Cons append_Nil)
qed

text \<open>The preview of a choice of segments announces, per segment, the number of its users, as
  the total exactly the number of recipients the bulk creation would make from the same segments,
  and as duplicates the difference.\<close>

theorem preview_counts_recipients:
  assumes "store_PreviewBlastRecipients ss w = (Ok p, w')"
  shows "\<exists>uss. map (blast_users w) ss = map Some uss \<and>
    map bsi_UserCount (brp_BySegment p) = map (int \<circ> length) uss \<and>
    brp_TotalCount p = int (length (first_by_email (concat uss))) \<and>
    brp_DuplicatesCount p = int (length (concat uss)) - brp_TotalCount p \<and>
    (\<forall>i n k w''. store_CreateBlastRecipientsFromMultipleSegments i ss n w = (Ok k, w'') \<longrightarrow> k = brp_TotalCount p)"
proof -
  let ?empty = "\<lparr>brp_TotalCount = 0, brp_DuplicatesCount = 0, brp_BySegment = []\<rparr>"
  obtain uss where uss: "map (blast_users w) ss = map Some uss"
    and c: "map bsi_UserCount (brp_BySegment p) = map (int \<circ> length) uss"
      "brp_TotalCount p = int (length (first_by_email (concat uss)))"
      "brp_DuplicatesCount p = int (length (concat uss)) - brp_TotalCount p"
  proof (cases "ss = []")
    case True
    then have "p = ?empty" using assms by (simp add: store_PreviewBlastRecipients_def retE_Ok)
    then show thesis by (intro that [of "[]"]) (simp_all add: True)
  next
    case False
    then obtain p1 es n where f: "foldE preview_segment ss (?empty, [], 0) w = (Ok (p1, es, n), w')"
      and p: "p = p1\<lparr>brp_DuplicatesCount := n - brp_TotalCount p1\<rparr>"
      using assms by (auto simp: store_PreviewBlastRecipients_def Let_def retE_Ok bindE_Ok)
    from preview_fold_Ok [OF f] obtain uss where uss: "map (blast_users w) ss = map Some uss"
        "previewed uss (?empty, [], 0) (p1, es, n)" by blast
    show thesis
      by (rule that [OF uss(1)]) (use uss(2) in \<open>simp_all add: previewed_def p Let_def fold_add_unseen_Nil\<close>)
  qed
  moreover have "k = brp_TotalCount p" if r: "store_CreateBlastRecipientsFromMultipleSegments i ss n w = (Ok k, w'')" for i n k w''
  proof -
    obtain vss where "map (blast_users w) ss = map Some vss" "k = int (length (first_by_email (concat vss)))"
      using create_count [OF r] by blast
    then show ?thesis using uss c(2) by (metis inj_map_eq_map inj_Some)
  qed
  ultimately show ?thesis by blast
qed

theorem preview_counts_recipients_witness:
  "\<exists>p w'. store_PreviewBlastRecipients [31] blast_world = (Ok p, w') \<and>
     brp_DuplicatesCount p = sum_list (map bsi_UserCount (brp_BySegment p)) - brp_TotalCount p"
proof -
  have "is_Ok (fst (store_PreviewBlastRecipients [31] blast_world))" by code_simp
  then obtain p w' where r: "store_PreviewBlastRecipients [31] blast_world = (Ok p, w')"
    by (cases "store_PreviewBlastRecipients [31] blast_world") (auto elim: is_Ok.elims)
  have "int (length (concat uss)) = sum_list (map (int \<circ> length) uss)" for uss :: "WaitlistUser list list"
    by (induction uss) simp_all
  then show ?thesis using preview_counts_recipients [OF r] r by metis
qed

end
