(* ===== verification/BlastSchedule.thy ===== *)
theory BlastSchedule
  imports BlastLife
begin

text \<open>
  One round of the scheduler when nothing fails: exactly the due blasts are started, each once, in
  the order of their schedule.
\<close>

definition published :: "world \<Rightarrow> uuid list \<Rightarrow> (string \<times> jval option) list" where
  "published w is = map (\<lambda>i. (EventBlastStarted, Some (JStr (w_uuid_String w i)))) is"

definition message_of :: "EventMessage \<Rightarrow> string \<times> jval option" where
  "message_of ev = (em_Type ev, jget (em_Data ev) ''blast_id'')"

text \<open>The part of the environment the round relies on.\<close>

definition quiet :: "world \<Rightarrow> world \<Rightarrow> bool" where
  "quiet w v = (no_faults v \<and> (\<forall>k. w_publish_fault v k = None) \<and> w_now v = w_now w \<and>
     w_uuid_String v = w_uuid_String w)"

definition statuses_ok :: "EmailBlast list \<Rightarrow> bool" where
  "statuses_ok bs = (\<forall>b\<in>set bs. eb_Status b \<in> set sql_email_blast_status)"

abbreviation start_at :: "time \<Rightarrow> EmailBlast \<Rightarrow> EmailBlast" where
  "start_at t \<equiv> set_status EmailBlastStatusProcessing None t"

lemma start_known: "EmailBlastStatusProcessing \<in> set sql_email_blast_status"
  by (simp add: enums sql_email_blast_status_def)

lemma trigger_run:
  assumes "quiet w v" "statuses_ok (t_email_blasts v)" "c \<in> set (t_email_blasts v)" "live_blast (eb_ID b) c"
  obtains v' where "trigger_blast b v = (Ok (), v')" "quiet w v'"
    "t_email_blasts v' = upd_where (live_blast (eb_ID b)) (start_at (w_now w)) (t_email_blasts v)"
    "map message_of (w_queue v') = map message_of (w_queue v) @ published w [eb_ID b]"
proof -
  let ?rows = "upd_where (live_blast (eb_ID b)) (start_at (w_now w)) (t_email_blasts v)"
  obtain r rs where r: "filter (live_blast (eb_ID b)) (t_email_blasts v) = r # rs"
    using assms(3,4) by (cases "filter (live_blast (eb_ID b)) (t_email_blasts v)") (auto simp: filter_empty_conv)
  have "blast_check ?rows = None"
    using assms(2) start_known by (auto simp: blast_check_def statuses_ok_def set_upd_where)
  then have s: "store_UpdateEmailBlastStatus (eb_ID b) EmailBlastStatusProcessing None v =
      (Ok (start_at (w_now w) r), (ticked v)\<lparr>t_email_blasts := ?rows\<rparr>)"
    using assms(1) r
    by (simp add: store_UpdateEmailBlastStatus_def row_or_def tryE_def sql_update_returning_def db_def Let_def
        quiet_def no_faults_def retE_def ticked_def)
  let ?v = "(ticked v)\<lparr>t_email_blasts := ?rows\<rparr>"
  let ?ev = "\<lparr>em_ID = w_uuid_String v (w_uuids v (w_fresh v)), em_Type = EventBlastStarted,
    em_AccountID = w_uuid_String v (eb_AccountID b), em_CampaignID = None,
    em_Data = Some (json_trip_map [(''blast_id'', JStr (w_uuid_String v (eb_ID b)))]),
    em_Timestamp = w_time_Format v (w_now v)\<rparr>"
  have d: "DispatchBlastStarted (eb_AccountID b) (eb_ID b) ?v =
      (Ok (), ?v\<lparr>w_fresh := Suc (w_fresh v), w_queue := w_queue v @ [?ev]\<rparr>)"
    using assms(1)
    by (simp add: DispatchBlastStarted_def uuid_string_def bindE_def tryE_def getE_def PublishEvent_cases Let_def
        quiet_def ticked_def)
  have ev: "message_of ?ev = (EventBlastStarted, Some (JStr (w_uuid_String w (eb_ID b))))"
    using assms(1) by (simp add: message_of_def jget_def jmap_def json_trip_map_def quiet_def)
  let ?v' = "?v\<lparr>w_fresh := Suc (w_fresh v), w_queue := w_queue v @ [?ev]\<rparr>"
  show thesis
  proof (rule that [of ?v'])
    show "trigger_blast b v = (Ok (), ?v')" by (simp add: trigger_blast_def tryE_def s d retE_def)
    show "map message_of (w_queue ?v') = map message_of (w_queue v) @ published w [eb_ID b]"
      using ev by (simp add: published_def)
  qed (use assms(1) in \<open>simp_all add: quiet_def no_faults_def ticked_def\<close>)
qed

lemma trigger_all_run:
  assumes "quiet w v" "statuses_ok (t_email_blasts v)" "distinct (map eb_ID bs)"
    "\<forall>b\<in>set bs. \<exists>c\<in>set (t_email_blasts v). live_blast (eb_ID b) c"
  shows "\<exists>v'. forE bs trigger_blast v = (Ok (), v') \<and>
    t_email_blasts v' = upd_where (\<lambda>c. \<exists>b\<in>set bs. live_blast (eb_ID b) c) (start_at (w_now w)) (t_email_blasts v) \<and>
    map message_of (w_queue v') = map message_of (w_queue v) @ published w (map eb_ID bs)"
  using assms
proof (induction bs arbitrary: v)
  case Nil
  then show ?case by (simp add: retE_def published_def upd_where_none)
next
  case (Cons b bs)
  obtain c where c: "c \<in> set (t_email_blasts v)" "live_blast (eb_ID b) c" using Cons.prems(4) by auto
  obtain v1 where v1: "trigger_blast b v = (Ok (), v1)" "quiet w v1"
      "t_email_blasts v1 = upd_where (live_blast (eb_ID b)) (start_at (w_now w)) (t_email_blasts v)"
      "map message_of (w_queue v1) = map message_of (w_queue v) @ published w [eb_ID b]"
    by (rule trigger_run [OF Cons.prems(1,2) c])
  have "statuses_ok (t_email_blasts v1)"
    using Cons.prems(2) start_known by (auto simp: statuses_ok_def v1(3) set_upd_where)
  moreover have "\<forall>b\<in>set bs. \<exists>c\<in>set (t_email_blasts v1). live_blast (eb_ID b) c"
  proof
    fix b' assume "b' \<in> set bs"
    then obtain c where "c \<in> set (t_email_blasts v)" "live_blast (eb_ID b') c" using Cons.prems(4) by auto
    then show "\<exists>c\<in>set (t_email_blasts v1). live_blast (eb_ID b') c"
      by (intro bexI [of _ "if live_blast (eb_ID b) c then start_at (w_now w) c else c"])
         (auto simp: v1(3) upd_where_def live_blast_def image_iff intro: bexI [of _ c])
  qed
  ultimately obtain v' where v': "forE bs trigger_blast v1 = (Ok (), v')"
      "t_email_blasts v' = upd_where (\<lambda>c. \<exists>b\<in>set bs. live_blast (eb_ID b) c) (start_at (w_now w)) (t_email_blasts v1)"
      "map message_of (w_queue v') = map message_of (w_queue v1) @ published w (map eb_ID bs)"
    using Cons.IH [OF v1(2)] Cons.prems(3) by auto
  have "t_email_blasts v' = upd_where (\<lambda>c. \<exists>b\<in>set (b # bs). live_blast (eb_ID b) c) (start_at (w_now w)) (t_email_blasts v)"
    using Cons.prems(3) by (auto simp: v'(2) v1(3) upd_where_def live_blast_def)
  moreover have "forE (b # bs) trigger_blast v = (Ok (), v')" by (simp add: bindE_def tryE_def v1(1) v'(1))
  ultimately show ?case using v1(4) v'(3) by (simp add: published_def)
qed

definition due_order :: "world \<Rightarrow> EmailBlast list" where
  "due_order w = sort_Slice (\<lambda>a b. the (eb_ScheduledAt a) < the (eb_ScheduledAt b))
     (filter (due (w_now w)) (t_email_blasts w))"

text \<open>C17: when no statement and no publication fails, one round of the scheduler moves exactly the
  blasts that are due to processing, stamps their start, leaves every other blast alone, and
  publishes one start event per due blast in the order of their schedule; afterwards none is due.\<close>

theorem scheduler_starts_due_blasts:
  assumes "no_faults w" "\<forall>k. w_publish_fault w k = None" "distinct (map eb_ID (t_email_blasts w))"
    "\<forall>b\<in>set (t_email_blasts w). eb_Status b \<in> set sql_email_blast_status"
  shows "\<exists>w'. checkScheduledBlasts w = (Ok (), w') \<and>
    t_email_blasts w' = map (\<lambda>b. if due (w_now w) b then start_at (w_now w) b else b) (t_email_blasts w) \<and>
    map message_of (w_queue w') = map message_of (w_queue w) @
      map (\<lambda>b. (EventBlastStarted, Some (JStr (w_uuid_String w (eb_ID b))))) (due_order w) \<and>
    (\<forall>b\<in>set (t_email_blasts w'). \<not> due (w_now w) b)"
proof -
  have q: "quiet w (ticked w)" using assms(1,2) by (simp add: quiet_def no_faults_def ticked_def)
  have ok: "statuses_ok (t_email_blasts (ticked w))" using assms(4) by (simp add: statuses_ok_def)
  have d: "distinct (map eb_ID (due_order w))" using assms(3) by (simp add: due_order_def distinct_map_filter)
  have live: "(\<exists>b\<in>set (due_order w). live_blast (eb_ID b) c) \<longleftrightarrow> due (w_now w) c" if c: "c \<in> set (t_email_blasts w)" for c
  proof
    assume "\<exists>b\<in>set (due_order w). live_blast (eb_ID b) c"
    then obtain b where b: "b \<in> set (t_email_blasts w)" "due (w_now w) b" "eb_ID c = eb_ID b"
      by (auto simp: due_order_def live_blast_def)
    then show "due (w_now w) c" using distinct_key [OF assms(3) c b(1,3)] by simp
  qed (use c in \<open>auto simp: due_order_def live_blast_def due_def\<close>)
  have "\<forall>b\<in>set (due_order w). \<exists>c\<in>set (t_email_blasts (ticked w)). live_blast (eb_ID b) c"
    by (auto simp: due_order_def live_blast_def due_def)
  then obtain w' where w': "forE (due_order w) trigger_blast (ticked w) = (Ok (), w')"
      "t_email_blasts w' = upd_where (\<lambda>c. \<exists>b\<in>set (due_order w). live_blast (eb_ID b) c) (start_at (w_now w)) (t_email_blasts w)"
      "map message_of (w_queue w') = map message_of (w_queue w) @ published w (map eb_ID (due_order w))"
    using trigger_all_run [OF q ok d] by auto
  have "store_GetScheduledBlasts (w_now w) w = (Ok (due_order w), ticked w)"
    using assms(1) by (simp add: store_GetScheduledBlasts_def wrapE_def tryE_def sql_query_def db_def Let_def
        no_faults_def retE_def due_order_def ticked_def)
  then have "checkScheduledBlasts w = (Ok (), w')"
    using w'(1) unfolding checkScheduledBlasts_def by (simp only: bindE_getE tryE_def prod.case result.case)
  moreover have rows: "t_email_blasts w' = map (\<lambda>b. if due (w_now w) b then start_at (w_now w) b else b) (t_email_blasts w)"
    unfolding w'(2) upd_where_def by (rule map_cong [OF refl]) (simp only: live)
  moreover have "\<forall>b\<in>set (t_email_blasts w'). \<not> due (w_now w) b"
    by (auto simp: rows due_def enums)
  moreover have "map message_of (w_queue w') = map message_of (w_queue w) @
      map (\<lambda>b. (EventBlastStarted, Some (JStr (w_uuid_String w (eb_ID b))))) (due_order w)"
    unfolding w'(3) by (simp add: published_def)
  ultimately show ?thesis by blast
qed

text \<open>Two due blasts, one scheduled for later and one draft.\<close>

definition schedule_world :: world where
  "schedule_world = blast_world\<lparr>w_now := 100, t_email_blasts := [
     (sample_blast 61 ''scheduled'')\<lparr>eb_ScheduledAt := Some 90\<rparr>,
     (sample_blast 62 ''scheduled'')\<lparr>eb_ScheduledAt := Some 50\<rparr>,
     (sample_blast 63 ''scheduled'')\<lparr>eb_ScheduledAt := Some 150\<rparr>, sample_blast 64 ''draft'']\<rparr>"

theorem scheduler_starts_due_blasts_witness:
  "\<exists>w'. checkScheduledBlasts schedule_world = (Ok (), w') \<and>
     map eb_Status (t_email_blasts w') = [''processing'', ''processing'', ''scheduled'', ''draft''] \<and>
     map eb_ID (due_order schedule_world) = [62, 61]"
proof -
  have "no_faults schedule_world" "\<forall>k. w_publish_fault schedule_world k = None"
    by (simp_all add: schedule_world_def blast_world_def no_faults_def sample_world_def empty_world_def)
  moreover have "distinct (map eb_ID (t_email_blasts schedule_world))"
      "\<forall>b\<in>set (t_email_blasts schedule_world). eb_Status b \<in> set sql_email_blast_status" by code_simp+
  ultimately obtain w' where "checkScheduledBlasts schedule_world = (Ok (), w')"
      "t_email_blasts w' = map (\<lambda>b. if due (w_now schedule_world) b then start_at (w_now schedule_world) b else b)
         (t_email_blasts schedule_world)"
    using scheduler_starts_due_blasts [of schedule_world] by blast
  moreover have "map eb_Status (map (\<lambda>b. if due (w_now schedule_world) b then start_at (w_now schedule_world) b else b)
         (t_email_blasts schedule_world)) = [''processing'', ''processing'', ''scheduled'', ''draft'']"
      "map eb_ID (due_order schedule_world) = [62, 61]" by code_simp+
  ultimately show ?thesis by metis
qed

end
