(* ===== verification/Arrays.thy ===== *)
theory Arrays
  imports World
begin

text \<open>
  The column types of store/models.go for text[] and uuid[]: Value writes the PostgreSQL array
  literal, Scan reads one back. A nil slice is None. The server hands a literal back as it was
  written, which holds for items without quotes, backslashes, white space or NULL; what the
  application does to other items is the subject of the round trips below.
\<close>

section \<open>Go values\<close>

definition array_literal :: "string list \<Rightarrow> string" where
  "array_literal xs = ''{'' @ strings_Join xs '','' @ ''}''"

definition StringArray_Value :: "string list option \<Rightarrow> string option" where
  "StringArray_Value a = (case a of None \<Rightarrow> None
     | Some xs \<Rightarrow> Some (if xs = [] then ''{}'' else array_literal xs))"

definition StringArray_Scan :: "string option \<Rightarrow> string list option" where
  "StringArray_Scan v = (case v of None \<Rightarrow> None
     | Some str \<Rightarrow> if str = '''' \<or> str = ''{}'' then Some []
        else let str' = strings_Trim str ''{}'' in
          if str' = '''' then Some [] else Some (strings_Split str' CHR '',''))"

definition UUIDArray_Value :: "(uuid \<Rightarrow> string) \<Rightarrow> uuid list option \<Rightarrow> string option" where
  "UUIDArray_Value to_string a = (case a of None \<Rightarrow> None
     | Some xs \<Rightarrow> Some (if xs = [] then ''{}'' else array_literal (map to_string xs)))"

text \<open>The loop of Scan: the ids parsed so far, or the index of the first part that does not parse.\<close>

fun parse_parts :: "(string \<Rightarrow> uuid option) \<Rightarrow> nat \<Rightarrow> string list \<Rightarrow> err + uuid list" where
  "parse_parts parse i [] = Inr []"
| "parse_parts parse i (p # ps) = (case parse p of
       None \<Rightarrow> Inl (Wrap (''failed to parse UUID at index '' @ Itoa (int i)) (ExtErr ''invalid UUID''))
     | Some u \<Rightarrow> (case parse_parts parse (Suc i) ps of Inl e \<Rightarrow> Inl e | Inr us \<Rightarrow> Inr (u # us)))"

definition UUIDArray_Scan :: "(string \<Rightarrow> uuid option) \<Rightarrow> string option \<Rightarrow> err + uuid list option" where
  "UUIDArray_Scan parse v = (case v of None \<Rightarrow> Inr None
     | Some str \<Rightarrow> if str = '''' \<or> str = ''{}'' then Inr (Some [])
        else let str' = strings_Trim str ''{}'' in
          if str' = '''' then Inr (Some [])
          else (case parse_parts parse 0 (strings_Split str' CHR '','') of
              Inl e \<Rightarrow> Inl e | Inr us \<Rightarrow> Inr (Some us)))"

text \<open>A text[] column read back.\<close>

definition stored_strings :: "string list \<Rightarrow> string list" where
  "stored_strings xs = (case StringArray_Scan (StringArray_Value (Some xs)) of None \<Rightarrow> [] | Some ys \<Rightarrow> ys)"

section \<open>Round trips\<close>

definition plain_item :: "string \<Rightarrow> bool" where
  "plain_item s = (set s \<inter> {CHR '','', CHR ''{'', CHR ''}''} = {})"

lemma strings_Join_chars: "set (strings_Join xs sep) \<subseteq> \<Union> (set ` set xs) \<union> set sep"
  by (induction xs sep rule: strings_Join.induct) auto

lemma Join_Nil: "strings_Join xs '','' = '''' \<longleftrightarrow> xs = [] \<or> xs = ['''']"
  by (cases xs; cases "tl xs") auto

lemma dropWhile_none: "\<forall>c\<in>set s. \<not> P c \<Longrightarrow> dropWhile P s = s"
  by (cases s) auto

lemma trim_brackets:
  assumes "\<forall>c\<in>set s. \<not> P c" "P a" "P b"
  shows "trim_by P (a # s @ [b]) = s"
proof -
  have "dropWhile P (s @ [b]) = (if s = [] then [] else s @ [b])"
    using assms by (cases s) auto
  then show ?thesis
    using assms dropWhile_none [of "rev s" P] by (simp add: trim_by_def)
qed

lemma trim_literal:
  assumes "\<forall>x\<in>set xs. plain_item x"
  shows "strings_Trim (array_literal xs) ''{}'' = strings_Join xs '',''"
proof -
  have "set (strings_Join xs '','') \<inter> {CHR ''{'', CHR ''}''} = {}"
    using strings_Join_chars [of xs "'',''"] assms by (fastforce simp: plain_item_def)
  then have "\<forall>c\<in>set (strings_Join xs '',''). c \<notin> set ''{}''" by auto
  then show ?thesis
    using trim_brackets [of "strings_Join xs '',''" "\<lambda>c. c \<in> set ''{}''" "CHR ''{''" "CHR ''}''"]
    by (simp add: strings_Trim_def array_literal_def)
qed

lemma array_literal_brackets: "array_literal xs \<noteq> ''''" "array_literal xs = ''{}'' \<longleftrightarrow> strings_Join xs '','' = ''''"
  by (auto simp: array_literal_def)

lemma string_array_trip:
  assumes "\<forall>x\<in>set xs. plain_item x"
  shows "StringArray_Scan (StringArray_Value (Some xs)) = Some (if xs = [''''] then [] else xs)"
proof (cases "xs = [] \<or> xs = ['''']")
  case False
  then have "strings_Join xs '','' \<noteq> ''''" using Join_Nil by blast
  moreover have "strings_Split (strings_Join xs '','') CHR '','' = xs"
    using assms False by (intro strings_Split_Join) (auto simp: plain_item_def)
  ultimately show ?thesis
    using False by (simp add: StringArray_Scan_def StringArray_Value_def Let_def array_literal_brackets trim_literal [OF assms])
qed (auto simp: StringArray_Scan_def StringArray_Value_def array_literal_def)

lemma stored_strings_plain: "\<forall>x\<in>set xs. plain_item x \<and> x \<noteq> '''' \<Longrightarrow> stored_strings xs = xs"
  using string_array_trip [of xs] by (auto simp: stored_strings_def)

lemma parse_parts_trip:
  "\<forall>u\<in>set us. parse (to_string u) = Some u \<Longrightarrow> parse_parts parse i (map to_string us) = Inr us"
  by (induction us arbitrary: i) auto

lemma uuid_array_trip:
  assumes "\<forall>u. parse (to_string u) = Some u \<and> plain_item (to_string u) \<and> to_string u \<noteq> ''''"
  shows "UUIDArray_Scan parse (UUIDArray_Value to_string a) = Inr a"
proof (cases a)
  case (Some us)
  have p: "\<forall>x\<in>set (map to_string us). plain_item x" using assms by simp
  show ?thesis
  proof (cases "us = []")
    case False
    have "map to_string us \<noteq> ['''']" using assms by auto
    then have "strings_Join (map to_string us) '','' \<noteq> ''''" using Join_Nil [of "map to_string us"] False by simp
    moreover have "strings_Split (strings_Join (map to_string us) '','') CHR '','' = map to_string us"
      using p False by (intro strings_Split_Join) (auto simp: plain_item_def)
    ultimately show ?thesis
      using False Some parse_parts_trip [of us parse to_string 0] assms
      by (simp add: UUIDArray_Scan_def UUIDArray_Value_def Let_def array_literal_brackets trim_literal [OF p])
  qed (simp add: Some UUIDArray_Scan_def UUIDArray_Value_def)
qed (simp add: UUIDArray_Scan_def UUIDArray_Value_def)

text \<open>A uuid[] column gives back exactly the slice it was given, nil and empty included, when the
  uuid package prints ids in a form it parses and without commas or braces. A text[] column does
  so for items without commas and braces, except that a single empty string comes back as no
  item; an item with a comma comes back as two.\<close>

theorem array_columns_roundtrip:
  assumes "\<forall>u. parse (to_string u) = Some u \<and> plain_item (to_string u) \<and> to_string u \<noteq> ''''"
    "\<forall>x\<in>set xs. plain_item x" "xs \<noteq> ['''']" "plain_item y" "plain_item z"
  shows "UUIDArray_Scan parse (UUIDArray_Value to_string a) = Inr a \<and>
    StringArray_Scan (StringArray_Value (Some xs)) = Some xs \<and>
    StringArray_Scan (StringArray_Value None) = None \<and>
    StringArray_Scan (StringArray_Value (Some [''''])) = Some [] \<and>
    StringArray_Scan (StringArray_Value (Some [y @ '','' @ z])) = Some [y, z]"
proof -
  have "StringArray_Value (Some [y @ '','' @ z]) = StringArray_Value (Some [y, z])"
    by (simp add: StringArray_Value_def array_literal_def)
  then show ?thesis
    using uuid_array_trip [OF assms(1)] string_array_trip [OF assms(2)] string_array_trip [of "[y, z]"]
      string_array_trip [of "['''']"] assms(3-5)
    by (simp add: StringArray_Value_def StringArray_Scan_def plain_item_def)
qed

text \<open>An injective printing of the ids, in unary.\<close>

definition sample_print :: "uuid \<Rightarrow> string" where
  "sample_print u = CHR ''x'' # replicate (unat u) CHR ''0''"

definition sample_parse :: "string \<Rightarrow> uuid option" where
  "sample_parse s = Some (of_nat (length s - 1))"

theorem array_columns_roundtrip_witness:
  "UUIDArray_Scan sample_parse (UUIDArray_Value sample_print (Some [7, 8])) = Inr (Some [7, 8]) \<and>
   StringArray_Scan (StringArray_Value (Some [''user.created'', ''email.sent''])) =
     Some [''user.created'', ''email.sent'']"
proof -
  have "sample_parse (sample_print u) = Some u \<and> plain_item (sample_print u) \<and> sample_print u \<noteq> ''''" for u
    by (auto simp: sample_parse_def sample_print_def plain_item_def)
  then show ?thesis
    using array_columns_roundtrip [of sample_parse sample_print "[''user.created'', ''email.sent'']" "''a''" "''b''" "Some [7, 8]"]
    by (simp add: plain_item_def)
qed

end
