(* ===== verification/WebhookStore.thy ===== *)
theory WebhookStore
  imports CampaignStore WaitlistStore Enums Arrays
begin

text \<open>
  store/webhook.go: the webhooks of an account and the record of every delivery. Column defaults
  and types are those of migration V0016; the events of a webhook go through the text[] column
  (theory Arrays).
\<close>

section \<open>Webhooks\<close>

record store_CreateWebhookParams =
  cwp_AccountID :: uuid
  cwp_CampaignID :: "uuid option"
  cwp_URL :: string
  cwp_Secret :: string
  cwp_Events :: "string list"
  cwp_RetryEnabled :: bool
  cwp_MaxRetries :: int

definition webhook_insert_check :: "world \<Rightarrow> Webhook list \<Rightarrow> Webhook \<Rightarrow> string option" where
  "webhook_insert_check w rows r =
     (if 500 < length (wh_URL r) \<or> 255 < length (wh_Secret r) then Some ''value too long for type character varying''
      else if wh_ID r \<in> wh_ID ` set rows
      then Some ''duplicate key value violates unique constraint webhooks_pkey'' else None)"

definition store_CreateWebhook :: "store_CreateWebhookParams \<Rightarrow> (world, Webhook) go" where
  "store_CreateWebhook p = wrapE ''failed to create webhook''
     (sql_insert webhooks_tbl webhook_insert_check
        (\<lambda>i now. \<lparr>wh_ID = i, wh_AccountID = cwp_AccountID p, wh_CampaignID = cwp_CampaignID p,
           wh_URL = cwp_URL p, wh_Secret = cwp_Secret p, wh_Events = stored_strings (cwp_Events p),
           wh_Status = WebhookStatusActive, wh_RetryEnabled = cwp_RetryEnabled p,
           wh_MaxRetries = cwp_MaxRetries p, wh_TotalSent = 0, wh_TotalFailed = 0,
           wh_LastSuccessAt = None, wh_LastFailureAt = None, wh_CreatedAt = now, wh_UpdatedAt = now,
           wh_DeletedAt = None\<rparr>))"

definition live_webhook :: "uuid \<Rightarrow> Webhook \<Rightarrow> bool" where
  "live_webhook i h = (wh_ID h = i \<and> wh_DeletedAt h = None)"

definition store_GetWebhookByID :: "uuid \<Rightarrow> (world, Webhook) go" where
  "store_GetWebhookByID webhookID = row_or ''failed to get webhook''
     (sql_get (\<lambda>w. filter (live_webhook webhookID) (t_webhooks w)))"

definition webhooks_where :: "(Webhook \<Rightarrow> bool) \<Rightarrow> world \<Rightarrow> Webhook list" where
  "webhooks_where P w = sort_Slice (\<lambda>a b. wh_CreatedAt b < wh_CreatedAt a)
     (filter (\<lambda>h. P h \<and> wh_DeletedAt h = None) (t_webhooks w))"

definition store_GetWebhooksByAccount :: "uuid \<Rightarrow> (world, Webhook list) go" where
  "store_GetWebhooksByAccount accountID = wrapE ''failed to get webhooks by account''
     (sql_query (webhooks_where (\<lambda>h. wh_AccountID h = accountID)))"

definition store_GetWebhooksByCampaign :: "uuid \<Rightarrow> (world, Webhook list) go" where
  "store_GetWebhooksByCampaign campaignID = wrapE ''failed to get webhooks by campaign''
     (sql_query (webhooks_where (\<lambda>h. wh_CampaignID h = Some campaignID)))"

text \<open>A nil slice of events is None and keeps the column.\<close>

record store_UpdateWebhookParams =
  uwp_URL :: "string option"
  uwp_Events :: "string list option"
  uwp_Status :: "string option"
  uwp_RetryEnabled :: "bool option"
  uwp_MaxRetries :: "int option"

definition webhook_check :: "Webhook list \<Rightarrow> string option" where
  "webhook_check rows = (if \<exists>h\<in>set rows. wh_Status h \<notin> set sql_webhook_status
     then Some ''invalid input value for enum webhook_status''
     else if \<exists>h\<in>set rows. 500 < length (wh_URL h) then Some ''value too long for type character varying''
     else None)"

definition store_UpdateWebhook :: "uuid \<Rightarrow> store_UpdateWebhookParams \<Rightarrow> (world, Webhook) go" where
  "store_UpdateWebhook webhookID p = row_or ''failed to update webhook''
     (sql_update_returning webhooks_tbl webhook_check (live_webhook webhookID)
        (\<lambda>w h. h\<lparr>wh_URL := coalesce (uwp_URL p) (wh_URL h),
          wh_Events := coalesce (map_option stored_strings (uwp_Events p)) (wh_Events h),
          wh_Status := coalesce (uwp_Status p) (wh_Status h),
          wh_RetryEnabled := coalesce (uwp_RetryEnabled p) (wh_RetryEnabled h),
          wh_MaxRetries := coalesce (uwp_MaxRetries p) (wh_MaxRetries h), wh_UpdatedAt := w_now w\<rparr>))"

definition store_DeleteWebhook :: "uuid \<Rightarrow> (world, unit) go" where
  "store_DeleteWebhook webhookID = affected_or ''failed to delete webhook''
     (sql_update webhooks_tbl no_check (live_webhook webhookID)
        (\<lambda>w h. h\<lparr>wh_DeletedAt := Some (w_now w)\<rparr>))"

definition store_IncrementWebhookSent :: "uuid \<Rightarrow> (world, unit) go" where
  "store_IncrementWebhookSent webhookID = exec_or ''failed to increment webhook sent''
     (sql_update webhooks_tbl no_check (\<lambda>h. wh_ID h = webhookID)
        (\<lambda>w h. h\<lparr>wh_TotalSent := wh_TotalSent h + 1, wh_LastSuccessAt := Some (w_now w), wh_UpdatedAt := w_now w\<rparr>))"

definition store_IncrementWebhookFailed :: "uuid \<Rightarrow> (world, unit) go" where
  "store_IncrementWebhookFailed webhookID = exec_or ''failed to increment webhook failed''
     (sql_update webhooks_tbl no_check (\<lambda>h. wh_ID h = webhookID)
        (\<lambda>w h. h\<lparr>wh_TotalFailed := wh_TotalFailed h + 1, wh_LastFailureAt := Some (w_now w), wh_UpdatedAt := w_now w\<rparr>))"

section \<open>Deliveries\<close>

record CreateWebhookDeliveryParams =
  cdp_WebhookID :: uuid
  cdp_EventType :: string
  cdp_Payload :: jsonb
  cdp_NextRetryAt :: "time option"

definition delivery_insert_check :: "world \<Rightarrow> WebhookDelivery list \<Rightarrow> WebhookDelivery \<Rightarrow> string option" where
  "delivery_insert_check w rows r =
     (if wd_Payload r = None then Some ''null value in column payload violates not-null constraint''
      else if 100 < length (wd_EventType r) then Some ''value too long for type character varying''
      else if wd_ID r \<in> wd_ID ` set rows
      then Some ''duplicate key value violates unique constraint webhook_deliveries_pkey'' else None)"

definition new_delivery :: "CreateWebhookDeliveryParams \<Rightarrow> uuid \<Rightarrow> time \<Rightarrow> WebhookDelivery" where
  "new_delivery p i now = \<lparr>wd_ID = i, wd_WebhookID = cdp_WebhookID p, wd_EventType = cdp_EventType p,
     wd_Payload = jsonb_stored (cdp_Payload p), wd_Status = WebhookDeliveryStatusPending,
     wd_RequestHeaders = None, wd_ResponseStatus = None, wd_ResponseBody = None, wd_ResponseHeaders = None,
     wd_DurationMs = None, wd_AttemptNumber = 1, wd_NextRetryAt = cdp_NextRetryAt p,
     wd_ErrorMessage = None, wd_CreatedAt = now, wd_DeliveredAt = None\<rparr>"

definition store_CreateWebhookDelivery :: "CreateWebhookDeliveryParams \<Rightarrow> (world, WebhookDelivery) go" where
  "store_CreateWebhookDelivery p = wrapE ''failed to create webhook delivery''
     (sql_insert webhook_deliveries_tbl delivery_insert_check (new_delivery p))"

definition store_GetWebhookDeliveryByID :: "uuid \<Rightarrow> (world, WebhookDelivery) go" where
  "store_GetWebhookDeliveryByID deliveryID = row_or ''failed to get webhook delivery''
     (sql_get (\<lambda>w. filter (\<lambda>d. wd_ID d = deliveryID) (t_webhook_deliveries w)))"

definition store_GetWebhookDeliveriesByWebhook :: "uuid \<Rightarrow> int \<Rightarrow> int \<Rightarrow> (world, WebhookDelivery list) go" where
  "store_GetWebhookDeliveriesByWebhook webhookID lmt off = wrapE ''failed to get webhook deliveries''
     (sql_page (\<lambda>w. sort_Slice (\<lambda>a b. wd_CreatedAt b < wd_CreatedAt a)
        (filter (\<lambda>d. wd_WebhookID d = webhookID) (t_webhook_deliveries w))) lmt off)"

record UpdateWebhookDeliveryStatusParams =
  udp_Status :: string
  udp_ResponseStatus :: "int option"
  udp_ResponseBody :: "string option"
  udp_DurationMs :: "int option"
  udp_ErrorMessage :: "string option"

definition set_delivery_status :: "UpdateWebhookDeliveryStatusParams \<Rightarrow> time \<Rightarrow> WebhookDelivery \<Rightarrow> WebhookDelivery" where
  "set_delivery_status p now d = d\<lparr>wd_Status := udp_Status p, wd_ResponseStatus := udp_ResponseStatus p,
     wd_ResponseBody := udp_ResponseBody p, wd_DurationMs := udp_DurationMs p,
     wd_ErrorMessage := udp_ErrorMessage p,
     wd_DeliveredAt := (if udp_Status p = ''success'' then Some now else wd_DeliveredAt d)\<rparr>"

definition delivery_check :: "WebhookDelivery list \<Rightarrow> string option" where
  "delivery_check rows = (if \<forall>d\<in>set rows. wd_Status d \<in> set sql_webhook_delivery_status then None
     else Some ''invalid input value for enum webhook_delivery_status'')"

definition store_UpdateWebhookDeliveryStatus ::
    "uuid \<Rightarrow> UpdateWebhookDeliveryStatusParams \<Rightarrow> (world, unit) go" where
  "store_UpdateWebhookDeliveryStatus deliveryID p = affected_or ''failed to update webhook delivery status''
     (sql_update webhook_deliveries_tbl delivery_check (\<lambda>d. wd_ID d = deliveryID)
        (\<lambda>w. set_delivery_status p (w_now w)))"

text \<open>WHERE status = 'failed' AND next_retry_at \<open>\<le>\<close> the clock AND attempt_number < the maximum;
  ORDER BY next_retry_at; LIMIT.\<close>

definition retry_due :: "time \<Rightarrow> int \<Rightarrow> WebhookDelivery \<Rightarrow> bool" where
  "retry_due now maxAttempt d = (wd_Status d = ''failed'' \<and>
     (case wd_NextRetryAt d of None \<Rightarrow> False | Some t \<Rightarrow> t \<le> now) \<and> wd_AttemptNumber d < maxAttempt)"

definition store_GetPendingWebhookDeliveries :: "int \<Rightarrow> int \<Rightarrow> (world, WebhookDelivery list) go" where
  "store_GetPendingWebhookDeliveries lmt maxAttempt = wrapE ''failed to get pending webhook deliveries''
     (sql_page (\<lambda>w. sort_Slice (\<lambda>a b. the (wd_NextRetryAt a) < the (wd_NextRetryAt b))
        (filter (retry_due (w_now w) maxAttempt) (t_webhook_deliveries w))) lmt 0)"

definition store_IncrementDeliveryAttempt :: "uuid \<Rightarrow> time option \<Rightarrow> (world, unit) go" where
  "store_IncrementDeliveryAttempt deliveryID nextRetryAt = exec_or ''failed to increment delivery attempt''
     (sql_update webhook_deliveries_tbl no_check (\<lambda>d. wd_ID d = deliveryID)
        (\<lambda>w d. d\<lparr>wd_AttemptNumber := wd_AttemptNumber d + 1, wd_NextRetryAt := nextRetryAt\<rparr>))"

end
