(* ===== verification/Webhooks.thy ===== *)
theory Webhooks
  imports WebhookStore Access Utils Events
begin

text \<open>
  webhooks/service/service.go, webhooks/worker/worker.go, webhooks/processor/processor.go and
  webhooks/processor/event_processor.go. A request that was handed to the HTTP client is appended
  to \<^verbatim>\<open>w_http_log\<close>; the answer is the environment's, indexed by the statements run so far. JSON text,
  HMAC and the form of a time are the environment's, too.
\<close>

section \<open>Payload and signature\<close>

record WebhookPayload =
  wp_ID :: string
  wp_Type :: string
  wp_CreatedAt :: string
  wp_Data :: jsonb
  wp_AccountID :: string

text \<open>json.Marshal of the struct, in the order of its fields.\<close>

definition payload_json :: "WebhookPayload \<Rightarrow> jval" where
  "payload_json p = JObj [(''id'', JStr (wp_ID p)), (''type'', JStr (wp_Type p)),
     (''created_at'', JStr (wp_CreatedAt p)),
     (''data'', case wp_Data p of None \<Rightarrow> JNull | Some kvs \<Rightarrow> JObj kvs),
     (''account_id'', JStr (wp_AccountID p))]"

text \<open>hex.EncodeToString.\<close>

definition hex_digit :: "nat \<Rightarrow> char" where
  "hex_digit n = ''0123456789abcdef'' ! (n mod 16)"

definition hex_EncodeToString :: "nat list \<Rightarrow> string" where
  "hex_EncodeToString bs = concat (map (\<lambda>b. [hex_digit (b div 16), hex_digit b]) bs)"

definition time_Unix :: "time \<Rightarrow> int" where
  "time_Unix t = t div 1000000000"

definition generateSignature :: "(string \<Rightarrow> string \<Rightarrow> nat list) \<Rightarrow> string \<Rightarrow> string \<Rightarrow> int \<Rightarrow> string" where
  "generateSignature hmac secret payload timestamp =
     (let signedPayload = Itoa timestamp @ ''.'' @ payload;
          signature = hex_EncodeToString (hmac secret signedPayload) in
      ''t='' @ Itoa timestamp @ '',v1='' @ signature)"

definition second :: int where
  "second = 1000000000"

definition calculateNextRetry :: "time \<Rightarrow> int \<Rightarrow> time" where
  "calculateNextRetry now attemptNumber = now +
     (if attemptNumber = 1 then 2 * second
      else if attemptNumber = 2 then 10 * second
      else if attemptNumber = 3 then 20 * second
      else if attemptNumber = 4 then 40 * second
      else if attemptNumber = 5 then 60 * second
      else 300 * second)"

section \<open>One HTTP request\<close>

record delivery_outcome =
  do_success :: bool
  do_responseStatus :: int
  do_responseBody :: string
  do_durationMs :: int
  do_err :: "err option"

definition http_Do :: "http_request \<Rightarrow> (world, http_reply \<times> int) go" where
  "http_Do req w = (case w_http w (w_calls w) of (reply, ms) \<Rightarrow>
     (Ok (reply, ms), case reply of RequestError m \<Rightarrow> w | _ \<Rightarrow> w\<lparr>w_http_log := w_http_log w @ [req]\<rparr>))"

definition outcome_of :: "http_reply \<Rightarrow> int \<Rightarrow> delivery_outcome" where
  "outcome_of reply ms = (case reply of
       RequestError m \<Rightarrow> \<lparr>do_success = False, do_responseStatus = 0, do_responseBody = '''', do_durationMs = 0,
         do_err = Some (Wrap ''failed to create request'' (ExtErr m))\<rparr>
     | SendError m \<Rightarrow> \<lparr>do_success = False, do_responseStatus = 0, do_responseBody = '''', do_durationMs = ms,
         do_err = Some (Wrap ''failed to send request'' (ExtErr m))\<rparr>
     | Reply code body \<Rightarrow> (let b = (case body of None \<Rightarrow> '''' | Some s \<Rightarrow> take 10240 s) in
         if 200 \<le> code \<and> code < 300
         then \<lparr>do_success = True, do_responseStatus = code, do_responseBody = b, do_durationMs = ms, do_err = None\<rparr>
         else \<lparr>do_success = False, do_responseStatus = code, do_responseBody = b, do_durationMs = ms,
           do_err = Some (NewErr (''received non-2xx status code: '' @ Itoa code))\<rparr>))"

definition deliverWebhook :: "Webhook \<Rightarrow> string \<Rightarrow> (world, delivery_outcome) go" where
  "deliverWebhook webhook payload = bindE (getE (\<lambda>w. w)) (\<lambda>w.
     let signature = generateSignature (w_hmac_sha256 w) (wh_Secret webhook) payload (time_Unix (w_now w)) in
     bindE (http_Do \<lparr>hr_Method = ''POST'', hr_URL = wh_URL webhook,
       hr_Header = [(''Content-Type'', ''application/json''), (''X-Webhook-Signature'', signature),
         (''User-Agent'', ''Waitlist-Platform-Webhook/1.0'')], hr_Body = payload\<rparr>) (\<lambda>(reply, ms).
     retE (outcome_of reply ms)))"

section \<open>Dispatching an event\<close>

definition delivery_status :: "string \<Rightarrow> delivery_outcome \<Rightarrow> string option \<Rightarrow> UpdateWebhookDeliveryStatusParams" where
  "delivery_status st out msg = \<lparr>udp_Status = st, udp_ResponseStatus = Some (do_responseStatus out),
     udp_ResponseBody = Some (do_responseBody out), udp_DurationMs = Some (do_durationMs out),
     udp_ErrorMessage = msg\<rparr>"

definition outcome_message :: "delivery_outcome \<Rightarrow> string" where
  "outcome_message out = (case do_err out of None \<Rightarrow> '''' | Some e \<Rightarrow> err_Error e)"

text \<open>The success branch of a delivery; both errors are logged.\<close>

definition record_success :: "Webhook \<Rightarrow> WebhookDelivery \<Rightarrow> delivery_outcome \<Rightarrow> (world, unit) go" where
  "record_success webhook delivery out =
     bindE (logE (store_UpdateWebhookDeliveryStatus (wd_ID delivery) (delivery_status ''success'' out None))) (\<lambda>u.
     logE (store_IncrementWebhookSent (wh_ID webhook)))"

definition sendWebhook :: "Webhook \<Rightarrow> WebhookPayload \<Rightarrow> (world, unit) go" where
  "sendWebhook webhook payload =
     bindE (getE (\<lambda>w. w_json_Marshal w (payload_json payload))) (\<lambda>payloadBytes.
     bindE (wrapE ''failed to create webhook delivery'' (store_CreateWebhookDelivery
       \<lparr>cdp_WebhookID = wh_ID webhook, cdp_EventType = wp_Type payload, cdp_Payload = wp_Data payload,
        cdp_NextRetryAt = None\<rparr>)) (\<lambda>delivery.
     bindE (deliverWebhook webhook payloadBytes) (\<lambda>out.
     if do_success out then record_success webhook delivery out
     else bindE (getE w_now) (\<lambda>now.
       let errorMessage = outcome_message out;
           nextRetryAt = (if wh_RetryEnabled webhook \<and> wd_AttemptNumber delivery < wh_MaxRetries webhook
             then Some (calculateNextRetry now (wd_AttemptNumber delivery)) else None) in
       bindE (logE (store_UpdateWebhookDeliveryStatus (wd_ID delivery)
                (delivery_status ''failed'' out (Some errorMessage)))) (\<lambda>u.
       bindE (logE (if nextRetryAt \<noteq> None
                then store_IncrementDeliveryAttempt (wd_ID delivery) nextRetryAt
                else store_IncrementWebhookFailed (wh_ID webhook))) (\<lambda>u.
       failE (NewErr (''webhook delivery failed: '' @ errorMessage))))))))"

definition subscribesToEvent :: "string list \<Rightarrow> string \<Rightarrow> bool" where
  "subscribesToEvent subscribedEvents eventType = list_ex (\<lambda>e. e = eventType) subscribedEvents"

text \<open>The filter of the loop; a webhook or an event without campaign matches every campaign.\<close>

definition relevant :: "uuid option \<Rightarrow> string \<Rightarrow> Webhook \<Rightarrow> bool" where
  "relevant campaignID eventType webhook =
     (\<not> (wh_DeletedAt webhook \<noteq> None \<or> wh_Status webhook \<noteq> ''active'') \<and>
      \<not> (campaignID \<noteq> None \<and> wh_CampaignID webhook \<noteq> None \<and> wh_CampaignID webhook \<noteq> campaignID) \<and>
      subscribesToEvent (wh_Events webhook) eventType)"

definition DispatchEvent :: "uuid \<Rightarrow> uuid option \<Rightarrow> string \<Rightarrow> jsonb \<Rightarrow> (world, unit) go" where
  "DispatchEvent accountID campaignID eventType data =
     bindE (wrapE ''failed to get webhooks'' (store_GetWebhooksByAccount accountID)) (\<lambda>webhooks.
     let relevantWebhooks = filter (relevant campaignID eventType) webhooks in
     bindE uuid_New (\<lambda>i.
     bindE (getE (\<lambda>w. w)) (\<lambda>w.
     let payload = \<lparr>wp_ID = w_uuid_String w i, wp_Type = eventType, wp_CreatedAt = w_time_Format w (w_now w),
           wp_Data = data, wp_AccountID = w_uuid_String w accountID\<rparr> in
     forE relevantWebhooks (\<lambda>webhook. logE (sendWebhook webhook payload)))))"

section \<open>Retries\<close>

text \<open>The failure branch of a retry: \<^verbatim>\<open>nextRetryAt.Format\<close> dereferences the pointer whether or not it
  was set.\<close>

definition record_retry_failure :: "Webhook \<Rightarrow> WebhookDelivery \<Rightarrow> delivery_outcome \<Rightarrow> (world, unit) go" where
  "record_retry_failure webhook delivery out = bindE (getE w_now) (\<lambda>now.
     let errorMessage = outcome_message out;
         nextRetryAt = (if wh_RetryEnabled webhook \<and> wd_AttemptNumber delivery < wh_MaxRetries webhook
           then Some (calculateNextRetry now (wd_AttemptNumber delivery + 1)) else None) in
     bindE (logE (store_UpdateWebhookDeliveryStatus (wd_ID delivery)
              (delivery_status ''failed'' out (Some errorMessage)))) (\<lambda>u.
     bindE (logE (store_IncrementDeliveryAttempt (wd_ID delivery) nextRetryAt)) (\<lambda>u.
     if nextRetryAt = None then panicE ''nil pointer dereference''
     else if wd_AttemptNumber delivery = wh_MaxRetries webhook
     then logE (store_IncrementWebhookFailed (wh_ID webhook))
     else retE ())))"

definition retry_delivery :: "WebhookDelivery \<Rightarrow> (world, unit) go" where
  "retry_delivery delivery =
     tryE (store_GetWebhookByID (wd_WebhookID delivery)) (\<lambda>e. retE ()) (\<lambda>webhook.
     if wh_DeletedAt webhook \<noteq> None \<or> wh_Status webhook \<noteq> ''active'' then retE ()
     else bindE (getE (\<lambda>w. w_json_Marshal w (payload_json
         \<lparr>wp_ID = w_uuid_String w (wd_ID delivery), wp_Type = wd_EventType delivery,
          wp_CreatedAt = w_time_Format w (w_now w), wp_Data = wd_Payload delivery,
          wp_AccountID = w_uuid_String w (wh_AccountID webhook)\<rparr>))) (\<lambda>payloadBytes.
     bindE (deliverWebhook webhook payloadBytes) (\<lambda>out.
     if do_success out then record_success webhook delivery out
     else record_retry_failure webhook delivery out)))"

definition RetryFailedDeliveries :: "int \<Rightarrow> (world, unit) go" where
  "RetryFailedDeliveries lmt =
     bindE (wrapE ''failed to get pending deliveries'' (store_GetPendingWebhookDeliveries lmt 5)) (\<lambda>deliveries.
     forE deliveries retry_delivery)"

definition processRetries :: "(world, unit) go" where
  "processRetries = logE (RetryFailedDeliveries 100)"

definition service_TestWebhook :: "uuid \<Rightarrow> (world, unit) go" where
  "service_TestWebhook webhookID =
     bindE (wrapE ''failed to get webhook'' (store_GetWebhookByID webhookID)) (\<lambda>webhook.
     bindE uuid_New (\<lambda>i.
     bindE (getE (\<lambda>w. w)) (\<lambda>w.
     sendWebhook webhook \<lparr>wp_ID = w_uuid_String w i, wp_Type = ''webhook.test'',
       wp_CreatedAt = w_time_Format w (w_now w),
       wp_Data = Some [(''test'', JBool True), (''message'', JStr ''This is a test webhook event'')],
       wp_AccountID = w_uuid_String w (wh_AccountID webhook)\<rparr>)))"

section \<open>Processor\<close>

definition isValidEvent :: "string \<Rightarrow> bool" where
  "isValidEvent eventType = (eventType \<in> set [''user.created'', ''user.updated'', ''user.verified'',
     ''user.deleted'', ''user.position_changed'', ''user.converted'', ''referral.created'',
     ''referral.verified'', ''referral.converted'', ''reward.earned'', ''reward.delivered'',
     ''reward.redeemed'', ''campaign.milestone'', ''campaign.launched'', ''campaign.completed'',
     ''email.sent'', ''email.delivered'', ''email.opened'', ''email.clicked'', ''email.bounced''])"

definition isValidStatus :: "string \<Rightarrow> bool" where
  "isValidStatus st = (st = ''active'' \<or> st = ''paused'' \<or> st = ''failed'')"

definition generateSecret :: "(world, string) go" where
  "generateSecret = bindE (rand_Read 32) (\<lambda>bytes. retE (base64_URLEncoding bytes))"

text \<open>The first event of the list that is not valid stops the request.\<close>

definition check_events :: "string list \<Rightarrow> (world, unit) go" where
  "check_events events = forE events (\<lambda>event.
     if isValidEvent event then retE () else failE (NewErr (''invalid event type: '' @ event)))"

record CreateWebhookParams =
  cwr_AccountID :: uuid
  cwr_CampaignID :: "uuid option"
  cwr_URL :: string
  cwr_Events :: "string list"
  cwr_RetryEnabled :: bool
  cwr_MaxRetries :: int

definition CreateWebhook :: "CreateWebhookParams \<Rightarrow> (world, Webhook \<times> string) go" where
  "CreateWebhook params =
     bindE (HasFeatureByAccountID (cwr_AccountID params) ''webhooks_zapier'') (\<lambda>hasFeature.
     if \<not> hasFeature then failE (Sentinel (WB WB_ErrWebhooksNotAvailable))
     else bindE (wrapE ''failed to generate secret'' generateSecret) (\<lambda>secret.
     if cwr_Events params = [] then failE (NewErr ''at least one event must be specified'')
     else bindE (check_events (cwr_Events params)) (\<lambda>u.
     let maxRetries = (if cwr_MaxRetries params = 0 then 5 else cwr_MaxRetries params) in
     bindE (wrapE ''failed to create webhook'' (store_CreateWebhook
       \<lparr>cwp_AccountID = cwr_AccountID params, cwp_CampaignID = cwr_CampaignID params, cwp_URL = cwr_URL params,
        cwp_Secret = secret, cwp_Events = cwr_Events params, cwp_RetryEnabled = cwr_RetryEnabled params,
        cwp_MaxRetries = maxRetries\<rparr>)) (\<lambda>webhook.
     retE (webhook, secret)))))"

record UpdateWebhookParams =
  uwr_URL :: "string option"
  uwr_Events :: "string list option"
  uwr_Status :: "string option"
  uwr_RetryEnabled :: "bool option"
  uwr_MaxRetries :: "int option"

text \<open>\<^verbatim>\<open>if errors.Is(err, store.ErrNotFound) { return ErrWebhookNotFound }; return fmt.Errorf(...)\<close>.\<close>

definition webhook_or :: "string \<Rightarrow> (world, 'a) go \<Rightarrow> (world, 'a) go" where
  "webhook_or msg m = tryE m (\<lambda>e. if errors_Is e ErrNotFound
     then failE (Sentinel (WB WB_ErrWebhookNotFound)) else failE (Wrap msg e)) retE"

definition UpdateWebhook :: "uuid \<Rightarrow> UpdateWebhookParams \<Rightarrow> (world, Webhook) go" where
  "UpdateWebhook webhookID params =
     bindE (check_events (case uwr_Events params of None \<Rightarrow> [] | Some es \<Rightarrow> es)) (\<lambda>u.
     bindE (case uwr_Status params of None \<Rightarrow> retE ()
       | Some st \<Rightarrow> if isValidStatus st then retE () else failE (NewErr (''invalid status: '' @ st))) (\<lambda>u.
     webhook_or ''failed to update webhook'' (store_UpdateWebhook webhookID
       \<lparr>uwp_URL = uwr_URL params, uwp_Events = uwr_Events params, uwp_Status = uwr_Status params,
        uwp_RetryEnabled = uwr_RetryEnabled params, uwp_MaxRetries = uwr_MaxRetries params\<rparr>)))"

definition GetWebhook :: "uuid \<Rightarrow> (world, Webhook) go" where
  "GetWebhook webhookID = webhook_or ''failed to get webhook'' (store_GetWebhookByID webhookID)"

definition GetWebhooksByAccount :: "uuid \<Rightarrow> (world, Webhook list) go" where
  "GetWebhooksByAccount accountID = wrapE ''failed to get webhooks'' (store_GetWebhooksByAccount accountID)"

definition GetWebhooksByCampaign :: "uuid \<Rightarrow> (world, Webhook list) go" where
  "GetWebhooksByCampaign campaignID =
     wrapE ''failed to get webhooks for campaign'' (store_GetWebhooksByCampaign campaignID)"

definition DeleteWebhook :: "uuid \<Rightarrow> (world, unit) go" where
  "DeleteWebhook webhookID = webhook_or ''failed to delete webhook'' (store_DeleteWebhook webhookID)"

definition GetWebhookDeliveries :: "uuid \<Rightarrow> int \<Rightarrow> int \<Rightarrow> (world, WebhookDelivery list) go" where
  "GetWebhookDeliveries webhookID lmt off =
     wrapE ''failed to get webhook deliveries'' (store_GetWebhookDeliveriesByWebhook webhookID lmt off)"

definition TestWebhook :: "uuid \<Rightarrow> (world, unit) go" where
  "TestWebhook webhookID = wrapE ''failed to test webhook'' (service_TestWebhook webhookID)"

section \<open>Consuming events\<close>

definition webhook_Process :: "EventMessage \<Rightarrow> (world, unit) go" where
  "webhook_Process event = bindE (getE w_uuid_Parse) (\<lambda>parse.
     case parse (em_AccountID event) of
       None \<Rightarrow> failE (Wrap ''invalid account_id'' (ExtErr ''invalid UUID''))
     | Some accountID \<Rightarrow>
        (case (case em_CampaignID event of None \<Rightarrow> Some None
               | Some s \<Rightarrow> (case parse s of None \<Rightarrow> None | Some c \<Rightarrow> Some (Some c))) of
           None \<Rightarrow> failE (Wrap ''invalid campaign_id'' (ExtErr ''invalid UUID''))
         | Some campaignID \<Rightarrow> wrapE ''failed to dispatch event to webhooks''
             (DispatchEvent accountID campaignID (em_Type event) (em_Data event))))"

end
