(* ===== verification/WebhookFacts.thy ===== *)
theory WebhookFacts
  imports Webhooks Wp Samples "HOL-Library.Sublist"
begin

text \<open>
  What a receiver of webhooks can rely on. The deliveries table keeps a well-formedness invariant
  through every dispatch, test and retry round, in which the attempt number of a delivery never
  passes 5. A request goes only to a live webhook of the event's account that subscribes to it,
  signed with that webhook's secret. A retry round over an exhausted delivery panics.
\<close>

section \<open>Well-formed deliveries\<close>

text \<open>The attempt number of a delivery is between 1 and 5, below 5 when its id is in \<^verbatim>\<open>T\<close>, the
  deliveries that a round has still to retry; its status is one of the column's type, its payload
  was given, and a delivery that succeeded has a time.\<close>

definition delivery_wf :: "WebhookDelivery \<Rightarrow> bool" where
  "delivery_wf d = (1 \<le> wd_AttemptNumber d \<and> wd_AttemptNumber d \<le> 5 \<and>
     wd_Status d \<in> set sql_webhook_delivery_status \<and> wd_Payload d \<noteq> None \<and>
     (wd_Status d = ''success'' \<longrightarrow> wd_DeliveredAt d \<noteq> None))"

definition due_wf :: "uuid set \<Rightarrow> world \<Rightarrow> bool" where
  "due_wf T w = (distinct (map wd_ID (t_webhook_deliveries w)) \<and>
     (\<forall>d\<in>set (t_webhook_deliveries w). delivery_wf d \<and> (wd_ID d \<in> T \<longrightarrow> wd_AttemptNumber d < 5)))"

definition deliveries_wf :: "world \<Rightarrow> bool" where
  "deliveries_wf w = (distinct (map wd_ID (t_webhook_deliveries w)) \<and>
     (\<forall>d\<in>set (t_webhook_deliveries w). delivery_wf d))"

lemma due_wf_empty [simp]: "due_wf {} w = deliveries_wf w"
  by (simp add: due_wf_def deliveries_wf_def)

lemma due_wf_cong: "t_webhook_deliveries w' = t_webhook_deliveries w \<Longrightarrow> due_wf T w' = due_wf T w"
  by (simp add: due_wf_def)

lemma due_wf_mono: "due_wf T w \<Longrightarrow> U \<subseteq> T \<Longrightarrow> due_wf U w"
  unfolding due_wf_def by blast

lemma due_wf_ticked [simp]: "due_wf T (ticked w) = due_wf T w"
  by (rule due_wf_cong) simp

lemma due_wf_deliveries: "due_wf T w \<Longrightarrow> deliveries_wf w"
  by (simp add: due_wf_def deliveries_wf_def)

text \<open>Calls that leave the deliveries alone.\<close>

lemma wp_other_tables:
  assumes "moves (frame t_webhook_deliveries) m" "due_wf T w"
    "\<And>x w'. due_wf T w' \<Longrightarrow> S x w'" "\<And>e w'. due_wf T w' \<Longrightarrow> E e w'"
  shows "wp m S E w"
proof (rule wp_moves [OF assms(1)])
  fix w' assume "frame t_webhook_deliveries w w'"
  then have "due_wf T w'" using assms(2) due_wf_cong [of w' w] by (simp add: frame_def)
  then show "S x w'" "E e w'" for x e using assms(3,4) by blast+
qed

lemma webhook_counters_frame:
  "moves (frame t_webhook_deliveries) (store_IncrementWebhookSent i)"
  "moves (frame t_webhook_deliveries) (store_IncrementWebhookFailed i)"
  unfolding store_IncrementWebhookSent_def store_IncrementWebhookFailed_def
  by (rule frame_rules | simp)+

lemma http_Do_frame: "moves (frame t_webhook_deliveries) (http_Do req)"
  by (auto simp: moves_def frame_def http_Do_def split: prod.splits http_reply.splits)

lemma deliverWebhook_frame: "moves (frame t_webhook_deliveries) (deliverWebhook h p)"
  unfolding deliverWebhook_def Let_def by (rule frame_rules http_Do_frame)+

lemma store_GetWebhookByID_reads [reads]: "moves tick (store_GetWebhookByID i)"
  unfolding store_GetWebhookByID_def by (intro reads)

lemma store_GetWebhooksByAccount_reads [reads]: "moves tick (store_GetWebhooksByAccount i)"
  unfolding store_GetWebhooksByAccount_def by (intro reads tick_rules)

lemma uuid_New_frame: "moves (frame t_webhook_deliveries) uuid_New"
  by (simp add: moves_def frame_def uuid_New_def)

lemma reads_deliveries: "moves tick m \<Longrightarrow> moves (frame t_webhook_deliveries) m"
  by (erule tick_moves_frame) simp

lemmas deliveries_frame = webhook_counters_frame deliverWebhook_frame uuid_New_frame
  reads_deliveries [OF store_GetWebhookByID_reads] reads_deliveries [OF store_GetWebhooksByAccount_reads]

text \<open>The three statements on the table.\<close>

lemma wp_delivery_update:
  assumes "due_wf T w" "\<And>v d. wd_ID (f v d) = wd_ID d"
    "\<And>v d. delivery_wf d \<Longrightarrow> P d \<Longrightarrow> wd_ID d \<in> T \<longrightarrow> wd_AttemptNumber d < 5 \<Longrightarrow>
       chk (upd_where P (f v) (t_webhook_deliveries v)) = None \<Longrightarrow> d \<in> set (t_webhook_deliveries v) \<Longrightarrow>
       delivery_wf (f v d) \<and> (wd_ID d \<in> U \<longrightarrow> wd_AttemptNumber (f v d) < 5)"
    "U \<subseteq> T" "\<And>n w'. due_wf U w' \<Longrightarrow> S n w'" "\<And>e w'. due_wf T w' \<Longrightarrow> E e w'"
  shows "wp (sql_update webhook_deliveries_tbl chk P f) S E w"
proof (rule wp_sql_update)
  fix w' assume c: "chk (upd_where P (f (ticked w)) (fst webhook_deliveries_tbl (ticked w))) = None"
    and w': "w' = snd webhook_deliveries_tbl (\<lambda>_. upd_where P (f (ticked w)) (fst webhook_deliveries_tbl (ticked w))) (ticked w)"
  have "due_wf U w'"
    unfolding due_wf_def
  proof (intro conjI ballI)
    show "distinct (map wd_ID (t_webhook_deliveries w'))"
      using assms(1,2) by (simp add: w' due_wf_def map_upd_where)
    fix d assume "d \<in> set (t_webhook_deliveries w')"
    then obtain d0 where d0: "d0 \<in> set (t_webhook_deliveries w)" "d = (if P d0 then f (ticked w) d0 else d0)"
      by (auto simp: w' set_upd_where)
    have *: "delivery_wf d0" "wd_ID d0 \<in> T \<longrightarrow> wd_AttemptNumber d0 < 5" using assms(1) d0(1) by (auto simp: due_wf_def)
    have "delivery_wf d \<and> (wd_ID d \<in> U \<longrightarrow> wd_AttemptNumber d < 5)"
    proof (cases "P d0")
      case True
      then show ?thesis using assms(3) [of d0 "ticked w"] * True c d0 assms(2) by simp
    next
      case False then show ?thesis using * d0(2) assms(4) by auto
    qed
    then show "delivery_wf d" "wd_ID d \<in> U \<longrightarrow> wd_AttemptNumber d < 5" by auto
  qed
  then show "S (int (length (filter P (fst webhook_deliveries_tbl (ticked w))))) w'" by (rule assms(5))
qed (use assms(1) in \<open>simp add: assms(6)\<close>)

lemma wp_status:
  assumes "due_wf T w" "\<And>x w'. due_wf T w' \<Longrightarrow> S x w'" "\<And>e w'. due_wf T w' \<Longrightarrow> E e w'"
  shows "wp (store_UpdateWebhookDeliveryStatus i p) S E w"
  unfolding store_UpdateWebhookDeliveryStatus_def
proof (rule wp_rules, rule wp_delivery_update [OF assms(1), where U = T])
  fix v d assume d: "delivery_wf d" "wd_ID d = i" "wd_ID d \<in> T \<longrightarrow> wd_AttemptNumber d < 5"
    and c: "delivery_check (upd_where (\<lambda>d. wd_ID d = i) (set_delivery_status p (w_now v)) (t_webhook_deliveries v)) = None"
    and v: "d \<in> set (t_webhook_deliveries v)"
  have "set_delivery_status p (w_now v) d \<in> set (upd_where (\<lambda>d. wd_ID d = i) (set_delivery_status p (w_now v)) (t_webhook_deliveries v))"
    using v d(2) by (auto simp: set_upd_where)
  then have "wd_Status (set_delivery_status p (w_now v) d) \<in> set sql_webhook_delivery_status"
    using c unfolding delivery_check_def by (metis option.distinct(1))
  then show "delivery_wf (set_delivery_status p (w_now v) d) \<and>
      (wd_ID d \<in> T \<longrightarrow> wd_AttemptNumber (set_delivery_status p (w_now v) d) < 5)"
    using d by (auto simp: delivery_wf_def set_delivery_status_def)
qed (auto simp: set_delivery_status_def assms(2,3))

lemma wp_attempt:
  assumes "due_wf (insert i T) w" "i \<notin> T" "\<And>x w'. due_wf T w' \<Longrightarrow> S x w'" "\<And>e w'. due_wf (insert i T) w' \<Longrightarrow> E e w'"
  shows "wp (store_IncrementDeliveryAttempt i t) S E w"
  unfolding store_IncrementDeliveryAttempt_def
  by (rule wp_rules, rule wp_delivery_update [OF assms(1), where U = T])
     (use assms(2) in \<open>auto simp: delivery_wf_def assms(3,4)\<close>)

lemma wp_create:
  assumes "due_wf {} w"
    "\<And>d w'. wd_AttemptNumber d = 1 \<Longrightarrow> due_wf {wd_ID d} w' \<Longrightarrow> S d w'" "\<And>e w'. due_wf {} w' \<Longrightarrow> E e w'"
  shows "wp (store_CreateWebhookDelivery p) S E w"
  unfolding store_CreateWebhookDelivery_def
proof (rule wp_rules, rule wp_sql_insert)
  fix r w' assume r: "delivery_insert_check (ticked w) (fst webhook_deliveries_tbl (ticked w)) r = None"
      "r = new_delivery p (w_uuids w (w_fresh w)) (w_now w)"
    and w': "w' = snd webhook_deliveries_tbl (\<lambda>rows. rows @ [r]) ((ticked w)\<lparr>w_fresh := Suc (w_fresh w)\<rparr>)"
  have n: "wd_ID r \<notin> wd_ID ` set (t_webhook_deliveries w)" "wd_Payload r \<noteq> None"
    using r(1) by (auto simp: delivery_insert_check_def split: if_splits)
  have "delivery_wf r" using n(2) unfolding r(2) by (simp add: delivery_wf_def new_delivery_def enums)
  then have "due_wf {wd_ID r} w'"
    using assms(1) n(1) r(2) by (auto simp: due_wf_def w' new_delivery_def deliveries_wf_def image_iff)
  then show "S r w'" using assms(2) r(2) by (simp add: new_delivery_def)
qed (use assms(1,3) in \<open>simp add: deliveries_wf_def\<close>)

section \<open>Every operation keeps the invariant\<close>

text \<open>Steps of the proof: descend to the next statement and apply its rule.\<close>

lemmas wp_apart_deliveries = wp_other_tables [OF deliveries_frame(1)] wp_other_tables [OF deliveries_frame(2)]
  wp_other_tables [OF deliveries_frame(3)] wp_other_tables [OF deliveries_frame(4)]
  wp_other_tables [OF deliveries_frame(5)] wp_other_tables [OF deliveries_frame(6)]

lemma wp_record_success:
  assumes "due_wf T w" "\<And>x w'. due_wf T w' \<Longrightarrow> S x w'" "\<And>e w'. due_wf T w' \<Longrightarrow> E e w'"
  shows "wp (record_success h d out) S E w"
  unfolding record_success_def
  by ((rule wp_bindI wp_logI wp_status wp_apart_deliveries wp_logged | assumption | rule assms)+)

lemma wp_send_failure:
  assumes "due_wf {wd_ID d} w"
  shows "wp (bindE (logE (store_UpdateWebhookDeliveryStatus (wd_ID d) p)) (\<lambda>u.
     bindE (logE (if t \<noteq> None then store_IncrementDeliveryAttempt (wd_ID d) t else store_IncrementWebhookFailed h))
       (\<lambda>u. failE e))) (\<lambda>x. deliveries_wf) (\<lambda>e. deliveries_wf) w"
  by (rule wp_bindI wp_logI wp_failE wp_if wp_status wp_attempt wp_logged wp_apart_deliveries assms
      | assumption | simp | erule due_wf_deliveries)+

lemma wp_sendWebhook: "deliveries_wf w \<Longrightarrow> wp (sendWebhook h p) (\<lambda>x. deliveries_wf) (\<lambda>e. deliveries_wf) w"
  unfolding sendWebhook_def Let_def
  by (rule wp_bindI wp_getE wp_wrapI wp_if wp_create wp_record_success wp_send_failure wp_apart_deliveries
      | assumption | simp | erule due_wf_deliveries)+

lemma wp_DispatchEvent: "deliveries_wf w \<Longrightarrow> wp (DispatchEvent a c ty data) (\<lambda>x. deliveries_wf) (\<lambda>e. deliveries_wf) w"
  unfolding DispatchEvent_def Let_def
  by (rule wp_bindI wp_getE wp_wrapI wp_forE [where I = deliveries_wf] wp_logI wp_mono [OF wp_sendWebhook] wp_logged
      wp_apart_deliveries [where T = "{}"] | assumption | simp)+

lemma wp_TestWebhook: "deliveries_wf w \<Longrightarrow> wp (TestWebhook i) (\<lambda>x. deliveries_wf) (\<lambda>e. deliveries_wf) w"
  unfolding TestWebhook_def service_TestWebhook_def
  by (rule wp_bindI wp_getE wp_wrapI wp_sendWebhook wp_apart_deliveries [where T = "{}"] | assumption | simp)+

lemma wp_webhook_Process: "deliveries_wf w \<Longrightarrow> wp (webhook_Process ev) (\<lambda>x. deliveries_wf) (\<lambda>e. deliveries_wf) w"
  unfolding webhook_Process_def
  by (rule wp_bindI wp_getE wp_wrapI wp_case_option wp_failE wp_DispatchEvent | assumption)+

lemma wp_retry:
  assumes "due_wf (insert (wd_ID d) T) w" "wd_ID d \<notin> T"
  shows "wp (retry_delivery d) (\<lambda>x. due_wf T) (\<lambda>e. deliveries_wf) w"
proof -
  have weak: "due_wf (insert (wd_ID d) T) v \<Longrightarrow> due_wf T v" for v by (erule due_wf_mono) blast
  show ?thesis
    unfolding retry_delivery_def record_retry_failure_def Let_def
    by (rule wp_tryI wp_bindI wp_getE wp_retE wp_panicE wp_logI wp_if wp_handled wp_logged wp_record_success
        wp_status wp_attempt wp_apart_deliveries assms
        | assumption | (erule weak; fail) | (erule due_wf_deliveries; fail))+
qed

text \<open>The deliveries of a round are distinct rows below attempt 5.\<close>

lemma due_page:
  fixes w :: world
  defines "ds n \<equiv> take n (sort_Slice (\<lambda>a b. the (wd_NextRetryAt a) < the (wd_NextRetryAt b))
     (filter (retry_due (w_now w) 5) (t_webhook_deliveries w)))"
  assumes "deliveries_wf w"
  shows "distinct (map wd_ID (ds n)) \<and> due_wf (wd_ID ` set (ds n)) w"
proof
  let ?rows = "t_webhook_deliveries w"
  have d: "distinct (map wd_ID ?rows)" using assms(2) by (simp add: deliveries_wf_def)
  then show "distinct (map wd_ID (ds n))"
    unfolding ds_def by (simp add: take_map [symmetric] distinct_map_filter)
  have "wd_AttemptNumber r < 5" if r: "r \<in> set ?rows" "wd_ID r \<in> wd_ID ` set (ds n)" for r
  proof -
    obtain x where x: "x \<in> set (ds n)" "wd_ID r = wd_ID x" using r(2) by auto
    then have "x \<in> set ?rows" "retry_due (w_now w) 5 x" unfolding ds_def by (auto dest: in_set_takeD)
    moreover have "r = x" by (rule distinct_key [OF d r(1) calculation(1) x(2)])
    ultimately show ?thesis by (simp add: retry_due_def)
  qed
  then show "due_wf (wd_ID ` set (ds n)) w" using assms(2) by (auto simp: due_wf_def deliveries_wf_def)
qed

lemma wp_retry_all:
  fixes ds :: "WebhookDelivery list"
  assumes "distinct (map wd_ID ds)" "due_wf (wd_ID ` set ds) w"
  shows "wp (forE ds retry_delivery) (\<lambda>x. deliveries_wf) (\<lambda>e. deliveries_wf) w"
proof (rule wp_forE_rest [where I = "\<lambda>xs w. distinct (map wd_ID xs) \<and> due_wf (wd_ID ` set xs) w"])
  fix d :: WebhookDelivery and xs v assume I: "distinct (map wd_ID (d # xs)) \<and> due_wf (wd_ID ` set (d # xs)) v"
  then have "wp (retry_delivery d) (\<lambda>x. due_wf (wd_ID ` set xs)) (\<lambda>e. deliveries_wf) v"
    by (intro wp_retry) auto
  then show "wp (retry_delivery d) (\<lambda>u w. distinct (map wd_ID xs) \<and> due_wf (wd_ID ` set xs) w)
      (\<lambda>e. deliveries_wf) v"
    by (rule wp_mono) (use I in auto)
qed (use assms in auto)

lemma wp_RetryFailedDeliveries:
  assumes "deliveries_wf w"
  shows "wp (RetryFailedDeliveries lmt) (\<lambda>x. deliveries_wf) (\<lambda>e. deliveries_wf) w"
proof -
  have t: "deliveries_wf (ticked w)" using assms by (simp add: deliveries_wf_def)
  show ?thesis
    unfolding RetryFailedDeliveries_def store_GetPendingWebhookDeliveries_def
    by (intro wp_bindI wp_wrapI wp_sql_page, rule wp_retry_all)
       (use due_page [OF t] t in simp_all)
qed

lemma wp_processRetries: "deliveries_wf w \<Longrightarrow> wp processRetries (\<lambda>x. deliveries_wf) (\<lambda>e. deliveries_wf) w"
  unfolding processRetries_def
  by (rule wp_logI wp_mono [OF wp_RetryFailedDeliveries] wp_logged | assumption)+

section \<open>Runs of the webhook system\<close>

text \<open>A consumed event, a test request, a retry round, and a step that leaves the deliveries alone
  (another handler, or the clock).\<close>

inductive webhook_step :: "world \<Rightarrow> world \<Rightarrow> bool" where
  consumed: "webhook_step w (snd (webhook_Process ev w))"
| tested: "webhook_step w (snd (TestWebhook i w))"
| retried: "webhook_step w (snd (processRetries w))"
| elsewhere: "t_webhook_deliveries w' = t_webhook_deliveries w \<Longrightarrow> webhook_step w w'"

inductive_cases webhook_stepE: "webhook_step w w'"

lemma step_wf: "webhook_step w w' \<Longrightarrow> deliveries_wf w \<Longrightarrow> deliveries_wf w'"
proof (erule webhook_stepE)
  assume "t_webhook_deliveries w' = t_webhook_deliveries w" "deliveries_wf w"
  then show "deliveries_wf w'" by (simp add: deliveries_wf_def)
qed (auto intro: wpD wp_webhook_Process wp_TestWebhook wp_processRetries)

lemma run_wf: "webhook_step\<^sup>*\<^sup>* w w' \<Longrightarrow> deliveries_wf w \<Longrightarrow> deliveries_wf w'"
  by (induction rule: rtranclp_induct) (auto intro: step_wf)


section \<open>Who receives an event\<close>

text \<open>The request made for a webhook, and what a run of a dispatch has done so far: the webhooks
  \<^verbatim>\<open>ds\<close> got a delivery row and the webhooks \<^verbatim>\<open>hs\<close> a request.\<close>

definition request_to :: "world \<Rightarrow> WebhookPayload \<Rightarrow> Webhook \<Rightarrow> http_request" where
  "request_to w p h = (let body = w_json_Marshal w (payload_json p) in
     \<lparr>hr_Method = ''POST'', hr_URL = wh_URL h,
      hr_Header = [(''Content-Type'', ''application/json''),
        (''X-Webhook-Signature'', generateSignature (w_hmac_sha256 w) (wh_Secret h) body (time_Unix (w_now w))),
        (''User-Agent'', ''Waitlist-Platform-Webhook/1.0'')], hr_Body = body\<rparr>)"

definition environment where
  "environment w = (w_hmac_sha256 w, w_json_Marshal w, w_now w, w_fault w, w_http w, w_uuids w)"

definition delivery_view where
  "delivery_view w = (environment w, w_fresh w, w_http_log w,
     map (\<lambda>d. (wd_ID d, wd_WebhookID d)) (t_webhook_deliveries w))"

definition sent_to :: "world \<Rightarrow> WebhookPayload \<Rightarrow> Webhook list \<Rightarrow> Webhook list \<Rightarrow> world \<Rightarrow> bool" where
  "sent_to w0 p hs ds w = (environment w = environment w0 \<and>
     w_http_log w = w_http_log w0 @ map (request_to w0 p) hs \<and>
     map wd_WebhookID (t_webhook_deliveries w) = map wd_WebhookID (t_webhook_deliveries w0) @ map wh_ID ds)"

text \<open>Nothing fails: no statement, no request that cannot be built, and the next n ids are new.\<close>

definition reliable :: "nat \<Rightarrow> world \<Rightarrow> bool" where
  "reliable n w = (no_faults w \<and> (\<forall>k m. fst (w_http w k) \<noteq> RequestError m) \<and>
     distinct (map wd_ID (t_webhook_deliveries w) @ map (w_uuids w) [w_fresh w..<w_fresh w + n]))"

lemma view_parts:
  assumes "delivery_view w = delivery_view v"
  shows "environment w = environment v" "w_fresh w = w_fresh v" "w_http_log w = w_http_log v"
    "map wd_ID (t_webhook_deliveries w) = map wd_ID (t_webhook_deliveries v)"
    "map wd_WebhookID (t_webhook_deliveries w) = map wd_WebhookID (t_webhook_deliveries v)"
proof -
  have m: "map (\<lambda>d. (wd_ID d, wd_WebhookID d)) (t_webhook_deliveries w) =
      map (\<lambda>d. (wd_ID d, wd_WebhookID d)) (t_webhook_deliveries v)"
    using assms by (simp add: delivery_view_def)
  show "map wd_ID (t_webhook_deliveries w) = map wd_ID (t_webhook_deliveries v)"
    "map wd_WebhookID (t_webhook_deliveries w) = map wd_WebhookID (t_webhook_deliveries v)"
    using arg_cong [OF m, of "map fst"] arg_cong [OF m, of "map snd"] by (simp_all add: comp_def)
qed (use assms in \<open>auto simp: delivery_view_def\<close>)

lemma sent_to_view: "delivery_view w = delivery_view v \<Longrightarrow> sent_to w0 p hs ds v \<Longrightarrow> sent_to w0 p hs ds w"
  using view_parts [of w v] by (simp add: sent_to_def)

lemma reliable_view: "delivery_view w = delivery_view v \<Longrightarrow> reliable n v \<Longrightarrow> reliable n w"
  using view_parts [of w v] by (simp add: reliable_def no_faults_def environment_def del: set_map)

lemma update_deliveries_view:
  assumes "\<And>v d. wd_ID (f v d) = wd_ID d" "\<And>v d. wd_WebhookID (f v d) = wd_WebhookID d"
  shows "moves (frame delivery_view) (sql_update webhook_deliveries_tbl chk P f)"
  by (auto simp: moves_def frame_def sql_update_def db_def Let_def delivery_view_def environment_def assms
      intro!: map_upd_where split: option.splits)

lemma delivery_view_frame:
  "moves (frame delivery_view) (store_UpdateWebhookDeliveryStatus i q)"
  "moves (frame delivery_view) (store_IncrementDeliveryAttempt i t)"
  "moves (frame delivery_view) (store_IncrementWebhookSent j)"
  "moves (frame delivery_view) (store_IncrementWebhookFailed j)"
  unfolding store_UpdateWebhookDeliveryStatus_def store_IncrementDeliveryAttempt_def
    store_IncrementWebhookSent_def store_IncrementWebhookFailed_def
  by (rule affected_or_frame exec_or_frame update_deliveries_view sql_update_frame
      | simp add: set_delivery_status_def delivery_view_def environment_def)+

lemma after_request_view:
  "moves (frame delivery_view) (record_success h d out)"
  "moves (frame delivery_view) (bindE (logE (store_UpdateWebhookDeliveryStatus i q)) (\<lambda>u.
     bindE (logE (if b then store_IncrementDeliveryAttempt i t else store_IncrementWebhookFailed j)) (\<lambda>u. failE e)))"
  unfolding record_success_def by (rule frame.moves_combinators moves_if delivery_view_frame)+

text \<open>The state of a dispatch after the webhooks \<^verbatim>\<open>pre\<close>, before n others; when all is reliable each got both.\<close>

definition dispatched :: "world \<Rightarrow> WebhookPayload \<Rightarrow> bool \<Rightarrow> nat \<Rightarrow> Webhook list \<Rightarrow> world \<Rightarrow> bool" where
  "dispatched w0 p ok n pre w = (\<exists>hs ds. sent_to w0 p hs ds w \<and> subseq hs ds \<and> subseq ds pre \<and>
     (ok \<longrightarrow> reliable n w \<and> hs = pre \<and> ds = pre))"

lemma dispatched_view:
  assumes "delivery_view w = delivery_view v" "dispatched w0 p ok n pre v"
  shows "dispatched w0 p ok n pre w"
  using assms(2) sent_to_view [OF assms(1)] reliable_view [OF assms(1)] unfolding dispatched_def by blast

lemma request_cong: "environment w = environment w0 \<Longrightarrow> request_to w p h = request_to w0 p h"
  by (simp add: request_to_def environment_def)

lemma wp_http_Do:
  assumes "\<And>reply ms. S (reply, ms) (w\<lparr>w_http_log := w_http_log w @ [req]\<rparr>)"
    "\<And>reply ms m. fst (w_http w (w_calls w)) = RequestError m \<Longrightarrow> S (reply, ms) w"
  shows "wp (http_Do req) S E w"
  using assms by (auto simp: wp_def http_Do_def split: prod.splits http_reply.splits)

lemma wp_deliver:
  assumes "\<And>out. S out (w\<lparr>w_http_log := w_http_log w @ [request_to w p h]\<rparr>)"
    "\<And>out m. fst (w_http w (w_calls w)) = RequestError m \<Longrightarrow> S out w"
  shows "wp (deliverWebhook h (w_json_Marshal w (payload_json p))) S E w"
  unfolding deliverWebhook_def Let_def
  by (intro wp_bindI wp_getE wp_case_prod wp_retE wp_http_Do)
     (use assms in \<open>auto simp: request_to_def Let_def intro: wp_retE\<close>)

lemma wp_after_request:
  assumes "moves (frame delivery_view) m" "dispatched w0 p ok n pre w"
  shows "wp m (\<lambda>x. dispatched w0 p ok n pre) (\<lambda>e. dispatched w0 p ok n pre) w"
proof (rule wp_moves [OF assms(1)])
  fix w' assume "frame delivery_view w w'"
  then show "dispatched w0 p ok n pre w'" "dispatched w0 p ok n pre w'"
    using dispatched_view assms(2) unfolding frame_def by blast+
qed

lemma sent_to_insert:
  assumes "sent_to w0 p hs ds w" "wd_WebhookID r = wh_ID h"
  shows "sent_to w0 p hs (ds @ [h]) (w\<lparr>w_calls := n, w_fresh := k, t_webhook_deliveries := t_webhook_deliveries w @ [r]\<rparr>)"
  using assms by (simp add: sent_to_def environment_def)

lemma sent_to_request:
  "sent_to w0 p hs ds w \<Longrightarrow> sent_to w0 p (hs @ [h]) ds (w\<lparr>w_http_log := w_http_log w @ [request_to w p h]\<rparr>)"
  by (auto simp: sent_to_def environment_def request_cong request_to_def)

lemma reliable_Suc:
  "reliable (Suc n) w \<longleftrightarrow> no_faults w \<and> (\<forall>k m. fst (w_http w k) \<noteq> RequestError m) \<and>
     distinct (map wd_ID (t_webhook_deliveries w) @ w_uuids w (w_fresh w) # map (w_uuids w) [Suc (w_fresh w)..<Suc (w_fresh w) + n])"
  by (simp add: reliable_def upt_conv_Cons del: upt_Suc)

lemma reliable_start: "reliable (Suc n) w \<Longrightarrow> reliable n (w\<lparr>w_calls := k, w_fresh := Suc (w_fresh w)\<rparr>)"
  unfolding reliable_Suc by (auto simp: reliable_def no_faults_def)

lemma reliable_insert:
  assumes "reliable (Suc n) w" "wd_ID r = w_uuids w (w_fresh w)"
  shows "reliable n (w\<lparr>w_calls := k, w_fresh := Suc (w_fresh w), t_webhook_deliveries := t_webhook_deliveries w @ [r]\<rparr>)"
  using assms unfolding reliable_Suc by (auto simp: reliable_def no_faults_def)

lemma wp_sendWebhook_dispatched:
  fixes h :: Webhook
  assumes "dispatched w0 p ok (Suc n) pre w" "ok \<longrightarrow> length (wp_Type p) \<le> 100 \<and> wp_Data p \<noteq> None"
  shows "wp (sendWebhook h p) (\<lambda>x. dispatched w0 p ok n (pre @ [h])) (\<lambda>e. dispatched w0 p ok n (pre @ [h])) w"
proof -
  obtain hs ds where D: "sent_to w0 p hs ds w" "subseq hs ds" "subseq ds pre"
      "ok \<longrightarrow> reliable (Suc n) w \<and> hs = pre \<and> ds = pre"
    using assms(1) unfolding dispatched_def by blast
  let ?q = "\<lparr>cdp_WebhookID = wh_ID h, cdp_EventType = wp_Type p, cdp_Payload = wp_Data p, cdp_NextRetryAt = None\<rparr>"
  have create: "wp (store_CreateWebhookDelivery ?q)
      (\<lambda>d w'. sent_to w0 p hs (ds @ [h]) w' \<and> (ok \<longrightarrow> reliable n w')) (\<lambda>e w'. \<not> ok \<and> sent_to w0 p hs ds w') w"
    unfolding store_CreateWebhookDelivery_def
  proof (rule wp_rules, rule wp_sql_insert_why)
    fix r w'
    assume r: "r = new_delivery ?q (w_uuids w (w_fresh w)) (w_now w)"
      and w': "w' = snd webhook_deliveries_tbl (\<lambda>rows. rows @ [r]) ((ticked w)\<lparr>w_fresh := Suc (w_fresh w)\<rparr>)"
    have "w' = w\<lparr>w_calls := Suc (w_calls w), w_fresh := Suc (w_fresh w), t_webhook_deliveries := t_webhook_deliveries w @ [r]\<rparr>"
      by (simp add: w' ticked_def)
    then show "sent_to w0 p hs (ds @ [h]) w' \<and> (ok \<longrightarrow> reliable n w')"
      using sent_to_insert [OF D(1)] reliable_insert D(4) r by (simp add: new_delivery_def)
  next
    fix e k
    assume why: "w_fault w (w_calls w) \<noteq> None \<or> delivery_insert_check (ticked w) (fst webhook_deliveries_tbl (ticked w))
        (new_delivery ?q (w_uuids w (w_fresh w)) (w_now w)) \<noteq> None"
    have "\<not> ok"
    proof
      assume ok
      then have "reliable (Suc n) w" "length (wp_Type p) \<le> 100" "wp_Data p \<noteq> None" using D(4) assms(2) by auto
      then show False
        using why by (auto simp: reliable_Suc no_faults_def delivery_insert_check_def new_delivery_def jsonb_stored_def
            split: if_splits)
    qed
    then show "\<not> ok \<and> sent_to w0 p hs ds ((ticked w)\<lparr>w_fresh := k\<rparr>)"
      using D(1) by (simp add: sent_to_def environment_def ticked_def)
  qed
  have rest: "dispatched w0 p ok n (pre @ [h]) (v\<lparr>w_http_log := w_http_log v @ [request_to v p h]\<rparr>)"
      "fst (w_http v k) = RequestError m \<Longrightarrow> dispatched w0 p ok n (pre @ [h]) v"
    if v: "sent_to w0 p hs (ds @ [h]) v \<and> (ok \<longrightarrow> reliable n v)" for v k m
  proof -
    have r: "reliable n v \<Longrightarrow> reliable n (v\<lparr>w_http_log := l\<rparr>)" for l by (simp add: reliable_def no_faults_def)
    show "dispatched w0 p ok n (pre @ [h]) (v\<lparr>w_http_log := w_http_log v @ [request_to v p h]\<rparr>)"
      unfolding dispatched_def
      using sent_to_request [of w0 p hs "ds @ [h]" v h] v r D(2-4) by (intro exI [of _ "hs @ [h]"] exI [of _ "ds @ [h]"]) auto
    show "dispatched w0 p ok n (pre @ [h]) v" if "fst (w_http v k) = RequestError m"
      unfolding dispatched_def
      using v D(2-4) that by (intro exI [of _ hs] exI [of _ "ds @ [h]"]) (auto simp: reliable_def)
  qed
  have env: "w_json_Marshal v = w_json_Marshal w" if "sent_to w0 p hs' ds' v" for hs' ds' v
    using that D(1) by (simp add: sent_to_def environment_def)
  have deliver: "wp (deliverWebhook h (w_json_Marshal w (payload_json p))) (\<lambda>x. dispatched w0 p ok n (pre @ [h]))
      (\<lambda>e. dispatched w0 p ok n (pre @ [h])) v" if v: "sent_to w0 p hs (ds @ [h]) v \<and> (ok \<longrightarrow> reliable n v)" for v
    unfolding env [OF conjunct1 [OF v], symmetric] by (rule wp_deliver) (erule rest [OF v] | rule rest [OF v])+
  note last = wp_after_request [OF after_request_view(1)] wp_after_request [OF after_request_view(2)]
  have fail: "dispatched w0 p ok n (pre @ [h]) v" if "\<not> ok \<and> sent_to w0 p hs ds v" for v
    using that D(2,3) unfolding dispatched_def by (blast intro: subseq_order.trans list_emb_prefix)
  show ?thesis
    unfolding sendWebhook_def Let_def
    by (intro wp_bindI wp_getE wp_wrapI, rule wp_mono [OF create], rule wp_bindI, rule wp_mono [OF deliver],
        assumption, rule wp_if, rule last(1), assumption, rule wp_bindI, rule wp_getE, rule last(2),
        assumption, assumption, rule fail)
qed

lemma mset_subseq: "subseq xs ys \<Longrightarrow> mset xs \<subseteq># mset ys"
  by (induction rule: list_emb.induct) (auto intro: subset_mset.order_trans)

text \<open>The webhooks an event is for.\<close>

definition subscriber :: "uuid \<Rightarrow> uuid option \<Rightarrow> string \<Rightarrow> Webhook \<Rightarrow> bool" where
  "subscriber a c ty h = (wh_AccountID h = a \<and> wh_DeletedAt h = None \<and> wh_Status h = ''active'' \<and>
     ty \<in> set (wh_Events h) \<and> (c = None \<or> wh_CampaignID h = None \<or> wh_CampaignID h = c))"

lemma filter_relevant:
  "filter_mset (relevant c ty) (mset (webhooks_where (\<lambda>h. wh_AccountID h = a) w)) =
   filter_mset (subscriber a c ty) (mset (t_webhooks w))"
proof -
  have "(\<lambda>h. (wh_AccountID h = a \<and> wh_DeletedAt h = None) \<and> relevant c ty h) = subscriber a c ty"
    by (auto simp: fun_eq_iff relevant_def subscriber_def subscribesToEvent_def list_ex_iff)
  then show ?thesis by (simp add: webhooks_where_def filter_filter_mset conj_commute)
qed

lemma wp_dispatch_loop:
  fixes hs :: "Webhook list"
  assumes "dispatched w0 p ok (length hs) [] w" "ok \<longrightarrow> length (wp_Type p) \<le> 100 \<and> wp_Data p \<noteq> None"
  shows "wp (forE hs (\<lambda>h. logE (sendWebhook h p))) (\<lambda>x. dispatched w0 p ok 0 hs) (\<lambda>e w. e = None) w"
proof (rule wp_forE_rest [where I = "\<lambda>xs w. \<exists>pre. pre @ xs = hs \<and> dispatched w0 p ok (length xs) pre w"])
  fix h :: Webhook and xs v assume "\<exists>pre. pre @ h # xs = hs \<and> dispatched w0 p ok (length (h # xs)) pre v"
  then obtain pre where pre: "pre @ h # xs = hs" "dispatched w0 p ok (Suc (length xs)) pre v" by auto
  have "wp (logE (sendWebhook h p)) (\<lambda>u. dispatched w0 p ok (length xs) (pre @ [h])) (\<lambda>e w. e = None) v"
    by (rule wp_logI, rule wp_mono [OF wp_sendWebhook_dispatched [OF pre(2) assms(2)]]) (auto split: option.split)
  then show "wp (logE (sendWebhook h p)) (\<lambda>u w. \<exists>pre. pre @ xs = hs \<and> dispatched w0 p ok (length xs) pre w)
      (\<lambda>e w. e = None) v"
    by (rule wp_mono) (use pre(1) in \<open>auto intro!: exI [of _ "pre @ [h]"]\<close>)
qed (use assms in auto)

lemma calm_http_Do: "calm (http_Do req)"
  by (auto simp: calm_def http_Do_def split: prod.splits)

lemma calm_DispatchEvent: "calm (DispatchEvent a c ty data)"
  unfolding DispatchEvent_def sendWebhook_def deliverWebhook_def record_success_def Let_def
    store_GetWebhooksByAccount_def store_CreateWebhookDelivery_def store_UpdateWebhookDeliveryStatus_def
    store_IncrementDeliveryAttempt_def store_IncrementWebhookFailed_def store_IncrementWebhookSent_def
  by (rule calm_rules calm_http_Do)+

text \<open>C19: an event of an account is sent only to webhooks of that account that are live, active,
  subscribed to its type and not bound to another campaign, at most once to each, as a POST of the
  event's payload signed with the webhook's secret; every request sent has its delivery row. When
  nothing outside fails, it is sent to all of them. Dispatching never panics, and fails only when
  the webhooks cannot be read.\<close>

theorem dispatch_reaches_subscribers:
  assumes "DispatchEvent a c ty data w = (r, w')"
  shows "\<exists>p hs ds. wp_Type p = ty \<and> wp_Data p = data \<and> wp_AccountID p = w_uuid_String w a \<and>
    w_http_log w' = w_http_log w @ map (request_to w p) hs \<and> subseq hs ds \<and>
    map wd_WebhookID (t_webhook_deliveries w') = map wd_WebhookID (t_webhook_deliveries w) @ map wh_ID ds \<and>
    mset ds \<subseteq># filter_mset (subscriber a c ty) (mset (t_webhooks w)) \<and>
    (r \<noteq> Ok () \<longrightarrow> ds = []) \<and> (\<forall>msg. r \<noteq> Panic msg) \<and>
    (reliable (Suc (size (filter_mset (subscriber a c ty) (mset (t_webhooks w))))) w \<and> length ty \<le> 100 \<and> data \<noteq> None \<longrightarrow>
       r = Ok () \<and> mset hs = filter_mset (subscriber a c ty) (mset (t_webhooks w)))"
proof -
  have calm: "\<forall>msg. r \<noteq> Panic msg" using calmD [OF calm_DispatchEvent] assms by blast
  let ?rel = "filter (relevant c ty) (webhooks_where (\<lambda>h. wh_AccountID h = a) w)"
  let ?ok = "reliable (Suc (length ?rel)) w \<and> length ty \<le> 100 \<and> data \<noteq> None"
  have sub: "mset ?rel = filter_mset (subscriber a c ty) (mset (t_webhooks w))"
    using filter_relevant by (simp add: mset_filter)
  have n: "size (filter_mset (subscriber a c ty) (mset (t_webhooks w))) = length ?rel"
    by (simp only: sub [symmetric] size_mset)
  show ?thesis
  proof (cases "w_fault w (w_calls w)")
    case (Some msg)
    then have "store_GetWebhooksByAccount a w = (Err (Wrap ''failed to get webhooks by account'' (DbErr msg)), ticked w)"
      by (simp add: store_GetWebhooksByAccount_def wrapE_def tryE_def failE_def sql_query_def db_def ticked_def)
    then have "\<exists>e. r = Err e" "w' = ticked w"
      using assms by (auto simp: DispatchEvent_def bindE_def tryE_def wrapE_def failE_def)
    moreover have "\<not> reliable k w" for k using Some by (auto simp: reliable_def no_faults_def)
    ultimately show ?thesis
      by (intro exI [of _ "\<lparr>wp_ID = [], wp_Type = ty, wp_CreatedAt = [], wp_Data = data, wp_AccountID = w_uuid_String w a\<rparr>"]
          exI [of _ "[]"]) auto
  next
    case None
    let ?w1 = "(ticked w)\<lparr>w_fresh := Suc (w_fresh w)\<rparr>"
    let ?p = "\<lparr>wp_ID = w_uuid_String w (w_uuids w (w_fresh w)), wp_Type = ty, wp_CreatedAt = w_time_Format w (w_now w),
      wp_Data = data, wp_AccountID = w_uuid_String w a\<rparr>"
    have q: "store_GetWebhooksByAccount a w = (Ok (webhooks_where (\<lambda>h. wh_AccountID h = a) w), ticked w)"
      using None by (simp add: store_GetWebhooksByAccount_def wrapE_def tryE_def retE_def sql_query_def db_def
          ticked_def webhooks_where_def Let_def)
    have run: "forE ?rel (\<lambda>h. logE (sendWebhook h ?p)) ?w1 = (r, w')"
      using assms q by (simp add: DispatchEvent_def bindE_def tryE_def wrapE_def retE_def getE_def uuid_New_def ticked_def)
    have start: "dispatched w ?p ?ok (length ?rel) [] ?w1"
      unfolding dispatched_def
      by (intro exI [of _ "[]"]) (simp_all add: sent_to_def environment_def reliable_start ticked_def)
    have wp: "wp (forE ?rel (\<lambda>h. logE (sendWebhook h ?p))) (\<lambda>x. dispatched w ?p ?ok 0 ?rel) (\<lambda>e w. e = None) ?w1"
      by (rule wp_dispatch_loop [OF start]) simp
    have "r = Ok ()" "dispatched w ?p ?ok 0 ?rel w'"
      using wp run calm by (cases r; simp add: wp_def)+
    then obtain hs ds where D: "sent_to w ?p hs ds w'" "subseq hs ds" "subseq ds ?rel"
        "?ok \<longrightarrow> hs = ?rel \<and> ds = ?rel"
      unfolding dispatched_def by blast
    have "mset ds \<subseteq># filter_mset (subscriber a c ty) (mset (t_webhooks w))"
      using mset_subseq [OF D(3)] by (simp only: sub)
    moreover have "?ok \<longrightarrow> mset hs = filter_mset (subscriber a c ty) (mset (t_webhooks w))"
      using D(4) sub by simp
    ultimately show ?thesis
      using D(1,2) \<open>r = Ok ()\<close> unfolding sent_to_def n
      by (intro exI [of _ ?p] exI [of _ hs] exI [of _ ds]) simp
  qed
qed

section \<open>Exhausted deliveries\<close>

interpretation deliveries: other_rows t_webhook_deliveries t_webhook_deliveries_update wd_ID
  by unfold_locales simp_all

definition exhausted :: "Webhook \<Rightarrow> WebhookDelivery \<Rightarrow> bool" where
  "exhausted h d = (\<not> wh_RetryEnabled h \<or> wh_MaxRetries h \<le> wd_AttemptNumber d)"

lemma others_step:
  "deliveries.rel i w0 w \<Longrightarrow> moves (deliveries.rel i) m \<Longrightarrow> (\<And>x w'. deliveries.rel i w0 w' \<Longrightarrow> S x w') \<Longrightarrow>
   (\<And>e w'. deliveries.rel i w0 w' \<Longrightarrow> E e w') \<Longrightarrow> wp m S E w"
  by (erule wp_moves) (blast intro: deliveries.rel.step_trans)+

lemma delivery_store_others:
  "moves (deliveries.rel i) (store_UpdateWebhookDeliveryStatus i p)"
  "moves (deliveries.rel i) (store_IncrementDeliveryAttempt i t)"
  "moves (deliveries.rel i) (deliverWebhook h body)"
  unfolding store_UpdateWebhookDeliveryStatus_def store_IncrementDeliveryAttempt_def affected_or_def exec_or_def
  by (rule deliveries.rel_frame [OF deliverWebhook_frame] deliveries.rel.moves_combinators moves_if deliveries.update_others
      | simp add: set_delivery_status_def)+

lemma wp_deliver_fails:
  assumes "\<And>k. \<not> do_success (case w_http w k of (reply, ms) \<Rightarrow> outcome_of reply ms)" "deliveries.rel i w0 w"
  shows "wp (deliverWebhook h body) (\<lambda>out w'. \<not> do_success out \<and> deliveries.rel i w0 w') (\<lambda>e w'. False) w"
proof -
  obtain reply ms where r: "w_http w (w_calls w) = (reply, ms)" by fastforce
  then have "\<not> do_success (outcome_of reply ms)" using assms(1) [of "w_calls w"] by simp
  then show ?thesis
    using r assms(2) by (cases reply)
      (simp_all add: deliverWebhook_def wp_def go_defs http_Do_def Let_def deliveries.rel_def)
qed

lemma wp_exhausted:
  assumes "exhausted h d" "deliveries.rel (wd_ID d) w0 w"
  shows "wp (record_retry_failure h d out) (\<lambda>x w'. False) (\<lambda>e w'. e = None \<and> deliveries.rel (wd_ID d) w0 w') w"
proof -
  have n: "(if wh_RetryEnabled h \<and> wd_AttemptNumber d < wh_MaxRetries h then Some t else None) = None" for t :: time
    using assms(1) by (auto simp: exhausted_def)
  show ?thesis
    unfolding record_retry_failure_def Let_def n
    by (rule wp_bindI wp_getE wp_logI wp_logged others_step [OF _ delivery_store_others(1)]
        others_step [OF _ delivery_store_others(2)] assms | assumption | simp add: wp_panicE)+
qed

text \<open>C20: when the oldest delivery due for a retry has no attempt left, because retries are off or the
  webhook's limit of 1 to 4 attempts is reached, and the receiver still does not accept it, the
  round of the worker panics with a nil dereference and no other delivery is touched: the due
  deliveries behind it are not retried.\<close>

theorem exhausted_retry_panics:
  assumes "no_faults w" "0 < lmt"
    "sort_Slice (\<lambda>a b. the (wd_NextRetryAt a) < the (wd_NextRetryAt b))
       (filter (retry_due (w_now w) 5) (t_webhook_deliveries w)) = d # ds"
    "filter (live_webhook (wd_WebhookID d)) (t_webhooks w) = h # hs" "wh_Status h = ''active''"
    "exhausted h d" "\<And>k. \<not> do_success (case w_http w k of (reply, ms) \<Rightarrow> outcome_of reply ms)"
  shows "\<exists>msg w'. RetryFailedDeliveries lmt w = (Panic msg, w') \<and>
    filter (\<lambda>x. wd_ID x \<noteq> wd_ID d) (t_webhook_deliveries w') =
    filter (\<lambda>x. wd_ID x \<noteq> wd_ID d) (t_webhook_deliveries w)"
proof -
  let ?w1 = "ticked w" and ?w2 = "ticked (ticked w)"
  have n: "take (nat lmt) (d # ds) = d # take (nat lmt - 1) ds"
    using assms(2) by (cases "nat lmt") auto
  have q: "store_GetPendingWebhookDeliveries lmt 5 w = (Ok (d # take (nat lmt - 1) ds), ?w1)"
    using assms(1,2) n assms(3) by (simp add: store_GetPendingWebhookDeliveries_def wrapE_Ok sql_page_Ok no_faults_def)
  then have qw: "wrapE msg (store_GetPendingWebhookDeliveries lmt 5) w = (Ok (d # take (nat lmt - 1) ds), ?w1)" for msg
    by (simp add: wrapE_Ok)
  have g: "store_GetWebhookByID (wd_WebhookID d) ?w1 = (Ok h, ?w2)"
    using assms(1,4) by (simp add: store_GetWebhookByID_def row_or_Ok sql_get_Ok no_faults_def)
  have h: "wh_DeletedAt h = None" using assms(4) by (metis filter_eq_ConsD live_webhook_def)
  have r: "deliveries.rel (wd_ID d) w ?w2" by (simp add: deliveries.rel_def same_others_def)
  let ?E = "\<lambda>e w'. e = None \<and> deliveries.rel (wd_ID d) w w'"
  have "wp (retry_delivery d) (\<lambda>x w'. False) ?E ?w1"
    unfolding retry_delivery_def wp_tryE
    by (simp add: wp_def [of "store_GetWebhookByID _"] g h assms(5),
        intro wp_bindI wp_getE, rule wp_mono [OF wp_deliver_fails [OF _ r]], simp add: assms(7),
        simp add: wp_exhausted [OF assms(6)], simp)
  then have "wp (RetryFailedDeliveries lmt) (\<lambda>x w'. False) ?E w"
    unfolding RetryFailedDeliveries_def wp_bindE
    by (simp add: wp_def [of "wrapE _ _"] qw wp_bindE) (erule wp_mono, auto)
  then show ?thesis
    by (cases "RetryFailedDeliveries lmt w"; cases "fst (RetryFailedDeliveries lmt w)")
       (auto simp: wp_def deliveries.rel_def same_others_def)
qed

section \<open>A sample state\<close>

text \<open>Webhook 71 listens to signups with two attempts, 72 belongs to another account, 73 is paused;
  delivery 81 of webhook 71 has used both attempts, 82 waits behind it. The receiver answers 500.\<close>

definition sample_hook :: "uuid \<Rightarrow> uuid \<Rightarrow> string \<Rightarrow> Webhook" where
  "sample_hook i a st = \<lparr>wh_ID = i, wh_AccountID = a, wh_CampaignID = None, wh_URL = ''https://x.io/h'',
     wh_Secret = ''s'', wh_Events = [''user.created''], wh_Status = st, wh_RetryEnabled = True,
     wh_MaxRetries = 2, wh_TotalSent = 0, wh_TotalFailed = 0, wh_LastSuccessAt = None, wh_LastFailureAt = None,
     wh_CreatedAt = 0, wh_UpdatedAt = 0, wh_DeletedAt = None\<rparr>"

definition sample_delivery :: "uuid \<Rightarrow> int \<Rightarrow> time \<Rightarrow> WebhookDelivery" where
  "sample_delivery i n t = \<lparr>wd_ID = i, wd_WebhookID = 71, wd_EventType = ''user.created'', wd_Payload = Some [],
     wd_Status = ''failed'', wd_RequestHeaders = None, wd_ResponseStatus = Some 500, wd_ResponseBody = None,
     wd_ResponseHeaders = None, wd_DurationMs = None, wd_AttemptNumber = n, wd_NextRetryAt = Some t,
     wd_ErrorMessage = None, wd_CreatedAt = 0, wd_DeliveredAt = None\<rparr>"

definition hook_world :: world where
  "hook_world = sample_world\<lparr>t_webhooks := [sample_hook 71 1 ''active'', sample_hook 72 2 ''active'',
     sample_hook 73 1 ''paused''], w_http := (\<lambda>k. (Reply 500 None, 5))\<rparr>"

definition stuck_world :: world where
  "stuck_world = hook_world\<lparr>t_webhook_deliveries := [sample_delivery 82 1 600, sample_delivery 81 2 500]\<rparr>"


theorem dispatch_reaches_subscribers_witness:
  "\<exists>r w' p. DispatchEvent 1 None ''user.created'' (Some []) hook_world = (r, w') \<and> r = Ok () \<and>
     w_http_log w' = [request_to hook_world p (sample_hook 71 1 ''active'')]"
proof -
  obtain r w' where run: "DispatchEvent 1 None ''user.created'' (Some []) hook_world = (r, w')" by fastforce
  have f: "filter_mset (subscriber 1 None ''user.created'') (mset (t_webhooks hook_world)) = {#sample_hook 71 1 ''active''#}"
    by (simp add: hook_world_def sample_hook_def subscriber_def)
  have rel: "reliable 2 hook_world"
    unfolding reliable_def no_faults_def hook_world_def sample_world_def empty_world_def
    by (simp add: numeral_2_eq_2)
  obtain p hs where "w_http_log w' = w_http_log hook_world @ map (request_to hook_world p) hs"
      and hs: "reliable (Suc (size {#sample_hook 71 1 ''active''#})) hook_world \<and> length ''user.created'' \<le> 100 \<and>
        Some [] \<noteq> (None :: jsonb) \<longrightarrow> r = Ok () \<and> mset hs = {#sample_hook 71 1 ''active''#}"
    using dispatch_reaches_subscribers [OF run] unfolding f by (elim exE conjE) (rule that)
  moreover have "r = Ok ()" "hs = [sample_hook 71 1 ''active'']" using hs rel by (simp_all add: numeral_2_eq_2)
  moreover have "w_http_log hook_world = []" by (simp add: hook_world_def sample_world_def empty_world_def)
  ultimately show ?thesis using run by auto
qed

theorem exhausted_retry_panics_witness:
  "\<exists>msg w'. RetryFailedDeliveries 100 stuck_world = (Panic msg, w') \<and>
     filter (\<lambda>x. wd_ID x \<noteq> 81) (t_webhook_deliveries w') = [sample_delivery 82 1 600]"
proof -
  have ex: "exhausted (sample_hook 71 1 ''active'') (sample_delivery 81 2 500)"
    by (simp add: exhausted_def sample_hook_def sample_delivery_def)
  have "no_faults stuck_world"
    by (simp add: no_faults_def stuck_world_def hook_world_def sample_world_def empty_world_def)
  moreover have "sort_Slice (\<lambda>a b. the (wd_NextRetryAt a) < the (wd_NextRetryAt b))
      (filter (retry_due (w_now stuck_world) 5) (t_webhook_deliveries stuck_world)) =
      [sample_delivery 81 2 500, sample_delivery 82 1 600]"
    by (simp add: stuck_world_def hook_world_def sample_world_def empty_world_def retry_due_def sample_delivery_def)
  moreover have "filter (live_webhook (wd_WebhookID (sample_delivery 81 2 500))) (t_webhooks stuck_world) =
      [sample_hook 71 1 ''active'']"
    by (simp add: stuck_world_def hook_world_def sample_delivery_def sample_hook_def live_webhook_def)
  moreover have "\<not> do_success (case w_http stuck_world k of (reply, ms) \<Rightarrow> outcome_of reply ms)" for k
    by (simp add: stuck_world_def hook_world_def outcome_of_def Let_def)
  moreover have "wh_Status (sample_hook 71 1 ''active'') = ''active''" by (simp add: sample_hook_def)
  ultimately obtain msg w' where "RetryFailedDeliveries 100 stuck_world = (Panic msg, w')"
      "filter (\<lambda>x. wd_ID x \<noteq> wd_ID (sample_delivery 81 2 500)) (t_webhook_deliveries w') =
       filter (\<lambda>x. wd_ID x \<noteq> wd_ID (sample_delivery 81 2 500)) (t_webhook_deliveries stuck_world)"
    using exhausted_retry_panics [of stuck_world 100 "sample_delivery 81 2 500" _ "sample_hook 71 1 ''active''" "[]"] ex
    by (metis zero_less_numeral)
  then show ?thesis by (auto simp: stuck_world_def sample_delivery_def)
qed

end
