(* ===== verification/Spam.thy ===== *)
theory Spam
  imports WaitlistStore Access
begin

text \<open>
  Spam detection on signups: spam/disposable_domains.go, spam/processor/processor.go,
  spam/consumer/consumer.go and the fraud detections of store/api_key.go. A confidence is the
  decimal the source writes; the column is DECIMAL(3, 2).
\<close>

section \<open>Fraud detections\<close>

definition sql_fraud_detection_type :: "string list" where
  [enums]: "sql_fraud_detection_type = [''self_referral'', ''fake_email'', ''bot'', ''suspicious_ip'', ''velocity'']"

definition sql_fraud_detection_status :: "string list" where
  [enums]: "sql_fraud_detection_status = [''pending'', ''confirmed'', ''false_positive'', ''resolved'']"

record CreateFraudDetectionParams =
  cfp_CampaignID :: uuid
  cfp_UserID :: "uuid option"
  cfp_DetectionType :: string
  cfp_ConfidenceScore :: rat
  cfp_Details :: jsonb

definition numeric_3_2 :: "rat \<Rightarrow> rat" where
  "numeric_3_2 x = of_int (if x < 0 then - \<lfloor>1 / 2 - 100 * x\<rfloor> else \<lfloor>100 * x + 1 / 2\<rfloor>) / 100"

definition fraud_insert_check :: "world \<Rightarrow> FraudDetection list \<Rightarrow> FraudDetection \<Rightarrow> string option" where
  "fraud_insert_check w rows r =
     (if fd_ID r \<in> fd_ID ` set rows then Some ''fraud_detections_pkey''
      else if fd_CampaignID r \<notin> cp_ID ` set (t_campaigns w) then Some ''fraud_detections_campaign_id_fkey''
      else if (case fd_UserID r of None \<Rightarrow> False | Some i \<Rightarrow> i \<notin> wu_ID ` set (t_waitlist_users w))
        then Some ''fraud_detections_user_id_fkey''
      else if fd_DetectionType r \<notin> set sql_fraud_detection_type then Some ''fraud_detection_type''
      else if 10 \<le> \<bar>fd_ConfidenceScore r\<bar> then Some ''numeric field overflow''
      else if fd_Details r = None then Some ''null value in column details'' else None)"

definition store_CreateFraudDetection :: "CreateFraudDetectionParams \<Rightarrow> (world, FraudDetection) go" where
  "store_CreateFraudDetection p = wrapE ''failed to create fraud detection''
     (sql_insert fraud_detections_tbl fraud_insert_check
        (\<lambda>i now. \<lparr>fd_ID = i, fd_CampaignID = cfp_CampaignID p, fd_UserID = cfp_UserID p,
           fd_DetectionType = cfp_DetectionType p, fd_ConfidenceScore = numeric_3_2 (cfp_ConfidenceScore p),
           fd_Details = jsonb_stored (cfp_Details p), fd_Status = FraudDetectionStatusPending,
           fd_ReviewedBy = None, fd_ReviewedAt = None, fd_ReviewNotes = None, fd_CreatedAt = now\<rparr>))"

text \<open>ORDER BY confidence_score DESC, created_at DESC.\<close>

definition by_confidence :: "FraudDetection \<Rightarrow> FraudDetection \<Rightarrow> bool" where
  "by_confidence a b = (fd_ConfidenceScore b < fd_ConfidenceScore a \<or>
     fd_ConfidenceScore a = fd_ConfidenceScore b \<and> fd_CreatedAt b < fd_CreatedAt a)"

definition store_GetFraudDetectionsByCampaign :: "uuid \<Rightarrow> int \<Rightarrow> int \<Rightarrow> (world, FraudDetection list) go" where
  "store_GetFraudDetectionsByCampaign campaignID lmt off =
     wrapE ''failed to get fraud detections by campaign''
       (sql_page (\<lambda>w. sort_Slice by_confidence
          (filter (\<lambda>d. fd_CampaignID d = campaignID) (t_fraud_detections w))) lmt off)"

definition store_GetFraudDetectionsByUser :: "uuid \<Rightarrow> (world, FraudDetection list) go" where
  "store_GetFraudDetectionsByUser userID = wrapE ''failed to get fraud detections by user''
     (sql_query (\<lambda>w. sort_Slice (\<lambda>a b. fd_CreatedAt b < fd_CreatedAt a)
        (filter (\<lambda>d. fd_UserID d = Some userID) (t_fraud_detections w))))"

definition fraud_status_check :: "FraudDetection list \<Rightarrow> string option" where
  "fraud_status_check rows = (if list_all (\<lambda>d. fd_Status d \<in> set sql_fraud_detection_status) rows then None
     else Some ''invalid input value for enum fraud_detection_status'')"

definition store_UpdateFraudDetectionStatus ::
    "uuid \<Rightarrow> uuid \<Rightarrow> string \<Rightarrow> string option \<Rightarrow> (world, unit) go" where
  "store_UpdateFraudDetectionStatus detectionID reviewedBy st notes =
     affected_or ''failed to update fraud detection status''
       (sql_update fraud_detections_tbl fraud_status_check (\<lambda>d. fd_ID d = detectionID)
          (\<lambda>w d. d\<lparr>fd_Status := st, fd_ReviewedBy := Some reviewedBy, fd_ReviewedAt := Some (w_now w),
             fd_ReviewNotes := notes\<rparr>))"

definition store_GetPendingFraudDetections :: "rat \<Rightarrow> int \<Rightarrow> (world, FraudDetection list) go" where
  "store_GetPendingFraudDetections minConfidence lmt =
     wrapE ''failed to get pending fraud detections''
       (sql_page (\<lambda>w. sort_Slice by_confidence
          (filter (\<lambda>d. fd_Status d = ''pending'' \<and> minConfidence \<le> fd_ConfidenceScore d)
             (t_fraud_detections w))) lmt 0)"

section \<open>Disposable domains\<close>

definition disposableDomains :: "string list" where
  "disposableDomains = [
    ''mailinator.com'', ''mailinator2.com'', ''guerrillamail.com'', ''guerrillamail.org'',
    ''guerrillamail.net'', ''guerrillamail.biz'', ''guerrillamail.de'', ''sharklasers.com'', ''grr.la'',
    ''guerrillamailblock.com'', ''pokemail.net'', ''spam4.me'', ''10minutemail.com'', ''10minutemail.net'',
    ''10minutemail.org'', ''10minemail.com'', ''10minmail.com'', ''tempmail.com'', ''tempmail.net'',
    ''temp-mail.org'', ''temp-mail.io'', ''tempail.com'', ''tempr.email'', ''tempmailo.com'',
    ''throwaway.email'', ''throwawaymail.com'', ''throam.com'', ''trbvm.com'', ''trashmail.com'',
    ''trashmail.net'', ''trashmail.org'', ''trash-mail.com'', ''trashemail.de'', ''fakeinbox.com'',
    ''fakemailgenerator.com'', ''fakemail.fr'', ''fakemailgenerator.net'', ''yopmail.com'', ''yopmail.fr'',
    ''yopmail.net'', ''cool.fr.nf'', ''jetable.fr.nf'', ''courriel.fr.nf'', ''moncourrier.fr.nf'',
    ''monemail.fr.nf'', ''monmail.fr.nf'', ''hide.biz.st'', ''mytrashmail.com'', ''maildrop.cc'',
    ''mailnesia.com'', ''discard.email'', ''discardmail.com'', ''discardmail.de'', ''spambog.com'',
    ''spambog.de'', ''spambog.ru'', ''getnada.com'', ''abyssmail.com'', ''boximail.com'', ''clrmail.com'',
    ''dropjar.com'', ''getairmail.com'', ''givmail.com'', ''inboxbear.com'', ''tafmail.com'', ''vomoto.com'',
    ''zetmail.com'', ''mohmal.com'', ''mohmal.im'', ''mohmal.in'', ''mohmal.tech'', ''burnermail.io'',
    ''burnermailprovider.com'', ''mailnator.com'', ''mailtothis.com'', ''mailsac.com'', ''mt2009.com'',
    ''mt2014.com'', ''mynetstore.de'', ''mypacks.net'', ''nada.email'', ''nwldx.com'', ''objectmail.com'',
    ''one-time.email'', ''otherinbox.com'', ''ourklips.com'', ''outlawspam.com'', ''owlpic.com'',
    ''pjjkp.com'', ''proxymail.eu'', ''punkass.com'', ''putthisinyourspamdatabase.com'', ''quickinbox.com'',
    ''rcpt.at'', ''receiveee.com'', ''regbypass.com'', ''rhyta.com'', ''rklips.com'', ''rmqkr.net'',
    ''rppkn.com'', ''rtrtr.com'', ''s0ny.net'', ''safe-mail.net'', ''safersignup.de'', ''safetymail.info'',
    ''safetypost.de'', ''sendspamhere.com'', ''shiftmail.com'', ''sinnlos-mail.de'', ''siteposter.net'',
    ''smellfear.com'', ''snakemail.com'', ''sofimail.com'', ''sofort-mail.de'', ''sogetthis.com'',
    ''soodonims.com'', ''spam.la'', ''spamavert.com'', ''spambob.com'', ''spambob.net'', ''spambob.org'',
    ''spambox.info'', ''spambox.irishspringrealty.com'', ''spambox.us'', ''spamcannon.com'',
    ''spamcannon.net'', ''spamcero.com'', ''spamcon.org'', ''spamcorptastic.com'', ''spamcowboy.com'',
    ''spamcowboy.net'', ''spamcowboy.org'', ''spamday.com'', ''spamex.com'', ''spamfree24.com'',
    ''spamfree24.de'', ''spamfree24.eu'', ''spamfree24.info'', ''spamfree24.net'', ''spamfree24.org'',
    ''spamgoes.in'', ''spamgourmet.com'', ''spamgourmet.net'', ''spamgourmet.org'', ''spamherelots.com'',
    ''spamhereplease.com'', ''spamhole.com'', ''spamify.com'', ''spaminator.de'', ''spamkill.info'',
    ''spaml.com'', ''spaml.de'', ''spamlot.net'', ''spammotel.com'', ''spamobox.com'', ''spamoff.de'',
    ''spamslicer.com'', ''spamspot.com'', ''spamthis.co.uk'', ''spamthisplease.com'', ''spamtrail.com'',
    ''spamtroll.net'', ''speed.1s.fr'', ''spoofmail.de'', ''squizzy.de'', ''ssoia.com'', ''startkeys.com'',
    ''stinkefinger.net'', ''stop-my-spam.com'', ''stuffmail.de'', ''supergreatmail.com'', ''supermailer.jp'',
    ''superrito.com'', ''superstachel.de'', ''suremail.info'', ''svk.jp'', ''sweetxxx.de'',
    ''tagyourself.com'', ''teleworm.com'', ''teleworm.us'', ''tempalias.com'', ''tempinbox.co.uk'',
    ''tempinbox.com'', ''tempmail.co'', ''tempmail.de'', ''tempmail.it'', ''tempomail.fr'',
    ''temporarily.de'', ''temporarioemail.com.br'', ''temporaryemail.net'', ''temporaryemail.us'',
    ''temporaryforwarding.com'', ''temporaryinbox.com'', ''thankyou2010.com'', ''thc.st'',
    ''thelimestones.com'', ''thisisnotmyrealemail.com'', ''thismail.net'', ''throwam.com'', ''tilien.com'',
    ''tittbit.in'', ''tmailinator.com'', ''toiea.com'', ''tradermail.info'', ''trbvn.com'',
    ''trickmail.net'', ''tyldd.com'', ''uggsrock.com'', ''upliftnow.com'', ''uplipht.com'', ''uroid.com'',
    ''veryrealemail.com'', ''viditag.com'', ''viewcastmedia.com'', ''viewcastmedia.net'',
    ''viewcastmedia.org'', ''wegwerfadresse.de'', ''wegwerfemail.com'', ''wegwerfemail.de'',
    ''wegwerfmail.de'', ''wegwerfmail.info'', ''wegwerfmail.net'', ''wegwerfmail.org'',
    ''wetrainbayarea.com'', ''wetrainbayarea.org'', ''wh4f.org'', ''whatiaas.com'', ''whatpaas.com'',
    ''whopy.com'', ''wilemail.com'', ''willhackforfood.biz'', ''willselfdestruct.com'', ''winemaven.info'',
    ''wolfsmail.tk'', ''writeme.us'', ''wronghead.com'', ''wuzup.net'', ''wuzupmail.net'', ''wwwnew.eu'',
    ''xagloo.com'', ''xemaps.com'', ''xents.com'', ''xmaily.com'', ''xoxy.net'', ''yapped.net'', ''yep.it'',
    ''yogamaven.com'', ''yuurok.com'', ''zehnminutenmail.de'', ''zippymail.info'', ''zoaxe.com'',
    ''zoemail.com'', ''zoemail.net'', ''zoemail.org'', ''zomg.info'', ''zxcv.com'', ''zxcvbnm.com'',
    ''zzz.com'']"

definition IsDisposableDomain :: "string \<Rightarrow> bool" where
  "IsDisposableDomain domain = (ToLower domain \<in> set disposableDomains)"

section \<open>Checks\<close>

record FraudResult =
  fr_DetectionType :: string
  fr_ConfidenceScore :: rat
  fr_Details :: "(string \<times> jval) list"

definition autoBlockThreshold :: rat where "autoBlockThreshold = 90 / 100"
definition velocityWindow :: int where "velocityWindow = 10 * 60 * 1000000000"
definition velocityThresholdLow :: int where "velocityThresholdLow = 3"
definition velocityThresholdMid :: int where "velocityThresholdMid = 6"
definition velocityThresholdHigh :: int where "velocityThresholdHigh = 10"

text \<open>strings.SplitN(s, sep, 2) for a separator of one byte.\<close>

definition SplitN2 :: "string \<Rightarrow> char \<Rightarrow> string list" where
  "SplitN2 s sep = (let p = takeWhile (\<lambda>c. c \<noteq> sep) s in
     if sep \<in> set s then [p, drop (Suc (length p)) s] else [s])"

definition normal_email :: "string \<Rightarrow> string" where
  "normal_email email = ToLower (TrimSpace email)"

definition extractDomain :: "string \<Rightarrow> string" where
  "extractDomain email = (case SplitN2 (normal_email email) CHR ''@'' of [a, b] \<Rightarrow> b | _ \<Rightarrow> '''')"

definition checkEmailSimilarity :: "string \<Rightarrow> string \<Rightarrow> rat" where
  "checkEmailSimilarity email1 email2 =
     (case (SplitN2 (normal_email email1) CHR ''@'', SplitN2 (normal_email email2) CHR ''@'') of
        ([local1, domain1], [local2, domain2]) \<Rightarrow>
          if domain1 \<noteq> domain2 then 0
          else let baseLocal1 = hd (SplitN2 local1 CHR ''+''); baseLocal2 = hd (SplitN2 local2 CHR ''+'') in
            if baseLocal1 = baseLocal2 then 95 / 100
            else let base1 = TrimRight baseLocal1 ''0123456789''; base2 = TrimRight baseLocal2 ''0123456789'' in
              if base1 = base2 \<and> base1 \<noteq> '''' then 85 / 100 else 0
      | _ \<Rightarrow> 0)"

text \<open>The match of a user and the referrer: the confidence and the details it adds; 0 for none.\<close>

definition same_opt :: "'a option \<Rightarrow> 'a option \<Rightarrow> bool" where
  "same_opt a b = (a \<noteq> None \<and> b \<noteq> None \<and> a = b)"

definition referral_match :: "WaitlistUser \<Rightarrow> WaitlistUser \<Rightarrow> rat \<times> (string \<times> jval) list" where
  "referral_match user referrer =
     (if same_opt (wu_IPAddress user) (wu_IPAddress referrer)
      then (95 / 100, [(''match_type'', JStr ''ip_address''), (''ip_address'', JStr (the (wu_IPAddress user)))])
      else if same_opt (wu_DeviceFingerprint user) (wu_DeviceFingerprint referrer)
      then (90 / 100, [(''match_type'', JStr ''device_fingerprint'')])
      else let similarity = checkEmailSimilarity (wu_Email user) (wu_Email referrer) in
        if 8 / 10 < similarity
        then (70 / 100, [(''match_type'', JStr ''email_similarity''), (''similarity_score'', JFloat similarity)])
        else (0, []))"

definition checkSelfReferral :: "WaitlistUser \<Rightarrow> (world, FraudResult option) go" where
  "checkSelfReferral user = (case wu_ReferredByID user of
       None \<Rightarrow> retE None
     | Some referrerID \<Rightarrow>
        bindE (store_GetWaitlistUserByID referrerID) (\<lambda>referrer.
        bindE (getE w_uuid_String) (\<lambda>str.
        case referral_match user referrer of (confidence, matched) \<Rightarrow>
        if 0 < confidence then retE (Some \<lparr>fr_DetectionType = FraudDetectionTypeSelfReferral,
          fr_ConfidenceScore = confidence,
          fr_Details = [(''referrer_id'', JStr (str (wu_ID referrer))), (''referrer_email'', JStr (wu_Email referrer)),
            (''user_email'', JStr (wu_Email user))] @ matched\<rparr>)
        else retE None)))"

definition velocity_confidence :: "int \<Rightarrow> rat" where
  "velocity_confidence n = (if velocityThresholdHigh \<le> n then 95 / 100
     else if velocityThresholdMid \<le> n then 85 / 100
     else if velocityThresholdLow \<le> n then 70 / 100 else 0)"

definition checkVelocity :: "WaitlistUser \<Rightarrow> (world, FraudResult option) go" where
  "checkVelocity user = (case wu_IPAddress user of
       None \<Rightarrow> retE None
     | Some ip \<Rightarrow>
        bindE (getE w_now) (\<lambda>now.
        bindE (store_CountRecentSignupsByIP (wu_CampaignID user) ip (now - velocityWindow)) (\<lambda>n.
        let others = (if 0 < n then n - 1 else n); confidence = velocity_confidence others in
        if 0 < confidence then retE (Some \<lparr>fr_DetectionType = FraudDetectionTypeVelocity,
          fr_ConfidenceScore = confidence,
          fr_Details = [(''ip_address'', JStr ip), (''signup_count'', JInt others), (''window_minutes'', JInt 10)]\<rparr>)
        else retE None)))"

definition checkDisposableEmail :: "WaitlistUser \<Rightarrow> FraudResult option" where
  "checkDisposableEmail user = (let domain = extractDomain (wu_Email user) in
     if domain = '''' then None
     else if IsDisposableDomain domain
     then Some \<lparr>fr_DetectionType = FraudDetectionTypeFakeEmail, fr_ConfidenceScore = 95 / 100,
       fr_Details = [(''email'', JStr (wu_Email user)), (''domain'', JStr domain),
         (''reason'', JStr ''disposable_email_provider'')]\<rparr>
     else None)"

definition processResult :: "WaitlistUser \<Rightarrow> FraudResult \<Rightarrow> (world, unit) go" where
  "processResult user result =
     bindE (store_CreateFraudDetection \<lparr>cfp_CampaignID = wu_CampaignID user, cfp_UserID = Some (wu_ID user),
       cfp_DetectionType = fr_DetectionType result, cfp_ConfidenceScore = fr_ConfidenceScore result,
       cfp_Details = Some (fr_Details result)\<rparr>) (\<lambda>d.
     if autoBlockThreshold \<le> fr_ConfidenceScore result then store_BlockWaitlistUser (wu_ID user)
     else retE ())"

text \<open>A check that fails is logged and finds nothing.\<close>

definition found :: "(world, FraudResult option) go \<Rightarrow> (world, FraudResult list) go" where
  "found check = tryE check (\<lambda>e. retE []) (\<lambda>r. retE (case r of None \<Rightarrow> [] | Some x \<Rightarrow> [x]))"

definition AnalyzeSignup :: "WaitlistUser \<Rightarrow> (world, unit) go" where
  "AnalyzeSignup user =
     bindE (found (checkSelfReferral user)) (\<lambda>r1.
     bindE (found (checkVelocity user)) (\<lambda>r2.
     let r3 = (case checkDisposableEmail user of None \<Rightarrow> [] | Some x \<Rightarrow> [x]) in
     forE (r1 @ r2 @ r3) (\<lambda>result. logE (processResult user result))))"

section \<open>Consuming signups\<close>

definition spam_handleUserCreated :: "EventMessage \<Rightarrow> (world, unit) go" where
  "spam_handleUserCreated event =
     (case (case jget (em_Data event) ''campaign_id'' of
              None \<Rightarrow> True | Some JNull \<Rightarrow> True | Some (JStr s) \<Rightarrow> True | Some v \<Rightarrow> False,
            case jget (em_Data event) ''user'' of
              None \<Rightarrow> Some [] | Some JNull \<Rightarrow> Some [] | Some (JObj kvs) \<Rightarrow> Some kvs | Some v \<Rightarrow> None) of
        (True, Some user_data) \<Rightarrow>
          (case map_of user_data ''id'' of
             Some (JStr s) \<Rightarrow>
               bindE (getE w_uuid_Parse) (\<lambda>parse.
               case parse s of
                 None \<Rightarrow> failE (Wrap ''invalid user_id format'' (ExtErr ''invalid UUID''))
               | Some userID \<Rightarrow>
                   bindE (wrapE ''failed to get waitlist user'' (store_GetWaitlistUserByID userID)) (\<lambda>user.
                   if wu_Status user = WaitlistUserStatusBlocked then retE ()
                   else wrapE ''spam analysis failed'' (AnalyzeSignup user)))
           | _ \<Rightarrow> failE (NewErr ''missing or invalid user id in event data''))
      | _ \<Rightarrow> failE (Wrap ''failed to unmarshal event data'' (ExtErr ''json'')))"

definition spam_Process :: "EventMessage \<Rightarrow> (world, unit) go" where
  "spam_Process event = (if em_Type event \<noteq> ''user.created'' then retE () else spam_handleUserCreated event)"

end
