(* ===== verification/SpamFacts.thy ===== *)
theory SpamFacts
  imports Spam Wp Samples
begin

text \<open>
  What the analysis of a signup does: it blocks the user exactly when one of three pieces of
  evidence is there, records each detection, and never fails.
\<close>

section \<open>The evidence\<close>

definition referrer_of :: "world \<Rightarrow> WaitlistUser \<Rightarrow> WaitlistUser option" where
  "referrer_of w u = (case wu_ReferredByID u of None \<Rightarrow> None
     | Some i \<Rightarrow> (case filter (live_user i) (t_waitlist_users w) of [] \<Rightarrow> None | r # rs \<Rightarrow> Some r))"

text \<open>The other signups from the user's address in the last ten minutes.\<close>

definition recent_others :: "world \<Rightarrow> WaitlistUser \<Rightarrow> int" where
  "recent_others w u = int (length (users_where (\<lambda>v. wu_CampaignID v = wu_CampaignID u \<and>
     wu_IPAddress v = wu_IPAddress u \<and> w_now w - velocityWindow < wu_CreatedAt v) w)) - 1"

definition blocking_evidence :: "world \<Rightarrow> WaitlistUser \<Rightarrow> bool" where
  "blocking_evidence w u =
     ((\<exists>r. referrer_of w u = Some r \<and> (same_opt (wu_IPAddress u) (wu_IPAddress r) \<or>
        same_opt (wu_DeviceFingerprint u) (wu_DeviceFingerprint r))) \<or>
      (wu_IPAddress u \<noteq> None \<and> 10 \<le> recent_others w u) \<or>
      extractDomain (wu_Email u) \<in> set disposableDomains)"

definition block :: "time \<Rightarrow> WaitlistUser \<Rightarrow> WaitlistUser" where
  "block now u = u\<lparr>wu_Status := WaitlistUserStatusBlocked, wu_UpdatedAt := now\<rparr>"

section \<open>One detection\<close>

text \<open>The tables and the environment as one round leaves them for the next.\<close>

definition ready :: "nat \<Rightarrow> WaitlistUser \<Rightarrow> world \<Rightarrow> bool" where
  "ready n u w = (no_faults w \<and> wu_CampaignID u \<in> cp_ID ` set (t_campaigns w) \<and>
     (\<exists>v\<in>set (t_waitlist_users w). live_user (wu_ID u) v) \<and>
     distinct (map fd_ID (t_fraud_detections w) @ map (w_uuids w) [w_fresh w..<w_fresh w + n]))"

definition plausible :: "FraudResult \<Rightarrow> bool" where
  "plausible r = (fr_DetectionType r \<in> set sql_fraud_detection_type \<and> 0 \<le> fr_ConfidenceScore r \<and> fr_ConfidenceScore r \<le> 1)"

lemma numeric_3_2_small: "0 \<le> x \<Longrightarrow> x \<le> 1 \<Longrightarrow> \<bar>numeric_3_2 x\<bar> < 10"
proof -
  assume x: "0 \<le> x" "x \<le> 1"
  have "\<lfloor>100 * x + 1 / 2\<rfloor> \<le> \<lfloor>(101 :: rat)\<rfloor>" by (rule floor_mono) (use x in linarith)
  moreover have "\<lfloor>0 :: rat\<rfloor> \<le> \<lfloor>100 * x + 1 / 2\<rfloor>" by (rule floor_mono) (use x in linarith)
  ultimately have "0 \<le> \<lfloor>100 * x + 1 / 2\<rfloor>" "\<lfloor>100 * x + 1 / 2\<rfloor> \<le> 101" by simp_all
  then have "0 \<le> (of_int \<lfloor>100 * x + 1 / 2\<rfloor> :: rat)" "(of_int \<lfloor>100 * x + 1 / 2\<rfloor> :: rat) \<le> 101" by linarith+
  then show ?thesis using x by (simp add: numeric_3_2_def)
qed

lemma filter_live_upd_block:
  "(\<exists>v\<in>set rows. live_user i v) \<Longrightarrow> filter (live_user i) rows \<noteq> []"
  by (auto simp: filter_empty_conv)

lemma block_idem: "upd_where (live_user i) (block now) (upd_where (live_user i) (block now) rows) =
    upd_where (live_user i) (block now) rows"
  by (auto simp: upd_where_def block_def live_user_def)

lemma processResult_run:
  assumes "ready (Suc n) u w" "plausible r"
  shows "\<exists>w'. processResult u r w = (Ok (), w') \<and> ready n u w' \<and> w_now w' = w_now w \<and>
    t_waitlist_users w' = (if autoBlockThreshold \<le> fr_ConfidenceScore r
      then upd_where (live_user (wu_ID u)) (block (w_now w)) (t_waitlist_users w) else t_waitlist_users w) \<and>
    map (\<lambda>d. (fd_UserID d, fd_DetectionType d)) (t_fraud_detections w') =
    map (\<lambda>d. (fd_UserID d, fd_DetectionType d)) (t_fraud_detections w) @ [(Some (wu_ID u), fr_DetectionType r)]"
proof -
  have small: "\<not> 10 \<le> \<bar>numeric_3_2 (fr_ConfidenceScore r)\<bar>"
    using numeric_3_2_small assms(2) by (fastforce simp: plausible_def)
  have user: "wu_ID u \<in> wu_ID ` set (t_waitlist_users w)"
    using assms(1) unfolding ready_def live_user_def by (metis image_eqI)
  have fresh: "w_uuids w (w_fresh w) \<notin> fd_ID ` set (t_fraud_detections w)"
    using assms(1) by (auto simp: ready_def upt_conv_Cons simp del: upt_Suc)
  obtain d w1 where c: "store_CreateFraudDetection \<lparr>cfp_CampaignID = wu_CampaignID u, cfp_UserID = Some (wu_ID u),
       cfp_DetectionType = fr_DetectionType r, cfp_ConfidenceScore = fr_ConfidenceScore r,
       cfp_Details = Some (fr_Details r)\<rparr> w = (Ok d, w1)"
      and w1: "w1 = w\<lparr>w_calls := Suc (w_calls w), w_fresh := Suc (w_fresh w), t_fraud_detections := t_fraud_detections w @ [d]\<rparr>"
      and d: "fd_ID d = w_uuids w (w_fresh w)" "fd_UserID d = Some (wu_ID u)" "fd_DetectionType d = fr_DetectionType r"
    using assms small user fresh
    by (auto simp: store_CreateFraudDetection_def wrapE_def tryE_def sql_insert_def db_def Let_def ready_def no_faults_def
        fraud_insert_check_def jsonb_stored_def plausible_def retE_def image_iff)
  have r1: "ready n u w1"
    using assms(1) d(1) by (auto simp: ready_def w1 no_faults_def upt_conv_Cons simp del: upt_Suc)
  show ?thesis
  proof (cases "autoBlockThreshold \<le> fr_ConfidenceScore r")
    case True
    let ?rows = "upd_where (live_user (wu_ID u)) (block (w_now w)) (t_waitlist_users w)"
    let ?w2 = "w1\<lparr>w_calls := Suc (Suc (w_calls w)), t_waitlist_users := ?rows\<rparr>"
    have "filter (live_user (wu_ID u)) (t_waitlist_users w) \<noteq> []"
      using assms(1) by (intro filter_live_upd_block) (simp add: ready_def)
    then have "store_BlockWaitlistUser (wu_ID u) w1 = (Ok (), ?w2)"
      using assms(1) by (simp add: store_BlockWaitlistUser_def affected_or_def wrapE_def bindE_def tryE_def retE_def
          sql_update_def db_def Let_def no_check_def w1 ready_def no_faults_def block_def [abs_def])
    moreover have "\<exists>v\<in>set ?rows. live_user (wu_ID u) v"
    proof -
      obtain v where "v \<in> set (t_waitlist_users w)" "live_user (wu_ID u) v" using assms(1) by (auto simp: ready_def)
      then show ?thesis
        by (intro bexI [of _ "block (w_now w) v"]) (auto simp: set_upd_where live_user_def block_def)
    qed
    then have "ready n u ?w2"
      using r1 by (simp add: ready_def no_faults_def w1)
    ultimately show ?thesis using True c d by (simp add: processResult_def bindE_def tryE_def w1)
  next
    case False
    then show ?thesis using c d r1 by (simp add: processResult_def bindE_def tryE_def retE_def w1)
  qed
qed


lemma processResults_run:
  assumes "ready (length rs) u w" "\<forall>r\<in>set rs. plausible r"
  shows "\<exists>w'. forE rs (\<lambda>r. logE (processResult u r)) w = (Ok (), w') \<and>
    t_waitlist_users w' = (if \<exists>r\<in>set rs. autoBlockThreshold \<le> fr_ConfidenceScore r
      then upd_where (live_user (wu_ID u)) (block (w_now w)) (t_waitlist_users w) else t_waitlist_users w) \<and>
    map (\<lambda>d. (fd_UserID d, fd_DetectionType d)) (t_fraud_detections w') =
    map (\<lambda>d. (fd_UserID d, fd_DetectionType d)) (t_fraud_detections w) @
    map (\<lambda>r. (Some (wu_ID u), fr_DetectionType r)) rs"
  using assms
proof (induction rs arbitrary: w)
  case Nil
  then show ?case by (simp add: retE_def)
next
  case (Cons r rs)
  obtain w1 where w1: "processResult u r w = (Ok (), w1)" "ready (length rs) u w1" "w_now w1 = w_now w"
      "t_waitlist_users w1 = (if autoBlockThreshold \<le> fr_ConfidenceScore r
        then upd_where (live_user (wu_ID u)) (block (w_now w)) (t_waitlist_users w) else t_waitlist_users w)"
      "map (\<lambda>d. (fd_UserID d, fd_DetectionType d)) (t_fraud_detections w1) =
       map (\<lambda>d. (fd_UserID d, fd_DetectionType d)) (t_fraud_detections w) @ [(Some (wu_ID u), fr_DetectionType r)]"
    using processResult_run [of "length rs" u w r] Cons.prems by auto
  obtain w' where w': "forE rs (\<lambda>r. logE (processResult u r)) w1 = (Ok (), w')"
      "t_waitlist_users w' = (if \<exists>r\<in>set rs. autoBlockThreshold \<le> fr_ConfidenceScore r
        then upd_where (live_user (wu_ID u)) (block (w_now w1)) (t_waitlist_users w1) else t_waitlist_users w1)"
      "map (\<lambda>d. (fd_UserID d, fd_DetectionType d)) (t_fraud_detections w') =
       map (\<lambda>d. (fd_UserID d, fd_DetectionType d)) (t_fraud_detections w1) @
       map (\<lambda>r. (Some (wu_ID u), fr_DetectionType r)) rs"
    using Cons.IH [OF w1(2)] Cons.prems(2) by auto
  have "forE (r # rs) (\<lambda>r. logE (processResult u r)) w = (Ok (), w')"
    using w1(1) w'(1) by (simp add: bindE_def tryE_def logE_def retE_def)
  moreover have "t_waitlist_users w' = (if \<exists>r\<in>set (r # rs). autoBlockThreshold \<le> fr_ConfidenceScore r
      then upd_where (live_user (wu_ID u)) (block (w_now w)) (t_waitlist_users w) else t_waitlist_users w)"
    by (simp add: w'(2) w1(3,4) block_idem)
  ultimately show ?case using w'(3) w1(5) by auto
qed

section \<open>The checks\<close>

lemma referral_match_le: "0 \<le> fst (referral_match u r) \<and> fst (referral_match u r) \<le> 1"
  by (simp add: referral_match_def Let_def)

lemma referral_match_block: "autoBlockThreshold \<le> fst (referral_match u r) \<longleftrightarrow>
    same_opt (wu_IPAddress u) (wu_IPAddress r) \<or> same_opt (wu_DeviceFingerprint u) (wu_DeviceFingerprint r)"
  by (simp add: referral_match_def Let_def autoBlockThreshold_def)

lemma found_self:
  assumes "no_faults w"
  shows "\<exists>rs w'. found (checkSelfReferral u) w = (Ok rs, w') \<and> tick w w' \<and> length rs \<le> 1 \<and>
    (\<forall>r\<in>set rs. plausible r) \<and>
    ((\<exists>r\<in>set rs. autoBlockThreshold \<le> fr_ConfidenceScore r) \<longleftrightarrow> (\<exists>r. referrer_of w u = Some r \<and>
       (same_opt (wu_IPAddress u) (wu_IPAddress r) \<or> same_opt (wu_DeviceFingerprint u) (wu_DeviceFingerprint r))))"
proof (cases "wu_ReferredByID u")
  case None
  then show ?thesis by (simp add: found_def checkSelfReferral_def tryE_def retE_def referrer_of_def tick.step_refl)
next
  case (Some i)
  have t: "tick w (ticked w)" unfolding tick_def ticked_def by blast
  have q: "users_where (\<lambda>u. wu_ID u = i) (ticked w) = filter (live_user i) (t_waitlist_users w)"
    by (simp add: users_where_def live_user_def [abs_def])
  show ?thesis
  proof (cases "filter (live_user i) (t_waitlist_users w)")
    case Nil
    then have "store_GetWaitlistUserByID i w = (Err ErrNotFound, ticked w)"
      using assms q by (simp add: store_GetWaitlistUserByID_def row_or_def sql_get_def db_def tryE_def failE_def
          no_faults_def ticked_def)
    then show ?thesis
      using Nil Some t by (simp add: found_def checkSelfReferral_def bindE_def tryE_def failE_def retE_def referrer_of_def)
  next
    case (Cons r rest)
    then have "store_GetWaitlistUserByID i w = (Ok r, ticked w)"
      using assms q by (simp add: store_GetWaitlistUserByID_def row_or_Ok sql_get_Ok no_faults_def)
    moreover have "referrer_of w u = Some r" using Some Cons by (simp add: referrer_of_def)
    ultimately show ?thesis
      using Some t referral_match_le [of u r] referral_match_block [of u r]
      by (cases "referral_match u r")
         (auto simp: found_def checkSelfReferral_def bindE_def tryE_def retE_def getE_def plausible_def enums
            sql_fraud_detection_type_def autoBlockThreshold_def)
  qed
qed

lemma found_velocity:
  assumes "no_faults w" "wu_IPAddress u \<noteq> None \<Longrightarrow> 0 \<le> recent_others w u"
  shows "\<exists>rs w'. found (checkVelocity u) w = (Ok rs, w') \<and> tick w w' \<and> length rs \<le> 1 \<and>
    (\<forall>r\<in>set rs. plausible r) \<and>
    ((\<exists>r\<in>set rs. autoBlockThreshold \<le> fr_ConfidenceScore r) \<longleftrightarrow> wu_IPAddress u \<noteq> None \<and> 10 \<le> recent_others w u)"
proof (cases "wu_IPAddress u")
  case None
  then show ?thesis by (simp add: found_def checkVelocity_def tryE_def retE_def tick.step_refl)
next
  case (Some ip)
  have t: "tick w (ticked w)" unfolding tick_def ticked_def by blast
  have q: "store_CountRecentSignupsByIP (wu_CampaignID u) ip (w_now w - velocityWindow) w =
      (Ok (recent_others w u + 1), ticked w)"
    using assms(1) Some by (simp add: store_CountRecentSignupsByIP_def wrapE_Ok sql_query_Ok no_faults_def recent_others_def users_where_def)
  have n: "(if 0 < recent_others w u + 1 then recent_others w u + 1 - 1 else recent_others w u + 1) = recent_others w u"
    using assms(2) Some by simp
  show ?thesis
    using Some t
    by (auto simp: found_def checkVelocity_def bindE_def tryE_def getE_def retE_def q n Let_def plausible_def
        velocity_confidence_def velocityThresholdHigh_def velocityThresholdMid_def velocityThresholdLow_def
        autoBlockThreshold_def enums)
qed

lemma disposable_found:
  fixes u :: WaitlistUser
  defines "rs \<equiv> (case checkDisposableEmail u of None \<Rightarrow> [] | Some x \<Rightarrow> [x])"
  shows "length rs \<le> 1 \<and> (\<forall>r\<in>set rs. plausible r) \<and>
    ((\<exists>r\<in>set rs. autoBlockThreshold \<le> fr_ConfidenceScore r) \<longleftrightarrow> extractDomain (wu_Email u) \<in> set disposableDomains)"
proof -
  have l: "ToLower (extractDomain e) = extractDomain e" for e
  proof -
    have low: "ToLower (drop n (ToLower s)) = drop n (ToLower s)" for n s
      by (simp add: ToLower_def drop_map comp_def)
    have "ToLower (case SplitN2 (ToLower s) c of [a, b] \<Rightarrow> b | _ \<Rightarrow> '''') =
        (case SplitN2 (ToLower s) c of [a, b] \<Rightarrow> b | _ \<Rightarrow> '''')" for s c
      by (simp add: SplitN2_def Let_def low)
    then show ?thesis by (simp add: extractDomain_def normal_email_def)
  qed
  have "'''' \<notin> set disposableDomains" by (simp add: disposableDomains_def)
  then show ?thesis
    by (auto simp: rs_def checkDisposableEmail_def Let_def IsDisposableDomain_def l plausible_def enums autoBlockThreshold_def)
qed

section \<open>The analysis\<close>

lemma ready_tick: "tick w w' \<Longrightarrow> ready n u w' = ready n u w"
  unfolding tick_def ready_def no_faults_def by (elim exE) simp

lemma ready_mono: "ready n u w \<Longrightarrow> m \<le> n \<Longrightarrow> ready m u w"
proof -
  assume "ready n u w" "m \<le> n"
  moreover have "[w_fresh w..<w_fresh w + n] = [w_fresh w..<w_fresh w + m] @ [w_fresh w + m..<w_fresh w + n]"
    using \<open>m \<le> n\<close> by (metis le_add_diff_inverse upt_add_eq_append add.assoc le_add1)
  ultimately show ?thesis by (auto simp: ready_def)
qed

text \<open>C21: analysing a signup never fails. It blocks the user exactly when the referrer signed up from
  the same address or device, ten or more other signups came from the address in the last ten
  minutes, or the email is of a known disposable provider; it changes no other user, and records
  between none and three detections, all of this user. The statement is about a run in which no
  statement fails, for a user who is in the table.\<close>

theorem spam_analysis_blocks:
  assumes "ready 3 u w" "u \<in> set (t_waitlist_users w)" "wu_DeletedAt u = None" "w_now w - velocityWindow < wu_CreatedAt u"
  shows "\<exists>w' ds. AnalyzeSignup u w = (Ok (), w') \<and>
    t_waitlist_users w' = map (\<lambda>v. if blocking_evidence w u \<and> live_user (wu_ID u) v then block (w_now w) v else v)
      (t_waitlist_users w) \<and>
    map fd_UserID (t_fraud_detections w') = map fd_UserID (t_fraud_detections w) @ ds \<and> length ds \<le> 3 \<and>
    set ds \<subseteq> {Some (wu_ID u)} \<and> (blocking_evidence w u \<longrightarrow> ds \<noteq> [])"
proof -
  have nf: "no_faults w" using assms(1) by (simp add: ready_def)
  let ?r3 = "case checkDisposableEmail u of None \<Rightarrow> [] | Some x \<Rightarrow> [x]"
  obtain r1 w1 where r1: "found (checkSelfReferral u) w = (Ok r1, w1)" "tick w w1" "length r1 \<le> 1" "\<forall>r\<in>set r1. plausible r"
      "(\<exists>r\<in>set r1. autoBlockThreshold \<le> fr_ConfidenceScore r) \<longleftrightarrow> (\<exists>r. referrer_of w u = Some r \<and>
       (same_opt (wu_IPAddress u) (wu_IPAddress r) \<or> same_opt (wu_DeviceFingerprint u) (wu_DeviceFingerprint r)))"
    using found_self [OF nf] by metis
  have ro: "recent_others w1 u = recent_others w u" using r1(2) by (auto simp: tick_def recent_others_def users_where_def)
  have "u \<in> set (users_where (\<lambda>v. wu_CampaignID v = wu_CampaignID u \<and> wu_IPAddress v = wu_IPAddress u \<and>
      w_now w - velocityWindow < wu_CreatedAt v) w)"
    using assms(2-4) by (simp add: users_where_def)
  then have "0 \<le> recent_others w u" unfolding recent_others_def by (cases "users_where (\<lambda>v. wu_CampaignID v = wu_CampaignID u \<and> wu_IPAddress v = wu_IPAddress u \<and>
      w_now w - velocityWindow < wu_CreatedAt v) w") auto
  moreover have "no_faults w1" using nf r1(2) by (auto simp: tick_def no_faults_def)
  ultimately obtain r2 w2 where r2: "found (checkVelocity u) w1 = (Ok r2, w2)" "tick w1 w2" "length r2 \<le> 1" "\<forall>r\<in>set r2. plausible r"
      "(\<exists>r\<in>set r2. autoBlockThreshold \<le> fr_ConfidenceScore r) \<longleftrightarrow> wu_IPAddress u \<noteq> None \<and> 10 \<le> recent_others w u"
    using found_velocity [of w1 u] ro by metis
  note r3 = disposable_found [of u]
  let ?rs = "r1 @ r2 @ ?r3"
  have len: "length ?rs \<le> 3" using r1(3) r2(3) r3 by auto
  have t2: "tick w w2" using r1(2) r2(2) by (rule tick.step_trans)
  have "ready (length ?rs) u w2" using ready_mono [OF assms(1) len] ready_tick [OF t2] by simp
  moreover have "\<forall>r\<in>set ?rs. plausible r" using r1(4) r2(4) r3 by auto
  ultimately obtain w' where w': "forE ?rs (\<lambda>r. logE (processResult u r)) w2 = (Ok (), w')"
      "t_waitlist_users w' = (if \<exists>r\<in>set ?rs. autoBlockThreshold \<le> fr_ConfidenceScore r
        then upd_where (live_user (wu_ID u)) (block (w_now w2)) (t_waitlist_users w2) else t_waitlist_users w2)"
      "map (\<lambda>d. (fd_UserID d, fd_DetectionType d)) (t_fraud_detections w') =
       map (\<lambda>d. (fd_UserID d, fd_DetectionType d)) (t_fraud_detections w2) @
       map (\<lambda>r. (Some (wu_ID u), fr_DetectionType r)) ?rs"
    using processResults_run [of ?rs u w2] by auto
  have same: "w_now w2 = w_now w" "t_waitlist_users w2 = t_waitlist_users w" "t_fraud_detections w2 = t_fraud_detections w"
    using t2 by (auto simp: tick_def)
  have ev: "(\<exists>r\<in>set ?rs. autoBlockThreshold \<le> fr_ConfidenceScore r) \<longleftrightarrow> blocking_evidence w u"
    using r1(5) r2(5) r3 unfolding blocking_evidence_def set_append bex_Un by blast
  have "AnalyzeSignup u w = (Ok (), w')"
    using r1(1) r2(1) w'(1) by (simp add: AnalyzeSignup_def bindE_def tryE_def)
  moreover have "t_waitlist_users w' = map (\<lambda>v. if blocking_evidence w u \<and> live_user (wu_ID u) v then block (w_now w) v else v)
      (t_waitlist_users w)"
    unfolding w'(2) ev same upd_where_def by (cases "blocking_evidence w u") simp_all
  moreover have "map fd_UserID (t_fraud_detections w') = map fd_UserID (t_fraud_detections w) @ map (\<lambda>r. Some (wu_ID u)) ?rs"
    using arg_cong [OF w'(3), of "map fst"] by (simp add: comp_def same del: map_append) (simp add: comp_def)
  moreover have "map (\<lambda>r. Some (wu_ID u)) ?rs \<noteq> []" if "blocking_evidence w u"
  proof
    assume "map (\<lambda>r. Some (wu_ID u)) ?rs = []"
    then have "\<not> (\<exists>r\<in>set ?rs. autoBlockThreshold \<le> fr_ConfidenceScore r)" by (simp only: map_is_Nil_conv list.set bex_empty) simp
    then show False using that by (simp only: ev not_True_eq_False)
  qed
  ultimately show ?thesis using len by (intro exI [of _ w'] exI [of _ "map (\<lambda>r. Some (wu_ID u)) ?rs"]) auto
qed


text \<open>A third user whom the second referred from the same device.\<close>

definition spam_user :: WaitlistUser where
  "spam_user = (sample_user 23 ''bob+1@x.io'' ''CAT'' 1000)\<lparr>wu_ReferredByID := Some 22,
     wu_DeviceFingerprint := Some ''d''\<rparr>"

definition spam_world :: world where
  "spam_world = sample_world\<lparr>t_waitlist_users := [(sample_user 22 ''bob@x.io'' ''BOB'' 3)\<lparr>wu_DeviceFingerprint := Some ''d''\<rparr>, spam_user]\<rparr>"

theorem spam_analysis_blocks_witness:
  "\<exists>w'. AnalyzeSignup spam_user spam_world = (Ok (), w') \<and>
     map wu_Status (t_waitlist_users w') = [''pending'', ''blocked'']"
proof -
  have rows: "t_waitlist_users spam_world = [(sample_user 22 ''bob@x.io'' ''BOB'' 3)\<lparr>wu_DeviceFingerprint := Some ''d''\<rparr>, spam_user]"
    by (simp add: spam_world_def)
  have "no_faults spam_world" by (simp add: no_faults_def spam_world_def sample_world_def empty_world_def)
  moreover have "wu_CampaignID spam_user \<in> cp_ID ` set (t_campaigns spam_world)"
      "\<exists>v\<in>set (t_waitlist_users spam_world). live_user (wu_ID spam_user) v"
      "distinct (map fd_ID (t_fraud_detections spam_world) @ map (w_uuids spam_world) [w_fresh spam_world..<w_fresh spam_world + 3])"
    by code_simp+
  ultimately have a: "ready 3 spam_user spam_world" by (simp only: ready_def simp_thms)
  have b: "spam_user \<in> set (t_waitlist_users spam_world)" by (simp add: rows)
  have c: "wu_DeletedAt spam_user = None" "wu_ID spam_user = 23" by (simp_all add: spam_user_def sample_user_def)
  have d: "w_now spam_world - velocityWindow < wu_CreatedAt spam_user" by code_simp
  obtain w' where w': "AnalyzeSignup spam_user spam_world = (Ok (), w')"
      "t_waitlist_users w' = map (\<lambda>v. if blocking_evidence spam_world spam_user \<and> live_user 23 v then block (w_now spam_world) v else v)
         (t_waitlist_users spam_world)"
    using spam_analysis_blocks [OF a b c(1) d] unfolding c(2) by blast
  have "referrer_of spam_world spam_user = Some ((sample_user 22 ''bob@x.io'' ''BOB'' 3)\<lparr>wu_DeviceFingerprint := Some ''d''\<rparr>)"
    using c(2) by (simp add: referrer_of_def rows live_user_def) (simp add: spam_user_def sample_user_def rows live_user_def)
  then have "blocking_evidence spam_world spam_user"
    by (simp add: blocking_evidence_def same_opt_def) (simp add: spam_user_def)
  then show ?thesis
    using w' by (simp add: rows live_user_def block_def enums) (simp add: spam_user_def sample_user_def)
qed

end
