(* ===== verification/Rewards.thy ===== *)
theory Rewards
  imports WaitlistStore Access
begin

text \<open>
  Rewards: store/reward.go and rewards/processor/processor.go. A reward belongs to a campaign and
  has a limit per user and possibly a total; granting one writes a row of user_rewards.
\<close>

section \<open>Store: rewards\<close>

definition sql_reward_type :: "string list" where
  [enums]: "sql_reward_type = [''early_access'', ''discount'', ''premium_feature'', ''merchandise'', ''custom'']"

definition sql_reward_trigger_type :: "string list" where
  [enums]: "sql_reward_trigger_type = [''referral_count'', ''position'', ''milestone'', ''manual'']"

definition sql_reward_delivery_method :: "string list" where
  [enums]: "sql_reward_delivery_method = [''email'', ''webhook'', ''manual'']"

definition sql_reward_status :: "string list" where
  [enums]: "sql_reward_status = [''active'', ''paused'', ''expired'']"

definition sql_user_reward_status :: "string list" where
  [enums]: "sql_user_reward_status = [''pending'', ''earned'', ''delivered'', ''redeemed'', ''revoked'', ''expired'']"

record CreateRewardParams =
  crp_CampaignID :: uuid
  crp_Name :: string
  crp_Description :: "string option"
  crp_Type :: string
  crp_Config :: jsonb
  crp_TriggerType :: string
  crp_TriggerConfig :: jsonb
  crp_DeliveryMethod :: string
  crp_DeliveryConfig :: jsonb
  crp_TotalAvailable :: "int option"
  crp_UserLimit :: int
  crp_StartsAt :: "time option"
  crp_ExpiresAt :: "time option"

text \<open>An INTEGER column holds 32 bits.\<close>

definition sql_integer :: "int \<Rightarrow> bool" where
  "sql_integer n = (- (2 ^ 31) \<le> n \<and> n < 2 ^ 31)"

definition reward_insert_check :: "world \<Rightarrow> Reward list \<Rightarrow> Reward \<Rightarrow> string option" where
  "reward_insert_check w rows r =
     (if rw_ID r \<in> rw_ID ` set rows then Some ''rewards_pkey''
      else if rw_CampaignID r \<notin> cp_ID ` set (t_campaigns w) then Some ''rewards_campaign_id_fkey''
      else if 255 < length (rw_Name r) then Some ''value too long for type character varying''
      else if rw_Type r \<notin> set sql_reward_type then Some ''reward_type''
      else if rw_TriggerType r \<notin> set sql_reward_trigger_type then Some ''reward_trigger_type''
      else if rw_DeliveryMethod r \<notin> set sql_reward_delivery_method then Some ''reward_delivery_method''
      else if rw_Config r = None \<or> rw_TriggerConfig r = None \<or> rw_DeliveryConfig r = None
        then Some ''null value violates not-null constraint''
      else if \<not> sql_integer (rw_UserLimit r) \<or> (\<exists>n\<in>set_option (rw_TotalAvailable r). \<not> sql_integer n)
        then Some ''integer out of range'' else None)"

definition store_CreateReward :: "CreateRewardParams \<Rightarrow> (world, Reward) go" where
  "store_CreateReward p = wrapE ''failed to create reward''
     (sql_insert rewards_tbl reward_insert_check
        (\<lambda>i now. \<lparr>rw_ID = i, rw_CampaignID = crp_CampaignID p, rw_Name = crp_Name p,
           rw_Description = crp_Description p, rw_Type = crp_Type p, rw_Config = jsonb_stored (crp_Config p),
           rw_TriggerType = crp_TriggerType p, rw_TriggerConfig = jsonb_stored (crp_TriggerConfig p),
           rw_DeliveryMethod = crp_DeliveryMethod p, rw_DeliveryConfig = jsonb_stored (crp_DeliveryConfig p),
           rw_TotalAvailable = crp_TotalAvailable p, rw_TotalClaimed = 0, rw_UserLimit = crp_UserLimit p,
           rw_Status = RewardStatusActive, rw_StartsAt = crp_StartsAt p, rw_ExpiresAt = crp_ExpiresAt p,
           rw_CreatedAt = now, rw_UpdatedAt = now, rw_DeletedAt = None\<rparr>))"

definition live_reward :: "uuid \<Rightarrow> Reward \<Rightarrow> bool" where
  "live_reward i r = (rw_ID r = i \<and> rw_DeletedAt r = None)"

definition store_GetRewardByID :: "uuid \<Rightarrow> (world, Reward) go" where
  "store_GetRewardByID rewardID = row_or ''failed to get reward by id''
     (sql_get (\<lambda>w. filter (live_reward rewardID) (t_rewards w)))"

definition campaign_rewards :: "uuid \<Rightarrow> (Reward \<Rightarrow> bool) \<Rightarrow> world \<Rightarrow> Reward list" where
  "campaign_rewards campaignID P w = sort_Slice (\<lambda>a b. rw_CreatedAt b < rw_CreatedAt a)
     (filter (\<lambda>r. rw_CampaignID r = campaignID \<and> rw_DeletedAt r = None \<and> P r) (t_rewards w))"

definition store_GetRewardsByCampaign :: "uuid \<Rightarrow> (world, Reward list) go" where
  "store_GetRewardsByCampaign campaignID = wrapE ''failed to get rewards by campaign''
     (sql_query (campaign_rewards campaignID (\<lambda>r. True)))"

definition store_GetActiveRewardsByCampaign :: "uuid \<Rightarrow> (world, Reward list) go" where
  "store_GetActiveRewardsByCampaign campaignID = wrapE ''failed to get active rewards''
     (sql_query (\<lambda>w. campaign_rewards campaignID (\<lambda>r. rw_Status r = ''active'' \<and>
        (case rw_StartsAt r of None \<Rightarrow> True | Some t \<Rightarrow> t \<le> w_now w) \<and>
        (case rw_ExpiresAt r of None \<Rightarrow> True | Some t \<Rightarrow> w_now w < t)) w))"

record UpdateRewardParams =
  urp_Name :: "string option"
  urp_Description :: "string option"
  urp_Config :: jsonb
  urp_TriggerConfig :: jsonb
  urp_DeliveryConfig :: jsonb
  urp_Status :: "string option"

definition reward_check :: "Reward list \<Rightarrow> string option" where
  "reward_check rows = (if \<exists>r\<in>set rows. rw_Status r \<notin> set sql_reward_status then Some ''reward_status''
     else if \<exists>r\<in>set rows. 255 < length (rw_Name r) then Some ''value too long for type character varying''
     else None)"

definition store_UpdateReward :: "uuid \<Rightarrow> UpdateRewardParams \<Rightarrow> (world, Reward) go" where
  "store_UpdateReward rewardID p = row_or ''failed to update reward''
     (sql_update_returning rewards_tbl reward_check (live_reward rewardID)
        (\<lambda>w r. r\<lparr>rw_Name := coalesce (urp_Name p) (rw_Name r),
          rw_Description := coalesce_opt (urp_Description p) (rw_Description r),
          rw_Config := coalesce_opt (jsonb_stored (urp_Config p)) (rw_Config r),
          rw_TriggerConfig := coalesce_opt (jsonb_stored (urp_TriggerConfig p)) (rw_TriggerConfig r),
          rw_DeliveryConfig := coalesce_opt (jsonb_stored (urp_DeliveryConfig p)) (rw_DeliveryConfig r),
          rw_Status := coalesce (urp_Status p) (rw_Status r), rw_UpdatedAt := w_now w\<rparr>))"

definition store_DeleteReward :: "uuid \<Rightarrow> (world, unit) go" where
  "store_DeleteReward rewardID = affected_or ''failed to delete reward''
     (sql_update rewards_tbl no_check (live_reward rewardID) (\<lambda>w r. r\<lparr>rw_DeletedAt := Some (w_now w)\<rparr>))"

definition store_IncrementRewardClaimed :: "uuid \<Rightarrow> (world, unit) go" where
  "store_IncrementRewardClaimed rewardID = exec_or ''failed to increment reward claimed''
     (sql_update rewards_tbl no_check (\<lambda>r. rw_ID r = rewardID)
        (\<lambda>w r. r\<lparr>rw_TotalClaimed := rw_TotalClaimed r + 1, rw_UpdatedAt := w_now w\<rparr>))"

section \<open>Store: rewards of users\<close>

record CreateUserRewardParams =
  cup_UserID :: uuid
  cup_RewardID :: uuid
  cup_CampaignID :: uuid
  cup_RewardData :: jsonb
  cup_ExpiresAt :: "time option"

definition user_reward_insert_check :: "world \<Rightarrow> UserReward list \<Rightarrow> UserReward \<Rightarrow> string option" where
  "user_reward_insert_check w rows r =
     (if ur_ID r \<in> ur_ID ` set rows then Some ''user_rewards_pkey''
      else if ur_UserID r \<notin> wu_ID ` set (t_waitlist_users w) then Some ''user_rewards_user_id_fkey''
      else if ur_RewardID r \<notin> rw_ID ` set (t_rewards w) then Some ''user_rewards_reward_id_fkey''
      else if ur_CampaignID r \<notin> cp_ID ` set (t_campaigns w) then Some ''user_rewards_campaign_id_fkey''
      else if ur_RewardData r = None then Some ''null value violates not-null constraint'' else None)"

definition new_user_reward :: "CreateUserRewardParams \<Rightarrow> uuid \<Rightarrow> time \<Rightarrow> UserReward" where
  "new_user_reward p i now = \<lparr>ur_ID = i, ur_UserID = cup_UserID p, ur_RewardID = cup_RewardID p,
     ur_CampaignID = cup_CampaignID p, ur_Status = UserRewardStatusPending,
     ur_RewardData = jsonb_stored (cup_RewardData p), ur_EarnedAt = now, ur_DeliveredAt = None,
     ur_RedeemedAt = None, ur_RevokedAt = None, ur_ExpiresAt = cup_ExpiresAt p, ur_DeliveryAttempts = 0,
     ur_LastDeliveryAttemptAt = None, ur_DeliveryError = None, ur_RevokedReason = None, ur_RevokedBy = None,
     ur_CreatedAt = now, ur_UpdatedAt = now\<rparr>"

definition store_CreateUserReward :: "CreateUserRewardParams \<Rightarrow> (world, UserReward) go" where
  "store_CreateUserReward p = wrapE ''failed to create user reward''
     (sql_insert user_rewards_tbl user_reward_insert_check (new_user_reward p))"

definition store_GetUserRewardsByUser :: "uuid \<Rightarrow> (world, UserReward list) go" where
  "store_GetUserRewardsByUser userID = wrapE ''failed to get user rewards''
     (sql_query (\<lambda>w. sort_Slice (\<lambda>a b. ur_EarnedAt b < ur_EarnedAt a)
        (filter (\<lambda>r. ur_UserID r = userID) (t_user_rewards w))))"

definition store_GetUserRewardsByCampaign :: "uuid \<Rightarrow> int \<Rightarrow> int \<Rightarrow> (world, UserReward list) go" where
  "store_GetUserRewardsByCampaign campaignID lmt off = wrapE ''failed to get user rewards by campaign''
     (sql_page (\<lambda>w. sort_Slice (\<lambda>a b. ur_EarnedAt b < ur_EarnedAt a)
        (filter (\<lambda>r. ur_CampaignID r = campaignID) (t_user_rewards w))) lmt off)"

definition user_reward_check :: "UserReward list \<Rightarrow> string option" where
  "user_reward_check rows = (if \<forall>r\<in>set rows. ur_Status r \<in> set sql_user_reward_status then None
     else Some ''user_reward_status'')"

definition store_UpdateUserRewardStatus :: "uuid \<Rightarrow> string \<Rightarrow> (world, unit) go" where
  "store_UpdateUserRewardStatus userRewardID st = affected_or ''failed to update user reward status''
     (sql_update user_rewards_tbl user_reward_check (\<lambda>r. ur_ID r = userRewardID)
        (\<lambda>w r. r\<lparr>ur_Status := st,
          ur_DeliveredAt := (if st = ''delivered'' then Some (coalesce (ur_DeliveredAt r) (w_now w)) else ur_DeliveredAt r),
          ur_RedeemedAt := (if st = ''redeemed'' then Some (w_now w) else ur_RedeemedAt r),
          ur_UpdatedAt := w_now w\<rparr>))"

definition store_IncrementDeliveryAttempts :: "uuid \<Rightarrow> string \<Rightarrow> (world, unit) go" where
  "store_IncrementDeliveryAttempts userRewardID errorMsg = exec_or ''failed to increment delivery attempts''
     (sql_update user_rewards_tbl no_check (\<lambda>r. ur_ID r = userRewardID)
        (\<lambda>w r. r\<lparr>ur_DeliveryAttempts := ur_DeliveryAttempts r + 1, ur_LastDeliveryAttemptAt := Some (w_now w),
          ur_DeliveryError := Some errorMsg, ur_UpdatedAt := w_now w\<rparr>))"

definition store_GetPendingUserRewards :: "int \<Rightarrow> (world, UserReward list) go" where
  "store_GetPendingUserRewards lmt = wrapE ''failed to get pending user rewards''
     (sql_page (\<lambda>w. sort_Slice (\<lambda>a b. ur_CreatedAt a < ur_CreatedAt b)
        (filter (\<lambda>r. ur_Status r = ''pending'' \<and> ur_DeliveryAttempts r < 5) (t_user_rewards w))) lmt 0)"

section \<open>Processor\<close>

definition isValidRewardType :: "string \<Rightarrow> bool" where
  "isValidRewardType s = (s \<in> set [''early_access'', ''discount'', ''premium_feature'', ''merchandise'', ''custom''])"

definition isValidTriggerType :: "string \<Rightarrow> bool" where
  "isValidTriggerType s = (s \<in> set [''referral_count'', ''position'', ''milestone'', ''manual''])"

definition isValidDeliveryMethod :: "string \<Rightarrow> bool" where
  "isValidDeliveryMethod s = (s \<in> set [''email'', ''webhook'', ''manual''])"

definition isValidRewardStatus :: "string \<Rightarrow> bool" where
  "isValidRewardStatus s = (s \<in> set [''active'', ''paused'', ''expired''])"

record CreateRewardRequest =
  crr_Name :: string
  crr_Description :: "string option"
  crr_Type :: string
  crr_Config :: jsonb
  crr_TriggerType :: string
  crr_TriggerConfig :: jsonb
  crr_DeliveryMethod :: string
  crr_DeliveryConfig :: jsonb
  crr_TotalAvailable :: "int option"
  crr_UserLimit :: int
  crr_StartsAt :: "time option"
  crr_ExpiresAt :: "time option"

definition or_empty :: "jsonb \<Rightarrow> jsonb" where
  "or_empty j = (case j of None \<Rightarrow> Some [] | Some kvs \<Rightarrow> Some kvs)"

definition CreateReward :: "uuid \<Rightarrow> CreateRewardRequest \<Rightarrow> (world, Reward) go" where
  "CreateReward campaignID req =
     (if \<not> isValidRewardType (crr_Type req) then failE (Sentinel (RW RW_ErrInvalidRewardType))
      else if \<not> isValidTriggerType (crr_TriggerType req) then failE (Sentinel (RW RW_ErrInvalidTriggerType))
      else if \<not> isValidDeliveryMethod (crr_DeliveryMethod req) then failE (Sentinel (RW RW_ErrInvalidDeliveryMethod))
      else store_CreateReward \<lparr>crp_CampaignID = campaignID, crp_Name = crr_Name req,
        crp_Description = crr_Description req, crp_Type = crr_Type req, crp_Config = or_empty (crr_Config req),
        crp_TriggerType = crr_TriggerType req, crp_TriggerConfig = or_empty (crr_TriggerConfig req),
        crp_DeliveryMethod = crr_DeliveryMethod req, crp_DeliveryConfig = or_empty (crr_DeliveryConfig req),
        crp_TotalAvailable = crr_TotalAvailable req,
        crp_UserLimit = (if crr_UserLimit req = 0 then 1 else crr_UserLimit req),
        crp_StartsAt = crr_StartsAt req, crp_ExpiresAt = crr_ExpiresAt req\<rparr>)"

definition GetReward :: "uuid \<Rightarrow> uuid \<Rightarrow> (world, Reward) go" where
  "GetReward campaignID rewardID =
     bindE (not_found_as (RW RW_ErrRewardNotFound) (store_GetRewardByID rewardID)) (\<lambda>reward.
     if rw_CampaignID reward \<noteq> campaignID then failE (Sentinel (RW RW_ErrUnauthorized)) else retE reward)"

definition ListRewards :: "uuid \<Rightarrow> (world, Reward list) go" where
  "ListRewards campaignID = store_GetRewardsByCampaign campaignID"

record UpdateRewardRequest =
  urr_Name :: "string option"
  urr_Description :: "string option"
  urr_Config :: jsonb
  urr_TriggerConfig :: jsonb
  urr_DeliveryConfig :: jsonb
  urr_Status :: "string option"

definition UpdateReward :: "uuid \<Rightarrow> uuid \<Rightarrow> UpdateRewardRequest \<Rightarrow> (world, Reward) go" where
  "UpdateReward campaignID rewardID req =
     bindE (GetReward campaignID rewardID) (\<lambda>existingReward.
     if (case urr_Status req of None \<Rightarrow> False | Some st \<Rightarrow> \<not> isValidRewardStatus st)
     then failE (Sentinel (RW RW_ErrInvalidRewardStatus))
     else if rw_CampaignID existingReward \<noteq> campaignID then failE (Sentinel (RW RW_ErrUnauthorized))
     else not_found_as (RW RW_ErrRewardNotFound) (store_UpdateReward rewardID
       \<lparr>urp_Name = urr_Name req, urp_Description = urr_Description req, urp_Config = urr_Config req,
        urp_TriggerConfig = urr_TriggerConfig req, urp_DeliveryConfig = urr_DeliveryConfig req,
        urp_Status = urr_Status req\<rparr>))"

definition DeleteReward :: "uuid \<Rightarrow> uuid \<Rightarrow> (world, unit) go" where
  "DeleteReward campaignID rewardID =
     bindE (GetReward campaignID rewardID) (\<lambda>r.
     not_found_as (RW RW_ErrRewardNotFound) (store_DeleteReward rewardID))"

record GrantRewardRequest =
  grr_RewardID :: uuid
  grr_Reason :: "string option"
  grr_ExpiresAt :: "time option"

text \<open>The snapshot of the reward a grant stores.\<close>

definition reward_snapshot :: "Reward \<Rightarrow> string option \<Rightarrow> (string \<times> jval) list" where
  "reward_snapshot reward reason =
     [(''name'', JStr (rw_Name reward)),
      (''description'', case rw_Description reward of None \<Rightarrow> JNull | Some s \<Rightarrow> JStr s),
      (''type'', JStr (rw_Type reward)),
      (''config'', case rw_Config reward of None \<Rightarrow> JNull | Some kvs \<Rightarrow> JObj kvs)] @
     (case reason of None \<Rightarrow> [] | Some s \<Rightarrow> [(''grant_reason'', JStr s)])"

definition GrantReward :: "uuid \<Rightarrow> uuid \<Rightarrow> GrantRewardRequest \<Rightarrow> (world, UserReward) go" where
  "GrantReward campaignID userID req =
     bindE (GetReward campaignID (grr_RewardID req)) (\<lambda>reward.
     if rw_Status reward \<noteq> ''active'' then failE (Sentinel (RW RW_ErrInvalidRewardStatus))
     else if (case rw_TotalAvailable reward of None \<Rightarrow> False | Some n \<Rightarrow> n \<le> rw_TotalClaimed reward)
     then failE (Sentinel (RW RW_ErrRewardLimitReached))
     else bindE (store_GetUserRewardsByUser userID) (\<lambda>existingRewards.
     let claimCount = int (length (filter (\<lambda>ur. ur_RewardID ur = grr_RewardID req) existingRewards)) in
     if rw_UserLimit reward \<le> claimCount then failE (Sentinel (RW RW_ErrUserLimitReached))
     else let expiresAt = (if grr_ExpiresAt req \<noteq> None then grr_ExpiresAt req else rw_ExpiresAt reward) in
     bindE (store_CreateUserReward \<lparr>cup_UserID = userID, cup_RewardID = grr_RewardID req,
       cup_CampaignID = campaignID, cup_RewardData = Some (reward_snapshot reward (grr_Reason req)),
       cup_ExpiresAt = expiresAt\<rparr>) (\<lambda>userReward.
     bindE (logE (store_IncrementRewardClaimed (grr_RewardID req))) (\<lambda>u.
     retE userReward))))"

definition GetUserRewards :: "uuid \<Rightarrow> uuid \<Rightarrow> (world, UserReward list) go" where
  "GetUserRewards campaignID userID =
     bindE (store_GetUserRewardsByUser userID) (\<lambda>rewards.
     retE (filter (\<lambda>r. ur_CampaignID r = campaignID) rewards))"

end
