(* ===== verification/RewardFacts.thy ===== *)
theory RewardFacts
  imports Rewards Wp Samples
begin

text \<open>
  The limits of rewards as an invariant of every handler that writes rewards: no user holds a
  reward more often than its limit, and the counter of claims stays within the total and within
  the number of grants.
\<close>

section \<open>The invariant\<close>

definition grants :: "world \<Rightarrow> uuid \<Rightarrow> uuid \<Rightarrow> int" where
  "grants w u i = int (length (filter (\<lambda>x. ur_UserID x = u \<and> ur_RewardID x = i) (t_user_rewards w)))"

definition all_grants :: "world \<Rightarrow> uuid \<Rightarrow> int" where
  "all_grants w i = int (length (filter (\<lambda>x. ur_RewardID x = i) (t_user_rewards w)))"

definition within_limits :: "world \<Rightarrow> Reward \<Rightarrow> bool" where
  "within_limits w r = ((\<forall>u. grants w u (rw_ID r) \<le> max 0 (rw_UserLimit r)) \<and>
     0 \<le> rw_TotalClaimed r \<and> rw_TotalClaimed r \<le> all_grants w (rw_ID r) \<and>
     (\<forall>n. rw_TotalAvailable r = Some n \<longrightarrow> rw_TotalClaimed r \<le> max 0 n))"

definition limits_inv :: "world \<Rightarrow> bool" where
  "limits_inv w = (distinct (map rw_ID (t_rewards w)) \<and>
     (\<forall>x\<in>set (t_user_rewards w). ur_RewardID x \<in> rw_ID ` set (t_rewards w)) \<and>
     (\<forall>r\<in>set (t_rewards w). within_limits w r))"

text \<open>What the invariant reads of a reward; updates that keep it keep the invariant.\<close>

definition limit_view :: "Reward \<Rightarrow> uuid \<times> int \<times> int option \<times> int" where
  "limit_view r = (rw_ID r, rw_UserLimit r, rw_TotalAvailable r, rw_TotalClaimed r)"

lemma within_limits_cong:
  "limit_view r = limit_view s \<Longrightarrow> t_user_rewards w = t_user_rewards v \<Longrightarrow> within_limits w r = within_limits v s"
  by (simp add: within_limits_def limit_view_def grants_def all_grants_def)

lemma limits_inv_view:
  assumes "map limit_view (t_rewards w) = map limit_view (t_rewards v)" "t_user_rewards w = t_user_rewards v" "limits_inv v"
  shows "limits_inv w"
  unfolding limits_inv_def
proof (intro conjI ballI)
  have ids: "map rw_ID (t_rewards w) = map rw_ID (t_rewards v)"
    using arg_cong [OF assms(1), of "map fst"] by (simp add: limit_view_def comp_def)
  then show "distinct (map rw_ID (t_rewards w))" using assms(3) by (simp add: limits_inv_def)
  show "ur_RewardID x \<in> rw_ID ` set (t_rewards w)" if "x \<in> set (t_user_rewards w)" for x
    using that assms(2,3) ids by (metis limits_inv_def set_map)
  fix r assume "r \<in> set (t_rewards w)"
  then have "limit_view r \<in> limit_view ` set (t_rewards v)" using assms(1) by (metis image_eqI set_map)
  then obtain s where "s \<in> set (t_rewards v)" "limit_view r = limit_view s" by auto
  then show "within_limits w r"
    using within_limits_cong [of r s w v] assms(2,3) by (simp add: limits_inv_def)
qed

lemma limits_inv_calls: "t_rewards w = t_rewards v \<Longrightarrow> t_user_rewards w = t_user_rewards v \<Longrightarrow> limits_inv v \<Longrightarrow> limits_inv w"
  by (rule limits_inv_view) simp_all

lemma limits_tick: "tick w w' \<Longrightarrow> limits_inv w \<Longrightarrow> limits_inv w'"
  by (rule limits_inv_calls) (auto simp: tick_def)

abbreviation keeps_limits :: "(world, 'a) go \<Rightarrow> bool" where
  "keeps_limits m \<equiv> moves (keeps limits_inv) m"

lemma reads_keep_limits: "moves tick m \<Longrightarrow> keeps_limits m"
  unfolding moves_def keeps_def by (blast intro: limits_tick)

lemma keeps_of_wp: "(\<And>w. limits_inv w \<Longrightarrow> wp m (\<lambda>x. limits_inv) (\<lambda>e. limits_inv) w) \<Longrightarrow> keeps_limits m"
  unfolding moves_def keeps_def by (intro allI impI) (rule wpD)

lemma keeps_update:
  assumes "\<And>w r. limit_view (f w r) = limit_view r"
  shows "keeps_limits (sql_update rewards_tbl chk P f)" "keeps_limits (sql_update_returning rewards_tbl chk P f)"
proof -
  have u: "limits_inv (w\<lparr>w_calls := n, t_rewards := upd_where P (f v) (t_rewards w)\<rparr>)" if "limits_inv w" for v w n
    by (rule limits_inv_view [OF _ _ that]) (simp_all add: map_upd_where assms)
  have t: "limits_inv w \<Longrightarrow> limits_inv (ticked w)" for w by (rule limits_inv_calls) simp_all
  show "keeps_limits (sql_update rewards_tbl chk P f)"
    by (rule keeps_of_wp, rule wp_sql_update) (use u t in \<open>simp_all add: ticked_def\<close>)
  show "keeps_limits (sql_update_returning rewards_tbl chk P f)"
    by (rule keeps_of_wp, rule wp_sql_update_returning) (use u t in \<open>simp_all add: ticked_def\<close>)
qed

lemma keeps_create: "keeps_limits (store_CreateReward p)"
  unfolding store_CreateReward_def
proof (rule keeps.moves_combinators, rule keeps_of_wp, rule wp_sql_insert)
  fix w r w'
  assume I: "limits_inv w" and chk: "reward_insert_check (ticked w) (fst rewards_tbl (ticked w)) r = None"
    and r: "r = \<lparr>rw_ID = w_uuids w (w_fresh w), rw_CampaignID = crp_CampaignID p, rw_Name = crp_Name p,
           rw_Description = crp_Description p, rw_Type = crp_Type p, rw_Config = jsonb_stored (crp_Config p),
           rw_TriggerType = crp_TriggerType p, rw_TriggerConfig = jsonb_stored (crp_TriggerConfig p),
           rw_DeliveryMethod = crp_DeliveryMethod p, rw_DeliveryConfig = jsonb_stored (crp_DeliveryConfig p),
           rw_TotalAvailable = crp_TotalAvailable p, rw_TotalClaimed = 0, rw_UserLimit = crp_UserLimit p,
           rw_Status = RewardStatusActive, rw_StartsAt = crp_StartsAt p, rw_ExpiresAt = crp_ExpiresAt p,
           rw_CreatedAt = w_now w, rw_UpdatedAt = w_now w, rw_DeletedAt = None\<rparr>"
    and w': "w' = snd rewards_tbl (\<lambda>rows. rows @ [r]) ((ticked w)\<lparr>w_fresh := Suc (w_fresh w)\<rparr>)"
  have new: "rw_ID r \<notin> rw_ID ` set (t_rewards w)" using chk by (auto simp: reward_insert_check_def split: if_splits)
  then have "\<forall>x\<in>set (t_user_rewards w). ur_RewardID x \<noteq> rw_ID r" using I unfolding limits_inv_def by metis
  then have "grants w' u (rw_ID r) = 0" "all_grants w' (rw_ID r) = 0" for u
    by (auto simp: grants_def all_grants_def w' filter_empty_conv)
  then have "within_limits w' r" using r by (simp add: within_limits_def)
  moreover have "within_limits w' s" if "within_limits w s" for s
    using that within_limits_cong [of s s w' w] by (simp add: w')
  ultimately show "limits_inv w'" using I new by (auto simp: limits_inv_def w')
next
  fix w n assume "limits_inv w"
  then show "limits_inv ((ticked w)\<lparr>w_fresh := n\<rparr>)" by (rule limits_inv_calls [rotated 2]) simp_all
qed

section \<open>Granting\<close>

text \<open>Between the insert and the increment: the counter of the reward is behind by one.\<close>

definition one_behind :: "uuid \<Rightarrow> world \<Rightarrow> bool" where
  "one_behind i w = (limits_inv w \<and> (\<forall>r\<in>set (t_rewards w). rw_ID r = i \<longrightarrow>
     rw_TotalClaimed r + 1 \<le> all_grants w i \<and> (\<forall>n. rw_TotalAvailable r = Some n \<longrightarrow> rw_TotalClaimed r < n)))"

lemma wp_increment:
  assumes "one_behind i w"
  shows "wp (store_IncrementRewardClaimed i) (\<lambda>x. limits_inv) (\<lambda>e. limits_inv) w"
  unfolding store_IncrementRewardClaimed_def
proof (rule wp_exec_or, rule wp_sql_update)
  have I: "limits_inv w" using assms by (simp add: one_behind_def)
  show "limits_inv (ticked w)" by (rule limits_inv_calls [OF _ _ I]) simp_all
  fix w' assume w': "w' = snd rewards_tbl (\<lambda>_. upd_where (\<lambda>r. rw_ID r = i)
      (\<lambda>r. r\<lparr>rw_TotalClaimed := rw_TotalClaimed r + 1, rw_UpdatedAt := w_now (ticked w)\<rparr>) (fst rewards_tbl (ticked w))) (ticked w)"
  have ids: "map rw_ID (t_rewards w') = map rw_ID (t_rewards w)" by (simp add: w' map_upd_where)
  have "within_limits w' r" if r: "r \<in> set (t_rewards w')" for r
  proof -
    obtain s where s: "s \<in> set (t_rewards w)"
        "r = (if rw_ID s = i then s\<lparr>rw_TotalClaimed := rw_TotalClaimed s + 1, rw_UpdatedAt := w_now w\<rparr> else s)"
      using r by (auto simp: w' set_upd_where)
    then show ?thesis
      using I assms by (auto simp: limits_inv_def within_limits_def one_behind_def grants_def all_grants_def w')
  qed
  then show "limits_inv w'" using I ids unfolding limits_inv_def by (auto simp: w' simp flip: set_map)
qed


lemma wp_get_reward:
  assumes "limits_inv w"
    "\<And>r w'. tick w w' \<Longrightarrow> r \<in> set (t_rewards w) \<Longrightarrow> live_reward i r \<Longrightarrow> rw_CampaignID r = c \<Longrightarrow> S r w'"
    "\<And>e w'. limits_inv w' \<Longrightarrow> E e w'"
  shows "wp (GetReward c i) S E w"
  unfolding GetReward_def store_GetRewardByID_def
  by (intro wp_bindI wp_not_found_as wp_row_or wp_sql_get)
     (auto intro!: wp_if wp_failE wp_retE assms(2,3) elim: limits_tick [OF _ assms(1)])

lemma wp_insert_grant:
  assumes I: "limits_inv w" and r: "r \<in> set (t_rewards w)" "rw_ID r = cup_RewardID p"
    "grants w (cup_UserID p) (rw_ID r) < rw_UserLimit r" "\<forall>n. rw_TotalAvailable r = Some n \<longrightarrow> rw_TotalClaimed r < n"
  shows "wp (store_CreateUserReward p) (\<lambda>x. one_behind (rw_ID r)) (\<lambda>e. limits_inv) w"
  unfolding store_CreateUserReward_def
proof (intro wp_wrapI, rule wp_sql_insert)
  show "limits_inv ((ticked w)\<lparr>w_fresh := n\<rparr>)" for n by (rule limits_inv_calls [OF _ _ I]) simp_all
  fix x w' assume x: "x = new_user_reward p (w_uuids w (w_fresh w)) (w_now w)"
    and w': "w' = snd user_rewards_tbl (\<lambda>rows. rows @ [x]) ((ticked w)\<lparr>w_fresh := Suc (w_fresh w)\<rparr>)"
  have ids: "distinct (map rw_ID (t_rewards w))" using I by (simp add: limits_inv_def)
  have g: "grants w' u j = grants w u j + (if u = cup_UserID p \<and> j = cup_RewardID p then 1 else 0)"
      "all_grants w' j = all_grants w j + (if j = cup_RewardID p then 1 else 0)" for u j
    by (simp_all add: grants_def all_grants_def w' x new_user_reward_def)
  have same: "s = r" if "s \<in> set (t_rewards w)" "rw_ID s = rw_ID r" for s
    by (rule distinct_key [OF ids that(1) r(1) that(2)])
  have "within_limits w' s" if s: "s \<in> set (t_rewards w)" for s
  proof -
    have W: "within_limits w s" using I s by (simp add: limits_inv_def)
    show ?thesis
    proof (cases "s = r")
      case True
      then show ?thesis using W r(2,3) by (auto simp: within_limits_def g)
    next
      case False
      then have "rw_ID s \<noteq> cup_RewardID p" using same s r(2) by auto
      then show ?thesis using W by (simp add: within_limits_def g)
    qed
  qed
  moreover have "t_rewards w' = t_rewards w" "t_user_rewards w' = t_user_rewards w @ [x]" by (simp_all add: w')
  moreover have "cup_RewardID p \<in> rw_ID ` set (t_rewards w)" using r(1,2) by (metis image_eqI)
  ultimately have "limits_inv w'" using I x by (auto simp: limits_inv_def new_user_reward_def)
  moreover have "rw_TotalClaimed r + 1 \<le> all_grants w' (rw_ID r)"
    using I r(1,2) by (auto simp: g limits_inv_def within_limits_def)
  ultimately show "one_behind (rw_ID r) w'"
    using same r(4) \<open>t_rewards w' = t_rewards w\<close> by (auto simp: one_behind_def)
qed

lemma length_sorted_filter: "length (filter P (sort_Slice lt xs)) = length (filter P xs)"
  by (metis mset_filter mset_sort_Slice size_mset)

lemma wp_grant_row:
  assumes I: "limits_inv w" and r: "r \<in> set (t_rewards w)" "rw_ID r = i" "cup_RewardID p = i"
    "grants w (cup_UserID p) i < rw_UserLimit r" "\<forall>n. rw_TotalAvailable r = Some n \<longrightarrow> rw_TotalClaimed r < n"
  shows "wp (bindE (store_CreateUserReward p) (\<lambda>x. bindE (logE (store_IncrementRewardClaimed i)) (\<lambda>u. retE x)))
    (\<lambda>x. limits_inv) (\<lambda>e. limits_inv) w"
proof (rule wp_bindI, rule wp_mono)
  show "wp (store_CreateUserReward p) (\<lambda>x. one_behind i) (\<lambda>e. limits_inv) w"
    by (rule wp_insert_grant [OF I r(1), unfolded r(2)]) (use r(2-5) in simp_all)
qed (auto intro!: wp_bindI wp_logI wp_mono [OF wp_increment] wp_retE split: option.split)

lemma user_grants:
  assumes "tick v v'"
  shows "int (length (filter (\<lambda>x. ur_RewardID x = i) (sort_Slice lt (filter (\<lambda>x. ur_UserID x = u) (t_user_rewards (ticked v)))))) =
    grants v' u i"
  using assms by (auto simp: length_sorted_filter grants_def tick_def conj_commute)

lemma wp_grant:
  assumes "limits_inv w"
  shows "wp (GrantReward c u req) (\<lambda>x. limits_inv) (\<lambda>e. limits_inv) w"
proof -
  have step: "limits_inv v \<and> limits_inv v'" if "tick w v" "tick v v'" for v v'
    using that assms limits_tick by blast
  have row: "wp (bindE (store_CreateUserReward p) (\<lambda>x. bindE (logE (store_IncrementRewardClaimed (grr_RewardID req))) (\<lambda>u. retE x)))
      (\<lambda>x. limits_inv) (\<lambda>e. limits_inv) v'"
    if r: "tick w v" "r \<in> set (t_rewards w)" "live_reward (grr_RewardID req) r" "tick v v'"
      and avail: "\<not> (case rw_TotalAvailable r of None \<Rightarrow> False | Some n \<Rightarrow> n \<le> rw_TotalClaimed r)"
      and n: "\<not> rw_UserLimit r \<le> int (length (filter (\<lambda>ur. ur_RewardID ur = grr_RewardID req) (sort_Slice lt
        (filter (\<lambda>x. ur_UserID x = u) (t_user_rewards (ticked v))))))"
      and p: "cup_RewardID p = grr_RewardID req" "cup_UserID p = u" for r v v' p lt
  proof (rule wp_grant_row [where r = r])
    show "limits_inv v'" using step r(1,4) by blast
    show "r \<in> set (t_rewards v')" using r(1,2,4) by (auto simp: tick_def)
    show "rw_ID r = grr_RewardID req" using r(3) by (simp add: live_reward_def)
    show "grants v' (cup_UserID p) (grr_RewardID req) < rw_UserLimit r"
      using n unfolding user_grants [OF r(4)] p(2) by simp
  qed (use avail p in \<open>auto split: option.splits\<close>)
  show ?thesis
    unfolding GrantReward_def Let_def store_GetUserRewardsByUser_def
    by (rule wp_bindI, rule wp_get_reward [OF assms])
       (auto intro!: wp_if wp_failE wp_bindI [of "wrapE _ _"] wp_wrapI wp_sql_query row
          dest: limits_tick [OF _ assms] step)
qed

lemma get_reward_reads: "moves tick (GetReward c i)"
  unfolding GetReward_def store_GetRewardByID_def by (intro tick_rules reads)

lemma handlers_keep_limits:
  "keeps_limits (CreateReward c creq)" "keeps_limits (UpdateReward c i ureq)" "keeps_limits (DeleteReward c i)"
  "keeps_limits (GrantReward c u greq)"
proof -
  have upd: "keeps_limits (store_UpdateReward i p)" "keeps_limits (store_DeleteReward i)" for i p
    unfolding store_UpdateReward_def store_DeleteReward_def row_or_def affected_or_def
    by (rule keeps.moves_combinators moves_if keeps_update | simp add: limit_view_def)+
  show "keeps_limits (CreateReward c creq)"
    unfolding CreateReward_def by (intro moves_if keeps.moves_failE keeps_create)
  show "keeps_limits (UpdateReward c i ureq)" "keeps_limits (DeleteReward c i)"
    unfolding UpdateReward_def DeleteReward_def not_found_as_def
    by (intro keeps.moves_combinators moves_if upd reads_keep_limits [OF get_reward_reads])+
  show "keeps_limits (GrantReward c u greq)" by (rule keeps_of_wp) (rule wp_grant)
qed

section \<open>Runs\<close>

text \<open>The handlers, and any step of the system that touches neither table.\<close>

inductive reward_step :: "world \<Rightarrow> world \<Rightarrow> bool" where
  created: "reward_step w (snd (CreateReward c creq w))"
| updated: "reward_step w (snd (UpdateReward c i ureq w))"
| deleted: "reward_step w (snd (DeleteReward c i w))"
| granted: "reward_step w (snd (GrantReward c u greq w))"
| others: "t_rewards w' = t_rewards w \<Longrightarrow> t_user_rewards w' = t_user_rewards w \<Longrightarrow> reward_step w w'"

inductive_cases reward_stepE: "reward_step w w'"

lemma reward_step_keeps: "reward_step w w' \<Longrightarrow> limits_inv w \<Longrightarrow> limits_inv w'"
  using handlers_keep_limits unfolding moves_def keeps_def
  by (elim reward_stepE) (auto intro: limits_inv_calls)

lemma reward_run_keeps: "reward_step\<^sup>*\<^sup>* w w' \<Longrightarrow> limits_inv w \<Longrightarrow> limits_inv w'"
  by (induction rule: rtranclp_induct) (auto intro: reward_step_keeps)

text \<open>C22: in every run of the reward handlers, whichever statements fail, no user holds a reward more
  often than its limit per user (never, when that limit is negative), and the claims counted for a
  reward exceed neither its total nor the number of times it was granted.\<close>

theorem reward_limits_hold:
  assumes "reward_step\<^sup>*\<^sup>* w w'" "t_rewards w = []" "t_user_rewards w = []" "r \<in> set (t_rewards w')"
  shows "int (length (filter (\<lambda>x. ur_UserID x = u \<and> ur_RewardID x = rw_ID r) (t_user_rewards w'))) \<le> max 0 (rw_UserLimit r) \<and>
    rw_TotalClaimed r \<le> int (length (filter (\<lambda>x. ur_RewardID x = rw_ID r) (t_user_rewards w'))) \<and>
    (\<forall>n. rw_TotalAvailable r = Some n \<longrightarrow> rw_TotalClaimed r \<le> max 0 n)"
proof -
  have "limits_inv w'" by (rule reward_run_keeps [OF assms(1)]) (simp add: limits_inv_def assms(2,3))
  then show ?thesis using assms(4) by (auto simp: limits_inv_def within_limits_def grants_def all_grants_def)
qed

text \<open>One coupon, granted to the first user and refused to the second.\<close>

definition coupon_request :: CreateRewardRequest where
  "coupon_request = \<lparr>crr_Name = ''coupon'', crr_Description = None, crr_Type = ''discount'', crr_Config = None,
     crr_TriggerType = ''manual'', crr_TriggerConfig = None, crr_DeliveryMethod = ''email'',
     crr_DeliveryConfig = None, crr_TotalAvailable = Some 1, crr_UserLimit = 0, crr_StartsAt = None,
     crr_ExpiresAt = None\<rparr>"

definition coupon_grant :: "uuid \<Rightarrow> world \<Rightarrow> world" where
  "coupon_grant u w = snd (GrantReward 10 u \<lparr>grr_RewardID = 100, grr_Reason = None, grr_ExpiresAt = None\<rparr> w)"

definition coupon_run :: "world \<Rightarrow> world" where
  "coupon_run w = coupon_grant 22 (coupon_grant 21 (snd (CreateReward 10 coupon_request w)))"

theorem reward_limits_hold_witness:
  "map ur_UserID (t_user_rewards (coupon_run sample_world)) = [21] \<and>
   (\<exists>r. t_rewards (coupon_run sample_world) = [r] \<and> rw_TotalClaimed r \<le> 1)"
proof -
  have "reward_step\<^sup>*\<^sup>* sample_world (coupon_run sample_world)"
  proof -
    have "reward_step\<^sup>*\<^sup>* sample_world (snd (CreateReward 10 coupon_request sample_world))"
      using reward_step.created by (rule r_into_rtranclp [of reward_step])
    moreover have "reward_step w (coupon_grant u w)" for u w unfolding coupon_grant_def by (rule reward_step.granted)
    ultimately show ?thesis unfolding coupon_run_def by (meson rtranclp.rtrancl_into_rtrancl)
  qed
  moreover have "t_rewards sample_world = []" "t_user_rewards sample_world = []"
    by (simp_all add: sample_world_def empty_world_def)
  moreover have "map ur_UserID (t_user_rewards (coupon_run sample_world)) = [21] \<and>
      map rw_TotalAvailable (t_rewards (coupon_run sample_world)) = [Some 1]" by code_simp
  moreover from calculation(4) obtain r where "t_rewards (coupon_run sample_world) = [r]" "rw_TotalAvailable r = Some 1"
    by (auto simp: map_eq_Cons_conv)
  moreover from this have "rw_TotalClaimed r \<le> 1"
    using reward_limits_hold [OF calculation(1-3), of r] by simp
  ultimately show ?thesis by blast
qed

end
