(* ===== verification/Referrals.thy ===== *)
theory Referrals
  imports WaitlistFacts
begin

text \<open>
  Referrals: store/referral.go and referral/processor/processor.go.
\<close>

section \<open>Store\<close>

record CreateReferralParams =
  crf_CampaignID :: uuid
  crf_ReferrerID :: uuid
  crf_ReferredID :: uuid
  crf_Source :: "string option"
  crf_IPAddress :: "string option"

definition referral_insert_check :: "world \<Rightarrow> Referral list \<Rightarrow> Referral \<Rightarrow> string option" where
  "referral_insert_check w rows r =
     (if rf_ID r \<in> rf_ID ` set rows then Some ''referrals_pkey''
      else if rf_CampaignID r \<notin> cp_ID ` set (t_campaigns w) then Some ''referrals_campaign_id_fkey''
      else if rf_ReferrerID r \<notin> wu_ID ` set (t_waitlist_users w) then Some ''referrals_referrer_id_fkey''
      else if rf_ReferredID r \<notin> wu_ID ` set (t_waitlist_users w) then Some ''referrals_referred_id_fkey''
      else if (\<exists>s\<in>set rows. rf_ReferrerID s = rf_ReferrerID r \<and> rf_ReferredID s = rf_ReferredID r)
        then Some ''referrals_referrer_id_referred_id_key''
      else if \<not> enum_ok sql_referral_source (rf_Source r) then Some ''referral_source'' else None)"

definition store_CreateReferral :: "CreateReferralParams \<Rightarrow> (world, Referral) go" where
  "store_CreateReferral p = wrapE ''failed to create referral''
     (sql_insert referrals_tbl referral_insert_check
        (\<lambda>i now. \<lparr>rf_ID = i, rf_CampaignID = crf_CampaignID p, rf_ReferrerID = crf_ReferrerID p,
           rf_ReferredID = crf_ReferredID p, rf_Status = ReferralStatusPending, rf_Source = crf_Source p,
           rf_IPAddress = crf_IPAddress p, rf_VerifiedAt = None, rf_ConvertedAt = None, rf_CreatedAt = now,
           rf_UpdatedAt = now\<rparr>))"

definition store_GetReferralByID :: "uuid \<Rightarrow> (world, Referral) go" where
  "store_GetReferralByID referralID = row_or ''failed to get referral by id''
     (sql_get (\<lambda>w. filter (\<lambda>r. rf_ID r = referralID) (t_referrals w)))"

definition referrals_where :: "(Referral \<Rightarrow> bool) \<Rightarrow> world \<Rightarrow> Referral list" where
  "referrals_where P w = sort_Slice (\<lambda>a b. rf_CreatedAt b < rf_CreatedAt a) (filter P (t_referrals w))"

definition count_referrals :: "(Referral \<Rightarrow> bool) \<Rightarrow> (world, int) go" where
  "count_referrals P = sql_query (\<lambda>w. int (length (filter P (t_referrals w))))"

definition store_GetReferralsByReferrer :: "uuid \<Rightarrow> (world, Referral list) go" where
  "store_GetReferralsByReferrer referrerID = wrapE ''failed to get referrals by referrer''
     (sql_query (referrals_where (\<lambda>r. rf_ReferrerID r = referrerID)))"

definition store_GetReferralsByCampaign :: "uuid \<Rightarrow> int \<Rightarrow> int \<Rightarrow> (world, Referral list) go" where
  "store_GetReferralsByCampaign campaignID lmt off = wrapE ''failed to get referrals by campaign''
     (sql_page (referrals_where (\<lambda>r. rf_CampaignID r = campaignID)) lmt off)"

definition store_CountReferralsByCampaign :: "uuid \<Rightarrow> (world, int) go" where
  "store_CountReferralsByCampaign campaignID = wrapE ''failed to count referrals''
     (count_referrals (\<lambda>r. rf_CampaignID r = campaignID))"

definition referral_check :: "Referral list \<Rightarrow> string option" where
  "referral_check rows = (if \<forall>r\<in>set rows. rf_Status r \<in> set sql_referral_status then None
     else Some ''referral_status'')"

definition store_UpdateReferralStatus :: "uuid \<Rightarrow> string \<Rightarrow> (world, unit) go" where
  "store_UpdateReferralStatus referralID st = affected_or ''failed to update referral status''
     (sql_update referrals_tbl referral_check (\<lambda>r. rf_ID r = referralID)
        (\<lambda>w r. r\<lparr>rf_Status := st,
          rf_VerifiedAt := (if st = ''verified'' then Some (w_now w) else rf_VerifiedAt r),
          rf_ConvertedAt := (if st = ''converted'' then Some (w_now w) else rf_ConvertedAt r),
          rf_UpdatedAt := w_now w\<rparr>))"

definition store_GetReferralByReferrerAndReferred :: "uuid \<Rightarrow> uuid \<Rightarrow> (world, Referral) go" where
  "store_GetReferralByReferrerAndReferred referrerID referredID = row_or ''failed to get referral''
     (sql_get (\<lambda>w. filter (\<lambda>r. rf_ReferrerID r = referrerID \<and> rf_ReferredID r = referredID) (t_referrals w)))"

definition store_GetVerifiedReferralCountByReferrer :: "uuid \<Rightarrow> (world, int) go" where
  "store_GetVerifiedReferralCountByReferrer referrerID = wrapE ''failed to count verified referrals''
     (count_referrals (\<lambda>r. rf_ReferrerID r = referrerID \<and> rf_Status r = ''verified''))"

text \<open>\<^verbatim>\<open>status = $2\<close> compares with the enum and rejects a text that is no label of it; the filter of
  the next queries compares \<^verbatim>\<open>status::text\<close> and does not.\<close>

definition store_GetReferralsByStatus :: "uuid \<Rightarrow> string \<Rightarrow> (world, Referral list) go" where
  "store_GetReferralsByStatus campaignID st = wrapE ''failed to get referrals by status''
     (if st \<in> set sql_referral_status
      then sql_query (referrals_where (\<lambda>r. rf_CampaignID r = campaignID \<and> rf_Status r = st))
      else db (failE (DbErr ''referral_status'')))"

definition has_status :: "string option \<Rightarrow> Referral \<Rightarrow> bool" where
  "has_status st r = (case st of None \<Rightarrow> True | Some s \<Rightarrow> rf_Status r = s)"

definition store_GetReferralsByCampaignWithStatusFilter ::
    "uuid \<Rightarrow> string option \<Rightarrow> int \<Rightarrow> int \<Rightarrow> (world, Referral list) go" where
  "store_GetReferralsByCampaignWithStatusFilter campaignID st lmt off =
     wrapE ''failed to get referrals by campaign with filter''
       (sql_page (referrals_where (\<lambda>r. rf_CampaignID r = campaignID \<and> has_status st r)) lmt off)"

definition store_CountReferralsByCampaignWithStatusFilter :: "uuid \<Rightarrow> string option \<Rightarrow> (world, int) go" where
  "store_CountReferralsByCampaignWithStatusFilter campaignID st =
     wrapE ''failed to count referrals with filter''
       (count_referrals (\<lambda>r. rf_CampaignID r = campaignID \<and> has_status st r))"

definition store_GetReferralsByReferrerWithPagination :: "uuid \<Rightarrow> int \<Rightarrow> int \<Rightarrow> (world, Referral list) go" where
  "store_GetReferralsByReferrerWithPagination referrerID lmt off =
     wrapE ''failed to get referrals by referrer with pagination''
       (sql_page (referrals_where (\<lambda>r. rf_ReferrerID r = referrerID)) lmt off)"

definition store_CountReferralsByReferrer :: "uuid \<Rightarrow> (world, int) go" where
  "store_CountReferralsByReferrer referrerID = wrapE ''failed to count referrals by referrer''
     (count_referrals (\<lambda>r. rf_ReferrerID r = referrerID))"

section \<open>Processor\<close>

definition referral_system :: "uuid \<Rightarrow> (world, unit) go" where
  "referral_system accountID =
     bindE (HasFeatureByAccountID accountID ''referral_system'') (\<lambda>hasFeature.
     if hasFeature then retE () else failE (Sentinel (RF RF_ErrReferralSystemNotAvailable)))"

definition rf_verifyCampaignAccess :: "uuid \<Rightarrow> uuid \<Rightarrow> (world, unit) go" where
  "rf_verifyCampaignAccess accountID campaignID =
     bindE (owned_campaign (RF RF_ErrCampaignNotFound) (RF RF_ErrUnauthorized) accountID campaignID) (\<lambda>c. retE ())"

definition isValidReferralStatus :: "string \<Rightarrow> bool" where
  "isValidReferralStatus st = (st \<in> set [''pending'', ''verified'', ''converted'', ''invalid''])"

definition rf_page :: "int \<Rightarrow> int" where
  "rf_page page = (if page < 1 then 1 else page)"

definition rf_limit :: "int \<Rightarrow> int" where
  "rf_limit l = (if l < 1 \<or> 100 < l then 20 else l)"

record rf_Pagination =
  rp_NextCursor :: "string option"
  rp_HasMore :: bool
  rp_TotalCount :: int

definition rf_pagination :: "int \<Rightarrow> int \<Rightarrow> int \<Rightarrow> rf_Pagination" where
  "rf_pagination page l total_count =
     \<lparr>rp_NextCursor = None, rp_HasMore = (wrap64 (page * l) < total_count), rp_TotalCount = total_count\<rparr>"

definition ListReferrals ::
    "uuid \<Rightarrow> uuid \<Rightarrow> string option \<Rightarrow> int \<Rightarrow> int \<Rightarrow> (world, Referral list \<times> rf_Pagination) go" where
  "ListReferrals accountID campaignID st page l =
     bindE (referral_system accountID) (\<lambda>u.
     bindE (rf_verifyCampaignAccess accountID campaignID) (\<lambda>u.
     if (case st of None \<Rightarrow> False | Some s \<Rightarrow> \<not> isValidReferralStatus s)
     then failE (Sentinel (RF RF_ErrInvalidStatus))
     else bindE (store_GetReferralsByCampaignWithStatusFilter campaignID st (rf_limit l)
                  (page_offset (rf_page page) (rf_limit l))) (\<lambda>referrals.
     bindE (store_CountReferralsByCampaignWithStatusFilter campaignID st) (\<lambda>total_count.
     retE (referrals, rf_pagination (rf_page page) (rf_limit l) total_count)))))"

record TrackReferralRequest =
  trr_ReferralCode :: string
  trr_Source :: "string option"
  trr_IPAddress :: "string option"

record TrackReferralResponse =
  trs_Message :: string
  trs_ReferrerID :: uuid
  trs_ReferrerName :: string

definition referrer_name :: "WaitlistUser \<Rightarrow> string" where
  "referrer_name u = (case (wu_FirstName u, wu_LastName u) of
       (Some f, Some l) \<Rightarrow> f @ '' '' @ l
     | (Some f, None) \<Rightarrow> f
     | _ \<Rightarrow> wu_Email u)"

definition TrackReferral :: "uuid \<Rightarrow> TrackReferralRequest \<Rightarrow> (world, TrackReferralResponse) go" where
  "TrackReferral campaignID req =
     (if trr_ReferralCode req = '''' then failE (Sentinel (RF RF_ErrReferralCodeEmpty))
      else bindE (not_found_as (RF RF_ErrInvalidReferral) (store_GetWaitlistUserByReferralCode (trr_ReferralCode req))) (\<lambda>referrer.
      if wu_CampaignID referrer \<noteq> campaignID then failE (Sentinel (RF RF_ErrInvalidReferral))
      else retE \<lparr>trs_Message = ''Referral tracked successfully'', trs_ReferrerID = wu_ID referrer,
        trs_ReferrerName = referrer_name referrer\<rparr>))"

text \<open>A user of another campaign is reported as not found.\<close>

definition rf_campaign_user :: "uuid \<Rightarrow> uuid \<Rightarrow> (world, WaitlistUser) go" where
  "rf_campaign_user campaignID userID =
     bindE (not_found_as (RF RF_ErrUserNotFound) (store_GetWaitlistUserByID userID)) (\<lambda>user.
     if wu_CampaignID user \<noteq> campaignID then failE (Sentinel (RF RF_ErrUserNotFound)) else retE user)"

record GetUserReferralsResponse =
  gur_Referrals :: "Referral list"
  gur_TotalReferrals :: int
  gur_VerifiedReferrals :: int
  gur_Pagination :: rf_Pagination

definition GetUserReferrals ::
    "uuid \<Rightarrow> uuid \<Rightarrow> uuid \<Rightarrow> int \<Rightarrow> int \<Rightarrow> (world, GetUserReferralsResponse) go" where
  "GetUserReferrals accountID campaignID userID page l =
     bindE (referral_system accountID) (\<lambda>u.
     bindE (rf_verifyCampaignAccess accountID campaignID) (\<lambda>u.
     bindE (rf_campaign_user campaignID userID) (\<lambda>user.
     bindE (store_GetReferralsByReferrerWithPagination userID (rf_limit l)
              (page_offset (rf_page page) (rf_limit l))) (\<lambda>referrals.
     bindE (store_CountReferralsByReferrer userID) (\<lambda>total_count.
     bindE (store_GetVerifiedReferralCountByReferrer userID) (\<lambda>verified_count.
     retE \<lparr>gur_Referrals = referrals, gur_TotalReferrals = total_count, gur_VerifiedReferrals = verified_count,
       gur_Pagination = rf_pagination (rf_page page) (rf_limit l) total_count\<rparr>))))))"

record ShareLinks =
  sl_Twitter :: string
  sl_Facebook :: string
  sl_LinkedIn :: string
  sl_WhatsApp :: string
  sl_Email :: string

definition getShareMessage :: "Campaign \<Rightarrow> WaitlistUser \<Rightarrow> string" where
  "getShareMessage campaign user =
     (case filter (\<lambda>m. sm_Channel m = ''email'') (cp_ShareMessages campaign) of
        m # ms \<Rightarrow> sm_Message m
      | [] \<Rightarrow> (case cp_ShareMessages campaign of
          m # ms \<Rightarrow> sm_Message m
        | [] \<Rightarrow> ''Join me on the '' @ cp_Name campaign @ '' waitlist!''))"

definition buildShareLinks :: "string \<Rightarrow> string \<Rightarrow> ShareLinks" where
  "buildShareLinks referralLink message = (let encodedMessage = message @ '' '' @ referralLink in
     \<lparr>sl_Twitter = ''https://twitter.com/intent/tweet?text='' @ encodedMessage,
      sl_Facebook = ''https://www.facebook.com/sharer/sharer.php?u='' @ referralLink,
      sl_LinkedIn = ''https://www.linkedin.com/sharing/share-offsite/?url='' @ referralLink,
      sl_WhatsApp = ''https://wa.me/?text='' @ encodedMessage,
      sl_Email = ''mailto:?subject='' @ message @ ''&body='' @ referralLink\<rparr>)"

record GetReferralLinkResponse =
  grl_ReferralLink :: string
  grl_ReferralCode :: string
  grl_ShareLinks :: ShareLinks

definition GetReferralLink ::
    "uuid \<Rightarrow> uuid \<Rightarrow> uuid \<Rightarrow> string \<Rightarrow> (world, GetReferralLinkResponse) go" where
  "GetReferralLink accountID campaignID userID baseURL =
     bindE (referral_system accountID) (\<lambda>u.
     bindE (owned_campaign (RF RF_ErrCampaignNotFound) (RF RF_ErrUnauthorized) accountID campaignID) (\<lambda>campaign.
     bindE (rf_campaign_user campaignID userID) (\<lambda>user.
     let referralLink = BuildReferralLink baseURL (cp_Slug campaign) (wu_ReferralCode user) in
     retE \<lparr>grl_ReferralLink = referralLink, grl_ReferralCode = wu_ReferralCode user,
       grl_ShareLinks = buildShareLinks referralLink (getShareMessage campaign user)\<rparr>)))"

section \<open>Links lead back\<close>

lemma referral_system_Ok: "referral_system a w = (Ok x, w') \<Longrightarrow> no_faults w \<Longrightarrow> tick w w'"
  unfolding referral_system_def by (auto simp: ok_simps dest: HasFeature_Ok(2) split: if_splits)

lemma rf_campaign_user_Ok:
  assumes "rf_campaign_user c i w = (Ok u, w')"
  shows "u \<in> set (t_waitlist_users w)" "wu_ID u = i" "wu_CampaignID u = c" "wu_DeletedAt u = None" "w' = ticked w"
proof -
  have "store_GetWaitlistUserByID i w = (Ok u, w')" "wu_CampaignID u = c"
    using assms by (auto simp: rf_campaign_user_def ok_simps not_found_as_Ok split: if_splits)
  then obtain rest where q: "users_where (\<lambda>u. wu_ID u = i) (ticked w) = u # rest" and w': "w' = ticked w"
    by (auto simp: store_GetWaitlistUserByID_def ok_simps)
  have "u \<in> set (users_where (\<lambda>u. wu_ID u = i) (ticked w))" by (simp add: q)
  then show "u \<in> set (t_waitlist_users w)" "wu_ID u = i" "wu_DeletedAt u = None" by (simp_all add: users_where_def)
  show "wu_CampaignID u = c" "w' = ticked w" by fact+
qed

text \<open>C23: the link handed to a user names the user's own campaign and code, and opening it finds that
  user again, given that codes are unique and no statement fails; the share texts of the campaign
  are never used, the message is the built-in one.\<close>

theorem referral_link_leads_back:
  assumes "GetReferralLink a c i base w = (Ok res, w1)" "distinct (map wu_ReferralCode (t_waitlist_users w))"
    "no_faults w" "\<forall>u\<in>set (t_waitlist_users w). wu_ReferralCode u \<noteq> ''''"
  shows "\<exists>campaign. campaign \<in> set (t_campaigns w) \<and> cp_ID campaign = c \<and> cp_AccountID campaign = a \<and>
    grl_ReferralLink res = base @ ''/join/'' @ cp_Slug campaign @ ''?ref='' @ grl_ReferralCode res \<and>
    sl_Email (grl_ShareLinks res) = ''mailto:?subject=Join me on the '' @ cp_Name campaign @ '' waitlist!&body='' @
      grl_ReferralLink res \<and>
    (\<exists>t w2. TrackReferral c \<lparr>trr_ReferralCode = grl_ReferralCode res, trr_Source = src, trr_IPAddress = ip\<rparr> w1 = (Ok t, w2) \<and>
       trs_ReferrerID t = i)"
proof -
  obtain w2 campaign w3 user where run: "referral_system a w = (Ok (), w2)"
      "owned_campaign (RF RF_ErrCampaignNotFound) (RF RF_ErrUnauthorized) a c w2 = (Ok campaign, w3)"
      "rf_campaign_user c i w3 = (Ok user, w1)"
      and res: "res = \<lparr>grl_ReferralLink = BuildReferralLink base (cp_Slug campaign) (wu_ReferralCode user),
        grl_ReferralCode = wu_ReferralCode user,
        grl_ShareLinks = buildShareLinks (BuildReferralLink base (cp_Slug campaign) (wu_ReferralCode user))
          (getShareMessage campaign user)\<rparr>"
    using assms(1) by (auto simp: GetReferralLink_def ok_simps Let_def)
  have t2: "tick w w2" using run(1) assms(3) by (rule referral_system_Ok)
  note cp = owned_campaign_Ok [OF run(2)] and us = rf_campaign_user_Ok [OF run(3)]
  have g: "store_GetCampaignByID c w2 = (Ok campaign, w3)"
    using run(2) by (auto simp: owned_campaign_def ok_simps not_found_as_Ok split: if_splits)
  obtain r where r: "r \<in> set (t_campaigns w)" "cp_ID r = c" "campaign = campaign_view (ticked w2) r"
    using GetCampaignByID_Ok(6) [OF g] t2 by (auto simp: tick_def)
  have t1: "tick w w1" using t2 us(5) cp(2) by (auto simp: tick_def ticked_def)
  have users: "t_waitlist_users w1 = t_waitlist_users w" using t1 by (auto simp: tick_def)
  have user: "user \<in> set (t_waitlist_users w)" using us(1) cp(2) t2 by (auto simp: tick_def)
  have "users_where (\<lambda>u. wu_ReferralCode u = wu_ReferralCode user) (ticked w1) = [user]"
  proof -
    have "filter (\<lambda>u. wu_ReferralCode u = wu_ReferralCode user \<and> wu_DeletedAt u = None) xs = [user]"
      if "distinct (map wu_ReferralCode xs)" "user \<in> set xs" for xs
      using that us(4) by (induction xs) (auto simp: filter_empty_conv, metis image_eqI)
    then show ?thesis using assms(2) user by (simp add: users_where_def users)
  qed
  then have code: "store_GetWaitlistUserByReferralCode (wu_ReferralCode user) w1 = (Ok user, ticked w1)"
    using assms(3) t1 by (auto simp: store_GetWaitlistUserByReferralCode_def ok_simps tick_def no_faults_def)
  have "TrackReferral c \<lparr>trr_ReferralCode = grl_ReferralCode res, trr_Source = src, trr_IPAddress = ip\<rparr> w1 =
      (Ok \<lparr>trs_Message = ''Referral tracked successfully'', trs_ReferrerID = i, trs_ReferrerName = referrer_name user\<rparr>, ticked w1)"
    using code us(2,3) user assms(4) by (simp add: TrackReferral_def res bindE_def tryE_def not_found_as_def retE_def)
  then show ?thesis
    using r cp(4) by (intro exI [of _ r]) (auto simp: res BuildReferralLink_def buildShareLinks_def getShareMessage_def campaign_view_def Let_def)
qed

text \<open>The sample deployment with a free plan that has one feature.\<close>

definition feature_world :: "string \<Rightarrow> world" where
  "feature_world feature = sample_world\<lparr>
     t_prices := [\<lparr>pr_ID = 7, pr_ProductID = 8, pr_StripeID = ''p'', pr_Description = ''free'',
        pr_UnitAmount = None, pr_Currency = None, pr_Interval = None, pr_CreatedAt = '''', pr_UpdatedAt = '''',
        pr_DeletedAt = None\<rparr>],
     t_features := [\<lparr>ft_ID = 3, ft_Name = feature, ft_Description = None, ft_CreatedAt = 0, ft_UpdatedAt = 0, ft_DeletedAt = None\<rparr>],
     t_plan_feature_limits := [\<lparr>pl_PlanID = 7, pl_FeatureID = 3, pl_LimitID = None,
        pl_Enabled = True, pl_CreatedAt = 0, pl_UpdatedAt = 0, pl_DeletedAt = None\<rparr>]\<rparr>"

theorem referral_link_leads_back_witness:
  "\<exists>res w1. GetReferralLink 1 10 22 ''https://x.io'' (feature_world ''referral_system'') = (Ok res, w1) \<and>
     (\<exists>t w2. TrackReferral 10 \<lparr>trr_ReferralCode = grl_ReferralCode res, trr_Source = None, trr_IPAddress = None\<rparr> w1 =
        (Ok t, w2) \<and> trs_ReferrerID t = 22)"
proof -
  have "is_Ok (fst (GetReferralLink 1 10 22 ''https://x.io'' (feature_world ''referral_system'')))" by code_simp
  then obtain res w1 where r: "GetReferralLink 1 10 22 ''https://x.io'' (feature_world ''referral_system'') = (Ok res, w1)"
    by (cases "GetReferralLink 1 10 22 ''https://x.io'' (feature_world ''referral_system'')") (auto elim: is_Ok.elims)
  have "distinct (map wu_ReferralCode (t_waitlist_users (feature_world ''referral_system'')))"
      "\<forall>u\<in>set (t_waitlist_users (feature_world ''referral_system'')). wu_ReferralCode u \<noteq> ''''"
    by (simp_all add: feature_world_def sample_world_def sample_user_def)
  moreover have nf: "no_faults (feature_world ''referral_system'')"
    using sample_world_no_faults by (simp add: feature_world_def no_faults_def)
  ultimately show ?thesis
    using r referral_link_leads_back [OF r _ nf] by blast
qed

end
