(* ===== verification/PositionWorker.thy ===== *)
theory PositionWorker
  imports Position WaitlistFacts
begin

text \<open>
  The worker that recomputes positions, workers/position/processor.go, composed with the events
  that the waitlist publishes and with the calculator.
\<close>

section \<open>Worker\<close>

definition position_Process :: "EventMessage \<Rightarrow> (world, unit) go" where
  "position_Process event =
     (if em_Type event \<noteq> EventUserCreated \<and> em_Type event \<noteq> EventUserVerified then retE ()
      else case jget (em_Data event) ''campaign_id'' of
        Some (JStr campaignIDStr) \<Rightarrow>
          (if campaignIDStr = '''' then retE ()
           else bindE (getE w_uuid_Parse) (\<lambda>parse.
             case parse campaignIDStr of
               None \<Rightarrow> retE ()
             | Some campaignID \<Rightarrow>
                 wrapE ''failed to calculate positions'' (CalculatePositionsForCampaign campaignID)))
      | _ \<Rightarrow> retE ())"

section \<open>A calculation that finds its campaign succeeds\<close>

lemma ranked_row_ok: "list_all waitlist_row_ok (t_waitlist_users w) \<Longrightarrow> list_all waitlist_row_ok (ranked_table ver jump rj c w)"
  by (auto simp: list_all_iff ranked_table_def position_of_def waitlist_row_ok_def)

lemma ranked_table_no_users: "campaign_users c w = [] \<Longrightarrow> ranked_table ver jump rj c w = t_waitlist_users w"
  unfolding ranked_table_def by (intro map_idI) (auto simp: campaign_users_def users_where_def filter_empty_conv)

definition rankable :: "uuid \<Rightarrow> world \<Rightarrow> bool" where
  "rankable c w \<longleftrightarrow> no_faults w \<and> inj (w_uuid_String w) \<and> campaigns_where (\<lambda>cp. cp_ID cp = c) w \<noteq> [] \<and>
     distinct (map wu_ID (t_waitlist_users w)) \<and> list_all waitlist_row_ok (t_waitlist_users w)"

lemma CalculatePositions_run:
  assumes "rankable c w"
  shows "\<exists>n. CalculatePositionsForCampaign c w = (Ok (), w\<lparr>w_calls := n, t_waitlist_users := ranked_table False 0 1 c w\<rparr>)"
proof -
  let ?us = "sort_Slice (\<lambda>a b. (wu_CreatedAt a, uint (wu_ID a)) < (wu_CreatedAt b, uint (wu_ID b)))
    (users_where (\<lambda>u. wu_CampaignID u = c) (ticked (ticked w)))"
  let ?ps = "calculatePositions (w_uuid_String w) ?us False 0 1"
  have nf: "w_fault w n = None" for n using assms by (simp add: rankable_def no_faults_def)
  obtain cp where cp: "store_GetCampaignByID c w = (Ok cp, ticked w)"
    using assms by (cases "campaigns_where (\<lambda>cp. cp_ID cp = c) (ticked w)")
      (auto simp: rankable_def campaigns_where_def ticked_def campaign_view_def store_GetCampaignByID_def ok_simps nf)
  have s: "calc_verification cp = False" "calc_jump cp = 0" "calc_ref_jump cp = 1"
    using GetCampaignByID_Ok(4,5) [OF cp] by (simp_all add: calc_verification_def calc_jump_def calc_ref_jump_def)
  have all: "store_GetAllWaitlistUsersForPositionCalculation c (ticked w) = (Ok ?us, ticked (ticked w))"
    by (simp add: store_GetAllWaitlistUsersForPositionCalculation_def ok_simps nf ticked_def)
  have m: "mset ?us = mset (campaign_users c w)"
    by (simp add: campaign_users_def users_where_def ticked_def)
  have calc: "CalculatePositionsForCampaign c w = (if ?us = [] then retE ()
      else wrapE ''failed to update positions''
        (store_BulkUpdateWaitlistUserPositions (map fst ?ps) (map snd ?ps))) (ticked (ticked w))"
    by (simp add: CalculatePositionsForCampaign_def go_defs cp all s Let_def)
  show ?thesis
  proof (cases "?us = []")
    case True
    then have "campaign_users c w = []" using m by simp
    then show ?thesis unfolding calc using True
      by (intro exI [of _ "w_calls (ticked (ticked w))"]) (simp add: ranked_table_no_users retE_def ticked_def)
  next
    case False
    then have ne: "map fst ?ps \<noteq> []" using calculatePositions_keys [of "w_uuid_String w" ?us False 0 1] by auto
    have rows: "upd_where (\<lambda>u. wu_ID u \<in> set (map fst ?ps))
       (\<lambda>u. u\<lparr>wu_Position := (case map_of (zip (map fst ?ps) (map snd ?ps)) (wu_ID u) of
          None \<Rightarrow> wu_Position u | Some p \<Rightarrow> p), wu_UpdatedAt := w_now w\<rparr>) (t_waitlist_users w) = ranked_table False 0 1 c w"
      using assms by (intro bulk_update_ranked [OF _ _ m]) (simp_all add: rankable_def)
    have "store_BulkUpdateWaitlistUserPositions (map fst ?ps) (map snd ?ps) (ticked (ticked w)) =
        (Ok (), (ticked (ticked (ticked w)))\<lparr>t_waitlist_users := ranked_table False 0 1 c w\<rparr>)"
      using ne rows assms ranked_row_ok [of w False 0 1 c]
      by (simp add: store_BulkUpdateWaitlistUserPositions_def ok_simps ticked_def nf waitlist_check_def rankable_def)
    then show ?thesis unfolding calc using False
      by (intro exI [of _ "w_calls (ticked (ticked (ticked w)))"]) (simp add: ticked_def wrapE_def tryE_def retE_def)
  qed
qed

section \<open>A second calculation changes nothing\<close>

lemma rank_in_map:
  "(\<And>x y. lt (f x) (f y) = lt x y) \<Longrightarrow> rank_in lt (map f xs) (f x) = rank_in lt xs x"
  by (simp add: rank_in_def filter_map comp_def)

lemma filter_map_if:
  "(\<And>x. P (h x) = P x) \<Longrightarrow> filter P (map (\<lambda>x. if P x then h x else x) xs) = map h (filter P xs)"
  by (induction xs) auto

lemma position_less_position:
  "position_less str ver jump rj (u\<lparr>wu_Position := p, wu_UpdatedAt := t\<rparr>) (v\<lparr>wu_Position := q, wu_UpdatedAt := t'\<rparr>) =
   position_less str ver jump rj u v"
  by (simp add: position_less_def effective_score_def Let_def)

lemma ranked_table_idem:
  assumes "t_waitlist_users w' = ranked_table ver jump rj c w" "w_uuid_String w' = w_uuid_String w" "w_now w' = w_now w"
  shows "ranked_table ver jump rj c w' = ranked_table ver jump rj c w"
proof -
  let ?pos = "\<lambda>us u. position_of (w_uuid_String w) ver jump rj us u"
  let ?g = "\<lambda>u. u\<lparr>wu_Position := ?pos (campaign_users c w) u, wu_UpdatedAt := w_now w\<rparr>"
  have us: "campaign_users c w' = map ?g (campaign_users c w)"
    unfolding campaign_users_def [of c w'] users_where_def assms(1) ranked_table_def
    by (subst filter_map_if) (simp_all add: campaign_users_def users_where_def)
  have "?pos (campaign_users c w') (?g u) = ?pos (campaign_users c w) u" for u
    using rank_in_map [of "position_less (w_uuid_String w) ver jump rj" ?g, OF position_less_position]
    by (simp only: us position_of_def [of _ _ _ _ "map _ _"] position_of_def [of _ _ _ _ "campaign_users c w"])
  then show ?thesis
    unfolding ranked_table_def [of ver jump rj c w'] assms by (simp add: ranked_table_def)
qed

lemma rankable_queue: "rankable c w \<Longrightarrow> rankable c (w\<lparr>w_queue := q, w_fresh := n\<rparr>)"
  by (simp add: rankable_def no_faults_def campaigns_where_def campaign_view_def)

lemma rankable_after:
  "rankable c w \<Longrightarrow> rankable c (w\<lparr>w_calls := n, t_waitlist_users := ranked_table ver jump rj c w\<rparr>)"
  using ranked_row_ok [of w ver jump rj c]
  by (auto simp: rankable_def no_faults_def campaigns_where_def campaign_view_def ranked_table_def comp_def if_distrib cong: if_cong)

section \<open>A signup is ranked\<close>

text \<open>The message of DispatchUserCreated leads the worker to the campaign.\<close>

lemma created_event:
  assumes "DispatchUserCreated a c u w = (Ok (), w')" "w_queue w' = w_queue w @ [ev]"
  shows "em_Type ev = EventUserCreated" "jget (em_Data ev) ''campaign_id'' = Some (JStr (w_uuid_String w c))"
    "w' = w\<lparr>w_queue := w_queue w', w_fresh := w_fresh w'\<rparr>"
proof -
  show "em_Type ev = EventUserCreated" "jget (em_Data ev) ''campaign_id'' = Some (JStr (w_uuid_String w c))"
    using assms
    by (auto simp: DispatchUserCreated_def dispatch_logged_def uuid_string_def bindE_getE PublishEvent_cases
        logE_def tryE_def retE_def Let_def jget_def jmap_def json_trip_map_def split: option.splits)
  have "publishes w w'" using dispatch_publishes(2) [of a c u] assms(1) by (metis moves_def snd_conv)
  then show "w' = w\<lparr>w_queue := w_queue w', w_fresh := w_fresh w'\<rparr>" by (auto simp: publishes_def)
qed

lemma position_Process_created:
  assumes "em_Type ev = EventUserCreated" "jget (em_Data ev) ''campaign_id'' = Some (JStr s)" "s \<noteq> ''''"
    "w_uuid_Parse w s = Some c" "rankable c w"
  shows "\<exists>n. position_Process ev w = (Ok (), w\<lparr>w_calls := n, t_waitlist_users := ranked_table False 0 1 c w\<rparr>)"
  using CalculatePositions_run [OF assms(5)] assms(1-4)
  by (auto simp: position_Process_def bindE_getE wrapE_def tryE_def retE_def)



end
