(* ===== verification/Calendar.thy ===== *)
theory Calendar
  imports Prelude
begin

text \<open>
  The part of package time that the analytics use, for times in UTC: Date, Clock, Weekday,
  time.Date with its normalisation, Add and AddDate on the proleptic Gregorian calendar. A time
  is the number of nanoseconds since 1970-01-01T00:00:00Z; a month is the number of months since
  year 0, so that a month out of range carries into the year as time.Date has it. The range of
  a Go time (some 292 billion years) is not modelled.
\<close>

section \<open>Days and months\<close>

definition ns_hour :: int where
  "ns_hour = 3600000000000"

definition ns_day :: int where
  "ns_day = 86400000000000"

definition is_leap :: "int \<Rightarrow> bool" where
  "is_leap y = (y mod 4 = 0 \<and> (y mod 100 \<noteq> 0 \<or> y mod 400 = 0))"

text \<open>The leap years up to a year, and the day of January 1st, counted from 1970-01-01.\<close>

definition leaps :: "int \<Rightarrow> int" where
  "leaps y = y div 4 - y div 100 + y div 400"

definition year_day :: "int \<Rightarrow> int" where
  "year_day y = 365 * (y - 1) + leaps (y - 1) - 719162"

fun month_offset :: "bool \<Rightarrow> int \<Rightarrow> int" where
  "month_offset leap m = (if m \<le> 0 then 0 else if m = 1 then 31 else
     (if leap then 1 else 0) +
     (if m = 2 then 59 else if m = 3 then 90 else if m = 4 then 120 else if m = 5 then 151
      else if m = 6 then 181 else if m = 7 then 212 else if m = 8 then 243 else if m = 9 then 273
      else if m = 10 then 304 else if m = 11 then 334 else 365))"

declare month_offset.simps [simp del]

text \<open>The day of the first of a month, the month given as 12 * year + month - 1.\<close>

definition month_day :: "int \<Rightarrow> int" where
  "month_day n = year_day (n div 12) + month_offset (is_leap (n div 12)) (n mod 12)"

definition year_of_day :: "int \<Rightarrow> int" where
  "year_of_day d = (let y = (400 * (d + 719162)) div 146097 + 1 in
     if d < year_day y then y - 1 else if year_day (y + 1) \<le> d then y + 1 else y)"

definition month_of_day :: "int \<Rightarrow> int" where
  "month_of_day d = (let y = year_of_day d in
     12 * y + int (length (filter (\<lambda>m. year_day y + month_offset (is_leap y) m \<le> d) [1..11])))"

section \<open>Package time\<close>

definition day_of :: "int \<Rightarrow> int" where
  "day_of t = t div ns_day"

definition time_month :: "int \<Rightarrow> int" where
  "time_month t = month_of_day (day_of t)"

definition time_Day :: "int \<Rightarrow> int" where
  "time_Day t = day_of t - month_day (time_month t) + 1"

definition time_Hour :: "int \<Rightarrow> int" where
  "time_Hour t = (t mod ns_day) div ns_hour"

definition time_Weekday :: "int \<Rightarrow> int" where
  "time_Weekday t = (day_of t + 4) mod 7"

text \<open>time.Date(y, m, d, hour, 0, 0, 0, time.UTC), year and month as one number.\<close>

definition time_Date :: "int \<Rightarrow> int \<Rightarrow> int \<Rightarrow> int" where
  "time_Date month d hour = (month_day month + d - 1) * ns_day + hour * ns_hour"

definition AddDate :: "int \<Rightarrow> int \<Rightarrow> int \<Rightarrow> int \<Rightarrow> int" where
  "AddDate t years months days =
     time_Date (time_month t + 12 * years + months) (time_Day t + days) 0 + t mod ns_day"

section \<open>Laws of the calendar\<close>

lemma div_pred: "0 < k \<Longrightarrow> (y :: int) div k = (y - 1) div k + (if y mod k = 0 then 1 else 0)"
proof -
  assume k: "0 < k"
  have y: "y = k * (y div k) + y mod k" by simp
  have r: "0 \<le> y mod k" "y mod k < k" using k by simp_all
  show ?thesis
  proof (cases "y mod k = 0")
    case True
    then have "y - 1 = k * (y div k - 1) + (k - 1)" using y by (simp add: right_diff_distrib)
    then have "(y - 1) div k = y div k - 1" using k by (intro int_div_pos_eq [of _ _ _ "k - 1"]) auto
    then show ?thesis using True by simp
  next
    case False
    then have "(y - 1) div k = y div k" using y r by (intro int_div_pos_eq [of _ _ _ "y mod k - 1"]) auto
    then show ?thesis using False by simp
  qed
qed

lemma year_day_Suc: "year_day (y + 1) = year_day y + 365 + (if is_leap y then 1 else 0)"
proof -
  define p q r where "p = (y mod 4 = 0)" "q = (y mod 100 = 0)" "r = (y mod 400 = 0)"
  have imp: "q \<Longrightarrow> p" "r \<Longrightarrow> q" 
    using dvd_trans [of 4 100 y] dvd_trans [of 100 400 y] by (simp_all add: p_q_r_def mod_eq_0_iff_dvd)
  have "y div 4 = (y - 1) div 4 + (if p then 1 else 0)" "y div 100 = (y - 1) div 100 + (if q then 1 else 0)"
    "y div 400 = (y - 1) div 400 + (if r then 1 else 0)"
    unfolding p_q_r_def by (rule div_pred; simp)+
  then have "leaps y = leaps (y - 1) + (if p \<and> (\<not> q \<or> r) then 1 else 0)"
    unfolding leaps_def using imp by (cases p; cases q; cases r) (simp_all only: if_True if_False simp_thms HOL.True_implies_equals)
  then show ?thesis by (simp add: year_day_def is_leap_def p_q_r_def)
qed

lemma year_day_mono: "y \<le> z \<Longrightarrow> year_day y \<le> year_day z"
proof (induction "nat (z - y)" arbitrary: z)
  case (Suc n)
  then have "year_day y \<le> year_day (z - 1)" by simp
  then show ?case using year_day_Suc [of "z - 1"] by (simp split: if_splits)
qed simp

text \<open>The number of days before a year differs from 146097 / 400 per year by less than two.\<close>

lemma leaps_bounds: "400 * leaps n \<le> 97 * n + 396" "97 * n - 699 \<le> 400 * leaps n"
proof -
  define a b c where "a = n div 4" "b = n div 100" "c = n div 400"
  have d: "k * (n div k) \<le> n" "n < k * (n div k) + k" if "0 < k" for k
    using that pos_mod_bound [of k n] pos_mod_sign [of k n] mult_div_mod_eq [of k n] by linarith+
  have "4 * a \<le> n" "n < 4 * a + 4" "100 * b \<le> n" "n < 100 * b + 100" "400 * c \<le> n" "n < 400 * c + 400"
    unfolding a_b_c_def by (rule d; simp)+
  then show "400 * leaps n \<le> 97 * n + 396" "97 * n - 699 \<le> 400 * leaps n"
    unfolding leaps_def a_b_c_def [symmetric] by simp_all
qed

lemma year_of_day: "year_day (year_of_day d) \<le> d" "d < year_day (year_of_day d + 1)"
proof -
  define n where "n = (400 * (d + 719162)) div 146097"
  have n: "146097 * n \<le> 400 * (d + 719162)" "400 * (d + 719162) < 146097 * n + 146097"
    using pos_mod_bound [of 146097 "400 * (d + 719162)"] pos_mod_sign [of 146097 "400 * (d + 719162)"]
      mult_div_mod_eq [of 146097 "400 * (d + 719162)"] unfolding n_def by linarith+
  have "year_day n \<le> d" "d < year_day (3 + n)"
    using n leaps_bounds(1) [of "n - 1"] leaps_bounds(2) [of "2 + n"] by (simp_all add: year_day_def)
  then show "year_day (year_of_day d) \<le> d" "d < year_day (year_of_day d + 1)"
    unfolding year_of_day_def n_def [symmetric] by (auto simp: Let_def)
qed

lemma month_day_parts: "0 \<le> m \<Longrightarrow> m < 12 \<Longrightarrow> month_day (12 * y + m) = year_day y + month_offset (is_leap y) m"
  by (simp add: month_day_def)

lemma month_day_year: "month_day (12 * y + 12) = year_day y + month_offset (is_leap y) 12"

  using month_day_parts [of 0 "y + 1"] year_day_Suc [of y] by (simp add: month_offset.simps algebra_simps)

lemma month_offset_step:
  assumes "0 \<le> m" "m < 12"
  shows "28 \<le> month_offset l (m + 1) - month_offset l m" "month_offset l (m + 1) - month_offset l m \<le> 31"
proof -
  from assms have "m \<in> {0, 1, 2, 3, 4, 5, 6, 7, 8, 9, 10, 11}" by (simp, presburger)
  then show "28 \<le> month_offset l (m + 1) - month_offset l m" "month_offset l (m + 1) - month_offset l m \<le> 31"
    by (auto simp: month_offset.simps)
qed

lemma month_day_Suc: "28 \<le> month_day (n + 1) - month_day n" "month_day (n + 1) - month_day n \<le> 31"
proof -
  define y m where "y = n div 12" "m = n mod 12"
  have n: "n = 12 * y + m" "0 \<le> m" "m < 12" by (simp_all add: y_m_def)
  have "month_day (n + 1) = year_day y + month_offset (is_leap y) (m + 1)"
  proof (cases "m = 11")
    case True
    then show ?thesis using month_day_year [of y] n(1) by (simp add: algebra_simps)
  next
    case False
    then show ?thesis using month_day_parts [of "m + 1" y] n by (simp add: add.assoc)
  qed
  moreover have "month_day n = year_day y + month_offset (is_leap y) m" using n month_day_parts by simp
  ultimately show "28 \<le> month_day (n + 1) - month_day n" "month_day (n + 1) - month_day n \<le> 31"
    using month_offset_step [OF n(2,3), of "is_leap y"] by simp_all
qed

text \<open>How many elements of an increasing list are at most d.\<close>

lemma sorted_count:
  assumes "sorted ts" "i < length ts"
  shows "ts ! i \<le> (d :: int) \<longleftrightarrow> i < length (filter (\<lambda>t. t \<le> d) ts)"
  using assms
proof (induction ts arbitrary: i)
  case (Cons t ts)
  show ?case
  proof (cases "t \<le> d")
    case True
    then show ?thesis using Cons by (cases i) auto
  next
    case False
    then have "filter (\<lambda>t. t \<le> d) ts = []" using Cons.prems(1) by (auto simp: filter_empty_conv)
    moreover have "d < (t # ts) ! i" using False Cons.prems by (cases i) (auto dest!: nth_mem)
    ultimately show ?thesis using False by simp
  qed
qed simp

lemma month_of_day: "month_day (month_of_day d) \<le> d" "d < month_day (month_of_day d + 1)"
proof -
  define y ts k where "y = year_of_day d" "ts = map (\<lambda>m. year_day y + month_offset (is_leap y) m) [1..11]"
    "k = length (filter (\<lambda>t. t \<le> d) ts)"
  have y: "year_day y \<le> d" "d < year_day y + month_offset (is_leap y) 12"
    using year_of_day [of d] year_day_Suc [of y] by (simp_all add: y_ts_k_def(1) month_offset.simps)
  have m: "month_of_day d = 12 * y + int k"
    unfolding month_of_day_def Let_def y_ts_k_def(1) [symmetric] by (simp add: y_ts_k_def(2,3) filter_map comp_def)
  have up: "[1..11] = [1, 2, 3, 4, 5, 6, 7, 8, 9, 10, 11 :: int]" by (simp add: upto.simps)
  have len: "length ts = 11" and nth: "i < 11 \<Longrightarrow> ts ! i = year_day y + month_offset (is_leap y) (int i + 1)" for i
    by (simp_all add: y_ts_k_def(2) nth_upto add.commute)
  have "sorted ts" unfolding y_ts_k_def(2) up by (simp add: month_offset.simps)
  note count = sorted_count [OF this, of _ d, folded y_ts_k_def(3), unfolded len]
  have k: "k \<le> 11" unfolding y_ts_k_def(3) using len length_filter_le by metis
  have "year_day y + month_offset (is_leap y) (int k) \<le> d"
  proof (cases k)
    case 0
    then show ?thesis using y by (simp add: month_offset.simps)
  next
    case (Suc j)
    then show ?thesis using count [of j] nth [of j] k by (simp add: add.commute)
  qed
  moreover have "d < year_day y + month_offset (is_leap y) (int k + 1)"
  proof (cases "k = 11")
    case True
    then show ?thesis using y by simp
  next
    case False
    then show ?thesis using count [of k] nth [of k] k by simp
  qed
  moreover have "month_day (month_of_day d + 1) = year_day y + month_offset (is_leap y) (int k + 1)"
  proof (cases "k = 11")
    case True
    then show ?thesis using month_day_year [of y] by (simp add: m algebra_simps)
  next
    case False
    then show ?thesis using month_day_parts [of "int k + 1" y] k by (simp add: m add.assoc)
  qed
  ultimately show "month_day (month_of_day d) \<le> d" "d < month_day (month_of_day d + 1)"
    using month_day_parts [of "int k" y] k by (simp_all add: m)
qed

lemma month_day_less: "k < n \<Longrightarrow> month_day k < month_day n"
proof (induction "nat (n - k - 1)" arbitrary: n)
  case 0
  then have "n = k + 1" by simp
  then show ?case using month_day_Suc(1) [of k] by simp
next
  case (Suc m)
  then have "month_day k < month_day (n - 1)" by simp
  then show ?case using month_day_Suc(1) [of "n - 1"] by simp
qed

lemma month_day_le: "k \<le> n \<Longrightarrow> month_day k \<le> month_day n"
  using month_day_less [of k n] by (cases "k = n") auto

lemma month_of_day_unique: "month_day n \<le> d \<Longrightarrow> d < month_day (n + 1) \<Longrightarrow> month_of_day d = n"
  using month_of_day [of d] month_day_le [of "n + 1" "month_of_day d"] month_day_le [of "month_of_day d + 1" n]
  by linarith

text \<open>AddDate moves by the length of the months it passes.\<close>

lemma AddDate_days:
  "AddDate t y m d = t + (month_day (time_month t + 12 * y + m) - month_day (time_month t) + d) * ns_day"
proof -
  have "day_of t * ns_day + t mod ns_day = t" by (simp add: day_of_def)
  then show ?thesis by (simp add: AddDate_def time_Date_def time_Day_def algebra_simps)
qed

end
