(* ===== verification/Analytics.thy ===== *)
theory Analytics
  imports Calendar Access "HOL-Library.While_Combinator"
begin

text \<open>
  Analytics: store/analytics.go and analytics/processor/processor.go. A GROUP BY gives one row per
  value of its key; where several orders satisfy an ORDER BY the groups keep the order of their
  first row. DATE_TRUNC works in the time zone of the database session (\<^verbatim>\<open>w_date_trunc\<close>); the
  server's own zone is UTC. Quotients are float64, each operation rounded by \<^verbatim>\<open>w_round\<close>.
\<close>

section \<open>Store\<close>

record TopReferrerResult =
  tr_UserID :: uuid
  tr_Email :: string
  tr_Name :: string
  tr_ReferralCount :: int

record SourceBreakdownResult =
  sb_Source :: string
  sb_Count :: int

record FunnelStepResult =
  fs_Step :: string
  fs_Count :: int
  fs_Percentage :: rat
  fs_DropOffRate :: rat

record AnalyticsOverviewResult =
  ov_TotalSignups :: int
  ov_TotalVerified :: int
  ov_TotalReferrals :: int
  ov_VerificationRate :: rat
  ov_AverageReferrals :: rat
  ov_ViralCoefficient :: rat

record ConversionAnalyticsResult =
  cv_TotalSignups :: int
  cv_TotalVerified :: int
  cv_TotalConverted :: int
  cv_VerificationRate :: rat
  cv_ConversionRate :: rat

record ReferralAnalyticsResult =
  ra_TotalReferrals :: int
  ra_VerifiedReferrals :: int
  ra_AverageReferralsPerUser :: rat
  ra_ViralCoefficient :: rat

text \<open>\<^verbatim>\<open>float64(a) / float64(b)\<close>\<close>

definition float_ratio :: "(rat \<Rightarrow> rat) \<Rightarrow> int \<Rightarrow> int \<Rightarrow> rat" where
  "float_ratio rnd a b = rnd (float64_of_int a / float64_of_int b)"

definition counted :: "('a \<Rightarrow> bool) \<Rightarrow> 'a list \<Rightarrow> int" where
  "counted P xs = int (length (filter P xs))"

definition store_GetAnalyticsOverview :: "uuid \<Rightarrow> (world, AnalyticsOverviewResult) go" where
  "store_GetAnalyticsOverview campaignID =
     bindE (wrapE ''failed to get analytics overview'' (sql_query (\<lambda>w.
       let rows = filter (\<lambda>a. ca_CampaignID a = campaignID) (t_campaign_analytics w) in
       (sum_list (map ca_NewSignups rows), sum_list (map ca_NewVerified rows), sum_list (map ca_NewReferrals rows)))))
       (\<lambda>(signups, verified, referrals).
     bindE (getE w_round) (\<lambda>rnd.
     retE \<lparr>ov_TotalSignups = signups, ov_TotalVerified = verified, ov_TotalReferrals = referrals,
       ov_VerificationRate = (if 0 < signups then float_ratio rnd verified signups else 0),
       ov_AverageReferrals = (if 0 < signups then float_ratio rnd referrals signups else 0),
       ov_ViralCoefficient = (if 0 < signups \<and> 0 < referrals then float_ratio rnd verified signups else 0)\<rparr>))"

definition live_users :: "uuid \<Rightarrow> world \<Rightarrow> WaitlistUser list" where
  "live_users campaignID w =
     filter (\<lambda>u. wu_CampaignID u = campaignID \<and> wu_DeletedAt u = None) (t_waitlist_users w)"

definition store_GetTopReferrers :: "uuid \<Rightarrow> int \<Rightarrow> (world, TopReferrerResult list) go" where
  "store_GetTopReferrers campaignID lmt = wrapE ''failed to get top referrers''
     (sql_page (\<lambda>w. map (\<lambda>u. \<lparr>tr_UserID = wu_ID u, tr_Email = wu_Email u,
           tr_Name = (case (wu_FirstName u, wu_LastName u) of (Some f, Some l) \<Rightarrow> f @ '' '' @ l | _ \<Rightarrow> wu_Email u),
           tr_ReferralCount = wu_VerifiedReferralCount u\<rparr>)
         (sort_Slice (\<lambda>a b. wu_VerifiedReferralCount b < wu_VerifiedReferralCount a)
           (filter (\<lambda>u. 0 < wu_VerifiedReferralCount u) (live_users campaignID w)))) lmt 0)"

text \<open>\<^verbatim>\<open>($2 IS NULL OR created_at >= $2) AND ($3 IS NULL OR created_at <= $3)\<close>\<close>

definition created_between :: "time option \<Rightarrow> time option \<Rightarrow> time \<Rightarrow> bool" where
  "created_between dateFrom dateTo t =
     ((case dateFrom of None \<Rightarrow> True | Some f \<Rightarrow> f \<le> t) \<and> (case dateTo of None \<Rightarrow> True | Some e \<Rightarrow> t \<le> e))"

definition users_between :: "uuid \<Rightarrow> time option \<Rightarrow> time option \<Rightarrow> world \<Rightarrow> WaitlistUser list" where
  "users_between campaignID dateFrom dateTo w =
     filter (\<lambda>u. created_between dateFrom dateTo (wu_CreatedAt u)) (live_users campaignID w)"

definition referrals_between :: "uuid \<Rightarrow> time option \<Rightarrow> time option \<Rightarrow> world \<Rightarrow> Referral list" where
  "referrals_between campaignID dateFrom dateTo w =
     filter (\<lambda>r. rf_CampaignID r = campaignID \<and> created_between dateFrom dateTo (rf_CreatedAt r)) (t_referrals w)"

definition store_GetConversionAnalytics ::
    "uuid \<Rightarrow> time option \<Rightarrow> time option \<Rightarrow> (world, ConversionAnalyticsResult) go" where
  "store_GetConversionAnalytics campaignID dateFrom dateTo =
     bindE (wrapE ''failed to get conversion analytics'' (sql_query (users_between campaignID dateFrom dateTo))) (\<lambda>us.
     bindE (getE w_round) (\<lambda>rnd.
     let signups = counted (\<lambda>u. True) us; verified = counted wu_EmailVerified us;
         converted = counted (\<lambda>u. wu_Status u = ''converted'') us in
     retE \<lparr>cv_TotalSignups = signups, cv_TotalVerified = verified, cv_TotalConverted = converted,
       cv_VerificationRate = (if 0 < signups then float_ratio rnd verified signups else 0),
       cv_ConversionRate = (if 0 < signups then float_ratio rnd converted signups else 0)\<rparr>))"

definition store_GetReferralAnalytics ::
    "uuid \<Rightarrow> time option \<Rightarrow> time option \<Rightarrow> (world, ReferralAnalyticsResult) go" where
  "store_GetReferralAnalytics campaignID dateFrom dateTo =
     bindE (wrapE ''failed to get referral analytics'' (sql_query (\<lambda>w.
       let rs = referrals_between campaignID dateFrom dateTo w in
       (counted (\<lambda>r. True) rs, counted (\<lambda>r. rf_Status r = ''verified'') rs)))) (\<lambda>(total_referrals, verified).
     bindE (wrapE ''failed to get referral stats'' (sql_query (\<lambda>w. let us = live_users campaignID w in
       (counted (\<lambda>u. True) us, sum_list (map wu_ReferralCount us))))) (\<lambda>(users, user_referrals).
     bindE (getE w_round) (\<lambda>rnd.
     retE \<lparr>ra_TotalReferrals = total_referrals, ra_VerifiedReferrals = verified,
       ra_AverageReferralsPerUser = (if 0 < users then float_ratio rnd user_referrals users else 0),
       ra_ViralCoefficient = (if 0 < users \<and> 0 < total_referrals then float_ratio rnd verified users else 0)\<rparr>)))"

text \<open>One row per value of the key, the largest groups first.\<close>

definition group_counts :: "('a \<Rightarrow> 'k) \<Rightarrow> 'a list \<Rightarrow> ('k \<times> int) list" where
  "group_counts key xs = map (\<lambda>k. (k, counted (\<lambda>x. key x = k) xs)) (rev (remdups (rev (map key xs))))"

definition biggest_first :: "('k \<times> int) list \<Rightarrow> ('k \<times> int) list" where
  "biggest_first = sort_Slice (\<lambda>a b. snd b < snd a)"

definition breakdown :: "('a \<Rightarrow> string option) \<Rightarrow> 'a list \<Rightarrow> SourceBreakdownResult list" where
  "breakdown src xs = map (\<lambda>(s, n). \<lparr>sb_Source = coalesce s ''direct'', sb_Count = n\<rparr>) (biggest_first (group_counts src xs))"

definition store_GetReferralSourceBreakdown ::
    "uuid \<Rightarrow> time option \<Rightarrow> time option \<Rightarrow> (world, SourceBreakdownResult list) go" where
  "store_GetReferralSourceBreakdown campaignID dateFrom dateTo = wrapE ''failed to get referral source breakdown''
     (sql_query (\<lambda>w. breakdown rf_Source (referrals_between campaignID dateFrom dateTo w)))"

definition store_GetSignupSourceBreakdown ::
    "uuid \<Rightarrow> time option \<Rightarrow> time option \<Rightarrow> (world, SourceBreakdownResult list) go" where
  "store_GetSignupSourceBreakdown campaignID dateFrom dateTo = wrapE ''failed to get signup source breakdown''
     (sql_query (\<lambda>w. breakdown wu_Source (users_between campaignID dateFrom dateTo w)))"

text \<open>Rows read by MapScan, at most 20.\<close>

definition utm_breakdown ::
    "string \<Rightarrow> (WaitlistUser \<Rightarrow> string option) \<Rightarrow> WaitlistUser list \<Rightarrow> (string \<times> jval) list list" where
  "utm_breakdown column utm us = map (\<lambda>(s, n). [(column, JStr (coalesce s ''none'')), (''count'', JInt n)])
     (take 20 (biggest_first (group_counts utm us)))"

definition store_GetUTMCampaignBreakdown ::
    "uuid \<Rightarrow> time option \<Rightarrow> time option \<Rightarrow> (world, (string \<times> jval) list list) go" where
  "store_GetUTMCampaignBreakdown campaignID dateFrom dateTo = wrapE ''failed to get utm campaign breakdown''
     (sql_query (\<lambda>w. utm_breakdown ''utm_campaign'' wu_UTMCampaign (users_between campaignID dateFrom dateTo w)))"

definition store_GetUTMSourceBreakdown ::
    "uuid \<Rightarrow> time option \<Rightarrow> time option \<Rightarrow> (world, (string \<times> jval) list list) go" where
  "store_GetUTMSourceBreakdown campaignID dateFrom dateTo = wrapE ''failed to get utm source breakdown''
     (sql_query (\<lambda>w. utm_breakdown ''utm_source'' wu_UTMSource (users_between campaignID dateFrom dateTo w)))"

definition funnel_step :: "(rat \<Rightarrow> rat) \<Rightarrow> string \<Rightarrow> int \<Rightarrow> int \<Rightarrow> FunnelStepResult" where
  "funnel_step rnd step n signed_up = (let pct = rnd (float_ratio rnd n signed_up * 100) in
     \<lparr>fs_Step = step, fs_Count = n, fs_Percentage = pct, fs_DropOffRate = rnd (100 - pct)\<rparr>)"

definition store_GetFunnelAnalytics ::
    "uuid \<Rightarrow> time option \<Rightarrow> time option \<Rightarrow> (world, FunnelStepResult list) go" where
  "store_GetFunnelAnalytics campaignID dateFrom dateTo =
     bindE (wrapE ''failed to get funnel analytics'' (sql_query (users_between campaignID dateFrom dateTo))) (\<lambda>us.
     bindE (getE w_round) (\<lambda>rnd.
     let signed_up = counted (\<lambda>u. True) us in
     retE (if 0 < signed_up then
       [\<lparr>fs_Step = ''signed_up'', fs_Count = signed_up, fs_Percentage = 100, fs_DropOffRate = 0\<rparr>,
        funnel_step rnd ''verified'' (counted wu_EmailVerified us) signed_up,
        funnel_step rnd ''referred'' (counted (\<lambda>u. 0 < wu_ReferralCount u) us) signed_up,
        funnel_step rnd ''converted'' (counted (\<lambda>u. wu_Status u = ''converted'') us) signed_up] else [])))"

subsection \<open>Time series\<close>

record SignupsOverTimeDataPoint =
  so_Date :: time
  so_Count :: int

record SignupsBySourceDataPoint =
  ss_Date :: time
  ss_UTMSource :: "string option"
  ss_Count :: int

definition validPeriods :: "string list" where
  "validPeriods = [''hour'', ''day'', ''week'', ''month'']"

definition valid_period :: "string \<Rightarrow> string" where
  "valid_period period = (if period \<in> set validPeriods then period else ''day'')"

definition store_GetSignupsOverTime ::
    "uuid \<Rightarrow> time \<Rightarrow> time \<Rightarrow> string \<Rightarrow> (world, SignupsOverTimeDataPoint list) go" where
  "store_GetSignupsOverTime campaignID dateFrom dateTo period = wrapE ''failed to get signups over time''
     (sql_query (\<lambda>w. map (\<lambda>(d, n). \<lparr>so_Date = d, so_Count = n\<rparr>)
       (sort_Slice (\<lambda>a b. fst a < fst b)
         (group_counts (\<lambda>u. w_date_trunc w (valid_period period) (wu_CreatedAt u))
           (users_between campaignID (Some dateFrom) (Some dateTo) w)))))"

text \<open>\<^verbatim>\<open>ORDER BY date ASC, utm_source ASC NULLS LAST\<close>\<close>

fun source_order :: "(time \<times> string option) \<times> int \<Rightarrow> (time \<times> string option) \<times> int \<Rightarrow> bool" where
  "source_order ((d, s), n) ((e, t), m) = (d < e \<or> d = e \<and>
     (case (s, t) of (Some x, Some y) \<Rightarrow> x < y | (Some x, None) \<Rightarrow> True | _ \<Rightarrow> False))"

definition store_GetSignupsBySource ::
    "uuid \<Rightarrow> time \<Rightarrow> time \<Rightarrow> string \<Rightarrow> (world, SignupsBySourceDataPoint list) go" where
  "store_GetSignupsBySource campaignID dateFrom dateTo period = wrapE ''failed to get signups by source''
     (sql_query (\<lambda>w. map (\<lambda>((d, s), n). \<lparr>ss_Date = d, ss_UTMSource = s, ss_Count = n\<rparr>)
       (sort_Slice source_order
         (group_counts (\<lambda>u. (w_date_trunc w (valid_period period) (wu_CreatedAt u), wu_UTMSource u))
           (users_between campaignID (Some dateFrom) (Some dateTo) w)))))"

section \<open>Periods\<close>

definition truncateTime :: "time \<Rightarrow> string \<Rightarrow> time" where
  "truncateTime t period =
     (if period = ''hour'' then time_Date (time_month t) (time_Day t) (time_Hour t)
      else if period = ''day'' then time_Date (time_month t) (time_Day t) 0
      else if period = ''week'' then
        (let weekday = (if time_Weekday t = 0 then 7 else time_Weekday t) in
         time_Date (time_month t) (time_Day t - (weekday - 1)) 0)
      else if period = ''month'' then time_Date (time_month t) 1 0
      else time_Date (time_month t) (time_Day t) 0)"

definition advanceTime :: "time \<Rightarrow> string \<Rightarrow> time" where
  "advanceTime t period =
     (if period = ''hour'' then t + ns_hour
      else if period = ''day'' then AddDate t 0 0 1
      else if period = ''week'' then AddDate t 0 0 7
      else if period = ''month'' then AddDate t 0 1 0
      else AddDate t 0 0 1)"

lemma advanceTime_gt: "t + ns_hour \<le> advanceTime t period"
proof -
  have "1 * ns_day \<le> (month_day (1 + time_month t) - month_day (time_month t)) * ns_day"
    using month_day_Suc(1) [of "time_month t"] by (intro mult_right_mono) (simp_all add: ns_day_def add.commute)
  then show ?thesis
    by (simp add: advanceTime_def AddDate_days algebra_simps) (simp add: ns_day_def ns_hour_def)
qed

text \<open>
  The loop \<^verbatim>\<open>for !current.After(end) { result = append(result, body(current)...);
  current = advanceTime(current, period) }\<close>.
\<close>

function period_loop :: "string \<Rightarrow> (time \<Rightarrow> 'a list) \<Rightarrow> time \<Rightarrow> time \<Rightarrow> 'a list" where
  "period_loop period body current stop =
     (if stop < current then [] else body current @ period_loop period body (advanceTime current period) stop)"
  by auto
termination
proof (relation "measure (\<lambda>(period, body, current, stop). nat (stop + 1 - current))")
  fix period :: string and body :: "time \<Rightarrow> 'a list" and current stop :: time
  assume "\<not> stop < current"
  then show "((period, body, advanceTime current period, stop), (period, body, current, stop))
      \<in> measure (\<lambda>(period, body, current, stop). nat (stop + 1 - current))"
    using advanceTime_gt [of current period] by (simp add: ns_hour_def)
qed simp

declare period_loop.simps [simp del]

text \<open>\<^verbatim>\<open>t.Unix()\<close>\<close>

definition time_Unix :: "time \<Rightarrow> int" where
  "time_Unix t = t div 1000000000"

definition generateEmptyPeriods :: "time \<Rightarrow> time \<Rightarrow> string \<Rightarrow> SignupsOverTimeDataPoint list" where
  "generateEmptyPeriods from to period =
     period_loop period (\<lambda>current. [\<lparr>so_Date = current, so_Count = 0\<rparr>]) (truncateTime from period) (truncateTime to period)"

definition fillGaps :: "SignupsOverTimeDataPoint list \<Rightarrow> time \<Rightarrow> time \<Rightarrow> string \<Rightarrow> SignupsOverTimeDataPoint list" where
  "fillGaps data from to period =
     (if data = [] then generateEmptyPeriods from to period
      else let dataMap = foldl (\<lambda>m d. m(time_Unix (truncateTime (so_Date d) period) := so_Count d)) (\<lambda>k. 0) data in
        period_loop period (\<lambda>current. [\<lparr>so_Date = current, so_Count = dataMap (time_Unix current)\<rparr>])
          (truncateTime from period) (truncateTime to period))"

text \<open>The exchange sort of the sources: ascending, the empty string last.\<close>

definition source_swap :: "string \<Rightarrow> string \<Rightarrow> bool" where
  "source_swap a b = (a = '''' \<or> (b \<noteq> '''' \<and> b < a))"

definition exchange :: "string list \<Rightarrow> nat \<Rightarrow> nat \<Rightarrow> string list" where
  "exchange xs i j = (if source_swap (xs ! i) (xs ! j) then xs[i := xs ! j, j := xs ! i] else xs)"

definition sort_sources :: "string list \<Rightarrow> string list" where
  "sort_sources sources = foldl (\<lambda>xs i. foldl (\<lambda>ys j. exchange ys i j) xs [i + 1..<length sources])
     sources [0..<length sources - 1]"

definition formatSourceKey :: "int \<Rightarrow> string \<Rightarrow> string" where
  "formatSourceKey unixTime source = Itoa unixTime @ '':'' @ source"

definition fillGapsBySource ::
    "SignupsBySourceDataPoint list \<Rightarrow> time \<Rightarrow> time \<Rightarrow> string \<Rightarrow> SignupsBySourceDataPoint list \<times> string list" where
  "fillGapsBySource data from to period =
     (let sources = sort_sources (remdups (map (\<lambda>d. coalesce (ss_UTMSource d) '''') data)) in
      if data = [] then ([], [])
      else let dataMap = foldl (\<lambda>m d. m(formatSourceKey (time_Unix (truncateTime (ss_Date d) period))
                 (coalesce (ss_UTMSource d) '''') := ss_Count d)) (\<lambda>k. 0) data in
        (period_loop period (\<lambda>current. map (\<lambda>source. \<lparr>ss_Date = current,
             ss_UTMSource = (if source = '''' then None else Some source),
             ss_Count = dataMap (formatSourceKey (time_Unix current) source)\<rparr>) sources)
           (truncateTime from period) (truncateTime to period), sources))"

section \<open>Processor\<close>

definition an_campaign :: "uuid \<Rightarrow> uuid \<Rightarrow> (world, Campaign) go" where
  "an_campaign = owned_campaign (AN AN_ErrCampaignNotFound) (AN AN_ErrUnauthorized)"

definition check_range :: "time option \<Rightarrow> time option \<Rightarrow> (world, unit) go" where
  "check_range dateFrom dateTo = (case (dateFrom, dateTo) of
       (Some f, Some e) \<Rightarrow> if e < f then failE (Sentinel (AN AN_ErrInvalidDateRange)) else retE ()
     | _ \<Rightarrow> retE ())"

record AnalyticsOverviewResponse =
  ao_Overview :: AnalyticsOverviewResult
  ao_TopReferrers :: "TopReferrerResult list"
  ao_SignupsOverTime :: "SignupsOverTimeDataPoint list"
  ao_ReferralSources :: "SourceBreakdownResult list"

definition an_GetAnalyticsOverview :: "uuid \<Rightarrow> uuid \<Rightarrow> (world, AnalyticsOverviewResponse) go" where
  "an_GetAnalyticsOverview accountID campaignID =
     bindE (an_campaign accountID campaignID) (\<lambda>campaign.
     bindE (store_GetAnalyticsOverview campaignID) (\<lambda>overview.
     bindE (store_GetTopReferrers campaignID 10) (\<lambda>topReferrers.
     bindE (getE w_now) (\<lambda>now.
     let dateFrom = AddDate now 0 0 (- 30) in
     bindE (store_GetSignupsOverTime campaignID dateFrom now ''day'') (\<lambda>signupsOverTime.
     bindE (store_GetReferralSourceBreakdown campaignID None None) (\<lambda>referralSources.
     retE \<lparr>ao_Overview = overview, ao_TopReferrers = topReferrers,
       ao_SignupsOverTime = fillGaps signupsOverTime dateFrom now ''day'',
       ao_ReferralSources = referralSources\<rparr>))))))"

record FunnelDataPoint =
  fd_Stage :: string
  fd_Count :: int
  fd_Percentage :: rat

record ConversionAnalyticsResponse =
  cr_Conversion :: ConversionAnalyticsResult
  cr_FunnelData :: "FunnelDataPoint list"

definition an_GetConversionAnalytics ::
    "uuid \<Rightarrow> uuid \<Rightarrow> time option \<Rightarrow> time option \<Rightarrow> (world, ConversionAnalyticsResponse) go" where
  "an_GetConversionAnalytics accountID campaignID dateFrom dateTo =
     bindE (an_campaign accountID campaignID) (\<lambda>campaign.
     bindE (check_range dateFrom dateTo) (\<lambda>u.
     bindE (store_GetConversionAnalytics campaignID dateFrom dateTo) (\<lambda>conversion.
     bindE (getE w_round) (\<lambda>rnd.
     retE \<lparr>cr_Conversion = conversion, cr_FunnelData = [
       \<lparr>fd_Stage = ''signup'', fd_Count = cv_TotalSignups conversion, fd_Percentage = 100\<rparr>,
       \<lparr>fd_Stage = ''verified'', fd_Count = cv_TotalVerified conversion,
        fd_Percentage = rnd (cv_VerificationRate conversion * 100)\<rparr>,
       \<lparr>fd_Stage = ''converted'', fd_Count = cv_TotalConverted conversion,
        fd_Percentage = rnd (cv_ConversionRate conversion * 100)\<rparr>]\<rparr>))))"

record ReferralAnalyticsResponse =
  rr_Referral :: ReferralAnalyticsResult
  rr_TopReferrers :: "TopReferrerResult list"
  rr_ReferralSources :: "SourceBreakdownResult list"

definition an_GetReferralAnalytics ::
    "uuid \<Rightarrow> uuid \<Rightarrow> time option \<Rightarrow> time option \<Rightarrow> (world, ReferralAnalyticsResponse) go" where
  "an_GetReferralAnalytics accountID campaignID dateFrom dateTo =
     bindE (an_campaign accountID campaignID) (\<lambda>campaign.
     bindE (check_range dateFrom dateTo) (\<lambda>u.
     bindE (store_GetReferralAnalytics campaignID dateFrom dateTo) (\<lambda>referral.
     bindE (store_GetTopReferrers campaignID 10) (\<lambda>topReferrers.
     bindE (store_GetReferralSourceBreakdown campaignID dateFrom dateTo) (\<lambda>referralSources.
     retE \<lparr>rr_Referral = referral, rr_TopReferrers = topReferrers, rr_ReferralSources = referralSources\<rparr>)))))"

text \<open>The range of a chart: the last 30 days unless given.\<close>

definition chart_from :: "time \<Rightarrow> time option \<Rightarrow> time" where
  "chart_from now dateFrom = (case dateFrom of None \<Rightarrow> AddDate now 0 0 (- 30) | Some f \<Rightarrow> f)"

definition chart_to :: "time \<Rightarrow> time option \<Rightarrow> time" where
  "chart_to now dateTo = (case dateTo of None \<Rightarrow> now | Some e \<Rightarrow> e)"

record SignupsOverTimeResponse =
  st_Data :: "SignupsOverTimeDataPoint list"
  st_Total :: int
  st_Period :: string

definition an_GetSignupsOverTime ::
    "uuid \<Rightarrow> uuid \<Rightarrow> time option \<Rightarrow> time option \<Rightarrow> string \<Rightarrow> (world, SignupsOverTimeResponse) go" where
  "an_GetSignupsOverTime accountID campaignID dateFrom dateTo period =
     bindE (an_campaign accountID campaignID) (\<lambda>campaign.
     bindE (getE w_now) (\<lambda>now.
     let from = chart_from now dateFrom; to = chart_to now dateTo; period = valid_period period in
     if to < from then failE (Sentinel (AN AN_ErrInvalidDateRange))
     else bindE (store_GetSignupsOverTime campaignID from to period) (\<lambda>data.
     let data = fillGaps data from to period in
     retE \<lparr>st_Data = data, st_Total = foldl (\<lambda>n d. wrap64 (n + so_Count d)) 0 data, st_Period = period\<rparr>)))"

record SignupsBySourceResponse =
  sr_Data :: "SignupsBySourceDataPoint list"
  sr_Sources :: "string list"
  sr_Total :: int
  sr_Period :: string

definition an_GetSignupsBySource ::
    "uuid \<Rightarrow> uuid \<Rightarrow> time option \<Rightarrow> time option \<Rightarrow> string \<Rightarrow> (world, SignupsBySourceResponse) go" where
  "an_GetSignupsBySource accountID campaignID dateFrom dateTo period =
     bindE (an_campaign accountID campaignID) (\<lambda>campaign.
     bindE (getE w_now) (\<lambda>now.
     let from = chart_from now dateFrom; to = chart_to now dateTo; period = valid_period period in
     if to < from then failE (Sentinel (AN AN_ErrInvalidDateRange))
     else bindE (store_GetSignupsBySource campaignID from to period) (\<lambda>data.
     let (data, sources) = fillGapsBySource data from to period in
     retE \<lparr>sr_Data = data, sr_Sources = sources,
       sr_Total = foldl (\<lambda>n d. wrap64 (n + ss_Count d)) 0 data, sr_Period = period\<rparr>)))"

record SourceAnalyticsResponse =
  sc_Sources :: "SourceBreakdownResult list"
  sc_UTMCampaigns :: "(string \<times> jval) list list"
  sc_UTMSources :: "(string \<times> jval) list list"

definition an_GetSourceAnalytics ::
    "uuid \<Rightarrow> uuid \<Rightarrow> time option \<Rightarrow> time option \<Rightarrow> (world, SourceAnalyticsResponse) go" where
  "an_GetSourceAnalytics accountID campaignID dateFrom dateTo =
     bindE (an_campaign accountID campaignID) (\<lambda>campaign.
     bindE (check_range dateFrom dateTo) (\<lambda>u.
     bindE (store_GetSignupSourceBreakdown campaignID dateFrom dateTo) (\<lambda>sources.
     bindE (store_GetUTMCampaignBreakdown campaignID dateFrom dateTo) (\<lambda>utmCampaigns.
     bindE (store_GetUTMSourceBreakdown campaignID dateFrom dateTo) (\<lambda>utmSources.
     retE \<lparr>sc_Sources = sources, sc_UTMCampaigns = utmCampaigns, sc_UTMSources = utmSources\<rparr>)))))"

definition an_GetFunnelAnalytics ::
    "uuid \<Rightarrow> uuid \<Rightarrow> time option \<Rightarrow> time option \<Rightarrow> (world, FunnelStepResult list) go" where
  "an_GetFunnelAnalytics accountID campaignID dateFrom dateTo =
     bindE (an_campaign accountID campaignID) (\<lambda>campaign.
     bindE (check_range dateFrom dateTo) (\<lambda>u.
     store_GetFunnelAnalytics campaignID dateFrom dateTo))"

end
