(* ===== verification/AnalyticsFacts.thy ===== *)
theory AnalyticsFacts
  imports Analytics Samples
begin

text \<open>
  The time series of the analytics: the loop that fills gaps ends, and its points are the
  consecutive periods of the range with the number of signups in each.
\<close>

section \<open>Periods\<close>

text \<open>Consecutive periods of a time line, the function that finds the start of the period a time
  lies in, and the one that goes from a start to the next.\<close>

locale consecutive =
  fixes start :: "int \<Rightarrow> int" and trunc advance :: "int \<Rightarrow> int"
  assumes start_less: "start k < start (k + 1)"
    and trunc_start: "\<exists>k. trunc t = start k \<and> start k \<le> t \<and> t < start (k + 1)"
    and advance_start: "advance (start k) = start (k + 1)"
begin

lemma start_mono: "k \<le> m \<Longrightarrow> start k \<le> start m"
proof (induction "nat (m - k)" arbitrary: m)
  case (Suc n)
  then have "start k \<le> start (m - 1)" by simp
  then show ?case using start_less [of "m - 1"] by simp
qed simp

lemma start_less_iff: "start k < start m \<longleftrightarrow> k < m"
proof
  assume "start k < start m"
  then show "k < m" using start_mono [of m k] by (cases "k < m") auto
next
  assume "k < m"
  then show "start k < start m" using start_less [of k] start_mono [of "k + 1" m] by simp
qed

lemma start_eq_iff [simp]: "start k = start m \<longleftrightarrow> k = m"
  using start_less_iff [of k m] start_less_iff [of m k] by (metis less_irrefl linorder_neqE)

lemma trunc_eq: "trunc t = start k \<longleftrightarrow> start k \<le> t \<and> t < start (k + 1)"
proof
  assume "start k \<le> t \<and> t < start (k + 1)"
  moreover obtain m where "trunc t = start m" "start m \<le> t" "t < start (m + 1)" using trunc_start by blast
  ultimately have "start k < start (m + 1)" "start m < start (k + 1)" by simp_all
  then show "trunc t = start k" using \<open>trunc t = start m\<close> by (simp add: start_less_iff)
next
  assume "trunc t = start k"
  then show "start k \<le> t \<and> t < start (k + 1)" using trunc_start [of t] by auto
qed

lemma trunc_of_start [simp]: "trunc (start k) = start k"
  by (simp add: trunc_eq start_less)

lemma index_mono:
  assumes "t \<le> u" "trunc t = start i" "trunc u = start j"
  shows "i \<le> j"
proof -
  have "start i < start (j + 1)" using assms by (simp add: trunc_eq)
  then show ?thesis by (simp add: start_less_iff)
qed

lemma index_between:
  assumes "t \<le> x" "x \<le> u" "trunc t = start i" "trunc u = start j"
  shows "\<exists>k\<in>{i..j}. trunc x = start k"
proof -
  obtain k where "trunc x = start k" using trunc_start by blast
  then show ?thesis using index_mono [OF assms(1,3)] index_mono [OF assms(2) _ assms(4)] by auto
qed

end

definition period_start :: "string \<Rightarrow> int \<Rightarrow> time" where
  "period_start period k =
     (if period = ''hour'' then k * ns_hour
      else if period = ''week'' then (7 * k + 4) * ns_day
      else if period = ''month'' then month_day k * ns_day
      else k * ns_day)"

lemma time_Date_day: "time_Date (time_month t) (time_Day t - k) 0 = (day_of t - k) * ns_day"
  by (simp add: time_Date_def time_Day_def)

lemma div_period: "0 < (n :: int) \<Longrightarrow> (t div n) * n \<le> t" "0 < (n :: int) \<Longrightarrow> t < (t div n + 1) * n"
proof -
  assume n: "0 < n"
  have "t = t div n * n + t mod n" by simp
  then show "(t div n) * n \<le> t" "t < (t div n + 1) * n"
    using pos_mod_bound [OF n, of t] pos_mod_sign [OF n, of t] by (simp_all only: distrib_right mult_1)
qed

lemma div_unique_period: "0 < (n :: int) \<Longrightarrow> a * n \<le> t \<and> t < b * n \<longleftrightarrow> a \<le> t div n \<and> t div n < b"
proof -
  assume n: "0 < n"
  have le: "c * n \<le> t \<longleftrightarrow> c \<le> t div n" for c
  proof
    assume "c * n \<le> t"
    then have "(c * n) div n \<le> t div n" using n by (intro zdiv_mono1)
    then show "c \<le> t div n" using n by simp
  next
    assume "c \<le> t div n"
    then have "c * n \<le> (t div n) * n" using n by (intro mult_right_mono) auto
    then show "c * n \<le> t" using div_period(1) [OF n, of t] by linarith
  qed
  show ?thesis using le [of a] le [of b] by linarith
qed

lemma truncate_week: "truncateTime t ''week'' = (7 * ((day_of t + 3) div 7 - 1) + 4) * ns_day"
proof -
  define d where "d = day_of t"
  have *: "d - ((if (d + 4) mod 7 = 0 then 7 else (d + 4) mod 7) - 1) = 7 * ((d + 3) div 7 - 1) + 4" by presburger
  show ?thesis
    unfolding d_def [symmetric] * [symmetric]
    by (simp only: truncateTime_def Let_def time_Date_day time_Weekday_def d_def refl if_True) simp
qed

lemma hours_of_days: "t div ns_hour = 24 * (t div ns_day) + (t mod ns_day) div ns_hour"
proof -
  have "t = (24 * (t div ns_day)) * ns_hour + t mod ns_day"
    using mult_div_mod_eq [of ns_day t] by (simp add: ns_day_def ns_hour_def)
  then show ?thesis by (metis div_mult_self3 ns_hour_def zero_neq_numeral)
qed

lemma truncate_hour: "truncateTime t ''hour'' = (t div ns_hour) * ns_hour"
  using time_Date_day [of t 0] hours_of_days [of t]
  by (simp add: truncateTime_def time_Date_def time_Hour_def algebra_simps day_of_def)
     (simp add: ns_day_def ns_hour_def)

lemma truncate_day: "p \<notin> {''hour'', ''week'', ''month''} \<Longrightarrow> truncateTime t p = day_of t * ns_day"
  using time_Date_day [of t 0] by (simp add: truncateTime_def)

lemma truncate_month: "truncateTime t ''month'' = month_day (time_month t) * ns_day"
  by (simp add: truncateTime_def time_Date_def)

interpretation period: consecutive "period_start p" "\<lambda>t. truncateTime t p" "\<lambda>t. advanceTime t p" for p
proof
  show "period_start p k < period_start p (k + 1)" for k
    using month_day_less [of k "k + 1"] by (simp add: period_start_def ns_hour_def ns_day_def)
  have "time_month (month_day k * ns_day) = k" for k
    using month_of_day_unique [of k "month_day k"] month_day_less [of k "k + 1"]
    by (simp add: time_month_def day_of_def ns_day_def)
  then show "advanceTime (period_start p k) p = period_start p (k + 1)" for k
    by (simp add: advanceTime_def period_start_def AddDate_days algebra_simps)
  have pos: "0 < ns_day" "0 < ns_hour" by (simp_all add: ns_day_def ns_hour_def)
  have day: "a * ns_day \<le> t \<and> t < b * ns_day \<longleftrightarrow> a \<le> day_of t \<and> day_of t < b" for a b t
    unfolding day_of_def by (rule div_unique_period [OF pos(1)])
  show "\<exists>k. truncateTime t p = period_start p k \<and> period_start p k \<le> t \<and> t < period_start p (k + 1)" for t
  proof -
    consider "p = ''hour''" | "p = ''week''" | "p = ''month''" | "p \<notin> {''hour'', ''week'', ''month''}" by blast
    then show ?thesis
    proof cases
      case 1
      then show ?thesis
        using div_period [OF pos(2), of t] by (intro exI [of _ "t div ns_hour"]) (simp add: truncate_hour period_start_def)
    next
      case 2
      have "7 * ((d + 3) div 7 - 1) + 4 \<le> d \<and> d < 7 * ((d + 3) div 7 - 1 + 1) + 4" for d :: int by presburger
      then show ?thesis
        using 2 by (intro exI [of _ "(day_of t + 3) div 7 - 1"]) (simp add: truncate_week period_start_def day del: diff_add_cancel)
    next
      case 3
      then show ?thesis
        using month_of_day [of "day_of t"]
        by (intro exI [of _ "time_month t"]) (simp add: truncate_month period_start_def day time_month_def)
    next
      case 4
      then show ?thesis
        using day [of "day_of t" t "day_of t + 1"]
        by (intro exI [of _ "day_of t"]) (simp add: truncate_day period_start_def)
    qed
  qed
qed

section \<open>The loop\<close>

lemma period_loop_starts:
  "period_loop p body (period_start p i) (period_start p j) = concat (map (\<lambda>k. body (period_start p k)) [i..j])"
proof (induction "nat (j + 1 - i)" arbitrary: i)
  case 0
  then show ?case by (subst period_loop.simps) (simp add: period.start_less_iff)
next
  case (Suc n)
  then have "i \<le> j" by simp
  then show ?case
    using Suc by (subst period_loop.simps) (simp add: period.start_less_iff period.advance_start upto_rec1 [of i])
qed

lemma period_loop_while:
  "\<exists>c. while_option (\<lambda>(current, result). \<not> stop < current)
       (\<lambda>(current, result). (advanceTime current p, result @ body current)) (current, result)
     = Some (c, result @ period_loop p body current stop)"
proof (induction p body current stop arbitrary: result rule: period_loop.induct)
  case (1 p body current stop)
  show ?case
  proof (cases "stop < current")
    case True
    then show ?thesis by (simp add: while_option_unfold period_loop.simps)
  next
    case False
    then show ?thesis
      using 1 [OF False, of "result @ body current"]
      by (subst while_option_unfold) (simp add: period_loop.simps [of p body current])
  qed
qed

text \<open>A round of the loop moves by an hour at least.\<close>

lemma period_loop_rounds:
  "int (length (period_loop p (\<lambda>c. [c]) current stop)) \<le> max 0 ((stop - current) div ns_hour + 1)"
proof (induction p "\<lambda>c :: time. [c]" current stop rule: period_loop.induct)
  case (1 p current stop)
  show ?case
  proof (cases "stop < current")
    case False
    let ?next = "advanceTime current p"
    have "(stop - ?next) div ns_hour \<le> (stop - current + (- 1) * ns_hour) div ns_hour"
      using advanceTime_gt [of current p] by (intro zdiv_mono1) (simp_all add: ns_hour_def)
    also have "\<dots> = (stop - current) div ns_hour - 1"
      by (subst div_mult_self1) (simp_all add: ns_hour_def)
    finally have "(stop - ?next) div ns_hour + 1 \<le> (stop - current) div ns_hour" by simp
    moreover have "0 \<le> (stop - current) div ns_hour" using False by (simp add: ns_hour_def pos_imp_zdiv_nonneg_iff)
    ultimately show ?thesis using 1 [OF False] False by (subst period_loop.simps) simp
  qed (simp add: period_loop.simps)
qed

text \<open>C26: every loop over periods ends, after at most one round per hour of its range and one more,
  with the concatenation of what its rounds append.\<close>

theorem period_loops_end:
  "(\<exists>c. while_option (\<lambda>(current, result). \<not> stop < current)
        (\<lambda>(current, result). (advanceTime current period, result @ body current)) (current, [])
      = Some (c, period_loop period body current stop)) \<and>
   int (length (period_loop period (\<lambda>c. [c]) current stop)) \<le> max 0 ((stop - current) div ns_hour + 1)"
  using period_loop_while [of stop period body current "[]"] period_loop_rounds [of period current stop] by simp

section \<open>Counts per period\<close>

lemma group_counts_map:
  "distinct (map fst (group_counts key xs))" "(k, n) \<in> set (group_counts key xs) \<longleftrightarrow> k \<in> key ` set xs \<and> n = counted (\<lambda>x. key x = k) xs"
  by (auto simp: group_counts_def comp_def distinct_map)

text \<open>A map filled from points with distinct keys.\<close>

lemma data_map:
  assumes "distinct (map key ds)"
  shows "foldl (\<lambda>m d. m(key d := val d)) m ds k = (case find (\<lambda>d. key d = k) ds of None \<Rightarrow> m k | Some d \<Rightarrow> val d)"
  using assms
proof (induction ds arbitrary: m)
  case (Cons d ds)
  have "find (\<lambda>e. key e = key d) ds = None" using Cons.prems by (auto simp: find_None_iff image_iff)
  then show ?case using Cons by (auto split: option.split)
qed simp

lemma foldl_wrap64: "foldl (\<lambda>n d. wrap64 (n + f d)) (wrap64 a) ds = wrap64 (a + sum_list (map f ds))"
proof (induction ds arbitrary: a)
  case (Cons d ds)
  have "wrap64 (wrap64 a + f d) = wrap64 (a + f d)" unfolding wrap64_def by (simp add: mod_simps ac_simps)
  then show ?case using Cons [of "a + f d"] by (simp add: add.assoc)
qed simp

text \<open>Every element lies in one of the periods, so the counts per period add up.\<close>

lemma counted_sum:
  assumes "\<And>x. x \<in> set xs \<Longrightarrow> key x \<in> set ks" "distinct ks"
  shows "sum_list (map (\<lambda>k. counted (\<lambda>x. key x = k) xs) ks) = int (length xs)"
  using assms(1)
proof (induction xs)
  case Nil
  then show ?case by (simp add: counted_def)
next
  case (Cons x xs)
  have "sum_list (map (\<lambda>k. counted (\<lambda>y. key y = k) (x # xs)) ks) =
      sum_list (map (\<lambda>k. (if key x = k then 1 else 0) + counted (\<lambda>y. key y = k) xs) ks)"
    by (intro arg_cong [of _ _ sum_list] map_cong) (auto simp: counted_def)
  also have "\<dots> = sum_list (map (\<lambda>k. if key x = k then 1 else 0) ks) + int (length xs)"
    using Cons by (simp add: sum_list_addf)
  also have "sum_list (map (\<lambda>k. if key x = k then 1 else (0::int)) ks) = 1"
    using Cons.prems assms(2) by (simp add: sum_list_map_eq_sum_count2 sum_list_distinct_conv_sum_set)
  finally show ?case by simp
qed

lemma Unix_start: "time_Unix (period_start p k) = time_Unix (period_start p m) \<longleftrightarrow> k = m"
proof -
  have less: "time_Unix (period_start p k) < time_Unix (period_start p m)" if "k < m" for k m
  proof -
    have "period_start p k + ns_hour \<le> period_start p (k + 1)"
      using advanceTime_gt [of "period_start p k" p] by (simp add: period.advance_start)
    also have "\<dots> \<le> period_start p m" using that by (intro period.start_mono) simp
    finally have "(period_start p k + 1 * 1000000000) div 1000000000 \<le> time_Unix (period_start p m)"
      unfolding time_Unix_def by (intro zdiv_mono1) (simp_all add: ns_hour_def)
    then show ?thesis unfolding time_Unix_def by (subst (asm) div_mult_self1) simp_all
  qed
  show ?thesis using less [of k m] less [of m k] by (cases k m rule: linorder_cases) auto
qed

definition signup_point :: "string \<Rightarrow> WaitlistUser list \<Rightarrow> int \<Rightarrow> SignupsOverTimeDataPoint" where
  "signup_point p us k = \<lparr>so_Date = period_start p k,
     so_Count = counted (\<lambda>u. period_start p k \<le> wu_CreatedAt u \<and> wu_CreatedAt u < period_start p (k + 1)) us\<rparr>"

lemma fillGaps_points:
  assumes "truncateTime from p = period_start p i" "truncateTime to p = period_start p j"
  defines "key \<equiv> \<lambda>u. truncateTime (wu_CreatedAt u) p"
  shows "fillGaps (map (\<lambda>(d, n). \<lparr>so_Date = d, so_Count = n\<rparr>) (sort_Slice (\<lambda>a b. fst a < fst b) (group_counts key us)))
    from to p = map (signup_point p us) [i..j]"
proof -
  define gs where "gs = sort_Slice (\<lambda>a b. fst a < fst b) (group_counts key us)"
  let ?data = "map (\<lambda>(d, n). \<lparr>so_Date = d, so_Count = n\<rparr>) gs"
  have point: "signup_point p us k = \<lparr>so_Date = period_start p k, so_Count = counted (\<lambda>u. key u = period_start p k) us\<rparr>" for k
    by (simp add: signup_point_def key_def period.trunc_eq)
  have gs: "distinct (map fst gs)" "(d, n) \<in> set gs \<longleftrightarrow> d \<in> key ` set us \<and> n = counted (\<lambda>u. key u = d) us" for d n
    using group_counts_map(1) [of key us] group_counts_map(2) [of _ _ key us] by (simp_all add: gs_def)
  have loop: "period_loop p (\<lambda>c. [f c]) (period_start p i) (period_start p j) = map (\<lambda>k. f (period_start p k)) [i..j]" for f :: "time \<Rightarrow> SignupsOverTimeDataPoint"
    by (simp add: period_loop_starts)
  show ?thesis
  proof (cases "?data = []")
    case True
    then have "us = []" using gs(2) by (cases us) auto
    then show ?thesis
      by (simp add: fillGaps_def generateEmptyPeriods_def assms(1,2) loop signup_point_def counted_def group_counts_def)
  next
    case False
    let ?u = "\<lambda>d. time_Unix (truncateTime (so_Date d) p)"
    have starts: "\<exists>k. d = period_start p k" if "(d, n) \<in> set gs" for d n
      using that gs(2) [of d n] period.trunc_start [of _ p] by (auto simp: key_def)
    have unix: "inj_on (\<lambda>d. time_Unix (truncateTime d p)) (fst ` set gs)"
      by (rule inj_onI) (auto dest!: starts simp: Unix_start)
    have dist: "distinct (map ?u ?data)"
      using gs(1) unix by (simp add: comp_def case_prod_beta distinct_map inj_on_def)
    have "foldl (\<lambda>m d. m(?u d := so_Count d)) (\<lambda>k. 0) ?data (time_Unix (period_start p k)) =
        counted (\<lambda>u. key u = period_start p k) us" for k
    proof (cases "find (\<lambda>d. ?u d = time_Unix (period_start p k)) ?data")
      case None
      have "key u \<noteq> period_start p k" if "u \<in> set us" for u
      proof
        assume "key u = period_start p k"
        then have "(period_start p k, counted (\<lambda>u. key u = period_start p k) us) \<in> set gs" using that gs(2) by force
        then show False using None by (force simp: find_None_iff)
      qed
      then show ?thesis
        by (subst data_map [OF dist]) (simp add: None counted_def filter_empty_conv)
    next
      case (Some d)
      then have d: "d \<in> set ?data" "?u d = time_Unix (period_start p k)" by (auto simp: find_Some_iff)
      then obtain m where "(so_Date d, so_Count d) \<in> set gs" "so_Date d = period_start p m" using starts by fastforce
      then have "so_Count d = counted (\<lambda>u. key u = period_start p k) us" using d(2) gs(2) by (simp add: Unix_start)
      then show ?thesis by (subst data_map [OF dist]) (simp add: Some)
    qed
    then show ?thesis
      using False by (simp add: gs_def [symmetric] fillGaps_def assms(1,2) loop point Let_def)
  qed
qed

lemma signup_point_sum:
  assumes "truncateTime from p = period_start p i" "truncateTime to p = period_start p j"
    "\<And>u. u \<in> set us \<Longrightarrow> from \<le> wu_CreatedAt u \<and> wu_CreatedAt u \<le> to"
  shows "sum_list (map so_Count (map (signup_point p us) [i..j])) = int (length us)"
proof -
  have "sum_list (map (\<lambda>d. counted (\<lambda>u. truncateTime (wu_CreatedAt u) p = d) us) (map (period_start p) [i..j])) = int (length us)"
  proof (rule counted_sum)
    show "truncateTime (wu_CreatedAt u) p \<in> set (map (period_start p) [i..j])" if "u \<in> set us" for u
      using period.index_between [of "from" "wu_CreatedAt u" to p i j] assms(1,2) assms(3) [OF that] by auto
    show "distinct (map (period_start p) [i..j])" by (simp add: distinct_map inj_on_def)
  qed
  then show ?thesis by (simp add: comp_def signup_point_def period.trunc_eq)
qed

text \<open>The live users of a campaign created in a range.\<close>

definition signups_in :: "uuid \<Rightarrow> time \<Rightarrow> time \<Rightarrow> world \<Rightarrow> WaitlistUser list" where
  "signups_in c f e w = filter (\<lambda>u. wu_CampaignID u = c \<and> wu_DeletedAt u = None \<and>
     f \<le> wu_CreatedAt u \<and> wu_CreatedAt u \<le> e) (t_waitlist_users w)"

text \<open>C25: the chart of signups has one point for each hour, day, week or month of its range, in
  order and without gaps, from the period of the first instant to the period of the last; a point
  counts the live users of the campaign created in its period, and the total counts all of
  them, each once. This needs a database session whose time zone is UTC.\<close>

theorem signups_over_time_exact:
  assumes "an_GetSignupsOverTime a c f t p w = (Ok res, w')"
    "\<And>x. w_date_trunc w (valid_period p) x = truncateTime x (valid_period p)"
  shows "\<exists>i j. period_start (st_Period res) i \<le> chart_from (w_now w) f \<and>
      chart_from (w_now w) f < period_start (st_Period res) (i + 1) \<and>
      period_start (st_Period res) j \<le> chart_to (w_now w) t \<and>
      chart_to (w_now w) t < period_start (st_Period res) (j + 1) \<and>
    st_Data res = map (signup_point (st_Period res) (signups_in c (chart_from (w_now w) f) (chart_to (w_now w) t) w)) [i..j] \<and>
    st_Total res = wrap64 (int (length (signups_in c (chart_from (w_now w) f) (chart_to (w_now w) t) w))) \<and>
    st_Period res = valid_period p"
proof -
  let ?from = "chart_from (w_now w) f" and ?to = "chart_to (w_now w) t" and ?p = "valid_period p"
  let ?us = "signups_in c ?from ?to w"
  let ?gs = "sort_Slice (\<lambda>a b. fst a < fst b) (group_counts (\<lambda>u. truncateTime (wu_CreatedAt u) ?p) ?us)"
  let ?data = "fillGaps (map (\<lambda>(d, n). \<lparr>so_Date = d, so_Count = n\<rparr>) ?gs) ?from ?to ?p"
  obtain cp w1 where cp: "an_campaign a c w = (Ok cp, w1)"
    and res: "res = \<lparr>st_Data = ?data, st_Total = foldl (\<lambda>n d. wrap64 (n + so_Count d)) 0 ?data, st_Period = ?p\<rparr>"
  proof -
    from assms(1) obtain cp w1 where cp: "an_campaign a c w = (Ok cp, w1)"
      and rest: "bindE (getE w_now) (\<lambda>now.
         let from = chart_from now f; to = chart_to now t; period = valid_period p in
         if to < from then failE (Sentinel (AN AN_ErrInvalidDateRange))
         else bindE (store_GetSignupsOverTime c from to period) (\<lambda>data.
         let data = fillGaps data from to period in
         retE \<lparr>st_Data = data, st_Total = foldl (\<lambda>n d. wrap64 (n + so_Count d)) 0 data, st_Period = period\<rparr>)) w1 = (Ok res, w')"
      unfolding an_GetSignupsOverTime_def bindE_Ok [of "an_campaign a c"] by blast
    have w1: "w1 = ticked w" using cp owned_campaign_Ok(2) by (simp add: an_campaign_def)
    have vv: "valid_period ?p = ?p" by (simp add: valid_period_def validPeriods_def)
    have "users_between c (Some ?from) (Some ?to) (ticked w1) = ?us"
      by (simp add: users_between_def live_users_def created_between_def signups_in_def w1 ticked_def conj_commute)
    then show thesis
      using rest by (intro that [OF cp]) (simp add: bindE_getE store_GetSignupsOverTime_def ok_simps Let_def w1 ticked_def vv assms(2) split: if_splits)
  qed
  obtain i j where i: "truncateTime ?from ?p = period_start ?p i" "period_start ?p i \<le> ?from" "?from < period_start ?p (i + 1)"
    and j: "truncateTime ?to ?p = period_start ?p j" "period_start ?p j \<le> ?to" "?to < period_start ?p (j + 1)"
    using period.trunc_start [of ?from ?p] period.trunc_start [of ?to ?p] by blast
  have data: "?data = map (signup_point ?p ?us) [i..j]" by (rule fillGaps_points [OF i(1) j(1)])
  have "foldl (\<lambda>n d. wrap64 (n + so_Count d)) 0 ?data = wrap64 (int (length ?us))"
    using foldl_wrap64 [of so_Count 0 ?data] signup_point_sum [OF i(1) j(1), of ?us] data
    by (simp add: signups_in_def int64_def)
  then show ?thesis using i j data res by (intro exI [of _ i] exI [of _ j]) simp
qed

text \<open>The sample deployment with a database session whose hours are those of UTC.\<close>

definition hour_world :: world where
  "hour_world = sample_world\<lparr>w_date_trunc := (\<lambda>period t. (t div ns_hour) * ns_hour)\<rparr>"

theorem signups_over_time_exact_witness:
  "\<exists>res w'. an_GetSignupsOverTime 1 10 (Some 1) (Some (2 * ns_hour)) ''hour'' hour_world = (Ok res, w') \<and>
     st_Total res = 2 \<and> length (st_Data res) = 3"
proof -
  let ?run = "an_GetSignupsOverTime 1 10 (Some 1) (Some (2 * ns_hour)) ''hour'' hour_world"
  have "is_Ok (fst ?run)" by code_simp
  then obtain res w' where r: "?run = (Ok res, w')" by (cases ?run) (auto elim: is_Ok.elims)
  have p: "valid_period ''hour'' = ''hour''" by code_simp
  have utc: "w_date_trunc hour_world (valid_period ''hour'') x = truncateTime x (valid_period ''hour'')" for x
    by (simp add: hour_world_def p truncate_hour)
  obtain i j where ij: "period_start ''hour'' i \<le> 1" "1 < period_start ''hour'' (i + 1)"
      "period_start ''hour'' j \<le> 2 * ns_hour" "2 * ns_hour < period_start ''hour'' (j + 1)"
      "length (st_Data res) = length [i..j]"
      "st_Total res = wrap64 (int (length (signups_in 10 1 (2 * ns_hour) hour_world)))"
    using signups_over_time_exact [OF r utc] by (auto simp: p chart_from_def chart_to_def)
  then have "i = 0" "j = 2" by (simp_all add: period_start_def ns_hour_def)
  moreover have "length (signups_in 10 1 (2 * ns_hour) hour_world) = 2" by code_simp
  ultimately show ?thesis using r ij by (simp add: int64_def)
qed

text \<open>Signups without a source and with an empty one share a key of the map: the chart by source
  keeps only one of the two counts.\<close>

lemma blank_source_overwritten:
  "fillGapsBySource [\<lparr>ss_Date = 0, ss_UTMSource = Some '''', ss_Count = 3\<rparr>, \<lparr>ss_Date = 0, ss_UTMSource = None, ss_Count = 4\<rparr>]
     1 10 ''hour'' = ([\<lparr>ss_Date = 0, ss_UTMSource = None, ss_Count = 4\<rparr>], [''''])"
  by (simp add: fillGapsBySource_def Let_def coalesce_def sort_sources_def truncate_hour ns_hour_def formatSourceKey_def
      time_Unix_def period_loop.simps advanceTime_def)

end
