(* ===== verification/CampaignSettings.thy ===== *)
theory CampaignSettings
  imports WaitlistStore
begin

text \<open>
  The settings of a campaign: the files campaign_email_settings.go, campaign_branding_settings.go,
  campaign_form_settings.go, campaign_referral_settings.go, campaign_form_fields.go,
  campaign_share_messages.go and campaign_tracking_integrations.go of the store. The queries
  that the campaign store runs are in CampaignStore. The UNIQUE, foreign key, enum and varchar
  constraints are those of migration V0021.
\<close>

definition sql_form_field_type :: "string list" where
  "sql_form_field_type = [''email'', ''text'', ''textarea'', ''select'', ''checkbox'', ''radio'', ''phone'', ''url'',
     ''date'', ''number'']"

definition sql_captcha_provider :: "string list" where
  "sql_captcha_provider = [''turnstile'', ''recaptcha'', ''hcaptcha'']"

text \<open>The constraints of a row of one of the tables: its own columns, and the key, foreign key and
  UNIQUE constraints against the other rows.\<close>

definition rows_ok :: "string \<Rightarrow> ('r \<Rightarrow> bool) \<Rightarrow> 'r list \<Rightarrow> string option" where
  "rows_ok table_name ok rows = (if list_all ok rows then None else Some table_name)"

definition new_row_ok ::
    "string \<Rightarrow> ('r \<Rightarrow> bool) \<Rightarrow> ('r \<Rightarrow> uuid) \<Rightarrow> ('r \<Rightarrow> uuid) \<Rightarrow> ('r \<Rightarrow> 'k) \<Rightarrow> world \<Rightarrow> 'r list \<Rightarrow> 'r \<Rightarrow> string option" where
  "new_row_ok table_name ok key campaign uniq w rows r =
     (if list_ex (\<lambda>x. key x = key r) rows then Some (table_name @ ''_pkey'')
      else if \<not> list_ex (\<lambda>c. cp_ID c = campaign r) (t_campaigns w) then Some (table_name @ ''_campaign_id_fkey'')
      else if list_ex (\<lambda>x. campaign x = campaign r \<and> uniq x = uniq r) rows then Some (table_name @ ''_key'')
      else if \<not> ok r then Some table_name else None)"

text \<open>\<^verbatim>\<open>if errors.Is(err, ErrNotFound) { return create }\<close> of the upserts.\<close>

definition upsert :: "(world, 'r) go \<Rightarrow> (world, 'r) go \<Rightarrow> ('r \<Rightarrow> (world, 'r) go) \<Rightarrow> (world, 'r) go" where
  "upsert get_row create update = tryE get_row (\<lambda>e. if errors_Is e ErrNotFound then create else failE e) update"

section \<open>Email settings\<close>

record CreateCampaignEmailSettingsParams =
  ces_CampaignID :: uuid
  ces_FromName :: "string option"
  ces_FromEmail :: "string option"
  ces_ReplyTo :: "string option"
  ces_VerificationRequired :: bool
  ces_SendWelcomeEmail :: bool

record UpdateCampaignEmailSettingsParams =
  ues_FromName :: "string option"
  ues_FromEmail :: "string option"
  ues_ReplyTo :: "string option"
  ues_VerificationRequired :: "bool option"
  ues_SendWelcomeEmail :: "bool option"

definition email_settings_ok :: "CampaignEmailSettings \<Rightarrow> bool" where
  "email_settings_ok s = (varchar 255 (es_FromName s) \<and> varchar 255 (es_FromEmail s) \<and> varchar 255 (es_ReplyTo s))"

definition store_CreateCampaignEmailSettings :: "CreateCampaignEmailSettingsParams \<Rightarrow> (world, CampaignEmailSettings) go" where
  "store_CreateCampaignEmailSettings p = wrapE ''failed to create campaign email settings''
     (sql_insert email_settings_tbl (new_row_ok ''campaign_email_settings'' email_settings_ok es_ID es_CampaignID (\<lambda>s. ()))
       (\<lambda>i now. \<lparr>es_ID = i, es_CampaignID = ces_CampaignID p, es_FromName = ces_FromName p, es_FromEmail = ces_FromEmail p, es_ReplyTo = ces_ReplyTo p, es_VerificationRequired = ces_VerificationRequired p, es_SendWelcomeEmail = ces_SendWelcomeEmail p,
          es_CreatedAt = now, es_UpdatedAt = now\<rparr>))"

definition store_UpdateCampaignEmailSettings :: "uuid \<Rightarrow> UpdateCampaignEmailSettingsParams \<Rightarrow> (world, CampaignEmailSettings) go" where
  "store_UpdateCampaignEmailSettings campaignID p = row_or ''failed to update campaign email settings''
     (sql_update_returning email_settings_tbl (rows_ok ''campaign_email_settings'' email_settings_ok) (\<lambda>s. es_CampaignID s = campaignID)
       (\<lambda>w s. s\<lparr>es_FromName := coalesce_opt (ues_FromName p) (es_FromName s), es_FromEmail := coalesce_opt (ues_FromEmail p) (es_FromEmail s), es_ReplyTo := coalesce_opt (ues_ReplyTo p) (es_ReplyTo s), es_VerificationRequired := coalesce (ues_VerificationRequired p) (es_VerificationRequired s), es_SendWelcomeEmail := coalesce (ues_SendWelcomeEmail p) (es_SendWelcomeEmail s), es_UpdatedAt := w_now w\<rparr>))"

definition store_DeleteCampaignEmailSettings :: "uuid \<Rightarrow> (world, unit) go" where
  "store_DeleteCampaignEmailSettings campaignID = affected_or ''failed to delete campaign email settings''
     (sql_delete email_settings_tbl (\<lambda>s. es_CampaignID s = campaignID))"

text \<open>The comparison with the existing row compares pointers: they differ unless both are nil.\<close>

definition pointers_differ :: "'a option \<Rightarrow> 'a option \<Rightarrow> bool" where
  "pointers_differ p q = (p \<noteq> None \<or> q \<noteq> None)"

definition store_UpsertCampaignEmailSettings :: "CreateCampaignEmailSettingsParams \<Rightarrow> (world, CampaignEmailSettings) go" where
  "store_UpsertCampaignEmailSettings p = upsert (store_GetCampaignEmailSettings (ces_CampaignID p))
     (store_CreateCampaignEmailSettings p)
     (\<lambda>existing. if pointers_differ (es_FromName existing) (ces_FromName p) \<or>
           pointers_differ (es_FromEmail existing) (ces_FromEmail p) \<or>
           pointers_differ (es_ReplyTo existing) (ces_ReplyTo p) \<or>
           es_VerificationRequired existing \<noteq> ces_VerificationRequired p \<or>
           es_SendWelcomeEmail existing \<noteq> ces_SendWelcomeEmail p
        then store_UpdateCampaignEmailSettings (ces_CampaignID p) \<lparr>ues_FromName = ces_FromName p, ues_FromEmail = ces_FromEmail p, ues_ReplyTo = ces_ReplyTo p, ues_VerificationRequired = Some (ces_VerificationRequired p), ues_SendWelcomeEmail = Some (ces_SendWelcomeEmail p)\<rparr>
        else retE existing)"

section \<open>Branding settings\<close>

record CreateCampaignBrandingSettingsParams =
  cbs_CampaignID :: uuid
  cbs_LogoURL :: "string option"
  cbs_PrimaryColor :: "string option"
  cbs_FontFamily :: "string option"
  cbs_CustomDomain :: "string option"

record UpdateCampaignBrandingSettingsParams =
  ubs_LogoURL :: "string option"
  ubs_PrimaryColor :: "string option"
  ubs_FontFamily :: "string option"
  ubs_CustomDomain :: "string option"

definition branding_settings_ok :: "CampaignBrandingSettings \<Rightarrow> bool" where
  "branding_settings_ok s = (varchar 500 (bs_LogoURL s) \<and> varchar 7 (bs_PrimaryColor s) \<and> varchar 100 (bs_FontFamily s) \<and> varchar 255 (bs_CustomDomain s))"

definition store_CreateCampaignBrandingSettings :: "CreateCampaignBrandingSettingsParams \<Rightarrow> (world, CampaignBrandingSettings) go" where
  "store_CreateCampaignBrandingSettings p = wrapE ''failed to create campaign branding settings''
     (sql_insert branding_settings_tbl (new_row_ok ''campaign_branding_settings'' branding_settings_ok bs_ID bs_CampaignID (\<lambda>s. ()))
       (\<lambda>i now. \<lparr>bs_ID = i, bs_CampaignID = cbs_CampaignID p, bs_LogoURL = cbs_LogoURL p, bs_PrimaryColor = cbs_PrimaryColor p, bs_FontFamily = cbs_FontFamily p, bs_CustomDomain = cbs_CustomDomain p,
          bs_CreatedAt = now, bs_UpdatedAt = now\<rparr>))"

definition store_UpdateCampaignBrandingSettings :: "uuid \<Rightarrow> UpdateCampaignBrandingSettingsParams \<Rightarrow> (world, CampaignBrandingSettings) go" where
  "store_UpdateCampaignBrandingSettings campaignID p = row_or ''failed to update campaign branding settings''
     (sql_update_returning branding_settings_tbl (rows_ok ''campaign_branding_settings'' branding_settings_ok) (\<lambda>s. bs_CampaignID s = campaignID)
       (\<lambda>w s. s\<lparr>bs_LogoURL := coalesce_opt (ubs_LogoURL p) (bs_LogoURL s), bs_PrimaryColor := coalesce_opt (ubs_PrimaryColor p) (bs_PrimaryColor s), bs_FontFamily := coalesce_opt (ubs_FontFamily p) (bs_FontFamily s), bs_CustomDomain := coalesce_opt (ubs_CustomDomain p) (bs_CustomDomain s), bs_UpdatedAt := w_now w\<rparr>))"

definition store_DeleteCampaignBrandingSettings :: "uuid \<Rightarrow> (world, unit) go" where
  "store_DeleteCampaignBrandingSettings campaignID = affected_or ''failed to delete campaign branding settings''
     (sql_delete branding_settings_tbl (\<lambda>s. bs_CampaignID s = campaignID))"

definition store_UpsertCampaignBrandingSettings :: "CreateCampaignBrandingSettingsParams \<Rightarrow> (world, CampaignBrandingSettings) go" where
  "store_UpsertCampaignBrandingSettings p = upsert (store_GetCampaignBrandingSettings (cbs_CampaignID p))
     (store_CreateCampaignBrandingSettings p)
     (\<lambda>existing. store_UpdateCampaignBrandingSettings (cbs_CampaignID p) \<lparr>ubs_LogoURL = cbs_LogoURL p, ubs_PrimaryColor = cbs_PrimaryColor p, ubs_FontFamily = cbs_FontFamily p, ubs_CustomDomain = cbs_CustomDomain p\<rparr>)"

section \<open>Form settings\<close>

record CreateCampaignFormSettingsParams =
  cfs_CampaignID :: uuid
  cfs_CaptchaEnabled :: bool
  cfs_CaptchaProvider :: "string option"
  cfs_CaptchaSiteKey :: "string option"
  cfs_DoubleOptIn :: bool
  cfs_Design :: jsonb
  cfs_SuccessTitle :: "string option"
  cfs_SuccessMessage :: "string option"

record UpdateCampaignFormSettingsParams =
  ufs_CaptchaEnabled :: "bool option"
  ufs_CaptchaProvider :: "string option"
  ufs_CaptchaSiteKey :: "string option"
  ufs_DoubleOptIn :: "bool option"
  ufs_Design :: jsonb
  ufs_SuccessTitle :: "string option"
  ufs_SuccessMessage :: "string option"

definition form_settings_ok :: "CampaignFormSettings \<Rightarrow> bool" where
  "form_settings_ok s = (enum_ok sql_captcha_provider (fs_CaptchaProvider s) \<and> varchar 255 (fs_CaptchaSiteKey s) \<and> fs_Design s \<noteq> None \<and>
      varchar 255 (fs_SuccessTitle s))"

definition store_CreateCampaignFormSettings :: "CreateCampaignFormSettingsParams \<Rightarrow> (world, CampaignFormSettings) go" where
  "store_CreateCampaignFormSettings p = wrapE ''failed to create campaign form settings''
     (sql_insert form_settings_tbl (new_row_ok ''campaign_form_settings'' form_settings_ok fs_ID fs_CampaignID (\<lambda>s. ()))
       (\<lambda>i now. \<lparr>fs_ID = i, fs_CampaignID = cfs_CampaignID p, fs_CaptchaEnabled = cfs_CaptchaEnabled p, fs_CaptchaProvider = cfs_CaptchaProvider p, fs_CaptchaSiteKey = cfs_CaptchaSiteKey p, fs_DoubleOptIn = cfs_DoubleOptIn p, fs_Design = jsonb_stored (cfs_Design p), fs_SuccessTitle = cfs_SuccessTitle p, fs_SuccessMessage = cfs_SuccessMessage p,
          fs_CreatedAt = now, fs_UpdatedAt = now\<rparr>))"

definition store_UpdateCampaignFormSettings :: "uuid \<Rightarrow> UpdateCampaignFormSettingsParams \<Rightarrow> (world, CampaignFormSettings) go" where
  "store_UpdateCampaignFormSettings campaignID p = row_or ''failed to update campaign form settings''
     (sql_update_returning form_settings_tbl (rows_ok ''campaign_form_settings'' form_settings_ok) (\<lambda>s. fs_CampaignID s = campaignID)
       (\<lambda>w s. s\<lparr>fs_CaptchaEnabled := coalesce (ufs_CaptchaEnabled p) (fs_CaptchaEnabled s), fs_CaptchaProvider := coalesce_opt (ufs_CaptchaProvider p) (fs_CaptchaProvider s), fs_CaptchaSiteKey := coalesce_opt (ufs_CaptchaSiteKey p) (fs_CaptchaSiteKey s), fs_DoubleOptIn := coalesce (ufs_DoubleOptIn p) (fs_DoubleOptIn s), fs_Design := coalesce_opt (jsonb_stored (ufs_Design p)) (fs_Design s), fs_SuccessTitle := coalesce_opt (ufs_SuccessTitle p) (fs_SuccessTitle s), fs_SuccessMessage := coalesce_opt (ufs_SuccessMessage p) (fs_SuccessMessage s), fs_UpdatedAt := w_now w\<rparr>))"

definition store_DeleteCampaignFormSettings :: "uuid \<Rightarrow> (world, unit) go" where
  "store_DeleteCampaignFormSettings campaignID = affected_or ''failed to delete campaign form settings''
     (sql_delete form_settings_tbl (\<lambda>s. fs_CampaignID s = campaignID))"

definition store_UpsertCampaignFormSettings :: "CreateCampaignFormSettingsParams \<Rightarrow> (world, CampaignFormSettings) go" where
  "store_UpsertCampaignFormSettings p = upsert (store_GetCampaignFormSettings (cfs_CampaignID p))
     (store_CreateCampaignFormSettings p)
     (\<lambda>existing. store_UpdateCampaignFormSettings (cfs_CampaignID p) \<lparr>ufs_CaptchaEnabled = Some (cfs_CaptchaEnabled p), ufs_CaptchaProvider = cfs_CaptchaProvider p, ufs_CaptchaSiteKey = cfs_CaptchaSiteKey p, ufs_DoubleOptIn = Some (cfs_DoubleOptIn p), ufs_Design = cfs_Design p, ufs_SuccessTitle = cfs_SuccessTitle p, ufs_SuccessMessage = cfs_SuccessMessage p\<rparr>)"

section \<open>Referral settings\<close>

record CreateCampaignReferralSettingsParams =
  crs_CampaignID :: uuid
  crs_Enabled :: bool
  crs_PointsPerReferral :: int
  crs_VerifiedOnly :: bool
  crs_PositionsToJump :: int
  crs_ReferrerPositionsToJump :: int
  crs_SharingChannels :: "string list"

record UpdateCampaignReferralSettingsParams =
  urs_Enabled :: "bool option"
  urs_PointsPerReferral :: "int option"
  urs_VerifiedOnly :: "bool option"
  urs_PositionsToJump :: "int option"
  urs_ReferrerPositionsToJump :: "int option"
  urs_SharingChannels :: "string list option"

definition referral_settings_ok :: "CampaignReferralSettings \<Rightarrow> bool" where
  "referral_settings_ok s = (set (rs_SharingChannels s) \<subseteq> set sql_sharing_channel)"

definition store_CreateCampaignReferralSettings :: "CreateCampaignReferralSettingsParams \<Rightarrow> (world, CampaignReferralSettings) go" where
  "store_CreateCampaignReferralSettings p = wrapE ''failed to create campaign referral settings''
     (sql_insert referral_settings_tbl (new_row_ok ''campaign_referral_settings'' referral_settings_ok rs_ID rs_CampaignID (\<lambda>s. ()))
       (\<lambda>i now. \<lparr>rs_ID = i, rs_CampaignID = crs_CampaignID p, rs_Enabled = crs_Enabled p, rs_PointsPerReferral = crs_PointsPerReferral p, rs_VerifiedOnly = crs_VerifiedOnly p, rs_PositionsToJump = crs_PositionsToJump p, rs_ReferrerPositionsToJump = crs_ReferrerPositionsToJump p, rs_SharingChannels = crs_SharingChannels p,
          rs_CreatedAt = now, rs_UpdatedAt = now\<rparr>))"

definition store_UpdateCampaignReferralSettings :: "uuid \<Rightarrow> UpdateCampaignReferralSettingsParams \<Rightarrow> (world, CampaignReferralSettings) go" where
  "store_UpdateCampaignReferralSettings campaignID p = row_or ''failed to update campaign referral settings''
     (sql_update_returning referral_settings_tbl (rows_ok ''campaign_referral_settings'' referral_settings_ok) (\<lambda>s. rs_CampaignID s = campaignID)
       (\<lambda>w s. s\<lparr>rs_Enabled := coalesce (urs_Enabled p) (rs_Enabled s), rs_PointsPerReferral := coalesce (urs_PointsPerReferral p) (rs_PointsPerReferral s), rs_VerifiedOnly := coalesce (urs_VerifiedOnly p) (rs_VerifiedOnly s), rs_PositionsToJump := coalesce (urs_PositionsToJump p) (rs_PositionsToJump s), rs_ReferrerPositionsToJump := coalesce (urs_ReferrerPositionsToJump p) (rs_ReferrerPositionsToJump s), rs_SharingChannels := coalesce (urs_SharingChannels p) (rs_SharingChannels s), rs_UpdatedAt := w_now w\<rparr>))"

definition store_DeleteCampaignReferralSettings :: "uuid \<Rightarrow> (world, unit) go" where
  "store_DeleteCampaignReferralSettings campaignID = affected_or ''failed to delete campaign referral settings''
     (sql_delete referral_settings_tbl (\<lambda>s. rs_CampaignID s = campaignID))"

definition store_UpsertCampaignReferralSettings :: "CreateCampaignReferralSettingsParams \<Rightarrow> (world, CampaignReferralSettings) go" where
  "store_UpsertCampaignReferralSettings p = upsert (store_GetCampaignReferralSettings (crs_CampaignID p))
     (store_CreateCampaignReferralSettings p)
     (\<lambda>existing. store_UpdateCampaignReferralSettings (crs_CampaignID p) \<lparr>urs_Enabled = Some (crs_Enabled p), urs_PointsPerReferral = Some (crs_PointsPerReferral p), urs_VerifiedOnly = Some (crs_VerifiedOnly p), urs_PositionsToJump = Some (crs_PositionsToJump p), urs_ReferrerPositionsToJump = Some (crs_ReferrerPositionsToJump p), urs_SharingChannels = Some (crs_SharingChannels p)\<rparr>)"

section \<open>Form fields\<close>

text \<open>The options of a form field are nil or a list: the column stays as it was when they are nil.\<close>

record CreateCampaignFormFieldParams =
  cff_CampaignID :: uuid
  cff_Name :: string
  cff_FieldType :: string
  cff_Label :: string
  cff_Placeholder :: "string option"
  cff_Required :: bool
  cff_ValidationPattern :: "string option"
  cff_Options :: "string list"
  cff_DisplayOrder :: int

record UpdateCampaignFormFieldParams =
  uff_Name :: "string option"
  uff_FieldType :: "string option"
  uff_Label :: "string option"
  uff_Placeholder :: "string option"
  uff_Required :: "bool option"
  uff_ValidationPattern :: "string option"
  uff_Options :: "string list option"
  uff_DisplayOrder :: "int option"

definition form_fields_ok :: "CampaignFormField \<Rightarrow> bool" where
  "form_fields_ok s = (varchar 100 (Some (ff_Name s)) \<and> enum_ok sql_form_field_type (Some (ff_FieldType s)) \<and> varchar 255 (Some (ff_Label s)) \<and>
      varchar 255 (ff_Placeholder s) \<and> varchar 500 (ff_ValidationPattern s))"

definition store_CreateCampaignFormField :: "CreateCampaignFormFieldParams \<Rightarrow> (world, CampaignFormField) go" where
  "store_CreateCampaignFormField p = wrapE ''failed to create campaign form field''
     (sql_insert form_fields_tbl (new_row_ok ''campaign_form_fields'' form_fields_ok ff_ID ff_CampaignID ff_Name)
       (\<lambda>i now. \<lparr>ff_ID = i, ff_CampaignID = cff_CampaignID p, ff_Name = cff_Name p, ff_FieldType = cff_FieldType p, ff_Label = cff_Label p, ff_Placeholder = cff_Placeholder p, ff_Required = cff_Required p, ff_ValidationPattern = cff_ValidationPattern p, ff_Options = cff_Options p, ff_DisplayOrder = cff_DisplayOrder p,
          ff_CreatedAt = now, ff_UpdatedAt = now\<rparr>))"

definition store_GetCampaignFormFieldByID :: "uuid \<Rightarrow> (world, CampaignFormField) go" where
  "store_GetCampaignFormFieldByID i = row_or ''failed to get campaign form field by id''
     (sql_get (\<lambda>w. filter (\<lambda>s. ff_ID s = i) (fst form_fields_tbl w)))"

definition store_UpdateCampaignFormField :: "uuid \<Rightarrow> UpdateCampaignFormFieldParams \<Rightarrow> (world, CampaignFormField) go" where
  "store_UpdateCampaignFormField i p = row_or ''failed to update campaign form field''
     (sql_update_returning form_fields_tbl (rows_ok ''campaign_form_fields'' form_fields_ok) (\<lambda>s. ff_ID s = i)
       (\<lambda>w s. s\<lparr>ff_Name := coalesce (uff_Name p) (ff_Name s), ff_FieldType := coalesce (uff_FieldType p) (ff_FieldType s), ff_Label := coalesce (uff_Label p) (ff_Label s), ff_Placeholder := coalesce_opt (uff_Placeholder p) (ff_Placeholder s), ff_Required := coalesce (uff_Required p) (ff_Required s), ff_ValidationPattern := coalesce_opt (uff_ValidationPattern p) (ff_ValidationPattern s), ff_Options := coalesce (uff_Options p) (ff_Options s), ff_DisplayOrder := coalesce (uff_DisplayOrder p) (ff_DisplayOrder s), ff_UpdatedAt := w_now w\<rparr>))"

definition store_DeleteCampaignFormField :: "uuid \<Rightarrow> (world, unit) go" where
  "store_DeleteCampaignFormField i = affected_or ''failed to delete campaign form field''
     (sql_delete form_fields_tbl (\<lambda>s. ff_ID s = i))"

definition store_DeleteCampaignFormFieldsByCampaignID :: "uuid \<Rightarrow> (world, unit) go" where
  "store_DeleteCampaignFormFieldsByCampaignID campaignID = exec_or ''failed to delete campaign form fields''
     (sql_delete form_fields_tbl (\<lambda>s. ff_CampaignID s = campaignID))"

text \<open>The inserts of one replacement run one after the other, not in a transaction.\<close>

primrec store_BulkCreateCampaignFormFields :: "CreateCampaignFormFieldParams list \<Rightarrow> (world, CampaignFormField list) go" where
  "store_BulkCreateCampaignFormFields [] = retE []"
| "store_BulkCreateCampaignFormFields (p # ps) =
     bindE (store_CreateCampaignFormField p) (\<lambda>f.
     bindE (store_BulkCreateCampaignFormFields ps) (\<lambda>fs. retE (f # fs)))"

definition store_ReplaceCampaignFormFields ::
    "uuid \<Rightarrow> CreateCampaignFormFieldParams list \<Rightarrow> (world, CampaignFormField list) go" where
  "store_ReplaceCampaignFormFields campaignID ps =
     bindE (store_DeleteCampaignFormFieldsByCampaignID campaignID) (\<lambda>u. store_BulkCreateCampaignFormFields ps)"

section \<open>Share messages\<close>

record CreateCampaignShareMessageParams =
  csm_CampaignID :: uuid
  csm_Channel :: string
  csm_Message :: string

record UpdateCampaignShareMessageParams =
  usm_Message :: "string option"

definition share_messages_ok :: "CampaignShareMessage \<Rightarrow> bool" where
  "share_messages_ok s = (enum_ok sql_sharing_channel (Some (sm_Channel s)))"

definition store_CreateCampaignShareMessage :: "CreateCampaignShareMessageParams \<Rightarrow> (world, CampaignShareMessage) go" where
  "store_CreateCampaignShareMessage p = wrapE ''failed to create campaign share message''
     (sql_insert share_messages_tbl (new_row_ok ''campaign_share_messages'' share_messages_ok sm_ID sm_CampaignID sm_Channel)
       (\<lambda>i now. \<lparr>sm_ID = i, sm_CampaignID = csm_CampaignID p, sm_Channel = csm_Channel p, sm_Message = csm_Message p,
          sm_CreatedAt = now, sm_UpdatedAt = now\<rparr>))"

definition store_GetCampaignShareMessageByID :: "uuid \<Rightarrow> (world, CampaignShareMessage) go" where
  "store_GetCampaignShareMessageByID i = row_or ''failed to get campaign share message by id''
     (sql_get (\<lambda>w. filter (\<lambda>s. sm_ID s = i) (fst share_messages_tbl w)))"

definition store_UpdateCampaignShareMessage :: "uuid \<Rightarrow> UpdateCampaignShareMessageParams \<Rightarrow> (world, CampaignShareMessage) go" where
  "store_UpdateCampaignShareMessage i p = row_or ''failed to update campaign share message''
     (sql_update_returning share_messages_tbl (rows_ok ''campaign_share_messages'' share_messages_ok) (\<lambda>s. sm_ID s = i)
       (\<lambda>w s. s\<lparr>sm_Message := coalesce (usm_Message p) (sm_Message s), sm_UpdatedAt := w_now w\<rparr>))"

definition store_DeleteCampaignShareMessage :: "uuid \<Rightarrow> (world, unit) go" where
  "store_DeleteCampaignShareMessage i = affected_or ''failed to delete campaign share message''
     (sql_delete share_messages_tbl (\<lambda>s. sm_ID s = i))"

definition store_DeleteCampaignShareMessagesByCampaignID :: "uuid \<Rightarrow> (world, unit) go" where
  "store_DeleteCampaignShareMessagesByCampaignID campaignID = exec_or ''failed to delete campaign share messages''
     (sql_delete share_messages_tbl (\<lambda>s. sm_CampaignID s = campaignID))"

definition store_GetCampaignShareMessageByChannel :: "uuid \<Rightarrow> string \<Rightarrow> (world, CampaignShareMessage) go" where
  "store_GetCampaignShareMessageByChannel campaignID v = row_or ''failed to get campaign share message by channel''
     (if v \<in> set sql_sharing_channel
      then sql_get (\<lambda>w. filter (\<lambda>s. sm_CampaignID s = campaignID \<and> sm_Channel s = v) (t_share_messages w))
      else db (failE (DbErr ''sql_sharing_channel'')))"

definition store_UpsertCampaignShareMessage :: "CreateCampaignShareMessageParams \<Rightarrow> (world, CampaignShareMessage) go" where
  "store_UpsertCampaignShareMessage p = upsert (store_GetCampaignShareMessageByChannel (csm_CampaignID p) (csm_Channel p))
     (store_CreateCampaignShareMessage p)
     (\<lambda>existing. store_UpdateCampaignShareMessage (sm_ID existing) \<lparr>usm_Message = Some (csm_Message p)\<rparr>)"

primrec create_ShareMessages :: "CreateCampaignShareMessageParams list \<Rightarrow> (world, CampaignShareMessage list) go" where
  "create_ShareMessages [] = retE []"
| "create_ShareMessages (p # ps) =
     bindE (store_CreateCampaignShareMessage p) (\<lambda>x. bindE (create_ShareMessages ps) (\<lambda>xs. retE (x # xs)))"

definition store_ReplaceCampaignShareMessages :: "uuid \<Rightarrow> CreateCampaignShareMessageParams list \<Rightarrow> (world, CampaignShareMessage list) go" where
  "store_ReplaceCampaignShareMessages campaignID ps =
     bindE (store_DeleteCampaignShareMessagesByCampaignID campaignID) (\<lambda>u. create_ShareMessages ps)"

section \<open>Tracking integrations\<close>

record CreateCampaignTrackingIntegrationParams =
  cti_CampaignID :: uuid
  cti_IntegrationType :: string
  cti_Enabled :: bool
  cti_TrackingID :: string
  cti_TrackingLabel :: "string option"

record UpdateCampaignTrackingIntegrationParams =
  uti_Enabled :: "bool option"
  uti_TrackingID :: "string option"
  uti_TrackingLabel :: "string option"

definition tracking_integrations_ok :: "CampaignTrackingIntegration \<Rightarrow> bool" where
  "tracking_integrations_ok s = (enum_ok sql_tracking_type (Some (ti_IntegrationType s)) \<and> varchar 100 (Some (ti_TrackingID s)) \<and> varchar 100 (ti_TrackingLabel s))"

definition store_CreateCampaignTrackingIntegration :: "CreateCampaignTrackingIntegrationParams \<Rightarrow> (world, CampaignTrackingIntegration) go" where
  "store_CreateCampaignTrackingIntegration p = wrapE ''failed to create campaign tracking integration''
     (sql_insert tracking_integrations_tbl (new_row_ok ''campaign_tracking_integrations'' tracking_integrations_ok ti_ID ti_CampaignID ti_IntegrationType)
       (\<lambda>i now. \<lparr>ti_ID = i, ti_CampaignID = cti_CampaignID p, ti_IntegrationType = cti_IntegrationType p, ti_Enabled = cti_Enabled p, ti_TrackingID = cti_TrackingID p, ti_TrackingLabel = cti_TrackingLabel p,
          ti_CreatedAt = now, ti_UpdatedAt = now\<rparr>))"

definition store_GetCampaignTrackingIntegrationByID :: "uuid \<Rightarrow> (world, CampaignTrackingIntegration) go" where
  "store_GetCampaignTrackingIntegrationByID i = row_or ''failed to get campaign tracking integration by id''
     (sql_get (\<lambda>w. filter (\<lambda>s. ti_ID s = i) (fst tracking_integrations_tbl w)))"

definition store_UpdateCampaignTrackingIntegration :: "uuid \<Rightarrow> UpdateCampaignTrackingIntegrationParams \<Rightarrow> (world, CampaignTrackingIntegration) go" where
  "store_UpdateCampaignTrackingIntegration i p = row_or ''failed to update campaign tracking integration''
     (sql_update_returning tracking_integrations_tbl (rows_ok ''campaign_tracking_integrations'' tracking_integrations_ok) (\<lambda>s. ti_ID s = i)
       (\<lambda>w s. s\<lparr>ti_Enabled := coalesce (uti_Enabled p) (ti_Enabled s), ti_TrackingID := coalesce (uti_TrackingID p) (ti_TrackingID s), ti_TrackingLabel := coalesce_opt (uti_TrackingLabel p) (ti_TrackingLabel s), ti_UpdatedAt := w_now w\<rparr>))"

definition store_DeleteCampaignTrackingIntegration :: "uuid \<Rightarrow> (world, unit) go" where
  "store_DeleteCampaignTrackingIntegration i = affected_or ''failed to delete campaign tracking integration''
     (sql_delete tracking_integrations_tbl (\<lambda>s. ti_ID s = i))"

definition store_DeleteCampaignTrackingIntegrationsByCampaignID :: "uuid \<Rightarrow> (world, unit) go" where
  "store_DeleteCampaignTrackingIntegrationsByCampaignID campaignID = exec_or ''failed to delete campaign tracking integrations''
     (sql_delete tracking_integrations_tbl (\<lambda>s. ti_CampaignID s = campaignID))"

definition store_GetCampaignTrackingIntegrationByType :: "uuid \<Rightarrow> string \<Rightarrow> (world, CampaignTrackingIntegration) go" where
  "store_GetCampaignTrackingIntegrationByType campaignID v = row_or ''failed to get campaign tracking integration by type''
     (if v \<in> set sql_tracking_type
      then sql_get (\<lambda>w. filter (\<lambda>s. ti_CampaignID s = campaignID \<and> ti_IntegrationType s = v) (t_tracking_integrations w))
      else db (failE (DbErr ''sql_tracking_type'')))"

definition store_UpsertCampaignTrackingIntegration :: "CreateCampaignTrackingIntegrationParams \<Rightarrow> (world, CampaignTrackingIntegration) go" where
  "store_UpsertCampaignTrackingIntegration p = upsert (store_GetCampaignTrackingIntegrationByType (cti_CampaignID p) (cti_IntegrationType p))
     (store_CreateCampaignTrackingIntegration p)
     (\<lambda>existing. store_UpdateCampaignTrackingIntegration (ti_ID existing) \<lparr>uti_Enabled = Some (cti_Enabled p), uti_TrackingID = Some (cti_TrackingID p), uti_TrackingLabel = cti_TrackingLabel p\<rparr>)"

primrec create_TrackingIntegrations :: "CreateCampaignTrackingIntegrationParams list \<Rightarrow> (world, CampaignTrackingIntegration list) go" where
  "create_TrackingIntegrations [] = retE []"
| "create_TrackingIntegrations (p # ps) =
     bindE (store_CreateCampaignTrackingIntegration p) (\<lambda>x. bindE (create_TrackingIntegrations ps) (\<lambda>xs. retE (x # xs)))"

definition store_ReplaceCampaignTrackingIntegrations :: "uuid \<Rightarrow> CreateCampaignTrackingIntegrationParams list \<Rightarrow> (world, CampaignTrackingIntegration list) go" where
  "store_ReplaceCampaignTrackingIntegrations campaignID ps =
     bindE (store_DeleteCampaignTrackingIntegrationsByCampaignID campaignID) (\<lambda>u. create_TrackingIntegrations ps)"

definition store_GetEnabledCampaignTrackingIntegrations ::
    "uuid \<Rightarrow> (world, CampaignTrackingIntegration list) go" where
  "store_GetEnabledCampaignTrackingIntegrations campaignID = wrapE ''failed to get enabled campaign tracking integrations''
     (sql_query (\<lambda>w. sort_Slice (\<lambda>a b. enum_rank sql_tracking_type (ti_IntegrationType a)
          < enum_rank sql_tracking_type (ti_IntegrationType b))
        (filter (\<lambda>t. ti_CampaignID t = campaignID \<and> ti_Enabled t) (t_tracking_integrations w))))"

end
