(* ===== verification/Campaigns.thy ===== *)
theory Campaigns
  imports CampaignSettings Access
begin

text \<open>
  The campaign processor, campaign/processor/processor.go.
\<close>

section \<open>Parameters\<close>

record EmailSettingsParams =
  esp_FromName :: "string option"
  esp_FromEmail :: "string option"
  esp_ReplyTo :: "string option"
  esp_VerificationRequired :: bool
  esp_SendWelcomeEmail :: bool

record BrandingSettingsParams =
  bsp_LogoURL :: "string option"
  bsp_PrimaryColor :: "string option"
  bsp_FontFamily :: "string option"
  bsp_CustomDomain :: "string option"

record FormSettingsParams =
  fsp_CaptchaEnabled :: bool
  fsp_CaptchaProvider :: "string option"
  fsp_CaptchaSiteKey :: "string option"
  fsp_DoubleOptIn :: bool
  fsp_Design :: jsonb
  fsp_SuccessTitle :: "string option"
  fsp_SuccessMessage :: "string option"

record ReferralSettingsParams =
  rsp_Enabled :: bool
  rsp_PointsPerReferral :: int
  rsp_VerifiedOnly :: bool
  rsp_PositionsToJump :: int
  rsp_ReferrerPositionsToJump :: int
  rsp_SharingChannels :: "string list"

record FormFieldParams =
  ffp_Name :: string
  ffp_FieldType :: string
  ffp_Label :: string
  ffp_Placeholder :: "string option"
  ffp_Required :: bool
  ffp_ValidationPattern :: "string option"
  ffp_Options :: "string list"
  ffp_DisplayOrder :: int

record ShareMessageParams =
  smp_Channel :: string
  smp_Message :: string

record TrackingIntegrationParams =
  tip_IntegrationType :: string
  tip_Enabled :: bool
  tip_TrackingID :: string
  tip_TrackingLabel :: "string option"

record CampaignSettingsParams =
  set_EmailSettings :: "EmailSettingsParams option"
  set_BrandingSettings :: "BrandingSettingsParams option"
  set_FormSettings :: "FormSettingsParams option"
  set_ReferralSettings :: "ReferralSettingsParams option"
  set_FormFields :: "FormFieldParams list"
  set_ShareMessages :: "ShareMessageParams list"
  set_TrackingIntegrations :: "TrackingIntegrationParams list"

record cp_CreateCampaignParams =
  ncp_Name :: string
  ncp_Slug :: string
  ncp_Description :: "string option"
  ncp_Type :: string
  ncp_PrivacyPolicyURL :: "string option"
  ncp_TermsURL :: "string option"
  ncp_MaxSignups :: "int option"
  ncp_Settings :: CampaignSettingsParams

record cp_UpdateCampaignParams =
  mcp_Name :: "string option"
  mcp_Description :: "string option"
  mcp_LaunchDate :: "string option"
  mcp_EndDate :: "string option"
  mcp_PrivacyPolicyURL :: "string option"
  mcp_TermsURL :: "string option"
  mcp_MaxSignups :: "int option"
  mcp_Settings :: CampaignSettingsParams

section \<open>Settings\<close>

text \<open>A write of the settings whose result is dropped, done when the pointer is not nil.\<close>

definition when_set :: "'a option \<Rightarrow> ('a \<Rightarrow> (world, 'b) go) \<Rightarrow> (world, unit) go" where
  "when_set x f = (case x of None \<Rightarrow> retE () | Some v \<Rightarrow> bindE (f v) (\<lambda>r. retE ()))"

definition when_any :: "'a list \<Rightarrow> ('a list \<Rightarrow> (world, 'b) go) \<Rightarrow> (world, unit) go" where
  "when_any xs f = (if xs = [] then retE () else bindE (f xs) (\<lambda>r. retE ()))"

definition require_feature :: "uuid \<Rightarrow> string \<Rightarrow> cp_error \<Rightarrow> (world, unit) go" where
  "require_feature accountID feature e =
     bindE (HasFeatureByAccountID accountID feature) (\<lambda>hasFeature.
     if hasFeature then retE () else failE (Sentinel (CP e)))"

definition email_settings_params :: "uuid \<Rightarrow> EmailSettingsParams \<Rightarrow> CreateCampaignEmailSettingsParams" where
  "email_settings_params c s = \<lparr>ces_CampaignID = c, ces_FromName = esp_FromName s, ces_FromEmail = esp_FromEmail s,
     ces_ReplyTo = esp_ReplyTo s, ces_VerificationRequired = esp_VerificationRequired s,
     ces_SendWelcomeEmail = esp_SendWelcomeEmail s\<rparr>"

definition branding_settings_params :: "uuid \<Rightarrow> BrandingSettingsParams \<Rightarrow> CreateCampaignBrandingSettingsParams" where
  "branding_settings_params c s = \<lparr>cbs_CampaignID = c, cbs_LogoURL = bsp_LogoURL s, cbs_PrimaryColor = bsp_PrimaryColor s,
     cbs_FontFamily = bsp_FontFamily s, cbs_CustomDomain = bsp_CustomDomain s\<rparr>"

definition form_settings_params :: "uuid \<Rightarrow> FormSettingsParams \<Rightarrow> CreateCampaignFormSettingsParams" where
  "form_settings_params c s = \<lparr>cfs_CampaignID = c, cfs_CaptchaEnabled = fsp_CaptchaEnabled s,
     cfs_CaptchaProvider = fsp_CaptchaProvider s, cfs_CaptchaSiteKey = fsp_CaptchaSiteKey s,
     cfs_DoubleOptIn = fsp_DoubleOptIn s,
     cfs_Design = (case fsp_Design s of None \<Rightarrow> Some [] | Some d \<Rightarrow> Some d),
     cfs_SuccessTitle = fsp_SuccessTitle s, cfs_SuccessMessage = fsp_SuccessMessage s\<rparr>"

definition referral_settings_params :: "uuid \<Rightarrow> ReferralSettingsParams \<Rightarrow> CreateCampaignReferralSettingsParams" where
  "referral_settings_params c s = \<lparr>crs_CampaignID = c, crs_Enabled = rsp_Enabled s,
     crs_PointsPerReferral = rsp_PointsPerReferral s, crs_VerifiedOnly = rsp_VerifiedOnly s,
     crs_PositionsToJump = rsp_PositionsToJump s, crs_ReferrerPositionsToJump = rsp_ReferrerPositionsToJump s,
     crs_SharingChannels = rsp_SharingChannels s\<rparr>"

definition form_field_params :: "uuid \<Rightarrow> FormFieldParams \<Rightarrow> CreateCampaignFormFieldParams" where
  "form_field_params c f = \<lparr>cff_CampaignID = c, cff_Name = ffp_Name f, cff_FieldType = ffp_FieldType f,
     cff_Label = ffp_Label f, cff_Placeholder = ffp_Placeholder f, cff_Required = ffp_Required f,
     cff_ValidationPattern = ffp_ValidationPattern f, cff_Options = ffp_Options f,
     cff_DisplayOrder = ffp_DisplayOrder f\<rparr>"

definition share_message_params :: "uuid \<Rightarrow> ShareMessageParams \<Rightarrow> CreateCampaignShareMessageParams" where
  "share_message_params c m = \<lparr>csm_CampaignID = c, csm_Channel = smp_Channel m, csm_Message = smp_Message m\<rparr>"

definition tracking_params :: "uuid \<Rightarrow> TrackingIntegrationParams \<Rightarrow> CreateCampaignTrackingIntegrationParams" where
  "tracking_params c t = \<lparr>cti_CampaignID = c, cti_IntegrationType = tip_IntegrationType t,
     cti_Enabled = tip_Enabled t, cti_TrackingID = tip_TrackingID t, cti_TrackingLabel = tip_TrackingLabel t\<rparr>"

definition upsertCampaignSettings :: "uuid \<Rightarrow> uuid \<Rightarrow> CampaignSettingsParams \<Rightarrow> (world, unit) go" where
  "upsertCampaignSettings accountID campaignID settings =
     bindE (if set_TrackingIntegrations settings \<noteq> []
            then require_feature accountID ''tracking_pixels'' CP_ErrTrackingPixelsNotAvailable else retE ()) (\<lambda>u.
     bindE (if (case set_FormSettings settings of None \<Rightarrow> False | Some f \<Rightarrow> fsp_CaptchaEnabled f)
            then require_feature accountID ''anti_spam_protection'' CP_ErrAntiSpamNotAvailable else retE ()) (\<lambda>u.
     bindE (when_set (set_EmailSettings settings)
       (\<lambda>s. store_UpsertCampaignEmailSettings (email_settings_params campaignID s))) (\<lambda>u.
     bindE (when_set (set_BrandingSettings settings)
       (\<lambda>s. store_UpsertCampaignBrandingSettings (branding_settings_params campaignID s))) (\<lambda>u.
     bindE (when_set (set_FormSettings settings)
       (\<lambda>s. store_UpsertCampaignFormSettings (form_settings_params campaignID s))) (\<lambda>u.
     bindE (when_set (set_ReferralSettings settings)
       (\<lambda>s. store_UpsertCampaignReferralSettings (referral_settings_params campaignID s))) (\<lambda>u.
     bindE (when_any (set_FormFields settings)
       (\<lambda>fs. store_ReplaceCampaignFormFields campaignID (map (form_field_params campaignID) fs))) (\<lambda>u.
     bindE (when_any (set_ShareMessages settings)
       (\<lambda>ms. store_ReplaceCampaignShareMessages campaignID (map (share_message_params campaignID) ms))) (\<lambda>u.
     when_any (set_TrackingIntegrations settings)
       (\<lambda>ts. store_ReplaceCampaignTrackingIntegrations campaignID (map (tracking_params campaignID) ts))))))))))"

section \<open>Handlers\<close>

definition isValidCampaignStatus :: "string \<Rightarrow> bool" where
  "isValidCampaignStatus st =
     (st \<in> set [CampaignStatusDraft, CampaignStatusActive, CampaignStatusPaused, CampaignStatusCompleted])"

definition isValidCampaignType :: "string \<Rightarrow> bool" where
  "isValidCampaignType t = (t \<in> set [CampaignTypeWaitlist, CampaignTypeReferral, CampaignTypeContest])"

definition check_campaign_limit :: "uuid \<Rightarrow> (world, unit) go" where
  "check_campaign_limit accountID =
     bindE (GetLimitByAccountID accountID ''campaigns'') (\<lambda>campaignLimit.
     case campaignLimit of
       None \<Rightarrow> retE ()
     | Some limit \<Rightarrow> bindE (store_CountCampaignsByAccountID accountID) (\<lambda>currentCount.
         if limit \<le> currentCount then failE (Sentinel (CP CP_ErrCampaignLimitReached)) else retE ()))"

definition check_slug :: "uuid \<Rightarrow> string \<Rightarrow> (world, unit) go" where
  "check_slug accountID slug = tryE (store_GetCampaignBySlug accountID slug)
     (\<lambda>e. if errors_Is e ErrNotFound then retE () else failE e)
     (\<lambda>existing. if cp_ID existing \<noteq> uuid_Nil then failE (Sentinel (CP CP_ErrSlugAlreadyExists)) else retE ())"

definition cp_CreateCampaign :: "uuid \<Rightarrow> cp_CreateCampaignParams \<Rightarrow> (world, Campaign) go" where
  "cp_CreateCampaign accountID params =
     (if \<not> isValidCampaignType (ncp_Type params) then failE (Sentinel (CP CP_ErrInvalidCampaignType))
      else bindE (check_campaign_limit accountID) (\<lambda>u.
      bindE (check_slug accountID (ncp_Slug params)) (\<lambda>u.
      bindE (store_CreateCampaign \<lparr>ccp_AccountID = accountID, ccp_Name = ncp_Name params, ccp_Slug = ncp_Slug params,
         ccp_Description = ncp_Description params, ccp_Type = ncp_Type params,
         ccp_PrivacyPolicyURL = ncp_PrivacyPolicyURL params, ccp_TermsURL = ncp_TermsURL params,
         ccp_MaxSignups = ncp_MaxSignups params\<rparr>) (\<lambda>campaign.
      bindE (upsertCampaignSettings accountID (cp_ID campaign) (ncp_Settings params)) (\<lambda>u.
      store_GetCampaignWithSettings (cp_ID campaign))))))"

definition cp_GetPublicCampaign :: "uuid \<Rightarrow> (world, Campaign) go" where
  "cp_GetPublicCampaign campaignID =
     not_found_as (CP CP_ErrCampaignNotFound) (store_GetCampaignWithSettings campaignID)"

definition cp_GetCampaign :: "uuid \<Rightarrow> uuid \<Rightarrow> (world, Campaign) go" where
  "cp_GetCampaign accountID campaignID =
     bindE (not_found_as (CP CP_ErrCampaignNotFound) (store_GetCampaignWithSettings campaignID)) (\<lambda>campaign.
     if cp_AccountID campaign \<noteq> accountID then failE (Sentinel (CP CP_ErrUnauthorized)) else retE campaign)"

definition cp_ListCampaigns ::
    "uuid \<Rightarrow> string option \<Rightarrow> string option \<Rightarrow> int \<Rightarrow> int \<Rightarrow> (world, ListCampaignsResult) go" where
  "cp_ListCampaigns accountID st campaignType page limit =
     (if (case st of None \<Rightarrow> False | Some s \<Rightarrow> \<not> isValidCampaignStatus s)
      then failE (Sentinel (CP CP_ErrInvalidCampaignStatus))
      else if (case campaignType of None \<Rightarrow> False | Some t \<Rightarrow> \<not> isValidCampaignType t)
      then failE (Sentinel (CP CP_ErrInvalidCampaignType))
      else store_ListCampaigns \<lparr>lcp_AccountID = accountID, lcp_Status = st, lcp_Type = campaignType,
        lcp_Page = (if page < 1 then 1 else page), lcp_Limit = (if limit < 1 \<or> 100 < limit then 20 else limit)\<rparr>)"

definition cp_UpdateCampaign :: "uuid \<Rightarrow> uuid \<Rightarrow> cp_UpdateCampaignParams \<Rightarrow> (world, Campaign) go" where
  "cp_UpdateCampaign accountID campaignID params =
     bindE (not_found_as (CP CP_ErrCampaignNotFound) (store_UpdateCampaign accountID campaignID
       \<lparr>ucp_Name = mcp_Name params, ucp_Description = mcp_Description params, ucp_Status = None,
        ucp_LaunchDate = None, ucp_EndDate = None, ucp_PrivacyPolicyURL = mcp_PrivacyPolicyURL params,
        ucp_TermsURL = mcp_TermsURL params, ucp_MaxSignups = mcp_MaxSignups params\<rparr>)) (\<lambda>c.
     bindE (upsertCampaignSettings accountID campaignID (mcp_Settings params)) (\<lambda>u.
     store_GetCampaignWithSettings campaignID))"

definition cp_UpdateCampaignStatus :: "uuid \<Rightarrow> uuid \<Rightarrow> string \<Rightarrow> (world, Campaign) go" where
  "cp_UpdateCampaignStatus accountID campaignID st =
     (if \<not> isValidCampaignStatus st then failE (Sentinel (CP CP_ErrInvalidCampaignStatus))
      else bindE (not_found_as (CP CP_ErrCampaignNotFound) (store_UpdateCampaignStatus accountID campaignID st)) (\<lambda>c.
      store_GetCampaignWithSettings campaignID))"

definition cp_DeleteCampaign :: "uuid \<Rightarrow> uuid \<Rightarrow> (world, unit) go" where
  "cp_DeleteCampaign accountID campaignID =
     not_found_as (CP CP_ErrCampaignNotFound) (store_DeleteCampaign accountID campaignID)"

end
