(* ===== verification/CampaignFacts.thy ===== *)
theory CampaignFacts
  imports Campaigns WaitlistFacts
begin

text \<open>
  Creating a campaign: what a successful creation stores and returns, and what a creation
  refused for a missing feature leaves behind.
\<close>

section \<open>Writes of the settings\<close>

text \<open>A step that appends rows to the settings tables and changes nothing else but the counters.\<close>

definition appends ::
    "CampaignEmailSettings list \<Rightarrow> CampaignBrandingSettings list \<Rightarrow> CampaignFormSettings list \<Rightarrow>
     CampaignReferralSettings list \<Rightarrow> CampaignFormField list \<Rightarrow> CampaignShareMessage list \<Rightarrow>
     CampaignTrackingIntegration list \<Rightarrow> world \<Rightarrow> world \<Rightarrow> bool" where
  "appends es bs fs rs ffs sms tis w w' = (\<exists>n m. w' = w\<lparr>
     t_email_settings := t_email_settings w @ es, t_branding_settings := t_branding_settings w @ bs,
     t_form_settings := t_form_settings w @ fs, t_referral_settings := t_referral_settings w @ rs,
     t_form_fields := t_form_fields w @ ffs, t_share_messages := t_share_messages w @ sms,
     t_tracking_integrations := t_tracking_integrations w @ tis, w_calls := n, w_fresh := m\<rparr>)"

lemma appendsI:
  "w' = w\<lparr>t_email_settings := t_email_settings w @ es, t_branding_settings := t_branding_settings w @ bs,
     t_form_settings := t_form_settings w @ fs, t_referral_settings := t_referral_settings w @ rs,
     t_form_fields := t_form_fields w @ ffs, t_share_messages := t_share_messages w @ sms,
     t_tracking_integrations := t_tracking_integrations w @ tis, w_calls := w_calls w', w_fresh := w_fresh w'\<rparr> \<Longrightarrow>
   appends es bs fs rs ffs sms tis w w'"
  unfolding appends_def by blast

lemma appends_refl: "appends [] [] [] [] [] [] [] w w"
  unfolding appends_def by (rule exI [of _ "w_calls w"], rule exI [of _ "w_fresh w"]) simp

lemma appends_trans:
  "appends es bs fs rs ffs sms tis u v \<Longrightarrow> appends es' bs' fs' rs' ffs' sms' tis' v w \<Longrightarrow>
   appends (es @ es') (bs @ bs') (fs @ fs') (rs @ rs') (ffs @ ffs') (sms @ sms') (tis @ tis') u w"
  by (rule appendsI) (auto simp: appends_def)

lemma appends_tick: "tick w w' \<Longrightarrow> appends [] [] [] [] [] [] [] w w'"
  by (rule appendsI) (auto simp: tick_def)

text \<open>No row of the settings tables is of the campaign.\<close>

definition no_settings :: "uuid \<Rightarrow> world \<Rightarrow> bool" where
  "no_settings c w \<longleftrightarrow> c \<notin> es_CampaignID ` set (t_email_settings w) \<and> c \<notin> bs_CampaignID ` set (t_branding_settings w) \<and>
     c \<notin> fs_CampaignID ` set (t_form_settings w) \<and> c \<notin> rs_CampaignID ` set (t_referral_settings w) \<and>
     c \<notin> ff_CampaignID ` set (t_form_fields w) \<and> c \<notin> sm_CampaignID ` set (t_share_messages w) \<and>
     c \<notin> ti_CampaignID ` set (t_tracking_integrations w)"

text \<open>The parameters a row was made from.\<close>

definition email_view :: "CampaignEmailSettings \<Rightarrow> EmailSettingsParams" where
  "email_view s = \<lparr>esp_FromName = es_FromName s, esp_FromEmail = es_FromEmail s, esp_ReplyTo = es_ReplyTo s,
     esp_VerificationRequired = es_VerificationRequired s, esp_SendWelcomeEmail = es_SendWelcomeEmail s\<rparr>"

definition branding_view :: "CampaignBrandingSettings \<Rightarrow> BrandingSettingsParams" where
  "branding_view s = \<lparr>bsp_LogoURL = bs_LogoURL s, bsp_PrimaryColor = bs_PrimaryColor s,
     bsp_FontFamily = bs_FontFamily s, bsp_CustomDomain = bs_CustomDomain s\<rparr>"

definition form_view :: "CampaignFormSettings \<Rightarrow> FormSettingsParams" where
  "form_view s = \<lparr>fsp_CaptchaEnabled = fs_CaptchaEnabled s, fsp_CaptchaProvider = fs_CaptchaProvider s,
     fsp_CaptchaSiteKey = fs_CaptchaSiteKey s, fsp_DoubleOptIn = fs_DoubleOptIn s, fsp_Design = fs_Design s,
     fsp_SuccessTitle = fs_SuccessTitle s, fsp_SuccessMessage = fs_SuccessMessage s\<rparr>"

text \<open>The design as the database hands it back: never nil, its numbers as float64.\<close>

definition stored_design :: "FormSettingsParams \<Rightarrow> FormSettingsParams" where
  "stored_design s = s\<lparr>fsp_Design := jsonb_stored (case fsp_Design s of None \<Rightarrow> Some [] | Some d \<Rightarrow> Some d)\<rparr>"

definition referral_view :: "CampaignReferralSettings \<Rightarrow> ReferralSettingsParams" where
  "referral_view s = \<lparr>rsp_Enabled = rs_Enabled s, rsp_PointsPerReferral = rs_PointsPerReferral s,
     rsp_VerifiedOnly = rs_VerifiedOnly s, rsp_PositionsToJump = rs_PositionsToJump s,
     rsp_ReferrerPositionsToJump = rs_ReferrerPositionsToJump s, rsp_SharingChannels = rs_SharingChannels s\<rparr>"

definition field_view :: "CampaignFormField \<Rightarrow> FormFieldParams" where
  "field_view f = \<lparr>ffp_Name = ff_Name f, ffp_FieldType = ff_FieldType f, ffp_Label = ff_Label f,
     ffp_Placeholder = ff_Placeholder f, ffp_Required = ff_Required f, ffp_ValidationPattern = ff_ValidationPattern f,
     ffp_Options = ff_Options f, ffp_DisplayOrder = ff_DisplayOrder f\<rparr>"

definition message_view :: "CampaignShareMessage \<Rightarrow> ShareMessageParams" where
  "message_view m = \<lparr>smp_Channel = sm_Channel m, smp_Message = sm_Message m\<rparr>"

definition tracking_view :: "CampaignTrackingIntegration \<Rightarrow> TrackingIntegrationParams" where
  "tracking_view t = \<lparr>tip_IntegrationType = ti_IntegrationType t, tip_Enabled = ti_Enabled t,
     tip_TrackingID = ti_TrackingID t, tip_TrackingLabel = ti_TrackingLabel t\<rparr>"

lemma sql_delete_Ok [ok_simps]:
  "sql_delete tbl P w = (Ok n, w') \<longleftrightarrow> w_fault w (w_calls w) = None \<and>
     n = int (length (filter P (fst tbl (ticked w)))) \<and> w' = snd tbl (filter (\<lambda>r. \<not> P r)) (ticked w)"
  by (auto simp: sql_delete_def db_def ticked_def Let_def split: option.splits)

text \<open>An upsert that finds no row creates it.\<close>

lemma upsert_creates:
  assumes "upsert get_row create update w = (Ok r, w')" "\<And>x w1. get_row w \<noteq> (Ok x, w1)" "moves tick get_row"
  shows "\<exists>w1. tick w w1 \<and> create w1 = (Ok r, w')"
proof -
  obtain e w1 where "get_row w = (Err e, w1)" "create w1 = (Ok r, w')"
    using assms(1,2) by (auto simp: upsert_def tryE_Ok failE_Ok split: if_splits)
  then show ?thesis using assms(3) by (metis moves_def snd_conv)
qed

lemma email_upserted:
  assumes "store_UpsertCampaignEmailSettings (email_settings_params c s) w = (Ok r, w')" "c \<notin> es_CampaignID ` set (t_email_settings w)"
  shows "appends [r] [] [] [] [] [] [] w w' \<and> es_CampaignID r = c \<and> email_view r = s"
proof -
  have "store_GetCampaignEmailSettings c w \<noteq> (Ok x, w1)" for x w1
    using assms(2) by (auto simp: store_GetCampaignEmailSettings_def ok_simps image_iff ticked_def filter_eq_Cons_iff)
  then obtain w1 where t: "tick w w1" and c: "store_CreateCampaignEmailSettings (email_settings_params c s) w1 = (Ok r, w')"
    using upsert_creates [OF assms(1) [unfolded store_UpsertCampaignEmailSettings_def]]
    by (auto simp: email_settings_params_def intro: settings_reads)
  show ?thesis
    using c t
    by (intro conjI appendsI world.equality)
      (auto simp: store_CreateCampaignEmailSettings_def ok_simps tick_def email_view_def email_settings_params_def ticked_def)
qed

lemma branding_upserted:
  assumes "store_UpsertCampaignBrandingSettings (branding_settings_params c s) w = (Ok r, w')" "c \<notin> bs_CampaignID ` set (t_branding_settings w)"
  shows "appends [] [r] [] [] [] [] [] w w' \<and> bs_CampaignID r = c \<and> branding_view r = s"
proof -
  have "store_GetCampaignBrandingSettings c w \<noteq> (Ok x, w1)" for x w1
    using assms(2) by (auto simp: store_GetCampaignBrandingSettings_def ok_simps image_iff ticked_def filter_eq_Cons_iff)
  then obtain w1 where t: "tick w w1" and c: "store_CreateCampaignBrandingSettings (branding_settings_params c s) w1 = (Ok r, w')"
    using upsert_creates [OF assms(1) [unfolded store_UpsertCampaignBrandingSettings_def]]
    by (auto simp: branding_settings_params_def intro: settings_reads)
  show ?thesis
    using c t
    by (intro conjI appendsI world.equality)
      (auto simp: store_CreateCampaignBrandingSettings_def ok_simps tick_def branding_view_def branding_settings_params_def ticked_def)
qed

lemma form_upserted:
  assumes "store_UpsertCampaignFormSettings (form_settings_params c s) w = (Ok r, w')" "c \<notin> fs_CampaignID ` set (t_form_settings w)"
  shows "appends [] [] [r] [] [] [] [] w w' \<and> fs_CampaignID r = c \<and> form_view r = stored_design s"
proof -
  have "store_GetCampaignFormSettings c w \<noteq> (Ok x, w1)" for x w1
    using assms(2) by (auto simp: store_GetCampaignFormSettings_def ok_simps image_iff ticked_def filter_eq_Cons_iff)
  then obtain w1 where t: "tick w w1" and c: "store_CreateCampaignFormSettings (form_settings_params c s) w1 = (Ok r, w')"
    using upsert_creates [OF assms(1) [unfolded store_UpsertCampaignFormSettings_def]]
    by (auto simp: form_settings_params_def intro: settings_reads)
  show ?thesis
    using c t
    by (intro conjI appendsI world.equality)
      (auto simp: store_CreateCampaignFormSettings_def ok_simps tick_def form_view_def form_settings_params_def ticked_def stored_design_def)
qed

lemma referral_upserted:
  assumes "store_UpsertCampaignReferralSettings (referral_settings_params c s) w = (Ok r, w')" "c \<notin> rs_CampaignID ` set (t_referral_settings w)"
  shows "appends [] [] [] [r] [] [] [] w w' \<and> rs_CampaignID r = c \<and> referral_view r = s"
proof -
  have "store_GetCampaignReferralSettings c w \<noteq> (Ok x, w1)" for x w1
    using assms(2) by (auto simp: store_GetCampaignReferralSettings_def ok_simps image_iff ticked_def filter_eq_Cons_iff)
  then obtain w1 where t: "tick w w1" and c: "store_CreateCampaignReferralSettings (referral_settings_params c s) w1 = (Ok r, w')"
    using upsert_creates [OF assms(1) [unfolded store_UpsertCampaignReferralSettings_def]]
    by (auto simp: referral_settings_params_def intro: settings_reads)
  show ?thesis
    using c t
    by (intro conjI appendsI world.equality)
      (auto simp: store_CreateCampaignReferralSettings_def ok_simps tick_def referral_view_def referral_settings_params_def ticked_def)
qed

lemma fields_created:
  "store_BulkCreateCampaignFormFields (map (form_field_params c) xs) w = (Ok rs, w') \<Longrightarrow>
   appends [] [] [] [] rs [] [] w w' \<and> set rs \<subseteq> {r. ff_CampaignID r = c} \<and> map field_view rs = xs"
proof (induction xs arbitrary: w rs)
  case Nil
  then show ?case by (simp add: retE_def appends_refl)
next
  case (Cons x xs)
  then obtain r w1 rs' where h: "store_CreateCampaignFormField (form_field_params c x) w = (Ok r, w1)"
      "store_BulkCreateCampaignFormFields (map (form_field_params c) xs) w1 = (Ok rs', w')" and rs: "rs = r # rs'"
    by (auto simp: ok_simps)
  have "appends [] [] [] [] [r] [] [] w w1 \<and> ff_CampaignID r = c \<and> field_view r = x"
    using h(1)
    by (intro conjI appendsI world.equality)
      (auto simp: store_CreateCampaignFormField_def ok_simps field_view_def form_field_params_def ticked_def)
  then show ?case using Cons.IH [OF h(2)] appends_trans [of "[]" "[]" "[]" "[]" "[r]" "[]" "[]" w w1 "[]" "[]" "[]" "[]" "rs'" "[]" "[]" w'] by (auto simp: rs)
qed

lemma fields_replaced:
  assumes "store_ReplaceCampaignFormFields c (map (form_field_params c) xs) w = (Ok rs, w')" "c \<notin> ff_CampaignID ` set (t_form_fields w)"
  shows "appends [] [] [] [] rs [] [] w w' \<and> set rs \<subseteq> {r. ff_CampaignID r = c} \<and> map field_view rs = xs"
proof -
  obtain w1 where d: "store_DeleteCampaignFormFieldsByCampaignID c w = (Ok (), w1)" and c: "store_BulkCreateCampaignFormFields (map (form_field_params c) xs) w1 = (Ok rs, w')"
    using assms(1) by (auto simp: store_ReplaceCampaignFormFields_def ok_simps)
  have "filter (\<lambda>s. ff_CampaignID s \<noteq> c) (t_form_fields w) = t_form_fields w"
    using assms(2) by (auto simp: image_iff filter_id_conv)
  then have "appends [] [] [] [] [] [] [] w w1"
    using d by (intro appendsI world.equality) (auto simp: store_DeleteCampaignFormFieldsByCampaignID_def ok_simps ticked_def)
  then show ?thesis using fields_created [OF c] appends_trans [of "[]" "[]" "[]" "[]" "[]" "[]" "[]" w w1 "[]" "[]" "[]" "[]" rs "[]" "[]" w'] by simp
qed

lemma messages_created:
  "create_ShareMessages (map (share_message_params c) xs) w = (Ok rs, w') \<Longrightarrow>
   appends [] [] [] [] [] rs [] w w' \<and> set rs \<subseteq> {r. sm_CampaignID r = c} \<and> map message_view rs = xs"
proof (induction xs arbitrary: w rs)
  case Nil
  then show ?case by (simp add: retE_def appends_refl)
next
  case (Cons x xs)
  then obtain r w1 rs' where h: "store_CreateCampaignShareMessage (share_message_params c x) w = (Ok r, w1)"
      "create_ShareMessages (map (share_message_params c) xs) w1 = (Ok rs', w')" and rs: "rs = r # rs'"
    by (auto simp: ok_simps)
  have "appends [] [] [] [] [] [r] [] w w1 \<and> sm_CampaignID r = c \<and> message_view r = x"
    using h(1)
    by (intro conjI appendsI world.equality)
      (auto simp: store_CreateCampaignShareMessage_def ok_simps message_view_def share_message_params_def ticked_def)
  then show ?case using Cons.IH [OF h(2)] appends_trans [of "[]" "[]" "[]" "[]" "[]" "[r]" "[]" w w1 "[]" "[]" "[]" "[]" "[]" "rs'" "[]" w'] by (auto simp: rs)
qed

lemma messages_replaced:
  assumes "store_ReplaceCampaignShareMessages c (map (share_message_params c) xs) w = (Ok rs, w')" "c \<notin> sm_CampaignID ` set (t_share_messages w)"
  shows "appends [] [] [] [] [] rs [] w w' \<and> set rs \<subseteq> {r. sm_CampaignID r = c} \<and> map message_view rs = xs"
proof -
  obtain w1 where d: "store_DeleteCampaignShareMessagesByCampaignID c w = (Ok (), w1)" and c: "create_ShareMessages (map (share_message_params c) xs) w1 = (Ok rs, w')"
    using assms(1) by (auto simp: store_ReplaceCampaignShareMessages_def ok_simps)
  have "filter (\<lambda>s. sm_CampaignID s \<noteq> c) (t_share_messages w) = t_share_messages w"
    using assms(2) by (auto simp: image_iff filter_id_conv)
  then have "appends [] [] [] [] [] [] [] w w1"
    using d by (intro appendsI world.equality) (auto simp: store_DeleteCampaignShareMessagesByCampaignID_def ok_simps ticked_def)
  then show ?thesis using messages_created [OF c] appends_trans [of "[]" "[]" "[]" "[]" "[]" "[]" "[]" w w1 "[]" "[]" "[]" "[]" "[]" rs "[]" w'] by simp
qed

lemma trackings_created:
  "create_TrackingIntegrations (map (tracking_params c) xs) w = (Ok rs, w') \<Longrightarrow>
   appends [] [] [] [] [] [] rs w w' \<and> set rs \<subseteq> {r. ti_CampaignID r = c} \<and> map tracking_view rs = xs"
proof (induction xs arbitrary: w rs)
  case Nil
  then show ?case by (simp add: retE_def appends_refl)
next
  case (Cons x xs)
  then obtain r w1 rs' where h: "store_CreateCampaignTrackingIntegration (tracking_params c x) w = (Ok r, w1)"
      "create_TrackingIntegrations (map (tracking_params c) xs) w1 = (Ok rs', w')" and rs: "rs = r # rs'"
    by (auto simp: ok_simps)
  have "appends [] [] [] [] [] [] [r] w w1 \<and> ti_CampaignID r = c \<and> tracking_view r = x"
    using h(1)
    by (intro conjI appendsI world.equality)
      (auto simp: store_CreateCampaignTrackingIntegration_def ok_simps tracking_view_def tracking_params_def ticked_def)
  then show ?case using Cons.IH [OF h(2)] appends_trans [of "[]" "[]" "[]" "[]" "[]" "[]" "[r]" w w1 "[]" "[]" "[]" "[]" "[]" "[]" "rs'" w'] by (auto simp: rs)
qed

lemma trackings_replaced:
  assumes "store_ReplaceCampaignTrackingIntegrations c (map (tracking_params c) xs) w = (Ok rs, w')" "c \<notin> ti_CampaignID ` set (t_tracking_integrations w)"
  shows "appends [] [] [] [] [] [] rs w w' \<and> set rs \<subseteq> {r. ti_CampaignID r = c} \<and> map tracking_view rs = xs"
proof -
  obtain w1 where d: "store_DeleteCampaignTrackingIntegrationsByCampaignID c w = (Ok (), w1)" and c: "create_TrackingIntegrations (map (tracking_params c) xs) w1 = (Ok rs, w')"
    using assms(1) by (auto simp: store_ReplaceCampaignTrackingIntegrations_def ok_simps)
  have "filter (\<lambda>s. ti_CampaignID s \<noteq> c) (t_tracking_integrations w) = t_tracking_integrations w"
    using assms(2) by (auto simp: image_iff filter_id_conv)
  then have "appends [] [] [] [] [] [] [] w w1"
    using d by (intro appendsI world.equality) (auto simp: store_DeleteCampaignTrackingIntegrationsByCampaignID_def ok_simps ticked_def)
  then show ?thesis using trackings_created [OF c] appends_trans [of "[]" "[]" "[]" "[]" "[]" "[]" "[]" w w1 "[]" "[]" "[]" "[]" "[]" "[]" rs w'] by simp
qed

text \<open>All the settings of a new campaign.\<close>

definition settings_stored ::
    "uuid \<Rightarrow> CampaignSettingsParams \<Rightarrow> CampaignEmailSettings list \<Rightarrow> CampaignBrandingSettings list \<Rightarrow>
     CampaignFormSettings list \<Rightarrow> CampaignReferralSettings list \<Rightarrow> CampaignFormField list \<Rightarrow>
     CampaignShareMessage list \<Rightarrow> CampaignTrackingIntegration list \<Rightarrow> bool" where
  "settings_stored c st es bs fs rs ffs sms tis \<longleftrightarrow>
     map email_view es = (case set_EmailSettings st of None \<Rightarrow> [] | Some s \<Rightarrow> [s]) \<and>
     map branding_view bs = (case set_BrandingSettings st of None \<Rightarrow> [] | Some s \<Rightarrow> [s]) \<and>
     map form_view fs = (case set_FormSettings st of None \<Rightarrow> [] | Some s \<Rightarrow> [stored_design s]) \<and>
     map referral_view rs = (case set_ReferralSettings st of None \<Rightarrow> [] | Some s \<Rightarrow> [s]) \<and>
     map field_view ffs = set_FormFields st \<and> map message_view sms = set_ShareMessages st \<and>
     map tracking_view tis = set_TrackingIntegrations st \<and>
     set es \<subseteq> {r. es_CampaignID r = c} \<and> set bs \<subseteq> {r. bs_CampaignID r = c} \<and> set fs \<subseteq> {r. fs_CampaignID r = c} \<and>
     set rs \<subseteq> {r. rs_CampaignID r = c} \<and> set ffs \<subseteq> {r. ff_CampaignID r = c} \<and> set sms \<subseteq> {r. sm_CampaignID r = c} \<and>
     set tis \<subseteq> {r. ti_CampaignID r = c}"

lemma when_set_Ok: "when_set x f w = (Ok u, w') \<longleftrightarrow>
    (case x of None \<Rightarrow> w = w' | Some v \<Rightarrow> \<exists>r. f v w = (Ok r, w'))"
  by (auto simp: when_set_def ok_simps split: option.split)

lemma when_any_Ok: "when_any xs f w = (Ok u, w') \<longleftrightarrow> (if xs = [] then w = w' else \<exists>r. f xs w = (Ok r, w'))"
  by (auto simp: when_any_def ok_simps)

lemma when_set_stored:
  assumes "when_set x f w = (Ok u, w')" "\<And>s r. f s w = (Ok r, w') \<Longrightarrow> A [r] w w' \<and> P r \<and> view r = h s" "\<And>w. A [] w w"
  shows "\<exists>rs. A rs w w' \<and> set rs \<subseteq> Collect P \<and> map view rs = (case x of None \<Rightarrow> [] | Some s \<Rightarrow> [h s])"
proof (cases x)
  case None
  then show ?thesis using assms by (intro exI [of _ "[]"]) (simp add: when_set_Ok)
next
  case (Some s)
  then obtain r where "f s w = (Ok r, w')" using assms(1) by (auto simp: when_set_Ok)
  then show ?thesis using assms(2) Some by (intro exI [of _ "[r]"]) simp
qed

lemma when_any_stored:
  assumes "when_any xs f w = (Ok u, w')" "\<And>r. f xs w = (Ok r, w') \<Longrightarrow> A r w w' \<and> set r \<subseteq> Collect P \<and> map view r = xs"
    "\<And>w. A [] w w"
  shows "\<exists>rs. A rs w w' \<and> set rs \<subseteq> Collect P \<and> map view rs = xs"
  using assms by (cases "xs = []") (auto simp: when_any_Ok)

lemma feature_gate_tick: "(if b then require_feature a n e else retE ()) w = (Ok u, w') \<Longrightarrow> tick w w'"
proof (cases b)
  case True
  moreover have "moves tick (require_feature a n e)" unfolding require_feature_def by (intro tick_rules reads)
  moreover assume "(if b then require_feature a n e else retE ()) w = (Ok u, w')"
  ultimately show ?thesis by (metis moves_def snd_conv)
next
  case False
  moreover assume "(if b then require_feature a n e else retE ()) w = (Ok u, w')"
  ultimately show ?thesis by (simp add: retE_def tick.step_refl)
qed

lemma upsertCampaignSettings_Ok:
  assumes "upsertCampaignSettings a c st w = (Ok (), w')" "no_settings c w"
  shows "\<exists>es bs fs rs ffs sms tis. appends es bs fs rs ffs sms tis w w' \<and> settings_stored c st es bs fs rs ffs sms tis"
proof -
  obtain v1 v2 w1 w2 w3 w4 w5 w6 u1 u2 u3 u4 u5 u6 u7 where g: "tick w v1" "tick v1 v2"
    and e: "when_set (set_EmailSettings st) (\<lambda>s. store_UpsertCampaignEmailSettings (email_settings_params c s)) v2 = (Ok u1, w1)"
    and b: "when_set (set_BrandingSettings st) (\<lambda>s. store_UpsertCampaignBrandingSettings (branding_settings_params c s)) w1 = (Ok u2, w2)"
    and f: "when_set (set_FormSettings st) (\<lambda>s. store_UpsertCampaignFormSettings (form_settings_params c s)) w2 = (Ok u3, w3)"
    and r: "when_set (set_ReferralSettings st) (\<lambda>s. store_UpsertCampaignReferralSettings (referral_settings_params c s)) w3 = (Ok u4, w4)"
    and ff: "when_any (set_FormFields st) (\<lambda>fs. store_ReplaceCampaignFormFields c (map (form_field_params c) fs)) w4 = (Ok u5, w5)"
    and sm: "when_any (set_ShareMessages st) (\<lambda>ms. store_ReplaceCampaignShareMessages c (map (share_message_params c) ms)) w5 = (Ok u6, w6)"
    and ti: "when_any (set_TrackingIntegrations st) (\<lambda>ts. store_ReplaceCampaignTrackingIntegrations c (map (tracking_params c) ts)) w6 = (Ok u7, w')"
    using assms(1) unfolding upsertCampaignSettings_def bindE_Ok by (elim exE conjE) (rule that, erule feature_gate_tick, erule feature_gate_tick, assumption+)
  have g: "appends [] [] [] [] [] [] [] w v2" using g tick.step_trans by (blast intro: appends_tick)
  have "c \<notin> es_CampaignID ` set (t_email_settings v2)" using assms(2) g by (auto simp: no_settings_def appends_def)
  then obtain es where es: "appends es [] [] [] [] [] [] v2 w1" "set es \<subseteq> {r. es_CampaignID r = c}"
      "map email_view es = (case set_EmailSettings st of None \<Rightarrow> [] | Some s \<Rightarrow> [s])"
    using when_set_stored [OF e, of "\<lambda>es. appends es [] [] [] [] [] []" "\<lambda>r. es_CampaignID r = c" email_view "\<lambda>s. s"]
      email_upserted [of c _ v2 _ w1] by (auto simp: appends_refl)
  have "c \<notin> bs_CampaignID ` set (t_branding_settings w1)" using assms(2) g es(1) by (auto simp: no_settings_def appends_def)
  then obtain bs where bs: "appends [] bs [] [] [] [] [] w1 w2" "set bs \<subseteq> {r. bs_CampaignID r = c}"
      "map branding_view bs = (case set_BrandingSettings st of None \<Rightarrow> [] | Some s \<Rightarrow> [s])"
    using when_set_stored [OF b, of "\<lambda>bs. appends [] bs [] [] [] [] []" "\<lambda>r. bs_CampaignID r = c" branding_view "\<lambda>s. s"]
      branding_upserted [of c _ w1 _ w2] by (auto simp: appends_refl)
  have "c \<notin> fs_CampaignID ` set (t_form_settings w2)" using assms(2) g es(1) bs(1) by (auto simp: no_settings_def appends_def)
  then obtain fs where fs: "appends [] [] fs [] [] [] [] w2 w3" "set fs \<subseteq> {r. fs_CampaignID r = c}"
      "map form_view fs = (case set_FormSettings st of None \<Rightarrow> [] | Some s \<Rightarrow> [stored_design s])"
    using when_set_stored [OF f, of "\<lambda>fs. appends [] [] fs [] [] [] []" "\<lambda>r. fs_CampaignID r = c" form_view "\<lambda>s. stored_design s"]
      form_upserted [of c _ w2 _ w3] by (auto simp: appends_refl)
  have "c \<notin> rs_CampaignID ` set (t_referral_settings w3)" using assms(2) g es(1) bs(1) fs(1) by (auto simp: no_settings_def appends_def)
  then obtain rs where rs: "appends [] [] [] rs [] [] [] w3 w4" "set rs \<subseteq> {r. rs_CampaignID r = c}"
      "map referral_view rs = (case set_ReferralSettings st of None \<Rightarrow> [] | Some s \<Rightarrow> [s])"
    using when_set_stored [OF r, of "\<lambda>rs. appends [] [] [] rs [] [] []" "\<lambda>r. rs_CampaignID r = c" referral_view "\<lambda>s. s"]
      referral_upserted [of c _ w3 _ w4] by (auto simp: appends_refl)
  have "c \<notin> ff_CampaignID ` set (t_form_fields w4)" using assms(2) g es(1) bs(1) fs(1) rs(1) by (auto simp: no_settings_def appends_def)
  then obtain ffs where ffs: "appends [] [] [] [] ffs [] [] w4 w5" "set ffs \<subseteq> {r. ff_CampaignID r = c}"
      "map field_view ffs = set_FormFields st"
    using when_any_stored [OF ff, of "\<lambda>ffs. appends [] [] [] [] ffs [] []" "\<lambda>r. ff_CampaignID r = c" field_view]
      fields_replaced [of c _ w4 _ w5] by (auto simp: appends_refl)
  have "c \<notin> sm_CampaignID ` set (t_share_messages w5)" using assms(2) g es(1) bs(1) fs(1) rs(1) ffs(1) by (auto simp: no_settings_def appends_def)
  then obtain sms where sms: "appends [] [] [] [] [] sms [] w5 w6" "set sms \<subseteq> {r. sm_CampaignID r = c}"
      "map message_view sms = set_ShareMessages st"
    using when_any_stored [OF sm, of "\<lambda>sms. appends [] [] [] [] [] sms []" "\<lambda>r. sm_CampaignID r = c" message_view]
      messages_replaced [of c _ w5 _ w6] by (auto simp: appends_refl)
  have "c \<notin> ti_CampaignID ` set (t_tracking_integrations w6)" using assms(2) g es(1) bs(1) fs(1) rs(1) ffs(1) sms(1) by (auto simp: no_settings_def appends_def)
  then obtain tis where tis: "appends [] [] [] [] [] [] tis w6 w'" "set tis \<subseteq> {r. ti_CampaignID r = c}"
      "map tracking_view tis = set_TrackingIntegrations st"
    using when_any_stored [OF ti, of "\<lambda>tis. appends [] [] [] [] [] [] tis" "\<lambda>r. ti_CampaignID r = c" tracking_view]
      trackings_replaced [of c _ w6 _ w'] by (auto simp: appends_refl)
  have "appends es bs fs rs ffs sms tis w w'"
    using appends_trans [OF appends_trans [OF appends_trans [OF appends_trans [OF appends_trans [OF appends_trans [OF
      appends_trans [OF g es(1)] bs(1)] fs(1)] rs(1)] ffs(1)] sms(1)] tis(1)] by simp
  then show ?thesis
    using es(2,3) bs(2,3) fs(2,3) rs(2,3) ffs(2,3) sms(2,3) tis(2,3) unfolding settings_stored_def by blast
qed

section \<open>Reading a campaign with its settings\<close>

lemma optional_row_Ok:
  "optional_row msg (row_or msg' (sql_get q)) w = (Ok x, w') \<longleftrightarrow>
     w_fault w (w_calls w) = None \<and> x = (case q (ticked w) of [] \<Rightarrow> None | r # rs \<Rightarrow> Some r) \<and> w' = ticked w"
  by (auto simp: optional_row_def row_or_def sql_get_def db_def Let_def go_defs ticked_def split: option.splits list.splits)

text \<open>The settings a campaign shows are the rows of the settings tables.\<close>

definition settings_shown :: "world \<Rightarrow> Campaign \<Rightarrow> bool" where
  "settings_shown w c \<longleftrightarrow>
     cp_EmailSettings c = (case filter (\<lambda>s. es_CampaignID s = cp_ID c) (t_email_settings w) of [] \<Rightarrow> None | x # xs \<Rightarrow> Some x) \<and>
     cp_BrandingSettings c = (case filter (\<lambda>s. bs_CampaignID s = cp_ID c) (t_branding_settings w) of [] \<Rightarrow> None | x # xs \<Rightarrow> Some x) \<and>
     cp_FormSettings c = (case filter (\<lambda>s. fs_CampaignID s = cp_ID c) (t_form_settings w) of [] \<Rightarrow> None | x # xs \<Rightarrow> Some x) \<and>
     cp_ReferralSettings c = (case filter (\<lambda>s. rs_CampaignID s = cp_ID c) (t_referral_settings w) of [] \<Rightarrow> None | x # xs \<Rightarrow> Some x) \<and>
     cp_FormFields c = sort_Slice (\<lambda>a b. ff_DisplayOrder a < ff_DisplayOrder b)
       (filter (\<lambda>f. ff_CampaignID f = cp_ID c) (t_form_fields w)) \<and>
     cp_ShareMessages c = sort_Slice (\<lambda>a b. enum_rank sql_sharing_channel (sm_Channel a) < enum_rank sql_sharing_channel (sm_Channel b))
       (filter (\<lambda>m. sm_CampaignID m = cp_ID c) (t_share_messages w)) \<and>
     cp_TrackingIntegrations c = sort_Slice (\<lambda>a b. enum_rank sql_tracking_type (ti_IntegrationType a) < enum_rank sql_tracking_type (ti_IntegrationType b))
       (filter (\<lambda>t. ti_CampaignID t = cp_ID c) (t_tracking_integrations w))"

definition without_settings :: "Campaign \<Rightarrow> Campaign" where
  "without_settings c = c\<lparr>cp_EmailSettings := None, cp_BrandingSettings := None, cp_FormSettings := None,
     cp_ReferralSettings := None, cp_FormFields := [], cp_ShareMessages := [], cp_TrackingIntegrations := []\<rparr>"

lemma ticked_tables [simp]:
  "t_email_settings (ticked w) = t_email_settings w" "t_branding_settings (ticked w) = t_branding_settings w"
  "t_form_settings (ticked w) = t_form_settings w" "t_referral_settings (ticked w) = t_referral_settings w"
  "t_form_fields (ticked w) = t_form_fields w" "t_share_messages (ticked w) = t_share_messages w"
  "t_tracking_integrations (ticked w) = t_tracking_integrations w"
  by (simp_all add: ticked_def)

lemma loadCampaignSettings_Ok:
  assumes "loadCampaignSettings c0 w = (Ok c, w')" "without_settings c0 = c0"
  shows "settings_shown w c" "without_settings c = c0"
proof -
  obtain es bs fs rs ff sm ti w1 w2 w3 w4 w5 w6 where
    l: "optional_row ''failed to load email settings'' (store_GetCampaignEmailSettings (cp_ID c0)) w = (Ok es, w1)"
      "optional_row ''failed to load branding settings'' (store_GetCampaignBrandingSettings (cp_ID c0)) w1 = (Ok bs, w2)"
      "optional_row ''failed to load form settings'' (store_GetCampaignFormSettings (cp_ID c0)) w2 = (Ok fs, w3)"
      "optional_row ''failed to load referral settings'' (store_GetCampaignReferralSettings (cp_ID c0)) w3 = (Ok rs, w4)"
      "wrapE ''failed to load form fields'' (store_GetCampaignFormFields (cp_ID c0)) w4 = (Ok ff, w5)"
      "wrapE ''failed to load share messages'' (store_GetCampaignShareMessages (cp_ID c0)) w5 = (Ok sm, w6)"
      "wrapE ''failed to load tracking integrations'' (store_GetCampaignTrackingIntegrations (cp_ID c0)) w6 = (Ok ti, w')"
    and c: "c = c0\<lparr>
       cp_EmailSettings := (case es of None \<Rightarrow> cp_EmailSettings c0 | Some x \<Rightarrow> Some x),
       cp_BrandingSettings := (case bs of None \<Rightarrow> cp_BrandingSettings c0 | Some x \<Rightarrow> Some x),
       cp_FormSettings := (case fs of None \<Rightarrow> cp_FormSettings c0 | Some x \<Rightarrow> Some x),
       cp_ReferralSettings := (case rs of None \<Rightarrow> cp_ReferralSettings c0 | Some x \<Rightarrow> Some x),
       cp_FormFields := ff, cp_ShareMessages := sm, cp_TrackingIntegrations := ti\<rparr>"
    using assms(1) unfolding loadCampaignSettings_def bindE_Ok retE_Ok by blast
  have n: "cp_EmailSettings c0 = None" "cp_BrandingSettings c0 = None" "cp_FormSettings c0 = None" "cp_ReferralSettings c0 = None"
    by (subst assms(2) [symmetric], simp add: without_settings_def)+
  have o: "d = None \<Longrightarrow> (case x of None \<Rightarrow> d | Some x \<Rightarrow> Some x) = x" for d x :: "'z option" by (cases x) auto
  note [simp] = l [unfolded store_GetCampaignEmailSettings_def store_GetCampaignBrandingSettings_def
      store_GetCampaignFormSettings_def store_GetCampaignReferralSettings_def store_GetCampaignFormFields_def
      store_GetCampaignShareMessages_def store_GetCampaignTrackingIntegrations_def optional_row_Ok wrapE_Ok sql_query_Ok]
  show "settings_shown w c" by (simp add: settings_shown_def c n o)
  show "without_settings c = c0" using assms(2) by (simp add: without_settings_def c)
qed

lemma GetCampaignWithSettings_Ok:
  assumes "store_GetCampaignWithSettings i w = (Ok c, w')"
  shows "tick w w'" "settings_shown w c" "cp_ID c = i"
    "\<exists>r\<in>set (t_campaigns w). cp_ID r = i \<and> cp_DeletedAt r = None \<and> without_settings c = campaign_view w r"
proof -
  obtain c0 w0 where g: "store_GetCampaignByID i w = (Ok c0, w0)" and l0: "loadCampaignSettings c0 w0 = (Ok c, w')"
    using assms unfolding store_GetCampaignWithSettings_def bindE_Ok by blast
  note c0 = g [unfolded GetCampaignByID_Ok(7) [OF g]] and l = l0 [unfolded GetCampaignByID_Ok(7) [OF g]]
  obtain r where r: "r \<in> set (t_campaigns w)" "cp_ID r = i" "cp_DeletedAt r = None" "c0 = campaign_view (ticked w) r"
    using GetCampaignByID_Ok(6) [OF c0] by blast
  have v: "campaign_view (ticked w) r = campaign_view w r" by (simp add: campaign_view_def waitlist_count_def ticked_def)
  have "without_settings c0 = c0" by (simp add: r(4) without_settings_def campaign_view_def)
  note l' = loadCampaignSettings_Ok [OF l this]
  have "cp_ID (without_settings c) = cp_ID c" by (simp add: without_settings_def)
  then show "cp_ID c = i" using l'(2) GetCampaignByID_Ok(1) [OF c0] by simp
  show "settings_shown w c" using l'(1) by (simp add: settings_shown_def)
  show "\<exists>r\<in>set (t_campaigns w). cp_ID r = i \<and> cp_DeletedAt r = None \<and> without_settings c = campaign_view w r"
    using r l'(2) v by auto
  have "moves tick (loadCampaignSettings c0)" by (rule loadCampaignSettings_reads)
  then have "tick (ticked w) w'" using l by (metis moves_def snd_conv)
  then show "tick w w'" by (auto simp: tick_def ticked_def)
qed

section \<open>Creating a campaign\<close>

definition campaigns_of :: "uuid \<Rightarrow> world \<Rightarrow> Campaign list" where
  "campaigns_of a w = filter (\<lambda>c. cp_AccountID c = a \<and> cp_DeletedAt c = None) (t_campaigns w)"

lemma check_campaign_limit_Ok:
  assumes "check_campaign_limit a w = (Ok u, w')" "no_faults w"
  shows "\<exists>ti. account_tier a w = Some ti \<and>
      (\<forall>l. limit_of (st_Limits ti) ''campaigns'' = Some l \<longrightarrow> int (length (campaigns_of a w)) < l)" "tick w w'"
proof -
  obtain l w1 where l: "GetLimitByAccountID a ''campaigns'' w = (Ok l, w1)"
    and k: "(case l of None \<Rightarrow> retE ()
       | Some limit \<Rightarrow> bindE (store_CountCampaignsByAccountID a) (\<lambda>n.
         if limit \<le> n then failE (Sentinel (CP CP_ErrCampaignLimitReached)) else retE ())) w1 = (Ok u, w')"
    using assms(1) unfolding check_campaign_limit_def bindE_Ok by blast
  obtain ti where ti: "account_tier a w = Some ti"
    using answers_NoneD [OF limit_answers [of a "''campaigns''"] assms(2)] l by (cases "account_tier a w") auto
  then have lt: "l = limit_of (st_Limits ti) ''campaigns''" "tick w w1"
    using GetLimit_run [OF ti assms(2), of "''campaigns''"] l by auto
  have n: "length (campaigns_where (\<lambda>c. cp_AccountID c = a) (ticked w1)) = length (campaigns_of a w)"
    using lt(2) by (auto simp: campaigns_where_def campaigns_of_def tick_def ticked_def)
  have "(\<forall>l'. l = Some l' \<longrightarrow> int (length (campaigns_of a w)) < l') \<and> tick w1 w'"
    using k n by (cases l) (auto simp: ok_simps store_CountCampaignsByAccountID_def tick_ticked tick.step_refl split: if_splits)
  then show "\<exists>ti. account_tier a w = Some ti \<and>
      (\<forall>l. limit_of (st_Limits ti) ''campaigns'' = Some l \<longrightarrow> int (length (campaigns_of a w)) < l)" "tick w w'"
    using ti lt tick.step_trans by auto
qed

lemma check_slug_tick: "check_slug a s w = (r, w') \<Longrightarrow> tick w w'"
proof -
  have "moves tick (check_slug a s)" unfolding check_slug_def by (intro tick_rules reads)
  then show "check_slug a s w = (r, w') \<Longrightarrow> tick w w'" by (metis moves_def snd_conv)
qed

text \<open>The row a creation inserts, and the state right after the insertion.\<close>

definition new_campaign :: "uuid \<Rightarrow> cp_CreateCampaignParams \<Rightarrow> world \<Rightarrow> Campaign" where
  "new_campaign a p w = \<lparr>
     cp_ID = w_uuids w (w_fresh w), cp_AccountID = a, cp_Name = ncp_Name p, cp_Slug = ncp_Slug p,
     cp_Description = ncp_Description p, cp_Status = CampaignStatusDraft, cp_Type = ncp_Type p,
     cp_LaunchDate = None, cp_EndDate = None, cp_PrivacyPolicyURL = ncp_PrivacyPolicyURL p,
     cp_TermsURL = ncp_TermsURL p, cp_MaxSignups = ncp_MaxSignups p, cp_TotalSignups = 0,
     cp_TotalVerified = 0, cp_TotalReferrals = 0, cp_CreatedAt = w_now w, cp_UpdatedAt = w_now w,
     cp_DeletedAt = None, cp_EmailSettings = None, cp_BrandingSettings = None,
     cp_FormSettings = None, cp_ReferralSettings = None, cp_FormFields = [],
     cp_ShareMessages = [], cp_TrackingIntegrations = []\<rparr>"

definition campaign_stored :: "uuid \<Rightarrow> cp_CreateCampaignParams \<Rightarrow> world \<Rightarrow> world \<Rightarrow> bool" where
  "campaign_stored a p w w' \<longleftrightarrow> (\<exists>n. w' = w\<lparr>t_campaigns := t_campaigns w @ [new_campaign a p w],
     w_fresh := Suc (w_fresh w), w_calls := n\<rparr>)"

definition may_create :: "uuid \<Rightarrow> cp_CreateCampaignParams \<Rightarrow> world \<Rightarrow> bool" where
  "may_create a p w \<longleftrightarrow> isValidCampaignType (ncp_Type p) \<and>
     (\<exists>ti. account_tier a w = Some ti \<and>
       (\<forall>l. limit_of (st_Limits ti) ''campaigns'' = Some l \<longrightarrow> int (length (campaigns_of a w)) < l)) \<and>
     (\<forall>r\<in>set (t_campaigns w). cp_AccountID r = a \<longrightarrow> cp_Slug r \<noteq> ncp_Slug p)"

definition create_params :: "uuid \<Rightarrow> cp_CreateCampaignParams \<Rightarrow> CreateCampaignParams" where
  "create_params a p = \<lparr>ccp_AccountID = a, ccp_Name = ncp_Name p, ccp_Slug = ncp_Slug p,
     ccp_Description = ncp_Description p, ccp_Type = ncp_Type p,
     ccp_PrivacyPolicyURL = ncp_PrivacyPolicyURL p, ccp_TermsURL = ncp_TermsURL p,
     ccp_MaxSignups = ncp_MaxSignups p\<rparr>"

lemma campaign_inserted:
  assumes "store_CreateCampaign (create_params a p) w1 = (Ok r, w')" "tick w w1"
  shows "r = new_campaign a p w" "campaign_stored a p w w'"
    "\<forall>r\<in>set (t_campaigns w). cp_ID r \<noteq> cp_ID (new_campaign a p w) \<and> (cp_AccountID r = a \<longrightarrow> cp_Slug r \<noteq> ncp_Slug p)"
proof -
  obtain n where n: "w1 = w\<lparr>w_calls := n\<rparr>" using assms(2) by (auto simp: tick_def)
  show r: "r = new_campaign a p w"
    using assms(1) by (auto simp: store_CreateCampaign_def create_params_def ok_simps n new_campaign_def)
  show "campaign_stored a p w w'"
    using assms(1) r unfolding campaign_stored_def
    by (intro exI [of _ "w_calls w'"] world.equality) (auto simp: store_CreateCampaign_def ok_simps n ticked_def)
  show "\<forall>r\<in>set (t_campaigns w). cp_ID r \<noteq> cp_ID (new_campaign a p w) \<and> (cp_AccountID r = a \<longrightarrow> cp_Slug r \<noteq> ncp_Slug p)"
    using assms(1)
    by (auto simp: store_CreateCampaign_def create_params_def wrapE_Ok sql_insert_Ok n ticked_def campaign_constraints_def
        new_campaign_def list_ex_iff image_iff split: if_splits)
qed

lemma CreateCampaign_unfold:
  "cp_CreateCampaign a p = (if \<not> isValidCampaignType (ncp_Type p) then failE (Sentinel (CP CP_ErrInvalidCampaignType))
     else bindE (check_campaign_limit a) (\<lambda>u. bindE (check_slug a (ncp_Slug p)) (\<lambda>u.
      bindE (store_CreateCampaign (create_params a p)) (\<lambda>campaign.
      bindE (upsertCampaignSettings a (cp_ID campaign) (ncp_Settings p)) (\<lambda>u.
      store_GetCampaignWithSettings (cp_ID campaign))))))"
  by (simp add: cp_CreateCampaign_def create_params_def)

lemma CreateCampaign_steps:
  assumes "cp_CreateCampaign a p w = (Ok c, w')" "no_faults w"
  shows "may_create a p w" "\<exists>w1 w2 u. campaign_stored a p w w1 \<and>
    upsertCampaignSettings a (cp_ID (new_campaign a p w)) (ncp_Settings p) w1 = (Ok u, w2) \<and>
    store_GetCampaignWithSettings (cp_ID (new_campaign a p w)) w2 = (Ok c, w')"
    "cp_ID (new_campaign a p w) \<notin> cp_ID ` set (t_campaigns w)"
proof -
  have v: "isValidCampaignType (ncp_Type p)"
    using assms(1) by (auto simp: cp_CreateCampaign_def failE_Ok split: if_splits)
  obtain w1 w2 w3 w4 u u1 u2 r where l: "check_campaign_limit a w = (Ok u, w1)" and s: "check_slug a (ncp_Slug p) w1 = (Ok u1, w2)"
    and c: "store_CreateCampaign (create_params a p) w2 = (Ok r, w3)"
    and k: "upsertCampaignSettings a (cp_ID r) (ncp_Settings p) w3 = (Ok u2, w4)" "store_GetCampaignWithSettings (cp_ID r) w4 = (Ok c, w')"
    using assms(1) unfolding CreateCampaign_unfold eqTrueI [OF v] not_True_eq_False if_False bindE_Ok by blast
  have t1: "tick w w1" by (rule check_campaign_limit_Ok(2) [OF l assms(2)])
  have "tick w w2" using t1 check_slug_tick [OF s] tick.step_trans by blast
  note i = campaign_inserted [OF c this]
  show "may_create a p w" using v check_campaign_limit_Ok(1) [OF l assms(2)] i(3) by (auto simp: may_create_def)
  show "\<exists>w1 w2 u. campaign_stored a p w w1 \<and>
    upsertCampaignSettings a (cp_ID (new_campaign a p w)) (ncp_Settings p) w1 = (Ok u, w2) \<and>
    store_GetCampaignWithSettings (cp_ID (new_campaign a p w)) w2 = (Ok c, w')"
    using k i(1,2) by blast
  show "cp_ID (new_campaign a p w) \<notin> cp_ID ` set (t_campaigns w)" using i(3) by force
qed

lemma account_tier_cong:
  assumes "t_accounts w' = t_accounts w" "t_subscriptions w' = t_subscriptions w" "t_prices w' = t_prices w"
    "t_plan_feature_limits w' = t_plan_feature_limits w" "t_features w' = t_features w" "t_limits w' = t_limits w"
  shows "account_tier a w' = account_tier a w"
proof -
  have p: "plan_tier p w' = plan_tier p w" for p
    by (simp add: plan_tier_def live_prices_def plan_features_def assms split: list.split)
  have f: "free_tier w' = free_tier w"
    by (simp add: free_tier_def live_prices_def assms p split: list.split)
  have "user_tier u w' = user_tier u w" for u
    by (simp add: user_tier_def latest_subscription_def assms p f split: list.split option.split)
  then show ?thesis by (simp add: account_tier_def assms split: list.split)
qed

lemma stored_keeps:
  assumes "campaign_stored a p w w1"
  shows "no_settings i w1 = no_settings i w" "account_tier b w1 = account_tier b w" "no_faults w1 = no_faults w"
    "t_campaigns w1 = t_campaigns w @ [new_campaign a p w]" "t_waitlist_users w1 = t_waitlist_users w"
  using assms by (auto simp: campaign_stored_def no_settings_def no_faults_def intro!: account_tier_cong)

lemma CreateCampaign_Ok:
  assumes "cp_CreateCampaign a p w = (Ok c, w')" "no_faults w" "no_settings (w_uuids w (w_fresh w)) w"
  shows "may_create a p w" "t_campaigns w' = t_campaigns w @ [new_campaign a p w]"
    "t_waitlist_users w' = t_waitlist_users w"
    "without_settings c = campaign_view w' (new_campaign a p w)" "settings_shown w' c"
    "\<exists>es bs fs rs ffs sms tis w1. campaign_stored a p w w1 \<and> appends es bs fs rs ffs sms tis w1 w' \<and>
       settings_stored (w_uuids w (w_fresh w)) (ncp_Settings p) es bs fs rs ffs sms tis"
proof -
  have i: "cp_ID (new_campaign a p w) = w_uuids w (w_fresh w)" by (simp add: new_campaign_def)
  obtain w1 w2 u where w1: "campaign_stored a p w w1"
    and u: "upsertCampaignSettings a (w_uuids w (w_fresh w)) (ncp_Settings p) w1 = (Ok (), w2)"
    and g: "store_GetCampaignWithSettings (w_uuids w (w_fresh w)) w2 = (Ok c, w')"
    using CreateCampaign_steps(2) [OF assms(1,2)] i by auto
  have n: "no_settings (w_uuids w (w_fresh w)) w1" using assms(3) stored_keeps(1) [OF w1] by blast
  obtain es bs fs rs ffs sms tis where ap: "appends es bs fs rs ffs sms tis w1 w2"
    and st: "settings_stored (w_uuids w (w_fresh w)) (ncp_Settings p) es bs fs rs ffs sms tis"
    using upsertCampaignSettings_Ok [OF u n] by blast
  note g = GetCampaignWithSettings_Ok [OF g]
  have ap': "appends es bs fs rs ffs sms tis w1 w'"
    using appends_trans [OF ap appends_tick [OF g(1)]] by simp
  show "may_create a p w" by (rule CreateCampaign_steps(1) [OF assms(1,2)])
  show c: "t_campaigns w' = t_campaigns w @ [new_campaign a p w]" "t_waitlist_users w' = t_waitlist_users w"
    using ap' stored_keeps(4,5) [OF w1] by (auto simp: appends_def)
  have c2: "t_campaigns w2 = t_campaigns w @ [new_campaign a p w]"
    using ap stored_keeps(4) [OF w1] by (auto simp: appends_def)
  obtain r where r: "r \<in> set (t_campaigns w2)" "cp_ID r = w_uuids w (w_fresh w)" "without_settings c = campaign_view w2 r"
    using g(4) by blast
  have "r = new_campaign a p w"
    using r(1,2) CreateCampaign_steps(3) [OF assms(1,2)] i unfolding c2 by force
  moreover have "campaign_view w2 x = campaign_view w' x" for x
    using g(1) by (auto simp: tick_def campaign_view_def waitlist_count_def)
  ultimately show "without_settings c = campaign_view w' (new_campaign a p w)" using r(3) by simp
  show "settings_shown w' c" using g(1,2) by (auto simp: tick_def settings_shown_def)
  show "\<exists>es bs fs rs ffs sms tis w1. campaign_stored a p w w1 \<and> appends es bs fs rs ffs sms tis w1 w' \<and>
       settings_stored (w_uuids w (w_fresh w)) (ncp_Settings p) es bs fs rs ffs sms tis"
    using w1 ap' st by blast
qed

section \<open>Properties\<close>

text \<open>C27: A campaign is created only when its type is valid, the account is below the campaign
  limit of its tier and no campaign of the account, deleted ones included, has the slug; then
  one row is appended, a draft with a fresh id and the given columns, no other campaign and no
  user changes, and the campaign returned is that row with the rows of its settings.\<close>

theorem CreateCampaign_success:
  assumes "cp_CreateCampaign a p w = (Ok c, w')" "no_faults w" "no_settings (w_uuids w (w_fresh w)) w"
  shows "may_create a p w \<and> t_campaigns w' = t_campaigns w @ [new_campaign a p w] \<and>
    t_waitlist_users w' = t_waitlist_users w \<and>
    without_settings c = campaign_view w' (new_campaign a p w) \<and> settings_shown w' c"
  using CreateCampaign_Ok [OF assms] by blast

definition sample_settings :: CampaignSettingsParams where
  "sample_settings = \<lparr>
     set_EmailSettings = Some \<lparr>esp_FromName = Some ''acme'', esp_FromEmail = None, esp_ReplyTo = None,
       esp_VerificationRequired = True, esp_SendWelcomeEmail = False\<rparr>,
     set_BrandingSettings = None,
     set_FormSettings = Some \<lparr>fsp_CaptchaEnabled = False, fsp_CaptchaProvider = None, fsp_CaptchaSiteKey = None,
       fsp_DoubleOptIn = True, fsp_Design = None, fsp_SuccessTitle = Some ''thanks'', fsp_SuccessMessage = None\<rparr>,
     set_ReferralSettings = None,
     set_FormFields = [
       \<lparr>ffp_Name = ''email'', ffp_FieldType = ''email'', ffp_Label = ''Email'', ffp_Placeholder = None, ffp_Required = True,
        ffp_ValidationPattern = None, ffp_Options = [], ffp_DisplayOrder = 2\<rparr>,
       \<lparr>ffp_Name = ''name'', ffp_FieldType = ''text'', ffp_Label = ''Name'', ffp_Placeholder = None, ffp_Required = False,
        ffp_ValidationPattern = None, ffp_Options = [], ffp_DisplayOrder = 1\<rparr>],
     set_ShareMessages = [\<lparr>smp_Channel = ''twitter'', smp_Message = ''join''\<rparr>],
     set_TrackingIntegrations = []\<rparr>"

definition sample_params :: cp_CreateCampaignParams where
  "sample_params = \<lparr>ncp_Name = ''beta'', ncp_Slug = ''beta'', ncp_Description = None, ncp_Type = ''waitlist'',
     ncp_PrivacyPolicyURL = None, ncp_TermsURL = None, ncp_MaxSignups = None, ncp_Settings = sample_settings\<rparr>"

definition no_campaigns :: world where
  "no_campaigns = sample_world\<lparr>t_campaigns := [], t_waitlist_users := []\<rparr>"

lemma sample_creation: obtains c w' where "cp_CreateCampaign 1 sample_params no_campaigns = (Ok c, w')"
proof -
  have "is_Ok (fst (cp_CreateCampaign 1 sample_params no_campaigns))" by code_simp
  then show ?thesis using that by (cases "cp_CreateCampaign 1 sample_params no_campaigns") (auto elim: is_Ok.elims)
qed

lemma no_campaigns_facts: "no_faults no_campaigns" "no_settings (w_uuids no_campaigns (w_fresh no_campaigns)) no_campaigns"
  by (simp_all add: no_faults_def no_settings_def no_campaigns_def sample_world_def empty_world_def)

theorem CreateCampaign_success_witness:
  "\<exists>c w'. cp_CreateCampaign 1 sample_params no_campaigns = (Ok c, w') \<and>
     t_campaigns w' = [new_campaign 1 sample_params no_campaigns]"
proof -
  obtain c w' where r: "cp_CreateCampaign 1 sample_params no_campaigns = (Ok c, w')" by (rule sample_creation)
  have "t_campaigns w' = t_campaigns no_campaigns @ [new_campaign 1 sample_params no_campaigns]"
    using CreateCampaign_success [OF r no_campaigns_facts] by blast
  then show ?thesis using r by (auto simp: no_campaigns_def)
qed

lemma filter_own: "c \<notin> f ` set xs \<Longrightarrow> set ys \<subseteq> {r. f r = c} \<Longrightarrow> filter (\<lambda>r. f r = c) (xs @ ys) = ys"
  by (induction xs) (auto simp: filter_id_conv)

lemma map_option_first: "map view xs = (case x of None \<Rightarrow> [] | Some s \<Rightarrow> [h s]) \<Longrightarrow>
    map_option view (case xs of [] \<Rightarrow> None | y # ys \<Rightarrow> Some y) = map_option h x"
  by (cases x) auto



section \<open>A creation refused for a missing feature\<close>

lemma check_campaign_limit_run:
  assumes "account_tier a w = Some ti" "no_faults w"
    "\<forall>l. limit_of (st_Limits ti) ''campaigns'' = Some l \<longrightarrow> int (length (campaigns_of a w)) < l"
  obtains w' where "check_campaign_limit a w = (Ok (), w')" "tick w w'"
proof -
  obtain w1 where l: "GetLimitByAccountID a ''campaigns'' w = (Ok (limit_of (st_Limits ti) ''campaigns''), w1)" "tick w w1"
    by (rule GetLimit_run [OF assms(1,2)])
  have n: "length (campaigns_where (\<lambda>c. cp_AccountID c = a) (ticked w1)) = length (campaigns_of a w)"
    using l(2) by (auto simp: campaigns_where_def campaigns_of_def tick_def ticked_def)
  have nf: "no_faults w1" using l(2) assms(2) by (simp add: tick_users)
  show ?thesis
  proof (cases "limit_of (st_Limits ti) ''campaigns''")
    case None
    then have "check_campaign_limit a w = (Ok (), w1)" using l(1) by (simp add: check_campaign_limit_def go_defs)
    then show ?thesis using that l(2) by blast
  next
    case (Some k)
    then have "store_CountCampaignsByAccountID a w1 = (Ok (int (length (campaigns_of a w))), ticked w1)"
      using n nf by (simp add: store_CountCampaignsByAccountID_def wrapE_Ok sql_query_Ok no_faults_def)
    then have "check_campaign_limit a w = (Ok (), ticked w1)"
      using l(1) Some assms(3) by (simp add: check_campaign_limit_def go_defs)
    then show ?thesis using that tick.step_trans [OF l(2) tick_ticked] by blast
  qed
qed

lemma check_slug_run:
  assumes "\<forall>r\<in>set (t_campaigns w). cp_AccountID r = a \<longrightarrow> cp_Slug r \<noteq> s" "no_faults w"
  shows "check_slug a s w = (Ok (), ticked w)"
proof -
  have "campaigns_where (\<lambda>c. cp_AccountID c = a \<and> cp_Slug c = s) (ticked w) = []"
    using assms(1) by (auto simp: campaigns_where_def ticked_def filter_empty_conv)
  then have "store_GetCampaignBySlug a s w = (Err ErrNotFound, ticked w)"
    by (simp add: store_GetCampaignBySlug_def row_or_def tryE_def failE_def sql_get_no_faults [OF assms(2)])
  then show ?thesis by (simp add: check_slug_def tryE_def retE_def)
qed

text \<open>The gate the integrations of the parameters hit.\<close>

lemma upsert_refused:
  assumes "account_tier a w = Some ti" "no_faults w" "\<not> has_feature (st_Features ti) ''tracking_pixels''"
    "set_TrackingIntegrations st \<noteq> []"
  shows "\<exists>w'. upsertCampaignSettings a c st w = (Err (Sentinel (CP CP_ErrTrackingPixelsNotAvailable)), w') \<and> tick w w'"
proof -
  obtain w' where f: "HasFeatureByAccountID a ''tracking_pixels'' w = (Ok False, w')" "tick w w'"
    using answersD [OF feature_answers [of a "''tracking_pixels''"] assms(2)] assms(1,3) by auto
  then have "upsertCampaignSettings a c st w = (Err (Sentinel (CP CP_ErrTrackingPixelsNotAvailable)), w')"
    using assms(4) by (simp add: upsertCampaignSettings_def require_feature_def bindE_def tryE_def failE_def)
  then show ?thesis using f(2) by blast
qed

lemma campaign_insert_run:
  assumes "may_create a p w" "no_faults w" "w_uuids w (w_fresh w) \<notin> cp_ID ` set (t_campaigns w)" "tick w w1"
  shows "\<exists>w2. store_CreateCampaign (create_params a p) w1 = (Ok (new_campaign a p w), w2)"
proof -
  obtain n where n: "w1 = w\<lparr>w_calls := n\<rparr>" using assms(4) by (auto simp: tick_def)
  have acc: "list_ex (\<lambda>b. ac_ID b = a) (t_accounts w)"
    using assms(1) by (auto simp: may_create_def account_tier_def list_ex_iff filter_eq_Cons_iff split: list.splits)
  have ty: "enum_ok sql_campaign_type (Some (ncp_Type p))"
    using assms(1) by (auto simp: may_create_def isValidCampaignType_def enum_ok_def enums)
  have "campaign_constraints (ticked w1) (t_campaigns (ticked w1)) (new_campaign a p w) = None"
    using assms(1,3) acc ty
    by (auto simp: campaign_constraints_def n ticked_def new_campaign_def may_create_def list_ex_iff)
  then have "store_CreateCampaign (create_params a p) w1 = (Ok (new_campaign a p w),
      t_campaigns_update (\<lambda>rows. rows @ [new_campaign a p w]) ((ticked w1)\<lparr>w_fresh := Suc (w_fresh w1)\<rparr>))"
    using assms(2)
    by (simp add: store_CreateCampaign_def wrapE_Ok sql_insert_Ok no_faults_def n create_params_def new_campaign_def)
  then show ?thesis by blast
qed

text \<open>A creation with tracking integrations on a tier without that feature is refused only after
  the campaign's row is stored: the error comes back, the draft stays, and every later creation with
  the same slug fails, with or without tracking integrations.\<close>

theorem rejected_campaign_stays:
  assumes "may_create a p w" "no_faults w" "account_tier a w = Some ti"
    "\<not> has_feature (st_Features ti) ''tracking_pixels''" "set_TrackingIntegrations (ncp_Settings p) \<noteq> []"
    "w_uuids w (w_fresh w) \<notin> cp_ID ` set (t_campaigns w)"
  shows "\<exists>w'. cp_CreateCampaign a p w = (Err (Sentinel (CP CP_ErrTrackingPixelsNotAvailable)), w') \<and>
    t_campaigns w' = t_campaigns w @ [new_campaign a p w] \<and>
    (\<forall>q. ncp_Slug q = ncp_Slug p \<longrightarrow> \<not> is_Ok (fst (cp_CreateCampaign a q w')))"
proof -
  have v: "isValidCampaignType (ncp_Type p)"
    and lim: "\<forall>l. limit_of (st_Limits ti) ''campaigns'' = Some l \<longrightarrow> int (length (campaigns_of a w)) < l"
    and slug: "\<forall>r\<in>set (t_campaigns w). cp_AccountID r = a \<longrightarrow> cp_Slug r \<noteq> ncp_Slug p"
    using assms(1,3) by (auto simp: may_create_def)
  obtain w1 where w1: "check_campaign_limit a w = (Ok (), w1)" "tick w w1"
    by (rule check_campaign_limit_run [OF assms(3,2) lim])
  have nf1: "no_faults w1" and c1: "t_campaigns w1 = t_campaigns w" using w1(2) assms(2) by (simp_all add: tick_users)
  have s: "check_slug a (ncp_Slug p) w1 = (Ok (), ticked w1)" by (rule check_slug_run [OF slug [folded c1] nf1])
  have t2: "tick w (ticked w1)" using tick.step_trans [OF w1(2) tick_ticked] .
  obtain w3 where i: "store_CreateCampaign (create_params a p) (ticked w1) = (Ok (new_campaign a p w), w3)"
    using campaign_insert_run [OF assms(1,2,6) t2] by blast
  note st = stored_keeps [OF campaign_inserted(2) [OF i t2]]
  have t3: "account_tier a w3 = Some ti" "no_faults w3" using st(2,3) assms(2,3) by simp_all
  obtain w4 where u: "upsertCampaignSettings a (cp_ID (new_campaign a p w)) (ncp_Settings p) w3
      = (Err (Sentinel (CP CP_ErrTrackingPixelsNotAvailable)), w4)" "tick w3 w4"
    using upsert_refused [OF t3 assms(4,5)] by blast
  have run: "cp_CreateCampaign a p w = (Err (Sentinel (CP CP_ErrTrackingPixelsNotAvailable)), w4)"
    using v w1(1) s i u(1) by (simp add: CreateCampaign_unfold bindE_def tryE_def failE_def)
  have c4: "t_campaigns w4 = t_campaigns w @ [new_campaign a p w]" and nf4: "no_faults w4"
    using u(2) st(3,4) assms(2) by (simp_all add: tick_users)
  have "\<not> is_Ok (fst (cp_CreateCampaign a q w4))" if "ncp_Slug q = ncp_Slug p" for q
  proof
    assume "is_Ok (fst (cp_CreateCampaign a q w4))"
    then obtain c w5 where "cp_CreateCampaign a q w4 = (Ok c, w5)"
      by (cases "cp_CreateCampaign a q w4") (auto elim: is_Ok.elims)
    then have "may_create a q w4" using CreateCampaign_steps(1) nf4 by blast
    then show False using that c4 by (auto simp: may_create_def new_campaign_def)
  qed
  then show ?thesis using run c4 by blast
qed

definition pixel_params :: cp_CreateCampaignParams where
  "pixel_params = sample_params\<lparr>ncp_Settings := sample_settings\<lparr>set_TrackingIntegrations :=
     [\<lparr>tip_IntegrationType = ''google_analytics'', tip_Enabled = True, tip_TrackingID = ''G-1'', tip_TrackingLabel = None\<rparr>]\<rparr>\<rparr>"

theorem rejected_campaign_stays_witness:
  "\<exists>w'. cp_CreateCampaign 1 pixel_params no_campaigns = (Err (Sentinel (CP CP_ErrTrackingPixelsNotAvailable)), w') \<and>
    t_campaigns w' = [new_campaign 1 pixel_params no_campaigns] \<and> \<not> is_Ok (fst (cp_CreateCampaign 1 sample_params w'))"
proof -
  have ti: "account_tier 1 no_campaigns = Some getDefaultFreeTier"
    by (simp add: account_tier_def user_tier_def latest_subscription_def free_tier_def live_prices_def
        sample_account_def no_campaigns_def sample_world_def empty_world_def)
  have "may_create 1 pixel_params no_campaigns"
    using ti by (simp add: may_create_def pixel_params_def sample_params_def isValidCampaignType_def enums
        campaigns_of_def no_campaigns_def getDefaultFreeTier_def limit_of_def)
  moreover have "\<not> has_feature (st_Features getDefaultFreeTier) ''tracking_pixels''"
    by (simp add: getDefaultFreeTier_def has_feature_def)
  ultimately obtain w' where "cp_CreateCampaign 1 pixel_params no_campaigns = (Err (Sentinel (CP CP_ErrTrackingPixelsNotAvailable)), w')"
      "t_campaigns w' = t_campaigns no_campaigns @ [new_campaign 1 pixel_params no_campaigns]"
      "\<forall>q. ncp_Slug q = ncp_Slug pixel_params \<longrightarrow> \<not> is_Ok (fst (cp_CreateCampaign 1 q w'))"
    using rejected_campaign_stays [of 1 pixel_params no_campaigns, OF _ no_campaigns_facts(1) ti]
    by (auto simp: pixel_params_def no_campaigns_def)
  then show ?thesis by (intro exI [of _ w']) (simp add: no_campaigns_def pixel_params_def)
qed

end
