(* ===== verification/Http.thy ===== *)
theory Http
  imports Webhooks
begin

text \<open>
  The answers of the HTTP handlers: apierrors/errors.go and apierrors/validation.go. A handler is
  a call that always gives a reply. Binding a request body, which gin does, is modelled by its
  result: the decoded request, or None for a body that is not JSON of the request's shape; the
  binding tags of the request types are checked by functions that list the tags that fail, as
  the validator reports them: at most one for a field, in the order of the fields.
\<close>

section \<open>Replies\<close>

datatype 'b reply =
    JSON int 'b
  | ErrorResponse int string string

type_synonym 'b handler = "(world, 'b reply) go"

text \<open>\<^verbatim>\<open>c.JSON(status, gin.H{"error": msg})\<close>\<close>

definition gin_error :: "int \<Rightarrow> string \<Rightarrow> ('s, 'b reply) go" where
  "gin_error status msg = retE (ErrorResponse status msg '''')"

definition respond :: "int \<Rightarrow> string \<Rightarrow> string \<Rightarrow> ('s, 'b reply) go" where
  "respond statusCode code message = retE (ErrorResponse statusCode message code)"

definition api_NotFound :: "string \<Rightarrow> ('s, 'b reply) go" where
  "api_NotFound message = respond 404 ''NOT_FOUND'' message"

definition api_BadRequest :: "string \<Rightarrow> string \<Rightarrow> ('s, 'b reply) go" where
  "api_BadRequest code message = respond 400 code message"

definition api_Unauthorized :: "string \<Rightarrow> ('s, 'b reply) go" where
  "api_Unauthorized message = respond 401 ''UNAUTHORIZED'' message"

definition api_Forbidden :: "string \<Rightarrow> string \<Rightarrow> ('s, 'b reply) go" where
  "api_Forbidden code message = respond 403 code message"

definition api_Conflict :: "string \<Rightarrow> string \<Rightarrow> ('s, 'b reply) go" where
  "api_Conflict code message = respond 409 code message"

definition api_ServiceUnavailable :: "string \<Rightarrow> string \<Rightarrow> err \<Rightarrow> ('s, 'b reply) go" where
  "api_ServiceUnavailable code message internalErr = respond 503 code message"

definition api_InternalError :: "err \<Rightarrow> ('s, 'b reply) go" where
  "api_InternalError internalErr =
     respond 500 ''INTERNAL_ERROR'' ''An internal error occurred. Please try again later.''"

section \<open>Validation\<close>

record FieldError =
  fe_Field :: string
  fe_Tag :: string
  fe_Param :: string

definition getValidationMessage :: "FieldError \<Rightarrow> string" where
  "getValidationMessage fieldErr =
     (let field = fe_Field fieldErr; tag = fe_Tag fieldErr; param = fe_Param fieldErr in
      if tag = ''required'' then field @ '' is required''
      else if tag = ''email'' then field @ '' must be a valid email address''
      else if tag = ''min'' then field @ '' must be at least '' @ param @ '' characters''
      else if tag = ''max'' then field @ '' must be at most '' @ param @ '' characters''
      else if tag = ''len'' then field @ '' must be exactly '' @ param @ '' characters''
      else if tag = ''gt'' then field @ '' must be greater than '' @ param
      else if tag = ''gte'' then field @ '' must be greater than or equal to '' @ param
      else if tag = ''lt'' then field @ '' must be less than '' @ param
      else if tag = ''lte'' then field @ '' must be less than or equal to '' @ param
      else if tag = ''oneof'' then field @ '' must be one of: '' @ param
      else if tag = ''uuid'' then field @ '' must be a valid UUID''
      else if tag = ''url'' then field @ '' must be a valid URL''
      else if tag = ''alphanum'' then field @ '' must contain only alphanumeric characters''
      else field @ '' failed validation ('' @ tag @ '')'')"

definition buildValidationMessage :: "FieldError list \<Rightarrow> string" where
  "buildValidationMessage errs =
     (case errs of
        [] \<Rightarrow> ''Invalid request''
      | [e] \<Rightarrow> getValidationMessage e
      | _ \<Rightarrow> ''Validation failed: '' @ strings_Join (map getValidationMessage errs) ''; '')"

text \<open>The two kinds of binding errors; a nil error is not passed to ValidationError.\<close>

definition ValidationError :: "FieldError list option \<Rightarrow> ('s, 'b reply) go" where
  "ValidationError err =
     (case err of
        Some validationErrs \<Rightarrow> respond 400 ''INVALID_INPUT'' (buildValidationMessage validationErrs)
      | None \<Rightarrow> retE (ErrorResponse 400 ''Invalid request format. Please check your JSON syntax.'' ''INVALID_INPUT''))"

text \<open>ShouldBindJSON with the tags of the request type.\<close>

definition bind_json :: "'r option \<Rightarrow> ('r \<Rightarrow> FieldError list) \<Rightarrow> ('r \<Rightarrow> ('s, 'b reply) go) \<Rightarrow> ('s, 'b reply) go" where
  "bind_json body tags k =
     (case body of
        None \<Rightarrow> ValidationError None
      | Some req \<Rightarrow> if tags req = [] then k req else ValidationError (Some (tags req)))"

text \<open>The tags \<^verbatim>\<open>required\<close>, \<^verbatim>\<open>min\<close> and \<^verbatim>\<open>max\<close> of a string count its characters, those of a slice its
  elements. A byte that continues a UTF-8 character does not start one.\<close>

definition rune_count :: "string \<Rightarrow> int" where
  "rune_count s = int (length (filter (\<lambda>c. \<not> ((128 :: nat) \<le> of_char c \<and> (of_char c :: nat) < 192)) s))"

definition tag_required :: "string \<Rightarrow> bool \<Rightarrow> FieldError list \<Rightarrow> FieldError list" where
  "tag_required field given rest =
     (if given then rest else [\<lparr>fe_Field = field, fe_Tag = ''required'', fe_Param = ''''\<rparr>])"

definition tag_min :: "string \<Rightarrow> int \<Rightarrow> int \<Rightarrow> FieldError list \<Rightarrow> FieldError list" where
  "tag_min field n len rest =
     (if n \<le> len then rest else [\<lparr>fe_Field = field, fe_Tag = ''min'', fe_Param = Itoa n\<rparr>])"

definition tag_max :: "string \<Rightarrow> int \<Rightarrow> int \<Rightarrow> FieldError list \<Rightarrow> FieldError list" where
  "tag_max field n len rest =
     (if len \<le> n then rest else [\<lparr>fe_Field = field, fe_Tag = ''max'', fe_Param = Itoa n\<rparr>])"

section \<open>Identifiers in requests\<close>

text \<open>\<^verbatim>\<open>uuid.Parse\<close> with a reply when it fails, and \<^verbatim>\<open>x, _ := uuid.Parse(s)\<close>, which is uuid.Nil then.\<close>

definition parse_id :: "string \<Rightarrow> string \<Rightarrow> (uuid \<Rightarrow> (world, 'b reply) go) \<Rightarrow> (world, 'b reply) go" where
  "parse_id msg s k = bindE (getE w_uuid_Parse) (\<lambda>parse.
     case parse s of None \<Rightarrow> gin_error 400 msg | Some i \<Rightarrow> k i)"

definition parse_or_nil :: "string \<Rightarrow> (world, uuid) go" where
  "parse_or_nil s = bindE (getE w_uuid_Parse) (\<lambda>parse.
     retE (case parse s of None \<Rightarrow> uuid_Nil | Some i \<Rightarrow> i))"

end
