(* ===== verification/ApiKeys.thy ===== *)
theory ApiKeys
  imports Http Calendar
begin

text \<open>
  API keys: the key and audit log statements of store/api_key.go, the handlers of
  apikeys/handler/handler.go that create, list, rename and revoke keys, and the middleware of
  integrations/zapier/handler.go that authenticates a request by its key. The text of a key is
  shown once; the table holds its SHA-256 digest.
\<close>

section \<open>Store: keys\<close>

definition sql_api_key_rate_limit_tier :: "string list" where
  "sql_api_key_rate_limit_tier = [''standard'', ''pro'', ''enterprise'']"

definition sql_actor_type :: "string list" where
  "sql_actor_type = [''user'', ''api_key'', ''system'']"

record CreateAPIKeyParams =
  ckp_AccountID :: uuid
  ckp_Name :: string
  ckp_KeyHash :: string
  ckp_KeyPrefix :: string
  ckp_Scopes :: "string list"
  ckp_RateLimitTier :: string
  ckp_ExpiresAt :: "time option"
  ckp_CreatedBy :: "uuid option"

definition api_key_check :: "world \<Rightarrow> APIKey list \<Rightarrow> APIKey \<Rightarrow> string option" where
  "api_key_check w rows r =
     (if ak_ID r \<in> ak_ID ` set rows then Some ''api_keys_pkey''
      else if ak_AccountID r \<notin> ac_ID ` set (t_accounts w) then Some ''api_keys_account_id_fkey''
      else if 255 < length (ak_Name r) \<or> 255 < length (ak_KeyHash r) \<or> 20 < length (ak_KeyPrefix r)
        then Some ''value too long for type character varying''
      else if ak_KeyHash r \<in> ak_KeyHash ` set rows then Some ''api_keys_key_hash_key''
      else if ak_RateLimitTier r \<notin> set sql_api_key_rate_limit_tier then Some ''api_key_rate_limit_tier''
      else None)"

definition store_CreateAPIKey :: "CreateAPIKeyParams \<Rightarrow> (world, APIKey) go" where
  "store_CreateAPIKey p = wrapE ''failed to create api key''
     (sql_insert api_keys_tbl api_key_check (\<lambda>i now. \<lparr>
        ak_ID = i, ak_AccountID = ckp_AccountID p, ak_Name = ckp_Name p, ak_KeyHash = ckp_KeyHash p,
        ak_KeyPrefix = ckp_KeyPrefix p, ak_Scopes = stored_strings (ckp_Scopes p),
        ak_RateLimitTier = ckp_RateLimitTier p, ak_Status = ''active'', ak_LastUsedAt = None,
        ak_TotalRequests = 0, ak_ExpiresAt = ckp_ExpiresAt p, ak_CreatedBy = ckp_CreatedBy p,
        ak_CreatedAt = now, ak_RevokedAt = None, ak_RevokedBy = None\<rparr>))"

definition usable_key :: "time \<Rightarrow> string \<Rightarrow> APIKey \<Rightarrow> bool" where
  "usable_key now keyHash k = (ak_KeyHash k = keyHash \<and> ak_Status k = ''active'' \<and>
     (case ak_ExpiresAt k of None \<Rightarrow> True | Some t \<Rightarrow> now < t))"

definition store_GetAPIKeyByHash :: "string \<Rightarrow> (world, APIKey) go" where
  "store_GetAPIKeyByHash keyHash = row_or ''failed to get api key by hash''
     (sql_get (\<lambda>w. filter (usable_key (w_now w) keyHash) (t_api_keys w)))"

definition store_GetAPIKeyByID :: "uuid \<Rightarrow> (world, APIKey) go" where
  "store_GetAPIKeyByID keyID = row_or ''failed to get api key by id''
     (sql_get (\<lambda>w. filter (\<lambda>k. ak_ID k = keyID) (t_api_keys w)))"

definition store_GetAPIKeysByAccount :: "uuid \<Rightarrow> (world, APIKey list) go" where
  "store_GetAPIKeysByAccount accountID = wrapE ''failed to get api keys by account''
     (sql_query (\<lambda>w. sort_Slice (\<lambda>a b. ak_CreatedAt b < ak_CreatedAt a)
        (filter (\<lambda>k. ak_AccountID k = accountID) (t_api_keys w))))"

definition store_UpdateAPIKeyUsage :: "uuid \<Rightarrow> (world, unit) go" where
  "store_UpdateAPIKeyUsage keyID = exec_or ''failed to update api key usage''
     (sql_update api_keys_tbl no_check (\<lambda>k. ak_ID k = keyID)
        (\<lambda>w k. k\<lparr>ak_LastUsedAt := Some (w_now w), ak_TotalRequests := ak_TotalRequests k + 1\<rparr>))"

definition store_RevokeAPIKey :: "uuid \<Rightarrow> uuid \<Rightarrow> (world, unit) go" where
  "store_RevokeAPIKey keyID revokedBy = affected_or ''failed to revoke api key''
     (sql_update api_keys_tbl no_check (\<lambda>k. ak_ID k = keyID \<and> ak_Status k = ''active'')
        (\<lambda>w k. k\<lparr>ak_Status := ''revoked'', ak_RevokedAt := Some (w_now w), ak_RevokedBy := Some revokedBy\<rparr>))"

definition api_key_name_check :: "APIKey list \<Rightarrow> string option" where
  "api_key_name_check rows = (if \<exists>k\<in>set rows. 255 < length (ak_Name k)
     then Some ''value too long for type character varying'' else None)"

definition store_UpdateAPIKeyName :: "uuid \<Rightarrow> string \<Rightarrow> (world, unit) go" where
  "store_UpdateAPIKeyName keyID name = affected_or ''failed to update api key name''
     (sql_update api_keys_tbl api_key_name_check (\<lambda>k. ak_ID k = keyID) (\<lambda>w k. k\<lparr>ak_Name := name\<rparr>))"

section \<open>Store: audit logs\<close>

abbreviation "audit_logs_tbl \<equiv> (t_audit_logs, t_audit_logs_update)"

record CreateAuditLogParams =
  cal_AccountID :: "uuid option"
  cal_ActorUserID :: "uuid option"
  cal_ActorType :: string
  cal_ActorIdentifier :: "string option"
  cal_Action :: string
  cal_ResourceType :: string
  cal_ResourceID :: "uuid option"
  cal_Changes :: jsonb
  cal_IPAddress :: "string option"
  cal_UserAgent :: "string option"

definition audit_log_check :: "world \<Rightarrow> AuditLog list \<Rightarrow> AuditLog \<Rightarrow> string option" where
  "audit_log_check w rows r =
     (if al_ID r \<in> al_ID ` set rows then Some ''audit_logs_pkey''
      else if \<exists>a\<in>set_option (al_AccountID r). a \<notin> ac_ID ` set (t_accounts w) then Some ''audit_logs_account_id_fkey''
      else if al_ActorType r \<notin> set sql_actor_type then Some ''actor_type''
      else if 255 < length (case al_ActorIdentifier r of None \<Rightarrow> '''' | Some s \<Rightarrow> s) \<or>
         100 < length (al_Action r) \<or> 100 < length (al_ResourceType r)
        then Some ''value too long for type character varying'' else None)"

definition store_CreateAuditLog :: "CreateAuditLogParams \<Rightarrow> (world, AuditLog) go" where
  "store_CreateAuditLog p = wrapE ''failed to create audit log''
     (sql_insert audit_logs_tbl audit_log_check (\<lambda>i now. \<lparr>
        al_ID = i, al_AccountID = cal_AccountID p, al_ActorUserID = cal_ActorUserID p,
        al_ActorType = cal_ActorType p, al_ActorIdentifier = cal_ActorIdentifier p,
        al_Action = cal_Action p, al_ResourceType = cal_ResourceType p, al_ResourceID = cal_ResourceID p,
        al_Changes = jsonb_stored (cal_Changes p), al_IPAddress = cal_IPAddress p,
        al_UserAgent = cal_UserAgent p, al_CreatedAt = now\<rparr>))"

definition store_GetAuditLogsByAccount :: "uuid \<Rightarrow> int \<Rightarrow> int \<Rightarrow> (world, AuditLog list) go" where
  "store_GetAuditLogsByAccount accountID lmt off = wrapE ''failed to get audit logs by account''
     (sql_page (\<lambda>w. sort_Slice (\<lambda>a b. al_CreatedAt b < al_CreatedAt a)
        (filter (\<lambda>l. al_AccountID l = Some accountID) (t_audit_logs w))) lmt off)"

definition store_GetAuditLogsByResource :: "string \<Rightarrow> uuid \<Rightarrow> int \<Rightarrow> int \<Rightarrow> (world, AuditLog list) go" where
  "store_GetAuditLogsByResource resourceType resourceID lmt off = wrapE ''failed to get audit logs by resource''
     (sql_page (\<lambda>w. sort_Slice (\<lambda>a b. al_CreatedAt b < al_CreatedAt a)
        (filter (\<lambda>l. al_ResourceType l = resourceType \<and> al_ResourceID l = Some resourceID) (t_audit_logs w))) lmt off)"

section \<open>Handlers of API keys\<close>

definition ValidScopes :: "string list" where
  "ValidScopes = [''zapier'', ''webhooks'', ''read'', ''write'', ''all'']"

record CreateAPIKeyRequest =
  ckr_Name :: string
  ckr_Scopes :: "string list option"
  ckr_ExpiresIn :: "int option"

record CreateAPIKeyResponse =
  ckq_ID :: string
  ckq_Name :: string
  ckq_Key :: string
  ckq_KeyPrefix :: string
  ckq_Scopes :: "string list"
  ckq_ExpiresAt :: "string option"
  ckq_CreatedAt :: string

record APIKeyResponse =
  akr_ID :: string
  akr_Name :: string
  akr_KeyPrefix :: string
  akr_Scopes :: "string list"
  akr_Status :: string
  akr_LastUsedAt :: "string option"
  akr_TotalRequests :: int
  akr_ExpiresAt :: "string option"
  akr_CreatedAt :: string
  akr_RevokedAt :: "string option"

record UpdateAPIKeyRequest =
  ukr_Name :: string

text \<open>The tags of the two requests.\<close>

definition create_key_tags :: "CreateAPIKeyRequest \<Rightarrow> FieldError list" where
  "create_key_tags req =
     tag_required ''Name'' (ckr_Name req \<noteq> '''')
       (tag_min ''Name'' 1 (rune_count (ckr_Name req)) (tag_max ''Name'' 100 (rune_count (ckr_Name req)) [])) @
     tag_required ''Scopes'' (ckr_Scopes req \<noteq> None)
       (tag_min ''Scopes'' 1 (case ckr_Scopes req of None \<Rightarrow> 0 | Some ss \<Rightarrow> int (length ss)) [])"

definition update_key_tags :: "UpdateAPIKeyRequest \<Rightarrow> FieldError list" where
  "update_key_tags req =
     tag_required ''Name'' (ukr_Name req \<noteq> '''')
       (tag_min ''Name'' 1 (rune_count (ukr_Name req)) (tag_max ''Name'' 100 (rune_count (ukr_Name req)) []))"

definition ak_handleError :: "err \<Rightarrow> (world, 'b reply) go" where
  "ak_handleError e = (if errors_Is e ErrNotFound then api_NotFound ''API key not found'' else api_InternalError e)"

definition toAPIKeyResponse :: "(uuid \<Rightarrow> string) \<Rightarrow> (time \<Rightarrow> string) \<Rightarrow> APIKey \<Rightarrow> APIKeyResponse" where
  "toAPIKeyResponse str format key = \<lparr>
     akr_ID = str (ak_ID key), akr_Name = ak_Name key, akr_KeyPrefix = ak_KeyPrefix key,
     akr_Scopes = ak_Scopes key, akr_Status = ak_Status key,
     akr_LastUsedAt = map_option format (ak_LastUsedAt key), akr_TotalRequests = ak_TotalRequests key,
     akr_ExpiresAt = map_option format (ak_ExpiresAt key), akr_CreatedAt = format (ak_CreatedAt key),
     akr_RevokedAt = map_option format (ak_RevokedAt key)\<rparr>"

definition hash_of_key :: "(string \<Rightarrow> nat list) \<Rightarrow> string \<Rightarrow> string" where
  "hash_of_key sha rawKey = hex_EncodeToString (sha rawKey)"

definition generateAPIKey :: "(world, string \<times> string \<times> string) go" where
  "generateAPIKey = bindE (rand_Read 32) (\<lambda>bytes. bindE (getE w_sha256) (\<lambda>sha.
     let rawKey = ''sk_'' @ hex_EncodeToString bytes in
     retE (rawKey, hash_of_key sha rawKey, take 11 rawKey @ ''...'')))"

text \<open>The loop over the scopes answers with the first one that is not valid.\<close>

definition invalid_scope :: "string list \<Rightarrow> string option" where
  "invalid_scope scopes = List.find (\<lambda>scope. \<not> list_ex (\<lambda>validScope. scope = validScope) ValidScopes) scopes"

definition expires_in :: "time \<Rightarrow> int option \<Rightarrow> time option" where
  "expires_in now days = (case days of None \<Rightarrow> None
     | Some n \<Rightarrow> if 0 < n then Some (AddDate now 0 0 n) else None)"

text \<open>The handler after its checks, and its answer.\<close>

definition key_created :: "string \<Rightarrow> APIKey \<Rightarrow> CreateAPIKeyResponse handler" where
  "key_created rawKey apiKey = bindE (getE w_uuid_String) (\<lambda>str. bindE (getE w_time_Format) (\<lambda>format.
     retE (JSON 201 \<lparr>ckq_ID = str (ak_ID apiKey), ckq_Name = ak_Name apiKey, ckq_Key = rawKey,
       ckq_KeyPrefix = ak_KeyPrefix apiKey, ckq_Scopes = ak_Scopes apiKey,
       ckq_ExpiresAt = map_option format (ak_ExpiresAt apiKey),
       ckq_CreatedAt = format (ak_CreatedAt apiKey)\<rparr>)))"

definition create_key ::
    "uuid \<Rightarrow> uuid option \<Rightarrow> CreateAPIKeyRequest \<Rightarrow> string list \<Rightarrow> CreateAPIKeyResponse handler" where
  "create_key accountID userID req scopes =
     tryE generateAPIKey (\<lambda>e. gin_error 500 ''failed to generate API key'') (\<lambda>(rawKey, keyHash, keyPrefix).
     bindE (getE w_now) (\<lambda>now.
     tryE (store_CreateAPIKey \<lparr>ckp_AccountID = accountID, ckp_Name = ckr_Name req, ckp_KeyHash = keyHash,
             ckp_KeyPrefix = keyPrefix, ckp_Scopes = scopes, ckp_RateLimitTier = ''standard'',
             ckp_ExpiresAt = expires_in now (ckr_ExpiresIn req), ckp_CreatedBy = userID\<rparr>)
       ak_handleError (key_created rawKey)))"

definition HandleCreateAPIKey :: "string \<Rightarrow> string \<Rightarrow> CreateAPIKeyRequest option \<Rightarrow> CreateAPIKeyResponse handler" where
  "HandleCreateAPIKey accountIDStr userIDStr body =
     parse_id ''invalid account id'' accountIDStr (\<lambda>accountID.
     bindE (getE w_uuid_Parse) (\<lambda>parse.
     bind_json body create_key_tags (\<lambda>req.
     let scopes = (case ckr_Scopes req of None \<Rightarrow> [] | Some ss \<Rightarrow> ss) in
     case invalid_scope scopes of
       Some scope \<Rightarrow> gin_error 400 (''invalid scope: '' @ scope)
     | None \<Rightarrow> create_key accountID (if userIDStr \<noteq> '''' then parse userIDStr else None) req scopes)))"

definition HandleListAPIKeys :: "string \<Rightarrow> APIKeyResponse list handler" where
  "HandleListAPIKeys accountIDStr =
     parse_id ''invalid account id'' accountIDStr (\<lambda>accountID.
     tryE (store_GetAPIKeysByAccount accountID) ak_handleError (\<lambda>apiKeys.
     bindE (getE w_uuid_String) (\<lambda>str. bindE (getE w_time_Format) (\<lambda>format.
     retE (JSON 200 (map (toAPIKeyResponse str format) apiKeys))))))"

text \<open>The lookup of a key that the next three handlers begin with.\<close>

definition account_key :: "uuid \<Rightarrow> uuid \<Rightarrow> (APIKey \<Rightarrow> (world, 'b reply) go) \<Rightarrow> (world, 'b reply) go" where
  "account_key accountID keyID k = tryE (store_GetAPIKeyByID keyID)
     (\<lambda>e. if errors_Is e ErrNotFound then api_NotFound ''API key not found'' else ak_handleError e)
     (\<lambda>apiKey. if ak_AccountID apiKey \<noteq> accountID then api_NotFound ''API key not found'' else k apiKey)"

definition key_reply :: "APIKey \<Rightarrow> APIKeyResponse handler" where
  "key_reply apiKey = bindE (getE w_uuid_String) (\<lambda>str. bindE (getE w_time_Format) (\<lambda>format.
     retE (JSON 200 (toAPIKeyResponse str format apiKey))))"

definition HandleGetAPIKey :: "string \<Rightarrow> string \<Rightarrow> APIKeyResponse handler" where
  "HandleGetAPIKey accountIDStr keyIDStr =
     parse_id ''invalid account id'' accountIDStr (\<lambda>accountID.
     parse_id ''invalid api key id'' keyIDStr (\<lambda>keyID.
     account_key accountID keyID key_reply))"

definition HandleUpdateAPIKey :: "string \<Rightarrow> string \<Rightarrow> UpdateAPIKeyRequest option \<Rightarrow> APIKeyResponse handler" where
  "HandleUpdateAPIKey accountIDStr keyIDStr body =
     parse_id ''invalid account id'' accountIDStr (\<lambda>accountID.
     parse_id ''invalid api key id'' keyIDStr (\<lambda>keyID.
     bind_json body update_key_tags (\<lambda>req.
     account_key accountID keyID (\<lambda>apiKey.
     tryE (store_UpdateAPIKeyName keyID (ukr_Name req)) ak_handleError (\<lambda>u.
     tryE (store_GetAPIKeyByID keyID) ak_handleError key_reply)))))"

definition HandleRevokeAPIKey :: "string \<Rightarrow> string \<Rightarrow> string \<Rightarrow> unit handler" where
  "HandleRevokeAPIKey accountIDStr userIDStr keyIDStr =
     parse_id ''invalid account id'' accountIDStr (\<lambda>accountID.
     parse_id ''invalid api key id'' keyIDStr (\<lambda>keyID.
     parse_id ''invalid user id'' userIDStr (\<lambda>userID.
     account_key accountID keyID (\<lambda>apiKey.
     tryE (store_RevokeAPIKey keyID userID)
       (\<lambda>e. if errors_Is e ErrNotFound then api_NotFound ''API key not found or already revoked'' else ak_handleError e)
       (\<lambda>u. retE (JSON 200 ()))))))"

definition HandleGetScopes :: "string list handler" where
  "HandleGetScopes = retE (JSON 200 ValidScopes)"

section \<open>Authentication by key\<close>

definition zapier_scope :: "string \<Rightarrow> bool" where
  "zapier_scope scope = (scope = ''zapier'' \<or> scope = ''*'' \<or> scope = ''all'')"

text \<open>
  The middleware gives the ids of the account and of the key to the handler behind it. The
  goroutine that counts the use runs on its own; here it runs before the handler, and its error
  is dropped.
\<close>

definition APIKeyMiddleware :: "string \<Rightarrow> (string \<Rightarrow> string \<Rightarrow> (world, 'b reply) go) \<Rightarrow> (world, 'b reply) go" where
  "APIKeyMiddleware apiKey handle_next =
     (if apiKey = '''' then gin_error 401 ''missing API key''
      else bindE (getE w_sha256) (\<lambda>sha.
      tryE (store_GetAPIKeyByHash (hash_of_key sha apiKey)) (\<lambda>e. gin_error 401 ''invalid API key'') (\<lambda>key.
      if \<not> list_ex zapier_scope (ak_Scopes key) then gin_error 403 ''API key does not have Zapier access''
      else bindE (logE (store_UpdateAPIKeyUsage (ak_ID key))) (\<lambda>u.
      bindE (getE w_uuid_String) (\<lambda>str.
      handle_next (str (ak_AccountID key)) (str (ak_ID key)))))))"

end
