(* ===== verification/Integrations.thy ===== *)
theory Integrations
  imports ApiKeys
begin

text \<open>
  Integrations: store/integration_subscriptions.go, integrations/service (service.go and the
  Zapier deliverer), integrations/consumer/consumer.go and the endpoints of
  integrations/zapier/handler.go. integrations.Subscription and integrations.Delivery have the
  fields of the rows, which toIntegrationSubscription and toIntegrationDelivery copy: the rows
  stand for both. DeliverEvent starts one goroutine for a subscription; here the deliveries run
  one after the other. A query without ORDER BY returns the rows as the table holds them.
\<close>

section \<open>Store: subscriptions\<close>


definition sql_integration_type :: "string list" where
  "sql_integration_type = [''zapier'', ''slack'', ''discord'', ''custom'']"

definition IntegrationZapier :: string where "IntegrationZapier = ''zapier''"
definition DeliveryStatusPending :: string where "DeliveryStatusPending = ''pending''"
definition DeliveryStatusSuccess :: string where "DeliveryStatusSuccess = ''success''"
definition DeliveryStatusFailed :: string where "DeliveryStatusFailed = ''failed''"

record CreateSubscriptionParams =
  csp_AccountID :: uuid
  csp_APIKeyID :: "uuid option"
  csp_IntegrationType :: string
  csp_TargetURL :: string
  csp_EventType :: string
  csp_CampaignID :: "uuid option"
  csp_Config :: jsonb

definition subscription_check ::
    "world \<Rightarrow> IntegrationSubscription list \<Rightarrow> IntegrationSubscription \<Rightarrow> string option" where
  "subscription_check w rows r =
     (if is_ID r \<in> is_ID ` set rows then Some ''integration_subscriptions_pkey''
      else if is_AccountID r \<notin> ac_ID ` set (t_accounts w) then Some ''integration_subscriptions_account_id_fkey''
      else if \<exists>k\<in>set_option (is_APIKeyID r). k \<notin> ak_ID ` set (t_api_keys w)
        then Some ''integration_subscriptions_api_key_id_fkey''
      else if \<exists>c\<in>set_option (is_CampaignID r). c \<notin> cp_ID ` set (t_campaigns w)
        then Some ''integration_subscriptions_campaign_id_fkey''
      else if is_IntegrationType r \<notin> set sql_integration_type then Some ''integration_type''
      else if 500 < length (is_TargetURL r) \<or> 100 < length (is_EventType r)
        then Some ''value too long for type character varying'' else None)"

definition store_CreateIntegrationSubscription ::
    "CreateSubscriptionParams \<Rightarrow> (world, IntegrationSubscription) go" where
  "store_CreateIntegrationSubscription p = wrapE ''failed to create subscription''
     (sql_insert integration_subscriptions_tbl subscription_check (\<lambda>i now. \<lparr>
        is_ID = i, is_AccountID = csp_AccountID p, is_APIKeyID = csp_APIKeyID p,
        is_IntegrationType = csp_IntegrationType p, is_TargetURL = csp_TargetURL p,
        is_EventType = csp_EventType p, is_CampaignID = csp_CampaignID p,
        is_Config = jsonb_stored (csp_Config p), is_Status = ''active'', is_LastTriggeredAt = None,
        is_TriggerCount = 0, is_ErrorCount = 0, is_LastError = None, is_CreatedAt = now,
        is_UpdatedAt = now, is_DeletedAt = None\<rparr>))"

definition store_GetIntegrationSubscriptionByID :: "uuid \<Rightarrow> (world, IntegrationSubscription) go" where
  "store_GetIntegrationSubscriptionByID subscriptionID = row_or ''failed to get subscription''
     (sql_get (\<lambda>w. filter (\<lambda>s. is_ID s = subscriptionID \<and> is_DeletedAt s = None) (t_integration_subscriptions w)))"

definition store_GetIntegrationSubscriptionsByAccount ::
    "uuid \<Rightarrow> string option \<Rightarrow> (world, IntegrationSubscription list) go" where
  "store_GetIntegrationSubscriptionsByAccount accountID integrationType = wrapE ''failed to get subscriptions''
     (case integrationType of
        Some t \<Rightarrow> sql_query (\<lambda>w. sort_Slice (\<lambda>a b. is_CreatedAt b < is_CreatedAt a)
          (filter (\<lambda>s. is_AccountID s = accountID \<and> is_IntegrationType s = t \<and> is_DeletedAt s = None)
             (t_integration_subscriptions w)))
      | None \<Rightarrow> sql_query (\<lambda>w. sort_Slice (\<lambda>a b. is_CreatedAt b < is_CreatedAt a)
          (filter (\<lambda>s. is_AccountID s = accountID \<and> is_DeletedAt s = None) (t_integration_subscriptions w))))"

definition active_subscription :: "uuid \<Rightarrow> string \<Rightarrow> IntegrationSubscription \<Rightarrow> bool" where
  "active_subscription accountID eventType s =
     (is_AccountID s = accountID \<and> is_EventType s = eventType \<and> is_Status s = ''active'' \<and> is_DeletedAt s = None)"

definition store_GetActiveIntegrationSubscriptionsForEvent ::
    "uuid \<Rightarrow> string \<Rightarrow> uuid option \<Rightarrow> (world, IntegrationSubscription list) go" where
  "store_GetActiveIntegrationSubscriptionsForEvent accountID eventType campaignID =
     wrapE ''failed to get active subscriptions''
     (case campaignID of
        Some c \<Rightarrow> sql_query (\<lambda>w. filter (\<lambda>s. active_subscription accountID eventType s \<and>
          (is_CampaignID s = None \<or> is_CampaignID s = Some c)) (t_integration_subscriptions w))
      | None \<Rightarrow> sql_query (\<lambda>w. filter (active_subscription accountID eventType) (t_integration_subscriptions w)))"

definition store_DeleteIntegrationSubscription :: "uuid \<Rightarrow> (world, unit) go" where
  "store_DeleteIntegrationSubscription subscriptionID = affected_or ''failed to delete subscription''
     (sql_update integration_subscriptions_tbl no_check (\<lambda>s. is_ID s = subscriptionID \<and> is_DeletedAt s = None)
        (\<lambda>w s. s\<lparr>is_DeletedAt := Some (w_now w), is_UpdatedAt := w_now w\<rparr>))"

definition store_DeleteIntegrationSubscriptionsByAPIKey :: "uuid \<Rightarrow> (world, unit) go" where
  "store_DeleteIntegrationSubscriptionsByAPIKey apiKeyID = exec_or ''failed to delete subscriptions by API key''
     (sql_update integration_subscriptions_tbl no_check (\<lambda>s. is_APIKeyID s = Some apiKeyID \<and> is_DeletedAt s = None)
        (\<lambda>w s. s\<lparr>is_DeletedAt := Some (w_now w), is_UpdatedAt := w_now w\<rparr>))"

definition store_UpdateIntegrationSubscriptionStats :: "uuid \<Rightarrow> bool \<Rightarrow> string option \<Rightarrow> (world, unit) go" where
  "store_UpdateIntegrationSubscriptionStats subscriptionID success errorMsg =
     exec_or ''failed to update subscription stats''
       (if success
        then sql_update integration_subscriptions_tbl no_check (\<lambda>s. is_ID s = subscriptionID)
          (\<lambda>w s. s\<lparr>is_TriggerCount := is_TriggerCount s + 1, is_LastTriggeredAt := Some (w_now w),
             is_UpdatedAt := w_now w\<rparr>)
        else sql_update integration_subscriptions_tbl no_check (\<lambda>s. is_ID s = subscriptionID)
          (\<lambda>w s. s\<lparr>is_ErrorCount := is_ErrorCount s + 1, is_LastError := errorMsg, is_UpdatedAt := w_now w\<rparr>))"

section \<open>Store: deliveries\<close>

record CreateDeliveryParams =
  cdl_SubscriptionID :: uuid
  cdl_EventType :: string
  cdl_Status :: string

definition delivery_check :: "world \<Rightarrow> IntegrationDelivery list \<Rightarrow> IntegrationDelivery \<Rightarrow> string option" where
  "delivery_check w rows r =
     (if id_ID r \<in> id_ID ` set rows then Some ''integration_deliveries_pkey''
      else if id_SubscriptionID r \<notin> is_ID ` set (t_integration_subscriptions w)
        then Some ''integration_deliveries_subscription_id_fkey''
      else if 100 < length (id_EventType r) \<or> 20 < length (id_Status r)
        then Some ''value too long for type character varying'' else None)"

definition store_CreateDelivery :: "CreateDeliveryParams \<Rightarrow> (world, IntegrationDelivery) go" where
  "store_CreateDelivery p = wrapE ''failed to create delivery''
     (sql_insert integration_deliveries_tbl delivery_check (\<lambda>i now. \<lparr>
        id_ID = i, id_SubscriptionID = cdl_SubscriptionID p, id_EventType = cdl_EventType p,
        id_Status = cdl_Status p, id_ResponseStatus = None, id_DurationMs = None,
        id_ErrorMessage = None, id_CreatedAt = now\<rparr>))"

definition store_UpdateDeliveryStatus ::
    "uuid \<Rightarrow> string \<Rightarrow> int option \<Rightarrow> int option \<Rightarrow> string option \<Rightarrow> (world, unit) go" where
  "store_UpdateDeliveryStatus deliveryID st responseStatus durationMs errorMsg =
     exec_or ''failed to update delivery status''
       (sql_update integration_deliveries_tbl no_check (\<lambda>d. id_ID d = deliveryID)
          (\<lambda>w d. d\<lparr>id_Status := st, id_ResponseStatus := responseStatus, id_DurationMs := durationMs,
             id_ErrorMessage := errorMsg\<rparr>))"

definition store_GetDeliveriesBySubscription :: "uuid \<Rightarrow> int \<Rightarrow> int \<Rightarrow> (world, IntegrationDelivery list) go" where
  "store_GetDeliveriesBySubscription subscriptionID lmt off = wrapE ''failed to get deliveries''
     (sql_page (\<lambda>w. sort_Slice (\<lambda>a b. id_CreatedAt b < id_CreatedAt a)
        (filter (\<lambda>d. id_SubscriptionID d = subscriptionID) (t_integration_deliveries w))) lmt off)"

definition store_GetDeliveriesByAccount :: "uuid \<Rightarrow> int \<Rightarrow> int \<Rightarrow> (world, IntegrationDelivery list) go" where
  "store_GetDeliveriesByAccount accountID lmt off = wrapE ''failed to get deliveries''
     (sql_page (\<lambda>w. sort_Slice (\<lambda>a b. id_CreatedAt b < id_CreatedAt a)
        (filter (\<lambda>d. list_ex (\<lambda>s. is_ID s = id_SubscriptionID d \<and> is_AccountID s = accountID)
           (t_integration_subscriptions w)) (t_integration_deliveries w))) lmt off)"

section \<open>Delivering an event\<close>

record IntegrationEvent =
  ie_ID :: string
  ie_Type :: string
  ie_AccountID :: uuid
  ie_CampaignID :: "uuid option"
  ie_Data :: jsonb
  ie_Timestamp :: time

text \<open>A deliverer gives its error, if any, and the milliseconds it took.\<close>

type_synonym deliverer = "IntegrationSubscription \<Rightarrow> IntegrationEvent \<Rightarrow> (world, err option \<times> int) go"

record ZapierPayload =
  zp_ID :: string
  zp_Event :: string
  zp_OccurredAt :: string
  zp_AccountID :: string
  zp_CampaignID :: string
  zp_Data :: jsonb

text \<open>Go runs through a map in any order; the list is the order of one run.\<close>

fun flattenMap :: "(string \<times> jval) list \<Rightarrow> (string \<times> jval) list \<Rightarrow> string \<Rightarrow> (string \<times> jval) list" where
  "flattenMap result [] prefix = result"
| "flattenMap result ((key, value) # data) prefix =
     (let fullKey = (if prefix \<noteq> '''' then prefix @ ''_'' @ key else key) in
      case value of
        JObj v \<Rightarrow> flattenMap (flattenMap result v fullKey) data prefix
      | _ \<Rightarrow> flattenMap (AList.update fullKey value result) data prefix)"

definition jmap_entries :: "jsonb \<Rightarrow> (string \<times> jval) list" where
  "jmap_entries d = (case d of None \<Rightarrow> [] | Some kvs \<Rightarrow> kvs)"

definition jdata :: "jsonb \<Rightarrow> jval" where
  "jdata d = (case d of None \<Rightarrow> JNull | Some kvs \<Rightarrow> JObj kvs)"

definition flattenPayload :: "ZapierPayload \<Rightarrow> jval" where
  "flattenPayload payload =
     (let flat = [(''id'', JStr (zp_ID payload)), (''event'', JStr (zp_Event payload)),
        (''occurred_at'', JStr (zp_OccurredAt payload)), (''account_id'', JStr (zp_AccountID payload))];
        flat = (if zp_CampaignID payload \<noteq> '''' then AList.update ''campaign_id'' (JStr (zp_CampaignID payload)) flat else flat) in
      JObj (flattenMap flat (jmap_entries (zp_Data payload)) ''''))"

definition zapier_payload_json :: "ZapierPayload \<Rightarrow> jval" where
  "zapier_payload_json payload = JObj (
     [(''id'', JStr (zp_ID payload)), (''event'', JStr (zp_Event payload)),
      (''occurred_at'', JStr (zp_OccurredAt payload)), (''account_id'', JStr (zp_AccountID payload))] @
     (if zp_CampaignID payload \<noteq> '''' then [(''campaign_id'', JStr (zp_CampaignID payload))] else []) @
     [(''data'', jdata (zp_Data payload))])"

definition zapier_FormatPayload :: "IntegrationEvent \<Rightarrow> jsonb \<Rightarrow> (world, string) go" where
  "zapier_FormatPayload event config =
     bindE (getE w_uuid_String) (\<lambda>str. bindE (getE w_time_Format) (\<lambda>format.
     bindE (getE w_json_Marshal) (\<lambda>marshal.
     let payload = \<lparr>zp_ID = ie_ID event, zp_Event = ie_Type event, zp_OccurredAt = format (ie_Timestamp event),
           zp_AccountID = str (ie_AccountID event),
           zp_CampaignID = (case ie_CampaignID event of None \<Rightarrow> '''' | Some c \<Rightarrow> str c), zp_Data = ie_Data event\<rparr> in
     retE (marshal (case jget config ''flatten'' of
         Some (JBool flatten) \<Rightarrow> if flatten then flattenPayload payload else zapier_payload_json payload
       | _ \<Rightarrow> zapier_payload_json payload)))))"

definition zapier_Deliver :: deliverer where
  "zapier_Deliver sub event =
     bindE (zapier_FormatPayload event (is_Config sub)) (\<lambda>payload.
     bindE (http_Do \<lparr>hr_Method = ''POST'', hr_URL = is_TargetURL sub,
       hr_Header = [(''Content-Type'', ''application/json''), (''User-Agent'', ''Waitlist-Integration/1.0'')],
       hr_Body = payload\<rparr>) (\<lambda>(reply, ms).
     retE (case reply of
         RequestError m \<Rightarrow> (Some (Wrap ''failed to create request'' (ExtErr m)), ms)
       | SendError m \<Rightarrow> (Some (Wrap ''failed to send request'' (ExtErr m)), ms)
       | Reply code body \<Rightarrow>
           (if 200 \<le> code \<and> code < 300 then None
            else Some (NewErr (''zapier returned status '' @ Itoa code @ '': '' @
              (case body of None \<Rightarrow> '''' | Some b \<Rightarrow> b))), ms))))"

text \<open>The registered deliverers, by type; a new service has none.\<close>

definition is_New :: "string \<Rightarrow> deliverer option" where
  "is_New = Map.empty"

definition is_Register :: "string \<Rightarrow> deliverer \<Rightarrow> (string \<Rightarrow> deliverer option) \<Rightarrow> (string \<Rightarrow> deliverer option)" where
  "is_Register t d deliverers = deliverers(t \<mapsto> d)"

text \<open>The service of the running server: bootstrap.go makes it and registers nothing.\<close>

definition intService :: "string \<Rightarrow> deliverer option" where
  "intService = is_New"

definition deliverToSubscription ::
    "(string \<Rightarrow> deliverer option) \<Rightarrow> IntegrationSubscription \<Rightarrow> IntegrationEvent \<Rightarrow> (world, unit) go" where
  "deliverToSubscription deliverers sub event =
     (case deliverers (is_IntegrationType sub) of
        None \<Rightarrow> retE ()
      | Some deliver \<Rightarrow>
          tryE (store_CreateDelivery \<lparr>cdl_SubscriptionID = is_ID sub, cdl_EventType = ie_Type event,
                  cdl_Status = DeliveryStatusPending\<rparr>) (\<lambda>e. retE ()) (\<lambda>delivery.
          bindE (deliver sub event) (\<lambda>(err, durationMs).
          case err of
            Some e \<Rightarrow>
              bindE (logE (store_UpdateDeliveryStatus (id_ID delivery) DeliveryStatusFailed None (Some durationMs)
                (Some (err_Error e)))) (\<lambda>u.
              logE (store_UpdateIntegrationSubscriptionStats (is_ID sub) False (Some (err_Error e))))
          | None \<Rightarrow>
              bindE (logE (store_UpdateDeliveryStatus (id_ID delivery) DeliveryStatusSuccess (Some 200)
                (Some durationMs) None)) (\<lambda>u.
              logE (store_UpdateIntegrationSubscriptionStats (is_ID sub) True None)))))"

definition DeliverEvent :: "(string \<Rightarrow> deliverer option) \<Rightarrow> IntegrationEvent \<Rightarrow> (world, unit) go" where
  "DeliverEvent deliverers event =
     bindE (store_GetActiveIntegrationSubscriptionsForEvent (ie_AccountID event) (ie_Type event) (ie_CampaignID event)) (\<lambda>subs.
     forE subs (\<lambda>sub. deliverToSubscription deliverers sub event))"

text \<open>What the service passes on.\<close>

definition is_GetDeliverer :: "(string \<Rightarrow> deliverer option) \<Rightarrow> string \<Rightarrow> deliverer option" where
  "is_GetDeliverer deliverers integrationType = deliverers integrationType"

definition is_Deliver ::
    "(string \<Rightarrow> deliverer option) \<Rightarrow> IntegrationSubscription \<Rightarrow> IntegrationEvent \<Rightarrow> (world, unit) go" where
  "is_Deliver = deliverToSubscription"

definition is_GetSubscriptionsByAccount :: "uuid \<Rightarrow> string option \<Rightarrow> (world, IntegrationSubscription list) go" where
  "is_GetSubscriptionsByAccount = store_GetIntegrationSubscriptionsByAccount"

definition is_GetDeliveriesByAccount :: "uuid \<Rightarrow> int \<Rightarrow> int \<Rightarrow> (world, IntegrationDelivery list) go" where
  "is_GetDeliveriesByAccount = store_GetDeliveriesByAccount"

text \<open>The consumer.\<close>

definition integrations_Process :: "(string \<Rightarrow> deliverer option) \<Rightarrow> EventMessage \<Rightarrow> (world, unit) go" where
  "integrations_Process deliverers event =
     bindE (getE w_uuid_Parse) (\<lambda>parse.
     case parse (em_AccountID event) of
       None \<Rightarrow> failE (Wrap ''invalid account_id'' (ExtErr ''invalid UUID''))
     | Some accountID \<Rightarrow>
        (let deliver = (\<lambda>campaignID.
           bindE (getE w_time_Parse) (\<lambda>time_parse. bindE (getE w_now) (\<lambda>now.
           logE (DeliverEvent deliverers \<lparr>ie_ID = em_ID event, ie_Type = em_Type event, ie_AccountID = accountID,
             ie_CampaignID = campaignID, ie_Data = em_Data event,
             ie_Timestamp = (case time_parse RFC3339 (em_Timestamp event) of None \<Rightarrow> now | Some t \<Rightarrow> t)\<rparr>)))) in
         case em_CampaignID event of
           None \<Rightarrow> deliver None
         | Some s \<Rightarrow> (case parse s of
               None \<Rightarrow> failE (Wrap ''invalid campaign_id'' (ExtErr ''invalid UUID''))
             | Some c \<Rightarrow> deliver (Some c))))"

end
