(* ===== verification/Zapier.thy ===== *)
theory Zapier
  imports Integrations
begin

text \<open>
  The Zapier endpoints, integrations/zapier/handler.go: subscribing, unsubscribing and the sample
  data behind APIKeyMiddleware (theory ApiKeys), and the management endpoints of the UI.
\<close>

definition zp_handleError :: "err \<Rightarrow> (world, 'b reply) go" where
  "zp_handleError e = (if errors_Is e ErrNotFound then api_NotFound ''Subscription not found'' else api_InternalError e)"

definition hashAPIKey :: "(string \<Rightarrow> nat list) \<Rightarrow> string \<Rightarrow> string" where
  "hashAPIKey sha apiKey = hex_EncodeToString (sha (TrimSpace apiKey))"

record SubscribeRequest =
  sbr_HookURL :: string
  sbr_Event :: string
  sbr_CampaignID :: "string option"

record AccountInfo =
  ai_ID :: string
  ai_Name :: string
  ai_Email :: string

text \<open>Whether a text is a URL is the validator's decision, the parameter \<^verbatim>\<open>is_url\<close>.\<close>

definition subscribe_tags :: "(string \<Rightarrow> bool) \<Rightarrow> SubscribeRequest \<Rightarrow> FieldError list" where
  "subscribe_tags is_url req =
     tag_required ''HookURL'' (sbr_HookURL req \<noteq> '''')
       (if is_url (sbr_HookURL req) then [] else [\<lparr>fe_Field = ''HookURL'', fe_Tag = ''url'', fe_Param = ''''\<rparr>]) @
     tag_required ''Event'' (sbr_Event req \<noteq> '''') []"

definition isValidEventType :: "string \<Rightarrow> bool" where
  "isValidEventType eventType = list_ex (\<lambda>valid. eventType = valid)
     [EventUserCreated, EventUserUpdated, EventUserVerified, EventUserDeleted, EventUserPositionChanged,
      EventUserConverted, EventReferralCreated, EventReferralVerified, EventReferralConverted,
      EventRewardEarned, EventRewardDelivered, EventRewardRedeemed, EventCampaignMilestone,
      EventCampaignLaunched, EventCampaignCompleted, EventEmailSent, EventEmailDelivered,
      EventEmailOpened, EventEmailClicked, EventEmailBounced]"

definition HandleMe :: "string \<Rightarrow> string \<Rightarrow> AccountInfo handler" where
  "HandleMe accountID apiKeyID =
     retE (JSON 200 \<lparr>ai_ID = accountID, ai_Name = ''Connected Account'', ai_Email = ''''\<rparr>)"

definition HandleSubscribe ::
    "(string \<Rightarrow> bool) \<Rightarrow> SubscribeRequest option \<Rightarrow> string \<Rightarrow> string \<Rightarrow> string handler" where
  "HandleSubscribe is_url body accountIDStr apiKeyIDStr =
     bindE (parse_or_nil accountIDStr) (\<lambda>accountID.
     tryE (HasFeatureByAccountID accountID ''webhooks_zapier'') zp_handleError (\<lambda>hasFeature.
     if \<not> hasFeature
     then api_Forbidden ''FEATURE_NOT_AVAILABLE''
       ''Zapier integration is not available in your plan. Please upgrade to Team plan.''
     else bind_json body (subscribe_tags is_url) (\<lambda>req.
     bindE (parse_or_nil apiKeyIDStr) (\<lambda>apiKeyID.
     if \<not> isValidEventType (sbr_Event req) then gin_error 400 ''invalid event type''
     else
       (let subscribe = (\<lambda>campaignID.
          tryE (store_CreateIntegrationSubscription \<lparr>csp_AccountID = accountID, csp_APIKeyID = Some apiKeyID,
                  csp_IntegrationType = IntegrationZapier, csp_TargetURL = sbr_HookURL req,
                  csp_EventType = sbr_Event req, csp_CampaignID = campaignID, csp_Config = None\<rparr>)
            zp_handleError (\<lambda>subscription.
          bindE (getE w_uuid_String) (\<lambda>str. retE (JSON 201 (str (is_ID subscription)))))) in
        case sbr_CampaignID req of
          None \<Rightarrow> subscribe None
        | Some s \<Rightarrow> if s = '''' then subscribe None
                    else parse_id ''invalid campaign_id'' s (\<lambda>c. subscribe (Some c)))))))"

definition HandleUnsubscribe :: "string \<Rightarrow> string \<Rightarrow> string \<Rightarrow> unit handler" where
  "HandleUnsubscribe subscriptionIDStr accountIDStr apiKeyIDStr =
     parse_id ''invalid subscription id'' subscriptionIDStr (\<lambda>subscriptionID.
     bindE (parse_or_nil accountIDStr) (\<lambda>accountID.
     tryE (store_GetIntegrationSubscriptionByID subscriptionID) zp_handleError (\<lambda>subscription.
     if is_AccountID subscription \<noteq> accountID then gin_error 403 ''subscription not found''
     else tryE (store_DeleteIntegrationSubscription subscriptionID) zp_handleError (\<lambda>u.
     retE (JSON 200 ())))))"

record CampaignListItem =
  cli_ID :: string
  cli_Name :: string

definition zp_HandleListCampaigns :: "string \<Rightarrow> string \<Rightarrow> CampaignListItem list handler" where
  "zp_HandleListCampaigns accountIDStr apiKeyIDStr =
     parse_id ''invalid account id'' accountIDStr (\<lambda>accountID.
     tryE (store_ListCampaigns \<lparr>lcp_AccountID = accountID, lcp_Status = None, lcp_Type = None,
             lcp_Page = 1, lcp_Limit = 100\<rparr>) zp_handleError (\<lambda>res.
     bindE (getE w_uuid_String) (\<lambda>str.
     retE (JSON 200 (map (\<lambda>campaign. \<lparr>cli_ID = str (cp_ID campaign), cli_Name = cp_Name campaign\<rparr>)
       (lcr_Campaigns res))))))"

section \<open>Sample data\<close>

text \<open>\<^verbatim>\<open>prefix + uuid.New().String()[:8]\<close>\<close>

definition sample_id :: "string \<Rightarrow> (world, jval) go" where
  "sample_id prefix = bindE uuid_New (\<lambda>i. bindE (getE w_uuid_String) (\<lambda>str.
     retE (JStr (prefix @ take 8 (str i)))))"

definition time_ago :: "int \<Rightarrow> (world, jval) go" where
  "time_ago ns = bindE (getE w_now) (\<lambda>now. bindE (getE w_time_Format) (\<lambda>format. retE (JStr (format (now - ns)))))"

definition sample_data :: "string \<Rightarrow> (world, jval) go" where
  "sample_data eventType =
     (if eventType \<in> {EventUserCreated, EventUserVerified, EventUserUpdated} then
        bindE (sample_id ''usr_'') (\<lambda>i. bindE (time_ago (24 * ns_hour)) (\<lambda>t.
        retE (JObj [(''user'', JObj [(''id'', i), (''email'', JStr ''john.doe@example.com''),
          (''first_name'', JStr ''John''), (''last_name'', JStr ''Doe''), (''position'', JInt 42),
          (''referral_code'', JStr ''JOHN123''), (''referral_count'', JInt 5), (''points'', JInt 150),
          (''status'', JStr ''verified''), (''created_at'', t)])])))
      else if eventType = EventUserPositionChanged then
        bindE (sample_id ''usr_'') (\<lambda>i.
        retE (JObj [(''user'', JObj [(''id'', i), (''email'', JStr ''john.doe@example.com''), (''position'', JInt 35)]),
          (''old_position'', JInt 42), (''new_position'', JInt 35)]))
      else if eventType \<in> {EventReferralCreated, EventReferralVerified} then
        bindE (sample_id ''ref_'') (\<lambda>i. bindE (sample_id ''usr_'') (\<lambda>j. bindE (sample_id ''usr_'') (\<lambda>k.
        bindE (time_ago ns_hour) (\<lambda>t.
        retE (JObj [(''referral'', JObj [(''id'', i), (''referrer_id'', j), (''referred_id'', k),
          (''status'', JStr ''verified''), (''points_award'', JInt 25), (''created_at'', t)])])))))
      else if eventType \<in> {EventRewardEarned, EventRewardDelivered} then
        bindE (sample_id ''rwd_'') (\<lambda>i. bindE (sample_id ''usr_'') (\<lambda>j.
        retE (JObj [(''reward'', JObj [(''id'', i), (''name'', JStr ''Early Access''),
            (''description'', JStr ''Get early access to the product''), (''type'', JStr ''access'')]),
          (''user'', JObj [(''id'', j), (''email'', JStr ''john.doe@example.com'')])])))
      else if eventType = EventCampaignMilestone then
        retE (JObj [(''milestone'', JInt 1000), (''total_signups'', JInt 1000)])
      else if eventType \<in> {EventEmailSent, EventEmailOpened, EventEmailClicked} then
        bindE (sample_id ''eml_'') (\<lambda>i. bindE (time_ago 0) (\<lambda>t.
        retE (JObj [(''email'', JObj [(''id'', i), (''to'', JStr ''john.doe@example.com''),
          (''subject'', JStr ''Welcome to the waitlist!''), (''template'', JStr ''welcome''), (''opened_at'', t)])])))
      else retE (JObj []))"

definition getSampleDataForEvent :: "string \<Rightarrow> (world, (string \<times> jval) list option) go" where
  "getSampleDataForEvent eventType =
     (if \<not> isValidEventType eventType then retE None
      else bindE (sample_id ''evt_'') (\<lambda>i. bindE (time_ago 0) (\<lambda>t.
      bindE (sample_id ''acc_'') (\<lambda>a. bindE (sample_id ''cmp_'') (\<lambda>c.
      bindE (sample_data eventType) (\<lambda>data.
      retE (Some [(''id'', i), (''event'', JStr eventType), (''occurred_at'', t), (''account_id'', a),
        (''campaign_id'', c), (''data'', data)])))))))"

definition HandleSampleData :: "string \<Rightarrow> string \<Rightarrow> string \<Rightarrow> (string \<times> jval) list list handler" where
  "HandleSampleData eventType accountIDStr apiKeyIDStr =
     bindE (getSampleDataForEvent eventType) (\<lambda>sample.
     case sample of None \<Rightarrow> gin_error 404 ''unknown event type'' | Some s \<Rightarrow> retE (JSON 200 [s]))"

section \<open>Management endpoints\<close>

record StatusResponse =
  str_Connected :: bool
  str_ActiveSubscriptions :: int

record SubscriptionResponse =
  sbq_ID :: string
  sbq_EventType :: string
  sbq_CampaignID :: "string option"
  sbq_Status :: string
  sbq_TriggerCount :: int
  sbq_LastTriggeredAt :: "string option"
  sbq_CreatedAt :: string

definition HandleStatus :: "string \<Rightarrow> StatusResponse handler" where
  "HandleStatus accountIDStr =
     parse_id ''invalid account id'' accountIDStr (\<lambda>accountID.
     tryE (store_GetIntegrationSubscriptionsByAccount accountID (Some IntegrationZapier)) zp_handleError (\<lambda>subscriptions.
     retE (JSON 200 \<lparr>str_Connected = (0 < length subscriptions),
       str_ActiveSubscriptions = int (length subscriptions)\<rparr>)))"

definition HandleSubscriptions :: "string \<Rightarrow> SubscriptionResponse list handler" where
  "HandleSubscriptions accountIDStr =
     parse_id ''invalid account id'' accountIDStr (\<lambda>accountID.
     tryE (store_GetIntegrationSubscriptionsByAccount accountID (Some IntegrationZapier)) zp_handleError (\<lambda>subscriptions.
     bindE (getE w_uuid_String) (\<lambda>str. bindE (getE w_time_Format) (\<lambda>format.
     retE (JSON 200 (map (\<lambda>sub. \<lparr>sbq_ID = str (is_ID sub), sbq_EventType = is_EventType sub,
       sbq_CampaignID = map_option str (is_CampaignID sub), sbq_Status = is_Status sub,
       sbq_TriggerCount = is_TriggerCount sub, sbq_LastTriggeredAt = map_option format (is_LastTriggeredAt sub),
       sbq_CreatedAt = format (is_CreatedAt sub)\<rparr>) subscriptions))))))"

definition HandleDisconnect :: "string \<Rightarrow> unit handler" where
  "HandleDisconnect accountIDStr =
     parse_id ''invalid account id'' accountIDStr (\<lambda>accountID.
     tryE (store_GetIntegrationSubscriptionsByAccount accountID (Some IntegrationZapier)) zp_handleError (\<lambda>subscriptions.
     bindE (forE subscriptions (\<lambda>sub. logE (store_DeleteIntegrationSubscription (is_ID sub)))) (\<lambda>u.
     retE (JSON 200 ()))))"

end
