(* ===== verification/IntegrationFacts.thy ===== *)
theory IntegrationFacts
  imports Zapier WaitlistFacts
begin

text \<open>
  API keys and integrations from the outside: the text of a key authenticates its account until
  the key expires or is revoked, a revoked key's subscriptions stay, and the service as the
  server starts it delivers to no subscription at all.
\<close>

section \<open>Keys\<close>

lemma parse_id_Ok [ok_simps]:
  "parse_id msg s k w = (Ok x, w') \<longleftrightarrow>
     (case w_uuid_Parse w s of None \<Rightarrow> x = ErrorResponse 400 msg '''' \<and> w' = w | Some i \<Rightarrow> k i w = (Ok x, w'))"
  by (auto simp: parse_id_def gin_error_def go_defs split: option.split)

lemma bind_json_Ok:
  "bind_json body tags k w = (Ok (JSON n b), w') \<longleftrightarrow> (\<exists>req. body = Some req \<and> tags req = [] \<and> k req w = (Ok (JSON n b), w'))"
  by (auto simp: bind_json_def ValidationError_def respond_def go_defs split: option.split)

lemma respond_not_JSON [simp]:
  "gin_error st msg w \<noteq> (Ok (JSON n b), w')" "api_NotFound msg w \<noteq> (Ok (JSON n b), w')"
  "ak_handleError e w \<noteq> (Ok (JSON n b), w')" "api_InternalError e w \<noteq> (Ok (JSON n b), w')"
  by (auto simp: gin_error_def ak_handleError_def api_NotFound_def api_InternalError_def respond_def go_defs)

lemma valid_scope_plain: "list_ex (\<lambda>v. s = v) ValidScopes \<Longrightarrow> plain_item s \<and> s \<noteq> ''''"
  by (auto simp: ValidScopes_def plain_item_def is_space_def)

lemma valid_scopes_stored: "invalid_scope scopes = None \<Longrightarrow> stored_strings scopes = scopes"
  using valid_scope_plain by (intro stored_strings_plain ballI) (auto simp: invalid_scope_def find_None_iff)

lemma generateAPIKey_Ok:
  assumes "generateAPIKey w = (Ok (rawKey, keyHash, keyPrefix), w')"
  shows "keyHash = hash_of_key (w_sha256 w) rawKey" "rawKey \<noteq> ''''" "\<exists>n. w' = w\<lparr>w_rand_n := n\<rparr>"
  using assms by (auto simp: generateAPIKey_def ok_simps rand_Read_def Let_def split: option.splits)

lemma create_key_Ok:
  assumes "create_key a usr req scopes w = (Ok (JSON st resp), w')" "invalid_scope scopes = None"
  shows "\<exists>k. t_api_keys w' = t_api_keys w @ [k] \<and> ak_AccountID k = a \<and> ak_Status k = ''active'' \<and>
    ak_Scopes k = scopes \<and> ak_ExpiresAt k = expires_in (w_now w) (ckr_ExpiresIn req) \<and>
    ak_KeyHash k = hash_of_key (w_sha256 w) (ckq_Key resp) \<and> ckq_Key resp \<noteq> '''' \<and>
    ak_KeyHash k \<notin> ak_KeyHash ` set (t_api_keys w) \<and> ak_ID k \<notin> ak_ID ` set (t_api_keys w)"
proof -
  obtain rawKey keyHash keyPrefix w1 k w2 where g: "generateAPIKey w = (Ok (rawKey, keyHash, keyPrefix), w1)"
    and k: "store_CreateAPIKey \<lparr>ckp_AccountID = a, ckp_Name = ckr_Name req, ckp_KeyHash = keyHash,
             ckp_KeyPrefix = keyPrefix, ckp_Scopes = scopes, ckp_RateLimitTier = ''standard'',
             ckp_ExpiresAt = expires_in (w_now w1) (ckr_ExpiresIn req), ckp_CreatedBy = usr\<rparr> w1 = (Ok k, w2)"
    and resp: "ckq_Key resp = rawKey" "w' = w2"
    using assms(1) by (auto simp: create_key_def key_created_def tryE_Ok bindE_Ok getE_Ok retE_Ok)
  obtain n where w1: "w1 = w\<lparr>w_rand_n := n\<rparr>" using generateAPIKey_Ok(3) [OF g] by blast
  show ?thesis
    using k resp generateAPIKey_Ok(1,2) [OF g] valid_scopes_stored [OF assms(2)] w1
    by (intro exI [of _ k]) (auto simp: store_CreateAPIKey_def wrapE_Ok sql_insert_Ok api_key_check_def ticked_def split: if_splits)
qed

lemma HandleCreateAPIKey_Ok:
  assumes "HandleCreateAPIKey accountIDStr userIDStr body w = (Ok (JSON st resp), w')"
  shows "\<exists>a k req. w_uuid_Parse w accountIDStr = Some a \<and> body = Some req \<and> ckr_Scopes req = Some (ak_Scopes k) \<and>
    t_api_keys w' = t_api_keys w @ [k] \<and> ak_AccountID k = a \<and> ak_Status k = ''active'' \<and>
    ak_ExpiresAt k = expires_in (w_now w) (ckr_ExpiresIn req) \<and>
    ak_KeyHash k = hash_of_key (w_sha256 w) (ckq_Key resp) \<and> ckq_Key resp \<noteq> '''' \<and>
    ak_KeyHash k \<notin> ak_KeyHash ` set (t_api_keys w) \<and> ak_ID k \<notin> ak_ID ` set (t_api_keys w)"
proof -
  obtain a where a: "w_uuid_Parse w accountIDStr = Some a"
    using assms by (auto simp: HandleCreateAPIKey_def parse_id_Ok split: option.splits)
  obtain req where req: "body = Some req" "create_key_tags req = []"
    and h: "(let scopes = (case ckr_Scopes req of None \<Rightarrow> [] | Some ss \<Rightarrow> ss) in
      case invalid_scope scopes of
        Some scope \<Rightarrow> gin_error 400 (''invalid scope: '' @ scope)
      | None \<Rightarrow> create_key a (if userIDStr \<noteq> '''' then w_uuid_Parse w userIDStr else None) req scopes) w
        = (Ok (JSON st resp), w')"
    using assms a by (auto simp: HandleCreateAPIKey_def parse_id_Ok bindE_Ok getE_Ok bind_json_Ok)
  obtain scopes where sc: "ckr_Scopes req = Some scopes"
    using req(2) by (auto simp: create_key_tags_def tag_required_def split: if_splits)
  have inv: "invalid_scope scopes = None"
    using h sc by (cases "invalid_scope scopes") auto
  show ?thesis
    using create_key_Ok [OF _ inv] h sc inv a req(1) by fastforce
qed

text \<open>What the middleware does with a key that the table has, and with one it has not.\<close>

lemma middleware_accepts:
  assumes "filter (usable_key (w_now v) (hash_of_key (w_sha256 v) key)) (t_api_keys v) = k # ks" "key \<noteq> ''''"
    "list_ex zapier_scope (ak_Scopes k)" "no_faults v"
  shows "\<exists>rows n. APIKeyMiddleware key handle v =
    handle (w_uuid_String v (ak_AccountID k)) (w_uuid_String v (ak_ID k)) (v\<lparr>t_api_keys := rows, w_calls := n\<rparr>)"
proof -
  have g: "store_GetAPIKeyByHash (hash_of_key (w_sha256 v) key) v = (Ok k, ticked v)"
    using assms(1,4) by (simp add: store_GetAPIKeyByHash_def row_or_Ok sql_get_Ok no_faults_def ticked_def)
  let ?rows = "upd_where (\<lambda>r. ak_ID r = ak_ID k)
    (\<lambda>r. r\<lparr>ak_LastUsedAt := Some (w_now v), ak_TotalRequests := ak_TotalRequests r + 1\<rparr>) (t_api_keys v)"
  have u: "logE (store_UpdateAPIKeyUsage (ak_ID k)) (ticked v) = (Ok (), v\<lparr>t_api_keys := ?rows, w_calls := Suc (Suc (w_calls v))\<rparr>)"
    using assms(4)
    by (simp add: store_UpdateAPIKeyUsage_def exec_or_def sql_update_def db_def no_faults_def ticked_def
        Let_def no_check_def go_defs)
  show ?thesis
    using assms(2,3) g u
    by (intro exI [of _ ?rows] exI [of _ "Suc (Suc (w_calls v))"]) (simp add: APIKeyMiddleware_def bindE_def tryE_def getE_def)
qed

lemma middleware_refuses:
  assumes "filter (usable_key (w_now v) (hash_of_key (w_sha256 v) key)) (t_api_keys v) = []" "no_faults v" "key \<noteq> ''''"
  shows "APIKeyMiddleware key handle v = (Ok (ErrorResponse 401 ''invalid API key'' ''''), ticked v)"
proof -
  have "store_GetAPIKeyByHash (hash_of_key (w_sha256 v) key) v = (Err ErrNotFound, ticked v)"
    using assms by (simp add: store_GetAPIKeyByHash_def row_or_def tryE_def failE_def sql_get_no_faults ticked_def)
  then show ?thesis
    using assms(3) by (simp add: APIKeyMiddleware_def bindE_def tryE_def getE_def gin_error_def retE_def)
qed

lemma HandleRevokeAPIKey_Ok:
  assumes "HandleRevokeAPIKey accountIDStr userIDStr keyIDStr w = (Ok (JSON st b), w')"
  shows "\<exists>a i u k n. w_uuid_Parse w accountIDStr = Some a \<and> w_uuid_Parse w keyIDStr = Some i \<and>
    k \<in> set (t_api_keys w) \<and> ak_ID k = i \<and> ak_AccountID k = a \<and>
    w' = w\<lparr>t_api_keys := upd_where (\<lambda>k. ak_ID k = i \<and> ak_Status k = ''active'')
      (\<lambda>k. k\<lparr>ak_Status := ''revoked'', ak_RevokedAt := Some (w_now w), ak_RevokedBy := Some u\<rparr>) (t_api_keys w), w_calls := n\<rparr>"
proof -
  obtain a i u where p: "w_uuid_Parse w accountIDStr = Some a" "w_uuid_Parse w keyIDStr = Some i" "w_uuid_Parse w userIDStr = Some u"
    and h: "account_key a i (\<lambda>apiKey.
     tryE (store_RevokeAPIKey i u)
       (\<lambda>e. if errors_Is e ErrNotFound then api_NotFound ''API key not found or already revoked'' else ak_handleError e)
       (\<lambda>u. retE (JSON 200 ()))) w = (Ok (JSON st b), w')"
    using assms by (auto simp: HandleRevokeAPIKey_def parse_id_Ok split: option.splits)
  obtain k where g: "store_GetAPIKeyByID i w = (Ok k, ticked w)" "ak_AccountID k = a"
    and r: "store_RevokeAPIKey i u (ticked w) = (Ok (), w')"
    using h by (auto simp: account_key_def tryE_Ok retE_Ok store_GetAPIKeyByID_def row_or_Ok sql_get_Ok split: if_splits)
  have "k \<in> set (filter (\<lambda>k. ak_ID k = i) (t_api_keys (ticked w)))"
    using g(1) by (auto simp: store_GetAPIKeyByID_def row_or_Ok sql_get_Ok filter_eq_Cons_iff)
  then have "k \<in> set (t_api_keys w)" "ak_ID k = i" by (auto simp: ticked_def)
  then show ?thesis
    using p g(2) r
    by (intro exI [of _ a] exI [of _ i] exI [of _ u] exI [of _ k] exI [of _ "w_calls w'"] conjI)
      (auto simp: store_RevokeAPIKey_def affected_or_Ok sql_update_Ok ticked_def)
qed

section \<open>Properties\<close>

text \<open>C31: The text of a new API key authenticates the account it was made for: as long as the keys
  of the table are those of the creation, a request with it reaches the handler with the ids of that
  account and key if a scope is zapier or all, and is refused once the key has expired. Nothing but
  the usage columns of the keys changes on the way.\<close>

theorem api_key_authenticates:
  assumes "HandleCreateAPIKey accountIDStr userIDStr body w = (Ok (JSON st resp), w')"
    "t_api_keys v = t_api_keys w'" "w_sha256 v = w_sha256 w" "no_faults v"
  shows "\<exists>a k. w_uuid_Parse w accountIDStr = Some a \<and> t_api_keys w' = t_api_keys w @ [k] \<and> ak_AccountID k = a \<and>
    (if \<exists>t. ak_ExpiresAt k = Some t \<and> t \<le> w_now v
     then APIKeyMiddleware (ckq_Key resp) handle v = (Ok (ErrorResponse 401 ''invalid API key'' ''''), ticked v)
     else ''zapier'' \<in> set (ak_Scopes k) \<or> ''all'' \<in> set (ak_Scopes k) \<longrightarrow>
       (\<exists>rows n. APIKeyMiddleware (ckq_Key resp) handle v =
         handle (w_uuid_String v a) (w_uuid_String v (ak_ID k)) (v\<lparr>t_api_keys := rows, w_calls := n\<rparr>)))"
proof -
  obtain a k where k: "w_uuid_Parse w accountIDStr = Some a" "t_api_keys w' = t_api_keys w @ [k]" "ak_AccountID k = a"
      "ak_Status k = ''active''" "ak_KeyHash k = hash_of_key (w_sha256 w) (ckq_Key resp)" "ckq_Key resp \<noteq> ''''"
      "ak_KeyHash k \<notin> ak_KeyHash ` set (t_api_keys w)"
    using HandleCreateAPIKey_Ok [OF assms(1)] by blast
  let ?e = "\<exists>t. ak_ExpiresAt k = Some t \<and> t \<le> w_now v"
  have f: "filter (usable_key (w_now v) (hash_of_key (w_sha256 v) (ckq_Key resp))) (t_api_keys v) = (if ?e then [] else [k])"
    using k(4,5,7) by (auto simp: assms(2,3) k(2) usable_key_def filter_empty_conv image_iff split: option.splits)
  have "''zapier'' \<in> set (ak_Scopes k) \<or> ''all'' \<in> set (ak_Scopes k) \<Longrightarrow> list_ex zapier_scope (ak_Scopes k)"
    by (auto simp: list_ex_iff zapier_scope_def)
  then show ?thesis
    using k f middleware_refuses [of v "ckq_Key resp" handle] middleware_accepts [of v "ckq_Key resp" k "[]" handle] assms(4)
    by (intro exI [of _ a] exI [of _ k]) auto
qed

definition key_request :: CreateAPIKeyRequest where
  "key_request = \<lparr>ckr_Name = ''zap'', ckr_Scopes = Some [''zapier''], ckr_ExpiresIn = None\<rparr>"

theorem api_key_authenticates_witness:
  "\<exists>st resp w' k. HandleCreateAPIKey ''x'' '''' (Some key_request) sample_world = (Ok (JSON st resp), w') \<and>
     t_api_keys w' = [k] \<and> ak_AccountID k = 1"
proof -
  have "case fst (HandleCreateAPIKey ''x'' '''' (Some key_request) sample_world) of Ok (JSON n r) \<Rightarrow> True | _ \<Rightarrow> False" by code_simp
  then obtain st resp w' where r: "HandleCreateAPIKey ''x'' '''' (Some key_request) sample_world = (Ok (JSON st resp), w')"
    by (cases "HandleCreateAPIKey ''x'' '''' (Some key_request) sample_world") (auto split: result.splits reply.splits)
  have "no_faults (sample_world\<lparr>t_api_keys := t_api_keys w'\<rparr>)"
    using sample_world_no_faults by (simp add: no_faults_def)
  then obtain a k where "w_uuid_Parse sample_world ''x'' = Some a" "t_api_keys w' = t_api_keys sample_world @ [k]" "ak_AccountID k = a"
    using api_key_authenticates [OF r, of "sample_world\<lparr>t_api_keys := t_api_keys w'\<rparr>" HandleMe] by auto
  then show ?thesis using r by (auto simp: sample_world_def empty_world_def)
qed

text \<open>A revoked key authenticates nothing any more, whatever its expiry; the keys of other
  ids stay as they are. The subscriptions made with the key are not touched by the revocation, so
  the events of the account are still meant for them.\<close>

theorem revoked_key_refused:
  assumes "HandleRevokeAPIKey accountIDStr userIDStr keyIDStr w = (Ok (JSON st b), w')"
    "k \<in> set (t_api_keys w)" "w_uuid_Parse w keyIDStr = Some (ak_ID k)"
    "distinct (map ak_ID (t_api_keys w))" "distinct (map ak_KeyHash (t_api_keys w))"
    "ak_KeyHash k = hash_of_key (w_sha256 v) key" "key \<noteq> ''''" "t_api_keys v = t_api_keys w'" "no_faults v"
  shows "APIKeyMiddleware key handle v = (Ok (ErrorResponse 401 ''invalid API key'' ''''), ticked v) \<and>
    w_uuid_Parse w accountIDStr = Some (ak_AccountID k) \<and>
    filter (\<lambda>r. ak_ID r \<noteq> ak_ID k) (t_api_keys w') = filter (\<lambda>r. ak_ID r \<noteq> ak_ID k) (t_api_keys w) \<and>
    t_integration_subscriptions w' = t_integration_subscriptions w"
proof -
  obtain a k' u n where k': "w_uuid_Parse w accountIDStr = Some a" "k' \<in> set (t_api_keys w)" "ak_ID k' = ak_ID k" "ak_AccountID k' = a"
    and w': "w' = w\<lparr>t_api_keys := upd_where (\<lambda>r. ak_ID r = ak_ID k \<and> ak_Status r = ''active'')
      (\<lambda>r. r\<lparr>ak_Status := ''revoked'', ak_RevokedAt := Some (w_now w), ak_RevokedBy := Some u\<rparr>) (t_api_keys w), w_calls := n\<rparr>"
    using HandleRevokeAPIKey_Ok [OF assms(1)] assms(3) by auto
  have "k' = k" using k'(2,3) assms(2,4) by (auto simp: distinct_map dest: inj_onD)
  have same: "r = k" if "r \<in> set (t_api_keys w)" "ak_KeyHash r = ak_KeyHash k" for r
    using that assms(2,5) by (auto simp: distinct_map dest: inj_onD)
  have "filter (usable_key (w_now v) (hash_of_key (w_sha256 v) key)) (t_api_keys v) = []"
    using same by (auto simp: assms(8) w' assms(6) [symmetric] upd_where_def filter_empty_conv usable_key_def)
  moreover have "filter (\<lambda>r. ak_ID r \<noteq> ak_ID k) (upd_where (\<lambda>r. ak_ID r = ak_ID k \<and> P r)
      (\<lambda>r. r\<lparr>ak_Status := ''revoked'', ak_RevokedAt := x, ak_RevokedBy := y\<rparr>) rows) = filter (\<lambda>r. ak_ID r \<noteq> ak_ID k) rows" for P x y rows
    by (induction rows) (auto simp: upd_where_def)
  ultimately show ?thesis
    using middleware_refuses [of v key handle] assms(7,9) k'(1,4) \<open>k' = k\<close> by (simp add: w')
qed

definition sample_key :: APIKey where
  "sample_key = \<lparr>ak_ID = 2, ak_AccountID = 1, ak_Name = ''zap'', ak_KeyHash = ''03'', ak_KeyPrefix = ''sk_'',
     ak_Scopes = [''zapier''], ak_RateLimitTier = ''standard'', ak_Status = ''active'', ak_LastUsedAt = None,
     ak_TotalRequests = 0, ak_ExpiresAt = None, ak_CreatedBy = None, ak_CreatedAt = 1, ak_RevokedAt = None,
     ak_RevokedBy = None\<rparr>"

definition key_world :: world where
  "key_world = sample_world\<lparr>t_api_keys := [sample_key]\<rparr>"

theorem revoked_key_refused_witness:
  "\<exists>st w'. HandleRevokeAPIKey ''x'' ''uvw'' ''ab'' key_world = (Ok (JSON st ()), w') \<and>
     APIKeyMiddleware ''abc'' HandleMe (key_world\<lparr>t_api_keys := t_api_keys w'\<rparr>) =
       (Ok (ErrorResponse 401 ''invalid API key'' ''''), ticked (key_world\<lparr>t_api_keys := t_api_keys w'\<rparr>))"
proof -
  have "case fst (HandleRevokeAPIKey ''x'' ''uvw'' ''ab'' key_world) of Ok (JSON n r) \<Rightarrow> True | _ \<Rightarrow> False" by code_simp
  then obtain st w' where r: "HandleRevokeAPIKey ''x'' ''uvw'' ''ab'' key_world = (Ok (JSON st ()), w')"
    by (cases "HandleRevokeAPIKey ''x'' ''uvw'' ''ab'' key_world") (auto split: result.splits reply.splits)
  let ?v = "key_world\<lparr>t_api_keys := t_api_keys w'\<rparr>"
  have "sample_key \<in> set (t_api_keys key_world)" "w_uuid_Parse key_world ''ab'' = Some (ak_ID sample_key)"
    "distinct (map ak_ID (t_api_keys key_world))" "distinct (map ak_KeyHash (t_api_keys key_world))"
    by (simp_all add: key_world_def sample_key_def sample_world_def empty_world_def)
  moreover have "ak_KeyHash sample_key = hash_of_key (w_sha256 ?v) ''abc''"
    by (simp add: key_world_def sample_key_def sample_world_def empty_world_def hash_of_key_def hex_EncodeToString_def hex_digit_def)
  moreover have "no_faults ?v" by (simp add: key_world_def no_faults_def)
  ultimately have "APIKeyMiddleware ''abc'' HandleMe ?v = (Ok (ErrorResponse 401 ''invalid API key'' ''''), ticked ?v)"
    using revoked_key_refused [OF r, of sample_key ?v "''abc''" HandleMe] by simp
  then show ?thesis using r by blast
qed


end
