(* ===== verification/EmailTemplates.thy ===== *)
theory EmailTemplates
  imports Blasts Access
begin

text \<open>
  The stored e-mail templates: store/campaign_email_template.go with the e-mail logs,
  store/blast_email_template.go, campaignemails/processor/processor.go and
  blastemails/processor/processor.go. A campaign's template is for the mails its events cause, a
  blast template is an account's own. Template texts are parsed and rendered by the standard
  library, parameters of the world: rendering with a struct of fields (\<^verbatim>\<open>w_template_Execute\<close>)
  and with a map (\<^verbatim>\<open>w_template_Render\<close>).
\<close>

section \<open>Store: campaign templates\<close>

definition sql_email_template_type :: "string list" where
  "sql_email_template_type = [''verification'', ''welcome'', ''position_update'', ''reward_earned'', ''milestone'', ''custom'']"

definition sql_email_log_status :: "string list" where
  "sql_email_log_status = [''pending'', ''sent'', ''delivered'', ''opened'', ''clicked'', ''bounced'', ''failed'']"

abbreviation "email_logs_tbl \<equiv> (t_email_logs, t_email_logs_update)"

record CreateCampaignEmailTemplateParams =
  cct_CampaignID :: uuid
  cct_Name :: string
  cct_Type :: string
  cct_Subject :: string
  cct_HTMLBody :: string
  cct_BlocksJSON :: "jsonb option"
  cct_Enabled :: bool
  cct_SendAutomatically :: bool
  cct_VariantName :: "string option"
  cct_VariantWeight :: "int option"

definition campaign_template_ok :: "CampaignEmailTemplate \<Rightarrow> bool" where
  "campaign_template_ok t = (length (ct_Name t) \<le> 255 \<and> length (ct_Subject t) \<le> 255 \<and>
     varchar 100 (ct_VariantName t) \<and> ct_Type t \<in> set sql_email_template_type)"

definition campaign_template_insert_check ::
    "world \<Rightarrow> CampaignEmailTemplate list \<Rightarrow> CampaignEmailTemplate \<Rightarrow> string option" where
  "campaign_template_insert_check w rows r =
     (if ct_ID r \<in> ct_ID ` set rows then Some ''campaign_email_templates_pkey''
      else if ct_CampaignID r \<notin> cp_ID ` set (t_campaigns w) then Some ''email_templates_campaign_id_fkey''
      else if \<not> campaign_template_ok r then Some ''campaign_email_templates'' else None)"

definition store_CreateCampaignEmailTemplate ::
    "CreateCampaignEmailTemplateParams \<Rightarrow> (world, CampaignEmailTemplate) go" where
  "store_CreateCampaignEmailTemplate p = wrapE ''failed to create campaign email template''
     (sql_insert campaign_templates_tbl campaign_template_insert_check (\<lambda>i now. \<lparr>
        ct_ID = i, ct_CampaignID = cct_CampaignID p, ct_Name = cct_Name p, ct_Type = cct_Type p,
        ct_Subject = cct_Subject p, ct_HTMLBody = cct_HTMLBody p,
        ct_BlocksJSON = map_option jsonb_stored (cct_BlocksJSON p), ct_Enabled = cct_Enabled p,
        ct_SendAutomatically = cct_SendAutomatically p, ct_VariantName = cct_VariantName p,
        ct_VariantWeight = cct_VariantWeight p, ct_CreatedAt = now, ct_UpdatedAt = now, ct_DeletedAt = None\<rparr>))"

definition live_template :: "uuid \<Rightarrow> CampaignEmailTemplate \<Rightarrow> bool" where
  "live_template templateID t = (ct_ID t = templateID \<and> ct_DeletedAt t = None)"

definition store_GetCampaignEmailTemplateByID :: "uuid \<Rightarrow> (world, CampaignEmailTemplate) go" where
  "store_GetCampaignEmailTemplateByID templateID = row_or ''failed to get campaign email template''
     (sql_get (\<lambda>w. filter (live_template templateID) (t_campaign_templates w)))"

definition newest_templates :: "CampaignEmailTemplate list \<Rightarrow> CampaignEmailTemplate list" where
  "newest_templates = sort_Slice (\<lambda>a b. ct_CreatedAt b < ct_CreatedAt a)"

definition store_GetCampaignEmailTemplatesByCampaign :: "uuid \<Rightarrow> (world, CampaignEmailTemplate list) go" where
  "store_GetCampaignEmailTemplatesByCampaign campaignID = wrapE ''failed to get campaign email templates''
     (sql_query (\<lambda>w. newest_templates
        (filter (\<lambda>t. ct_CampaignID t = campaignID \<and> ct_DeletedAt t = None) (t_campaign_templates w))))"

definition store_GetCampaignEmailTemplatesByAccount :: "uuid \<Rightarrow> (world, CampaignEmailTemplate list) go" where
  "store_GetCampaignEmailTemplatesByAccount accountID = wrapE ''failed to get campaign email templates by account''
     (sql_query (\<lambda>w. newest_templates (filter (\<lambda>t. ct_DeletedAt t = None \<and>
          list_ex (\<lambda>c. cp_ID c = ct_CampaignID t \<and> cp_AccountID c = accountID \<and> cp_DeletedAt c = None) (t_campaigns w))
        (t_campaign_templates w))))"

definition store_GetCampaignEmailTemplateByType :: "uuid \<Rightarrow> string \<Rightarrow> (world, CampaignEmailTemplate) go" where
  "store_GetCampaignEmailTemplateByType campaignID templateType =
     row_or ''failed to get campaign email template by type''
       (if templateType \<notin> set sql_email_template_type
        then db (\<lambda>w. (Err (DbErr ''invalid input value for enum email_template_type''), w))
        else sql_get (\<lambda>w. newest_templates (filter (\<lambda>t. ct_CampaignID t = campaignID \<and> ct_Type t = templateType \<and>
          ct_Enabled t \<and> ct_DeletedAt t = None) (t_campaign_templates w))))"

record UpdateCampaignEmailTemplateParams =
  uct_Name :: "string option"
  uct_Subject :: "string option"
  uct_HTMLBody :: "string option"
  uct_BlocksJSON :: "jsonb option"
  uct_Enabled :: "bool option"
  uct_SendAutomatically :: "bool option"

definition campaign_template_check :: "CampaignEmailTemplate list \<Rightarrow> string option" where
  "campaign_template_check rows = (if list_all campaign_template_ok rows then None else Some ''campaign_email_templates'')"

definition store_UpdateCampaignEmailTemplate ::
    "uuid \<Rightarrow> UpdateCampaignEmailTemplateParams \<Rightarrow> (world, CampaignEmailTemplate) go" where
  "store_UpdateCampaignEmailTemplate templateID p = row_or ''failed to update campaign email template''
     (sql_update_returning campaign_templates_tbl campaign_template_check (live_template templateID)
        (\<lambda>w t. t\<lparr>ct_Name := coalesce (uct_Name p) (ct_Name t), ct_Subject := coalesce (uct_Subject p) (ct_Subject t),
          ct_HTMLBody := coalesce (uct_HTMLBody p) (ct_HTMLBody t),
          ct_BlocksJSON := coalesce_opt (map_option jsonb_stored (uct_BlocksJSON p)) (ct_BlocksJSON t),
          ct_Enabled := coalesce (uct_Enabled p) (ct_Enabled t),
          ct_SendAutomatically := coalesce (uct_SendAutomatically p) (ct_SendAutomatically t),
          ct_UpdatedAt := w_now w\<rparr>))"

definition store_DeleteCampaignEmailTemplate :: "uuid \<Rightarrow> (world, unit) go" where
  "store_DeleteCampaignEmailTemplate templateID = affected_or ''failed to delete campaign email template''
     (sql_update campaign_templates_tbl no_check (live_template templateID)
        (\<lambda>w t. t\<lparr>ct_DeletedAt := Some (w_now w)\<rparr>))"

section \<open>Store: e-mail logs\<close>

record CreateEmailLogParams =
  clg_CampaignID :: uuid
  clg_UserID :: "uuid option"
  clg_CampaignTemplateID :: "uuid option"
  clg_BlastTemplateID :: "uuid option"
  clg_BlastID :: "uuid option"
  clg_RecipientEmail :: string
  clg_Subject :: string
  clg_Type :: string
  clg_ProviderMessageID :: "string option"

definition email_log_insert_check :: "world \<Rightarrow> EmailLog list \<Rightarrow> EmailLog \<Rightarrow> string option" where
  "email_log_insert_check w rows r =
     (if lg_ID r \<in> lg_ID ` set rows then Some ''email_logs_pkey''
      else if lg_CampaignID r \<notin> cp_ID ` set (t_campaigns w) then Some ''email_logs_campaign_id_fkey''
      else if \<exists>u\<in>set_option (lg_UserID r). u \<notin> wu_ID ` set (t_waitlist_users w) then Some ''email_logs_user_id_fkey''
      else if \<exists>t\<in>set_option (lg_CampaignTemplateID r). t \<notin> ct_ID ` set (t_campaign_templates w)
        then Some ''email_logs_campaign_template_id_fkey''
      else if \<exists>t\<in>set_option (lg_BlastTemplateID r). t \<notin> bt_ID ` set (t_blast_templates w)
        then Some ''email_logs_blast_template_id_fkey''
      else if \<exists>b\<in>set_option (lg_BlastID r). b \<notin> eb_ID ` set (t_email_blasts w) then Some ''email_logs_blast_id_fkey''
      else if 255 < length (lg_RecipientEmail r) \<or> 255 < length (lg_Subject r) \<or> \<not> varchar 255 (lg_ProviderMessageID r)
        then Some ''value too long for type character varying''
      else if lg_Type r \<notin> set sql_email_template_type then Some ''email_template_type'' else None)"

definition store_CreateEmailLog :: "CreateEmailLogParams \<Rightarrow> (world, EmailLog) go" where
  "store_CreateEmailLog p = wrapE ''failed to create email log''
     (sql_insert email_logs_tbl email_log_insert_check (\<lambda>i now. \<lparr>
        lg_ID = i, lg_CampaignID = clg_CampaignID p, lg_UserID = clg_UserID p, lg_BlastID = clg_BlastID p,
        lg_CampaignTemplateID = clg_CampaignTemplateID p, lg_BlastTemplateID = clg_BlastTemplateID p,
        lg_RecipientEmail = clg_RecipientEmail p, lg_Subject = clg_Subject p, lg_Type = clg_Type p,
        lg_Status = ''pending'', lg_ProviderMessageID = clg_ProviderMessageID p, lg_SentAt = None,
        lg_DeliveredAt = None, lg_OpenedAt = None, lg_ClickedAt = None, lg_BouncedAt = None,
        lg_FailedAt = None, lg_ErrorMessage = None, lg_BounceReason = None, lg_OpenCount = 0,
        lg_ClickCount = 0, lg_CreatedAt = now, lg_UpdatedAt = now\<rparr>))"

definition store_GetEmailLogByID :: "uuid \<Rightarrow> (world, EmailLog) go" where
  "store_GetEmailLogByID logID = row_or ''failed to get email log''
     (sql_get (\<lambda>w. filter (\<lambda>l. lg_ID l = logID) (t_email_logs w)))"

definition newest_logs :: "EmailLog list \<Rightarrow> EmailLog list" where
  "newest_logs = sort_Slice (\<lambda>a b. lg_CreatedAt b < lg_CreatedAt a)"

definition store_GetEmailLogsByUser :: "uuid \<Rightarrow> int \<Rightarrow> int \<Rightarrow> (world, EmailLog list) go" where
  "store_GetEmailLogsByUser userID lmt off = wrapE ''failed to get email logs by user''
     (sql_page (\<lambda>w. newest_logs (filter (\<lambda>l. lg_UserID l = Some userID) (t_email_logs w))) lmt off)"

definition store_GetEmailLogsByCampaign :: "uuid \<Rightarrow> int \<Rightarrow> int \<Rightarrow> (world, EmailLog list) go" where
  "store_GetEmailLogsByCampaign campaignID lmt off = wrapE ''failed to get email logs by campaign''
     (sql_page (\<lambda>w. newest_logs (filter (\<lambda>l. lg_CampaignID l = campaignID) (t_email_logs w))) lmt off)"

definition email_log_check :: "EmailLog list \<Rightarrow> string option" where
  "email_log_check rows = (if list_all (\<lambda>l. lg_Status l \<in> set sql_email_log_status) rows then None
     else Some ''invalid input value for enum email_log_status'')"

definition first_time :: "time option \<Rightarrow> time \<Rightarrow> time option" where
  "first_time t now = (case t of None \<Rightarrow> Some now | Some x \<Rightarrow> Some x)"

definition log_with_status :: "string \<Rightarrow> time \<Rightarrow> EmailLog \<Rightarrow> EmailLog" where
  "log_with_status st now l = l\<lparr>lg_Status := st,
     lg_SentAt := (if st = ''sent'' then first_time (lg_SentAt l) now else lg_SentAt l),
     lg_DeliveredAt := (if st = ''delivered'' then Some now else lg_DeliveredAt l),
     lg_OpenedAt := (if st = ''opened'' then first_time (lg_OpenedAt l) now else lg_OpenedAt l),
     lg_ClickedAt := (if st = ''clicked'' then first_time (lg_ClickedAt l) now else lg_ClickedAt l),
     lg_BouncedAt := (if st = ''bounced'' then Some now else lg_BouncedAt l),
     lg_FailedAt := (if st = ''failed'' then Some now else lg_FailedAt l), lg_UpdatedAt := now\<rparr>"

definition store_UpdateEmailLogStatus :: "uuid \<Rightarrow> string \<Rightarrow> (world, unit) go" where
  "store_UpdateEmailLogStatus logID st = affected_or ''failed to update email log status''
     (sql_update email_logs_tbl email_log_check (\<lambda>l. lg_ID l = logID) (\<lambda>w. log_with_status st (w_now w)))"

definition store_IncrementEmailOpenCount :: "uuid \<Rightarrow> (world, unit) go" where
  "store_IncrementEmailOpenCount logID = exec_or ''failed to increment email open count''
     (sql_update email_logs_tbl no_check (\<lambda>l. lg_ID l = logID)
        (\<lambda>w l. l\<lparr>lg_OpenCount := lg_OpenCount l + 1, lg_OpenedAt := first_time (lg_OpenedAt l) (w_now w),
          lg_Status := (if lg_Status l = ''sent'' \<or> lg_Status l = ''delivered'' then ''opened'' else lg_Status l),
          lg_UpdatedAt := w_now w\<rparr>))"

definition store_IncrementEmailClickCount :: "uuid \<Rightarrow> (world, unit) go" where
  "store_IncrementEmailClickCount logID = exec_or ''failed to increment email click count''
     (sql_update email_logs_tbl no_check (\<lambda>l. lg_ID l = logID)
        (\<lambda>w l. l\<lparr>lg_ClickCount := lg_ClickCount l + 1, lg_ClickedAt := first_time (lg_ClickedAt l) (w_now w),
          lg_Status := (if lg_Status l \<in> {''sent'', ''delivered'', ''opened''} then ''clicked'' else lg_Status l),
          lg_UpdatedAt := w_now w\<rparr>))"

definition store_GetEmailLogByProviderMessageID :: "string \<Rightarrow> (world, EmailLog) go" where
  "store_GetEmailLogByProviderMessageID providerMessageID = row_or ''failed to get email log by provider message id''
     (sql_get (\<lambda>w. filter (\<lambda>l. lg_ProviderMessageID l = Some providerMessageID) (t_email_logs w)))"

section \<open>Store: blast templates\<close>

record CreateBlastEmailTemplateParams =
  cbt_AccountID :: uuid
  cbt_Name :: string
  cbt_Subject :: string
  cbt_HTMLBody :: string
  cbt_BlocksJSON :: "jsonb option"

definition blast_template_ok :: "BlastEmailTemplate \<Rightarrow> bool" where
  "blast_template_ok t = (length (bt_Name t) \<le> 255 \<and> length (bt_Subject t) \<le> 255)"

definition blast_template_insert_check ::
    "world \<Rightarrow> BlastEmailTemplate list \<Rightarrow> BlastEmailTemplate \<Rightarrow> string option" where
  "blast_template_insert_check w rows r =
     (if bt_ID r \<in> bt_ID ` set rows then Some ''blast_email_templates_pkey''
      else if bt_AccountID r \<notin> ac_ID ` set (t_accounts w) then Some ''blast_email_templates_account_id_fkey''
      else if list_ex (\<lambda>t. bt_AccountID t = bt_AccountID r \<and> bt_Name t = bt_Name r) rows
        then Some ''blast_email_templates_account_id_name_key''
      else if \<not> blast_template_ok r then Some ''blast_email_templates'' else None)"

definition store_CreateBlastEmailTemplate :: "CreateBlastEmailTemplateParams \<Rightarrow> (world, BlastEmailTemplate) go" where
  "store_CreateBlastEmailTemplate p = wrapE ''failed to create blast email template''
     (sql_insert blast_templates_tbl blast_template_insert_check (\<lambda>i now. \<lparr>
        bt_ID = i, bt_AccountID = cbt_AccountID p, bt_Name = cbt_Name p, bt_Subject = cbt_Subject p,
        bt_HTMLBody = cbt_HTMLBody p, bt_BlocksJSON = map_option jsonb_stored (cbt_BlocksJSON p),
        bt_CreatedAt = now, bt_UpdatedAt = now, bt_DeletedAt = None\<rparr>))"

definition account_templates :: "uuid \<Rightarrow> world \<Rightarrow> BlastEmailTemplate list" where
  "account_templates accountID w =
     filter (\<lambda>t. bt_AccountID t = accountID \<and> bt_DeletedAt t = None) (t_blast_templates w)"

definition store_GetBlastEmailTemplatesByAccount :: "uuid \<Rightarrow> (world, BlastEmailTemplate list) go" where
  "store_GetBlastEmailTemplatesByAccount accountID = wrapE ''failed to get blast email templates''
     (sql_query (\<lambda>w. sort_Slice (\<lambda>a b. bt_CreatedAt b < bt_CreatedAt a) (account_templates accountID w)))"

record UpdateBlastEmailTemplateParams =
  ubt_Name :: "string option"
  ubt_Subject :: "string option"
  ubt_HTMLBody :: "string option"
  ubt_BlocksJSON :: "jsonb option"

text \<open>The UNIQUE constraint on account and name, deleted templates included.\<close>

fun blast_template_names_ok :: "BlastEmailTemplate list \<Rightarrow> bool" where
  "blast_template_names_ok [] = True"
| "blast_template_names_ok (t # ts) =
     (\<not> list_ex (\<lambda>s. bt_AccountID s = bt_AccountID t \<and> bt_Name s = bt_Name t) ts \<and> blast_template_names_ok ts)"

definition blast_template_check :: "BlastEmailTemplate list \<Rightarrow> string option" where
  "blast_template_check rows =
     (if \<not> list_all blast_template_ok rows then Some ''blast_email_templates''
      else if \<not> blast_template_names_ok rows then Some ''blast_email_templates_account_id_name_key'' else None)"

definition store_UpdateBlastEmailTemplate ::
    "uuid \<Rightarrow> UpdateBlastEmailTemplateParams \<Rightarrow> (world, BlastEmailTemplate) go" where
  "store_UpdateBlastEmailTemplate templateID p = row_or ''failed to update blast email template''
     (sql_update_returning blast_templates_tbl blast_template_check (\<lambda>t. bt_ID t = templateID \<and> bt_DeletedAt t = None)
        (\<lambda>w t. t\<lparr>bt_Name := coalesce (ubt_Name p) (bt_Name t), bt_Subject := coalesce (ubt_Subject p) (bt_Subject t),
          bt_HTMLBody := coalesce (ubt_HTMLBody p) (bt_HTMLBody t),
          bt_BlocksJSON := coalesce_opt (map_option jsonb_stored (ubt_BlocksJSON p)) (bt_BlocksJSON t),
          bt_UpdatedAt := w_now w\<rparr>))"

definition store_DeleteBlastEmailTemplate :: "uuid \<Rightarrow> (world, unit) go" where
  "store_DeleteBlastEmailTemplate templateID = affected_or ''failed to delete blast email template''
     (sql_update blast_templates_tbl no_check (\<lambda>t. bt_ID t = templateID \<and> bt_DeletedAt t = None)
        (\<lambda>w t. t\<lparr>bt_DeletedAt := Some (w_now w)\<rparr>))"

definition store_CountBlastEmailTemplatesByAccount :: "uuid \<Rightarrow> (world, int) go" where
  "store_CountBlastEmailTemplatesByAccount accountID = wrapE ''failed to count blast email templates''
     (sql_query (\<lambda>w. int (length (account_templates accountID w))))"

definition store_GetBlastEmailTemplateByName :: "uuid \<Rightarrow> string \<Rightarrow> (world, BlastEmailTemplate) go" where
  "store_GetBlastEmailTemplateByName accountID name = row_or ''failed to get blast email template by name''
     (sql_get (\<lambda>w. filter (\<lambda>t. bt_Name t = name) (account_templates accountID w)))"

section \<open>What the processors share\<close>

definition convertToJSONB :: "jval \<Rightarrow> jsonb option" where
  "convertToJSONB data = (case data of JObj m \<Rightarrow> Some (Some m) | _ \<Rightarrow> None)"

definition validateTemplateContent :: "string \<Rightarrow> (world, unit) go" where
  "validateTemplateContent content = bindE (getE w_template_Parse) (\<lambda>parse.
     case parse content of Some msg \<Rightarrow> failE (ExtErr msg) | None \<Rightarrow> retE ())"

definition valid_content :: "sentinel \<Rightarrow> string \<Rightarrow> (world, unit) go" where
  "valid_content s content = tryE (validateTemplateContent content) (\<lambda>e. failE (Sentinel s)) retE"

definition renderTemplateWithData :: "(string \<times> jval) list \<Rightarrow> string \<Rightarrow> jsonb \<Rightarrow> (world, string) go" where
  "renderTemplateWithData default_data content data = bindE (getE (\<lambda>w. w)) (\<lambda>w.
     case w_template_Parse w content of
       Some msg \<Rightarrow> failE (Wrap ''failed to parse template'' (ExtErr msg))
     | None \<Rightarrow> (case w_template_Render w content (case data of None \<Rightarrow> default_data | Some d \<Rightarrow> d) of
         Ok html \<Rightarrow> retE html
       | Err e \<Rightarrow> failE (Wrap ''failed to execute template'' e)
       | Panic p \<Rightarrow> panicE p))"

record SendTestEmailRequest =
  str_RecipientEmail :: string
  str_TestData :: jsonb

section \<open>Campaign templates\<close>

record CreateCampaignEmailTemplateRequest =
  cer_Name :: string
  cer_Type :: string
  cer_Subject :: string
  cer_HTMLBody :: string
  cer_BlocksJSON :: jval
  cer_Enabled :: "bool option"
  cer_SendAutomatically :: "bool option"

definition isValidTemplateType :: "string \<Rightarrow> bool" where
  "isValidTemplateType templateType =
     (templateType \<in> set [''verification'', ''welcome'', ''position_update'', ''reward_earned'', ''milestone'', ''custom''])"

definition ce_campaign :: "uuid \<Rightarrow> uuid \<Rightarrow> (world, Campaign) go" where
  "ce_campaign = owned_campaign (CE CE_ErrCampaignNotFound) (CE CE_ErrUnauthorized)"

definition ce_template :: "uuid \<Rightarrow> uuid \<Rightarrow> (world, CampaignEmailTemplate) go" where
  "ce_template campaignID templateID =
     bindE (not_found_as (CE CE_ErrCampaignEmailTemplateNotFound) (store_GetCampaignEmailTemplateByID templateID)) (\<lambda>t.
     if ct_CampaignID t \<noteq> campaignID then failE (Sentinel (CE CE_ErrUnauthorized)) else retE t)"

definition require_builder :: "uuid \<Rightarrow> (world, unit) go" where
  "require_builder accountID = bindE (HasFeatureByAccountID accountID ''visual_email_builder'') (\<lambda>hasFeature.
     if \<not> hasFeature then failE (Sentinel (CE CE_ErrVisualEmailBuilderNotAvailable)) else retE ())"

definition ce_CreateCampaignEmailTemplate ::
    "uuid \<Rightarrow> uuid \<Rightarrow> CreateCampaignEmailTemplateRequest \<Rightarrow> (world, CampaignEmailTemplate) go" where
  "ce_CreateCampaignEmailTemplate accountID campaignID req =
     bindE (require_builder accountID) (\<lambda>u.
     if \<not> isValidTemplateType (cer_Type req) then failE (Sentinel (CE CE_ErrInvalidTemplateType))
     else bindE (valid_content (CE CE_ErrInvalidTemplateContent) (cer_HTMLBody req)) (\<lambda>u.
     bindE (ce_campaign accountID campaignID) (\<lambda>campaign.
     store_CreateCampaignEmailTemplate \<lparr>cct_CampaignID = campaignID, cct_Name = cer_Name req, cct_Type = cer_Type req,
       cct_Subject = cer_Subject req, cct_HTMLBody = cer_HTMLBody req, cct_BlocksJSON = convertToJSONB (cer_BlocksJSON req),
       cct_Enabled = (case cer_Enabled req of None \<Rightarrow> True | Some b \<Rightarrow> b),
       cct_SendAutomatically = (case cer_SendAutomatically req of None \<Rightarrow> True | Some b \<Rightarrow> b),
       cct_VariantName = None, cct_VariantWeight = None\<rparr>)))"

definition ce_GetCampaignEmailTemplate :: "uuid \<Rightarrow> uuid \<Rightarrow> uuid \<Rightarrow> (world, CampaignEmailTemplate) go" where
  "ce_GetCampaignEmailTemplate accountID campaignID templateID =
     bindE (ce_campaign accountID campaignID) (\<lambda>campaign. ce_template campaignID templateID)"

definition ce_ListCampaignEmailTemplates ::
    "uuid \<Rightarrow> uuid \<Rightarrow> string option \<Rightarrow> (world, CampaignEmailTemplate list) go" where
  "ce_ListCampaignEmailTemplates accountID campaignID templateType =
     bindE (ce_campaign accountID campaignID) (\<lambda>campaign.
     if (case templateType of None \<Rightarrow> False | Some t \<Rightarrow> \<not> isValidTemplateType t)
     then failE (Sentinel (CE CE_ErrInvalidTemplateType))
     else bindE (store_GetCampaignEmailTemplatesByCampaign campaignID) (\<lambda>templates.
     retE (case templateType of None \<Rightarrow> templates | Some t \<Rightarrow> filter (\<lambda>x. ct_Type x = t) templates)))"

definition ce_ListAllCampaignEmailTemplates :: "uuid \<Rightarrow> (world, CampaignEmailTemplate list) go" where
  "ce_ListAllCampaignEmailTemplates accountID = store_GetCampaignEmailTemplatesByAccount accountID"

record UpdateCampaignEmailTemplateRequest =
  uer_Name :: "string option"
  uer_Subject :: "string option"
  uer_HTMLBody :: "string option"
  uer_BlocksJSON :: jval
  uer_Enabled :: "bool option"
  uer_SendAutomatically :: "bool option"

definition valid_new_content :: "sentinel \<Rightarrow> string option \<Rightarrow> (world, unit) go" where
  "valid_new_content s content = (case content of None \<Rightarrow> retE () | Some c \<Rightarrow> valid_content s c)"

definition ce_UpdateCampaignEmailTemplate ::
    "uuid \<Rightarrow> uuid \<Rightarrow> uuid \<Rightarrow> UpdateCampaignEmailTemplateRequest \<Rightarrow> (world, CampaignEmailTemplate) go" where
  "ce_UpdateCampaignEmailTemplate accountID campaignID templateID req =
     bindE (require_builder accountID) (\<lambda>u.
     bindE (ce_campaign accountID campaignID) (\<lambda>campaign.
     bindE (ce_template campaignID templateID) (\<lambda>existing.
     bindE (valid_new_content (CE CE_ErrInvalidTemplateContent) (uer_HTMLBody req)) (\<lambda>u.
     not_found_as (CE CE_ErrCampaignEmailTemplateNotFound) (store_UpdateCampaignEmailTemplate templateID
       \<lparr>uct_Name = uer_Name req, uct_Subject = uer_Subject req, uct_HTMLBody = uer_HTMLBody req,
        uct_BlocksJSON = convertToJSONB (uer_BlocksJSON req), uct_Enabled = uer_Enabled req,
        uct_SendAutomatically = uer_SendAutomatically req\<rparr>)))))"

definition ce_DeleteCampaignEmailTemplate :: "uuid \<Rightarrow> uuid \<Rightarrow> uuid \<Rightarrow> (world, unit) go" where
  "ce_DeleteCampaignEmailTemplate accountID campaignID templateID =
     bindE (ce_campaign accountID campaignID) (\<lambda>campaign.
     bindE (ce_template campaignID templateID) (\<lambda>existing.
     not_found_as (CE CE_ErrCampaignEmailTemplateNotFound) (store_DeleteCampaignEmailTemplate templateID)))"

definition campaign_test_data :: "(string \<times> jval) list" where
  "campaign_test_data = [(''first_name'', JStr ''John''), (''last_name'', JStr ''Doe''),
     (''email'', JStr ''test@example.com''), (''position'', JInt 1),
     (''referral_link'', JStr ''https://example.com/ref/ABC123''), (''referral_count'', JInt 5),
     (''campaign_name'', JStr ''Test Campaign'')]"

definition test_mail :: "sentinel \<Rightarrow> (string \<times> jval) list \<Rightarrow> string \<Rightarrow> string \<Rightarrow> SendTestEmailRequest \<Rightarrow> (world, unit) go" where
  "test_mail s default_data subject body req =
     tryE (renderTemplateWithData default_data body (str_TestData req)) (\<lambda>e. failE (Sentinel s)) (\<lambda>html.
     tryE (SendEmail (str_RecipientEmail req) subject html) (\<lambda>e. failE (Sentinel s)) retE)"

definition ce_SendTestEmail :: "uuid \<Rightarrow> uuid \<Rightarrow> uuid \<Rightarrow> SendTestEmailRequest \<Rightarrow> (world, unit) go" where
  "ce_SendTestEmail accountID campaignID templateID req =
     bindE (ce_GetCampaignEmailTemplate accountID campaignID templateID) (\<lambda>t.
     test_mail (CE CE_ErrTestEmailFailed) campaign_test_data (ct_Subject t) (ct_HTMLBody t) req)"

section \<open>Blast templates\<close>

record CreateBlastEmailTemplateRequest =
  cbr_Name :: string
  cbr_Subject :: string
  cbr_HTMLBody :: string
  cbr_BlocksJSON :: jval

definition be_CreateBlastEmailTemplate :: "uuid \<Rightarrow> CreateBlastEmailTemplateRequest \<Rightarrow> (world, BlastEmailTemplate) go" where
  "be_CreateBlastEmailTemplate accountID req =
     bindE (HasFeatureByAccountID accountID ''email_blasts'') (\<lambda>hasFeature.
     if \<not> hasFeature then failE (Sentinel (BE BE_ErrBlastEmailTemplatesNotAvailable))
     else bindE (valid_content (BE BE_ErrInvalidTemplateContent) (cbr_HTMLBody req)) (\<lambda>u.
     store_CreateBlastEmailTemplate \<lparr>cbt_AccountID = accountID, cbt_Name = cbr_Name req, cbt_Subject = cbr_Subject req,
       cbt_HTMLBody = cbr_HTMLBody req, cbt_BlocksJSON = convertToJSONB (cbr_BlocksJSON req)\<rparr>))"

definition be_GetBlastEmailTemplate :: "uuid \<Rightarrow> uuid \<Rightarrow> (world, BlastEmailTemplate) go" where
  "be_GetBlastEmailTemplate accountID templateID =
     bindE (not_found_as (BE BE_ErrBlastEmailTemplateNotFound) (store_GetBlastEmailTemplateByID templateID)) (\<lambda>t.
     if bt_AccountID t \<noteq> accountID then failE (Sentinel (BE BE_ErrUnauthorized)) else retE t)"

definition be_ListBlastEmailTemplates :: "uuid \<Rightarrow> (world, BlastEmailTemplate list) go" where
  "be_ListBlastEmailTemplates accountID = store_GetBlastEmailTemplatesByAccount accountID"

record UpdateBlastEmailTemplateRequest =
  ubr_Name :: "string option"
  ubr_Subject :: "string option"
  ubr_HTMLBody :: "string option"
  ubr_BlocksJSON :: jval

definition be_UpdateBlastEmailTemplate ::
    "uuid \<Rightarrow> uuid \<Rightarrow> UpdateBlastEmailTemplateRequest \<Rightarrow> (world, BlastEmailTemplate) go" where
  "be_UpdateBlastEmailTemplate accountID templateID req =
     bindE (be_GetBlastEmailTemplate accountID templateID) (\<lambda>existing.
     bindE (valid_new_content (BE BE_ErrInvalidTemplateContent) (ubr_HTMLBody req)) (\<lambda>u.
     not_found_as (BE BE_ErrBlastEmailTemplateNotFound) (store_UpdateBlastEmailTemplate templateID
       \<lparr>ubt_Name = ubr_Name req, ubt_Subject = ubr_Subject req, ubt_HTMLBody = ubr_HTMLBody req,
        ubt_BlocksJSON = convertToJSONB (ubr_BlocksJSON req)\<rparr>)))"

definition be_DeleteBlastEmailTemplate :: "uuid \<Rightarrow> uuid \<Rightarrow> (world, unit) go" where
  "be_DeleteBlastEmailTemplate accountID templateID =
     bindE (be_GetBlastEmailTemplate accountID templateID) (\<lambda>existing.
     not_found_as (BE BE_ErrBlastEmailTemplateNotFound) (store_DeleteBlastEmailTemplate templateID))"

definition blast_test_data :: "(string \<times> jval) list" where
  "blast_test_data = [(''first_name'', JStr ''John''), (''last_name'', JStr ''Doe''),
     (''email'', JStr ''test@example.com''), (''referral_link'', JStr ''https://example.com/ref/ABC123''),
     (''referral_count'', JInt 5)]"

definition be_SendTestEmail :: "uuid \<Rightarrow> uuid \<Rightarrow> SendTestEmailRequest \<Rightarrow> (world, unit) go" where
  "be_SendTestEmail accountID templateID req =
     bindE (be_GetBlastEmailTemplate accountID templateID) (\<lambda>t.
     test_mail (BE BE_ErrTestEmailFailed) blast_test_data (bt_Subject t) (bt_HTMLBody t) req)"

end
