(* ===== verification/EmailEvents.thy ===== *)
theory EmailEvents
  imports EmailTemplates Waitlist
begin

text \<open>
  The mails that events cause: the e-mail service's built-in templates and senders
  (email/service.go), the event processor of the mail worker (email/event_processor.go) and the
  older consumer of the same topic (email/consumer.go). The service keeps a table of templates by
  name, the argument \<^verbatim>\<open>ts\<close>; email.New fills it with \<^verbatim>\<open>email_New\<close>.
\<close>

section \<open>Built-in templates\<close>

text \<open>A text is given by its lines, each with its number of tabs; \<^verbatim>\<open>quoted s\<close> is s in double quotes.\<close>

definition quoted :: "string \<Rightarrow> string" where
  "quoted s = CHR 0x22 # s @ [CHR 0x22]"

definition template_text :: "(nat \<times> string) list \<Rightarrow> string" where
  "template_text ls = CHR 0x0A # concat (map (\<lambda>(n, s). replicate n (CHR 0x09) @ s @ [CHR 0x0A]) ls) @
     replicate 3 (CHR 0x09)"

definition template_welcome :: string where
  "template_welcome = template_text
     [(3, ''<html>''),
      (4, ''<body>''),
      (5, ''<h1>Welcome, {{.FirstName}}!</h1>''),
      (5, ''<p>Thank you for joining our platform. We're excited to have you on board.</p>''),
      (5, ''<p>If you have any questions, please don't hesitate to reach out to our support team.</p>''),
      (4, ''</body>''),
      (3, ''</html>'')]"

definition template_password_reset :: string where
  "template_password_reset = template_text
     [(3, ''<html>''),
      (4, ''<body>''),
      (5, ''<h1>Password Reset</h1>''),
      (5, ''<p>You requested a password reset for your account.</p>''),
      (5, ''<p>To reset your password, please click the link below:</p>''),
      (5, ''<p><a href='' @ quoted ''{{.ResetLink}}'' @ ''>Reset your password</a></p>''),
      (5, ''<p>If you didn't request this, you can safely ignore this email.</p>''),
      (4, ''</body>''),
      (3, ''</html>'')]"

definition template_subscription_confirmation :: string where
  "template_subscription_confirmation = template_text
     [(3, ''<html>''),
      (4, ''<body>''),
      (5, ''<h1>Subscription Confirmed</h1>''),
      (5, ''<p>Thank you for subscribing to our {{.PlanName}} plan.</p>''),
      (5, ''<p>Your subscription is now active and you have full access to all features included in this plan.</p>''),
      (5, ''<p>If you have any questions about your subscription, please contact our support team.</p>''),
      (4, ''</body>''),
      (3, ''</html>'')]"

definition template_waitlist_verification :: string where
  "template_waitlist_verification = template_text
     [(3, ''<html>''),
      (4, ''<body>''),
      (5, ''<h1>Verify Your Email</h1>''),
      (5, ''<p>Hi {{.FirstName}},</p>''),
      (5, ''<p>Thank you for joining the {{.CampaignName}} waitlist! You're currently at position <strong>#{{.Position}}</strong>.</p>''),
      (5, ''<p>Please verify your email address to secure your spot:</p>''),
      (5, ''<p><a href='' @ quoted ''{{.VerificationLink}}'' @ '' style='' @ quoted ''background-color: #2563EB; color: white; padding: 12px 24px; text-decoration: none; border-radius: 6px; display: inline-block;'' @ ''>Verify Email</a></p>''),
      (5, ''<p>Your unique referral link:</p>''),
      (5, ''<p><a href='' @ quoted ''{{.ReferralLink}}'' @ ''>{{.ReferralLink}}</a></p>''),
      (5, ''<p>Share this link to move up the waitlist!</p>''),
      (5, ''<p>If you didn't sign up for this waitlist, you can safely ignore this email.</p>''),
      (4, ''</body>''),
      (3, ''</html>'')]"

definition template_waitlist_welcome :: string where
  "template_waitlist_welcome = template_text
     [(3, ''<html>''),
      (4, ''<body>''),
      (5, ''<h1>Welcome to the Waitlist!</h1>''),
      (5, ''<p>Hi {{.FirstName}},</p>''),
      (5, ''<p>You've successfully joined the {{.CampaignName}} waitlist!</p>''),
      (5, ''<p>Your current position: <strong>#{{.Position}}</strong></p>''),
      (5, ''<p>Want to move up? Share your unique referral link:</p>''),
      (5, ''<p><a href='' @ quoted ''{{.ReferralLink}}'' @ '' style='' @ quoted ''background-color: #2563EB; color: white; padding: 12px 24px; text-decoration: none; border-radius: 6px; display: inline-block;'' @ ''>{{.ReferralLink}}</a></p>''),
      (5, ''<p>For every person who joins through your link, you'll move up the waitlist!</p>''),
      (5, ''<p>Current referrals: <strong>{{.ReferralCount}}</strong></p>''),
      (5, ''<p>We'll notify you when it's your turn. Stay tuned!</p>''),
      (4, ''</body>''),
      (3, ''</html>'')]"

definition template_waitlist_position_update :: string where
  "template_waitlist_position_update = template_text
     [(3, ''<html>''),
      (4, ''<body>''),
      (5, ''<h1>Your Position Has Changed!</h1>''),
      (5, ''<p>Hi {{.FirstName}},</p>''),
      (5, ''<p>Great news! Your position on the {{.CampaignName}} waitlist has improved!</p>''),
      (5, ''<p>New position: <strong>#{{.Position}}</strong></p>''),
      (5, ''<p>Total referrals: <strong>{{.ReferralCount}}</strong></p>''),
      (5, ''<p>Keep sharing your referral link to move up even faster:</p>''),
      (5, ''<p><a href='' @ quoted ''{{.ReferralLink}}'' @ ''>{{.ReferralLink}}</a></p>''),
      (5, ''<p>Thanks for spreading the word!</p>''),
      (4, ''</body>''),
      (3, ''</html>'')]"

definition email_New :: "(string \<times> string) list" where
  "email_New =
     [(''welcome'', template_welcome),
      (''password_reset'', template_password_reset),
      (''subscription_confirmation'', template_subscription_confirmation),
      (''waitlist_verification'', template_waitlist_verification),
      (''waitlist_welcome'', template_waitlist_welcome),
      (''waitlist_position_update'', template_waitlist_position_update)]"

definition empty_data :: TemplateData where
  "empty_data = \<lparr>td_FirstName = '''', td_Email = '''', td_ResetLink = '''', td_SubscriptionID = '''',
     td_PlanName = '''', td_VerificationLink = '''', td_Position = 0, td_ReferralLink = '''',
     td_ReferralCount = 0, td_CampaignName = ''''\<rparr>"

section \<open>The e-mail service\<close>

definition execute_template :: "string \<Rightarrow> TemplateData \<Rightarrow> (world, string) go" where
  "execute_template content data = bindE (getE (\<lambda>w. w)) (\<lambda>w. case w_template_Parse w content of
       Some msg \<Rightarrow> failE (Wrap ''failed to parse template'' (ExtErr msg))
     | None \<Rightarrow> (case w_template_Execute w content data of
         Ok html \<Rightarrow> retE html
       | Err e \<Rightarrow> failE (Wrap ''failed to execute template'' e)
       | Panic p \<Rightarrow> panicE p))"

definition renderTemplate :: "(string \<times> string) list \<Rightarrow> string \<Rightarrow> TemplateData \<Rightarrow> (world, string) go" where
  "renderTemplate ts templateName data = (case map_of ts templateName of
       None \<Rightarrow> failE (NewErr (''template '' @ templateName @ '' not found''))
     | Some content \<Rightarrow> execute_template content data)"

definition SendEmailWithTemplate ::
    "(string \<times> string) list \<Rightarrow> string \<Rightarrow> string \<Rightarrow> string \<Rightarrow> TemplateData \<Rightarrow> (world, unit) go" where
  "SendEmailWithTemplate ts recipient subject templateName data =
     bindE (annotateE (EM EM_ErrEmptyTemplate) (renderTemplate ts templateName data)) (\<lambda>html.
     annotateE (EM EM_ErrSendingEmail) (mail_SendEmail recipient subject html))"

text \<open>The senders of one template each, which have the same body.\<close>

definition SendWelcomeEmail :: "(string \<times> string) list \<Rightarrow> string \<Rightarrow> string \<Rightarrow> (world, unit) go" where
  "SendWelcomeEmail ts recipient firstName =
     SendEmailWithTemplate ts recipient ''Welcome to our platform'' ''welcome''
       (empty_data\<lparr>td_FirstName := firstName, td_Email := recipient\<rparr>)"

definition SendPasswordResetEmail :: "(string \<times> string) list \<Rightarrow> string \<Rightarrow> string \<Rightarrow> (world, unit) go" where
  "SendPasswordResetEmail ts recipient resetLink =
     SendEmailWithTemplate ts recipient ''Password Reset Request'' ''password_reset''
       (empty_data\<lparr>td_Email := recipient, td_ResetLink := resetLink\<rparr>)"

definition SendSubscriptionConfirmationEmail ::
    "(string \<times> string) list \<Rightarrow> string \<Rightarrow> string \<Rightarrow> (world, unit) go" where
  "SendSubscriptionConfirmationEmail ts recipient planName =
     SendEmailWithTemplate ts recipient ''Subscription Confirmation'' ''subscription_confirmation''
       (empty_data\<lparr>td_Email := recipient, td_PlanName := planName\<rparr>)"

definition RegisterTemplate ::
    "string \<Rightarrow> string \<Rightarrow> (string \<times> string) list \<Rightarrow> (world, (string \<times> string) list) go" where
  "RegisterTemplate name content ts = bindE (getE w_template_Parse) (\<lambda>parse.
     case parse content of
       Some msg \<Rightarrow> failE (Wrap ''invalid template'' (ExtErr msg))
     | None \<Rightarrow> retE (AList.update name content ts))"

definition SendWaitlistVerificationEmail ::
    "(string \<times> string) list \<Rightarrow> string \<Rightarrow> string \<Rightarrow> string \<Rightarrow> string \<Rightarrow> string \<Rightarrow> int \<Rightarrow> (world, unit) go" where
  "SendWaitlistVerificationEmail ts recipient firstName campaignName verificationLink referralLink position =
     SendEmailWithTemplate ts recipient
       (''Verify your email - You're #'' @ Itoa position @ '' on the '' @ campaignName @ '' waitlist'')
       ''waitlist_verification''
       (empty_data\<lparr>td_FirstName := firstName, td_Email := recipient, td_CampaignName := campaignName,
          td_VerificationLink := verificationLink, td_ReferralLink := referralLink, td_Position := position\<rparr>)"

definition SendWaitlistWelcomeEmail ::
    "(string \<times> string) list \<Rightarrow> string \<Rightarrow> string \<Rightarrow> string \<Rightarrow> string \<Rightarrow> int \<Rightarrow> int \<Rightarrow> (world, unit) go" where
  "SendWaitlistWelcomeEmail ts recipient firstName campaignName referralLink position referralCount =
     SendEmailWithTemplate ts recipient (''Welcome to the '' @ campaignName @ '' waitlist!'') ''waitlist_welcome''
       (empty_data\<lparr>td_FirstName := firstName, td_Email := recipient, td_CampaignName := campaignName,
          td_ReferralLink := referralLink, td_Position := position, td_ReferralCount := referralCount\<rparr>)"

definition SendWaitlistPositionUpdateEmail ::
    "(string \<times> string) list \<Rightarrow> string \<Rightarrow> string \<Rightarrow> string \<Rightarrow> string \<Rightarrow> int \<Rightarrow> int \<Rightarrow> (world, unit) go" where
  "SendWaitlistPositionUpdateEmail ts recipient firstName campaignName referralLink newPosition referralCount =
     SendEmailWithTemplate ts recipient
       (''You moved up to position #'' @ Itoa newPosition @ '' on '' @ campaignName @ ''!'')
       ''waitlist_position_update''
       (empty_data\<lparr>td_FirstName := firstName, td_Email := recipient, td_CampaignName := campaignName,
          td_ReferralLink := referralLink, td_Position := newPosition, td_ReferralCount := referralCount\<rparr>)"

section \<open>Reading an event\<close>

text \<open>The event's data, marshalled again and read into the campaign id and the user's map; then the
  campaign, without its settings.\<close>

definition mail_event_data :: "EventMessage \<Rightarrow> (string \<times> (string \<times> jval) list) option" where
  "mail_event_data event = (let data = jsonb_stored (em_Data event) in
     case (case jget data ''campaign_id'' of
             None \<Rightarrow> Some '''' | Some JNull \<Rightarrow> Some '''' | Some (JStr s) \<Rightarrow> Some s | Some v \<Rightarrow> None,
           case jget data ''user'' of
             None \<Rightarrow> Some [] | Some JNull \<Rightarrow> Some [] | Some (JObj kvs) \<Rightarrow> Some kvs | Some v \<Rightarrow> None) of
       (Some s, Some kvs) \<Rightarrow> Some (s, kvs)
     | _ \<Rightarrow> None)"

definition mail_event_campaign :: "EventMessage \<Rightarrow> (world, Campaign \<times> (string \<times> jval) list) go" where
  "mail_event_campaign event = (case mail_event_data event of
       None \<Rightarrow> failE (Wrap ''failed to unmarshal event data'' (ExtErr ''json''))
     | Some (s, user) \<Rightarrow> bindE (getE w_uuid_Parse) (\<lambda>parse. case parse s of
         None \<Rightarrow> failE (Wrap ''invalid campaign_id'' (ExtErr ''invalid UUID''))
       | Some campaignID \<Rightarrow>
           bindE (wrapE ''failed to get campaign'' (store_GetCampaignByID campaignID)) (\<lambda>campaign.
           retE (campaign, user))))"

definition event_email :: "(string \<times> jval) list \<Rightarrow> (world, string) go" where
  "event_email user = (case map_of user ''email'' of
       Some (JStr s) \<Rightarrow> (if s = '''' then failE (NewErr ''missing or invalid email in event data'') else retE s)
     | _ \<Rightarrow> failE (NewErr ''missing or invalid email in event data''))"

text \<open>The type assertion on the first name panics on a value that is neither null nor a string.\<close>

definition event_first_name :: "(string \<times> jval) list \<Rightarrow> (world, string) go" where
  "event_first_name user = (case map_of user ''first_name'' of
       None \<Rightarrow> retE '''' | Some JNull \<Rightarrow> retE '''' | Some (JStr s) \<Rightarrow> retE s
     | Some v \<Rightarrow> panicE ''interface conversion'')"

definition event_int :: "(string \<times> jval) list \<Rightarrow> string \<Rightarrow> int" where
  "event_int user k = (case map_of user k of Some (JFloat r) \<Rightarrow> float_to_int r | _ \<Rightarrow> 0)"

definition event_text :: "(string \<times> jval) list \<Rightarrow> string \<Rightarrow> string" where
  "event_text user k = (case map_of user k of Some (JStr s) \<Rightarrow> s | _ \<Rightarrow> '''')"

definition verification_link :: "string \<Rightarrow> string \<Rightarrow> string" where
  "verification_link token slug = ''https://app.example.com/verify?token='' @ token @ ''&campaign='' @ slug"

definition event_template_data ::
    "Campaign \<Rightarrow> (string \<times> jval) list \<Rightarrow> string \<Rightarrow> string \<Rightarrow> TemplateData" where
  "event_template_data campaign user email firstName = empty_data\<lparr>td_FirstName := firstName, td_Email := email,
     td_CampaignName := cp_Name campaign, td_ReferralLink := event_text user ''referral_link'',
     td_Position := event_int user ''position'', td_ReferralCount := event_int user ''referral_count''\<rparr>"

section \<open>The event processor\<close>

definition sendEmailWithCustomTemplate ::
    "(string \<times> string) list \<Rightarrow> uuid \<Rightarrow> string \<Rightarrow> string \<Rightarrow> TemplateData \<Rightarrow> (world, unit) go" where
  "sendEmailWithCustomTemplate ts campaignID templateType recipient data =
     (let default =
        (if templateType = ''verification''
         then SendWaitlistVerificationEmail ts recipient (td_FirstName data) (td_CampaignName data)
           (td_VerificationLink data) (td_ReferralLink data) (td_Position data)
         else if templateType = ''welcome''
         then SendWaitlistWelcomeEmail ts recipient (td_FirstName data) (td_CampaignName data)
           (td_ReferralLink data) (td_Position data) (td_ReferralCount data)
         else failE (NewErr (''unknown template type: '' @ templateType)))
      in tryE (store_GetCampaignEmailTemplateByType campaignID templateType) (\<lambda>e. default) (\<lambda>t.
         if ct_Enabled t then SendCustomTemplateEmail recipient (ct_Subject t) (ct_HTMLBody t) data
         else default))"

definition email_handleUserCreated :: "(string \<times> string) list \<Rightarrow> EventMessage \<Rightarrow> (world, unit) go" where
  "email_handleUserCreated ts event = bindE (mail_event_campaign event) (\<lambda>(campaign, user).
     let verificationEnabled = (case cp_EmailSettings campaign of None \<Rightarrow> False | Some s \<Rightarrow> es_VerificationRequired s);
         sendWelcomeEmail = (case cp_EmailSettings campaign of None \<Rightarrow> False | Some s \<Rightarrow> es_SendWelcomeEmail s) in
     if \<not> verificationEnabled \<and> \<not> sendWelcomeEmail then retE ()
     else bindE (event_email user) (\<lambda>email.
     bindE (event_first_name user) (\<lambda>firstName.
     let data = event_template_data campaign user email firstName in
     if verificationEnabled
     then wrapE ''failed to send verification email''
       (sendEmailWithCustomTemplate ts (cp_ID campaign) ''verification'' email
         (data\<lparr>td_VerificationLink := verification_link (event_text user ''verification_token'') (cp_Slug campaign)\<rparr>))
     else wrapE ''failed to send welcome email''
       (sendEmailWithCustomTemplate ts (cp_ID campaign) ''welcome'' email data))))"

definition email_handleUserVerified :: "(string \<times> string) list \<Rightarrow> EventMessage \<Rightarrow> (world, unit) go" where
  "email_handleUserVerified ts event = bindE (mail_event_campaign event) (\<lambda>(campaign, user).
     bindE (event_email user) (\<lambda>email.
     bindE (event_first_name user) (\<lambda>firstName.
     wrapE ''failed to send welcome email''
       (sendEmailWithCustomTemplate ts (cp_ID campaign) ''welcome'' email
         (event_template_data campaign user email firstName)))))"

definition email_Process :: "(string \<times> string) list \<Rightarrow> EventMessage \<Rightarrow> (world, unit) go" where
  "email_Process ts event =
     (if em_Type event = ''user.created'' then email_handleUserCreated ts event
      else if em_Type event = ''user.verified'' then email_handleUserVerified ts event
      else retE ())"

section \<open>The older consumer\<close>

text \<open>It knows no custom templates and no welcome mail at signup; its worker only logs an error.\<close>

definition consumer_handleUserCreated :: "(string \<times> string) list \<Rightarrow> EventMessage \<Rightarrow> (world, unit) go" where
  "consumer_handleUserCreated ts event = bindE (mail_event_campaign event) (\<lambda>(campaign, user).
     if (case cp_EmailSettings campaign of None \<Rightarrow> True | Some s \<Rightarrow> \<not> es_VerificationRequired s) then retE ()
     else bindE (event_email user) (\<lambda>email.
     bindE (event_first_name user) (\<lambda>firstName.
     wrapE ''failed to send verification email''
       (SendWaitlistVerificationEmail ts email firstName (cp_Name campaign)
         (verification_link (event_text user ''verification_token'') (cp_Slug campaign))
         (event_text user ''referral_link'') (event_int user ''position'')))))"

definition consumer_handleUserVerified :: "(string \<times> string) list \<Rightarrow> EventMessage \<Rightarrow> (world, unit) go" where
  "consumer_handleUserVerified ts event = bindE (mail_event_campaign event) (\<lambda>(campaign, user).
     bindE (event_email user) (\<lambda>email.
     bindE (event_first_name user) (\<lambda>firstName.
     wrapE ''failed to send welcome email''
       (SendWaitlistWelcomeEmail ts email firstName (cp_Name campaign) (event_text user ''referral_link'')
         (event_int user ''position'') (event_int user ''referral_count'')))))"

definition consumer_handleEvent :: "(string \<times> string) list \<Rightarrow> EventMessage \<Rightarrow> (world, unit) go" where
  "consumer_handleEvent ts event =
     (if em_Type event = ''user.created'' then consumer_handleUserCreated ts event
      else if em_Type event = ''user.verified'' then consumer_handleUserVerified ts event
      else retE ())"

definition consumer_worker :: "(string \<times> string) list \<Rightarrow> EventMessage list \<Rightarrow> (world, unit) go" where
  "consumer_worker ts events = forE events (\<lambda>event. logE (consumer_handleEvent ts event))"

end
