(* ===== verification/EmailFacts.thy ===== *)
theory EmailFacts
  imports EmailEvents WaitlistFacts Wp
begin

text \<open>
  Properties of the stored templates and of the mails that events cause: every stored template
  parses; a signup sends no mail; a verification sends one welcome mail, from the campaign's own
  template when it has an enabled one.
\<close>

section \<open>Stored templates parse\<close>

definition templates_parse :: "world \<Rightarrow> bool" where
  "templates_parse w \<longleftrightarrow>
     (\<forall>t\<in>set (t_campaign_templates w). w_template_Parse w (ct_HTMLBody t) = None) \<and>
     (\<forall>t\<in>set (t_blast_templates w). w_template_Parse w (bt_HTMLBody t) = None)"

lemma templates_parse_tick: "tick w w' \<Longrightarrow> templates_parse w \<Longrightarrow> templates_parse w'"
  by (auto simp: tick_def templates_parse_def)

lemma templates_parse_frame [simp]:
  "templates_parse (w\<lparr>w_fresh := n\<rparr>) = templates_parse w" "templates_parse (w\<lparr>w_outbox := ms\<rparr>) = templates_parse w"
  "templates_parse (ticked w) = templates_parse w"
  by (simp_all add: templates_parse_def ticked_def)

lemma wp_valid_content [wp_rules]:
  assumes "w_template_Parse w content = None \<Longrightarrow> S () w" "\<And>e. E e w"
  shows "wp (valid_content s content) S E w"
  unfolding valid_content_def validateTemplateContent_def
  by (intro wp_rules) (auto simp: assms split: option.split intro!: wp_rules)

text \<open>A step on the templates keeps the invariant if the content it writes parses.\<close>

lemmas tp_unfold = templates_parse_def

lemma tp_create_campaign:
  assumes "templates_parse w" "w_template_Parse w (cct_HTMLBody p) = None"
  shows "wp (store_CreateCampaignEmailTemplate p) (\<lambda>x. templates_parse) (\<lambda>e. templates_parse) w"
  unfolding store_CreateCampaignEmailTemplate_def
  by (intro wp_rules wp_sql_insert) (use assms in \<open>auto simp: templates_parse_def ticked_def\<close>)

lemma tp_create_blast:
  assumes "templates_parse w" "w_template_Parse w (cbt_HTMLBody p) = None"
  shows "wp (store_CreateBlastEmailTemplate p) (\<lambda>x. templates_parse) (\<lambda>e. templates_parse) w"
  unfolding store_CreateBlastEmailTemplate_def
  by (intro wp_rules wp_sql_insert) (use assms in \<open>auto simp: templates_parse_def ticked_def\<close>)

lemma tp_update_campaign:
  assumes "templates_parse w" "\<And>c. uct_HTMLBody p = Some c \<Longrightarrow> w_template_Parse w c = None"
  shows "wp (store_UpdateCampaignEmailTemplate i p) (\<lambda>x. templates_parse) (\<lambda>e. templates_parse) w"
  unfolding store_UpdateCampaignEmailTemplate_def
  by (intro wp_rules wp_sql_update_returning)
    (use assms in \<open>auto simp: templates_parse_def ticked_def upd_where_def coalesce_def split: option.splits\<close>)

lemma tp_update_blast:
  assumes "templates_parse w" "\<And>c. ubt_HTMLBody p = Some c \<Longrightarrow> w_template_Parse w c = None"
  shows "wp (store_UpdateBlastEmailTemplate i p) (\<lambda>x. templates_parse) (\<lambda>e. templates_parse) w"
  unfolding store_UpdateBlastEmailTemplate_def
  by (intro wp_rules wp_sql_update_returning)
    (use assms in \<open>auto simp: templates_parse_def ticked_def upd_where_def coalesce_def split: option.splits\<close>)

lemma tp_delete:
  assumes "templates_parse w"
  shows "wp (store_DeleteCampaignEmailTemplate i) (\<lambda>x. templates_parse) (\<lambda>e. templates_parse) w"
    "wp (store_DeleteBlastEmailTemplate i) (\<lambda>x. templates_parse) (\<lambda>e. templates_parse) w"
  unfolding store_DeleteCampaignEmailTemplate_def store_DeleteBlastEmailTemplate_def
  by (intro wp_rules wp_sql_update; use assms in \<open>auto simp: templates_parse_def ticked_def upd_where_def no_check_def\<close>)+

lemma template_reads [reads]:
  "moves tick (require_builder a)" "moves tick (ce_campaign a c)" "moves tick (ce_template c t)"
  "moves tick (ce_GetCampaignEmailTemplate a c t)" "moves tick (be_GetBlastEmailTemplate a t)"
proof -
  show 1: "moves tick (require_builder a)" unfolding require_builder_def by (intro tick_rules reads)
  show 2: "moves tick (ce_campaign a c)" unfolding ce_campaign_def by (intro reads)
  show 3: "moves tick (ce_template c t)"
    unfolding ce_template_def store_GetCampaignEmailTemplateByID_def by (intro tick_rules reads)
  show "moves tick (ce_GetCampaignEmailTemplate a c t)"
    unfolding ce_GetCampaignEmailTemplate_def by (intro tick_rules 2 3)
  show "moves tick (be_GetBlastEmailTemplate a t)"
    unfolding be_GetBlastEmailTemplate_def store_GetBlastEmailTemplateByID_def by (intro tick_rules reads)
qed

lemma tp_reads:
  assumes "moves tick m" "templates_parse w"
    "\<And>x w'. tick w w' \<Longrightarrow> templates_parse w' \<Longrightarrow> S x w'" "\<And>e w'. templates_parse w' \<Longrightarrow> E e w'"
  shows "wp m S E w"
  by (rule wp_reads [OF assms(1)]) (auto intro: assms(2-4) templates_parse_tick)

text \<open>One call of an operation on templates, whatever its arguments and its outcome.\<close>

inductive template_step :: "world \<Rightarrow> world \<Rightarrow> bool" where
  create_campaign: "template_step w (snd (ce_CreateCampaignEmailTemplate a c req w))"
| update_campaign: "template_step w (snd (ce_UpdateCampaignEmailTemplate a c t ureq w))"
| delete_campaign: "template_step w (snd (ce_DeleteCampaignEmailTemplate a c t w))"
| test_campaign: "template_step w (snd (ce_SendTestEmail a c t treq w))"
| create_blast: "template_step w (snd (be_CreateBlastEmailTemplate a breq w))"
| update_blast: "template_step w (snd (be_UpdateBlastEmailTemplate a t ubreq w))"
| delete_blast: "template_step w (snd (be_DeleteBlastEmailTemplate a t w))"
| test_blast: "template_step w (snd (be_SendTestEmail a t treq w))"
| mail_event: "template_step w (snd (email_Process ts ev w))"

inductive_simps template_step_iff: "template_step w w'"

text \<open>Sending only appends to the outbox.\<close>

definition mails :: "world \<Rightarrow> world \<Rightarrow> bool" where
  "mails w w' = (\<exists>n ms. w' = w\<lparr>w_calls := n, w_outbox := w_outbox w @ ms\<rparr>)"

lemma mailsI: "w' = w\<lparr>w_calls := n, w_outbox := w_outbox w @ ms\<rparr> \<Longrightarrow> mails w w'"
  unfolding mails_def by blast

interpretation mails: step_preorder mails
proof
  show "mails w w" for w
    by (rule mailsI [where n = "w_calls w" and ms = "[]"]) simp
  show "mails u w" if uv: "mails u v" and vw: "mails v w" for u v w
  proof -
    obtain n ms n' ms' where "v = u\<lparr>w_calls := n, w_outbox := w_outbox u @ ms\<rparr>"
      "w = v\<lparr>w_calls := n', w_outbox := w_outbox v @ ms'\<rparr>"
      using uv vw unfolding mails_def by blast
    then show ?thesis by (intro mailsI [where n = n' and ms = "ms @ ms'"]) simp
  qed
qed

lemmas mails_rules = mails.moves_combinators moves_intros

lemma mails_of_tick:
  assumes "tick w w'"
  shows "mails w w'"
proof -
  obtain n where "w' = w\<lparr>w_calls := n\<rparr>" using assms unfolding tick_def by blast
  then show ?thesis by (intro mailsI [where n = n and ms = "[]"]) simp
qed

lemma moves_mails_of_tick: "moves tick m \<Longrightarrow> moves mails m"
  by (simp add: moves_def mails_of_tick)

lemma mail_SendEmail_mails: "moves mails (mail_SendEmail to subject html)"
  unfolding moves_def
proof
  fix w
  show "mails w (snd (mail_SendEmail to subject html w))"
  proof (cases "w_mail_fault w (w_calls w)")
    case None
    then show ?thesis by (auto simp: mail_SendEmail_def intro!: mailsI [where n = "w_calls w"])
  next
    case (Some msg)
    then show ?thesis by (simp add: mail_SendEmail_def mails.step_refl)
  qed
qed

lemma result_mails: "moves mails (case r of Ok x \<Rightarrow> retE x | Err e \<Rightarrow> failE (Wrap msg e) | Panic p \<Rightarrow> panicE p)"
  by (cases r) (auto intro: mails_rules)

lemma rendering_mails:
  "moves mails (RenderCustomTemplate content data)" "moves mails (execute_template content data)"
  "moves mails (renderTemplate ts name data)" "moves mails (renderTemplateWithData d body td)"
  unfolding RenderCustomTemplate_def renderTemplate_def execute_template_def renderTemplateWithData_def
  by (intro mails_rules result_mails)+

lemma annotateE_mails: "moves mails m \<Longrightarrow> moves mails (annotateE s m)"
  unfolding annotateE_def by (intro mails_rules)

lemmas sending_rules = mails_rules annotateE_mails rendering_mails mail_SendEmail_mails

lemma sending_mails:
  "moves mails (SendCustomTemplateEmail to subject content data)" "moves mails (SendEmail to subject html)"
  "moves mails (SendEmailWithTemplate ts to subject name data)"
  unfolding SendCustomTemplateEmail_def SendEmail_def SendEmailWithTemplate_def
  by (intro sending_rules)+

lemma waitlist_mails:
  "moves mails (SendWaitlistVerificationEmail ts to fn cn vl rl pos)"
  "moves mails (SendWaitlistWelcomeEmail ts to fn cn rl pos rc)"
  unfolding SendWaitlistVerificationEmail_def SendWaitlistWelcomeEmail_def
  by (rule sending_mails)+

lemma test_mail_mails: "moves mails (test_mail s d subject body req)"
  unfolding test_mail_def by (intro mails_rules rendering_mails sending_mails)

lemma GetTemplateByType_reads [reads]: "moves tick (store_GetCampaignEmailTemplateByType c t)"
proof -
  have "moves tick (db (\<lambda>w. (Err e, w)))" for e :: err
    by (auto simp: moves_def db_def tick_def Let_def split: option.splits)
  then show ?thesis unfolding store_GetCampaignEmailTemplateByType_def by (intro reads moves_if)
qed

lemma custom_mails: "moves mails (sendEmailWithCustomTemplate ts c ty to data)"
  unfolding sendEmailWithCustomTemplate_def
  by (intro mails_rules waitlist_mails sending_mails moves_mails_of_tick reads)

lemma event_reads [reads]:
  "moves tick (mail_event_campaign ev)" "moves tick (event_email user)" "moves tick (event_first_name user)"
proof -
  show "moves tick (mail_event_campaign ev)"
    unfolding mail_event_campaign_def by (intro tick_rules reads)
  show "moves tick (event_email user)" "moves tick (event_first_name user)"
    unfolding event_email_def event_first_name_def
    by (auto simp: moves_case_option intro!: tick_rules split: jval.split)
qed

lemma Process_mails: "moves mails (email_Process ts ev)" "moves mails (consumer_handleEvent ts ev)"
  unfolding email_Process_def email_handleUserCreated_def email_handleUserVerified_def
    consumer_handleEvent_def consumer_handleUserCreated_def consumer_handleUserVerified_def
  by (intro mails_rules custom_mails waitlist_mails moves_mails_of_tick [OF event_reads(1)]
      moves_mails_of_tick [OF event_reads(2)] moves_mails_of_tick [OF event_reads(3)])+

lemma templates_parse_mails: "mails w w' \<Longrightarrow> templates_parse w \<Longrightarrow> templates_parse w'"
  by (auto simp: mails_def templates_parse_def)

text \<open>Each operation keeps the invariant.\<close>

lemmas tp_rules = wp_rules tp_reads [OF template_reads(1)] tp_reads [OF template_reads(2)]
  tp_reads [OF template_reads(3)] tp_reads [OF template_reads(5)] tp_reads [OF tier_service_reads(1)]
  tp_create_campaign tp_create_blast tp_update_campaign tp_update_blast tp_delete

lemma tp_creates:
  assumes "templates_parse w"
  shows "templates_parse (snd (ce_CreateCampaignEmailTemplate a c req w))"
    "templates_parse (snd (be_CreateBlastEmailTemplate a breq w))"
  unfolding ce_CreateCampaignEmailTemplate_def be_CreateBlastEmailTemplate_def
  by (rule wpD, intro tp_rules; use assms in \<open>auto simp: tick_def\<close>)+

lemma tp_updates:
  assumes "templates_parse w"
  shows "templates_parse (snd (ce_UpdateCampaignEmailTemplate a c t ureq w))"
    "templates_parse (snd (be_UpdateBlastEmailTemplate a t ubreq w))"
  unfolding ce_UpdateCampaignEmailTemplate_def be_UpdateBlastEmailTemplate_def valid_new_content_def
  by (rule wpD, intro tp_rules; use assms in \<open>auto simp: tick_def\<close>)+

lemma tp_deletes:
  assumes "templates_parse w"
  shows "templates_parse (snd (ce_DeleteCampaignEmailTemplate a c t w))"
    "templates_parse (snd (be_DeleteBlastEmailTemplate a t w))"
  unfolding ce_DeleteCampaignEmailTemplate_def be_DeleteBlastEmailTemplate_def
  by (rule wpD, intro tp_rules; use assms in \<open>auto simp: tick_def\<close>)+

lemma test_mails:
  "moves mails (ce_SendTestEmail a c t treq)" "moves mails (be_SendTestEmail a t treq)"
  unfolding ce_SendTestEmail_def be_SendTestEmail_def
  by (intro mails_rules test_mail_mails moves_mails_of_tick [OF template_reads(4)]
      moves_mails_of_tick [OF template_reads(5)])+

lemma template_step_parse:
  assumes "template_step w w'" "templates_parse w"
  shows "templates_parse w'"
  using assms
proof cases
qed (use assms(2) in \<open>auto simp: tp_creates tp_updates tp_deletes
    intro: templates_parse_mails test_mails [unfolded moves_def, rule_format] Process_mails [unfolded moves_def, rule_format]\<close>)


section \<open>Mails caused by events\<close>

lemma mail_event_campaign_settings:
  "mail_event_campaign ev w = (Ok (c, user), w') \<Longrightarrow> cp_EmailSettings c = None"
  by (auto simp: mail_event_campaign_def ok_simps split: option.splits dest: GetCampaignByID_Ok(4))

lemma created_no_mail:
  "moves tick (email_handleUserCreated ts ev)" "moves tick (consumer_handleUserCreated ts ev)"
  unfolding email_handleUserCreated_def consumer_handleUserCreated_def
  by (rule tick.moves_bindE_val [where V = "\<lambda>(c, u). cp_EmailSettings c = None"];
      auto simp: event_reads Let_def intro: tick.moves_retE dest: mail_event_campaign_settings)+

text \<open>No mail is sent for a signup, whatever e-mail settings the campaign has stored: the campaign
  is read without its settings, so verification and welcome mails both count as switched off.\<close>

theorem signup_sends_no_mail:
  assumes "em_Type ev = EventUserCreated"
  shows "w_outbox (snd (email_Process ts ev w)) = w_outbox w \<and>
    w_outbox (snd (consumer_handleEvent ts ev w)) = w_outbox w"
  using created_no_mail [of ts ev] assms
  by (auto simp: email_Process_def consumer_handleEvent_def EventUserCreated_def moves_def tick_def
      dest!: spec [of _ w])

text \<open>What a verification mails: the source of the mail, the campaign's newest enabled welcome template
  or else the service's, and the data it is rendered with.\<close>

definition welcome_source :: "(string \<times> string) list \<Rightarrow> Campaign \<Rightarrow> world \<Rightarrow> (string \<times> string) option" where
  "welcome_source ts cp w =
     (case newest_templates (filter (\<lambda>t. ct_CampaignID t = cp_ID cp \<and> ct_Type t = ''welcome'' \<and> ct_Enabled t \<and>
          ct_DeletedAt t = None) (t_campaign_templates w)) of
        t # rest \<Rightarrow> Some (ct_Subject t, ct_HTMLBody t)
      | [] \<Rightarrow> map_option (Pair (''Welcome to the '' @ cp_Name cp @ '' waitlist!'')) (map_of ts ''waitlist_welcome''))"

definition welcome_data :: "Campaign \<Rightarrow> WaitlistUser \<Rightarrow> TemplateData" where
  "welcome_data cp u = empty_data\<lparr>td_FirstName := (case wu_FirstName u of None \<Rightarrow> '''' | Some n \<Rightarrow> n),
     td_Email := wu_Email u, td_CampaignName := cp_Name cp,
     td_Position := float_to_int (float64_of_int (wu_Position u))\<rparr>"

lemma verified_event:
  assumes "DispatchUserVerified a c data w = (Ok (), w')" "w_queue w' = w_queue w @ [ev]"
  shows "em_Type ev = EventUserVerified" "mail_event_data ev = Some (w_uuid_String w c, json_trip_map data)"
    "w' = w\<lparr>w_queue := w_queue w', w_fresh := w_fresh w'\<rparr>"
proof -
  show "em_Type ev = EventUserVerified" "mail_event_data ev = Some (w_uuid_String w c, json_trip_map data)"
    using assms
    by (auto simp: DispatchUserVerified_def dispatch_logged_def uuid_string_def bindE_getE PublishEvent_cases
        logE_def tryE_def retE_def Let_def jget_def jmap_def json_trip_map_def mail_event_data_def
        jsonb_stored_def comp_def split: option.splits)
  have "publishes w w'" using dispatch_publishes(3) [of a c data] assms(1) by (metis moves_def snd_conv)
  then show "w' = w\<lparr>w_queue := w_queue w', w_fresh := w_fresh w'\<rparr>" by (auto simp: publishes_def)
qed

lemma welcome_event_data:
  assumes "wu_Email u \<noteq> ''''"
  shows "event_email (json_trip_map (user_verified_data w u cp)) = retE (wu_Email u)"
    "event_first_name (json_trip_map (user_verified_data w u cp)) =
       retE (case wu_FirstName u of None \<Rightarrow> '''' | Some n \<Rightarrow> n)"
    "event_template_data cp (json_trip_map (user_verified_data w u cp)) (wu_Email u)
       (case wu_FirstName u of None \<Rightarrow> '''' | Some n \<Rightarrow> n) = welcome_data cp u"
  using assms
  by (auto simp: json_trip_map_def user_verified_data_def event_email_def event_first_name_def
      event_template_data_def event_text_def event_int_def welcome_data_def jopt_def empty_data_def split: option.splits)

text \<open>A mail that renders and that the provider accepts is appended to the outbox.\<close>

abbreviation "mailed to subject html w \<equiv>
  w\<lparr>w_outbox := w_outbox w @ [\<lparr>ml_To = to, ml_Subject = subject, ml_Body = html\<rparr>]\<rparr>"

lemma template_mail_run:
  assumes "w_mail_fault w (w_calls w) = None" "w_template_Parse w content = None"
    "w_template_Execute w content data = Ok html"
  shows "map_of ts name = Some content \<Longrightarrow>
      SendEmailWithTemplate ts to subject name data w = (Ok (), mailed to subject html w)"
    "content \<noteq> '''' \<Longrightarrow> SendCustomTemplateEmail to subject content data w = (Ok (), mailed to subject html w)"
  using assms
  by (simp_all add: SendEmailWithTemplate_def SendCustomTemplateEmail_def renderTemplate_def RenderCustomTemplate_def
      execute_template_def annotateE_def mail_SendEmail_def go_defs)

lemma welcome_sender:
  "SendWaitlistWelcomeEmail ts (wu_Email u) (td_FirstName (welcome_data cp u)) (td_CampaignName (welcome_data cp u))
     (td_ReferralLink (welcome_data cp u)) (td_Position (welcome_data cp u)) (td_ReferralCount (welcome_data cp u)) =
   SendEmailWithTemplate ts (wu_Email u) (''Welcome to the '' @ cp_Name cp @ '' waitlist!'') ''waitlist_welcome''
     (welcome_data cp u)"
  by (simp add: SendWaitlistWelcomeEmail_def welcome_data_def empty_data_def)

lemma custom_or_default_run:
  assumes "no_faults w" "\<And>k. w_mail_fault w k = None" "welcome_source ts cp w = Some (subject, content)"
    "content \<noteq> ''''" "w_template_Parse w content = None"
    "w_template_Execute w content (welcome_data cp u) = Ok html"
  shows "sendEmailWithCustomTemplate ts (cp_ID cp) ''welcome'' (wu_Email u) (welcome_data cp u) w =
    (Ok (), mailed (wu_Email u) subject html (ticked w))"
proof -
  let ?ts = "newest_templates (filter (\<lambda>t. ct_CampaignID t = cp_ID cp \<and> ct_Type t = ''welcome'' \<and> ct_Enabled t \<and>
          ct_DeletedAt t = None) (t_campaign_templates w))"
  have nf: "w_fault w n = None" for n using assms(1) by (simp add: no_faults_def)
  have ty: "''welcome'' \<in> set sql_email_template_type" by (simp add: sql_email_template_type_def)
  have pr: "w_mail_fault (ticked w) (w_calls (ticked w)) = None" "w_template_Parse (ticked w) content = None"
    "w_template_Execute (ticked w) content (welcome_data cp u) = Ok html"
    by (simp_all add: assms(2,5,6) ticked_def)
  show ?thesis
  proof (cases ?ts)
    case Nil
    then have get: "store_GetCampaignEmailTemplateByType (cp_ID cp) ''welcome'' w = (Err ErrNotFound, ticked w)"
      by (simp add: store_GetCampaignEmailTemplateByType_def ty row_or_def sql_get_def db_def nf tryE_def
          failE_def Let_def ticked_def)
    have src: "map_of ts ''waitlist_welcome'' = Some content" "subject = ''Welcome to the '' @ cp_Name cp @ '' waitlist!''"
      using assms(3) Nil by (auto simp: welcome_source_def)
    show ?thesis
      unfolding sendEmailWithCustomTemplate_def Let_def tryE_def get welcome_sender src(2) [symmetric]
      by (simp add: template_mail_run(1) [OF pr src(1)])
  next
    case (Cons t rest)
    then have get: "store_GetCampaignEmailTemplateByType (cp_ID cp) ''welcome'' w = (Ok t, ticked w)"
      by (simp add: store_GetCampaignEmailTemplateByType_def ty row_or_Ok sql_get_Ok nf)
    have "t \<in> set ?ts" by (simp add: Cons)
    then have en: "ct_Enabled t" by (simp add: newest_templates_def)
    have src: "ct_Subject t = subject" "ct_HTMLBody t = content"
      using assms(3) Cons by (auto simp: welcome_source_def)
    show ?thesis
      unfolding sendEmailWithCustomTemplate_def Let_def tryE_def get
      by (simp add: en src template_mail_run(2) [OF pr assms(4)])
  qed
qed

lemma campaign_view_frame:
  "campaign_view (w\<lparr>w_queue := q, w_fresh := n\<rparr>) = campaign_view w"
  "campaign_view (w\<lparr>w_calls := k\<rparr>) = campaign_view w"
  by (rule ext, simp add: campaign_view_def waitlist_count_def)+

lemma GetCampaignByID_first:
  assumes "campaigns_where (\<lambda>x. cp_ID x = c) w = cp # rest" "no_faults w"
  shows "store_GetCampaignByID c w = (Ok cp, ticked w)" "cp_ID cp = c"
proof -
  have "campaigns_where (\<lambda>x. cp_ID x = c) (ticked w) = cp # rest"
    using assms(1) by (simp add: campaigns_where_def ticked_def campaign_view_frame)
  then show 1: "store_GetCampaignByID c w = (Ok cp, ticked w)"
    using assms(2) by (simp add: store_GetCampaignByID_def row_or_Ok sql_get_Ok no_faults_def)
  show "cp_ID cp = c" using GetCampaignByID_Ok(1) [OF 1] .
qed

lemma welcome_source_frame:
  "welcome_source ts cp (w\<lparr>w_queue := q, w_fresh := n\<rparr>) = welcome_source ts cp w"
  "welcome_source ts cp (ticked w) = welcome_source ts cp w"
  by (simp_all add: welcome_source_def ticked_def)

text \<open>C29: The message a verification publishes makes the mail worker send exactly one mail, to the
  user: the campaign's newest enabled welcome template, or else the service's, rendered with the
  user's name and position and an empty referral link, since the message carries none.\<close>

theorem verification_sends_welcome:
  assumes "DispatchUserVerified a c (user_verified_data w u cp) w = (Ok (), w0)" "w_queue w0 = w_queue w @ [ev]"
    "no_faults w" "\<And>k. w_mail_fault w k = None" "\<And>i. w_uuid_Parse w (w_uuid_String w i) = Some i"
    "campaigns_where (\<lambda>x. cp_ID x = c) w = cp # rest" "wu_Email u \<noteq> ''''"
    "welcome_source ts cp w = Some (subject, content)" "content \<noteq> ''''" "w_template_Parse w content = None"
    "w_template_Execute w content (welcome_data cp u) = Ok html"
  shows "\<exists>w1. email_Process ts ev w0 = (Ok (), w1) \<and>
    w_outbox w1 = w_outbox w @ [\<lparr>ml_To = wu_Email u, ml_Subject = subject, ml_Body = html\<rparr>] \<and>
    td_ReferralLink (welcome_data cp u) = '''' \<and> td_ReferralCount (welcome_data cp u) = 0"
proof -
  note ev = verified_event [OF assms(1,2)]
  let ?user = "json_trip_map (user_verified_data w u cp)"
  have "campaigns_where (\<lambda>x. cp_ID x = c) w0 = cp # rest"
    by (subst ev(3)) (use assms(6) in \<open>simp add: campaigns_where_def campaign_view_frame\<close>)
  moreover have "no_faults w0" by (subst ev(3)) (use assms(3) in \<open>simp add: no_faults_def\<close>)
  ultimately have get: "store_GetCampaignByID c w0 = (Ok cp, ticked w0)" and c: "cp_ID cp = c"
    by (rule GetCampaignByID_first)+
  have p0: "w_uuid_Parse w0 (w_uuid_String w c) = Some c" by (subst ev(3)) (simp add: assms(5))
  have data: "mail_event_campaign ev w0 = (Ok (cp, ?user), ticked w0)"
    by (simp add: mail_event_campaign_def ev(2) go_defs p0 get)
  have send: "sendEmailWithCustomTemplate ts (cp_ID cp) ''welcome'' (wu_Email u) (welcome_data cp u) (ticked w0) =
      (Ok (), mailed (wu_Email u) subject html (ticked (ticked w0)))"
  proof (rule custom_or_default_run)
    show "welcome_source ts cp (ticked w0) = Some (subject, content)"
      by (subst ev(3)) (simp add: welcome_source_frame assms(8))
    show "no_faults (ticked w0)" by (simp add: \<open>no_faults w0\<close>)
    show "w_mail_fault (ticked w0) k = None" for k by (subst ev(3)) (simp add: ticked_def assms(4))
    show "w_template_Parse (ticked w0) content = None" by (subst ev(3)) (simp add: ticked_def assms(10))
    show "w_template_Execute (ticked w0) content (welcome_data cp u) = Ok html"
      by (subst ev(3)) (simp add: ticked_def assms(11))
  qed (rule assms(9))
  have "email_Process ts ev w0 = (Ok (), mailed (wu_Email u) subject html (ticked (ticked w0)))"
    by (simp add: email_Process_def ev(1) EventUserVerified_def email_handleUserVerified_def bindE_def wrapE_def
        tryE_def data welcome_event_data [OF assms(7)] retE_def send)
  moreover have "w_outbox w0 = w_outbox w" by (subst ev(3)) simp
  ultimately show ?thesis by (simp add: welcome_data_def empty_data_def)
qed

text \<open>Concrete runs: a campaign with both e-mail settings on, and two stored templates.\<close>

definition mail_sample :: world where
  "mail_sample = sample_world\<lparr>
     t_email_settings := [\<lparr>es_ID = 60, es_CampaignID = 10, es_FromName = None, es_FromEmail = None,
       es_ReplyTo = None, es_VerificationRequired = True, es_SendWelcomeEmail = True, es_CreatedAt = 0,
       es_UpdatedAt = 0\<rparr>],
     t_campaign_templates := map (\<lambda>i. \<lparr>ct_ID = i, ct_CampaignID = 10, ct_Name = ''hello'', ct_Type = ''welcome'',
       ct_Subject = ''hi'', ct_HTMLBody = ''<p>hi</p>'', ct_BlocksJSON = None, ct_Enabled = True,
       ct_SendAutomatically = True, ct_VariantName = None, ct_VariantWeight = None, ct_CreatedAt = 0,
       ct_UpdatedAt = 0, ct_DeletedAt = None\<rparr>) [70, 71]\<rparr>"


theorem signup_sends_no_mail_witness:
  "\<exists>ev. em_Type ev = EventUserCreated \<and> list_ex es_VerificationRequired (t_email_settings mail_sample) \<and>
     w_outbox (snd (email_Process email_New ev mail_sample)) = []"
proof -
  let ?ev = "\<lparr>em_ID = ''e'', em_Type = EventUserCreated, em_AccountID = ''a'', em_CampaignID = None,
    em_Data = Some [(''campaign_id'', JStr ''0000000000''), (''user'', JObj [(''email'', JStr ''ann@x.io'')])],
    em_Timestamp = ''now''\<rparr>"
  have "w_outbox (snd (email_Process email_New ?ev mail_sample)) = w_outbox mail_sample"
    using signup_sends_no_mail [of ?ev email_New mail_sample] by simp
  then show ?thesis
    by (intro exI [of _ ?ev]) (simp add: mail_sample_def sample_world_def empty_world_def)
qed

theorem verification_sends_welcome_witness:
  "\<exists>w0 w1 ev cp. DispatchUserVerified 1 10 (user_verified_data mail_sample (sample_user 22 ''bob@x.io'' ''BOB'' 3) cp)
       mail_sample = (Ok (), w0) \<and> w_queue w0 = [ev] \<and> email_Process email_New ev w0 = (Ok (), w1) \<and>
     w_outbox w1 = [\<lparr>ml_To = ''bob@x.io'', ml_Subject = ''hi'', ml_Body = ''<p>hi</p>''\<rparr>]"
proof -
  let ?u = "sample_user 22 ''bob@x.io'' ''BOB'' 3"
  obtain cp rest where cp: "campaigns_where (\<lambda>x. cp_ID x = 10) mail_sample = cp # rest"
    by (simp add: campaigns_where_def mail_sample_def sample_campaign_def)
  then have id: "cp_ID cp = 10" by (auto simp: campaigns_where_def mail_sample_def sample_campaign_def)
  let ?m = "DispatchUserVerified 1 10 (user_verified_data mail_sample ?u cp) mail_sample"
  obtain w0 ev where w0: "?m = (Ok (), w0)" "w_queue w0 = w_queue mail_sample @ [ev]"
    by (simp add: DispatchUserVerified_def dispatch_logged_def uuid_string_def bindE_getE PublishEvent_cases
        logE_def tryE_def retE_def Let_def mail_sample_def sample_world_def empty_world_def)
  have "no_faults mail_sample" "w_mail_fault mail_sample k = None" "w_queue mail_sample = []" "w_outbox mail_sample = []"
    "w_uuid_Parse mail_sample (w_uuid_String mail_sample i) = Some i" "w_template_Parse mail_sample s = None"
    "w_template_Execute mail_sample s d = Ok s" for k i s d
    by (simp_all add: no_faults_def mail_sample_def sample_world_def empty_world_def)
  note sample = this
  have src: "welcome_source email_New cp mail_sample = Some (''hi'', ''<p>hi</p>'')"
    by (simp add: welcome_source_def id newest_templates_def mail_sample_def sort_Slice_def)
  have u: "wu_Email ?u = ''bob@x.io''" by (simp add: sample_user_def)
  obtain w1 where "email_Process email_New ev w0 = (Ok (), w1)"
    "w_outbox w1 = w_outbox mail_sample @ [\<lparr>ml_To = wu_Email ?u, ml_Subject = ''hi'', ml_Body = ''<p>hi</p>''\<rparr>]"
    using verification_sends_welcome [OF w0 sample(1,2,5) cp _ src _ sample(6,7)] by (auto simp: u)
  then show ?thesis using w0 sample(3,4) u by auto
qed

end
