(* ===== verification/SignupFacts.thy ===== *)
theory SignupFacts
  imports WaitlistFacts
begin

text \<open>
  Signups through a channel code: the code that a user shares on one channel, in the format
  ABC123_TW. The channel becomes the source of the new user.
\<close>

text \<open>The users a channel code belongs to, as GetUserByChannelCode reads them.\<close>

definition channel_holders :: "string \<Rightarrow> world \<Rightarrow> WaitlistUser list" where
  "channel_holders code w = concat (map (\<lambda>u. map (\<lambda>c. channel_columns u)
     (filter (\<lambda>c. cc_UserID c = wu_ID u \<and> cc_Code c = code) (t_user_channel_codes w)))
     (filter (\<lambda>u. wu_DeletedAt u = None) (t_waitlist_users w)))"

lemma channel_is_no_source: "set sql_sharing_channel \<inter> set sql_user_source = {}"
  by (simp add: sql_sharing_channel_def sql_user_source_def)

lemma channel_code_lookup:
  assumes "store_GetUserByChannelCode rc w = (Ok (r, ch), w')" "channel_holders rc w = u # us"
  shows "r = Some u \<and> ch \<in> cc_Channel ` set (t_user_channel_codes w)"
proof -
  let ?q = "\<lambda>w. concat (map (\<lambda>u. map (\<lambda>c. channel_columns u)
     (filter (\<lambda>c. cc_UserID c = wu_ID u \<and> cc_Code c = rc) (t_user_channel_codes w)))
     (filter (\<lambda>u. wu_DeletedAt u = None) (t_waitlist_users w)))"
  have q: "?q (ticked w) = u # us" using assms(2) by (simp add: channel_holders_def ticked_def)
  from assms(1) show ?thesis unfolding store_GetUserByChannelCode_def
  proof (cases rule: tryE_OkE)
    case (ok x s1)
    then have x: "x = u" "s1 = ticked w" using q by (simp_all add: sql_get_Ok)
    have "ch \<in> cc_Channel ` set (t_user_channel_codes (ticked s1))"
      using ok(2) by (auto simp: ok_simps) (metis (no_types, lifting) filter_is_subset image_eqI image_iff
        list.set_intros(1) set_map subsetD)
    then show ?thesis using ok(2) x by (auto simp: ok_simps ticked_def)
  next
    case (err e s1)
    have "w_fault w (w_calls w) \<noteq> None"
      using err(1) q by (auto simp: sql_get_def db_def Let_def ticked_def split: option.splits)
    then have "e = DbErr (the (w_fault w (w_calls w)))" using err(1) by (auto simp: sql_get_def db_def Let_def)
    then show ?thesis using err(2) by (simp add: failE_Ok)
  qed
qed

lemma channel_holders_tick: "tick w w' \<Longrightarrow> channel_holders code w' = channel_holders code w \<and>
    t_user_channel_codes w' = t_user_channel_codes w"
  by (auto simp: tick_def channel_holders_def)

text \<open>A referral resolved through a channel code gives a source that the column does not take.\<close>

lemma channel_source:
  assumes "resolve_referral c (Some rc) w = (Ok rs, w')" "rc \<noteq> ''''" "channel_holders rc w = u # us"
    "wu_CampaignID u = c" "\<forall>cc\<in>set (t_user_channel_codes w). cc_Channel cc \<in> set sql_sharing_channel"
  shows "snd rs \<notin> set sql_user_source"
proof -
  from assms(1,2) obtain rch w1 where 1: "store_GetUserByChannelCode rc w = (Ok rch, w1)"
    and 2: "(case fst rch of None \<Rightarrow> legacy_referral c rc
      | Some r \<Rightarrow> if wu_CampaignID r = c then retE (Some (wu_ID r), snd rch) else legacy_referral c rc) w1 = (Ok rs, w')"
    by (auto simp: resolve_referral_def elim!: bindE_OkE)
  have rch: "fst rch = Some u" "snd rch \<in> cc_Channel ` set (t_user_channel_codes w)"
    using channel_code_lookup [of rc w "fst rch" "snd rch" w1 u us] 1 assms(3) by simp_all
  have "snd rs = snd rch" using 2 rch(1) assms(4) by (auto simp: retE_Ok)
  moreover have "snd rch \<in> set sql_sharing_channel" using rch(2) assms(5) by auto
  ultimately show ?thesis using channel_is_no_source by auto
qed

text \<open>C3: A signup with a channel code of a user of the campaign never succeeds: the channel becomes
  the source of the new user, and no channel is a label of the column's enum, so the insert is
  refused.\<close>

theorem channel_code_signup_fails:
  assumes "sr_ReferralCode req = Some rc" "rc \<noteq> ''''" "channel_holders rc w = u # us" "wu_CampaignID u = c"
    "\<forall>cc\<in>set (t_user_channel_codes w). cc_Channel cc \<in> set sql_sharing_channel"
  shows "\<not> is_Ok (fst (SignupUser c req b w))"
proof
  assume "is_Ok (fst (SignupUser c req b w))"
  then obtain r w' where "SignupUser c req b w = (Ok r, w')"
    by (cases "SignupUser c req b w") (auto elim: is_Ok.elims)
  then obtain cp rs code tok w1 w2 w3 w4 w6 w7 v where
    1: "not_found_as (WL WL_ErrCampaignNotFound) (store_GetCampaignByID c) w = (Ok cp, w1)" and
    2: "check_email_free c (sr_Email req) w1 = (Ok (), w2)" and
    3: "check_captcha cp req w2 = (Ok (), w3)" and
    4: "resolve_referral c (Some rc) w3 = (Ok rs, w4)" and
    5: "store_CreateWaitlistUser (signup_params c req (fst rs) (snd rs) code tok) w6 = (Ok v, w7)"
    unfolding SignupUser_after_create assms(1)
    by (elim bindE_OkE) (auto simp: failE_Ok elim!: bindE_OkE split: if_splits)
  have "tick w w3"
    using moves_tickD [OF not_found_campaign_reads 1] moves_tickD [OF signup_checks_read(1) 2]
      moves_tickD [OF signup_checks_read(2) 3] tick_trans by blast
  then have "snd rs \<notin> set sql_user_source"
    using channel_source [OF 4 assms(2) _ assms(4), of us] channel_holders_tick [of w w3 rc] assms(3,5) by simp
  moreover have "waitlist_row_ok v \<and> wu_Source v = Some (snd rs)"
    using 5 unfolding store_CreateWaitlistUser_def wrapE_Ok sql_insert_Ok
    by (auto simp: waitlist_constraints_def new_waitlist_user_def signup_params_def split: if_splits)
  ultimately show False by (auto simp: waitlist_row_ok_def enum_ok_def)
qed

definition channel_sample :: world where
  "channel_sample = sample_world\<lparr>t_user_channel_codes :=
     [\<lparr>cc_ID = 80, cc_UserID = 21, cc_Channel = ''twitter'', cc_Code = ''ANN_TW'', cc_CreatedAt = 0\<rparr>]\<rparr>"

theorem channel_code_signup_fails_witness:
  "\<not> is_Ok (fst (SignupUser 10 (sample_signup ''cal@x.io'' (Some ''ANN_TW'')) '''' channel_sample)) \<and>
   channel_holders ''ANN_TW'' channel_sample \<noteq> []"
proof -
  have "\<exists>u. channel_holders ''ANN_TW'' channel_sample = [u] \<and> wu_CampaignID u = 10"
    by (simp add: channel_holders_def channel_sample_def sample_world_def sample_user_def channel_columns_def)
  then obtain u where u: "channel_holders ''ANN_TW'' channel_sample = [u]" "wu_CampaignID u = 10" by blast
  have "\<forall>cc\<in>set (t_user_channel_codes channel_sample). cc_Channel cc \<in> set sql_sharing_channel"
    by (simp add: channel_sample_def sql_sharing_channel_def)
  then show ?thesis
    using channel_code_signup_fails [OF _ _ u, of "sample_signup ''cal@x.io'' (Some ''ANN_TW'')" "''''"] u(1)
    by (simp add: sample_signup_def)
qed

end
