(* ===== verification/Requests.thy ===== *)
theory Requests
  imports Http
begin

text \<open>
  What the HTTP handlers read from a request. gin is not under src/: its context is a record of
  what its methods answer for one request (c.Get, c.Param, c.Query, c.DefaultQuery, c.QueryArray,
  c.GetHeader, c.ClientIP, c.DefaultPostForm), with the keys, all of them strings, that the
  middleware has set. The number parsers of strconv and fmt, and the reading of viewer headers in
  observability/logger.go.
\<close>

section \<open>The context\<close>

record gin_Context =
  gc_Get :: "string \<Rightarrow> string option"
  gc_Param :: "string \<Rightarrow> string"
  gc_Query :: "string \<Rightarrow> string"
  gc_DefaultQuery :: "string \<Rightarrow> string \<Rightarrow> string"
  gc_QueryArray :: "string \<Rightarrow> string list"
  gc_URLQuery :: "(string \<times> string list) list"
  gc_GetHeader :: "string \<Rightarrow> string"
  gc_DefaultPostForm :: "string \<Rightarrow> string \<Rightarrow> string"
  gc_ClientIP :: string
  gc_ParseFloat :: "string \<Rightarrow> rat option"

text \<open>\<^verbatim>\<open>uuid.Parse\<close> answered with an error of the package apierrors.\<close>

definition api_parse_id ::
    "string \<Rightarrow> string \<Rightarrow> string \<Rightarrow> (uuid \<Rightarrow> (world, 'b reply) go) \<Rightarrow> (world, 'b reply) go" where
  "api_parse_id code msg s k = bindE (getE w_uuid_Parse) (\<lambda>parse.
     case parse s of None \<Rightarrow> api_BadRequest code msg | Some i \<Rightarrow> k i)"

text \<open>A key that must be there: c.MustGet and uuid.MustParse panic.\<close>

definition must_get_id :: "gin_Context \<Rightarrow> string \<Rightarrow> (uuid \<Rightarrow> (world, 'b reply) go) \<Rightarrow> (world, 'b reply) go" where
  "must_get_id c key k = (case gc_Get c key of
       None \<Rightarrow> panicE (''Key \"'' @ key @ ''\" does not exist'')
     | Some s \<Rightarrow> bindE (getE w_uuid_Parse) (\<lambda>parse.
         case parse s of None \<Rightarrow> panicE (''uuid: Parse('' @ s @ '')'') | Some i \<Rightarrow> k i))"

text \<open>The account a request is made for, in the two styles of the handlers.\<close>

definition gin_account :: "gin_Context \<Rightarrow> (uuid \<Rightarrow> (world, 'b reply) go) \<Rightarrow> (world, 'b reply) go" where
  "gin_account c k = (case gc_Get c ''Account-ID'' of
       None \<Rightarrow> api_Unauthorized ''account ID not found in context''
     | Some s \<Rightarrow> parse_id ''invalid account id'' s k)"

definition api_account :: "gin_Context \<Rightarrow> (uuid \<Rightarrow> (world, 'b reply) go) \<Rightarrow> (world, 'b reply) go" where
  "api_account c k = (case gc_Get c ''Account-ID'' of
       None \<Rightarrow> api_Unauthorized ''Account ID not found in context''
     | Some s \<Rightarrow> api_parse_id ''INVALID_ACCOUNT_ID'' ''Invalid account ID'' s k)"

definition gin_campaign :: "gin_Context \<Rightarrow> (uuid \<Rightarrow> (world, 'b reply) go) \<Rightarrow> (world, 'b reply) go" where
  "gin_campaign c k = parse_id ''invalid campaign id'' (gc_Param c ''campaign_id'') k"

definition api_campaign :: "gin_Context \<Rightarrow> (uuid \<Rightarrow> (world, 'b reply) go) \<Rightarrow> (world, 'b reply) go" where
  "api_campaign c k = api_parse_id ''INVALID_CAMPAIGN_ID'' ''Invalid campaign ID'' (gc_Param c ''campaign_id'') k"

section \<open>Numbers\<close>

definition decimal :: "string \<Rightarrow> int" where
  "decimal ds = foldl (\<lambda>n c. 10 * n + (int (of_char c) - 48)) 0 ds"

definition signed_text :: "string \<Rightarrow> bool \<times> string" where
  "signed_text s = (case s of [] \<Rightarrow> (False, [])
     | c # cs \<Rightarrow> if c = CHR ''-'' then (True, cs) else if c = CHR ''+'' then (False, cs) else (False, s))"

text \<open>
  strconv.Atoi: the value, and whether the error is nil; beyond 64 bits the value is the nearest
  \<^verbatim>\<open>int\<close>. The verb \<^verbatim>\<open>%d\<close> of fmt.Sscanf skips white space, but no newline, and ignores what
  follows the digits.
\<close>

definition Atoi :: "string \<Rightarrow> int \<times> bool" where
  "Atoi s = (let (neg, ds) = signed_text s in
     if ds = [] \<or> \<not> list_all is_digit ds then (0, False)
     else (let v = (if neg then - decimal ds else decimal ds) in
       if int64 v then (v, True) else (if neg then - (2 ^ 63) else 2 ^ 63 - 1, False)))"

definition Sscanf_d :: "string \<Rightarrow> int option" where
  "Sscanf_d s = (let (neg, r) = signed_text (dropWhile (\<lambda>c. is_space c \<and> c \<noteq> CHR 10) s);
       ds = takeWhile is_digit r;
       v = (if neg then - decimal ds else decimal ds) in
     if ds \<noteq> [] \<and> int64 v then Some v else None)"

text \<open>An optional query parameter, and the page of a listing.\<close>

definition query_opt :: "gin_Context \<Rightarrow> string \<Rightarrow> string option" where
  "query_opt c k = (if gc_Query c k = '''' then None else Some (gc_Query c k))"

definition page_param :: "gin_Context \<Rightarrow> int" where
  "page_param c = (case query_opt c ''page'' of None \<Rightarrow> 1
     | Some s \<Rightarrow> (case Sscanf_d s of None \<Rightarrow> 1 | Some p \<Rightarrow> if p < 1 then 1 else p))"

definition parseIntQuery :: "gin_Context \<Rightarrow> string \<Rightarrow> int \<Rightarrow> int" where
  "parseIntQuery c key defaultValue =
     (if gc_Query c key = '''' then defaultValue
      else (case Atoi (gc_Query c key) of (val, ok) \<Rightarrow> if ok then val else defaultValue))"

lemma page_param_pos: "1 \<le> page_param c"
  by (auto simp: page_param_def split: option.split)

section \<open>The viewer of a request\<close>

definition strings_LastIndex :: "string \<Rightarrow> char \<Rightarrow> nat option" where
  "strings_LastIndex s sep = (let t = dropWhile (\<lambda>c. c \<noteq> sep) (rev s) in
     if t = [] then None else Some (length t - 1))"

definition GetRealClientIP :: "gin_Context \<Rightarrow> string" where
  "GetRealClientIP c = (let viewerAddr = gc_GetHeader c ''CloudFront-Viewer-Address'' in
     if viewerAddr \<noteq> '''' then
       (case strings_LastIndex viewerAddr (CHR '':'') of
          None \<Rightarrow> viewerAddr
        | Some colonIdx \<Rightarrow> if 0 < colonIdx then take colonIdx viewerAddr else viewerAddr)
     else gc_ClientIP c)"

definition GetRealUserAgent :: "gin_Context \<Rightarrow> string" where
  "GetRealUserAgent c = gc_GetHeader c ''User-Agent''"

record CloudFrontViewerInfo =
  cf_Country :: "string option"
  cf_Region :: "string option"
  cf_RegionCode :: "string option"
  cf_City :: "string option"
  cf_PostalCode :: "string option"
  cf_UserTimezone :: "string option"
  cf_Latitude :: "rat option"
  cf_Longitude :: "rat option"
  cf_MetroCode :: "string option"
  cf_DeviceType :: "string option"
  cf_DeviceOS :: "string option"

definition strPtrIfNotEmpty :: "string \<Rightarrow> string option" where
  "strPtrIfNotEmpty s = (if s = '''' then None else Some s)"

definition GetDeviceType :: "gin_Context \<Rightarrow> string" where
  "GetDeviceType c =
     (if gc_GetHeader c ''CloudFront-Is-Mobile-Viewer'' = ''true'' then ''mobile''
      else (let ua = ToLower (GetRealUserAgent c); has = strings_Contains ua in
        if has ''ipad'' \<or> has ''android'' \<and> \<not> has ''mobile'' \<or> has ''tablet'' then ''tablet''
        else if has ''smart-tv'' \<or> has ''smarttv'' \<or> has ''googletv'' \<or> has ''appletv'' \<or> has ''roku''
          \<or> has ''webos'' \<or> has ''tizen'' then ''smarttv''
        else if has ''mobile'' \<or> has ''iphone'' \<or> has ''ipod'' \<or> has ''android'' \<and> has ''mobile'' then ''mobile''
        else if ua \<noteq> '''' then ''desktop'' else ''unknown''))"

definition GetDeviceOS :: "gin_Context \<Rightarrow> string" where
  "GetDeviceOS c = (let ua = ToLower (GetRealUserAgent c); has = strings_Contains ua in
     if has ''android'' then ''android''
     else if has ''iphone'' \<or> has ''ipad'' \<or> has ''ipod'' \<or> has ''ios'' then ''ios'' else ''other'')"

definition coordinate :: "gin_Context \<Rightarrow> string \<Rightarrow> rat option" where
  "coordinate c header = (let v = gc_GetHeader c header in if v = '''' then None else gc_ParseFloat c v)"

definition GetCloudFrontViewerInfo :: "gin_Context \<Rightarrow> CloudFrontViewerInfo" where
  "GetCloudFrontViewerInfo c = (let header = (\<lambda>name. strPtrIfNotEmpty (gc_GetHeader c name)) in \<lparr>
     cf_Country = header ''CloudFront-Viewer-Country-Name'',
     cf_Region = header ''CloudFront-Viewer-Country-Region-Name'',
     cf_RegionCode = header ''CloudFront-Viewer-Country-Region'',
     cf_City = header ''CloudFront-Viewer-City'',
     cf_PostalCode = header ''CloudFront-Viewer-Postal-Code'',
     cf_UserTimezone = header ''CloudFront-Viewer-Time-Zone'',
     cf_Latitude = coordinate c ''CloudFront-Viewer-Latitude'',
     cf_Longitude = coordinate c ''CloudFront-Viewer-Longitude'',
     cf_MetroCode = header ''CloudFront-Viewer-Metro-Code'',
     cf_DeviceType = Some (GetDeviceType c), cf_DeviceOS = Some (GetDeviceOS c)\<rparr>)"

section \<open>Values of a request's context\<close>

text \<open>
  \<^verbatim>\<open>ctx.Value(key)\<close> for a key of type string: the middleware of observability stores one value, under
  a key of its own type ObservabilityContextKey, and nothing else is stored, so that every such
  lookup is nil.
\<close>

definition ctx_Value :: "string \<Rightarrow> jval" where
  "ctx_Value key = JNull"

text \<open>The type assertion \<^verbatim>\<open>v.(int64)\<close>.\<close>

definition assert_int64 :: "jval \<Rightarrow> (world, int) go" where
  "assert_int64 v = (case v of JInt i \<Rightarrow> retE i
     | _ \<Rightarrow> panicE ''interface conversion: interface {} is nil, not int64'')"

section \<open>More binding tags\<close>

definition tag_oneof :: "string \<Rightarrow> string list \<Rightarrow> string \<Rightarrow> FieldError list \<Rightarrow> FieldError list" where
  "tag_oneof field values v rest =
     (if v \<in> set values then rest
      else [\<lparr>fe_Field = field, fe_Tag = ''oneof'', fe_Param = strings_Join values '' ''\<rparr>])"

definition tag_gte0 :: "string \<Rightarrow> int \<Rightarrow> FieldError list" where
  "tag_gte0 field v = (if 0 \<le> v then [] else [\<lparr>fe_Field = field, fe_Tag = ''gte'', fe_Param = ''0''\<rparr>])"

definition tag_pred :: "string \<Rightarrow> string \<Rightarrow> bool \<Rightarrow> FieldError list" where
  "tag_pred field tag ok = (if ok then [] else [\<lparr>fe_Field = field, fe_Tag = tag, fe_Param = ''''\<rparr>])"

text \<open>omitempty before other tags of a pointer field: nil passes.\<close>

definition tag_omitempty :: "'a option \<Rightarrow> ('a \<Rightarrow> FieldError list) \<Rightarrow> FieldError list" where
  "tag_omitempty v tags = (case v of None \<Rightarrow> [] | Some x \<Rightarrow> tags x)"

text \<open>dive: the tags of every element, under the name of the field with the index.\<close>

definition tag_dive :: "string \<Rightarrow> 'a list \<Rightarrow> (string \<Rightarrow> 'a \<Rightarrow> FieldError list) \<Rightarrow> FieldError list" where
  "tag_dive field xs tags = concat (map (\<lambda>(i, x). tags (field @ ''['' @ Itoa (int i) @ '']'') x) (enumerate 0 xs))"

text \<open>The pattern of the tag \<^verbatim>\<open>uuid\<close>: groups of 8, 4, 4, 4 and 12 hexadecimal digits in lower case.\<close>

definition hex_char :: "char \<Rightarrow> bool" where
  "hex_char ch = (is_digit ch \<or> (97 \<le> (of_char ch :: nat) \<and> (of_char ch :: nat) \<le> 102))"

definition uuid_text :: "string \<Rightarrow> bool" where
  "uuid_text s = (let ps = strings_Split s (CHR ''-'') in
     map length ps = [8, 4, 4, 4, 12] \<and> list_all (list_all hex_char) ps)"

text \<open>\<^verbatim>\<open>required,max=n\<close> and \<^verbatim>\<open>required,min=1\<close> of a string.\<close>

definition tags_text :: "string \<Rightarrow> int \<Rightarrow> string \<Rightarrow> FieldError list" where
  "tags_text field n s = tag_required field (s \<noteq> '''') (tag_max field n (rune_count s) [])"

definition tags_nonempty :: "string \<Rightarrow> string \<Rightarrow> FieldError list" where
  "tags_nonempty field s = tag_required field (s \<noteq> '''') (tag_min field 1 (rune_count s) [])"

end
