(* ===== verification/WaitlistHttp.thy ===== *)
theory WaitlistHttp
  imports Requests Position
begin

text \<open>
  The endpoints of the waitlist, waitlist/handler/handler.go: the public signup and verification,
  and the listing, search, update, import and export of users for the company. A handler is given
  the context and, where it binds one, the decoded body (None for a body that does not decode).
  An uploaded file is its text; encoding/csv splits it into records (None for a line with a quoting
  error) and encoding/json decodes it, both arguments of the handler that imports.
\<close>

section \<open>Errors\<close>

definition wl_handleError :: "err \<Rightarrow> (world, 'b reply) go" where
  "wl_handleError e = (let is = (\<lambda>s. errors_Is e (Sentinel (WL s))) in
     if is WL_ErrUserNotFound then api_NotFound ''User not found''
     else if is WL_ErrCampaignNotFound then api_NotFound ''Campaign not found''
     else if is WL_ErrEmailAlreadyExists then api_Conflict ''EMAIL_EXISTS'' ''Email already exists for this campaign''
     else if is WL_ErrInvalidReferralCode then api_BadRequest ''INVALID_REFERRAL_CODE'' ''Invalid referral code''
     else if is WL_ErrInvalidStatus then api_BadRequest ''INVALID_STATUS'' ''Invalid user status''
     else if is WL_ErrInvalidSource then api_BadRequest ''INVALID_SOURCE'' ''Invalid user source''
     else if is WL_ErrUnauthorized then api_Forbidden ''UNAUTHORIZED'' ''Unauthorized access to campaign''
     else if is WL_ErrInvalidVerificationToken then api_BadRequest ''INVALID_TOKEN'' ''Invalid verification token''
     else if is WL_ErrEmailAlreadyVerified then api_Conflict ''ALREADY_VERIFIED'' ''Email already verified''
     else if is WL_ErrMaxSignupsReached then api_Conflict ''MAX_SIGNUPS_REACHED'' ''Campaign has reached maximum signups''
     else if is WL_ErrCaptchaRequired then api_BadRequest ''CAPTCHA_REQUIRED'' ''Captcha verification required''
     else if is WL_ErrCaptchaFailed then api_BadRequest ''CAPTCHA_FAILED'' ''Captcha verification failed''
     else if is WL_ErrCampaignNotActive then api_Conflict ''CAMPAIGN_NOT_ACTIVE'' ''Campaign is not accepting signups''
     else if is WL_ErrJSONExportNotAvailable
       then api_Forbidden ''FEATURE_NOT_AVAILABLE'' ''JSON export is not available in your plan''
     else if is WL_ErrLeadsLimitReached
       then api_Forbidden ''LEADS_LIMIT_REACHED''
         ''You have reached your leads limit. Please upgrade your plan to add more leads.''
     else if is WL_ErrEmailVerificationNotAvailable
       then api_Forbidden ''FEATURE_NOT_AVAILABLE''
         ''Email verification is not available in your plan. Please upgrade to Pro or Team plan.''
     else if is WL_ErrCustomFieldFilteringUnavailable
       then api_Forbidden ''FEATURE_NOT_AVAILABLE''
         ''Custom field filtering requires enhanced lead data feature. Please upgrade to Pro or Team plan.''
     else api_InternalError e)"

definition wl_user :: "gin_Context \<Rightarrow> (uuid \<Rightarrow> (world, 'b reply) go) \<Rightarrow> (world, 'b reply) go" where
  "wl_user c k = api_parse_id ''INVALID_USER_ID'' ''Invalid user ID'' (gc_Param c ''user_id'') k"

section \<open>Public endpoints\<close>

record SignupRequest =
  sgr_Email :: string
  sgr_ReferralCode :: "string option"
  sgr_CustomFields :: "(string \<times> string) list"
  sgr_UTMSource :: "string option"
  sgr_UTMMedium :: "string option"
  sgr_UTMCampaign :: "string option"
  sgr_UTMTerm :: "string option"
  sgr_UTMContent :: "string option"
  sgr_MarketingConsent :: bool
  sgr_TermsAccepted :: bool
  sgr_CaptchaToken :: "string option"

definition signup_tags :: "(string \<Rightarrow> bool) \<Rightarrow> SignupRequest \<Rightarrow> FieldError list" where
  "signup_tags is_email req =
     tag_required ''Email'' (sgr_Email req \<noteq> '''') (tag_pred ''Email'' ''email'' (is_email (sgr_Email req))) @
     tag_required ''TermsAccepted'' (sgr_TermsAccepted req) []"

definition signup_request :: "gin_Context \<Rightarrow> SignupRequest \<Rightarrow> SignupUserRequest" where
  "signup_request c req = (let cf = GetCloudFrontViewerInfo c in \<lparr>
     sr_Email = sgr_Email req, sr_FirstName = None, sr_LastName = None,
     sr_ReferralCode = sgr_ReferralCode req, sr_CustomFields = sgr_CustomFields req,
     sr_UTMSource = sgr_UTMSource req, sr_UTMMedium = sgr_UTMMedium req,
     sr_UTMCampaign = sgr_UTMCampaign req, sr_UTMTerm = sgr_UTMTerm req,
     sr_UTMContent = sgr_UTMContent req, sr_MarketingConsent = sgr_MarketingConsent req,
     sr_TermsAccepted = sgr_TermsAccepted req, sr_IPAddress = Some (GetRealClientIP c),
     sr_UserAgent = Some (GetRealUserAgent c), sr_CaptchaToken = sgr_CaptchaToken req,
     sr_Country = cf_Country cf, sr_Region = cf_Region cf, sr_RegionCode = cf_RegionCode cf,
     sr_PostalCode = cf_PostalCode cf, sr_UserTimezone = cf_UserTimezone cf,
     sr_Latitude = cf_Latitude cf, sr_Longitude = cf_Longitude cf, sr_MetroCode = cf_MetroCode cf,
     sr_DeviceType = cf_DeviceType cf, sr_DeviceOS = cf_DeviceOS cf\<rparr>)"

definition HandleSignupUser ::
    "(string \<Rightarrow> bool) \<Rightarrow> string \<Rightarrow> gin_Context \<Rightarrow> SignupRequest option \<Rightarrow> SignupUserResponse handler" where
  "HandleSignupUser is_email baseURL c body =
     api_campaign c (\<lambda>campaignID.
     bind_json body (signup_tags is_email) (\<lambda>req.
     tryE (SignupUser campaignID (signup_request c req) baseURL) wl_handleError (\<lambda>response.
     retE (JSON 201 response))))"

definition HandleVerifyEmail :: "gin_Context \<Rightarrow> string handler" where
  "HandleVerifyEmail c =
     api_campaign c (\<lambda>campaignID.
     let token = gc_Query c ''token'' in
     if token = '''' then api_BadRequest ''MISSING_TOKEN'' ''Verification token is required''
     else tryE (VerifyUserByToken campaignID token) wl_handleError (\<lambda>u.
     retE (JSON 200 ''Email verified successfully'')))"

section \<open>Listing and searching\<close>

definition limit_param :: "gin_Context \<Rightarrow> int" where
  "limit_param c = (case query_opt c ''limit'' of None \<Rightarrow> 25
     | Some s \<Rightarrow> (let l = (case Sscanf_d s of None \<Rightarrow> 25 | Some l \<Rightarrow> if l < 1 then 25 else l) in
         if 10000 < l then 10000 else l))"

text \<open>An array parameter, as \<^verbatim>\<open>key[]=a&key[]=b\<close> or as \<^verbatim>\<open>key=a\<close>.\<close>

definition array_param :: "gin_Context \<Rightarrow> string \<Rightarrow> string list" where
  "array_param c key = (let vs = gc_QueryArray c (key @ ''[]'') in
     if vs \<noteq> [] then vs else (case query_opt c key of None \<Rightarrow> [] | Some s \<Rightarrow> [s]))"

definition int_param :: "gin_Context \<Rightarrow> string \<Rightarrow> int option" where
  "int_param c key = Option.bind (query_opt c key) Sscanf_d"

definition custom_field_key :: "string \<Rightarrow> string option" where
  "custom_field_key key =
     (if HasPrefix key ''custom_fields['' \<and> key \<noteq> [] \<and> last key = CHR '']'' \<and> 14 \<le> length key - 1
      then Some (drop 14 (butlast key)) else None)"

text \<open>
  The loop over the query. A key matches with its prefix of 14 bytes and its last byte; the two do
  not overlap, since the last byte of the prefix is another one.
\<close>

definition custom_fields_param :: "gin_Context \<Rightarrow> (string \<times> string) list" where
  "custom_fields_param c = fold (\<lambda>(key, values) m. case custom_field_key key of
       None \<Rightarrow> m
     | Some fieldName \<Rightarrow> (case values of
         v # _ \<Rightarrow> if fieldName \<noteq> '''' then AList.update fieldName v m else m
       | [] \<Rightarrow> m)) (gc_URLQuery c) []"

definition list_request :: "gin_Context \<Rightarrow> ListUsersRequest" where
  "list_request c = \<lparr>
     lr_Statuses = array_param c ''status'', lr_Sources = array_param c ''source'',
     lr_HasReferrals = map_option (\<lambda>s. s = ''true'') (query_opt c ''has_referrals''),
     lr_MinPosition = int_param c ''min_position'', lr_MaxPosition = int_param c ''max_position'',
     lr_DateFrom = query_opt c ''date_from'', lr_DateTo = query_opt c ''date_to'',
     lr_CustomFields = custom_fields_param c, lr_SortBy = gc_DefaultQuery c ''sort'' ''position'',
     lr_SortOrder = gc_DefaultQuery c ''order'' ''asc'', lr_Page = page_param c,
     lr_Limit = limit_param c\<rparr>"

definition HandleListUsers :: "gin_Context \<Rightarrow> ListUsersResponse handler" where
  "HandleListUsers c =
     api_account c (\<lambda>accountID. api_campaign c (\<lambda>campaignID.
     tryE (ListUsers accountID campaignID (list_request c)) wl_handleError (\<lambda>response.
     retE (JSON 200 response))))"

record http_SearchUsersRequest =
  hsu_Query :: "string option"
  hsu_Status :: "string list"
  hsu_Verified :: "bool option"
  hsu_MinReferrals :: "int option"
  hsu_DateFrom :: "string option"
  hsu_DateTo :: "string option"

definition HandleSearchUsers :: "gin_Context \<Rightarrow> http_SearchUsersRequest option \<Rightarrow> ListUsersResponse handler" where
  "HandleSearchUsers c body =
     api_account c (\<lambda>accountID. api_campaign c (\<lambda>campaignID.
     bind_json body (\<lambda>_. []) (\<lambda>req.
     tryE (SearchUsers accountID campaignID \<lparr>
         sq_Query = hsu_Query req, sq_Statuses = hsu_Status req, sq_Verified = hsu_Verified req,
         sq_MinReferrals = hsu_MinReferrals req, sq_DateFrom = hsu_DateFrom req,
         sq_DateTo = hsu_DateTo req, sq_Page = page_param c, sq_Limit = limit_param c\<rparr>)
       wl_handleError (\<lambda>response.
     retE (JSON 200 response)))))"

section \<open>One user\<close>

definition HandleGetUser :: "gin_Context \<Rightarrow> WaitlistUser handler" where
  "HandleGetUser c =
     api_account c (\<lambda>accountID. api_campaign c (\<lambda>campaignID. wl_user c (\<lambda>userID.
     tryE (GetUser accountID campaignID userID) wl_handleError (\<lambda>user. retE (JSON 200 user)))))"

definition HandleUpdateUser :: "gin_Context \<Rightarrow> UpdateUserRequest option \<Rightarrow> WaitlistUser handler" where
  "HandleUpdateUser c body =
     api_account c (\<lambda>accountID. api_campaign c (\<lambda>campaignID. wl_user c (\<lambda>userID.
     bind_json body (\<lambda>_. []) (\<lambda>req.
     tryE (UpdateUser accountID campaignID userID req) wl_handleError (\<lambda>user. retE (JSON 200 user))))))"

definition HandleDeleteUser :: "gin_Context \<Rightarrow> unit handler" where
  "HandleDeleteUser c =
     api_account c (\<lambda>accountID. api_campaign c (\<lambda>campaignID. wl_user c (\<lambda>userID.
     tryE (DeleteUser accountID campaignID userID) wl_handleError (\<lambda>u. retE (JSON 204 ())))))"

definition HandleVerifyUser :: "gin_Context \<Rightarrow> string handler" where
  "HandleVerifyUser c =
     api_account c (\<lambda>accountID. api_campaign c (\<lambda>campaignID. wl_user c (\<lambda>userID.
     tryE (VerifyUser accountID campaignID userID) wl_handleError (\<lambda>u.
     retE (JSON 200 ''User verified successfully'')))))"

text \<open>The answer is the message and the time it was sent at.\<close>

definition HandleResendVerification :: "gin_Context \<Rightarrow> (string \<times> string) handler" where
  "HandleResendVerification c =
     api_account c (\<lambda>accountID. api_campaign c (\<lambda>campaignID. wl_user c (\<lambda>userID.
     tryE (ResendVerificationToken accountID campaignID userID) wl_handleError (\<lambda>token.
     bindE (assert_int64 (ctx_Value ''timestamp'')) (\<lambda>t.
     retE (JSON 200 (''Verification email sent successfully'', Itoa t)))))))"

definition HandleRecalculatePositions :: "gin_Context \<Rightarrow> uuid handler" where
  "HandleRecalculatePositions c =
     api_account c (\<lambda>accountID. api_campaign c (\<lambda>campaignID.
     tryE (VerifyCampaignOwnership accountID campaignID) wl_handleError (\<lambda>u.
     tryE (CalculatePositionsForCampaign campaignID) wl_handleError (\<lambda>u.
     retE (JSON 200 campaignID)))))"

section \<open>Import\<close>

text \<open>
  csv.Reader.Read: the number of fields of the first record is the number every later one must
  have; a record that differs comes with an error, which the loop logs and skips, like a line with
  a quoting error.
\<close>

definition csv_row :: "nat \<Rightarrow> string list option \<Rightarrow> string list option" where
  "csv_row width line = (case line of Some rec \<Rightarrow> if length rec = width then Some rec else None | None \<Rightarrow> None)"

definition header_index :: "string list \<Rightarrow> string list \<Rightarrow> nat option" where
  "header_index names headers = fold (\<lambda>(i, h) idx. if ToLower (TrimSpace h) \<in> set names then Some i else idx)
     (enumerate 0 headers) None"

definition cell :: "string list \<Rightarrow> nat option \<Rightarrow> string option" where
  "cell rec idx = (case idx of None \<Rightarrow> None
     | Some i \<Rightarrow> if i < length rec \<and> rec ! i \<noteq> '''' then Some (TrimSpace (rec ! i)) else None)"

definition name_field :: "string \<Rightarrow> string option \<Rightarrow> (string \<times> string) list" where
  "name_field key v = (case v of Some s \<Rightarrow> if s \<noteq> '''' then [(key, s)] else [] | None \<Rightarrow> [])"

definition import_request :: "string \<Rightarrow> (string \<times> string) list \<Rightarrow> bool \<Rightarrow> SignupUserRequest" where
  "import_request email customFields terms = \<lparr>
     sr_Email = email, sr_FirstName = None, sr_LastName = None, sr_ReferralCode = None,
     sr_CustomFields = customFields, sr_UTMSource = None, sr_UTMMedium = None, sr_UTMCampaign = None,
     sr_UTMTerm = None, sr_UTMContent = None, sr_MarketingConsent = False, sr_TermsAccepted = terms,
     sr_IPAddress = None, sr_UserAgent = None, sr_CaptchaToken = None, sr_Country = None,
     sr_Region = None, sr_RegionCode = None, sr_PostalCode = None, sr_UserTimezone = None,
     sr_Latitude = None, sr_Longitude = None, sr_MetroCode = None, sr_DeviceType = None,
     sr_DeviceOS = None\<rparr>"

text \<open>A row is a request, or nothing when it is skipped.\<close>

definition csv_request :: "nat \<Rightarrow> nat option \<Rightarrow> nat option \<Rightarrow> string list \<Rightarrow> SignupUserRequest option" where
  "csv_request emailIdx firstNameIdx lastNameIdx rec =
     (if length rec \<le> emailIdx then None
      else (let email = TrimSpace (rec ! emailIdx) in
        if email = '''' then None
        else Some (import_request email (name_field ''first_name'' (cell rec firstNameIdx) @
          name_field ''last_name'' (cell rec lastNameIdx)) True)))"

text \<open>The loop: it stops at the limit, and counts the signups that succeed.\<close>

primrec import_loop ::
    "string \<Rightarrow> uuid \<Rightarrow> int \<Rightarrow> SignupUserRequest option list \<Rightarrow> int \<Rightarrow> (world, int) go" where
  "import_loop baseURL campaignID maxToImport [] n = retE n"
| "import_loop baseURL campaignID maxToImport (r # rs) n =
     (if 0 \<le> maxToImport \<and> maxToImport \<le> n then retE n
      else (case r of
          None \<Rightarrow> import_loop baseURL campaignID maxToImport rs n
        | Some req \<Rightarrow> tryE (SignupUser campaignID req baseURL)
            (\<lambda>e. import_loop baseURL campaignID maxToImport rs n)
            (\<lambda>u. import_loop baseURL campaignID maxToImport rs (n + 1))))"

definition importFromCSV ::
    "string \<Rightarrow> uuid \<Rightarrow> string list option list \<Rightarrow> int \<Rightarrow> (world, int) go" where
  "importFromCSV baseURL campaignID lines maxToImport = (case lines of
       [] \<Rightarrow> failE (Wrap ''failed to read CSV headers'' (ExtErr ''EOF''))
     | None # _ \<Rightarrow> failE (Wrap ''failed to read CSV headers'' (ExtErr ''parse error''))
     | Some headers # rows \<Rightarrow> (case header_index [''email''] headers of
         None \<Rightarrow> failE (NewErr ''email column is required'')
       | Some emailIdx \<Rightarrow>
           import_loop baseURL campaignID maxToImport
             (map (\<lambda>line. Option.bind (csv_row (length headers) line)
                (csv_request emailIdx (header_index [''first_name'', ''firstname''] headers)
                   (header_index [''last_name'', ''lastname''] headers))) rows) 0))"

definition importFromJSON ::
    "string \<Rightarrow> uuid \<Rightarrow> SignupRequest list option \<Rightarrow> int \<Rightarrow> (world, int) go" where
  "importFromJSON baseURL campaignID users maxToImport = (case users of
       None \<Rightarrow> failE (Wrap ''failed to decode JSON'' (ExtErr ''parse error''))
     | Some us \<Rightarrow> import_loop baseURL campaignID maxToImport
         (map (\<lambda>u. Some (import_request (sgr_Email u) (sgr_CustomFields u) (sgr_TermsAccepted u))) us) 0)"

record ImportResponse =
  ir_JobID :: uuid
  ir_Message :: string
  ir_Status :: string
  ir_ImportedCount :: int

definition run_import ::
    "(string \<Rightarrow> string list option list) \<Rightarrow> (string \<Rightarrow> SignupRequest list option) \<Rightarrow> string \<Rightarrow> uuid \<Rightarrow>
     string \<Rightarrow> string \<Rightarrow> int \<Rightarrow> ImportResponse handler" where
  "run_import csv_records json_users baseURL campaignID fmt file maxToImport =
     bindE uuid_New (\<lambda>jobID.
     let reply = (\<lambda>imported. tryE imported wl_handleError (\<lambda>importedCount.
           retE (JSON 202 \<lparr>ir_JobID = jobID,
             ir_Message = ''Import completed successfully. Imported '' @ Itoa importedCount @ '' users.'',
             ir_Status = ''completed'', ir_ImportedCount = importedCount\<rparr>))) in
     if fmt = ''csv'' then reply (importFromCSV baseURL campaignID (csv_records file) maxToImport)
     else if fmt = ''json'' then reply (importFromJSON baseURL campaignID (json_users file) maxToImport)
     else api_BadRequest ''INVALID_FORMAT'' ''Invalid format, must be csv or json'')"

text \<open>CheckLeadsLimit returns its result beside an error, which the handler looks at first.\<close>

definition HandleImportUsers ::
    "(string \<Rightarrow> string list option list) \<Rightarrow> (string \<Rightarrow> SignupRequest list option) \<Rightarrow> string \<Rightarrow>
     gin_Context \<Rightarrow> string option \<Rightarrow> ImportResponse handler" where
  "HandleImportUsers csv_records json_users baseURL c file =
     api_account c (\<lambda>accountID. api_campaign c (\<lambda>campaignID.
     tryE (VerifyCampaignOwnership accountID campaignID) wl_handleError (\<lambda>u.
     tryE (CheckLeadsLimit accountID campaignID 0) wl_handleError (\<lambda>(limitResult, err).
     case err of Some e \<Rightarrow> wl_handleError e | None \<Rightarrow>
     if cl_Limit limitResult \<noteq> None \<and> cl_CanAdd limitResult = 0
     then api_Forbidden ''LEADS_LIMIT_REACHED''
       ''This campaign has reached its leads limit. Please upgrade your plan to add more leads.''
     else (case file of
         None \<Rightarrow> api_BadRequest ''FILE_REQUIRED'' ''File is required''
       | Some text \<Rightarrow> run_import csv_records json_users baseURL campaignID
           (gc_DefaultPostForm c ''format'' ''csv'') text
           (if cl_Limit limitResult \<noteq> None then cl_CanAdd limitResult else -1))))))"

section \<open>Export\<close>

record ExportUsersRequest =
  eu_Format :: string
  eu_Filters :: jsonb

record ExportResponse =
  er_JobID :: uuid
  er_CampaignID :: uuid
  er_AccountID :: uuid
  er_Message :: string
  er_DownloadURL :: string
  er_Format :: string

definition export_job :: "string \<Rightarrow> uuid \<Rightarrow> uuid \<Rightarrow> string \<Rightarrow> ExportResponse handler" where
  "export_job baseURL accountID campaignID fmt =
     bindE uuid_New (\<lambda>jobID. bindE (getE w_uuid_String) (\<lambda>str.
     retE (JSON 202 \<lparr>er_JobID = jobID, er_CampaignID = campaignID, er_AccountID = accountID,
       er_Message = ''Export job created successfully'',
       er_DownloadURL = baseURL @ ''/api/v1/exports/'' @ str jobID @ ''/download'', er_Format = fmt\<rparr>)))"

definition HandleExportUsers :: "string \<Rightarrow> gin_Context \<Rightarrow> ExportUsersRequest option \<Rightarrow> ExportResponse handler" where
  "HandleExportUsers baseURL c body =
     api_account c (\<lambda>accountID. api_campaign c (\<lambda>campaignID.
     bind_json body (\<lambda>_. []) (\<lambda>req.
     let fmt = (if eu_Format req = '''' then ''csv'' else eu_Format req) in
     if fmt = ''json''
     then tryE (CheckJSONExportFeature accountID) wl_handleError (\<lambda>u. export_job baseURL accountID campaignID fmt)
     else export_job baseURL accountID campaignID fmt)))"

end
