(* ===== verification/CampaignHttp.thy ===== *)
theory CampaignHttp
  imports Requests Campaigns
begin

text \<open>
  The endpoints of campaigns, campaign/handler/handler.go. The request types of the settings have
  the fields of the processor's parameters, which convertSettingsRequest copies one by one; the
  same records stand for both.
\<close>

section \<open>Requests\<close>

record CreateCampaignRequest =
  ccr_Name :: string
  ccr_Slug :: string
  ccr_Description :: "string option"
  ccr_Type :: string
  ccr_PrivacyPolicyURL :: "string option"
  ccr_TermsURL :: "string option"
  ccr_MaxSignups :: "int option"
  ccr_EmailSettings :: "EmailSettingsParams option"
  ccr_BrandingSettings :: "BrandingSettingsParams option"
  ccr_FormSettings :: "FormSettingsParams option"
  ccr_ReferralSettings :: "ReferralSettingsParams option"
  ccr_FormFields :: "FormFieldParams list"
  ccr_ShareMessages :: "ShareMessageParams list"
  ccr_TrackingIntegrations :: "TrackingIntegrationParams list"

record UpdateCampaignRequest =
  ucr_Name :: "string option"
  ucr_Description :: "string option"
  ucr_LaunchDate :: "string option"
  ucr_EndDate :: "string option"
  ucr_PrivacyPolicyURL :: "string option"
  ucr_TermsURL :: "string option"
  ucr_MaxSignups :: "int option"
  ucr_EmailSettings :: "EmailSettingsParams option"
  ucr_BrandingSettings :: "BrandingSettingsParams option"
  ucr_FormSettings :: "FormSettingsParams option"
  ucr_ReferralSettings :: "ReferralSettingsParams option"
  ucr_FormFields :: "FormFieldParams list"
  ucr_ShareMessages :: "ShareMessageParams list"
  ucr_TrackingIntegrations :: "TrackingIntegrationParams list"

text \<open>The binding tags; a pointer to a struct is followed when it is not nil.\<close>

definition form_settings_tags :: "FormSettingsParams \<Rightarrow> FieldError list" where
  "form_settings_tags fs = tag_omitempty (fsp_CaptchaProvider fs)
     (\<lambda>p. tag_oneof ''CaptchaProvider'' [''turnstile'', ''recaptcha'', ''hcaptcha''] p [])"

definition sharing_channels :: "string list" where
  "sharing_channels = [''email'', ''twitter'', ''facebook'', ''linkedin'', ''whatsapp'']"

definition referral_settings_tags :: "ReferralSettingsParams \<Rightarrow> FieldError list" where
  "referral_settings_tags rs =
     tag_gte0 ''PointsPerReferral'' (rsp_PointsPerReferral rs) @
     tag_gte0 ''PositionsToJump'' (rsp_PositionsToJump rs) @
     tag_gte0 ''ReferrerPositionsToJump'' (rsp_ReferrerPositionsToJump rs) @
     tag_dive ''SharingChannels'' (rsp_SharingChannels rs) (\<lambda>field ch. tag_oneof field sharing_channels ch [])"

definition form_field_tags :: "FormFieldParams \<Rightarrow> FieldError list" where
  "form_field_tags f =
     tags_nonempty ''Name'' (ffp_Name f) @
     tag_required ''FieldType'' (ffp_FieldType f \<noteq> '''') (tag_oneof ''FieldType''
       [''email'', ''text'', ''textarea'', ''select'', ''checkbox'', ''radio'', ''phone'', ''url'', ''date'', ''number'']
       (ffp_FieldType f) []) @
     tags_nonempty ''Label'' (ffp_Label f)"

definition share_message_tags :: "ShareMessageParams \<Rightarrow> FieldError list" where
  "share_message_tags m =
     tag_required ''Channel'' (smp_Channel m \<noteq> '''') (tag_oneof ''Channel'' sharing_channels (smp_Channel m) []) @
     tags_nonempty ''Message'' (smp_Message m)"

definition tracking_tags :: "TrackingIntegrationParams \<Rightarrow> FieldError list" where
  "tracking_tags t =
     tag_required ''IntegrationType'' (tip_IntegrationType t \<noteq> '''') (tag_oneof ''IntegrationType''
       [''google_analytics'', ''meta_pixel'', ''google_ads'', ''tiktok_pixel'', ''linkedin_insight'']
       (tip_IntegrationType t) []) @
     tags_nonempty ''TrackingID'' (tip_TrackingID t)"

definition settings_tags ::
    "FormSettingsParams option \<Rightarrow> ReferralSettingsParams option \<Rightarrow> FormFieldParams list \<Rightarrow>
     ShareMessageParams list \<Rightarrow> TrackingIntegrationParams list \<Rightarrow> FieldError list" where
  "settings_tags fs rs inputs msgs tracking =
     tag_omitempty fs form_settings_tags @ tag_omitempty rs referral_settings_tags @
     concat (map form_field_tags inputs) @ concat (map share_message_tags msgs) @
     concat (map tracking_tags tracking)"

definition create_campaign_tags :: "CreateCampaignRequest \<Rightarrow> FieldError list" where
  "create_campaign_tags req =
     tags_text ''Name'' 255 (ccr_Name req) @ tags_text ''Slug'' 255 (ccr_Slug req) @
     tag_required ''Type'' (ccr_Type req \<noteq> '''')
       (tag_oneof ''Type'' [''waitlist'', ''referral'', ''contest''] (ccr_Type req) []) @
     settings_tags (ccr_FormSettings req) (ccr_ReferralSettings req) (ccr_FormFields req)
       (ccr_ShareMessages req) (ccr_TrackingIntegrations req)"

definition update_campaign_tags :: "UpdateCampaignRequest \<Rightarrow> FieldError list" where
  "update_campaign_tags req = settings_tags (ucr_FormSettings req) (ucr_ReferralSettings req)
     (ucr_FormFields req) (ucr_ShareMessages req) (ucr_TrackingIntegrations req)"

definition status_tags :: "string \<Rightarrow> FieldError list" where
  "status_tags st = tag_required ''Status'' (st \<noteq> '''')
     (tag_oneof ''Status'' [''draft'', ''active'', ''paused'', ''completed''] st [])"

section \<open>Helpers\<close>

definition cp_getAccountID :: "gin_Context \<Rightarrow> (uuid \<Rightarrow> (world, 'b reply) go) \<Rightarrow> (world, 'b reply) go" where
  "cp_getAccountID c k = (case gc_Get c ''Account-ID'' of
       None \<Rightarrow> api_Unauthorized ''Account ID not found in context''
     | Some s \<Rightarrow> api_parse_id ''INVALID_INPUT'' ''Invalid account ID format'' s k)"

definition cp_getCampaignID :: "gin_Context \<Rightarrow> (uuid \<Rightarrow> (world, 'b reply) go) \<Rightarrow> (world, 'b reply) go" where
  "cp_getCampaignID c k =
     api_parse_id ''INVALID_INPUT'' ''Invalid campaign ID format'' (gc_Param c ''campaign_id'') k"

definition cp_handleError :: "err \<Rightarrow> (world, 'b reply) go" where
  "cp_handleError e = (let is = (\<lambda>s. errors_Is e (Sentinel (CP s))) in
     if is CP_ErrCampaignNotFound then api_NotFound ''Campaign not found''
     else if is CP_ErrSlugAlreadyExists then api_Conflict ''SLUG_EXISTS'' ''Campaign slug already exists''
     else if is CP_ErrInvalidCampaignStatus then api_BadRequest ''INVALID_STATUS'' ''Invalid campaign status''
     else if is CP_ErrInvalidCampaignType then api_BadRequest ''INVALID_TYPE'' ''Invalid campaign type''
     else if is CP_ErrUnauthorized then api_Forbidden ''FORBIDDEN'' ''You do not have access to this campaign''
     else if is CP_ErrCampaignLimitReached then api_Forbidden ''CAMPAIGN_LIMIT_REACHED''
       ''You have reached your campaign limit. Please upgrade your plan to create more campaigns.''
     else if is CP_ErrTrackingPixelsNotAvailable then api_Forbidden ''FEATURE_NOT_AVAILABLE''
       ''Tracking pixels feature is not available in your plan. Please upgrade to Team plan.''
     else if is CP_ErrAntiSpamNotAvailable then api_Forbidden ''FEATURE_NOT_AVAILABLE''
       ''Anti-spam protection is not available in your plan. Please upgrade to Pro or Team plan.''
     else api_InternalError e)"

definition convertSettingsRequest ::
    "EmailSettingsParams option \<Rightarrow> BrandingSettingsParams option \<Rightarrow> FormSettingsParams option \<Rightarrow>
     ReferralSettingsParams option \<Rightarrow> FormFieldParams list \<Rightarrow> ShareMessageParams list \<Rightarrow>
     TrackingIntegrationParams list \<Rightarrow> CampaignSettingsParams" where
  "convertSettingsRequest emailSettings brandingSettings formSettings referralSettings formFields
       shareMessages trackingIntegrations = \<lparr>
     set_EmailSettings = emailSettings, set_BrandingSettings = brandingSettings,
     set_FormSettings = formSettings, set_ReferralSettings = referralSettings,
     set_FormFields = formFields, set_ShareMessages = shareMessages,
     set_TrackingIntegrations = trackingIntegrations\<rparr>"

section \<open>Handlers\<close>

definition create_campaign_params :: "CreateCampaignRequest \<Rightarrow> cp_CreateCampaignParams" where
  "create_campaign_params req = \<lparr>
     ncp_Name = ccr_Name req, ncp_Slug = ccr_Slug req, ncp_Description = ccr_Description req,
     ncp_Type = ccr_Type req, ncp_PrivacyPolicyURL = ccr_PrivacyPolicyURL req,
     ncp_TermsURL = ccr_TermsURL req, ncp_MaxSignups = ccr_MaxSignups req,
     ncp_Settings = convertSettingsRequest (ccr_EmailSettings req) (ccr_BrandingSettings req)
       (ccr_FormSettings req) (ccr_ReferralSettings req) (ccr_FormFields req)
       (ccr_ShareMessages req) (ccr_TrackingIntegrations req)\<rparr>"

definition HandleCreateCampaign :: "gin_Context \<Rightarrow> CreateCampaignRequest option \<Rightarrow> Campaign handler" where
  "HandleCreateCampaign c body =
     cp_getAccountID c (\<lambda>accountID.
     bind_json body create_campaign_tags (\<lambda>req.
     tryE (cp_CreateCampaign accountID (create_campaign_params req)) cp_handleError (\<lambda>campaign.
     retE (JSON 201 campaign))))"

definition cp_limit_param :: "gin_Context \<Rightarrow> int" where
  "cp_limit_param c = (case query_opt c ''limit'' of None \<Rightarrow> 20
     | Some s \<Rightarrow> (case Sscanf_d s of None \<Rightarrow> 20 | Some l \<Rightarrow> if l < 1 \<or> 100 < l then 20 else l))"

text \<open>The answer has the campaigns and the pagination, which are the fields of the result.\<close>

definition HandleListCampaigns :: "gin_Context \<Rightarrow> ListCampaignsResult handler" where
  "HandleListCampaigns c =
     cp_getAccountID c (\<lambda>accountID.
     tryE (cp_ListCampaigns accountID (query_opt c ''status'') (query_opt c ''type'') (page_param c)
             (cp_limit_param c)) cp_handleError (\<lambda>result.
     retE (JSON 200 result)))"

definition HandleGetCampaign :: "gin_Context \<Rightarrow> Campaign handler" where
  "HandleGetCampaign c =
     cp_getAccountID c (\<lambda>accountID. cp_getCampaignID c (\<lambda>campaignID.
     tryE (cp_GetCampaign accountID campaignID) cp_handleError (\<lambda>campaign. retE (JSON 200 campaign))))"

definition HandleGetPublicCampaign :: "gin_Context \<Rightarrow> Campaign handler" where
  "HandleGetPublicCampaign c =
     cp_getCampaignID c (\<lambda>campaignID.
     tryE (cp_GetPublicCampaign campaignID) cp_handleError (\<lambda>campaign. retE (JSON 200 campaign)))"

definition update_campaign_params :: "UpdateCampaignRequest \<Rightarrow> cp_UpdateCampaignParams" where
  "update_campaign_params req = \<lparr>
     mcp_Name = ucr_Name req, mcp_Description = ucr_Description req, mcp_LaunchDate = ucr_LaunchDate req,
     mcp_EndDate = ucr_EndDate req, mcp_PrivacyPolicyURL = ucr_PrivacyPolicyURL req,
     mcp_TermsURL = ucr_TermsURL req, mcp_MaxSignups = ucr_MaxSignups req,
     mcp_Settings = convertSettingsRequest (ucr_EmailSettings req) (ucr_BrandingSettings req)
       (ucr_FormSettings req) (ucr_ReferralSettings req) (ucr_FormFields req)
       (ucr_ShareMessages req) (ucr_TrackingIntegrations req)\<rparr>"

definition HandleUpdateCampaign :: "gin_Context \<Rightarrow> UpdateCampaignRequest option \<Rightarrow> Campaign handler" where
  "HandleUpdateCampaign c body =
     cp_getAccountID c (\<lambda>accountID. cp_getCampaignID c (\<lambda>campaignID.
     bind_json body update_campaign_tags (\<lambda>req.
     tryE (cp_UpdateCampaign accountID campaignID (update_campaign_params req)) cp_handleError (\<lambda>campaign.
     retE (JSON 200 campaign)))))"

definition HandleDeleteCampaign :: "gin_Context \<Rightarrow> unit handler" where
  "HandleDeleteCampaign c =
     cp_getAccountID c (\<lambda>accountID. cp_getCampaignID c (\<lambda>campaignID.
     tryE (cp_DeleteCampaign accountID campaignID) cp_handleError (\<lambda>u. retE (JSON 204 ()))))"

definition HandleUpdateCampaignStatus :: "gin_Context \<Rightarrow> string option \<Rightarrow> Campaign handler" where
  "HandleUpdateCampaignStatus c body =
     cp_getAccountID c (\<lambda>accountID. cp_getCampaignID c (\<lambda>campaignID.
     bind_json body status_tags (\<lambda>st.
     tryE (cp_UpdateCampaignStatus accountID campaignID st) cp_handleError (\<lambda>campaign.
     retE (JSON 200 campaign)))))"

end
