(* ===== verification/SegmentsHttp.thy ===== *)
theory SegmentsHttp
  imports Requests Segments
begin

text \<open>
  The endpoints of segments, segments/handler/handler.go. The error text of time.Parse, which an
  answer repeats, is the argument \<^verbatim>\<open>parse_error\<close>.
\<close>

definition sg_handleError :: "err \<Rightarrow> (world, 'b reply) go" where
  "sg_handleError e = (let is = (\<lambda>s. errors_Is e (Sentinel (SG s))) in
     if is SG_ErrSegmentNotFound then api_NotFound ''Segment not found''
     else if is SG_ErrCampaignNotFound then api_NotFound ''Campaign not found''
     else if is SG_ErrUnauthorized then api_Forbidden ''FORBIDDEN'' ''You do not have access to this segment''
     else if is SG_ErrInvalidCriteria then api_BadRequest ''INVALID_FILTER_CRITERIA'' ''Invalid filter criteria''
     else if is SG_ErrSegmentInUse then api_Conflict ''SEGMENT_IN_USE''
       ''Segment is in use by an email blast and cannot be deleted''
     else api_InternalError e)"

section \<open>Requests\<close>

record FilterCriteriaRequest =
  fcr_Statuses :: "string list"
  fcr_Sources :: "string list"
  fcr_EmailVerified :: "bool option"
  fcr_HasReferrals :: "bool option"
  fcr_MinReferrals :: "int option"
  fcr_MinPosition :: "int option"
  fcr_MaxPosition :: "int option"
  fcr_DateFrom :: "string option"
  fcr_DateTo :: "string option"
  fcr_CustomFields :: "(string \<times> string) list"

record http_CreateSegmentRequest =
  hcs_Name :: string
  hcs_Description :: "string option"
  hcs_FilterCriteria :: FilterCriteriaRequest

record http_UpdateSegmentRequest =
  hus_Name :: "string option"
  hus_Description :: "string option"
  hus_FilterCriteria :: "FilterCriteriaRequest option"
  hus_Status :: "string option"

record http_PreviewSegmentRequest =
  hps_FilterCriteria :: FilterCriteriaRequest
  hps_SampleLimit :: "int option"

text \<open>The tag \<^verbatim>\<open>required\<close> of a struct that is not a pointer is not checked.\<close>

definition create_segment_tags :: "http_CreateSegmentRequest \<Rightarrow> FieldError list" where
  "create_segment_tags req = tags_text ''Name'' 255 (hcs_Name req)"

definition update_segment_tags :: "http_UpdateSegmentRequest \<Rightarrow> FieldError list" where
  "update_segment_tags req =
     tag_omitempty (hus_Name req) (\<lambda>s. tag_max ''Name'' 255 (rune_count s) []) @
     tag_omitempty (hus_Status req) (\<lambda>s. tag_oneof ''Status'' [''active'', ''archived''] s [])"

definition parseDateTime :: "(string \<Rightarrow> string) \<Rightarrow> string \<Rightarrow> (world, time) go" where
  "parseDateTime parse_error dateStr = bindE (getE w_time_Parse) (\<lambda>parse.
     case parse RFC3339 dateStr of
       Some t \<Rightarrow> retE t
     | None \<Rightarrow> (case parse ''2006-01-02'' dateStr of
         Some t \<Rightarrow> retE t
       | None \<Rightarrow> failE (ExtErr (parse_error dateStr))))"

definition opt_date :: "(string \<Rightarrow> string) \<Rightarrow> string option \<Rightarrow> (world, time option) go" where
  "opt_date parse_error v = (case v of None \<Rightarrow> retE None
     | Some s \<Rightarrow> bindE (parseDateTime parse_error s) (\<lambda>t. retE (Some t)))"

definition convertFilterCriteria ::
    "(string \<Rightarrow> string) \<Rightarrow> FilterCriteriaRequest \<Rightarrow> (world, SegmentFilterCriteria) go" where
  "convertFilterCriteria parse_error req =
     bindE (opt_date parse_error (fcr_DateFrom req)) (\<lambda>dateFrom.
     bindE (opt_date parse_error (fcr_DateTo req)) (\<lambda>dateTo.
     retE \<lparr>sf_Statuses = fcr_Statuses req, sf_Sources = fcr_Sources req,
       sf_EmailVerified = fcr_EmailVerified req, sf_HasReferrals = fcr_HasReferrals req,
       sf_MinReferrals = fcr_MinReferrals req, sf_MinPosition = fcr_MinPosition req,
       sf_MaxPosition = fcr_MaxPosition req, sf_DateFrom = dateFrom, sf_DateTo = dateTo,
       sf_CustomFields = fcr_CustomFields req\<rparr>))"

definition sg_segment :: "gin_Context \<Rightarrow> (uuid \<Rightarrow> (world, 'b reply) go) \<Rightarrow> (world, 'b reply) go" where
  "sg_segment c k = parse_id ''invalid segment id'' (gc_Param c ''segment_id'') k"

definition bad_criteria :: "err \<Rightarrow> (world, 'b reply) go" where
  "bad_criteria e = gin_error 400 (''invalid filter criteria: '' @ err_Error e)"

section \<open>Handlers\<close>

definition HandleCreateSegment ::
    "(string \<Rightarrow> string) \<Rightarrow> gin_Context \<Rightarrow> http_CreateSegmentRequest option \<Rightarrow> Segment handler" where
  "HandleCreateSegment parse_error c body =
     gin_account c (\<lambda>accountID. gin_campaign c (\<lambda>campaignID.
     bind_json body create_segment_tags (\<lambda>req.
     tryE (convertFilterCriteria parse_error (hcs_FilterCriteria req)) bad_criteria (\<lambda>filterCriteria.
     tryE (sg_CreateSegment accountID campaignID \<lparr>cgr_Name = hcs_Name req,
             cgr_Description = hcs_Description req, cgr_FilterCriteria = filterCriteria\<rparr>)
       sg_handleError (\<lambda>segment. retE (JSON 201 segment))))))"

record SegmentList =
  sgl_Segments :: "Segment list"
  sgl_Total :: int
  sgl_Page :: int
  sgl_Limit :: int
  sgl_TotalPages :: int

definition HandleListSegments :: "gin_Context \<Rightarrow> SegmentList handler" where
  "HandleListSegments c =
     gin_account c (\<lambda>accountID. gin_campaign c (\<lambda>campaignID.
     tryE (sg_ListSegments accountID campaignID) sg_handleError (\<lambda>segments.
     retE (JSON 200 \<lparr>sgl_Segments = segments, sgl_Total = int (length segments), sgl_Page = 1,
       sgl_Limit = 100, sgl_TotalPages = 1\<rparr>))))"

definition HandleGetSegment :: "gin_Context \<Rightarrow> Segment handler" where
  "HandleGetSegment c =
     gin_account c (\<lambda>accountID. gin_campaign c (\<lambda>campaignID. sg_segment c (\<lambda>segmentID.
     tryE (sg_GetSegment accountID campaignID segmentID) sg_handleError (\<lambda>segment.
     retE (JSON 200 segment)))))"

definition new_criteria ::
    "(string \<Rightarrow> string) \<Rightarrow> FilterCriteriaRequest option \<Rightarrow> (world, SegmentFilterCriteria option) go" where
  "new_criteria parse_error v = (case v of None \<Rightarrow> retE None
     | Some fc \<Rightarrow> bindE (convertFilterCriteria parse_error fc) (\<lambda>criteria. retE (Some criteria)))"

definition HandleUpdateSegment ::
    "(string \<Rightarrow> string) \<Rightarrow> gin_Context \<Rightarrow> http_UpdateSegmentRequest option \<Rightarrow> Segment handler" where
  "HandleUpdateSegment parse_error c body =
     gin_account c (\<lambda>accountID. gin_campaign c (\<lambda>campaignID. sg_segment c (\<lambda>segmentID.
     bind_json body update_segment_tags (\<lambda>req.
     tryE (new_criteria parse_error (hus_FilterCriteria req)) bad_criteria (\<lambda>filterCriteria.
     tryE (sg_UpdateSegment accountID campaignID segmentID \<lparr>ugr_Name = hus_Name req,
             ugr_Description = hus_Description req, ugr_FilterCriteria = filterCriteria,
             ugr_Status = hus_Status req\<rparr>)
       sg_handleError (\<lambda>segment. retE (JSON 200 segment)))))))"

definition HandleDeleteSegment :: "gin_Context \<Rightarrow> unit handler" where
  "HandleDeleteSegment c =
     gin_account c (\<lambda>accountID. gin_campaign c (\<lambda>campaignID. sg_segment c (\<lambda>segmentID.
     tryE (sg_DeleteSegment accountID campaignID segmentID) sg_handleError (\<lambda>u. retE (JSON 204 ())))))"

definition HandlePreviewSegment ::
    "(string \<Rightarrow> string) \<Rightarrow> gin_Context \<Rightarrow> http_PreviewSegmentRequest option \<Rightarrow> SegmentPreview handler" where
  "HandlePreviewSegment parse_error c body =
     gin_account c (\<lambda>accountID. gin_campaign c (\<lambda>campaignID.
     bind_json body (\<lambda>_. []) (\<lambda>req.
     tryE (convertFilterCriteria parse_error (hps_FilterCriteria req)) bad_criteria (\<lambda>filterCriteria.
     tryE (sg_PreviewSegment accountID campaignID \<lparr>pgr_FilterCriteria = filterCriteria,
             pgr_SampleLimit = (case hps_SampleLimit req of None \<Rightarrow> 10 | Some l \<Rightarrow> l)\<rparr>)
       sg_handleError (\<lambda>preview. retE (JSON 200 preview))))))"

text \<open>The answer is the segment, its count of users and the time.\<close>

definition HandleRefreshSegmentCount :: "gin_Context \<Rightarrow> (uuid \<times> int \<times> time) handler" where
  "HandleRefreshSegmentCount c =
     gin_account c (\<lambda>accountID. gin_campaign c (\<lambda>campaignID. sg_segment c (\<lambda>segmentID.
     tryE (sg_RefreshSegmentCount accountID campaignID segmentID) sg_handleError (\<lambda>n.
     bindE (getE w_now) (\<lambda>now. retE (JSON 200 (segmentID, n, now)))))))"

end
