(* ===== verification/BlastsHttp.thy ===== *)
theory BlastsHttp
  imports Requests EmailBlasts
begin

text \<open>The endpoints of e-mail blasts, emailblasts/handler/handler.go.\<close>

definition eb_handleError :: "err \<Rightarrow> (world, 'b reply) go" where
  "eb_handleError e = (let is = (\<lambda>s. errors_Is e (Sentinel (EB s))) in
     if is EB_ErrBlastNotFound then api_NotFound ''Email blast not found''
     else if is EB_ErrSegmentNotFound then api_NotFound ''Segment not found''
     else if is EB_ErrTemplateNotFound then api_NotFound ''Email template not found''
     else if is EB_ErrCampaignNotFound then api_NotFound ''Campaign not found''
     else if is EB_ErrUnauthorized then api_Forbidden ''FORBIDDEN'' ''You do not have access to this email blast''
     else if is EB_ErrBlastCannotModify then api_BadRequest ''BLAST_CANNOT_MODIFY''
       ''Email blast cannot be modified in its current status''
     else if is EB_ErrBlastCannotDelete then api_BadRequest ''BLAST_CANNOT_MODIFY''
       ''Email blast cannot be deleted in its current status''
     else if is EB_ErrBlastCannotStart then api_BadRequest ''BLAST_CANNOT_MODIFY''
       ''Email blast cannot be started in its current status''
     else if is EB_ErrBlastCannotPause then api_BadRequest ''BLAST_CANNOT_MODIFY''
       ''Email blast cannot be paused in its current status''
     else if is EB_ErrBlastCannotResume then api_BadRequest ''BLAST_CANNOT_MODIFY''
       ''Email blast cannot be resumed in its current status''
     else if is EB_ErrBlastCannotCancel then api_BadRequest ''BLAST_CANNOT_MODIFY''
       ''Email blast cannot be cancelled in its current status''
     else if is EB_ErrInvalidScheduleTime then api_BadRequest ''INVALID_INPUT'' ''Scheduled time must be in the future''
     else if is EB_ErrNoRecipients then api_BadRequest ''INVALID_INPUT'' ''Segment has no matching users to send to''
     else if is EB_ErrEmailBlastsNotAvailable then api_Forbidden ''FEATURE_NOT_AVAILABLE''
       ''Email blasts are not available in your plan. Please upgrade to Team plan.''
     else api_InternalError e)"

definition eb_blast :: "gin_Context \<Rightarrow> (uuid \<Rightarrow> (world, 'b reply) go) \<Rightarrow> (world, 'b reply) go" where
  "eb_blast c k = parse_id ''invalid blast id'' (gc_Param c ''blast_id'') k"

record http_CreateEmailBlastRequest =
  hcb_Name :: string
  hcb_SegmentIDs :: "string list option"
  hcb_BlastTemplateID :: string
  hcb_Subject :: string
  hcb_ScheduledAt :: "time option"
  hcb_BatchSize :: "int option"
  hcb_SendThrottlePerSecond :: "int option"

definition create_blast_tags :: "http_CreateEmailBlastRequest \<Rightarrow> FieldError list" where
  "create_blast_tags req = (let ids = (case hcb_SegmentIDs req of None \<Rightarrow> [] | Some ss \<Rightarrow> ss) in
     tags_text ''Name'' 255 (hcb_Name req) @
     tag_required ''SegmentIDs'' (hcb_SegmentIDs req \<noteq> None) (tag_min ''SegmentIDs'' 1 (int (length ids))
       (tag_dive ''SegmentIDs'' ids (\<lambda>field s. tag_pred field ''uuid'' (uuid_text s)))) @
     tag_required ''BlastTemplateID'' (hcb_BlastTemplateID req \<noteq> '''')
       (tag_pred ''BlastTemplateID'' ''uuid'' (uuid_text (hcb_BlastTemplateID req))) @
     tags_text ''Subject'' 255 (hcb_Subject req))"

definition update_blast_tags :: "UpdateEmailBlastRequest \<Rightarrow> FieldError list" where
  "update_blast_tags req =
     tag_omitempty (ubr_Name req) (\<lambda>s. tag_max ''Name'' 255 (rune_count s) []) @
     tag_omitempty (ubr_Subject req) (\<lambda>s. tag_max ''Subject'' 255 (rune_count s) [])"

text \<open>The zero value of time.Time, January 1 of year 1, which the tag \<^verbatim>\<open>required\<close> refuses.\<close>

definition zero_time :: time where
  "zero_time = - 62135596800 * 1000000000"

definition schedule_tags :: "time \<Rightarrow> FieldError list" where
  "schedule_tags scheduledAt = tag_required ''ScheduledAt'' (scheduledAt \<noteq> zero_time) []"

definition blast_request :: "(string \<Rightarrow> uuid option) \<Rightarrow> http_CreateEmailBlastRequest \<Rightarrow> CreateEmailBlastRequest" where
  "blast_request parse req = (let id = (\<lambda>s. case parse s of None \<Rightarrow> uuid_Nil | Some i \<Rightarrow> i) in \<lparr>
     cbr_Name = hcb_Name req,
     cbr_SegmentIDs = map id (case hcb_SegmentIDs req of None \<Rightarrow> [] | Some ss \<Rightarrow> ss),
     cbr_BlastTemplateID = id (hcb_BlastTemplateID req), cbr_Subject = hcb_Subject req,
     cbr_ScheduledAt = hcb_ScheduledAt req,
     cbr_BatchSize = (case hcb_BatchSize req of None \<Rightarrow> 100 | Some n \<Rightarrow> n),
     cbr_SendThrottlePerSecond = hcb_SendThrottlePerSecond req\<rparr>)"

definition HandleCreateEmailBlast :: "gin_Context \<Rightarrow> http_CreateEmailBlastRequest option \<Rightarrow> EmailBlast handler" where
  "HandleCreateEmailBlast c body =
     gin_account c (\<lambda>accountID.
     bindE (getE w_uuid_Parse) (\<lambda>parse.
     bind_json body create_blast_tags (\<lambda>req.
     tryE (CreateEmailBlast accountID (Option.bind (gc_Get c ''User-ID'') parse) (blast_request parse req))
       eb_handleError (\<lambda>blast. retE (JSON 201 blast)))))"

definition HandleListEmailBlasts :: "gin_Context \<Rightarrow> EmailBlast eb_list handler" where
  "HandleListEmailBlasts c =
     gin_account c (\<lambda>accountID.
     tryE (ListEmailBlasts accountID (parseIntQuery c ''page'' 1) (parseIntQuery c ''limit'' 25))
       eb_handleError (\<lambda>response. retE (JSON 200 response)))"

definition HandleGetEmailBlast :: "gin_Context \<Rightarrow> EmailBlast handler" where
  "HandleGetEmailBlast c =
     gin_account c (\<lambda>accountID. eb_blast c (\<lambda>blastID.
     tryE (GetEmailBlast accountID blastID) eb_handleError (\<lambda>blast. retE (JSON 200 blast))))"

definition HandleUpdateEmailBlast :: "gin_Context \<Rightarrow> UpdateEmailBlastRequest option \<Rightarrow> EmailBlast handler" where
  "HandleUpdateEmailBlast c body =
     gin_account c (\<lambda>accountID. eb_blast c (\<lambda>blastID.
     bind_json body update_blast_tags (\<lambda>req.
     tryE (UpdateEmailBlast accountID blastID req) eb_handleError (\<lambda>blast. retE (JSON 200 blast)))))"

definition HandleDeleteEmailBlast :: "gin_Context \<Rightarrow> unit handler" where
  "HandleDeleteEmailBlast c =
     gin_account c (\<lambda>accountID. eb_blast c (\<lambda>blastID.
     tryE (DeleteEmailBlast accountID blastID) eb_handleError (\<lambda>u. retE (JSON 204 ()))))"

definition HandleScheduleBlast :: "gin_Context \<Rightarrow> time option \<Rightarrow> EmailBlast handler" where
  "HandleScheduleBlast c body =
     gin_account c (\<lambda>accountID. eb_blast c (\<lambda>blastID.
     bind_json body schedule_tags (\<lambda>scheduledAt.
     tryE (ScheduleBlast accountID blastID scheduledAt) eb_handleError (\<lambda>blast. retE (JSON 200 blast)))))"

definition HandleSendBlastNow :: "gin_Context \<Rightarrow> EmailBlast handler" where
  "HandleSendBlastNow c =
     gin_account c (\<lambda>accountID. eb_blast c (\<lambda>blastID.
     tryE (SendBlastNow accountID blastID) eb_handleError (\<lambda>blast. retE (JSON 200 blast))))"

definition HandlePauseBlast :: "gin_Context \<Rightarrow> EmailBlast handler" where
  "HandlePauseBlast c =
     gin_account c (\<lambda>accountID. eb_blast c (\<lambda>blastID.
     tryE (PauseBlast accountID blastID) eb_handleError (\<lambda>blast. retE (JSON 200 blast))))"

definition HandleResumeBlast :: "gin_Context \<Rightarrow> EmailBlast handler" where
  "HandleResumeBlast c =
     gin_account c (\<lambda>accountID. eb_blast c (\<lambda>blastID.
     tryE (ResumeBlast accountID blastID) eb_handleError (\<lambda>blast. retE (JSON 200 blast))))"

definition HandleCancelBlast :: "gin_Context \<Rightarrow> EmailBlast handler" where
  "HandleCancelBlast c =
     gin_account c (\<lambda>accountID. eb_blast c (\<lambda>blastID.
     tryE (CancelBlast accountID blastID) eb_handleError (\<lambda>blast. retE (JSON 200 blast))))"

definition HandleGetBlastAnalytics :: "gin_Context \<Rightarrow> BlastAnalytics handler" where
  "HandleGetBlastAnalytics c =
     gin_account c (\<lambda>accountID. eb_blast c (\<lambda>blastID.
     tryE (GetBlastAnalytics accountID blastID) eb_handleError (\<lambda>analytics. retE (JSON 200 analytics))))"

definition HandleListBlastRecipients :: "gin_Context \<Rightarrow> BlastRecipient eb_list handler" where
  "HandleListBlastRecipients c =
     gin_account c (\<lambda>accountID. eb_blast c (\<lambda>blastID.
     tryE (ListBlastRecipients accountID blastID (parseIntQuery c ''page'' 1) (parseIntQuery c ''limit'' 25))
       eb_handleError (\<lambda>response. retE (JSON 200 response))))"

end
