(* ===== verification/RewardsHttp.thy ===== *)
theory RewardsHttp
  imports Requests Rewards
begin

text \<open>
  The endpoints of rewards, rewards/handler/handler.go. They read the campaign, the reward and the
  user from the path; none of them reads the account of the request.
\<close>

definition rw_handleError :: "err \<Rightarrow> (world, 'b reply) go" where
  "rw_handleError e = (let is = (\<lambda>s. errors_Is e (Sentinel (RW s))) in
     if is RW_ErrRewardNotFound then api_NotFound ''Reward not found''
     else if is RW_ErrUserRewardNotFound then api_NotFound ''User reward not found''
     else if is RW_ErrInvalidRewardType then api_BadRequest ''INVALID_REWARD_TYPE'' ''Invalid reward type''
     else if is RW_ErrInvalidTriggerType then api_BadRequest ''INVALID_TRIGGER_TYPE'' ''Invalid trigger type''
     else if is RW_ErrInvalidDeliveryMethod then api_BadRequest ''INVALID_DELIVERY_METHOD'' ''Invalid delivery method''
     else if is RW_ErrInvalidRewardStatus then api_BadRequest ''INVALID_REWARD_STATUS'' ''Invalid reward status''
     else if is RW_ErrUnauthorized then api_Forbidden ''UNAUTHORIZED'' ''Unauthorized access to reward''
     else if is RW_ErrRewardLimitReached then api_Conflict ''REWARD_LIMIT_REACHED'' ''Reward limit reached''
     else if is RW_ErrUserLimitReached then api_Conflict ''USER_LIMIT_REACHED''
       ''User has already claimed maximum rewards''
     else api_InternalError e)"

definition rw_reward :: "gin_Context \<Rightarrow> (uuid \<Rightarrow> (world, 'b reply) go) \<Rightarrow> (world, 'b reply) go" where
  "rw_reward c k = parse_id ''invalid reward id'' (gc_Param c ''reward_id'') k"

definition rw_user :: "gin_Context \<Rightarrow> (uuid \<Rightarrow> (world, 'b reply) go) \<Rightarrow> (world, 'b reply) go" where
  "rw_user c k = parse_id ''invalid user id'' (gc_Param c ''user_id'') k"

text \<open>The three configurations are pointers to a JSONB, which may itself be nil.\<close>

record http_CreateRewardRequest =
  hcw_Name :: string
  hcw_Description :: "string option"
  hcw_Type :: string
  hcw_Config :: "jsonb option"
  hcw_TriggerType :: string
  hcw_TriggerConfig :: "jsonb option"
  hcw_DeliveryMethod :: string
  hcw_DeliveryConfig :: "jsonb option"
  hcw_TotalAvailable :: "int option"
  hcw_UserLimit :: "int option"
  hcw_StartsAt :: "string option"
  hcw_ExpiresAt :: "string option"

record http_UpdateRewardRequest =
  huw_Name :: "string option"
  huw_Description :: "string option"
  huw_Config :: "jsonb option"
  huw_TriggerConfig :: "jsonb option"
  huw_DeliveryConfig :: "jsonb option"
  huw_Status :: "string option"
  huw_ExpiresAt :: "string option"

record http_GrantRewardRequest =
  hgr_RewardID :: uuid
  hgr_Reason :: "string option"

definition create_reward_tags :: "http_CreateRewardRequest \<Rightarrow> FieldError list" where
  "create_reward_tags req =
     tags_text ''Name'' 255 (hcw_Name req) @
     tag_required ''Type'' (hcw_Type req \<noteq> '''') (tag_oneof ''Type''
       [''early_access'', ''discount'', ''premium_feature'', ''merchandise'', ''custom''] (hcw_Type req) []) @
     tag_required ''TriggerType'' (hcw_TriggerType req \<noteq> '''') (tag_oneof ''TriggerType''
       [''referral_count'', ''position'', ''milestone'', ''manual''] (hcw_TriggerType req) []) @
     tag_required ''DeliveryMethod'' (hcw_DeliveryMethod req \<noteq> '''') (tag_oneof ''DeliveryMethod''
       [''email'', ''webhook'', ''manual''] (hcw_DeliveryMethod req) [])"

definition update_reward_tags :: "http_UpdateRewardRequest \<Rightarrow> FieldError list" where
  "update_reward_tags req = tag_omitempty (huw_Status req)
     (\<lambda>st. tag_oneof ''Status'' [''active'', ''paused'', ''expired''] st [])"

definition grant_reward_tags :: "http_GrantRewardRequest \<Rightarrow> FieldError list" where
  "grant_reward_tags req = tag_required ''RewardID'' (hgr_RewardID req \<noteq> uuid_Nil) []"

text \<open>A time in the body that must be RFC3339.\<close>

definition rfc3339_field ::
    "string \<Rightarrow> string option \<Rightarrow> (time option \<Rightarrow> (world, 'b reply) go) \<Rightarrow> (world, 'b reply) go" where
  "rfc3339_field msg v k = (case v of None \<Rightarrow> k None
     | Some s \<Rightarrow> bindE (getE w_time_Parse) (\<lambda>parse.
         case parse RFC3339 s of None \<Rightarrow> gin_error 400 msg | Some t \<Rightarrow> k (Some t)))"

definition jsonb_or_empty :: "jsonb option \<Rightarrow> jsonb" where
  "jsonb_or_empty v = (case v of None \<Rightarrow> Some [] | Some j \<Rightarrow> j)"

definition HandleCreateReward :: "gin_Context \<Rightarrow> http_CreateRewardRequest option \<Rightarrow> Reward handler" where
  "HandleCreateReward c body =
     gin_campaign c (\<lambda>campaignID.
     bind_json body create_reward_tags (\<lambda>req.
     rfc3339_field ''invalid starts_at format, expected RFC3339'' (hcw_StartsAt req) (\<lambda>startsAt.
     rfc3339_field ''invalid expires_at format, expected RFC3339'' (hcw_ExpiresAt req) (\<lambda>expiresAt.
     tryE (CreateReward campaignID \<lparr>crr_Name = hcw_Name req, crr_Description = hcw_Description req,
             crr_Type = hcw_Type req, crr_Config = jsonb_or_empty (hcw_Config req),
             crr_TriggerType = hcw_TriggerType req, crr_TriggerConfig = jsonb_or_empty (hcw_TriggerConfig req),
             crr_DeliveryMethod = hcw_DeliveryMethod req,
             crr_DeliveryConfig = jsonb_or_empty (hcw_DeliveryConfig req),
             crr_TotalAvailable = hcw_TotalAvailable req,
             crr_UserLimit = (case hcw_UserLimit req of None \<Rightarrow> 1 | Some n \<Rightarrow> n),
             crr_StartsAt = startsAt, crr_ExpiresAt = expiresAt\<rparr>)
       rw_handleError (\<lambda>reward. retE (JSON 201 reward))))))"

definition HandleListRewards :: "gin_Context \<Rightarrow> Reward list handler" where
  "HandleListRewards c =
     gin_campaign c (\<lambda>campaignID.
     tryE (ListRewards campaignID) rw_handleError (\<lambda>rewards. retE (JSON 200 rewards)))"

definition HandleGetReward :: "gin_Context \<Rightarrow> Reward handler" where
  "HandleGetReward c =
     gin_campaign c (\<lambda>campaignID. rw_reward c (\<lambda>rewardID.
     tryE (GetReward campaignID rewardID) rw_handleError (\<lambda>reward. retE (JSON 200 reward))))"

definition HandleUpdateReward :: "gin_Context \<Rightarrow> http_UpdateRewardRequest option \<Rightarrow> Reward handler" where
  "HandleUpdateReward c body =
     gin_campaign c (\<lambda>campaignID. rw_reward c (\<lambda>rewardID.
     bind_json body update_reward_tags (\<lambda>req.
     tryE (UpdateReward campaignID rewardID \<lparr>urr_Name = huw_Name req, urr_Description = huw_Description req,
             urr_Config = Option.bind (huw_Config req) id, urr_TriggerConfig = Option.bind (huw_TriggerConfig req) id,
             urr_DeliveryConfig = Option.bind (huw_DeliveryConfig req) id, urr_Status = huw_Status req\<rparr>)
       rw_handleError (\<lambda>reward. retE (JSON 200 reward)))))"

definition HandleDeleteReward :: "gin_Context \<Rightarrow> unit handler" where
  "HandleDeleteReward c =
     gin_campaign c (\<lambda>campaignID. rw_reward c (\<lambda>rewardID.
     tryE (DeleteReward campaignID rewardID) rw_handleError (\<lambda>u. retE (JSON 204 ()))))"

definition HandleGrantReward :: "gin_Context \<Rightarrow> http_GrantRewardRequest option \<Rightarrow> UserReward handler" where
  "HandleGrantReward c body =
     gin_campaign c (\<lambda>campaignID. rw_user c (\<lambda>userID.
     bind_json body grant_reward_tags (\<lambda>req.
     tryE (GrantReward campaignID userID \<lparr>grr_RewardID = hgr_RewardID req, grr_Reason = hgr_Reason req,
             grr_ExpiresAt = None\<rparr>)
       rw_handleError (\<lambda>userReward. retE (JSON 201 userReward)))))"

definition HandleGetUserRewards :: "gin_Context \<Rightarrow> UserReward list handler" where
  "HandleGetUserRewards c =
     gin_campaign c (\<lambda>campaignID. rw_user c (\<lambda>userID.
     tryE (GetUserRewards campaignID userID) rw_handleError (\<lambda>rewards. retE (JSON 200 rewards))))"

end
