(* ===== verification/ReferralsHttp.thy ===== *)
theory ReferralsHttp
  imports Requests Referrals
begin

text \<open>
  The endpoints of referrals, referral/handler/handler.go. Pages are read with strconv.Atoi and the
  error dropped: a text that is no number counts as 0, which the processor raises to its default.
\<close>

definition rf_handleError :: "err \<Rightarrow> (world, 'b reply) go" where
  "rf_handleError e = (let is = (\<lambda>s. errors_Is e (Sentinel (RF s))) in
     if is RF_ErrReferralNotFound then api_NotFound ''Referral not found''
     else if is RF_ErrCampaignNotFound then api_NotFound ''Campaign not found''
     else if is RF_ErrUserNotFound then api_NotFound ''User not found''
     else if is RF_ErrUnauthorized then api_Forbidden ''UNAUTHORIZED'' ''Unauthorized access to campaign''
     else if is RF_ErrInvalidStatus then api_BadRequest ''INVALID_STATUS'' ''Invalid referral status''
     else if is RF_ErrInvalidReferral then api_BadRequest ''INVALID_REFERRAL'' ''Invalid referral code''
     else if is RF_ErrReferralCodeEmpty then api_BadRequest ''REFERRAL_CODE_EMPTY'' ''Referral code is required''
     else if is RF_ErrReferralSystemNotAvailable then api_Forbidden ''FEATURE_NOT_AVAILABLE''
       ''Referral system is not available in your plan. Please upgrade to Pro or Team plan.''
     else api_InternalError e)"

definition rf_account :: "gin_Context \<Rightarrow> (uuid \<Rightarrow> (world, 'b reply) go) \<Rightarrow> (world, 'b reply) go" where
  "rf_account c k = (case gc_Get c ''Account-ID'' of
       None \<Rightarrow> api_Unauthorized ''account ID not found in context''
     | Some s \<Rightarrow> api_parse_id ''INVALID_ACCOUNT_ID'' ''invalid account id'' s k)"

definition rf_campaign :: "gin_Context \<Rightarrow> (uuid \<Rightarrow> (world, 'b reply) go) \<Rightarrow> (world, 'b reply) go" where
  "rf_campaign c k = api_parse_id ''INVALID_CAMPAIGN_ID'' ''invalid campaign id'' (gc_Param c ''campaign_id'') k"

definition rf_user :: "gin_Context \<Rightarrow> (uuid \<Rightarrow> (world, 'b reply) go) \<Rightarrow> (world, 'b reply) go" where
  "rf_user c k = api_parse_id ''INVALID_USER_ID'' ''invalid user id'' (gc_Param c ''user_id'') k"

definition atoi_param :: "gin_Context \<Rightarrow> string \<Rightarrow> string \<Rightarrow> int" where
  "atoi_param c key dflt = fst (Atoi (gc_DefaultQuery c key dflt))"

definition HandleListReferrals :: "gin_Context \<Rightarrow> (Referral list \<times> rf_Pagination) handler" where
  "HandleListReferrals c =
     rf_account c (\<lambda>accountID. rf_campaign c (\<lambda>campaignID.
     tryE (ListReferrals accountID campaignID (query_opt c ''status'') (atoi_param c ''page'' ''1'')
             (atoi_param c ''limit'' ''20'')) rf_handleError (\<lambda>response.
     retE (JSON 200 response))))"

record http_TrackReferralRequest =
  htr_ReferralCode :: string
  htr_Source :: "string option"

definition track_tags :: "http_TrackReferralRequest \<Rightarrow> FieldError list" where
  "track_tags req = tag_required ''ReferralCode'' (htr_ReferralCode req \<noteq> '''') []"

definition HandleTrackReferral ::
    "gin_Context \<Rightarrow> http_TrackReferralRequest option \<Rightarrow> TrackReferralResponse handler" where
  "HandleTrackReferral c body =
     rf_campaign c (\<lambda>campaignID.
     bind_json body track_tags (\<lambda>req.
     tryE (TrackReferral campaignID \<lparr>trr_ReferralCode = htr_ReferralCode req, trr_Source = htr_Source req,
             trr_IPAddress = Some (GetRealClientIP c)\<rparr>) rf_handleError (\<lambda>response.
     retE (JSON 200 response))))"

definition HandleGetUserReferrals :: "gin_Context \<Rightarrow> GetUserReferralsResponse handler" where
  "HandleGetUserReferrals c =
     rf_account c (\<lambda>accountID. rf_campaign c (\<lambda>campaignID. rf_user c (\<lambda>userID.
     tryE (GetUserReferrals accountID campaignID userID (atoi_param c ''page'' ''1'')
             (atoi_param c ''limit'' ''20'')) rf_handleError (\<lambda>response.
     retE (JSON 200 response)))))"

definition HandleGetReferralLink :: "string \<Rightarrow> gin_Context \<Rightarrow> GetReferralLinkResponse handler" where
  "HandleGetReferralLink baseURL c =
     rf_account c (\<lambda>accountID. rf_campaign c (\<lambda>campaignID. rf_user c (\<lambda>userID.
     tryE (GetReferralLink accountID campaignID userID baseURL) rf_handleError (\<lambda>response.
     retE (JSON 200 response)))))"

end
