(* ===== verification/AnalyticsHttp.thy ===== *)
theory AnalyticsHttp
  imports Requests Analytics
begin

text \<open>The endpoints of the analytics, analytics/handler/handler.go.\<close>

definition an_handleError :: "err \<Rightarrow> (world, 'b reply) go" where
  "an_handleError e = (let is = (\<lambda>s. errors_Is e (Sentinel (AN s))) in
     if is AN_ErrCampaignNotFound then api_NotFound ''Campaign not found''
     else if is AN_ErrUnauthorized then api_Forbidden ''FORBIDDEN'' ''You do not have access to this campaign''
     else if is AN_ErrInvalidDateRange then api_BadRequest ''INVALID_DATE_RANGE'' ''Invalid date range''
     else if is AN_ErrInvalidGranularity then api_BadRequest ''INVALID_GRANULARITY'' ''Invalid granularity''
     else api_InternalError e)"

text \<open>A date of the query, which must be RFC3339 when it is there, and a range of two.\<close>

definition date_param ::
    "gin_Context \<Rightarrow> string \<Rightarrow> (time option \<Rightarrow> (world, 'b reply) go) \<Rightarrow> (world, 'b reply) go" where
  "date_param c key k = (case query_opt c key of None \<Rightarrow> k None
     | Some s \<Rightarrow> bindE (getE w_time_Parse) (\<lambda>parse. case parse RFC3339 s of
           None \<Rightarrow> gin_error 400 (''invalid '' @ key @ '' format, use RFC3339'')
         | Some t \<Rightarrow> k (Some t)))"

definition date_range ::
    "gin_Context \<Rightarrow> string \<Rightarrow> string \<Rightarrow> (time option \<Rightarrow> time option \<Rightarrow> (world, 'b reply) go) \<Rightarrow> (world, 'b reply) go" where
  "date_range c fromKey toKey k = date_param c fromKey (\<lambda>dateFrom. date_param c toKey (\<lambda>dateTo. k dateFrom dateTo))"

definition HandleGetAnalyticsOverview :: "gin_Context \<Rightarrow> AnalyticsOverviewResponse handler" where
  "HandleGetAnalyticsOverview c =
     gin_account c (\<lambda>accountID. gin_campaign c (\<lambda>campaignID.
     tryE (an_GetAnalyticsOverview accountID campaignID) an_handleError (\<lambda>overview. retE (JSON 200 overview))))"

definition HandleGetConversionAnalytics :: "gin_Context \<Rightarrow> ConversionAnalyticsResponse handler" where
  "HandleGetConversionAnalytics c =
     gin_account c (\<lambda>accountID. gin_campaign c (\<lambda>campaignID.
     date_range c ''date_from'' ''date_to'' (\<lambda>dateFrom dateTo.
     tryE (an_GetConversionAnalytics accountID campaignID dateFrom dateTo) an_handleError (\<lambda>r. retE (JSON 200 r)))))"

definition HandleGetReferralAnalytics :: "gin_Context \<Rightarrow> ReferralAnalyticsResponse handler" where
  "HandleGetReferralAnalytics c =
     gin_account c (\<lambda>accountID. gin_campaign c (\<lambda>campaignID.
     date_range c ''date_from'' ''date_to'' (\<lambda>dateFrom dateTo.
     tryE (an_GetReferralAnalytics accountID campaignID dateFrom dateTo) an_handleError (\<lambda>r. retE (JSON 200 r)))))"

definition HandleGetSignupsOverTime :: "gin_Context \<Rightarrow> SignupsOverTimeResponse handler" where
  "HandleGetSignupsOverTime c =
     gin_account c (\<lambda>accountID. gin_campaign c (\<lambda>campaignID.
     date_range c ''from'' ''to'' (\<lambda>dateFrom dateTo.
     tryE (an_GetSignupsOverTime accountID campaignID dateFrom dateTo (gc_DefaultQuery c ''period'' ''day''))
       an_handleError (\<lambda>r. retE (JSON 200 r)))))"

definition HandleGetSignupsBySource :: "gin_Context \<Rightarrow> SignupsBySourceResponse handler" where
  "HandleGetSignupsBySource c =
     gin_account c (\<lambda>accountID. gin_campaign c (\<lambda>campaignID.
     date_range c ''from'' ''to'' (\<lambda>dateFrom dateTo.
     tryE (an_GetSignupsBySource accountID campaignID dateFrom dateTo (gc_DefaultQuery c ''period'' ''day''))
       an_handleError (\<lambda>r. retE (JSON 200 r)))))"

definition HandleGetSourceAnalytics :: "gin_Context \<Rightarrow> SourceAnalyticsResponse handler" where
  "HandleGetSourceAnalytics c =
     gin_account c (\<lambda>accountID. gin_campaign c (\<lambda>campaignID.
     date_range c ''date_from'' ''date_to'' (\<lambda>dateFrom dateTo.
     tryE (an_GetSourceAnalytics accountID campaignID dateFrom dateTo) an_handleError (\<lambda>r. retE (JSON 200 r)))))"

definition HandleGetFunnelAnalytics :: "gin_Context \<Rightarrow> FunnelStepResult list handler" where
  "HandleGetFunnelAnalytics c =
     gin_account c (\<lambda>accountID. gin_campaign c (\<lambda>campaignID.
     date_range c ''date_from'' ''date_to'' (\<lambda>dateFrom dateTo.
     tryE (an_GetFunnelAnalytics accountID campaignID dateFrom dateTo) an_handleError (\<lambda>r. retE (JSON 200 r)))))"

end
