(* ===== verification/WebhooksHttp.thy ===== *)
theory WebhooksHttp
  imports Requests
begin

text \<open>
  The endpoints of webhooks, webhooks/handler/handler.go. Creating and listing read the account of
  the request; the endpoints of one webhook read only its id from the path.
\<close>

definition wb_handleError :: "err \<Rightarrow> (world, 'b reply) go" where
  "wb_handleError e =
     (if errors_Is e (Sentinel (WB WB_ErrWebhooksNotAvailable)) then api_Forbidden ''FEATURE_NOT_AVAILABLE''
        ''Webhooks are not available in your plan. Please upgrade to Team plan.''
      else if errors_Is e (Sentinel (WB WB_ErrWebhookNotFound)) then api_NotFound ''Webhook not found''
      else api_InternalError e)"

definition wb_webhook :: "gin_Context \<Rightarrow> (uuid \<Rightarrow> (world, 'b reply) go) \<Rightarrow> (world, 'b reply) go" where
  "wb_webhook c k = parse_id ''invalid webhook_id'' (gc_Param c ''webhook_id'') k"

record CreateWebhookRequest =
  hkw_URL :: string
  hkw_CampaignID :: "string option"
  hkw_Events :: "string list option"
  hkw_RetryEnabled :: bool
  hkw_MaxRetries :: int

definition create_webhook_tags :: "(string \<Rightarrow> bool) \<Rightarrow> CreateWebhookRequest \<Rightarrow> FieldError list" where
  "create_webhook_tags is_url req =
     tag_required ''URL'' (hkw_URL req \<noteq> '''') (tag_pred ''URL'' ''url'' (is_url (hkw_URL req))) @
     tag_required ''Events'' (hkw_Events req \<noteq> None)
       (tag_min ''Events'' 1 (case hkw_Events req of None \<Rightarrow> 0 | Some es \<Rightarrow> int (length es)) [])"

text \<open>The answer is the webhook and its secret.\<close>

definition HandleCreateWebhook ::
    "(string \<Rightarrow> bool) \<Rightarrow> gin_Context \<Rightarrow> CreateWebhookRequest option \<Rightarrow> (Webhook \<times> string) handler" where
  "HandleCreateWebhook is_url c body =
     must_get_id c ''Account-ID'' (\<lambda>accountID.
     bind_json body (create_webhook_tags is_url) (\<lambda>req.
     let create = (\<lambda>campaignID. tryE (CreateWebhook \<lparr>cwr_AccountID = accountID, cwr_CampaignID = campaignID,
             cwr_URL = hkw_URL req, cwr_Events = (case hkw_Events req of None \<Rightarrow> [] | Some es \<Rightarrow> es),
             cwr_RetryEnabled = (hkw_MaxRetries req = 0 \<or> hkw_RetryEnabled req),
             cwr_MaxRetries = hkw_MaxRetries req\<rparr>)
           wb_handleError (\<lambda>r. retE (JSON 201 r))) in
     case hkw_CampaignID req of
       None \<Rightarrow> create None
     | Some s \<Rightarrow> if s = '''' then create None else parse_id ''invalid campaign_id'' s (\<lambda>i. create (Some i))))"

definition HandleListWebhooks :: "gin_Context \<Rightarrow> Webhook list handler" where
  "HandleListWebhooks c =
     must_get_id c ''Account-ID'' (\<lambda>accountID.
     case query_opt c ''campaign_id'' of
       Some s \<Rightarrow> parse_id ''invalid campaign_id'' s (\<lambda>campaignID.
         tryE (GetWebhooksByCampaign campaignID) wb_handleError (\<lambda>webhooks. retE (JSON 200 webhooks)))
     | None \<Rightarrow> tryE (GetWebhooksByAccount accountID) wb_handleError (\<lambda>webhooks. retE (JSON 200 webhooks)))"

definition HandleGetWebhook :: "gin_Context \<Rightarrow> Webhook handler" where
  "HandleGetWebhook c =
     wb_webhook c (\<lambda>webhookID.
     tryE (GetWebhook webhookID) wb_handleError (\<lambda>webhook. retE (JSON 200 webhook)))"

definition HandleUpdateWebhook :: "gin_Context \<Rightarrow> UpdateWebhookParams option \<Rightarrow> Webhook handler" where
  "HandleUpdateWebhook c body =
     wb_webhook c (\<lambda>webhookID.
     bind_json body (\<lambda>_. []) (\<lambda>req.
     tryE (UpdateWebhook webhookID req) wb_handleError (\<lambda>webhook. retE (JSON 200 webhook))))"

definition HandleDeleteWebhook :: "gin_Context \<Rightarrow> unit handler" where
  "HandleDeleteWebhook c =
     wb_webhook c (\<lambda>webhookID.
     tryE (DeleteWebhook webhookID) wb_handleError (\<lambda>u. retE (JSON 204 ())))"

definition wb_limit_param :: "gin_Context \<Rightarrow> int" where
  "wb_limit_param c = (case query_opt c ''limit'' of None \<Rightarrow> 20
     | Some s \<Rightarrow> (case Atoi s of (n, ok) \<Rightarrow> if ok \<and> 0 < n \<and> n \<le> 100 then n else 20))"

definition wb_offset_param :: "gin_Context \<Rightarrow> int \<Rightarrow> int" where
  "wb_offset_param c lmt = (case query_opt c ''page'' of None \<Rightarrow> 0
     | Some s \<Rightarrow> (case Atoi s of (page, ok) \<Rightarrow> if ok \<and> 0 < page then wrap64 ((page - 1) * lmt) else 0))"

record DeliveryList =
  dl_Deliveries :: "WebhookDelivery list"
  dl_Page :: int
  dl_Limit :: int
  dl_Offset :: int

definition HandleListWebhookDeliveries :: "gin_Context \<Rightarrow> DeliveryList handler" where
  "HandleListWebhookDeliveries c =
     wb_webhook c (\<lambda>webhookID.
     let lmt = wb_limit_param c; off = wb_offset_param c lmt in
     tryE (GetWebhookDeliveries webhookID lmt off) wb_handleError (\<lambda>deliveries.
     (case go_quot off lmt of
        None \<Rightarrow> panicE ''integer divide by zero''
      | Some q \<Rightarrow> retE (JSON 200 \<lparr>dl_Deliveries = deliveries, dl_Page = wrap64 (q + 1), dl_Limit = lmt,
          dl_Offset = off\<rparr>))))"

definition HandleTestWebhook :: "gin_Context \<Rightarrow> string handler" where
  "HandleTestWebhook c =
     wb_webhook c (\<lambda>webhookID.
     tryE (TestWebhook webhookID) wb_handleError (\<lambda>u. retE (JSON 200 ''Test webhook sent successfully'')))"

end
