(* ===== verification/TemplatesHttp.thy ===== *)
theory TemplatesHttp
  imports Requests EmailTemplates
begin

text \<open>
  The endpoints of the stored e-mail templates, campaignemails/handler/handler.go and
  blastemails/handler/handler.go. The request types have the fields of the processors' types, whose
  records stand for both.
\<close>

section \<open>Campaign templates\<close>

definition ce_handleError :: "err \<Rightarrow> (world, 'b reply) go" where
  "ce_handleError e = (let is = (\<lambda>s. errors_Is e (Sentinel (CE s))) in
     if is CE_ErrCampaignEmailTemplateNotFound then api_NotFound ''Campaign email template not found''
     else if is CE_ErrCampaignNotFound then api_NotFound ''Campaign not found''
     else if is CE_ErrUnauthorized then api_Forbidden ''FORBIDDEN'' ''You do not have access to this template''
     else if is CE_ErrInvalidTemplateType then api_BadRequest ''INVALID_TYPE'' ''Invalid template type''
     else if is CE_ErrInvalidTemplateContent then api_BadRequest ''INVALID_INPUT'' ''Invalid template content''
     else if is CE_ErrTestEmailFailed then api_BadRequest ''EMAIL_SEND_FAILED'' ''Failed to send test email''
     else if is CE_ErrVisualEmailBuilderNotAvailable then api_Forbidden ''FEATURE_NOT_AVAILABLE''
       ''Visual email builder is not available in your plan. Please upgrade to Pro or Team plan.''
     else api_InternalError e)"

definition ce_template_id :: "gin_Context \<Rightarrow> (uuid \<Rightarrow> (world, 'b reply) go) \<Rightarrow> (world, 'b reply) go" where
  "ce_template_id c k = parse_id ''invalid template id'' (gc_Param c ''template_id'') k"

definition create_template_tags :: "CreateCampaignEmailTemplateRequest \<Rightarrow> FieldError list" where
  "create_template_tags req =
     tags_text ''Name'' 255 (cer_Name req) @
     tag_required ''Type'' (cer_Type req \<noteq> '''') (tag_oneof ''Type''
       [''verification'', ''welcome'', ''position_update'', ''reward_earned'', ''milestone'', ''custom''] (cer_Type req) []) @
     tags_text ''Subject'' 255 (cer_Subject req) @
     tag_required ''HTMLBody'' (cer_HTMLBody req \<noteq> '''') []"

definition optional_name_tags :: "string option \<Rightarrow> string option \<Rightarrow> FieldError list" where
  "optional_name_tags name subject =
     tag_omitempty name (\<lambda>s. tag_max ''Name'' 255 (rune_count s) []) @
     tag_omitempty subject (\<lambda>s. tag_max ''Subject'' 255 (rune_count s) [])"

definition update_template_tags :: "UpdateCampaignEmailTemplateRequest \<Rightarrow> FieldError list" where
  "update_template_tags req = optional_name_tags (uer_Name req) (uer_Subject req)"

definition send_test_tags :: "(string \<Rightarrow> bool) \<Rightarrow> SendTestEmailRequest \<Rightarrow> FieldError list" where
  "send_test_tags is_email req = tag_required ''RecipientEmail'' (str_RecipientEmail req \<noteq> '''')
     (tag_pred ''RecipientEmail'' ''email'' (is_email (str_RecipientEmail req)))"

definition HandleCreateCampaignEmailTemplate ::
    "gin_Context \<Rightarrow> CreateCampaignEmailTemplateRequest option \<Rightarrow> CampaignEmailTemplate handler" where
  "HandleCreateCampaignEmailTemplate c body =
     gin_account c (\<lambda>accountID. gin_campaign c (\<lambda>campaignID.
     bind_json body create_template_tags (\<lambda>req.
     tryE (ce_CreateCampaignEmailTemplate accountID campaignID req) ce_handleError (\<lambda>template.
     retE (JSON 201 template)))))"

definition HandleListCampaignEmailTemplates :: "gin_Context \<Rightarrow> CampaignEmailTemplate list handler" where
  "HandleListCampaignEmailTemplates c =
     gin_account c (\<lambda>accountID. gin_campaign c (\<lambda>campaignID.
     tryE (ce_ListCampaignEmailTemplates accountID campaignID (query_opt c ''type'')) ce_handleError (\<lambda>templates.
     retE (JSON 200 templates))))"

definition HandleListAllCampaignEmailTemplates :: "gin_Context \<Rightarrow> CampaignEmailTemplate list handler" where
  "HandleListAllCampaignEmailTemplates c =
     gin_account c (\<lambda>accountID.
     tryE (ce_ListAllCampaignEmailTemplates accountID) ce_handleError (\<lambda>templates. retE (JSON 200 templates)))"

definition HandleGetCampaignEmailTemplate :: "gin_Context \<Rightarrow> CampaignEmailTemplate handler" where
  "HandleGetCampaignEmailTemplate c =
     gin_account c (\<lambda>accountID. gin_campaign c (\<lambda>campaignID. ce_template_id c (\<lambda>templateID.
     tryE (ce_GetCampaignEmailTemplate accountID campaignID templateID) ce_handleError (\<lambda>template.
     retE (JSON 200 template)))))"

definition HandleUpdateCampaignEmailTemplate ::
    "gin_Context \<Rightarrow> UpdateCampaignEmailTemplateRequest option \<Rightarrow> CampaignEmailTemplate handler" where
  "HandleUpdateCampaignEmailTemplate c body =
     gin_account c (\<lambda>accountID. gin_campaign c (\<lambda>campaignID. ce_template_id c (\<lambda>templateID.
     bind_json body update_template_tags (\<lambda>req.
     tryE (ce_UpdateCampaignEmailTemplate accountID campaignID templateID req) ce_handleError (\<lambda>template.
     retE (JSON 200 template))))))"

definition HandleDeleteCampaignEmailTemplate :: "gin_Context \<Rightarrow> unit handler" where
  "HandleDeleteCampaignEmailTemplate c =
     gin_account c (\<lambda>accountID. gin_campaign c (\<lambda>campaignID. ce_template_id c (\<lambda>templateID.
     tryE (ce_DeleteCampaignEmailTemplate accountID campaignID templateID) ce_handleError (\<lambda>u.
     retE (JSON 204 ())))))"

text \<open>The answer is the message and \<^verbatim>\<open>ctx.Value("timestamp")\<close>.\<close>

definition ce_HandleSendTestEmail ::
    "(string \<Rightarrow> bool) \<Rightarrow> gin_Context \<Rightarrow> SendTestEmailRequest option \<Rightarrow> (string \<times> jval) handler" where
  "ce_HandleSendTestEmail is_email c body =
     gin_account c (\<lambda>accountID. gin_campaign c (\<lambda>campaignID. ce_template_id c (\<lambda>templateID.
     bind_json body (send_test_tags is_email) (\<lambda>req.
     tryE (ce_SendTestEmail accountID campaignID templateID req) ce_handleError (\<lambda>u.
     retE (JSON 200 (''Test email sent successfully'', ctx_Value ''timestamp'')))))))"

section \<open>Blast templates\<close>

definition be_handleError :: "err \<Rightarrow> (world, 'b reply) go" where
  "be_handleError e = (let is = (\<lambda>s. errors_Is e (Sentinel (BE s))) in
     if is BE_ErrBlastEmailTemplateNotFound then api_NotFound ''Blast email template not found''
     else if is BE_ErrUnauthorized then api_Forbidden ''FORBIDDEN'' ''You do not have access to this template''
     else if is BE_ErrInvalidTemplateContent then api_BadRequest ''INVALID_INPUT'' ''Invalid template content''
     else if is BE_ErrTestEmailFailed then api_BadRequest ''EMAIL_SEND_FAILED'' ''Failed to send test email''
     else if is BE_ErrBlastEmailTemplatesNotAvailable then api_Forbidden ''FEATURE_NOT_AVAILABLE''
       ''Blast email templates are not available in your plan''
     else api_InternalError e)"

definition be_template_id :: "gin_Context \<Rightarrow> (uuid \<Rightarrow> (world, 'b reply) go) \<Rightarrow> (world, 'b reply) go" where
  "be_template_id c k = parse_id ''invalid template id'' (gc_Param c ''id'') k"

definition create_blast_template_tags :: "CreateBlastEmailTemplateRequest \<Rightarrow> FieldError list" where
  "create_blast_template_tags req =
     tags_text ''Name'' 255 (cbr_Name req) @ tags_text ''Subject'' 255 (cbr_Subject req) @
     tag_required ''HTMLBody'' (cbr_HTMLBody req \<noteq> '''') []"

definition update_blast_template_tags :: "UpdateBlastEmailTemplateRequest \<Rightarrow> FieldError list" where
  "update_blast_template_tags req = optional_name_tags (ubr_Name req) (ubr_Subject req)"

definition HandleCreateBlastEmailTemplate ::
    "gin_Context \<Rightarrow> CreateBlastEmailTemplateRequest option \<Rightarrow> BlastEmailTemplate handler" where
  "HandleCreateBlastEmailTemplate c body =
     gin_account c (\<lambda>accountID.
     bind_json body create_blast_template_tags (\<lambda>req.
     tryE (be_CreateBlastEmailTemplate accountID req) be_handleError (\<lambda>template. retE (JSON 201 template))))"

definition HandleListBlastEmailTemplates :: "gin_Context \<Rightarrow> BlastEmailTemplate list handler" where
  "HandleListBlastEmailTemplates c =
     gin_account c (\<lambda>accountID.
     tryE (be_ListBlastEmailTemplates accountID) be_handleError (\<lambda>templates. retE (JSON 200 templates)))"

definition HandleGetBlastEmailTemplate :: "gin_Context \<Rightarrow> BlastEmailTemplate handler" where
  "HandleGetBlastEmailTemplate c =
     gin_account c (\<lambda>accountID. be_template_id c (\<lambda>templateID.
     tryE (be_GetBlastEmailTemplate accountID templateID) be_handleError (\<lambda>template. retE (JSON 200 template))))"

definition HandleUpdateBlastEmailTemplate ::
    "gin_Context \<Rightarrow> UpdateBlastEmailTemplateRequest option \<Rightarrow> BlastEmailTemplate handler" where
  "HandleUpdateBlastEmailTemplate c body =
     gin_account c (\<lambda>accountID. be_template_id c (\<lambda>templateID.
     bind_json body update_blast_template_tags (\<lambda>req.
     tryE (be_UpdateBlastEmailTemplate accountID templateID req) be_handleError (\<lambda>template.
     retE (JSON 200 template)))))"

definition HandleDeleteBlastEmailTemplate :: "gin_Context \<Rightarrow> unit handler" where
  "HandleDeleteBlastEmailTemplate c =
     gin_account c (\<lambda>accountID. be_template_id c (\<lambda>templateID.
     tryE (be_DeleteBlastEmailTemplate accountID templateID) be_handleError (\<lambda>u. retE (JSON 204 ()))))"

definition be_HandleSendTestEmail ::
    "(string \<Rightarrow> bool) \<Rightarrow> gin_Context \<Rightarrow> SendTestEmailRequest option \<Rightarrow> (string \<times> jval) handler" where
  "be_HandleSendTestEmail is_email c body =
     gin_account c (\<lambda>accountID. be_template_id c (\<lambda>templateID.
     bind_json body (send_test_tags is_email) (\<lambda>req.
     tryE (be_SendTestEmail accountID templateID req) be_handleError (\<lambda>u.
     retE (JSON 200 (''Test email sent successfully'', ctx_Value ''timestamp''))))))"

end
