(* ===== verification/AuthStore.thy ===== *)
theory AuthStore
  imports Access Samples
begin

text \<open>
  Users and their credentials: store/emailauth.go, store/oauth.go, store/user.go, store/account.go
  and store/payment_method.go, over a state that holds the world of the other theories and the
  tables only these files use. Stripe, bcrypt, the JWT library, the decoder of Google's answers and
  PostgreSQL's reading of a uuid are parameters: what the n-th call of Stripe answers, the hash of
  the n-th password, what a token decodes to.
\<close>

section \<open>Rows\<close>

record User =
  us_ID :: uuid
  us_FirstName :: string
  us_LastName :: string

text \<open>The row also has the column stripe_customer_id, which User leaves out.\<close>

record user_row = User +
  us_StripeCustomerID :: "string option"

record UserAuth =
  ua_ID :: uuid
  ua_UserID :: uuid
  ua_AuthType :: string

record EmailAuth =
  ea_Email :: string
  ea_HashedPassword :: string
  ea_AuthID :: uuid

record OauthAuth =
  oa_AuthID :: uuid
  oa_ExternalID :: string
  oa_Email :: string
  oa_FullName :: string
  oa_AuthProvider :: string

record AuthenticatedUser =
  ad_UserID :: uuid
  ad_AccountID :: uuid
  ad_FirstName :: string
  ad_LastName :: string
  ad_AuthID :: uuid
  ad_AuthType :: string

record TeamMember =
  tm_ID :: uuid
  tm_AccountID :: uuid
  tm_UserID :: uuid
  tm_Role :: string
  tm_Permissions :: jsonb
  tm_InvitedBy :: "uuid option"
  tm_InvitedAt :: "time option"
  tm_JoinedAt :: "time option"
  tm_CreatedAt :: time
  tm_UpdatedAt :: time

record Product =
  pd_ID :: uuid
  pd_StripeID :: string
  pd_Name :: string
  pd_Description :: string
  pd_CreatedAt :: string
  pd_UpdatedAt :: string

record PaymentMethod =
  pm_ID :: uuid
  pm_UserID :: uuid
  pm_StripeID :: string
  pm_CardBrand :: string
  pm_CardLast4 :: string
  pm_CardExpMonth :: int
  pm_CardExpYear :: int
  pm_CreatedAt :: time
  pm_UpdatedAt :: time

section \<open>What Stripe, JWT and Google say\<close>

record stripe_Subscription =
  ss_ID :: string
  ss_CustomerID :: "string option"
  ss_Items :: "(string \<times> string) list"  \<comment> \<open>the ids of an item and of its price\<close>
  ss_Status :: string
  ss_CurrentPeriodStart :: int
  ss_CurrentPeriodEnd :: int
  ss_CancelAt :: int

record stripe_Product =
  sd_ID :: string
  sd_Name :: string
  sd_Description :: string

record stripe_Price =
  sp_ID :: string
  sp_ProductID :: "string option"
  sp_LookupKey :: string
  sp_UnitAmount :: int
  sp_Currency :: string
  sp_Recurring :: "string option"

text \<open>An invoice: its id and the id of its subscription, when it has one.\<close>

record stripe_Invoice =
  si_ID :: string
  si_SubscriptionID :: "string option"

record stripe_Checkout =
  sc_ID :: string
  sc_Status :: string
  sc_PaymentStatus :: string
  sc_ClientSecret :: string

datatype stripe_call =
    CustomerNew string
  | SubscriptionNew string string
  | SubscriptionCancel string
  | SubscriptionGet string
  | SubscriptionUpdate string string string
  | CheckoutNew string string string
  | CheckoutGet string
  | PortalNew string string
  | SetupIntentNew string
  | ProductGet string
  | TaxFromCalculation string

datatype jwt_outcome =
    JwtClaims "(string \<times> jval) list"
  | JwtExpired
  | JwtInvalid
  | JwtNotValid

section \<open>State\<close>

record auth_world =
  aw_world :: world
  t_users :: "user_row list"
  t_user_auth :: "UserAuth list"
  t_email_auth :: "EmailAuth list"
  t_oauth_auth :: "OauthAuth list"
  t_team_members :: "TeamMember list"
  t_products :: "Product list"
  t_payment_methods :: "PaymentMethod list"
  s_log :: "stripe_call list"
  s_fault :: "nat \<Rightarrow> string option"
  s_NewID :: "nat \<Rightarrow> string"
  s_Subscription :: "nat \<Rightarrow> string \<Rightarrow> stripe_Subscription"
  s_Product :: "nat \<Rightarrow> string \<Rightarrow> stripe_Product"
  s_Checkout :: "nat \<Rightarrow> stripe_Checkout"
  b_Generate :: "nat \<Rightarrow> string \<Rightarrow> string option"
  b_Compare :: "string \<Rightarrow> string \<Rightarrow> bool"
  j_Sign :: "string \<Rightarrow> (string \<times> jval) list \<Rightarrow> string option"
  j_Parse :: "string \<Rightarrow> time \<Rightarrow> string \<Rightarrow> jwt_outcome"
  g_url_Encode :: "(string \<times> string) list \<Rightarrow> string"
  g_json :: "string list \<Rightarrow> string \<Rightarrow> (string \<times> string) list option"
  p_uuid_in :: "string \<Rightarrow> uuid option"

text \<open>A call on the world of the other theories.\<close>

definition in_world :: "(world, 'a) go \<Rightarrow> (auth_world, 'a) go" where
  "in_world m s = (case m (aw_world s) of (r, w) \<Rightarrow> (r, s\<lparr>aw_world := w\<rparr>))"

text \<open>Statements, as in theory World: they share its counter and its faults.\<close>

definition aw_db :: "(auth_world, 'a) go \<Rightarrow> (auth_world, 'a) go" where
  "aw_db f s = (let w = aw_world s; s' = s\<lparr>aw_world := w\<lparr>w_calls := Suc (w_calls w)\<rparr>\<rparr> in
     case w_fault w (w_calls w) of Some msg \<Rightarrow> (Err (DbErr msg), s') | None \<Rightarrow> f s')"

type_synonym 'r auth_table = "(auth_world \<Rightarrow> 'r list) \<times> (('r list \<Rightarrow> 'r list) \<Rightarrow> auth_world \<Rightarrow> auth_world)"

abbreviation "users_tbl \<equiv> (t_users, t_users_update)"
abbreviation "user_auth_tbl \<equiv> (t_user_auth, t_user_auth_update)"
abbreviation "email_auth_tbl \<equiv> (t_email_auth, t_email_auth_update)"
abbreviation "oauth_auth_tbl \<equiv> (t_oauth_auth, t_oauth_auth_update)"
abbreviation "team_members_tbl \<equiv> (t_team_members, t_team_members_update)"
abbreviation "products_tbl \<equiv> (t_products, t_products_update)"
abbreviation "payment_methods_tbl \<equiv> (t_payment_methods, t_payment_methods_update)"

abbreviation "prices_tbl \<equiv> (t_prices, t_prices_update)"

text \<open>A table of the world.\<close>

definition of_world :: "'r table \<Rightarrow> 'r auth_table" where
  "of_world tbl = (\<lambda>s. fst tbl (aw_world s), \<lambda>f s. s\<lparr>aw_world := snd tbl f (aw_world s)\<rparr>)"

definition aw_query :: "(auth_world \<Rightarrow> 'a) \<Rightarrow> (auth_world, 'a) go" where
  "aw_query q = aw_db (\<lambda>s. (Ok (q s), s))"

definition aw_get :: "(auth_world \<Rightarrow> 'r list) \<Rightarrow> (auth_world, 'r) go" where
  "aw_get q = aw_db (\<lambda>s. case q s of [] \<Rightarrow> (Err ErrNoRows, s) | r # rs \<Rightarrow> (Ok r, s))"

definition aw_insert ::
    "'r auth_table \<Rightarrow> (auth_world \<Rightarrow> 'r \<Rightarrow> string option) \<Rightarrow> (uuid \<Rightarrow> time \<Rightarrow> 'r) \<Rightarrow> (auth_world, 'r) go" where
  "aw_insert tbl chk mk = aw_db (\<lambda>s. let w = aw_world s; r = mk (w_uuids w (w_fresh w)) (w_now w);
       s' = s\<lparr>aw_world := w\<lparr>w_fresh := Suc (w_fresh w)\<rparr>\<rparr> in
     case chk s r of Some msg \<Rightarrow> (Err (DbErr msg), s') | None \<Rightarrow> (Ok r, snd tbl (\<lambda>rows. rows @ [r]) s'))"

definition aw_update ::
    "'r auth_table \<Rightarrow> (auth_world \<Rightarrow> 'r list \<Rightarrow> string option) \<Rightarrow> ('r \<Rightarrow> bool) \<Rightarrow> (auth_world \<Rightarrow> 'r \<Rightarrow> 'r) \<Rightarrow>
     (auth_world, int) go" where
  "aw_update tbl chk P f = aw_db (\<lambda>s. let rows = upd_where P (f s) (fst tbl s) in
     case chk s rows of Some msg \<Rightarrow> (Err (DbErr msg), s)
     | None \<Rightarrow> (Ok (int (length (filter P (fst tbl s)))), snd tbl (\<lambda>_. rows) s))"

definition aw_delete ::
    "'r auth_table \<Rightarrow> (auth_world \<Rightarrow> 'r list \<Rightarrow> string option) \<Rightarrow> ('r \<Rightarrow> bool) \<Rightarrow> (auth_world, int) go" where
  "aw_delete tbl chk P = aw_db (\<lambda>s. let rows = filter (\<lambda>r. \<not> P r) (fst tbl s) in
     case chk s rows of Some msg \<Rightarrow> (Err (DbErr msg), s)
     | None \<Rightarrow> (Ok (int (length (filter P (fst tbl s)))), snd tbl (\<lambda>_. rows) s))"

text \<open>
  A transaction: BEGIN, the statements, COMMIT. On every way out but a successful commit the
  deferred Rollback restores the tables; the counters of the server stay where they are.
\<close>

definition rolled_back :: "auth_world \<Rightarrow> auth_world \<Rightarrow> auth_world" where
  "rolled_back s s' = s\<lparr>aw_world := (aw_world s)\<lparr>w_calls := w_calls (aw_world s'),
     w_fresh := w_fresh (aw_world s')\<rparr>\<rparr>"

definition aw_transaction :: "(auth_world, 'a) go \<Rightarrow> (auth_world, 'a) go" where
  "aw_transaction m = bindE (wrapE ''failed to begin transaction'' (aw_query (\<lambda>s. ()))) (\<lambda>u s.
     case bindE m (\<lambda>x. bindE (wrapE ''failed to commit transaction'' (aw_query (\<lambda>s. ()))) (\<lambda>u. retE x)) s of
       (Ok x, s') \<Rightarrow> (Ok x, s')
     | (r, s') \<Rightarrow> (r, rolled_back s s'))"

text \<open>A call of Stripe: it is logged, and fails as the environment says.\<close>

definition stripe :: "stripe_call \<Rightarrow> (auth_world \<Rightarrow> nat \<Rightarrow> 'a) \<Rightarrow> (auth_world, 'a) go" where
  "stripe call answer s = (let n = length (s_log s); s' = s\<lparr>s_log := s_log s @ [call]\<rparr> in
     case s_fault s n of Some msg \<Rightarrow> (Err (ExtErr msg), s') | None \<Rightarrow> (Ok (answer s n), s'))"

section \<open>Users and credentials\<close>

definition store_CheckIfEmailExists :: "string \<Rightarrow> (auth_world, bool) go" where
  "store_CheckIfEmailExists email =
     bindE (wrapE ''failed to check email on email table''
       (aw_query (\<lambda>s. \<exists>r\<in>set (t_email_auth s). ea_Email r = email))) (\<lambda>existsOnEmailAuth.
     bindE (wrapE ''failed to check email on email table''
       (aw_query (\<lambda>s. \<exists>r\<in>set (t_oauth_auth s). oa_Email r = email))) (\<lambda>existsOnOauthAuth.
     retE (existsOnEmailAuth \<or> existsOnOauthAuth)))"

definition user_check :: "auth_world \<Rightarrow> user_row \<Rightarrow> string option" where
  "user_check s r =
     (if us_ID r \<in> us_ID ` set (t_users s) then Some ''users_pkey''
      else if 100 < length (us_FirstName r) \<or> 100 < length (us_LastName r)
        then Some ''value too long for type character varying(100)'' else None)"

definition insert_user :: "string \<Rightarrow> string \<Rightarrow> (auth_world, user_row) go" where
  "insert_user firstName lastName = wrapE ''failed to create user''
     (aw_insert users_tbl user_check (\<lambda>i now. \<lparr>us_ID = i, us_FirstName = firstName, us_LastName = lastName,
        us_StripeCustomerID = None\<rparr>))"

definition user_auth_check :: "auth_world \<Rightarrow> UserAuth \<Rightarrow> string option" where
  "user_auth_check s r =
     (if ua_ID r \<in> ua_ID ` set (t_user_auth s) then Some ''user_auth_pkey''
      else if ua_UserID r \<notin> us_ID ` set (t_users s) then Some ''user_auth_user_id_fkey'' else None)"

definition insert_user_auth :: "uuid \<Rightarrow> string \<Rightarrow> (auth_world, UserAuth) go" where
  "insert_user_auth userID authType = wrapE ''failed to create user auth entry''
     (aw_insert user_auth_tbl user_auth_check (\<lambda>i now. \<lparr>ua_ID = i, ua_UserID = userID, ua_AuthType = authType\<rparr>))"

definition email_auth_check :: "auth_world \<Rightarrow> EmailAuth \<Rightarrow> string option" where
  "email_auth_check s r =
     (if ea_AuthID r \<in> ea_AuthID ` set (t_email_auth s) then Some ''email_auth_pkey''
      else if 255 < length (ea_Email r) \<or> 255 < length (ea_HashedPassword r)
        then Some ''value too long for type character varying(255)''
      else if ea_Email r \<in> ea_Email ` set (t_email_auth s) then Some ''email_auth_email_key'' else None)"

text \<open>An INSERT without a default uses no new id.\<close>

definition aw_insert_row ::
    "'r auth_table \<Rightarrow> (auth_world \<Rightarrow> 'r \<Rightarrow> string option) \<Rightarrow> 'r \<Rightarrow> (auth_world, 'r) go" where
  "aw_insert_row tbl chk r = aw_db (\<lambda>s. case chk s r of
       Some msg \<Rightarrow> (Err (DbErr msg), s) | None \<Rightarrow> (Ok r, snd tbl (\<lambda>rows. rows @ [r]) s))"

definition account_check :: "auth_world \<Rightarrow> Account \<Rightarrow> string option" where
  "account_check s r =
     (if ac_ID r \<in> ac_ID ` set (t_accounts (aw_world s)) then Some ''accounts_pkey''
      else if 255 < length (ac_Name r) \<or> 255 < length (ac_Slug r) \<or>
         255 < length (case ac_StripeCustomerID r of None \<Rightarrow> '''' | Some c \<Rightarrow> c)
        then Some ''value too long for type character varying(255)''
      else if ac_Slug r \<in> ac_Slug ` set (t_accounts (aw_world s)) then Some ''accounts_slug_key''
      else if ac_OwnerUserID r \<notin> us_ID ` set (t_users s) then Some ''accounts_owner_user_id_fkey''
      else if ac_Plan r \<notin> {''free'', ''starter'', ''pro'', ''enterprise''} then Some ''account_plan''
      else None)"

definition new_account :: "string \<Rightarrow> string \<Rightarrow> uuid \<Rightarrow> string \<Rightarrow> string option \<Rightarrow> uuid \<Rightarrow> time \<Rightarrow> Account" where
  "new_account name slug owner plan stripeID i now = \<lparr>ac_ID = i, ac_Name = name, ac_Slug = slug,
     ac_OwnerUserID = owner, ac_Plan = plan, ac_Status = ''active'', ac_StripeCustomerID = stripeID,
     ac_TrialEndsAt = None, ac_Settings = Some [], ac_CreatedAt = now, ac_UpdatedAt = now, ac_DeletedAt = None\<rparr>"

definition insert_account :: "string \<Rightarrow> string \<Rightarrow> uuid \<Rightarrow> (auth_world, Account) go" where
  "insert_account firstName lastName userID = bindE (getE (\<lambda>s. w_uuid_String (aw_world s))) (\<lambda>str.
     wrapE ''failed to create account for user'' (aw_insert (of_world accounts_tbl) account_check
       (new_account (firstName @ '' '' @ lastName @ [CHR 0x27] @ ''s Account'') (''user-'' @ take 8 (str userID)) userID
          ''free'' None)))"

definition user_of :: "user_row \<Rightarrow> User" where
  "user_of r = \<lparr>us_ID = us_ID r, us_FirstName = us_FirstName r, us_LastName = us_LastName r\<rparr>"

definition CreateUserOnEmailSignup ::
    "string \<Rightarrow> string \<Rightarrow> string \<Rightarrow> string \<Rightarrow> (auth_world, User) go" where
  "CreateUserOnEmailSignup firstName lastName email hashedPassword = aw_transaction
     (bindE (insert_user firstName lastName) (\<lambda>user.
      bindE (insert_user_auth (us_ID user) ''email'') (\<lambda>userAuth.
      bindE (wrapE ''failed to create email auth entry'' (aw_insert_row email_auth_tbl email_auth_check
        \<lparr>ea_Email = email, ea_HashedPassword = hashedPassword, ea_AuthID = ua_ID userAuth\<rparr>)) (\<lambda>emailAuth.
      bindE (insert_account firstName lastName (us_ID user)) (\<lambda>account.
      retE (user_of user))))))"

definition GetCredentialsByEmail :: "string \<Rightarrow> (auth_world, EmailAuth) go" where
  "GetCredentialsByEmail email = wrapE ''failed to get user by email''
     (aw_get (\<lambda>s. filter (\<lambda>r. ea_Email r = email) (t_email_auth s)))"

text \<open>
  The left join on the accounts of the user: a NULL account id scans into uuid.Nil.
\<close>

definition account_ids :: "auth_world \<Rightarrow> uuid \<Rightarrow> uuid list" where
  "account_ids s userID = (case filter (\<lambda>a. ac_OwnerUserID a = userID \<and> ac_DeletedAt a = None)
       (t_accounts (aw_world s)) of [] \<Rightarrow> [uuid_Nil] | as \<Rightarrow> map ac_ID as)"

definition authenticated_users :: "auth_world \<Rightarrow> uuid \<Rightarrow> AuthenticatedUser list" where
  "authenticated_users s authID = concat (map (\<lambda>u. concat (map (\<lambda>a. map (\<lambda>account.
       \<lparr>ad_UserID = us_ID u, ad_AccountID = account, ad_FirstName = us_FirstName u, ad_LastName = us_LastName u,
        ad_AuthID = ua_ID a, ad_AuthType = ua_AuthType a\<rparr>) (account_ids s (us_ID u)))
     (filter (\<lambda>a. ua_UserID a = us_ID u \<and> ua_ID a = authID) (t_user_auth s)))) (t_users s))"

definition GetUserByAuthID :: "uuid \<Rightarrow> (auth_world, AuthenticatedUser) go" where
  "GetUserByAuthID authID = wrapE ''failed to get user by auth id'' (aw_get (\<lambda>s. authenticated_users s authID))"

text \<open>store/oauth.go: the e-mail of an oauth row is not unique.\<close>

definition oauth_auth_check :: "auth_world \<Rightarrow> OauthAuth \<Rightarrow> string option" where
  "oauth_auth_check s r =
     (if oa_AuthID r \<in> oa_AuthID ` set (t_oauth_auth s) then Some ''oauth_auth_pkey''
      else if 255 < length (oa_ExternalID r) \<or> 255 < length (oa_Email r) \<or> 255 < length (oa_FullName r)
        then Some ''value too long for type character varying(255)'' else None)"

definition CreateUserOnGoogleSignIn ::
    "string \<Rightarrow> string \<Rightarrow> string \<Rightarrow> string \<Rightarrow> (auth_world, User) go" where
  "CreateUserOnGoogleSignIn googleUserId email firstName lastName = aw_transaction
     (bindE (insert_user firstName lastName) (\<lambda>user.
      bindE (insert_user_auth (us_ID user) ''oauth'') (\<lambda>userAuth.
      bindE (wrapE ''failed to create google oauth entry'' (aw_insert_row oauth_auth_tbl oauth_auth_check
        \<lparr>oa_AuthID = ua_ID userAuth, oa_ExternalID = googleUserId, oa_Email = email,
         oa_FullName = firstName @ '' '' @ lastName, oa_AuthProvider = ''google''\<rparr>)) (\<lambda>oauthAuth.
      bindE (insert_account firstName lastName (us_ID user)) (\<lambda>account.
      retE (user_of user))))))"

definition GetOauthUserByEmail :: "string \<Rightarrow> (auth_world, OauthAuth) go" where
  "GetOauthUserByEmail email = wrapE ''failed to get user by email''
     (aw_get (\<lambda>s. filter (\<lambda>r. oa_Email r = email) (t_oauth_auth s)))"

text \<open>store/user.go\<close>

definition store_GetUserByExternalID :: "uuid \<Rightarrow> (auth_world, User) go" where
  "store_GetUserByExternalID externalID = wrapE ''failed to get user by external ID''
     (aw_get (\<lambda>s. map user_of (filter (\<lambda>u. us_ID u = externalID) (t_users s))))"

definition UpdateStripeCustomerIDByUserID :: "uuid \<Rightarrow> string \<Rightarrow> (auth_world, unit) go" where
  "UpdateStripeCustomerIDByUserID userID stripeCustomerID =
     affected_or ''failed to update stripe customer ID by user ID''
       (aw_update users_tbl (\<lambda>s rows. if 255 < length stripeCustomerID \<and> (\<exists>u\<in>set rows. us_ID u = userID)
            then Some ''value too long for type character varying(255)'' else None)
          (\<lambda>u. us_ID u = userID) (\<lambda>s u. u\<lparr>us_StripeCustomerID := Some stripeCustomerID\<rparr>))"

text \<open>A NULL does not scan into a string.\<close>

definition GetStripeCustomerIDByUserExternalID :: "uuid \<Rightarrow> (auth_world, string) go" where
  "GetStripeCustomerIDByUserExternalID userID = wrapE ''failed to get stripe customer ID by user ID''
     (bindE (aw_get (\<lambda>s. filter (\<lambda>u. us_ID u = userID) (t_users s))) (\<lambda>u. case us_StripeCustomerID u of
          None \<Rightarrow> failE (DbErr ''converting NULL to string is unsupported'') | Some i \<Rightarrow> retE i))"

definition GetUserByStripeCustomerID :: "string \<Rightarrow> (auth_world, User) go" where
  "GetUserByStripeCustomerID stripeID = wrapE ''failed to get user by stripe customer ID''
     (aw_get (\<lambda>s. map user_of (filter (\<lambda>u. us_StripeCustomerID u = Some stripeID) (t_users s))))"

section \<open>Accounts and team members\<close>

record CreateAccountParams =
  cap_Name :: string
  cap_Slug :: string
  cap_OwnerUserID :: uuid
  cap_Plan :: string
  cap_StripeCustomerID :: "string option"

record UpdateAccountParams =
  uap_Name :: "string option"
  uap_Plan :: "string option"
  uap_Status :: "string option"
  uap_StripeCustomerID :: "string option"
  uap_Settings :: jsonb

definition CreateAccount :: "CreateAccountParams \<Rightarrow> (auth_world, Account) go" where
  "CreateAccount p = wrapE ''failed to create account'' (aw_insert (of_world accounts_tbl) account_check
     (new_account (cap_Name p) (cap_Slug p) (cap_OwnerUserID p) (cap_Plan p) (cap_StripeCustomerID p)))"

definition live_accounts :: "(Account \<Rightarrow> bool) \<Rightarrow> auth_world \<Rightarrow> Account list" where
  "live_accounts P s = filter (\<lambda>a. P a \<and> ac_DeletedAt a = None) (t_accounts (aw_world s))"

definition GetAccountBySlug :: "string \<Rightarrow> (auth_world, Account) go" where
  "GetAccountBySlug slug = row_or ''failed to get account by slug'' (aw_get (live_accounts (\<lambda>a. ac_Slug a = slug)))"

definition GetAccountsByOwnerUserID :: "uuid \<Rightarrow> (auth_world, Account list) go" where
  "GetAccountsByOwnerUserID userID = wrapE ''failed to get accounts by owner user id''
     (aw_query (\<lambda>s. sort_Slice (\<lambda>a b. ac_CreatedAt b < ac_CreatedAt a) (live_accounts (\<lambda>a. ac_OwnerUserID a = userID) s)))"

text \<open>
  The constraints an UPDATE of accounts can break: the lengths, and the two enumerations, whose
  texts are checked when the parameters are bound, whether a row matches or not.
\<close>

definition accounts_check :: "auth_world \<Rightarrow> Account list \<Rightarrow> string option" where
  "accounts_check s rows =
     (if \<exists>r\<in>set rows. 255 < length (ac_Name r) \<or>
           255 < length (case ac_StripeCustomerID r of None \<Rightarrow> '''' | Some c \<Rightarrow> c)
        then Some ''value too long for type character varying(255)'' else None)"

definition enum_in :: "string list \<Rightarrow> string option \<Rightarrow> bool" where
  "enum_in vals v = (case v of None \<Rightarrow> True | Some x \<Rightarrow> x \<in> set vals)"

definition UpdateAccount :: "uuid \<Rightarrow> UpdateAccountParams \<Rightarrow> (auth_world, Account) go" where
  "UpdateAccount accountID p = row_or ''failed to update account''
     (bindE (aw_update (of_world accounts_tbl)
        (\<lambda>s rows. if \<not> enum_in [''free'', ''starter'', ''pro'', ''enterprise''] (uap_Plan p) then Some ''account_plan''
           else if \<not> enum_in [''active'', ''suspended'', ''canceled''] (uap_Status p) then Some ''account_status''
           else accounts_check s rows)
        (\<lambda>a. ac_ID a = accountID \<and> ac_DeletedAt a = None)
        (\<lambda>s a. a\<lparr>ac_Name := coalesce (uap_Name p) (ac_Name a), ac_Plan := coalesce (uap_Plan p) (ac_Plan a),
           ac_Status := coalesce (uap_Status p) (ac_Status a),
           ac_StripeCustomerID := (case uap_StripeCustomerID p of None \<Rightarrow> ac_StripeCustomerID a | c \<Rightarrow> c),
           ac_Settings := (case uap_Settings p of None \<Rightarrow> ac_Settings a | c \<Rightarrow> c),
           ac_UpdatedAt := w_now (aw_world s)\<rparr>)) (\<lambda>n s.
      case live_accounts (\<lambda>a. ac_ID a = accountID) s of [] \<Rightarrow> (Err ErrNoRows, s) | a # as \<Rightarrow> (Ok a, s)))"

definition DeleteAccount :: "uuid \<Rightarrow> (auth_world, unit) go" where
  "DeleteAccount accountID = affected_or ''failed to delete account''
     (aw_update (of_world accounts_tbl) (\<lambda>s rows. None) (\<lambda>a. ac_ID a = accountID \<and> ac_DeletedAt a = None)
        (\<lambda>s a. a\<lparr>ac_DeletedAt := Some (w_now (aw_world s))\<rparr>))"

definition UpdateAccountStripeCustomerID :: "uuid \<Rightarrow> string \<Rightarrow> (auth_world, unit) go" where
  "UpdateAccountStripeCustomerID accountID stripeCustomerID =
     affected_or ''failed to update account stripe customer id''
       (aw_update (of_world accounts_tbl) accounts_check (\<lambda>a. ac_ID a = accountID \<and> ac_DeletedAt a = None)
        (\<lambda>s a. a\<lparr>ac_StripeCustomerID := Some stripeCustomerID, ac_UpdatedAt := w_now (aw_world s)\<rparr>))"

record CreateTeamMemberParams =
  ctm_AccountID :: uuid
  ctm_UserID :: uuid
  ctm_Role :: string
  ctm_Permissions :: jsonb
  ctm_InvitedBy :: "uuid option"

definition team_member_role :: "string \<Rightarrow> bool" where
  "team_member_role r \<longleftrightarrow> r \<in> {''owner'', ''admin'', ''editor'', ''viewer''}"

definition team_member_check :: "auth_world \<Rightarrow> TeamMember \<Rightarrow> string option" where
  "team_member_check s r =
     (if tm_ID r \<in> tm_ID ` set (t_team_members s) then Some ''team_members_pkey''
      else if \<exists>m\<in>set (t_team_members s). tm_AccountID m = tm_AccountID r \<and> tm_UserID m = tm_UserID r
        then Some ''team_members_account_id_user_id_key''
      else if tm_AccountID r \<notin> ac_ID ` set (t_accounts (aw_world s)) then Some ''team_members_account_id_fkey''
      else if tm_UserID r \<notin> us_ID ` set (t_users s) then Some ''team_members_user_id_fkey''
      else if \<not> team_member_role (tm_Role r) then Some ''team_member_role''
      else case tm_InvitedBy r of None \<Rightarrow> None
        | Some u \<Rightarrow> if u \<in> us_ID ` set (t_users s) then None else Some ''team_members_invited_by_fkey'')"

definition CreateTeamMember :: "CreateTeamMemberParams \<Rightarrow> (auth_world, TeamMember) go" where
  "CreateTeamMember p = wrapE ''failed to create team member'' (aw_insert team_members_tbl team_member_check
     (\<lambda>i now. \<lparr>tm_ID = i, tm_AccountID = ctm_AccountID p, tm_UserID = ctm_UserID p, tm_Role = ctm_Role p,
        tm_Permissions = ctm_Permissions p, tm_InvitedBy = ctm_InvitedBy p, tm_InvitedAt = Some now,
        tm_JoinedAt = None, tm_CreatedAt = now, tm_UpdatedAt = now\<rparr>))"

definition GetTeamMembersByAccountID :: "uuid \<Rightarrow> (auth_world, TeamMember list) go" where
  "GetTeamMembersByAccountID accountID = wrapE ''failed to get team members''
     (aw_query (\<lambda>s. sort_Slice (\<lambda>a b. tm_CreatedAt b < tm_CreatedAt a)
        (filter (\<lambda>m. tm_AccountID m = accountID) (t_team_members s))))"

definition member_of :: "uuid \<Rightarrow> uuid \<Rightarrow> TeamMember \<Rightarrow> bool" where
  "member_of accountID userID m \<longleftrightarrow> tm_AccountID m = accountID \<and> tm_UserID m = userID"

definition GetTeamMemberByAccountAndUserID :: "uuid \<Rightarrow> uuid \<Rightarrow> (auth_world, TeamMember) go" where
  "GetTeamMemberByAccountAndUserID accountID userID = row_or ''failed to get team member''
     (aw_get (\<lambda>s. filter (member_of accountID userID) (t_team_members s)))"

text \<open>The text of an enumeration is checked when the statement is prepared, whether a row matches or not.\<close>

definition UpdateTeamMemberRole :: "uuid \<Rightarrow> uuid \<Rightarrow> string \<Rightarrow> (auth_world, unit) go" where
  "UpdateTeamMemberRole accountID userID role = affected_or ''failed to update team member role''
     (aw_update team_members_tbl (\<lambda>s rows. if team_member_role role then None else Some ''team_member_role'')
        (member_of accountID userID) (\<lambda>s m. m\<lparr>tm_Role := role, tm_UpdatedAt := w_now (aw_world s)\<rparr>))"

definition DeleteTeamMember :: "uuid \<Rightarrow> uuid \<Rightarrow> (auth_world, unit) go" where
  "DeleteTeamMember accountID userID = affected_or ''failed to delete team member''
     (aw_delete team_members_tbl (\<lambda>s rows. None) (member_of accountID userID))"

section \<open>Payment methods\<close>

record CreatePaymentMethodParams =
  cpm_UserID :: uuid
  cpm_StripeID :: string
  cpm_CardBrand :: string
  cpm_CardLast4 :: string
  cpm_CardExpMonth :: int
  cpm_CardExpYear :: int

text \<open>The columns hold 32 bits; the brand has 50 characters and the digits 4.\<close>

definition int4 :: "int \<Rightarrow> bool" where
  "int4 n \<longleftrightarrow> - (2 ^ 31) \<le> n \<and> n < 2 ^ 31"

definition payment_method_fits :: "PaymentMethod \<Rightarrow> string option" where
  "payment_method_fits r =
     (if 255 < length (pm_StripeID r) then Some ''value too long for type character varying(255)''
      else if 50 < length (pm_CardBrand r) then Some ''value too long for type character varying(50)''
      else if 4 < length (pm_CardLast4 r) then Some ''value too long for type character varying(4)''
      else if \<not> int4 (pm_CardExpMonth r) \<or> \<not> int4 (pm_CardExpYear r) then Some ''integer out of range''
      else None)"

definition payment_method_check :: "auth_world \<Rightarrow> PaymentMethod \<Rightarrow> string option" where
  "payment_method_check s r =
     (case payment_method_fits r of Some msg \<Rightarrow> Some msg
      | None \<Rightarrow> if pm_ID r \<in> pm_ID ` set (t_payment_methods s) then Some ''payment_method_pkey''
          else if \<exists>m\<in>set (t_payment_methods s). pm_UserID m = pm_UserID r \<and> pm_StripeID m = pm_StripeID r
            then Some ''payment_method_user_id_stripe_id_key''
          else if pm_UserID r \<notin> us_ID ` set (t_users s) then Some ''payment_method_user_id_fkey'' else None)"

definition CreatePaymentMethod :: "CreatePaymentMethodParams \<Rightarrow> (auth_world, PaymentMethod) go" where
  "CreatePaymentMethod p = wrapE ''failed to create payment method''
     (aw_insert payment_methods_tbl payment_method_check
        (\<lambda>i now. \<lparr>pm_ID = i, pm_UserID = cpm_UserID p, pm_StripeID = cpm_StripeID p, pm_CardBrand = cpm_CardBrand p,
           pm_CardLast4 = cpm_CardLast4 p, pm_CardExpMonth = cpm_CardExpMonth p, pm_CardExpYear = cpm_CardExpYear p,
           pm_CreatedAt = now, pm_UpdatedAt = now\<rparr>))"

definition store_GetPaymentMethodByUserID :: "uuid \<Rightarrow> (auth_world, PaymentMethod) go" where
  "store_GetPaymentMethodByUserID userID = wrapE ''failed to get payment method by user id''
     (aw_get (\<lambda>s. filter (\<lambda>m. pm_UserID m = userID) (t_payment_methods s)))"

text \<open>
  The update sets every row of the user to the same Stripe id: with two rows the pair of user and
  Stripe id is no longer unique.
\<close>

definition payment_methods_check :: "uuid \<Rightarrow> auth_world \<Rightarrow> PaymentMethod list \<Rightarrow> string option" where
  "payment_methods_check userID s rows =
     (case filter (\<lambda>m. pm_UserID m = userID) rows of
        [] \<Rightarrow> None
      | m # ms \<Rightarrow> (case payment_method_fits m of Some msg \<Rightarrow> Some msg
          | None \<Rightarrow> if ms = [] then None else Some ''payment_method_user_id_stripe_id_key''))"

definition UpdatePaymentMethodByUserID ::
    "uuid \<Rightarrow> string \<Rightarrow> string \<Rightarrow> string \<Rightarrow> int \<Rightarrow> int \<Rightarrow> (auth_world, unit) go" where
  "UpdatePaymentMethodByUserID userID stripeID cardBrand cardLast4 cardExpMonth cardExpYear =
     bindE (wrapE ''failed to update payment method by user id''
       (aw_update payment_methods_tbl (payment_methods_check userID) (\<lambda>m. pm_UserID m = userID)
          (\<lambda>s m. m\<lparr>pm_StripeID := stripeID, pm_CardBrand := cardBrand, pm_CardLast4 := cardLast4,
             pm_CardExpMonth := cardExpMonth, pm_CardExpYear := cardExpYear,
             pm_UpdatedAt := w_now (aw_world s)\<rparr>))) (\<lambda>n.
     if n = 0 then failE (NewErr ''payment method not found'') else retE ())"

end
