(* ===== verification/Billing.thy ===== *)
theory Billing
  imports AuthStore Tiers Requests
begin

text \<open>
  Billing: store/product.go, store/price.go, store/subscription.go, the packages money/products and
  money/subscriptions, and money/billing with its processor, its handlers and the webhook of
  Stripe. A call of Stripe is an entry of the log \<^term>\<open>s_log\<close> and fails as the environment says;
  its answers are parameters.
\<close>

section \<open>Products and prices\<close>

text \<open>A text column of 255 characters.\<close>

definition varchar255 :: "string \<Rightarrow> bool" where
  "varchar255 t \<longleftrightarrow> length t \<le> 255"

definition product_check :: "auth_world \<Rightarrow> Product \<Rightarrow> string option" where
  "product_check s r =
     (if pd_ID r \<in> pd_ID ` set (t_products s) then Some ''products_pkey''
      else if \<not> varchar255 (pd_Name r) \<or> \<not> varchar255 (pd_StripeID r)
        then Some ''value too long for type character varying(255)'' else None)"

definition store_CreateProduct :: "string \<Rightarrow> string \<Rightarrow> string \<Rightarrow> (auth_world, Product) go" where
  "store_CreateProduct productID name description = bindE (getE (\<lambda>s. w_time_Format (aw_world s))) (\<lambda>format.
     wrapE ''failed to insert product'' (aw_insert products_tbl product_check
       (\<lambda>i now. \<lparr>pd_ID = i, pd_StripeID = productID, pd_Name = name, pd_Description = description,
          pd_CreatedAt = format now, pd_UpdatedAt = format now\<rparr>)))"

definition GetProductByStripeID :: "string \<Rightarrow> (auth_world, Product) go" where
  "GetProductByStripeID stripeID = wrapE ''failed to get product''
     (aw_get (\<lambda>s. filter (\<lambda>p. pd_StripeID p = stripeID) (t_products s)))"

definition price_fits :: "price_row \<Rightarrow> string option" where
  "price_fits r =
     (if \<not> varchar255 (pr_StripeID r) then Some ''value too long for type character varying(255)''
      else if (case pr_Currency r of None \<Rightarrow> False | Some c \<Rightarrow> 3 < length c)
        then Some ''value too long for type character varying(3)''
      else if (case pr_Interval r of None \<Rightarrow> False | Some c \<Rightarrow> 20 < length c)
        then Some ''value too long for type character varying(20)'' else None)"

definition price_check :: "auth_world \<Rightarrow> price_row \<Rightarrow> string option" where
  "price_check s r =
     (case price_fits r of Some msg \<Rightarrow> Some msg
      | None \<Rightarrow> if pr_ID r \<in> pr_ID ` set (t_prices (aw_world s)) then Some ''prices_pkey''
          else if pr_ProductID r \<notin> pd_ID ` set (t_products s) then Some ''prices_product_id_fkey'' else None)"

definition store_CreatePrice ::
    "uuid \<Rightarrow> string \<Rightarrow> string \<Rightarrow> int option \<Rightarrow> string option \<Rightarrow> string option \<Rightarrow> (auth_world, unit) go" where
  "store_CreatePrice productID stripeID description unitAmount currency interval =
     bindE (getE (\<lambda>s. w_time_Format (aw_world s))) (\<lambda>format.
     bindE (wrapE ''failed to insert price'' (aw_insert (of_world prices_tbl) price_check
       (\<lambda>i now. \<lparr>pr_ID = i, pr_ProductID = productID, pr_StripeID = stripeID, pr_Description = description,
          pr_UnitAmount = unitAmount, pr_Currency = currency, pr_Interval = interval,
          pr_CreatedAt = format now, pr_UpdatedAt = format now, pr_DeletedAt = None\<rparr>))) (\<lambda>p. retE ()))"

definition prices_update_check :: "string \<Rightarrow> auth_world \<Rightarrow> price_row list \<Rightarrow> string option" where
  "prices_update_check stripeID s rows =
     (case filter (\<lambda>p. pr_StripeID p = stripeID) rows of [] \<Rightarrow> None
      | p # ps \<Rightarrow> (case price_fits p of Some msg \<Rightarrow> Some msg
          | None \<Rightarrow> if pr_ProductID p \<notin> pd_ID ` set (t_products s) then Some ''prices_product_id_fkey'' else None))"

definition UpdatePriceByStripeID ::
    "uuid \<Rightarrow> string \<Rightarrow> int option \<Rightarrow> string option \<Rightarrow> string option \<Rightarrow> string \<Rightarrow> (auth_world, unit) go" where
  "UpdatePriceByStripeID productID description unitAmount currency interval stripeID =
     bindE (wrapE ''failed to update price''
       (aw_update (of_world prices_tbl) (prices_update_check stripeID) (\<lambda>p. pr_StripeID p = stripeID)
          (\<lambda>s p. p\<lparr>pr_ProductID := productID, pr_Description := description, pr_UnitAmount := unitAmount,
             pr_Currency := currency, pr_Interval := interval\<rparr>))) (\<lambda>n.
     if n = 0 then failE (NewErr ''price not found'') else retE ())"

text \<open>Subscriptions and plan limits refer to prices, so the rows left behind must not miss theirs.\<close>

definition prices_delete_check :: "auth_world \<Rightarrow> price_row list \<Rightarrow> string option" where
  "prices_delete_check s rows =
     (let gone = set (filter (\<lambda>i. i \<notin> pr_ID ` set rows) (map pr_ID (t_prices (aw_world s)))) in
      if \<exists>u\<in>set (t_subscriptions (aw_world s)). su_PriceID u \<in> gone then Some ''subscriptions_price_id_fkey''
      else if \<exists>l\<in>set (t_plan_feature_limits (aw_world s)). pl_PlanID l \<in> gone
        then Some ''plan_feature_limits_plan_id_fkey'' else None)"

definition DeletePriceByStripeID :: "string \<Rightarrow> (auth_world, unit) go" where
  "DeletePriceByStripeID stripeID = exec_or ''failed to delete price''
     (aw_delete (of_world prices_tbl) prices_delete_check (\<lambda>p. pr_StripeID p = stripeID))"

definition GetPriceByStripeID :: "string \<Rightarrow> (auth_world, price_row) go" where
  "GetPriceByStripeID stripeID = wrapE ''failed to get price''
     (aw_get (\<lambda>s. filter (\<lambda>p. pr_StripeID p = stripeID) (t_prices (aw_world s))))"

definition store_ListPrices :: "(auth_world, price_row list) go" where
  "store_ListPrices = row_or ''failed to list prices'' (aw_query (\<lambda>s. t_prices (aw_world s)))"

text \<open>The id arrives as a text, which PostgreSQL reads as a uuid.\<close>

definition GetPriceByID :: "string \<Rightarrow> (auth_world, price_row) go" where
  "GetPriceByID priceID = wrapE ''failed to get price'' (bindE (getE p_uuid_in) (\<lambda>uuid_in.
     case uuid_in priceID of
       None \<Rightarrow> aw_db (\<lambda>s. (Err (DbErr ''invalid input syntax for type uuid''), s))
     | Some i \<Rightarrow> aw_get (\<lambda>s. filter (\<lambda>p. pr_ID p = i) (t_prices (aw_world s)))))"

definition GetFreePriceStripeID :: "(auth_world, string) go" where
  "GetFreePriceStripeID = row_or ''failed to get free price stripe id''
     (aw_get (\<lambda>s. map pr_StripeID (filter (\<lambda>p. pr_Description p = ''free'' \<and> pr_DeletedAt p = None)
        (t_prices (aw_world s)))))"

text \<open>money/products\<close>

definition CreateProduct :: "stripe_Product \<Rightarrow> (auth_world, unit) go" where
  "CreateProduct p = bindE (wrapE ''failed to create product''
     (store_CreateProduct (sd_ID p) (sd_Name p) (sd_Description p))) (\<lambda>row. retE ())"

text \<open>A product that is not stored is fetched from Stripe and stored first.\<close>

definition price_product :: "string \<Rightarrow> (auth_world, Product) go" where
  "price_product productID = tryE (GetProductByStripeID productID)
     (\<lambda>e. bindE (wrapE ''failed to fetch product from Stripe''
        (stripe (ProductGet productID) (\<lambda>s n. s_Product s n productID))) (\<lambda>got.
      bindE (wrapE ''failed to create product in local database'' (CreateProduct got)) (\<lambda>u.
      wrapE ''failed to retrieve newly created product from local database'' (GetProductByStripeID productID))))
     retE"

text \<open>The pointer to the product, which the logger's fields dereference.\<close>

definition product_of :: "stripe_Price \<Rightarrow> (string \<Rightarrow> (auth_world, 'a) go) \<Rightarrow> (auth_world, 'a) go" where
  "product_of p k = (case sp_ProductID p of
       None \<Rightarrow> panicE ''invalid memory address or nil pointer dereference'' | Some i \<Rightarrow> k i)"

definition price_interval :: "stripe_Price \<Rightarrow> string option" where
  "price_interval p = (case sp_Recurring p of None \<Rightarrow> None | Some i \<Rightarrow> if i = '''' then None else Some i)"

definition price_currency :: "stripe_Price \<Rightarrow> string option" where
  "price_currency p = (if sp_Currency p = '''' then None else Some (sp_Currency p))"

definition CreatePrice :: "stripe_Price \<Rightarrow> (auth_world, unit) go" where
  "CreatePrice p = product_of p (\<lambda>productID. bindE (price_product productID) (\<lambda>product.
     wrapE ''failed to create price in database'' (store_CreatePrice (pd_ID product) (sp_ID p) (sp_LookupKey p)
       (Some (sp_UnitAmount p)) (price_currency p) (price_interval p))))"

definition UpdatePrice :: "stripe_Price \<Rightarrow> (auth_world, unit) go" where
  "UpdatePrice p = product_of p (\<lambda>productID.
     bindE (wrapE ''failed to find associalted product'' (GetProductByStripeID productID)) (\<lambda>product.
     wrapE ''failed to update price'' (UpdatePriceByStripeID (pd_ID product) (sp_LookupKey p)
       (Some (sp_UnitAmount p)) (price_currency p) (price_interval p) (sp_ID p))))"

definition DeletePrice :: "stripe_Price \<Rightarrow> (auth_world, unit) go" where
  "DeletePrice p = wrapE ''failed to delete price'' (DeletePriceByStripeID (sp_ID p))"

record products_Price =
  pp_ProductID :: uuid
  pp_PriceID :: uuid
  pp_Description :: string
  pp_UnitAmount :: "int option"
  pp_Currency :: "string option"
  pp_Interval :: "string option"

definition ListPrices :: "(auth_world, products_Price list) go" where
  "ListPrices = bindE (wrapE ''failed to list prices'' store_ListPrices) (\<lambda>prices.
     retE (map (\<lambda>p. \<lparr>pp_ProductID = pr_ProductID p, pp_PriceID = pr_ID p, pp_Description = pr_Description p,
       pp_UnitAmount = pr_UnitAmount p, pp_Currency = pr_Currency p, pp_Interval = pr_Interval p\<rparr>) prices))"

section \<open>Subscriptions\<close>

record CreateSubscriptionsParams =
  csp_UserID :: uuid
  csp_PriceID :: uuid
  csp_StripeID :: string
  csp_Status :: string
  csp_StartDate :: time
  csp_EndDate :: time
  csp_NextBillingDate :: time

record UpdateSubscriptionParams =
  usb_Status :: string
  usb_EndDate :: time
  usb_NextBillingDate :: time
  usb_StripeID :: string
  usb_StripePriceID :: string

definition subscription_status :: "string \<Rightarrow> bool" where
  "subscription_status st \<longleftrightarrow> st \<in> {''active'', ''inactive'', ''canceled'', ''past_due'', ''trialing''}"

definition stripe_subscription_check :: "auth_world \<Rightarrow> subscription_row \<Rightarrow> string option" where
  "stripe_subscription_check s r =
     (if \<not> varchar255 (su_StripeID r) then Some ''value too long for type character varying(255)''
      else if su_ID r \<in> su_ID ` set (t_subscriptions (aw_world s)) then Some ''subscriptions_pkey''
      else if \<not> subscription_status (su_Status r) then Some ''subscriptions_status_check''
      else if su_UserID r \<notin> us_ID ` set (t_users s) then Some ''subscriptions_user_id_fkey''
      else if su_PriceID r \<notin> pr_ID ` set (t_prices (aw_world s)) then Some ''subscriptions_price_id_fkey''
      else None)"

definition store_CreateSubscription :: "CreateSubscriptionsParams \<Rightarrow> (auth_world, unit) go" where
  "store_CreateSubscription p = bindE (wrapE ''failed to insert subscription''
     (aw_insert (of_world subscriptions_tbl) stripe_subscription_check
        (\<lambda>i now. \<lparr>su_ID = i, su_UserID = csp_UserID p, su_PriceID = csp_PriceID p, su_StripeID = csp_StripeID p,
           su_Status = csp_Status p, su_StartDate = csp_StartDate p, su_EndDate = csp_EndDate p,
           su_NextBillingDate = csp_NextBillingDate p, su_CreatedAt = now\<rparr>))) (\<lambda>r. retE ())"

definition store_UpdateSubscription :: "UpdateSubscriptionParams \<Rightarrow> (auth_world, unit) go" where
  "store_UpdateSubscription p =
     bindE (wrapE ''failed to get price by stripe id'' (GetPriceByStripeID (usb_StripePriceID p))) (\<lambda>price.
     bindE (wrapE ''failed to update subscription''
       (aw_update (of_world subscriptions_tbl)
          (\<lambda>s rows. if subscription_status (usb_Status p) \<or> (\<forall>r\<in>set rows. su_StripeID r \<noteq> usb_StripeID p) then None
             else Some ''subscriptions_status_check'')
          (\<lambda>r. su_StripeID r = usb_StripeID p)
          (\<lambda>s r. r\<lparr>su_Status := usb_Status p, su_EndDate := usb_EndDate p,
             su_NextBillingDate := usb_NextBillingDate p, su_PriceID := pr_ID price\<rparr>))) (\<lambda>n.
     if n = 0 then failE (NewErr ''subscription not found'') else retE ()))"

definition store_CancelSubscription :: "string \<Rightarrow> time \<Rightarrow> (auth_world, unit) go" where
  "store_CancelSubscription subscriptionID cancelAt = exec_or ''failed to cancel subscription''
     (aw_update (of_world subscriptions_tbl) (\<lambda>s rows. None) (\<lambda>r. su_StripeID r = subscriptionID)
        (\<lambda>s r. r\<lparr>su_EndDate := cancelAt, su_Status := ''canceled''\<rparr>))"

definition store_GetSubscription :: "string \<Rightarrow> (auth_world, Subscription) go" where
  "store_GetSubscription subscriptionID = wrapE ''failed to get subscription''
     (aw_get (\<lambda>s. map Subscription.truncate
        (filter (\<lambda>r. su_StripeID r = subscriptionID) (t_subscriptions (aw_world s)))))"

text \<open>money/subscriptions; time.Unix of seconds.\<close>

definition unix_time :: "int \<Rightarrow> time" where
  "unix_time t = t * 1000000000"

definition first_item :: "stripe_Subscription \<Rightarrow> (string \<times> string \<Rightarrow> (auth_world, 'a) go) \<Rightarrow> (auth_world, 'a) go" where
  "first_item sub k = (case ss_Items sub of
       [] \<Rightarrow> panicE ''index out of range [0] with length 0'' | i # is \<Rightarrow> k i)"

definition CreateSubscription :: "stripe_Subscription \<Rightarrow> (auth_world, unit) go" where
  "CreateSubscription sub = (case ss_CustomerID sub of
       None \<Rightarrow> panicE ''invalid memory address or nil pointer dereference''
     | Some customer \<Rightarrow>
         bindE (wrapE ''error getting user by stripe id'' (GetUserByStripeCustomerID customer)) (\<lambda>user.
         first_item sub (\<lambda>(item, stripePrice).
         bindE (wrapE ''error getting price by stripe id'' (GetPriceByStripeID stripePrice)) (\<lambda>price.
         wrapE ''error creating subscription'' (store_CreateSubscription
           \<lparr>csp_UserID = us_ID user, csp_PriceID = pr_ID price, csp_StripeID = ss_ID sub,
            csp_Status = ss_Status sub, csp_StartDate = unix_time (ss_CurrentPeriodStart sub),
            csp_EndDate = unix_time (ss_CurrentPeriodEnd sub),
            csp_NextBillingDate = unix_time (ss_CurrentPeriodEnd sub)\<rparr>)))))"

definition UpdateSubscription :: "stripe_Subscription \<Rightarrow> (auth_world, unit) go" where
  "UpdateSubscription sub = first_item sub (\<lambda>(item, stripePrice).
     wrapE ''error updating subscription'' (store_UpdateSubscription
       \<lparr>usb_Status = ss_Status sub, usb_EndDate = unix_time (ss_CurrentPeriodEnd sub),
        usb_NextBillingDate = unix_time (ss_CurrentPeriodEnd sub), usb_StripeID = ss_ID sub,
        usb_StripePriceID = stripePrice\<rparr>))"

definition CancelSubscription :: "string \<Rightarrow> time \<Rightarrow> (auth_world, unit) go" where
  "CancelSubscription subscriptionID cancelAt =
     wrapE ''error cancelling subscription'' (store_CancelSubscription subscriptionID cancelAt)"

definition GetSubscriptionByID :: "string \<Rightarrow> (auth_world, Subscription) go" where
  "GetSubscriptionByID subscriptionID = wrapE ''error getting subscription'' (store_GetSubscription subscriptionID)"

definition GetSubscriptionByUserID :: "uuid \<Rightarrow> (auth_world, Subscription) go" where
  "GetSubscriptionByUserID userID = tryE (in_world (store_GetSubscriptionByUserID userID))
     (\<lambda>e. if errors_Is e ErrNotFound then failE (Sentinel (BL BL_ErrNoSubscription))
          else failE (Wrap ''error getting subscription'' e))
     (\<lambda>r. retE (Subscription.truncate r))"

end
