(* ===== verification/BillingProcessor.thy ===== *)
theory BillingProcessor
  imports Billing
begin

text \<open>
  money/billing/processor (processor.go, subscription.go, payment.go, plans.go, webhook.go) and
  money/billing/handler over the services of theory Billing. The signature check of Stripe's
  webhook package is a parameter of the handler; an event is given by what json.Unmarshal makes of
  its data for each type the processor knows.
\<close>

section \<open>Customers, payment methods, subscriptions\<close>

definition CreateStripeCustomer :: "string \<Rightarrow> (auth_world, string) go" where
  "CreateStripeCustomer email = tryE (stripe (CustomerNew email) s_NewID)
     (\<lambda>e. failE (Sentinel (BL BL_ErrFailedToCreateCustomer))) retE"

text \<open>Every error of a call is logged and answered with one of the package's own.\<close>

definition failing :: "bl_error \<Rightarrow> (auth_world, 'a) go \<Rightarrow> (auth_world, 'a) go" where
  "failing be m = tryE m (\<lambda>e. failE (Sentinel (BL be))) retE"

definition failing_new :: "string \<Rightarrow> (auth_world, 'a) go \<Rightarrow> (auth_world, 'a) go" where
  "failing_new msg m = tryE m (\<lambda>e. failE (NewErr msg)) retE"

definition CreateFreeSubscription :: "string \<Rightarrow> (auth_world, unit) go" where
  "CreateFreeSubscription stripeCustomerID =
     bindE (failing BL_ErrFailedToCreateFreeSubscription GetFreePriceStripeID) (\<lambda>freePrice.
     failing BL_ErrFailedToCreateFreeSubscription
       (stripe (SubscriptionNew stripeCustomerID freePrice) (\<lambda>s n. ())))"

definition GetActiveSubscription :: "uuid \<Rightarrow> (auth_world, Subscription) go" where
  "GetActiveSubscription userID = tryE (GetSubscriptionByUserID userID)
     (\<lambda>e. if errors_Is e (Sentinel (BL BL_ErrNoSubscription)) then failE (Sentinel (BL BL_ErrNoActiveSubscription))
          else failE (Sentinel (BL BL_ErrFailedToGetSubscription))) retE"

definition bp_CancelSubscription :: "uuid \<Rightarrow> (auth_world, unit) go" where
  "bp_CancelSubscription userID = bindE (failing BL_ErrNoActiveSubscription (GetActiveSubscription userID)) (\<lambda>activeSub.
     failing BL_ErrFailedToCancelSubscription (stripe (SubscriptionCancel (su_StripeID activeSub)) (\<lambda>s n. ())))"

definition CancelSubscriptionBySubscriptionExternalID :: "string \<Rightarrow> (auth_world, unit) go" where
  "CancelSubscriptionBySubscriptionExternalID stripSubID =
     failing BL_ErrFailedToCancelSubscription (stripe (SubscriptionCancel stripSubID) (\<lambda>s n. ()))"

definition bp_UpdateSubscription :: "uuid \<Rightarrow> string \<Rightarrow> (auth_world, unit) go" where
  "bp_UpdateSubscription userID priceID =
     bindE (failing BL_ErrNoActiveSubscription (GetActiveSubscription userID)) (\<lambda>activeSub.
     bindE (failing BL_ErrFailedToUpdateSubscription
       (stripe (SubscriptionGet (su_StripeID activeSub)) (\<lambda>s n. s_Subscription s n (su_StripeID activeSub)))) (\<lambda>stripeSub.
     case ss_Items stripeSub of
       [] \<Rightarrow> failE (Sentinel (BL BL_ErrFailedToUpdateSubscription))
     | (item, itemPrice) # is \<Rightarrow>
         bindE (failing BL_ErrFailedToUpdateSubscription (GetPriceByID priceID)) (\<lambda>price.
         failing BL_ErrFailedToUpdateSubscription
           (stripe (SubscriptionUpdate (su_StripeID activeSub) item (pr_StripeID price)) (\<lambda>s n. ())))))"

definition CreateCheckoutSession :: "string \<Rightarrow> uuid \<Rightarrow> string \<Rightarrow> (auth_world, stripe_Checkout) go" where
  "CreateCheckoutSession webhostURL userID priceID = tryE (GetActiveSubscription userID)
     (\<lambda>e. if \<not> errors_Is e (Sentinel (BL BL_ErrNoActiveSubscription))
          then failE (NewErr ''failed to check existing subscription'')
          else
            bindE (failing_new ''failed to get stripe customer id'' (GetStripeCustomerIDByUserExternalID userID)) (\<lambda>customer.
            bindE (failing_new ''failed to get price by stripe id'' (GetPriceByID priceID)) (\<lambda>price.
            failing_new ''failed to create checkout session''
              (stripe (CheckoutNew customer (pr_StripeID price)
                 (webhostURL @ ''/billing/payment_attempt?session_id={CHECKOUT_SESSION_ID}'')) s_Checkout))))
     (\<lambda>existing. failE (Sentinel (BL BL_ErrSubscriptionAlreadyExists)))"

record CheckoutSessionInfo =
  ci_SessionID :: string
  ci_Status :: string
  ci_PaymentStatus :: string

definition GetCheckoutSession :: "string \<Rightarrow> (auth_world, CheckoutSessionInfo) go" where
  "GetCheckoutSession sessionID = bindE (failing_new ''failed to get checkout session''
     (stripe (CheckoutGet sessionID) s_Checkout)) (\<lambda>session.
     retE \<lparr>ci_SessionID = sc_ID session, ci_Status = sc_Status session, ci_PaymentStatus = sc_PaymentStatus session\<rparr>)"

definition SetupPaymentMethodUpdateIntent :: "uuid \<Rightarrow> (auth_world, string) go" where
  "SetupPaymentMethodUpdateIntent userID =
     bindE (failing BL_ErrFailedToUpdatePaymentMethod (GetStripeCustomerIDByUserExternalID userID)) (\<lambda>customer.
     failing BL_ErrFailedToUpdatePaymentMethod (stripe (SetupIntentNew customer) s_NewID))"

record processor_PaymentMethod =
  xp_ID :: uuid
  xp_CardBrand :: string
  xp_CardLast4 :: string
  xp_CardExpMonth :: int
  xp_CardExpYear :: int

definition GetPaymentMethodForUser :: "uuid \<Rightarrow> (auth_world, processor_PaymentMethod) go" where
  "GetPaymentMethodForUser userID =
     bindE (failing BL_ErrFailedToGetPaymentMethod (store_GetPaymentMethodByUserID userID)) (\<lambda>m.
     retE \<lparr>xp_ID = pm_ID m, xp_CardBrand = pm_CardBrand m, xp_CardLast4 = pm_CardLast4 m,
       xp_CardExpMonth = pm_CardExpMonth m, xp_CardExpYear = pm_CardExpYear m\<rparr>)"

definition CreateCustomerPortal :: "string \<Rightarrow> uuid \<Rightarrow> (auth_world, string) go" where
  "CreateCustomerPortal webhostURL userID = bindE (GetStripeCustomerIDByUserExternalID userID) (\<lambda>customer.
     stripe (PortalNew customer (webhostURL @ ''/account'')) s_NewID)"

section \<open>Webhook events\<close>

definition PaymentIntentSucceeded :: "(string \<times> string) list \<Rightarrow> (auth_world, unit) go" where
  "PaymentIntentSucceeded metadata = logE (stripe (TaxFromCalculation
     (case map_of metadata ''tax_calculation'' of None \<Rightarrow> '''' | Some v \<Rightarrow> v)) (\<lambda>s n. ()))"

definition SubscriptionUpdated :: "stripe_Subscription \<Rightarrow> (auth_world, unit) go" where
  "SubscriptionUpdated sub =
     (if 0 < ss_CancelAt sub
      then wrapE ''failed to cancel subscription'' (CancelSubscription (ss_ID sub) (unix_time (ss_CancelAt sub)))
      else wrapE ''failed to update subscription'' (UpdateSubscription sub))"

definition SubscriptionCreated :: "stripe_Subscription \<Rightarrow> (auth_world, unit) go" where
  "SubscriptionCreated sub = wrapE ''failed to create subscription'' (CreateSubscription sub)"

definition invoice_subscription :: "stripe_Invoice \<Rightarrow> (string \<Rightarrow> (auth_world, 'a) go) \<Rightarrow> (auth_world, 'a) go" where
  "invoice_subscription invoice k = (case si_SubscriptionID invoice of
       None \<Rightarrow> panicE ''invalid memory address or nil pointer dereference'' | Some i \<Rightarrow> k i)"

definition InvoicePaymentFailed :: "stripe_Invoice \<Rightarrow> (auth_world, unit) go" where
  "InvoicePaymentFailed invoice = invoice_subscription invoice (\<lambda>sub.
     wrapE ''failed to cancel subscription'' (CancelSubscriptionBySubscriptionExternalID sub))"

definition InvoicePaymentPaid :: "stripe_Invoice \<Rightarrow> (auth_world, unit) go" where
  "InvoicePaymentPaid invoice = invoice_subscription invoice (\<lambda>sub.
     bindE (wrapE ''failed to get subscription'' (stripe (SubscriptionGet sub) (\<lambda>s n. s_Subscription s n sub)))
       SubscriptionUpdated)"

definition ProductCreated :: "stripe_Product \<Rightarrow> (auth_world, unit) go" where
  "ProductCreated p = wrapE ''failed to handle product creation webhook event'' (CreateProduct p)"

definition PriceCreated :: "stripe_Price \<Rightarrow> (auth_world, unit) go" where
  "PriceCreated p = wrapE ''failed to handle plan creation webhook event'' (CreatePrice p)"

definition PriceUpdated :: "stripe_Price \<Rightarrow> (auth_world, unit) go" where
  "PriceUpdated p = wrapE ''failed to handle plan update webhook event'' (UpdatePrice p)"

definition SubscriptionDeleted :: "stripe_Subscription \<Rightarrow> (auth_world, unit) go" where
  "SubscriptionDeleted sub = bindE (getE (\<lambda>s. w_now (aw_world s))) (\<lambda>now.
     wrapE ''failed to handle subscription deletion webhook event'' (CancelSubscription (ss_ID sub) now))"

definition PriceDeleted :: "stripe_Price \<Rightarrow> (auth_world, unit) go" where
  "PriceDeleted p = wrapE ''failed to handle plan deletion webhook event'' (DeletePrice p)"

record stripe_EventData =
  ed_Product :: "stripe_Product option"
  ed_Price :: "stripe_Price option"
  ed_Subscription :: "stripe_Subscription option"
  ed_Invoice :: "stripe_Invoice option"
  ed_PreviousStatus :: "string option"

record stripe_Event =
  ev_Type :: string
  ev_Data :: "stripe_EventData option"

text \<open>The data behind the event's pointer, parsed as the type the event stands for.\<close>

definition event_data :: "stripe_Event \<Rightarrow> (stripe_EventData \<Rightarrow> (auth_world, unit) go) \<Rightarrow> (auth_world, unit) go" where
  "event_data event k = (case ev_Data event of
       None \<Rightarrow> panicE ''invalid memory address or nil pointer dereference'' | Some d \<Rightarrow> k d)"

definition parsed :: "string \<Rightarrow> 'b option \<Rightarrow> ('b \<Rightarrow> (auth_world, unit) go) \<Rightarrow> (auth_world, unit) go" where
  "parsed what v k = (case v of
       None \<Rightarrow> failE (Wrap (''failed to parse '' @ what @ '' from event'') (ExtErr ''json: cannot unmarshal''))
     | Some x \<Rightarrow> k x)"

definition bp_HandleWebhook :: "stripe_Event \<Rightarrow> (auth_world, unit) go" where
  "bp_HandleWebhook event = (let t = ev_Type event in
     if t = ''product.created'' then event_data event (\<lambda>d. parsed ''product'' (ed_Product d) ProductCreated)
     else if t \<in> {''price.created'', ''price.updated'', ''price.deleted''} then
       event_data event (\<lambda>d. parsed ''price'' (ed_Price d) (\<lambda>price.
         if t = ''price.created'' then PriceCreated price
         else if t = ''price.updated'' then PriceUpdated price else PriceDeleted price))
     else if t = ''customer.subscription.created'' then
       event_data event (\<lambda>d. parsed ''subscription'' (ed_Subscription d) SubscriptionCreated)
     else if t = ''customer.subscription.updated'' then
       event_data event (\<lambda>d. parsed ''subscription'' (ed_Subscription d) (\<lambda>sub.
         if ed_PreviousStatus d = Some ''incomplete'' then SubscriptionCreated sub else SubscriptionUpdated sub))
     else if t = ''customer.subscription.deleted'' then
       event_data event (\<lambda>d. parsed ''subscription'' (ed_Subscription d) SubscriptionDeleted)
     else if t = ''invoice.payment_failed'' then
       event_data event (\<lambda>d. parsed ''invoice'' (ed_Invoice d) InvoicePaymentFailed)
     else if t = ''invoice.paid'' then
       event_data event (\<lambda>d. parsed ''invoice'' (ed_Invoice d) InvoicePaymentPaid)
     else retE ())"

section \<open>Handlers\<close>

definition bp_handleError :: "err \<Rightarrow> (auth_world, 'b reply) go" where
  "bp_handleError e =
     (if errors_Is e (Sentinel (BL BL_ErrNoActiveSubscription)) then api_NotFound ''No active subscription found''
      else if errors_Is e (Sentinel (BL BL_ErrSubscriptionAlreadyExists))
        then api_Conflict ''SUBSCRIPTION_EXISTS''
          ''You already have an active subscription. Use billing portal to change plans.''
      else api_InternalError e)"

definition must_get_user :: "gin_Context \<Rightarrow> (uuid \<Rightarrow> (auth_world, 'b reply) go) \<Rightarrow> (auth_world, 'b reply) go" where
  "must_get_user c k = (case gc_Get c ''User-ID'' of
       None \<Rightarrow> panicE ''Key \"User-ID\" does not exist''
     | Some s \<Rightarrow> bindE (getE (\<lambda>a. w_uuid_Parse (aw_world a))) (\<lambda>parse.
         case parse s of None \<Rightarrow> panicE (''uuid: Parse('' @ s @ '')'') | Some i \<Rightarrow> k i))"

definition answer :: "('a \<Rightarrow> 'b) \<Rightarrow> (auth_world, 'a) go \<Rightarrow> (auth_world, 'b reply) go" where
  "answer f m = tryE m bp_handleError (\<lambda>x. retE (JSON 200 (f x)))"

definition HandleUpdatePaymentMethod :: "gin_Context \<Rightarrow> (auth_world, (string \<times> string) list reply) go" where
  "HandleUpdatePaymentMethod c = must_get_user c (\<lambda>userID.
     answer (\<lambda>secret. [(''client_secret'', secret)]) (SetupPaymentMethodUpdateIntent userID))"

definition handler_ListPrices :: "(auth_world, products_Price list reply) go" where
  "handler_ListPrices = answer (\<lambda>prices. prices) ListPrices"

definition HandleCancelSubscription :: "gin_Context \<Rightarrow> (auth_world, (string \<times> string) list reply) go" where
  "HandleCancelSubscription c = must_get_user c (\<lambda>userID.
     answer (\<lambda>u. [(''message'', ''subscription cancelled'')]) (bp_CancelSubscription userID))"

definition HandleCreateCheckoutSession ::
    "string \<Rightarrow> gin_Context \<Rightarrow> string option \<Rightarrow> (auth_world, (string \<times> string) list reply) go" where
  "HandleCreateCheckoutSession webhostURL c body = must_get_user c (\<lambda>userID.
     bind_json body (\<lambda>priceID. tag_required ''PriceID'' (priceID \<noteq> '''') []) (\<lambda>priceID.
     answer (\<lambda>session. [(''client_secret'', sc_ClientSecret session)])
       (CreateCheckoutSession webhostURL userID priceID)))"

definition handler_GetCheckoutSession :: "gin_Context \<Rightarrow> (auth_world, CheckoutSessionInfo reply) go" where
  "handler_GetCheckoutSession c = (let sessionID = gc_Query c ''session_id'' in
     if sessionID = '''' then api_BadRequest ''INVALID_INPUT'' ''session_id is required''
     else answer (\<lambda>session. session) (GetCheckoutSession sessionID))"

definition HandleGetSubscription :: "gin_Context \<Rightarrow> (auth_world, Subscription reply) go" where
  "HandleGetSubscription c = must_get_user c (\<lambda>userID. answer (\<lambda>sub. sub) (GetActiveSubscription userID))"

definition HandleCreateCustomerPortal :: "string \<Rightarrow> gin_Context \<Rightarrow> (auth_world, (string \<times> string) list reply) go" where
  "HandleCreateCustomerPortal webhostURL c = must_get_user c (\<lambda>userID.
     answer (\<lambda>url. [(''url'', url)]) (CreateCustomerPortal webhostURL userID))"

definition HandleGetPaymentMethod :: "gin_Context \<Rightarrow> (auth_world, processor_PaymentMethod reply) go" where
  "HandleGetPaymentMethod c = must_get_user c (\<lambda>userID. answer (\<lambda>m. m) (GetPaymentMethodForUser userID))"

definition billing_HandleWebhook ::
    "(string \<Rightarrow> string \<Rightarrow> string \<Rightarrow> stripe_Event option) \<Rightarrow> string \<Rightarrow> gin_Context \<Rightarrow> string option \<Rightarrow>
     (auth_world, (string \<times> string) list reply) go" where
  "billing_HandleWebhook ConstructEvent webhookSecret c body = (case body of
       None \<Rightarrow> api_BadRequest ''INVALID_INPUT'' ''failed to read request body''
     | Some payload \<Rightarrow> (let signatureHeader = gc_GetHeader c ''Stripe-Signature'' in
         if signatureHeader = '''' then api_BadRequest ''INVALID_INPUT'' ''missing Stripe-Signature header''
         else case ConstructEvent payload signatureHeader webhookSecret of
           None \<Rightarrow> api_BadRequest ''INVALID_INPUT'' ''invalid webhook signature''
         | Some event \<Rightarrow> answer (\<lambda>u. [(''message'', ''success'')]) (bp_HandleWebhook event)))"

end
