(* ===== verification/Auth.thy ===== *)
theory Auth
  imports BillingProcessor Webhooks
begin

text \<open>
  Authentication: auth/processor (auth.go, googleouth.go, jwt.go), clients/googleoauth/client.go
  and auth/handler/auth.go with the middleware that guards the other handlers.
\<close>

section \<open>Configuration and claims\<close>

record AuthConfig =
  ag_JWTSecret :: string
  ag_ClientID :: string
  ag_ClientSecret :: string
  ag_ClientRedirectURL :: string
  ag_WebAppHost :: string

record SignedUpUser =
  sg_FirstName :: string
  sg_LastName :: string
  sg_Email :: string

record processor_User =
  px_FirstName :: string
  px_LastName :: string
  px_ExternalID :: uuid

record BaseClaims =
  bc_ExpirationTime :: "int option"
  bc_IssuedAt :: "int option"
  bc_NotBefore :: "int option"
  bc_Issuer :: string
  bc_Subject :: string
  bc_Audience :: "string list"
  bc_AccountID :: string
  bc_AuthType :: string

definition claim_string :: "(string \<times> jval) list \<Rightarrow> string \<Rightarrow> string" where
  "claim_string m key = (case map_of m key of Some (JStr v) \<Rightarrow> v | _ \<Rightarrow> '''')"

definition claim_date :: "(string \<times> jval) list \<Rightarrow> string \<Rightarrow> int option" where
  "claim_date m key = (case map_of m key of Some (JInt v) \<Rightarrow> Some v | _ \<Rightarrow> None)"

definition base_claims :: "(string \<times> jval) list \<Rightarrow> BaseClaims" where
  "base_claims m = \<lparr>bc_ExpirationTime = claim_date m ''exp'', bc_IssuedAt = claim_date m ''iat'',
     bc_NotBefore = claim_date m ''nbf'', bc_Issuer = claim_string m ''iss'', bc_Subject = claim_string m ''sub'',
     bc_Audience = (case map_of m ''aud'' of Some (JStr v) \<Rightarrow> [v] | Some (JStrs vs) \<Rightarrow> vs | _ \<Rightarrow> []),
     bc_AccountID = claim_string m ''account_id'', bc_AuthType = claim_string m ''auth_type''\<rparr>"

text \<open>The claims of a token for a user, 24 hours from now.\<close>

definition jwt_claims :: "(uuid \<Rightarrow> string) \<Rightarrow> time \<Rightarrow> AuthenticatedUser \<Rightarrow> (string \<times> jval) list" where
  "jwt_claims str now user =
     [(''sub'', JStr (str (ad_UserID user))), (''account_id'', JStr (str (ad_AccountID user))),
      (''auth_type'', JStr (ad_AuthType user)), (''iss'', JStr ''base-server''), (''aud'', JStr ''base-server''),
      (''exp'', JInt ((now + 24 * 3600 * 1000000000) div 1000000000)), (''iat'', JInt (now div 1000000000))]"

definition generateJWTToken :: "AuthConfig \<Rightarrow> AuthenticatedUser \<Rightarrow> (auth_world, string) go" where
  "generateJWTToken cfg user s =
     (case j_Sign s (ag_JWTSecret cfg) (jwt_claims (w_uuid_String (aw_world s)) (w_now (aw_world s)) user) of
        None \<Rightarrow> failE (Sentinel (AU AU_ErrFailedSignIn)) s
      | Some token \<Rightarrow> retE token s)"

definition ValidateJWTToken :: "AuthConfig \<Rightarrow> string \<Rightarrow> (auth_world, BaseClaims) go" where
  "ValidateJWTToken cfg token s =
     (case j_Parse s (ag_JWTSecret cfg) (w_now (aw_world s)) token of
        JwtExpired \<Rightarrow> failE (Sentinel (AU AU_ErrExpiredToken)) s
      | JwtInvalid \<Rightarrow> failE (Sentinel (AU AU_ErrParseJWTToken)) s
      | JwtNotValid \<Rightarrow> failE (Sentinel (AU AU_ErrInvalidJWTToken)) s
      | JwtClaims m \<Rightarrow> retE (base_claims m) s)"

section \<open>E-mail\<close>

text \<open>Errors that are logged and answered with a sentinel of the package.\<close>

definition au_failing :: "au_error \<Rightarrow> (auth_world, 'a) go \<Rightarrow> (auth_world, 'a) go" where
  "au_failing ae m = tryE m (\<lambda>e. failE (Sentinel (AU ae))) retE"

text \<open>bcrypt salts every hash, so the hash of a password depends on the call.\<close>

definition bcrypt_Generate :: "string \<Rightarrow> (auth_world, string) go" where
  "bcrypt_Generate password s = (case b_Generate s (w_calls (aw_world s)) password of
       None \<Rightarrow> (Err (ExtErr ''bcrypt: password length exceeds 72 bytes''), s) | Some h \<Rightarrow> (Ok h, s))"

text \<open>What follows the new user's row in both ways of signing up.\<close>

definition new_customer :: "au_error \<Rightarrow> uuid \<Rightarrow> string \<Rightarrow> (auth_world, unit) go" where
  "new_customer ae userID email =
     bindE (au_failing ae (CreateStripeCustomer email)) (\<lambda>customer.
     bindE (au_failing ae (UpdateStripeCustomerIDByUserID userID customer)) (\<lambda>u.
     au_failing ae (CreateFreeSubscription customer)))"

definition Signup :: "string \<Rightarrow> string \<Rightarrow> string \<Rightarrow> string \<Rightarrow> (auth_world, SignedUpUser) go" where
  "Signup firstName lastName email password =
     bindE (au_failing AU_ErrFailedSignup (store_CheckIfEmailExists email)) (\<lambda>existing.
     if existing then failE (Sentinel (AU AU_ErrEmailAlreadyExists))
     else
       bindE (au_failing AU_ErrFailedSignup (bcrypt_Generate password)) (\<lambda>hashedPassword.
       bindE (au_failing AU_ErrFailedSignup (CreateUserOnEmailSignup firstName lastName email hashedPassword)) (\<lambda>user.
       bindE (new_customer AU_ErrFailedSignup (us_ID user) email) (\<lambda>u.
       retE \<lparr>sg_FirstName = us_FirstName user, sg_LastName = us_LastName user, sg_Email = email\<rparr>))))"

definition Login :: "AuthConfig \<Rightarrow> string \<Rightarrow> string \<Rightarrow> (auth_world, string) go" where
  "Login cfg email password =
     bindE (au_failing AU_ErrFailedLogin (store_CheckIfEmailExists email)) (\<lambda>existing.
     if \<not> existing then failE (Sentinel (AU AU_ErrEmailDoesNotExist))
     else
       bindE (au_failing AU_ErrFailedLogin (GetCredentialsByEmail email)) (\<lambda>credentials.
       bindE (getE b_Compare) (\<lambda>compare.
       if \<not> compare (ea_HashedPassword credentials) password
       then failE (Sentinel (AU AU_ErrIncorrectPassword))
       else
         bindE (au_failing AU_ErrFailedLogin (GetUserByAuthID (ea_AuthID credentials))) (\<lambda>user.
         au_failing AU_ErrFailedLogin (generateJWTToken cfg user)))))"

definition GetUserByExternalID :: "uuid \<Rightarrow> (auth_world, processor_User) go" where
  "GetUserByExternalID externalID = tryE (store_GetUserByExternalID externalID)
     (\<lambda>e. if errors_Is e ErrNotFound then failE (Sentinel (AU AU_ErrUserNotFound))
          else failE (Sentinel (AU AU_ErrFailedGetUser)))
     (\<lambda>user. retE \<lparr>px_FirstName = us_FirstName user, px_LastName = us_LastName user, px_ExternalID = us_ID user\<rparr>)"

section \<open>Google\<close>

text \<open>One request; the environment's counter distinguishes the requests from each other.\<close>

definition google_Do :: "http_request \<Rightarrow> (auth_world, http_reply) go" where
  "google_Do req s = (let w = aw_world s in case w_http w (w_calls w) of (reply, ms) \<Rightarrow>
     (Ok reply, s\<lparr>aw_world := w\<lparr>w_calls := Suc (w_calls w),
        w_http_log := (case reply of RequestError m \<Rightarrow> w_http_log w | _ \<Rightarrow> w_http_log w @ [req])\<rparr>\<rparr>))"

text \<open>The request and the body of its answer.\<close>

definition google_body :: "http_request \<Rightarrow> (int \<Rightarrow> string \<Rightarrow> (auth_world, 'a) go) \<Rightarrow> (auth_world, 'a) go" where
  "google_body req k = bindE (google_Do req) (\<lambda>reply. case reply of
       RequestError m \<Rightarrow> failE (Wrap ''failed to create request'' (ExtErr m))
     | SendError m \<Rightarrow> failE (Wrap ''failed to make request'' (ExtErr m))
     | Reply status None \<Rightarrow> failE (Wrap ''failed to read response body'' (ExtErr ''unexpected EOF''))
     | Reply status (Some body) \<Rightarrow> k status body)"

text \<open>json.Unmarshal into a struct of strings: a field the object lacks stays empty.\<close>

definition json_fields ::
    "string list \<Rightarrow> string \<Rightarrow> ((string \<Rightarrow> string) \<Rightarrow> (auth_world, 'a) go) \<Rightarrow> (auth_world, 'a) go" where
  "json_fields names body k = bindE (getE g_json) (\<lambda>unmarshal. case unmarshal names body of
       None \<Rightarrow> failE (Wrap ''failed to marshal response body'' (ExtErr ''invalid JSON''))
     | Some m \<Rightarrow> k (\<lambda>key. case map_of m key of None \<Rightarrow> '''' | Some v \<Rightarrow> v))"

record GoogleOauthTokenResponse =
  gt_AccessToken :: string
  gt_IdToken :: string

definition GetAccessToken :: "AuthConfig \<Rightarrow> string \<Rightarrow> (auth_world, GoogleOauthTokenResponse) go" where
  "GetAccessToken cfg code = bindE (getE g_url_Encode) (\<lambda>encode.
     google_body \<lparr>hr_Method = ''POST'', hr_URL = ''https://oauth2.googleapis.com/token?'' @ encode
         [(''code'', code), (''client_id'', ag_ClientID cfg), (''client_secret'', ag_ClientSecret cfg),
          (''redirect_uri'', ag_ClientRedirectURL cfg), (''grant_type'', ''authorization_code'')],
         hr_Header = [(''Content-Type'', ''application/x-www-form-urlencoded'')], hr_Body = ''''\<rparr> (\<lambda>status body.
     if status \<noteq> 200
     then json_fields [''error'', ''error_description''] body (\<lambda>field.
       failE (NewErr (''failed to get access token: '' @ field ''error_description'')))
     else json_fields [''access_token'', ''id_token''] body (\<lambda>field.
       retE \<lparr>gt_AccessToken = field ''access_token'', gt_IdToken = field ''id_token''\<rparr>)))"

record UserInfo =
  ui_ID :: string
  ui_Email :: string
  ui_FirstName :: string
  ui_LastName :: string

text \<open>The status of this answer is not looked at.\<close>

definition google_GetUserInfo :: "string \<Rightarrow> (auth_world, UserInfo) go" where
  "google_GetUserInfo token =
     google_body \<lparr>hr_Method = ''GET'', hr_URL = ''https://www.googleapis.com/oauth2/v3/userinfo'',
         hr_Header = [(''Authorization'', ''Bearer '' @ token)], hr_Body = ''''\<rparr> (\<lambda>status body.
     json_fields [''sub'', ''email'', ''given_name'', ''family_name''] body (\<lambda>field.
     retE \<lparr>ui_ID = field ''sub'', ui_Email = field ''email'', ui_FirstName = field ''given_name'',
       ui_LastName = field ''family_name''\<rparr>))"

definition SignInGoogleUserWithCode :: "AuthConfig \<Rightarrow> string \<Rightarrow> (auth_world, string) go" where
  "SignInGoogleUserWithCode cfg code =
     bindE (au_failing AU_ErrFailedSignIn (GetAccessToken cfg code)) (\<lambda>token.
     bindE (au_failing AU_ErrFailedSignIn (google_GetUserInfo (gt_AccessToken token))) (\<lambda>userInfo.
     bindE (au_failing AU_ErrFailedSignIn (store_CheckIfEmailExists (ui_Email userInfo))) (\<lambda>existing.
     bindE (if existing then retE ()
        else
          bindE (au_failing AU_ErrFailedSignIn (CreateUserOnGoogleSignIn (ui_ID userInfo) (ui_Email userInfo)
            (ui_FirstName userInfo) (ui_LastName userInfo))) (\<lambda>user.
          new_customer AU_ErrFailedSignIn (us_ID user) (ui_Email userInfo))) (\<lambda>u.
     bindE (au_failing AU_ErrFailedSignIn (GetOauthUserByEmail (ui_Email userInfo))) (\<lambda>oauthUser.
     bindE (au_failing AU_ErrFailedSignIn (GetUserByAuthID (oa_AuthID oauthUser))) (\<lambda>user.
     au_failing AU_ErrFailedSignIn (generateJWTToken cfg user)))))))"

section \<open>Handlers\<close>

definition au_handleError :: "err \<Rightarrow> (auth_world, 'b reply) go" where
  "au_handleError e =
     (if errors_Is e (Sentinel (AU AU_ErrEmailAlreadyExists)) then api_Conflict ''EMAIL_EXISTS'' ''Email already exists''
      else if errors_Is e (Sentinel (AU AU_ErrEmailDoesNotExist)) then api_NotFound ''Email does not exist''
      else if errors_Is e (Sentinel (AU AU_ErrIncorrectPassword)) then api_Unauthorized ''Invalid email or password''
      else if errors_Is e (Sentinel (AU AU_ErrUserNotFound)) then api_NotFound ''User not found''
      else api_InternalError e)"

record EmailSignupRequest =
  esr_FirstName :: string
  esr_LastName :: string
  esr_Email :: string
  esr_Password :: string

record EmailLoginRequest =
  elr_Email :: string
  elr_Password :: string

text \<open>Whether a text is an e-mail address is the validator's decision, the parameter \<^verbatim>\<open>is_email\<close>.\<close>

definition email_tag :: "(string \<Rightarrow> bool) \<Rightarrow> string \<Rightarrow> FieldError list" where
  "email_tag is_email email = tag_required ''Email'' (email \<noteq> '''')
     (if is_email email then [] else [\<lparr>fe_Field = ''Email'', fe_Tag = ''email'', fe_Param = ''''\<rparr>])"

definition password_tag :: "string \<Rightarrow> FieldError list" where
  "password_tag password = tag_required ''Password'' (password \<noteq> '''') (tag_min ''Password'' 8 (rune_count password) [])"

definition email_signup_tags :: "(string \<Rightarrow> bool) \<Rightarrow> EmailSignupRequest \<Rightarrow> FieldError list" where
  "email_signup_tags is_email req =
     tag_required ''FirstName'' (esr_FirstName req \<noteq> '''') [] @ tag_required ''LastName'' (esr_LastName req \<noteq> '''') [] @
     email_tag is_email (esr_Email req) @ password_tag (esr_Password req)"

definition login_tags :: "(string \<Rightarrow> bool) \<Rightarrow> EmailLoginRequest \<Rightarrow> FieldError list" where
  "login_tags is_email req = email_tag is_email (elr_Email req) @ password_tag (elr_Password req)"

definition HandleEmailLogin ::
    "AuthConfig \<Rightarrow> (string \<Rightarrow> bool) \<Rightarrow> EmailLoginRequest option \<Rightarrow> (auth_world, (string \<times> string) list reply) go" where
  "HandleEmailLogin cfg is_email body = bind_json body (login_tags is_email) (\<lambda>req.
     tryE (Login cfg (elr_Email req) (elr_Password req)) au_handleError
       (\<lambda>token. retE (JSON 200 [(''token'', token)])))"

definition HandleEmailSignup ::
    "(string \<Rightarrow> bool) \<Rightarrow> EmailSignupRequest option \<Rightarrow> (auth_world, SignedUpUser reply) go" where
  "HandleEmailSignup is_email body = bind_json body (email_signup_tags is_email) (\<lambda>req.
     tryE (Signup (esr_FirstName req) (esr_LastName req) (esr_Email req) (esr_Password req)) au_handleError
       (\<lambda>user. retE (JSON 200 user)))"

text \<open>
  The middleware: c.Next() runs the handlers behind it, here the argument \<^verbatim>\<open>next_handler\<close>, with the
  two keys set; c.Abort() keeps them from running.
\<close>

definition HandleJWTMiddleware ::
    "AuthConfig \<Rightarrow> string option \<Rightarrow> (gin_Context \<Rightarrow> (auth_world, 'b reply) go) \<Rightarrow> gin_Context \<Rightarrow>
     (auth_world, 'b reply) go" where
  "HandleJWTMiddleware cfg cookie next_handler c =
     (if cookie = None \<or> cookie = Some '''' then api_Unauthorized ''Authorization token is missing or invalid''
      else tryE (ValidateJWTToken cfg (the cookie)) (\<lambda>e. api_Unauthorized ''Invalid or expired token'')
        (\<lambda>claims. next_handler (c\<lparr>gc_Get := (gc_Get c)(''User-ID'' \<mapsto> bc_Subject claims,
            ''Account-ID'' \<mapsto> bc_AccountID claims)\<rparr>)))"

record UserInfoResponse =
  ur_FirstName :: string
  ur_LastName :: string
  ur_ExternalID :: uuid
  ur_Tier :: "TierView option"

text \<open>The tier of the account in the context: every failure to find it is left out of the answer.\<close>

definition context_tier :: "bool \<Rightarrow> gin_Context \<Rightarrow> (auth_world, TierView option) go" where
  "context_tier tierService c = (case gc_Get c ''Account-ID'' of
       None \<Rightarrow> retE None
     | Some a \<Rightarrow> if \<not> tierService \<or> a = '''' then retE None
         else bindE (getE (\<lambda>s. w_uuid_Parse (aw_world s))) (\<lambda>parse. case parse a of
             None \<Rightarrow> retE None
           | Some accountID \<Rightarrow> tryE (in_world (GetTierInfoByAccountID accountID)) (\<lambda>e. retE None) (\<lambda>t. retE (Some t))))"

definition handler_GetUserInfo :: "bool \<Rightarrow> gin_Context \<Rightarrow> (auth_world, UserInfoResponse reply) go" where
  "handler_GetUserInfo tierService c = (case gc_Get c ''User-ID'' of
       None \<Rightarrow> api_Unauthorized ''User ID not found in context''
     | Some userID \<Rightarrow> bindE (getE (\<lambda>s. w_uuid_Parse (aw_world s))) (\<lambda>parse. case parse userID of
         None \<Rightarrow> api_BadRequest ''INVALID_INPUT'' ''Invalid user ID format''
       | Some parsedUserID \<Rightarrow> tryE (GetUserByExternalID parsedUserID) au_handleError (\<lambda>user.
           bindE (context_tier tierService c) (\<lambda>tier.
           retE (JSON 200 \<lparr>ur_FirstName = px_FirstName user, ur_LastName = px_LastName user,
             ur_ExternalID = px_ExternalID user, ur_Tier = tier\<rparr>)))))"

record set_cookie =
  sk_Name :: string
  sk_Value :: string
  sk_MaxAge :: int
  sk_Path :: string
  sk_Domain :: string
  sk_Secure :: bool
  sk_HttpOnly :: bool

record redirect =
  rd_Cookie :: set_cookie
  rd_Location :: string

text \<open>
  The callback: the environment's GO_ENV decides whether the cookie is for HTTPS only; url.Parse
  and the text of the URL with the path / are the parameter \<^verbatim>\<open>root_of\<close>. A redirect is a reply of
  status 302. (When the host does not parse, the cookie goes with the error; the cookie of that
  answer is left out.)
\<close>

definition HandleGoogleOauthCallback ::
    "AuthConfig \<Rightarrow> string \<Rightarrow> (string \<Rightarrow> string option) \<Rightarrow> gin_Context \<Rightarrow> (auth_world, redirect reply) go" where
  "HandleGoogleOauthCallback cfg goEnv root_of c = (let code = gc_Query c ''code'' in
     if code = '''' then api_BadRequest ''INVALID_INPUT'' ''Authorization code is missing''
     else tryE (SignInGoogleUserWithCode cfg code) au_handleError (\<lambda>token. case root_of (ag_WebAppHost cfg) of
         None \<Rightarrow> api_InternalError (ExtErr ''parse url'')
       | Some location \<Rightarrow> retE (JSON 302 \<lparr>rd_Cookie = \<lparr>sk_Name = ''token'', sk_Value = token, sk_MaxAge = 86400,
             sk_Path = ''/'', sk_Domain = ag_WebAppHost cfg, sk_Secure = (goEnv = ''production''), sk_HttpOnly = True\<rparr>,
             rd_Location = location\<rparr>)))"

end
