(* ===== verification/WaitlistHttpFacts.thy ===== *)
theory WaitlistHttpFacts
  imports WaitlistHttp WaitlistFacts Referrals
begin

text \<open>
  Facts about the handlers of the waitlist: what an import adds, and what the handler that resends
  a verification mail answers.
\<close>

section \<open>Users added by a signup\<close>

definition user_keys :: "world \<Rightarrow> (uuid \<times> time option) list" where
  "user_keys w = map (\<lambda>u. (wu_CampaignID u, wu_DeletedAt u)) (t_waitlist_users w)"

lemma waitlist_count_keys:
  "waitlist_count c (\<lambda>u. True) w = int (length (filter (\<lambda>k. k = (c, None)) (user_keys w)))"
proof -
  have *: "(\<lambda>k. k = (c, None)) \<circ> (\<lambda>u. (wu_CampaignID u, wu_DeletedAt u)) =
      (\<lambda>u. wu_CampaignID u = c \<and> wu_DeletedAt u = None \<and> True)"
    by auto
  show ?thesis unfolding waitlist_count_def user_keys_def filter_map length_map * by (rule refl)
qed

lemma user_keys_upd:
  "(\<And>u. wu_CampaignID (f u) = wu_CampaignID u \<and> wu_DeletedAt (f u) = wu_DeletedAt u) \<Longrightarrow>
   map (\<lambda>u. (wu_CampaignID u, wu_DeletedAt u)) (upd_where P f us) = map (\<lambda>u. (wu_CampaignID u, wu_DeletedAt u)) us"
  by (rule map_upd_where) simp

lemma keys_of_users: "moves (frame t_waitlist_users) m \<Longrightarrow> moves (frame user_keys) m"
  by (auto simp: moves_def frame_def user_keys_def)

lemma credit_keys:
  "moves (frame user_keys) (case ro of None \<Rightarrow> retE () | Some r \<Rightarrow> logE (store_IncrementReferralCount r))"
proof -
  have "moves (frame user_keys) (store_IncrementReferralCount r)" for r
    unfolding store_IncrementReferralCount_def
    by (rule exec_or_frame)
       (auto simp: moves_def frame_def sql_update_def db_def user_keys_def user_keys_upd Let_def split: option.splits)
  then show ?thesis by (intro moves_case_option frame.moves_combinators)
qed

lemma after_create_keys:
  assumes "cp_ReferralSettings cp = None"
  shows "moves (frame user_keys) (after_create cp ro code b u)"
proof -
  have "moves publishes (DispatchUserCreated i j x)" for i j x by (rule dispatch_publishes)
  then have "publishes v (snd (DispatchUserCreated i j x v))" for i j x v unfolding moves_def by blast
  from publishes_users(1) [OF this]
  have "moves (frame user_keys) (DispatchUserCreated i j x)" for i j x
    unfolding moves_def frame_def user_keys_def by simp
  then show ?thesis
    unfolding after_create_def Let_def no_channel_codes [OF assms]
    by (intro frame.moves_combinators credit_keys)
qed

lemma SignupUser_adds:
  assumes "SignupUser c req b w = (Ok r, w')"
  shows "user_keys w' = user_keys w @ [(c, None)]"
proof -
  from assms obtain cp rs code tok w1 w2 w3 w4 w5 w6 w7 u where
    1: "not_found_as (WL WL_ErrCampaignNotFound) (store_GetCampaignByID c) w = (Ok cp, w1)" and
    2: "check_email_free c (sr_Email req) w1 = (Ok (), w2)" and
    3: "check_captcha cp req w2 = (Ok (), w3)" and
    4: "resolve_referral c (sr_ReferralCode req) w3 = (Ok rs, w4)" and
    5: "wrapE ''failed to generate referral code'' (GenerateReferralCode 8) w4 = (Ok code, w5)" and
    6: "wrapE ''failed to generate verification token'' GenerateVerificationToken w5 = (Ok tok, w6)" and
    7: "store_CreateWaitlistUser (signup_params c req (fst rs) (snd rs) code tok) w6 = (Ok u, w7)" and
    8: "after_create cp (fst rs) code b u w7 = (Ok r, w')"
    unfolding SignupUser_after_create
    by (elim bindE_OkE) (auto simp: failE_Ok elim!: bindE_OkE split: if_splits)
  have rsn: "cp_ReferralSettings cp = None" using campaign_or_not_found_Ok(2) [OF 1] .
  have same: "user_keys w6 = user_keys w"
    using moves_frameD [OF keys_of_users [OF users_frame(1) [OF not_found_campaign_reads]] 1]
      moves_frameD [OF keys_of_users [OF users_frame(1) [OF signup_checks_read(1)]] 2]
      moves_frameD [OF keys_of_users [OF users_frame(1) [OF signup_checks_read(2)]] 3]
      moves_frameD [OF keys_of_users [OF users_frame(1) [OF resolve_referral_reads]] 4]
      moves_frameD [OF keys_of_users [OF users_frame(2) [OF wrapped_draws(1)]] 5]
      moves_frameD [OF keys_of_users [OF users_frame(2) [OF wrapped_draws(2)]] 6] by simp
  have "user_keys w7 = user_keys w6 @ [(c, None)]"
    using 7 by (auto simp: store_CreateWaitlistUser_def ok_simps user_keys_def new_waitlist_user_def
        signup_params_def ticked_def)
  moreover have "user_keys w' = user_keys w7"
    by (rule moves_frameD [OF after_create_keys [OF rsn] 8])
  ultimately show ?thesis using same by simp
qed

section \<open>Import\<close>

lemma import_loop_adds:
  assumes "import_loop b c m rs n w = (Ok k, w')" "0 \<le> n" "0 \<le> m \<longrightarrow> n \<le> m"
  shows "n \<le> k \<and> (0 \<le> m \<longrightarrow> k \<le> m) \<and> user_keys w' = user_keys w @ replicate (nat (k - n)) (c, None)"
  using assms
proof (induction rs arbitrary: n w)
  case Nil
  then show ?case by (simp add: retE_Ok)
next
  case (Cons r rs)
  show ?case
  proof (cases "0 \<le> m \<and> m \<le> n")
    case True
    then show ?thesis using Cons.prems by (simp add: retE_Ok)
  next
    case False
    show ?thesis
    proof (cases r)
      case None
      then show ?thesis using Cons False by simp
    next
      case (Some req)
      obtain x w1 where s: "SignupUser c req b w = (x, w1)" by fastforce
      show ?thesis
      proof (cases x)
        case (Ok u)
        have "import_loop b c m rs (n + 1) w1 = (Ok k, w')"
          using Cons.prems(1) False Some s Ok by (simp add: tryE_def)
        from Cons.IH [OF this] Cons.prems(2,3) False
        have ih: "n + 1 \<le> k" "0 \<le> m \<longrightarrow> k \<le> m"
          "user_keys w' = user_keys w1 @ replicate (nat (k - (n + 1))) (c, None)" by auto
        have "nat (k - n) = Suc (nat (k - (n + 1)))" using ih(1) by simp
        then show ?thesis using ih SignupUser_adds [OF s [unfolded Ok]] by auto
      next
        case (Err e)
        have "import_loop b c m rs n w1 = (Ok k, w')"
          using Cons.prems(1) False Some s Err by (simp add: tryE_def)
        moreover have "user_keys w1 = user_keys w"
          using SignupUser_error_users [OF s [unfolded Err]] by (simp add: user_keys_def)
        ultimately show ?thesis using Cons.IH Cons.prems(2,3) by metis
      next
        case (Panic p)
        then show ?thesis using Cons.prems(1) False Some s by (simp add: tryE_def)
      qed
    qed
  qed
qed

lemma import_files_add:
  "importFromCSV b c lines m w = (Ok k, w') \<Longrightarrow>
     0 \<le> k \<and> (0 \<le> m \<longrightarrow> k \<le> m) \<and> user_keys w' = user_keys w @ replicate (nat k) (c, None)"
  "importFromJSON b c users m w = (Ok k, w') \<Longrightarrow>
     0 \<le> k \<and> (0 \<le> m \<longrightarrow> k \<le> m) \<and> user_keys w' = user_keys w @ replicate (nat k) (c, None)"
  using import_loop_adds [of b c m _ 0 w k w']
  by (auto simp: importFromCSV_def importFromJSON_def failE_Ok split: list.splits option.splits)

lemma reply_JSON [simp]:
  "wl_handleError e w \<noteq> (Ok (JSON st x), w')" "api_BadRequest d msg w \<noteq> (Ok (JSON st x), w')"
  "api_Forbidden d msg w \<noteq> (Ok (JSON st x), w')" "api_Unauthorized msg w \<noteq> (Ok (JSON st x), w')"
  by (auto simp: wl_handleError_def api_BadRequest_def api_Forbidden_def api_Unauthorized_def api_NotFound_def
      api_Conflict_def api_InternalError_def respond_def retE_def Let_def split: if_splits)

lemma run_import_adds:
  assumes "run_import csv js b c fmt file m w = (Ok (JSON st resp), w')"
  shows "0 \<le> ir_ImportedCount resp \<and> (0 \<le> m \<longrightarrow> ir_ImportedCount resp \<le> m) \<and>
    user_keys w' = user_keys w @ replicate (nat (ir_ImportedCount resp)) (c, None)"
proof -
  have k: "user_keys (w\<lparr>w_fresh := n\<rparr>) = user_keys w" for n by (simp add: user_keys_def)
  have *: "\<exists>k. imp (w\<lparr>w_fresh := Suc (w_fresh w)\<rparr>) = (Ok k, w') \<and> ir_ImportedCount resp = k"
    if "tryE imp wl_handleError (\<lambda>k. retE (JSON 202 \<lparr>ir_JobID = j, ir_Message = msg k,
          ir_Status = st', ir_ImportedCount = k\<rparr>)) (w\<lparr>w_fresh := Suc (w_fresh w)\<rparr>) = (Ok (JSON st resp), w')"
    for imp j msg st'
    using that by (auto simp: tryE_def retE_def split: prod.splits result.splits)
  show ?thesis
    using assms import_files_add [where w = "w\<lparr>w_fresh := Suc (w_fresh w)\<rparr>"] k
    unfolding run_import_def uuid_New_def bindE_def
    by (auto simp: tryE_def retE_def Let_def split: if_splits prod.splits result.splits)
qed

lemma CheckLeadsLimit_Ok:
  assumes "CheckLeadsLimit a c 0 w = (Ok (r, e), w')" "no_faults w" "account_tier a w = Some ti"
    "limit_of (st_Limits ti) ''leads'' = Some lmt"
  shows "cl_Limit r = Some lmt" "cl_CanAdd r = max 0 (wrap64 (lmt - waitlist_count c (\<lambda>u. True) w))" "tick w w'"
proof -
  from assms(1) obtain n w1 l where
    1: "store_CountWaitlistUsersByCampaign c w = (Ok n, w1)" and
    2: "GetLimitByAccountID a ''leads'' w1 = (Ok l, w')" and
    r: "r = fst (leads_check n l 0)"
    unfolding CheckLeadsLimit_def by (auto elim!: bindE_OkE simp: retE_Ok Let_def)
  have t1: "tick w w1" and n: "n = waitlist_count c (\<lambda>u. True) w"
    using 1 tick_ticked
    by (auto simp: store_CountWaitlistUsersByCampaign_def ok_simps users_where_def waitlist_count_def ticked_def
        conj_commute)
  have "no_faults w1" "account_tier a w1 = Some ti" using tick_users [OF t1] assms(2,3) by simp_all
  from GetLimit_run [OF this(2,1), of "''leads''"] 2
  have "l = Some lmt" "tick w1 w'" using assms(4) by (metis prod.inject result.inject(1))+
  then show "cl_Limit r = Some lmt" "cl_CanAdd r = max 0 (wrap64 (lmt - waitlist_count c (\<lambda>u. True) w))" "tick w w'"
    using r n tick_trans [OF t1] by (auto simp: leads_check_def Let_def)
qed

text \<open>C33: An import of a file, CSV or JSON, that is answered with success stores exactly the number
  of users it reports, all in the campaign of the path, and never takes the campaign over the leads
  limit of the account's tier.\<close>

theorem import_within_leads_limit:
  assumes "HandleImportUsers csv json b c file w = (Ok (JSON st resp), w')" "no_faults w"
    "gc_Get c ''Account-ID'' = Some a" "w_uuid_Parse w a = Some accountID"
    "w_uuid_Parse w (gc_Param c ''campaign_id'') = Some campaignID"
    "account_tier accountID w = Some ti" "limit_of (st_Limits ti) ''leads'' = Some lmt"
    "0 \<le> lmt" "lmt < 2 ^ 63" "waitlist_count campaignID (\<lambda>u. True) w \<le> 2 ^ 63"
  shows "waitlist_count campaignID (\<lambda>u. True) w' =
      waitlist_count campaignID (\<lambda>u. True) w + ir_ImportedCount resp \<and>
    waitlist_count campaignID (\<lambda>u. True) w' \<le> max lmt (waitlist_count campaignID (\<lambda>u. True) w) \<and>
    (\<exists>ks. user_keys w' = user_keys w @ ks \<and> set ks \<subseteq> {(campaignID, None)})"
proof -
  let ?n = "waitlist_count campaignID (\<lambda>u. True) w"
  from assms(1) obtain w1 w2 r e txt1 m where
    1: "VerifyCampaignOwnership accountID campaignID w = (Ok (), w1)" and
    2: "CheckLeadsLimit accountID campaignID 0 w1 = (Ok (r, e), w2)" and
    m: "m = (if cl_Limit r \<noteq> None then cl_CanAdd r else -1)" and
    3: "run_import csv json b campaignID (gc_DefaultPostForm c ''format'' ''csv'') txt1 m w2 = (Ok (JSON st resp), w')"
    using assms(3-5)
    by (auto simp: HandleImportUsers_def api_account_def api_campaign_def api_parse_id_def tryE_def bindE_def getE_def
        split: prod.splits result.splits option.splits if_splits)
  have t1: "tick w w1" using verifyCampaignAccess_Ok(2) [OF 1 [unfolded VerifyCampaignOwnership_def]] tick_ticked by simp
  note u1 = tick_users [OF t1]
  have n1: "waitlist_count campaignID (\<lambda>u. True) w1 = ?n" by (simp add: waitlist_count_def u1(1))
  have "no_faults w1" "account_tier accountID w1 = Some ti" using u1 assms(2,6) by simp_all
  note l = CheckLeadsLimit_Ok [OF 2 this assms(7), unfolded n1]
  have keys: "user_keys w2 = user_keys w"
    by (simp add: user_keys_def tick_users(1) [OF t1] tick_users(1) [OF l(3)])
  have "0 \<le> ?n" by (simp add: waitlist_count_def)
  then have "wrap64 (lmt - ?n) = lmt - ?n" using assms(8-10) by (intro wrap64_id) (simp add: int64_def)
  then have mm: "m = max 0 (lmt - ?n)" using m l(1,2) by simp
  from run_import_adds [OF 3] mm keys
  have r: "0 \<le> ir_ImportedCount resp" "ir_ImportedCount resp \<le> max 0 (lmt - ?n)"
    "user_keys w' = user_keys w @ replicate (nat (ir_ImportedCount resp)) (campaignID, None)" by auto
  have "waitlist_count campaignID (\<lambda>u. True) w' = ?n + ir_ImportedCount resp"
    unfolding waitlist_count_keys r(3) using r(1) by simp
  then show ?thesis using r by auto
qed

definition sample_context :: gin_Context where
  "sample_context = \<lparr>gc_Get = (\<lambda>k. if k = ''Account-ID'' then Some ''1'' else None),
     gc_Param = (\<lambda>k. if k = ''campaign_id'' then ''10'' else ''22''), gc_Query = (\<lambda>k. ''''),
     gc_DefaultQuery = (\<lambda>k d. d), gc_QueryArray = (\<lambda>k. []), gc_URLQuery = [], gc_GetHeader = (\<lambda>k. ''''),
     gc_DefaultPostForm = (\<lambda>k d. ''json''), gc_ClientIP = '''', gc_ParseFloat = (\<lambda>s. None)\<rparr>"

definition parsing :: "world \<Rightarrow> world" where
  "parsing w = w\<lparr>w_uuid_Parse := (\<lambda>s. if s = ''1'' then Some 1 else if s = ''10'' then Some 10
     else if s = ''22'' then Some 22 else None)\<rparr>"

definition sample_upload :: "string \<Rightarrow> SignupRequest list option" where
  "sample_upload s = Some (map (\<lambda>email. \<lparr>sgr_Email = email, sgr_ReferralCode = None, sgr_CustomFields = [],
     sgr_UTMSource = None, sgr_UTMMedium = None, sgr_UTMCampaign = None, sgr_UTMTerm = None,
     sgr_UTMContent = None, sgr_MarketingConsent = False, sgr_TermsAccepted = True, sgr_CaptchaToken = None\<rparr>)
     [''cal@x.io'', ''ANN@X.io''])"

theorem import_within_leads_limit_witness:
  "\<exists>st resp w'. HandleImportUsers (\<lambda>s. []) sample_upload '''' sample_context (Some ''[]'') (parsing sample_world) =
      (Ok (JSON st resp), w') \<and> ir_ImportedCount resp = 1 \<and> waitlist_count 10 (\<lambda>u. True) w' = 3"
proof -
  let ?m = "HandleImportUsers (\<lambda>s. []) sample_upload '''' sample_context (Some ''[]'') (parsing sample_world)"
  have "(case fst ?m of Ok (JSON st resp) \<Rightarrow> ir_ImportedCount resp = 1 | _ \<Rightarrow> False)" by code_simp
  then obtain st resp w' where r: "?m = (Ok (JSON st resp), w')" "ir_ImportedCount resp = 1"
    by (cases ?m) (auto split: result.splits reply.splits)
  have "(case account_tier 1 (parsing sample_world) of Some ti \<Rightarrow> limit_of (st_Limits ti) ''leads'' = Some 200 | None \<Rightarrow> False)"
    by code_simp
  then obtain ti where ti: "account_tier 1 (parsing sample_world) = Some ti" "limit_of (st_Limits ti) ''leads'' = Some 200"
    by (auto split: option.splits)
  have n: "waitlist_count 10 (\<lambda>u. True) (parsing sample_world) = 2" by code_simp
  have "no_faults (parsing sample_world)" by (simp add: no_faults_def parsing_def)
  from import_within_leads_limit [OF r(1) this _ _ _ ti, of "''1''" 10] n r
  show ?thesis by (auto simp: sample_context_def parsing_def)
qed

section \<open>Resending a verification mail\<close>

text \<open>C34: The endpoint that resends a verification mail never answers with success: when the user's
  token has been replaced, the handler reads a timestamp that nobody put into the request's context
  and panics, with the new token stored and the old one lost.\<close>

theorem resend_verification_panics:
  assumes "gc_Get c ''Account-ID'' = Some a" "w_uuid_Parse w a = Some accountID"
    "w_uuid_Parse w (gc_Param c ''campaign_id'') = Some campaignID"
    "w_uuid_Parse w (gc_Param c ''user_id'') = Some userID"
    "ResendVerificationToken accountID campaignID userID w = (Ok token, w')"
  shows "HandleResendVerification c w = (Panic ''interface conversion: interface {} is nil, not int64'', w') \<and>
    (\<exists>u\<in>set (t_waitlist_users w'). wu_ID u = userID \<and> wu_CampaignID u = campaignID \<and> wu_DeletedAt u = None \<and>
      wu_VerificationToken u = Some token)"
proof
  show "HandleResendVerification c w = (Panic ''interface conversion: interface {} is nil, not int64'', w')"
    using assms by (simp add: HandleResendVerification_def api_account_def api_campaign_def wl_user_def
        api_parse_id_def tryE_def bindE_def getE_def assert_int64_def ctx_Value_def panicE_def)
  from assms(5) obtain u w1 w2 w3 where
    1: "campaign_user campaignID userID w1 = (Ok u, w2)" and
    2: "wrapE ''failed to generate verification token'' GenerateVerificationToken w2 = (Ok token, w3)" and
    3: "not_found_as (WL WL_ErrUserNotFound) (store_UpdateVerificationToken userID token) w3 = (Ok (), w')"
    unfolding ResendVerificationToken_def by (auto elim!: bindE_OkE simp: failE_Ok retE_Ok split: if_splits)
  note u = campaign_user_Ok [OF 1]
  have us: "t_waitlist_users w3 = t_waitlist_users w1"
    using draws_users(1) [OF moves_drawsD [OF wrapped_draws(2) 2]] u by (simp add: ticked_def)
  let ?f = "\<lambda>v. v\<lparr>wu_VerificationToken := Some token, wu_VerificationSentAt := Some (w_now w3), wu_UpdatedAt := w_now w3\<rparr>"
  have "t_waitlist_users w' = upd_where (live_user userID) ?f (t_waitlist_users w1)"
    using 3 us by (auto simp: store_UpdateVerificationToken_def not_found_as_Ok ok_simps ticked_def)
  then show "\<exists>u\<in>set (t_waitlist_users w'). wu_ID u = userID \<and> wu_CampaignID u = campaignID \<and> wu_DeletedAt u = None \<and>
      wu_VerificationToken u = Some token"
    using u by (intro bexI [of _ "?f u"]) (auto simp: set_upd_where live_user_def)
qed

theorem resend_verification_panics_witness:
  "\<exists>w'. HandleResendVerification sample_context (parsing (feature_world ''email_verification'')) =
      (Panic ''interface conversion: interface {} is nil, not int64'', w')"
proof -
  let ?w = "parsing (feature_world ''email_verification'')"
  have "is_Ok (fst (ResendVerificationToken 1 10 22 ?w))" by code_simp
  then obtain token w' where "ResendVerificationToken 1 10 22 ?w = (Ok token, w')"
    by (cases "ResendVerificationToken 1 10 22 ?w") (auto elim: is_Ok.elims)
  from resend_verification_panics [OF _ _ _ _ this, of sample_context "''1''"] show ?thesis
    by (auto simp: sample_context_def parsing_def)
qed

end
