(* ===== verification/AuthFacts.thy ===== *)
theory AuthFacts
  imports Auth
begin

text \<open>
  Facts about signing up and logging in: what a signup stores, that the password it was made with
  logs in, that the token admits its user until it expires, what a failing call of Stripe leaves
  behind, and how Google's error answers are taken for users.
\<close>

section \<open>Statements\<close>

definition aw_ticked :: "auth_world \<Rightarrow> auth_world" where
  "aw_ticked s = s\<lparr>aw_world := (aw_world s)\<lparr>w_calls := Suc (w_calls (aw_world s))\<rparr>\<rparr>"

definition aw_fault :: "auth_world \<Rightarrow> string option" where
  "aw_fault s = w_fault (aw_world s) (w_calls (aw_world s))"

definition no_aw_faults :: "auth_world \<Rightarrow> bool" where
  "no_aw_faults s \<longleftrightarrow> no_faults (aw_world s)"

lemma aw_db_run: "aw_db f s = (case aw_fault s of Some msg \<Rightarrow> (Err (DbErr msg), aw_ticked s) | None \<Rightarrow> f (aw_ticked s))"
  unfolding aw_db_def aw_fault_def aw_ticked_def Let_def by (rule refl)

lemma no_aw_fault [simp]: "no_aw_faults s \<Longrightarrow> aw_fault s = None"
  by (simp add: no_aw_faults_def no_faults_def aw_fault_def)

lemma aw_ticked_simps [simp]:
  "t_users (aw_ticked s) = t_users s" "t_user_auth (aw_ticked s) = t_user_auth s"
  "t_email_auth (aw_ticked s) = t_email_auth s" "t_oauth_auth (aw_ticked s) = t_oauth_auth s"
  "t_products (aw_ticked s) = t_products s" "s_log (aw_ticked s) = s_log s" "s_fault (aw_ticked s) = s_fault s"
  "b_Generate (aw_ticked s) = b_Generate s" "b_Compare (aw_ticked s) = b_Compare s"
  "j_Sign (aw_ticked s) = j_Sign s" "j_Parse (aw_ticked s) = j_Parse s" "g_json (aw_ticked s) = g_json s"
  "t_accounts (aw_world (aw_ticked s)) = t_accounts (aw_world s)"
  "t_subscriptions (aw_world (aw_ticked s)) = t_subscriptions (aw_world s)"
  "t_prices (aw_world (aw_ticked s)) = t_prices (aw_world s)"
  "w_now (aw_world (aw_ticked s)) = w_now (aw_world s)"
  "w_fresh (aw_world (aw_ticked s)) = w_fresh (aw_world s)"
  "w_uuids (aw_world (aw_ticked s)) = w_uuids (aw_world s)"
  "w_uuid_String (aw_world (aw_ticked s)) = w_uuid_String (aw_world s)"
  "no_aw_faults (aw_ticked s) = no_aw_faults s"
  by (simp_all add: aw_ticked_def no_aw_faults_def no_faults_def)

lemma aw_query_Ok [ok_simps]:
  "aw_query q s = (Ok x, s') \<longleftrightarrow> aw_fault s = None \<and> x = q (aw_ticked s) \<and> s' = aw_ticked s"
  by (auto simp: aw_query_def aw_db_run split: option.splits)

lemma aw_get_Ok [ok_simps]:
  "aw_get q s = (Ok x, s') \<longleftrightarrow> aw_fault s = None \<and> (\<exists>xs. q (aw_ticked s) = x # xs) \<and> s' = aw_ticked s"
  by (auto simp: aw_get_def aw_db_run split: option.splits list.splits)

lemma aw_insert_Ok [ok_simps]:
  "aw_insert tbl chk mk s = (Ok x, s') \<longleftrightarrow> aw_fault s = None \<and>
     x = mk (w_uuids (aw_world s) (w_fresh (aw_world s))) (w_now (aw_world s)) \<and> chk (aw_ticked s) x = None \<and>
     s' = snd tbl (\<lambda>rows. rows @ [x])
       ((aw_ticked s)\<lparr>aw_world := (aw_world (aw_ticked s))\<lparr>w_fresh := Suc (w_fresh (aw_world s))\<rparr>\<rparr>)"
  by (auto simp: aw_insert_def aw_db_run Let_def split: option.splits)

lemma aw_insert_row_Ok [ok_simps]:
  "aw_insert_row tbl chk r s = (Ok x, s') \<longleftrightarrow> aw_fault s = None \<and> x = r \<and> chk (aw_ticked s) r = None \<and>
     s' = snd tbl (\<lambda>rows. rows @ [r]) (aw_ticked s)"
  by (auto simp: aw_insert_row_def aw_db_run split: option.splits)

lemma aw_update_Ok [ok_simps]:
  "aw_update tbl chk P f s = (Ok n, s') \<longleftrightarrow> aw_fault s = None \<and>
     chk (aw_ticked s) (upd_where P (f (aw_ticked s)) (fst tbl (aw_ticked s))) = None \<and>
     n = int (length (filter P (fst tbl (aw_ticked s)))) \<and>
     s' = snd tbl (\<lambda>_. upd_where P (f (aw_ticked s)) (fst tbl (aw_ticked s))) (aw_ticked s)"
  by (auto simp: aw_update_def aw_db_run Let_def split: option.splits)

lemma stripe_Ok [ok_simps]:
  "stripe call ans s = (Ok x, s') \<longleftrightarrow> s_fault s (length (s_log s)) = None \<and> x = ans s (length (s_log s)) \<and>
     s' = s\<lparr>s_log := s_log s @ [call]\<rparr>"
  by (auto simp: stripe_def Let_def split: option.splits)

lemma failing_Ok [ok_simps]:
  "au_failing ae m s = (Ok x, s') \<longleftrightarrow> m s = (Ok x, s')" "failing be m s = (Ok x, s') \<longleftrightarrow> m s = (Ok x, s')"
  "failing_new msg m s = (Ok x, s') \<longleftrightarrow> m s = (Ok x, s')"
  by (auto simp: au_failing_def failing_def failing_new_def ok_simps)

lemma aw_transaction_Ok [ok_simps]:
  "aw_transaction m s = (Ok x, s') \<longleftrightarrow> (\<exists>s1. aw_fault s = None \<and> m (aw_ticked s) = (Ok x, s1) \<and>
     aw_fault s1 = None \<and> s' = aw_ticked s1)"
  by (auto simp: aw_transaction_def ok_simps bindE_def tryE_def failE_def wrapE_def aw_query_def aw_db_run retE_def
      split: option.splits prod.splits result.splits)

section \<open>What a signup stores\<close>

text \<open>The rows of one new user with a credential and an account.\<close>

definition user_added :: "auth_world \<Rightarrow> auth_world \<Rightarrow> user_row \<Rightarrow> UserAuth \<Rightarrow> Account \<Rightarrow> bool" where
  "user_added s s' u a acc \<longleftrightarrow>
     t_users s' = t_users s @ [u] \<and> t_user_auth s' = t_user_auth s @ [a] \<and>
     t_accounts (aw_world s') = t_accounts (aw_world s) @ [acc] \<and>
     us_ID u \<notin> us_ID ` set (t_users s) \<and> ua_ID a \<notin> ua_ID ` set (t_user_auth s) \<and>
     ac_ID acc \<notin> ac_ID ` set (t_accounts (aw_world s)) \<and>
     ua_UserID a = us_ID u \<and> ac_OwnerUserID acc = us_ID u \<and> ac_DeletedAt acc = None \<and>
     us_StripeCustomerID u = None"

text \<open>The environment that no statement changes.\<close>

definition auth_env where
  "auth_env s = (w_fault (aw_world s), w_now (aw_world s), w_uuid_String (aw_world s), b_Generate s, b_Compare s,
     j_Sign s, j_Parse s, s_fault s)"

lemma CreateUserOnEmailSignup_Ok:
  assumes "CreateUserOnEmailSignup fn sn email h s = (Ok user, s')"
  shows "\<exists>u a acc. user_added s s' u a acc \<and> us_ID user = us_ID u \<and> us_FirstName u = fn \<and> us_LastName u = sn \<and>
      us_FirstName user = fn \<and> us_LastName user = sn \<and> ua_AuthType a = ''email'' \<and>
      t_email_auth s' = t_email_auth s @ [\<lparr>ea_Email = email, ea_HashedPassword = h, ea_AuthID = ua_ID a\<rparr>] \<and>
      t_oauth_auth s' = t_oauth_auth s" (is "\<exists>u a acc. ?P u a acc")
    and "auth_env s' = auth_env s" "s_log s' = s_log s"
proof -
  from assms obtain s1 s2 s3 s4 u a e acc where
    1: "insert_user fn sn (aw_ticked s) = (Ok u, s1)" and
    2: "insert_user_auth (us_ID u) ''email'' s1 = (Ok a, s2)" and
    3: "aw_insert_row email_auth_tbl email_auth_check
        \<lparr>ea_Email = email, ea_HashedPassword = h, ea_AuthID = ua_ID a\<rparr> s2 = (Ok e, s3)" and
    4: "insert_account fn sn (us_ID u) s3 = (Ok acc, s4)" and
    5: "user = user_of u" "s' = aw_ticked s4"
    by (auto simp: CreateUserOnEmailSignup_def ok_simps)
  have c1: "user_check (aw_ticked (aw_ticked s)) u = None" and u: "us_FirstName u = fn" "us_LastName u = sn" "us_StripeCustomerID u = None"
    using 1 by (auto simp: insert_user_def ok_simps)
  have s1: "t_users s1 = t_users s @ [u]" "t_user_auth s1 = t_user_auth s" "t_email_auth s1 = t_email_auth s"
      "t_oauth_auth s1 = t_oauth_auth s" "t_accounts (aw_world s1) = t_accounts (aw_world s)"
      "auth_env s1 = auth_env s" "s_log s1 = s_log s"
    using 1 by (auto simp: insert_user_def ok_simps auth_env_def aw_ticked_def)
  have c2: "user_auth_check (aw_ticked s1) a = None" and a: "ua_UserID a = us_ID u" "ua_AuthType a = ''email''"
    using 2 by (auto simp: insert_user_auth_def ok_simps)
  have s2: "t_users s2 = t_users s1" "t_user_auth s2 = t_user_auth s1 @ [a]" "t_email_auth s2 = t_email_auth s1"
      "t_oauth_auth s2 = t_oauth_auth s1" "t_accounts (aw_world s2) = t_accounts (aw_world s1)"
      "auth_env s2 = auth_env s1" "s_log s2 = s_log s1"
    using 2 by (auto simp: insert_user_auth_def ok_simps auth_env_def aw_ticked_def)
  have s3: "t_users s3 = t_users s2" "t_user_auth s3 = t_user_auth s2"
      "t_email_auth s3 = t_email_auth s2 @ [\<lparr>ea_Email = email, ea_HashedPassword = h, ea_AuthID = ua_ID a\<rparr>]"
      "t_oauth_auth s3 = t_oauth_auth s2" "t_accounts (aw_world s3) = t_accounts (aw_world s2)"
      "auth_env s3 = auth_env s2" "s_log s3 = s_log s2"
    using 3 by (auto simp: ok_simps auth_env_def aw_ticked_def)
  have c4: "account_check (aw_ticked s3) acc = None" and acc: "ac_OwnerUserID acc = us_ID u" "ac_DeletedAt acc = None"
    using 4 by (auto simp: insert_account_def new_account_def ok_simps)
  have s4: "t_users s4 = t_users s3" "t_user_auth s4 = t_user_auth s3" "t_email_auth s4 = t_email_auth s3"
      "t_oauth_auth s4 = t_oauth_auth s3" "t_accounts (aw_world s4) = t_accounts (aw_world s3) @ [acc]"
      "auth_env s4 = auth_env s3" "s_log s4 = s_log s3"
    using 4 by (auto simp: insert_account_def ok_simps auth_env_def aw_ticked_def of_world_def)
  show "auth_env s' = auth_env s" "s_log s' = s_log s"
    using s1(6,7) s2(6,7) s3(6,7) s4(6,7) by (simp_all add: 5 auth_env_def aw_ticked_def)
  have "us_ID u \<notin> us_ID ` set (t_users s)" "ua_ID a \<notin> ua_ID ` set (t_user_auth s)"
      "ac_ID acc \<notin> ac_ID ` set (t_accounts (aw_world s))"
    using c1 c2 c4 s1 s2 s3 by (auto simp: user_check_def user_auth_check_def account_check_def split: if_splits)
  then have "?P u a acc"
    using s1 s2 s3 s4 u a acc by (simp add: user_added_def 5 user_of_def)
  then show "\<exists>u a acc. ?P u a acc" by blast
qed

definition email_taken :: "auth_world \<Rightarrow> string \<Rightarrow> bool" where
  "email_taken s email \<longleftrightarrow>
     (\<exists>r\<in>set (t_email_auth s). ea_Email r = email) \<or> (\<exists>r\<in>set (t_oauth_auth s). oa_Email r = email)"

lemma CheckIfEmailExists_Ok [ok_simps]:
  "store_CheckIfEmailExists email s = (Ok b, s') \<longleftrightarrow> aw_fault s = None \<and> aw_fault (aw_ticked s) = None \<and>
     b = email_taken s email \<and> s' = aw_ticked (aw_ticked s)"
  by (auto simp: store_CheckIfEmailExists_def ok_simps email_taken_def)

lemma auth_envD:
  assumes "auth_env s' = auth_env s"
  shows "no_aw_faults s' = no_aw_faults s" "w_now (aw_world s') = w_now (aw_world s)"
    "w_uuid_String (aw_world s') = w_uuid_String (aw_world s)" "b_Compare s' = b_Compare s" "j_Sign s' = j_Sign s"
    "b_Generate s' = b_Generate s" "s_fault s' = s_fault s"
  using assms by (simp_all add: auth_env_def no_aw_faults_def no_faults_def)

lemma auth_env_ticked [simp]: "auth_env (aw_ticked s) = auth_env s"
  by (simp add: auth_env_def aw_ticked_def)

text \<open>The statements and calls after the transaction.\<close>

definition kept_by_billing where
  "kept_by_billing s = (auth_env s, t_email_auth s, t_oauth_auth s, t_user_auth s, t_accounts (aw_world s))"

lemma billing_moves:
  "moves (frame kept_by_billing) (aw_db (\<lambda>s. (g s, s)))"
  "moves (frame kept_by_billing) (stripe call ans)"
  "moves (frame kept_by_billing) (aw_update users_tbl chk P f)"
  by (auto simp: moves_def frame_def aw_update_def aw_db_run stripe_def kept_by_billing_def auth_env_def aw_ticked_def
      Let_def split: option.splits)

lemma aw_get_moves: "moves (frame kept_by_billing) (aw_get q)"
proof -
  have "aw_get q = aw_db (\<lambda>s. (case q s of [] \<Rightarrow> Err ErrNoRows | r # rs \<Rightarrow> Ok r, s))"
    unfolding aw_get_def by (rule arg_cong [where f = aw_db]) (auto split: list.splits)
  then show ?thesis using billing_moves(1) by simp
qed

lemma new_customer_moves: "moves (frame kept_by_billing) (new_customer ae i email)"
proof -
  have f: "moves (frame kept_by_billing) (au_failing ae m)" "moves (frame kept_by_billing) (failing be m)"
    if "moves (frame kept_by_billing) m" for ae be and m :: "(auth_world, 'a) go"
    unfolding au_failing_def failing_def by (intro frame.moves_combinators that)+
  show ?thesis
    unfolding new_customer_def CreateStripeCustomer_def UpdateStripeCustomerIDByUserID_def CreateFreeSubscription_def
      GetFreePriceStripeID_def
    by (intro frame.moves_combinators f affected_or_frame row_or_frame billing_moves aw_get_moves)
qed

lemma new_customer_users:
  assumes "new_customer ae i email s = (Ok x, s')"
  shows "\<exists>cust. t_users s' = upd_where (\<lambda>u. us_ID u = i) (\<lambda>u. u\<lparr>us_StripeCustomerID := Some cust\<rparr>) (t_users s)"
  using assms
  by (auto simp: new_customer_def CreateStripeCustomer_def UpdateStripeCustomerIDByUserID_def CreateFreeSubscription_def
      GetFreePriceStripeID_def ok_simps)

lemma bcrypt_Generate_Ok [ok_simps]:
  "bcrypt_Generate pw s = (Ok h, s') \<longleftrightarrow> b_Generate s (w_calls (aw_world s)) pw = Some h \<and> s' = s"
  by (auto simp: bcrypt_Generate_def split: option.splits)

text \<open>The rows after a successful signup: those of the new user, now with a customer id.\<close>

lemma Signup_Ok:
  assumes "Signup fn sn email pw s = (Ok r, s')"
  shows "\<exists>u a acc n h cust s2. user_added s s2 u a acc \<and> us_FirstName u = fn \<and> us_LastName u = sn \<and>
      ua_AuthType a = ''email'' \<and> b_Generate s n pw = Some h \<and> \<not> email_taken s email \<and>
      t_email_auth s' = t_email_auth s @ [\<lparr>ea_Email = email, ea_HashedPassword = h, ea_AuthID = ua_ID a\<rparr>] \<and>
      t_oauth_auth s' = t_oauth_auth s \<and> t_user_auth s' = t_user_auth s2 \<and>
      t_accounts (aw_world s') = t_accounts (aw_world s2) \<and> auth_env s' = auth_env s \<and>
      t_users s' = upd_where (\<lambda>v. us_ID v = us_ID u) (\<lambda>v. v\<lparr>us_StripeCustomerID := Some cust\<rparr>) (t_users s2)"
proof -
  let ?s = "aw_ticked (aw_ticked s)"
  from assms obtain h user s2 x where
    0: "\<not> email_taken s email" "b_Generate s (w_calls (aw_world ?s)) pw = Some h" and
    1: "CreateUserOnEmailSignup fn sn email h ?s = (Ok user, s2)" and
    2: "new_customer AU_ErrFailedSignup (us_ID user) email s2 = (Ok x, s')"
    by (auto simp: Signup_def ok_simps split: if_splits)
  from CreateUserOnEmailSignup_Ok(1) [OF 1] obtain u a acc where
    c: "user_added ?s s2 u a acc" "us_ID user = us_ID u" "us_FirstName u = fn" "us_LastName u = sn"
      "ua_AuthType a = ''email''"
      "t_email_auth s2 = t_email_auth ?s @ [\<lparr>ea_Email = email, ea_HashedPassword = h, ea_AuthID = ua_ID a\<rparr>]"
      "t_oauth_auth s2 = t_oauth_auth ?s" by blast
  have k: "kept_by_billing s' = kept_by_billing s2" by (rule moves_frameD [OF new_customer_moves 2])
  have e: "auth_env s' = auth_env s"
    using k CreateUserOnEmailSignup_Ok(2) [OF 1] by (simp add: kept_by_billing_def)
  obtain cust where "t_users s' = upd_where (\<lambda>v. us_ID v = us_ID u) (\<lambda>v. v\<lparr>us_StripeCustomerID := Some cust\<rparr>) (t_users s2)"
    using new_customer_users [OF 2] c(2) by auto
  moreover have "user_added s s2 u a acc" using c(1) by (simp add: user_added_def)
  ultimately show ?thesis
    using c(2-) 0 e k unfolding kept_by_billing_def aw_ticked_simps
    by (intro exI [of _ u] exI [of _ a] exI [of _ acc] exI [of _ "w_calls (aw_world ?s)"] exI [of _ h] exI [of _ cust]
        exI [of _ s2]) simp
qed

section \<open>Logging in\<close>

text \<open>What the join finds for a new user: one row.\<close>

lemma authenticated_new_user:
  assumes "user_added s s2 u a acc" "t_user_auth s' = t_user_auth s2" "t_accounts (aw_world s') = t_accounts (aw_world s2)"
    "t_users s' = upd_where (\<lambda>v. us_ID v = us_ID u) (\<lambda>v. v\<lparr>us_StripeCustomerID := Some cust\<rparr>) (t_users s2)"
    "\<forall>b\<in>set (t_accounts (aw_world s)). ac_OwnerUserID b \<in> us_ID ` set (t_users s)"
  shows "authenticated_users s' (ua_ID a) = [\<lparr>ad_UserID = us_ID u, ad_AccountID = ac_ID acc,
     ad_FirstName = us_FirstName u, ad_LastName = us_LastName u, ad_AuthID = ua_ID a, ad_AuthType = ua_AuthType a\<rparr>]"
proof -
  note n = assms(1) [unfolded user_added_def]
  have "filter (\<lambda>b. ac_OwnerUserID b = us_ID u \<and> ac_DeletedAt b = None) (t_accounts (aw_world s)) = []"
  proof -
    have "\<forall>b\<in>set (t_accounts (aw_world s)). ac_OwnerUserID b \<noteq> us_ID u" using assms(5) n by metis
    then show ?thesis by (simp add: filter_empty_conv)
  qed
  then have acc: "account_ids s' (us_ID u) = [ac_ID acc]"
    using n by (simp add: account_ids_def assms(3))
  have auth: "filter (\<lambda>b. ua_UserID b = i \<and> ua_ID b = ua_ID a) (t_user_auth s') = (if i = us_ID u then [a] else [])" for i
  proof -
    have "filter (\<lambda>b. ua_UserID b = i \<and> ua_ID b = ua_ID a) (t_user_auth s) = []"
    proof -
      have "\<forall>b\<in>set (t_user_auth s). ua_ID b \<noteq> ua_ID a" using n by (metis image_eqI)
      then show ?thesis by (simp add: filter_empty_conv)
    qed
    then show ?thesis using n by (simp add: assms(2))
  qed
  have users: "t_users s' = t_users s @ [u\<lparr>us_StripeCustomerID := Some cust\<rparr>]"
  proof -
    have "\<forall>v\<in>set (t_users s). us_ID v \<noteq> us_ID u" using n by (metis image_eqI)
    then have "upd_where (\<lambda>v. us_ID v = us_ID u) f (t_users s) = t_users s" for f
      by (intro upd_where_none) auto
    then show ?thesis using n by (simp add: assms(4) upd_where_def)
  qed
  have none: "concat (map (\<lambda>v. concat (map (f v) (filter (\<lambda>b. ua_UserID b = us_ID v \<and> ua_ID b = ua_ID a) (t_user_auth s'))))
      (t_users s)) = []" for f :: "user_row \<Rightarrow> UserAuth \<Rightarrow> AuthenticatedUser list"
  proof -
    have "\<forall>v\<in>set (t_users s). us_ID v \<noteq> us_ID u" using n by (metis image_eqI)
    then show ?thesis unfolding auth by (simp add: concat_eq_Nil_conv)
  qed
  show ?thesis unfolding authenticated_users_def users map_append concat_append none using auth acc by simp
qed

text \<open>C35: The password a user signed up with logs in: the token carries the new user and the account
  that the signup made for it, whatever happened to other rows before; another password, one the
  hash does not belong to, is refused.\<close>

theorem login_after_signup:
  assumes "Signup fn sn email pw s = (Ok r, s')" "no_aw_faults s"
    "\<forall>n h. b_Generate s n pw = Some h \<longrightarrow> b_Compare s h pw"
    "\<forall>m. j_Sign s (ag_JWTSecret cfg) m \<noteq> None"
    "\<forall>b\<in>set (t_accounts (aw_world s)). ac_OwnerUserID b \<in> us_ID ` set (t_users s)"
  shows "(\<exists>tok s'' user. Login cfg email pw s' = (Ok tok, s'') \<and>
      j_Sign s (ag_JWTSecret cfg) (jwt_claims (w_uuid_String (aw_world s)) (w_now (aw_world s)) user) = Some tok \<and>
      ad_UserID user \<notin> us_ID ` set (t_users s) \<and> ad_AccountID user \<notin> ac_ID ` set (t_accounts (aw_world s)) \<and>
      ad_FirstName user = fn \<and> ad_LastName user = sn \<and> ad_AuthType user = ''email'') \<and>
    (\<forall>pw'. (\<forall>n h. b_Generate s n pw = Some h \<longrightarrow> \<not> b_Compare s h pw') \<longrightarrow>
      fst (Login cfg email pw' s') = Err (Sentinel (AU AU_ErrIncorrectPassword)))"
proof -
  from Signup_Ok [OF assms(1)] obtain u a acc n h cust s2 where
    c: "user_added s s2 u a acc" "us_FirstName u = fn" "us_LastName u = sn" "ua_AuthType a = ''email''"
      "b_Generate s n pw = Some h" "\<not> email_taken s email"
      "t_email_auth s' = t_email_auth s @ [\<lparr>ea_Email = email, ea_HashedPassword = h, ea_AuthID = ua_ID a\<rparr>]" and
    same: "t_user_auth s' = t_user_auth s2" "t_accounts (aw_world s') = t_accounts (aw_world s2)" and
    e: "auth_env s' = auth_env s" and
    us: "t_users s' = upd_where (\<lambda>v. us_ID v = us_ID u) (\<lambda>v. v\<lparr>us_StripeCustomerID := Some cust\<rparr>) (t_users s2)"
    by blast
  note env = auth_envD [OF e]
  have nf: "no_aw_faults s'" using env(1) assms(2) by simp
  have taken: "email_taken s' email" by (simp add: email_taken_def c(7))
  have "filter (\<lambda>r. ea_Email r = email) (t_email_auth s) = []"
    using c(6) by (auto simp: filter_empty_conv email_taken_def)
  then have cred: "filter (\<lambda>r. ea_Email r = email) (t_email_auth s') =
      [\<lparr>ea_Email = email, ea_HashedPassword = h, ea_AuthID = ua_ID a\<rparr>]" by (simp add: c(7))
  define user where "user = \<lparr>ad_UserID = us_ID u, ad_AccountID = ac_ID acc,
     ad_FirstName = us_FirstName u, ad_LastName = us_LastName u, ad_AuthID = ua_ID a, ad_AuthType = ua_AuthType a\<rparr>"
  have auth: "authenticated_users s' (ua_ID a) = [user]"
    unfolding user_def by (rule authenticated_new_user [OF c(1) same us assms(5)])
  have authenticated: "authenticated_users (aw_ticked v) i = authenticated_users v i" for v i
    by (simp add: authenticated_users_def account_ids_def)
  obtain tok where tok: "j_Sign s (ag_JWTSecret cfg) (jwt_claims (w_uuid_String (aw_world s)) (w_now (aw_world s)) user) = Some tok"
    using assms(4) by blast
  have login: "Login cfg email p s' = (if b_Compare s h p
      then (Ok tok, aw_ticked (aw_ticked (aw_ticked (aw_ticked s'))))
      else (Err (Sentinel (AU AU_ErrIncorrectPassword)), aw_ticked (aw_ticked (aw_ticked s'))))" for p
    using nf taken cred auth tok env
    by (simp add: Login_def go_defs au_failing_def store_CheckIfEmailExists_def aw_query_def aw_get_def aw_db_run
        GetCredentialsByEmail_def GetUserByAuthID_def generateJWTToken_def authenticated email_taken_def)
  have "ad_UserID user \<notin> us_ID ` set (t_users s) \<and> ad_AccountID user \<notin> ac_ID ` set (t_accounts (aw_world s)) \<and>
      ad_FirstName user = fn \<and> ad_LastName user = sn \<and> ad_AuthType user = ''email''"
    using c by (simp add: user_def user_added_def)
  then show ?thesis using login tok c(5) assms(3) by (metis fst_conv)
qed

definition sample_auth :: auth_world where
  "sample_auth = \<lparr>aw_world = sample_world\<lparr>
       t_prices := [\<lparr>pr_ID = 7, pr_ProductID = 8, pr_StripeID = ''price_free'', pr_Description = ''free'',
         pr_UnitAmount = None, pr_Currency = None, pr_Interval = None, pr_CreatedAt = '''', pr_UpdatedAt = '''',
         pr_DeletedAt = None\<rparr>]\<rparr>,
     t_users = [\<lparr>us_ID = ac_OwnerUserID sample_account, us_FirstName = ''Ann'', us_LastName = ''Lee'', us_StripeCustomerID = None\<rparr>],
     t_user_auth = [], t_email_auth = [], t_oauth_auth = [], t_team_members = [], t_products = [],
     t_payment_methods = [], s_log = [], s_fault = (\<lambda>n. None), s_NewID = (\<lambda>n. ''cus''),
     s_Subscription = (\<lambda>n i. \<lparr>ss_ID = i, ss_CustomerID = None, ss_Items = [], ss_Status = '''',
       ss_CurrentPeriodStart = 0, ss_CurrentPeriodEnd = 0, ss_CancelAt = 0\<rparr>),
     s_Product = (\<lambda>n i. \<lparr>sd_ID = i, sd_Name = '''', sd_Description = ''''\<rparr>),
     s_Checkout = (\<lambda>n. \<lparr>sc_ID = '''', sc_Status = '''', sc_PaymentStatus = '''', sc_ClientSecret = ''''\<rparr>),
     b_Generate = (\<lambda>n p. Some (''#'' @ p)), b_Compare = (\<lambda>h p. h = ''#'' @ p),
     j_Sign = (\<lambda>k m. Some ''token''), j_Parse = (\<lambda>k t s. JwtInvalid),
     g_url_Encode = (\<lambda>q. ''''), g_json = (\<lambda>names body. None), p_uuid_in = (\<lambda>s. None)\<rparr>"

definition sample_cfg :: AuthConfig where
  "sample_cfg = \<lparr>ag_JWTSecret = ''k'', ag_ClientID = '''', ag_ClientSecret = '''', ag_ClientRedirectURL = '''', ag_WebAppHost = ''''\<rparr>"

lemma sample_auth_faults: "no_aw_faults sample_auth"
  by (simp add: no_aw_faults_def no_faults_def sample_auth_def)

theorem login_after_signup_witness:
  "\<exists>r s' tok s''. Signup ''Bob'' ''Ray'' ''bob@x.io'' ''12345678'' sample_auth = (Ok r, s') \<and>
     Login sample_cfg ''bob@x.io'' ''12345678'' s' = (Ok tok, s'') \<and>
     fst (Login sample_cfg ''bob@x.io'' ''00000000'' s') = Err (Sentinel (AU AU_ErrIncorrectPassword))"
proof -
  let ?m = "Signup ''Bob'' ''Ray'' ''bob@x.io'' ''12345678'' sample_auth"
  have "is_Ok (fst ?m)" by code_simp
  then obtain r s' where r: "?m = (Ok r, s')" by (cases ?m) (auto elim: is_Ok.elims)
  have "\<forall>n h. b_Generate sample_auth n ''12345678'' = Some h \<longrightarrow> b_Compare sample_auth h ''12345678''"
    "\<forall>m. j_Sign sample_auth (ag_JWTSecret sample_cfg) m \<noteq> None"
    "\<forall>b\<in>set (t_accounts (aw_world sample_auth)). ac_OwnerUserID b \<in> us_ID ` set (t_users sample_auth)"
    "\<forall>n h. b_Generate sample_auth n ''12345678'' = Some h \<longrightarrow> \<not> b_Compare sample_auth h ''00000000''"
    by (simp_all add: sample_auth_def)
  with login_after_signup [OF r sample_auth_faults this(1-3)] r show ?thesis by blast
qed

section \<open>A signup that fails at Stripe\<close>

lemma aw_transaction_frame:
  assumes "moves (frame f) m" "\<And>s. f (aw_ticked s) = f s" "\<And>s s'. f (rolled_back s s') = f s"
  shows "moves (frame f) (aw_transaction m)"
proof -
  have q: "moves (frame f) (wrapE msg (aw_query (\<lambda>s. ())))" for msg
    by (rule frame.moves_wrapE)
       (auto simp: moves_def frame_def aw_query_def aw_db_run assms(2) split: option.splits)
  let ?b = "bindE m (\<lambda>x. bindE (wrapE ''failed to commit transaction'' (aw_query (\<lambda>s. ()))) (\<lambda>u. retE x))"
  have "moves (frame f) ?b" by (intro frame.moves_combinators assms(1) q)
  then have "f (snd (?b s)) = f s" for s by (simp add: moves_def frame_def)
  then have "moves (frame f) (\<lambda>s. case ?b s of (Ok x, s') \<Rightarrow> (Ok x, s') | (r, s') \<Rightarrow> (r, rolled_back s s'))"
    unfolding moves_def frame_def by (auto simp: assms(3) split: prod.splits result.splits) (metis snd_conv)
  then show ?thesis unfolding aw_transaction_def by (intro frame.moves_bindE q)
qed

lemma before_stripe:
  "moves (frame s_log) (store_CheckIfEmailExists email)" "moves (frame s_log) (bcrypt_Generate pw)"
  "moves (frame s_log) (CreateUserOnEmailSignup fn sn email h)"
proof -
  have db: "moves (frame s_log) (aw_query q)" "moves (frame s_log) (aw_insert users_tbl c1 mk1)"
    "moves (frame s_log) (aw_insert user_auth_tbl c2 mk2)" "moves (frame s_log) (aw_insert_row email_auth_tbl c3 r)"
    "moves (frame s_log) (aw_insert (of_world accounts_tbl) c4 mk4)"
    for q :: "auth_world \<Rightarrow> 'x" and c1 mk1 c2 mk2 c3 r c4 mk4
    by (auto simp: moves_def frame_def aw_query_def aw_insert_def aw_insert_row_def aw_db_run of_world_def Let_def
        split: option.splits)
  show "moves (frame s_log) (store_CheckIfEmailExists email)" "moves (frame s_log) (bcrypt_Generate pw)"
    unfolding store_CheckIfEmailExists_def
    by (intro frame.moves_combinators db) (auto simp: moves_def frame_def bcrypt_Generate_def split: option.splits)
  show "moves (frame s_log) (CreateUserOnEmailSignup fn sn email h)"
    unfolding CreateUserOnEmailSignup_def insert_user_def insert_user_auth_def insert_account_def
    by (intro aw_transaction_frame frame.moves_combinators db) (simp_all add: rolled_back_def)
qed

lemma au_failing_Err: "au_failing ae m s = (Err e, s') \<Longrightarrow> e = Sentinel (AU ae) \<and> (\<exists>e'. m s = (Err e', s'))"
  by (auto simp: au_failing_def tryE_def failE_def retE_def split: prod.splits result.splits)

lemma new_customer_Err: "new_customer ae i email s = (Err e, s') \<Longrightarrow> e = Sentinel (AU ae)"
  by (auto simp: new_customer_def dest!: au_failing_Err elim!: bindE_ErrE)

lemma failing_before_log:
  assumes "bindE (au_failing ae m) k s0 = (Err e, s')" "moves (frame s_log) m" "s_log s0 = l" "s_log s' \<noteq> l"
  shows "\<exists>x s1. m s0 = (Ok x, s1) \<and> s_log s1 = l \<and> k x s1 = (Err e, s')"
  using assms(1)
proof (cases rule: bindE_ErrE)
  case first
  then obtain e' where "m s0 = (Err e', s')" using au_failing_Err by blast
  then show ?thesis using moves_frameD [OF assms(2)] assms(3,4) by metis
next
  case (second x s1)
  then have "m s0 = (Ok x, s1)" by (simp add: failing_Ok)
  then show ?thesis using second(2) moves_frameD [OF assms(2)] assms(3) by metis
qed

text \<open>C36: A signup that fails after the first call of Stripe has already committed the user: the
  credential and the account stay, and every later signup with the address is refused because the
  e-mail exists.\<close>

theorem failed_signup_blocks_email:
  assumes "Signup fn sn email pw s = (Err e, s')" "s_log s' \<noteq> s_log s" "no_aw_faults s"
  shows "e = Sentinel (AU AU_ErrFailedSignup) \<and>
    (\<exists>c. t_email_auth s' = t_email_auth s @ [c] \<and> ea_Email c = email) \<and>
    (\<exists>acc. t_accounts (aw_world s') = t_accounts (aw_world s) @ [acc]) \<and>
    (\<forall>fn' sn' pw'. fst (Signup fn' sn' email pw' s') = Err (Sentinel (AU AU_ErrEmailAlreadyExists)))"
proof -
  obtain b s1 where 1: "store_CheckIfEmailExists email s = (Ok b, s1)" "s_log s1 = s_log s" and
    k1: "(if b then failE (Sentinel (AU AU_ErrEmailAlreadyExists))
     else
       bindE (au_failing AU_ErrFailedSignup (bcrypt_Generate pw)) (\<lambda>hashedPassword.
       bindE (au_failing AU_ErrFailedSignup (CreateUserOnEmailSignup fn sn email hashedPassword)) (\<lambda>user.
       bindE (new_customer AU_ErrFailedSignup (us_ID user) email) (\<lambda>u.
       retE \<lparr>sg_FirstName = us_FirstName user, sg_LastName = us_LastName user, sg_Email = email\<rparr>)))) s1 = (Err e, s')"
    using failing_before_log [OF assms(1) [unfolded Signup_def] before_stripe(1) refl assms(2)] by blast
  have nb: "\<not> b" using k1 assms(2) 1(2) by (auto simp: failE_def)
  obtain h s2 where 2: "bcrypt_Generate pw s1 = (Ok h, s2)" "s_log s2 = s_log s" and
    k2: "bindE (au_failing AU_ErrFailedSignup (CreateUserOnEmailSignup fn sn email h)) (\<lambda>user.
       bindE (new_customer AU_ErrFailedSignup (us_ID user) email) (\<lambda>u.
       retE \<lparr>sg_FirstName = us_FirstName user, sg_LastName = us_LastName user, sg_Email = email\<rparr>)) s2 = (Err e, s')"
    using failing_before_log [OF k1 [simplified nb if_False] before_stripe(2) 1(2) assms(2)] by blast
  obtain user s3 where 3: "CreateUserOnEmailSignup fn sn email h s2 = (Ok user, s3)" and
    k3: "bindE (new_customer AU_ErrFailedSignup (us_ID user) email) (\<lambda>u.
       retE \<lparr>sg_FirstName = us_FirstName user, sg_LastName = us_LastName user, sg_Email = email\<rparr>) s3 = (Err e, s')"
    using failing_before_log [OF k2 before_stripe(3) 2(2) assms(2)] by auto
  have c: "new_customer AU_ErrFailedSignup (us_ID user) email s3 = (Err e, s')"
    using k3 by (auto elim!: bindE_ErrE simp: retE_def)
  have s2: "s2 = aw_ticked (aw_ticked s)" using 1 2 by (simp add: ok_simps)
  from CreateUserOnEmailSignup_Ok(1) [OF 3] obtain u a acc where
    add: "user_added s2 s3 u a acc"
      "t_email_auth s3 = t_email_auth s2 @ [\<lparr>ea_Email = email, ea_HashedPassword = h, ea_AuthID = ua_ID a\<rparr>]" by blast
  have k: "kept_by_billing s' = kept_by_billing s3" by (rule moves_frameD [OF new_customer_moves c])
  have env: "auth_env s' = auth_env s"
    using k CreateUserOnEmailSignup_Ok(2) [OF 3] by (simp add: kept_by_billing_def s2)
  have mail: "t_email_auth s' = t_email_auth s @ [\<lparr>ea_Email = email, ea_HashedPassword = h, ea_AuthID = ua_ID a\<rparr>]"
    using k add(2) by (simp add: kept_by_billing_def s2)
  have accounts: "t_accounts (aw_world s') = t_accounts (aw_world s) @ [acc]"
    using k add(1) by (simp add: kept_by_billing_def s2 user_added_def)
  have "no_aw_faults s'" using auth_envD(1) [OF env] assms(3) by simp
  moreover have "email_taken s' email" by (simp add: email_taken_def mail)
  ultimately have "store_CheckIfEmailExists email s' = (Ok True, aw_ticked (aw_ticked s'))" by (simp add: ok_simps)
  then have "fst (Signup fn' sn' email pw' s') = Err (Sentinel (AU AU_ErrEmailAlreadyExists))" for fn' sn' pw'
    by (simp add: Signup_def au_failing_def go_defs)
  then show ?thesis using new_customer_Err [OF c] mail accounts by auto
qed

theorem failed_signup_blocks_email_witness:
  "\<exists>s'. Signup ''Bob'' ''Ray'' ''bob@x.io'' ''12345678'' (sample_auth\<lparr>s_fault := (\<lambda>n. Some ''timeout'')\<rparr>) =
      (Err (Sentinel (AU AU_ErrFailedSignup)), s') \<and>
    fst (Signup ''Bob'' ''Ray'' ''bob@x.io'' ''12345678'' s') = Err (Sentinel (AU AU_ErrEmailAlreadyExists))"
proof -
  let ?s = "sample_auth\<lparr>s_fault := (\<lambda>n. Some ''timeout'')\<rparr>"
  let ?m = "Signup ''Bob'' ''Ray'' ''bob@x.io'' ''12345678'' ?s"
  have "fst ?m = Err (Sentinel (AU AU_ErrFailedSignup))" "length (s_log (snd ?m)) = 1" by code_simp+
  moreover have "s_log ?s = []" by (simp add: sample_auth_def)
  ultimately obtain s' where r: "?m = (Err (Sentinel (AU AU_ErrFailedSignup)), s')" "s_log s' \<noteq> s_log ?s"
    by (metis list.size(3) prod.collapse zero_neq_one)
  have "no_aw_faults ?s" using sample_auth_faults by (simp add: no_aw_faults_def)
  from failed_signup_blocks_email [OF r this] r(1) show ?thesis by blast
qed


section \<open>The token\<close>

lemma Login_Ok:
  assumes "Login cfg email pw s = (Ok tok, s')"
  shows "\<exists>c user. c \<in> set (t_email_auth s) \<and> ea_Email c = email \<and> b_Compare s (ea_HashedPassword c) pw \<and>
    user \<in> set (authenticated_users s (ea_AuthID c)) \<and>
    j_Sign s (ag_JWTSecret cfg) (jwt_claims (w_uuid_String (aw_world s)) (w_now (aw_world s)) user) = Some tok"
proof -
  have authenticated: "authenticated_users (aw_ticked v) i = authenticated_users v i" for v i
    by (simp add: authenticated_users_def account_ids_def)
  have token: "generateJWTToken cfg user v = (Ok tok, v') \<longleftrightarrow> v' = v \<and>
      j_Sign v (ag_JWTSecret cfg) (jwt_claims (w_uuid_String (aw_world v)) (w_now (aw_world v)) user) = Some tok" for user v v'
    by (auto simp: generateJWTToken_def failE_def retE_def split: option.splits)
  from assms obtain c cs user us where
    "filter (\<lambda>r. ea_Email r = email) (t_email_auth s) = c # cs" "b_Compare s (ea_HashedPassword c) pw"
    "authenticated_users s (ea_AuthID c) = user # us"
    "j_Sign s (ag_JWTSecret cfg) (jwt_claims (w_uuid_String (aw_world s)) (w_now (aw_world s)) user) = Some tok"
    by (auto simp: Login_def GetCredentialsByEmail_def GetUserByAuthID_def ok_simps token authenticated split: if_splits)
  moreover from this(1) have "c \<in> set (t_email_auth s) \<and> ea_Email c = email"
    by (metis (mono_tags, lifting) list.set_intros(1) mem_Collect_eq set_filter)
  ultimately show ?thesis by (intro exI [of _ c] exI [of _ user]) simp
qed

text \<open>C37: The token of a login admits its user for the 24 hours it is made for: in every later state
  the middleware hands the request on with the ids of that user and of the user's account, whatever
  has become of them in the database, until the second of the expiry; from then on it answers 401.\<close>

theorem token_admits_until_expiry:
  assumes "Login cfg email pw s = (Ok tok, s')" "tok \<noteq> ''''"
    "\<forall>m t e. j_Sign s (ag_JWTSecret cfg) m = Some tok \<longrightarrow> claim_date m ''exp'' = Some e \<longrightarrow>
      j_Parse s (ag_JWTSecret cfg) t tok = (if t < unix_time e then JwtClaims m else JwtExpired)"
  shows "\<exists>cred user. cred \<in> set (t_email_auth s) \<and> ea_Email cred = email \<and>
    b_Compare s (ea_HashedPassword cred) pw \<and> user \<in> set (authenticated_users s (ea_AuthID cred)) \<and>
    (\<forall>v. j_Parse v = j_Parse s \<longrightarrow> HandleJWTMiddleware cfg (Some tok) next_handler c v =
       (if w_now (aw_world v) < unix_time ((w_now (aw_world s) + 24 * 3600 * 1000000000) div 1000000000)
        then next_handler (c\<lparr>gc_Get := (gc_Get c)
          (''User-ID'' \<mapsto> w_uuid_String (aw_world s) (ad_UserID user),
           ''Account-ID'' \<mapsto> w_uuid_String (aw_world s) (ad_AccountID user))\<rparr>) v
        else api_Unauthorized ''Invalid or expired token'' v))"
proof -
  from Login_Ok [OF assms(1)] obtain cred user where
    l: "cred \<in> set (t_email_auth s)" "ea_Email cred = email" "b_Compare s (ea_HashedPassword cred) pw"
      "user \<in> set (authenticated_users s (ea_AuthID cred))" and
    sign: "j_Sign s (ag_JWTSecret cfg) (jwt_claims (w_uuid_String (aw_world s)) (w_now (aw_world s)) user) = Some tok"
    by blast
  let ?m = "jwt_claims (w_uuid_String (aw_world s)) (w_now (aw_world s)) user"
  let ?e = "(w_now (aw_world s) + 24 * 3600 * 1000000000) div 1000000000"
  have claims: "claim_date ?m ''exp'' = Some ?e"
    "bc_Subject (base_claims ?m) = w_uuid_String (aw_world s) (ad_UserID user)"
    "bc_AccountID (base_claims ?m) = w_uuid_String (aw_world s) (ad_AccountID user)"
    by (simp_all add: claim_date_def jwt_claims_def base_claims_def claim_string_def)
  have parse: "j_Parse s (ag_JWTSecret cfg) t tok = (if t < unix_time ?e then JwtClaims ?m else JwtExpired)" for t
    using assms(3) sign claims(1) by blast
  have "HandleJWTMiddleware cfg (Some tok) next_handler c v =
      (if w_now (aw_world v) < unix_time ?e
       then next_handler (c\<lparr>gc_Get := (gc_Get c)
          (''User-ID'' \<mapsto> w_uuid_String (aw_world s) (ad_UserID user),
           ''Account-ID'' \<mapsto> w_uuid_String (aw_world s) (ad_AccountID user))\<rparr>) v
       else api_Unauthorized ''Invalid or expired token'' v)" if "j_Parse v = j_Parse s" for v
    using assms(2) that by (simp add: HandleJWTMiddleware_def ValidateJWTToken_def parse go_defs claims)
  then show ?thesis using l by blast
qed

definition sample_claims :: "(string \<times> jval) list" where
  "sample_claims = jwt_claims (w_uuid_String sample_world) (w_now sample_world)
     \<lparr>ad_UserID = ac_OwnerUserID sample_account, ad_AccountID = ac_ID sample_account, ad_FirstName = ''Ann'',
      ad_LastName = ''Lee'', ad_AuthID = 5, ad_AuthType = ''email''\<rparr>"

definition sample_member :: auth_world where
  "sample_member = sample_auth\<lparr>
     t_user_auth := [\<lparr>ua_ID = 5, ua_UserID = ac_OwnerUserID sample_account, ua_AuthType = ''email''\<rparr>],
     t_email_auth := [\<lparr>ea_Email = ''ann@x.io'', ea_HashedPassword = ''#12345678'', ea_AuthID = 5\<rparr>],
     j_Sign := (\<lambda>k m. if m = sample_claims then Some ''token'' else None),
     j_Parse := (\<lambda>k t tok. case claim_date sample_claims ''exp'' of
        Some e \<Rightarrow> if t < unix_time e then JwtClaims sample_claims else JwtExpired | None \<Rightarrow> JwtInvalid)\<rparr>"

definition sample_gin :: gin_Context where
  "sample_gin = \<lparr>gc_Get = (\<lambda>k. None), gc_Param = (\<lambda>k. []), gc_Query = (\<lambda>k. []),
     gc_DefaultQuery = (\<lambda>k v. v), gc_QueryArray = (\<lambda>k. []), gc_URLQuery = [], gc_GetHeader = (\<lambda>k. []),
     gc_DefaultPostForm = (\<lambda>k v. v), gc_ClientIP = [], gc_ParseFloat = (\<lambda>t. None)\<rparr>"

definition echo_user :: "gin_Context \<Rightarrow> (auth_world, string option reply) go" where
  "echo_user c = retE (JSON 200 (gc_Get c ''User-ID''))"

theorem token_admits_until_expiry_witness:
  "\<exists>user. \<forall>v. j_Parse v = j_Parse sample_member \<and> w_now (aw_world v) = w_now sample_world \<longrightarrow>
     HandleJWTMiddleware sample_cfg (Some ''token'') echo_user sample_gin v = (Ok (JSON 200 (Some user)), v)"
proof -
  let ?m = "Login sample_cfg ''ann@x.io'' ''12345678'' sample_member"
  let ?str = "w_uuid_String (aw_world sample_member)"
  have "fst ?m = Ok ''token''" by code_simp
  then obtain s' where r: "?m = (Ok ''token'', s')" by (cases ?m) simp
  have law: "\<forall>m t e. j_Sign sample_member (ag_JWTSecret sample_cfg) m = Some ''token'' \<longrightarrow> claim_date m ''exp'' = Some e \<longrightarrow>
      j_Parse sample_member (ag_JWTSecret sample_cfg) t ''token'' = (if t < unix_time e then JwtClaims m else JwtExpired)"
    by (simp add: sample_member_def)
  have now: "w_now (aw_world sample_member) = w_now sample_world" by (simp add: sample_member_def sample_auth_def)
  have later: "w_now sample_world < unix_time ((w_now sample_world + 24 * 3600 * 1000000000) div 1000000000)" by code_simp
  have nonempty: "''token'' \<noteq> ''''" by simp
  from token_admits_until_expiry [OF r nonempty law, of echo_user sample_gin]
  show ?thesis
  proof (elim exE conjE)
    fix cred user assume u: "\<forall>v. j_Parse v = j_Parse sample_member \<longrightarrow>
      HandleJWTMiddleware sample_cfg (Some ''token'') echo_user sample_gin v =
      (if w_now (aw_world v) < unix_time ((w_now (aw_world sample_member) + 24 * 3600 * 1000000000) div 1000000000)
       then echo_user (sample_gin\<lparr>gc_Get := (gc_Get sample_gin)(''User-ID'' \<mapsto> ?str (ad_UserID user),
           ''Account-ID'' \<mapsto> ?str (ad_AccountID user))\<rparr>) v
       else api_Unauthorized ''Invalid or expired token'' v)"
    have "HandleJWTMiddleware sample_cfg (Some ''token'') echo_user sample_gin v =
        (Ok (JSON 200 (Some (?str (ad_UserID user)))), v)"
      if "j_Parse v = j_Parse sample_member" "w_now (aw_world v) = w_now sample_world" for v
    proof -
      have "w_now (aw_world v) < unix_time ((w_now (aw_world sample_member) + 24 * 3600 * 1000000000) div 1000000000)"
        unfolding that(2) now by (rule later)
      then have "HandleJWTMiddleware sample_cfg (Some ''token'') echo_user sample_gin v =
          echo_user (sample_gin\<lparr>gc_Get := (gc_Get sample_gin)(''User-ID'' \<mapsto> ?str (ad_UserID user),
             ''Account-ID'' \<mapsto> ?str (ad_AccountID user))\<rparr>) v"
        using u [rule_format, OF that(1)] by (simp only: if_True)
      then show ?thesis unfolding echo_user_def retE_def by (simp only: gin_Context.simps fun_upd_def char.inject) simp
    qed
    then show ?thesis by blast
  qed
qed

section \<open>Google\<close>

definition google_answered :: "http_request \<Rightarrow> auth_world \<Rightarrow> auth_world" where
  "google_answered req s = s\<lparr>aw_world := (aw_world s)\<lparr>w_calls := Suc (w_calls (aw_world s)),
     w_http_log := w_http_log (aw_world s) @ [req]\<rparr>\<rparr>"

lemma google_body_Reply:
  assumes "fst (w_http (aw_world s) (w_calls (aw_world s))) = Reply st (Some body)"
  shows "google_body req k s = k st body (google_answered req s)"
  using assms
  by (cases "w_http (aw_world s) (w_calls (aw_world s))")
     (simp add: google_body_def google_Do_def bindE_def tryE_def google_answered_def Let_def)

lemma google_answered_simps [simp]:
  "g_json (google_answered req s) = g_json s" "t_oauth_auth (google_answered req s) = t_oauth_auth s"
  "w_http (aw_world (google_answered req s)) = w_http (aw_world s)"
  "w_calls (aw_world (google_answered req s)) = Suc (w_calls (aw_world s))"
  "authenticated_users (google_answered req s) = authenticated_users s" "auth_env (google_answered req s) = auth_env s"
  by (simp_all add: google_answered_def authenticated_users_def account_ids_def fun_eq_iff auth_env_def)

text \<open>C38: The answer of Google's userinfo call is taken whatever its status: an error object, which
  has none of the fields, stands for the user with the empty id and e-mail. Once there is a user
  signed in that way, every later visitor whose userinfo call fails gets that user's token.\<close>

theorem google_error_signs_in:
  assumes "no_aw_faults s"
    "fst (w_http (aw_world s) (w_calls (aw_world s))) = Reply 200 (Some granted)"
    "g_json s [''access_token'', ''id_token''] granted = Some m"
    "fst (w_http (aw_world s) (Suc (w_calls (aw_world s)))) = Reply status (Some body)"
    "g_json s [''sub'', ''email'', ''given_name'', ''family_name''] body = Some []"
    "filter (\<lambda>r. oa_Email r = '''') (t_oauth_auth s) = r # rs"
    "authenticated_users s (oa_AuthID r) = user # us"
    "j_Sign s (ag_JWTSecret cfg) (jwt_claims (w_uuid_String (aw_world s)) (w_now (aw_world s)) user) = Some tok"
  shows "fst (SignInGoogleUserWithCode cfg code s) = Ok tok"
proof -
  define access where "access = (case map_of m ''access_token'' of None \<Rightarrow> [] | Some v \<Rightarrow> v)"
  obtain req1 t where 1: "GetAccessToken cfg code s = (Ok t, google_answered req1 s)" "gt_AccessToken t = access"
    using assms(3) by (simp add: GetAccessToken_def google_body_Reply [OF assms(2)] json_fields_def go_defs access_def)
  define s1 where "s1 = google_answered req1 s"
  have "fst (w_http (aw_world s1) (w_calls (aw_world s1))) = Reply status (Some body)"
    using assms(4) by (simp add: s1_def)
  note reply2 = google_body_Reply [OF this]
  have g: "g_json (google_answered req s1) = g_json s" for req by (simp add: s1_def)
  obtain req2 where 2: "google_GetUserInfo access s1 =
      (Ok \<lparr>ui_ID = [], ui_Email = [], ui_FirstName = [], ui_LastName = []\<rparr>, google_answered req2 s1)"
    using assms(5) g by (simp add: google_GetUserInfo_def reply2 json_fields_def go_defs)
  define s2 where "s2 = google_answered req2 s1"
  have s2: "t_oauth_auth s2 = t_oauth_auth s" "authenticated_users s2 = authenticated_users s" "auth_env s2 = auth_env s"
    by (simp_all add: s2_def s1_def)
  have nf: "no_aw_faults s2" using auth_envD(1) [OF s2(3)] assms(1) by simp
  have authenticated: "authenticated_users (aw_ticked v) i = authenticated_users v i" for v i
    by (simp add: authenticated_users_def account_ids_def)
  have "r \<in> set (filter (\<lambda>r. oa_Email r = '''') (t_oauth_auth s))" using assms(6) by simp
  then have taken: "\<exists>r\<in>set (t_oauth_auth s2). oa_Email r = ''''" using s2(1) by auto
  note env = auth_envD [OF s2(3)]
  show ?thesis
    unfolding SignInGoogleUserWithCode_def
    using nf s2(1,2) taken assms(6-8) env
    by (simp add: au_failing_def go_defs 1 s1_def [symmetric] 2 s2_def [symmetric] store_CheckIfEmailExists_def aw_query_def aw_get_def aw_db_run
        GetOauthUserByEmail_def GetUserByAuthID_def generateJWTToken_def authenticated)
qed

definition sample_google :: auth_world where
  "sample_google = sample_auth\<lparr>
     aw_world := (aw_world sample_auth)\<lparr>w_http := (\<lambda>n. if n = w_calls sample_world then (Reply 200 (Some ''grant''), 1)
        else (Reply 401 (Some ''error''), 1))\<rparr>,
     t_user_auth := [\<lparr>ua_ID = 5, ua_UserID = ac_OwnerUserID sample_account, ua_AuthType = ''oauth''\<rparr>],
     t_oauth_auth := [\<lparr>oa_AuthID = 5, oa_ExternalID = '''', oa_Email = '''', oa_FullName = '' '', oa_AuthProvider = ''google''\<rparr>],
     g_json := (\<lambda>names body. if body = ''grant'' then Some [(''access_token'', ''at'')] else Some [])\<rparr>"

theorem google_error_signs_in_witness: "fst (SignInGoogleUserWithCode sample_cfg ''code'' sample_google) = Ok ''token''"
proof -
  obtain user us where "authenticated_users sample_google 5 = user # us"
    by (simp add: authenticated_users_def account_ids_def sample_google_def sample_auth_def sample_account_def)
  then show ?thesis
    using sample_auth_faults
    by (intro google_error_signs_in [of sample_google "''grant''" "[(''access_token'', ''at'')]" 401 "''error''"
          "\<lparr>oa_AuthID = 5, oa_ExternalID = '''', oa_Email = '''', oa_FullName = '' '', oa_AuthProvider = ''google''\<rparr>" "[]" user us])
       (simp_all add: sample_google_def sample_auth_def no_aw_faults_def no_faults_def)
qed

end
