(* ===== verification/BillingFacts.thy ===== *)
theory BillingFacts
  imports AuthFacts
begin

text \<open>
  Facts about Stripe's events: what a new subscription makes of its user's tier, and what a
  scheduled cancellation does to it.
\<close>

section \<open>The latest subscription\<close>

text \<open>A row newer than the others of its user is the latest one; it changes nobody else's.\<close>

lemma latest_subscription_new:
  assumes "t_subscriptions w' = t_subscriptions w @ [r]"
    "\<forall>x\<in>set (t_subscriptions w). su_UserID x = su_UserID r \<longrightarrow> su_CreatedAt x < su_CreatedAt r"
  shows "latest_subscription u w' = (if su_UserID r = u then Some r else latest_subscription u w)"
  using assms by (auto simp: latest_subscription_def sort_Slice_snoc_first)

text \<open>An update that keeps the user and the time of creation updates the latest row in place.\<close>

lemma latest_subscription_updated:
  assumes "t_subscriptions w' = upd_where P f (t_subscriptions w)"
    "\<And>r. su_UserID (f r) = su_UserID r" "\<And>r. su_CreatedAt (f r) = su_CreatedAt r"
  shows "latest_subscription u w' = map_option (\<lambda>r. if P r then f r else r) (latest_subscription u w)"
proof -
  let ?g = "\<lambda>r. if P r then f r else r"
  have g: "su_UserID (?g r) = su_UserID r" "su_CreatedAt (?g r) = su_CreatedAt r" for r using assms(2,3) by auto
  have "filter (\<lambda>r. su_UserID r = u) (t_subscriptions w') = map ?g (filter (\<lambda>r. su_UserID r = u) (t_subscriptions w))"
    unfolding assms(1) upd_where_def filter_map by (rule arg_cong [where f = "map _"]) (simp add: comp_def g(1))
  moreover have "sort_Slice (\<lambda>a b. su_CreatedAt b < su_CreatedAt a) (map ?g rs) =
      map ?g (sort_Slice (\<lambda>a b. su_CreatedAt b < su_CreatedAt a) rs)" for rs
    by (rule map_sort_Slice) (simp only: g(2))
  ultimately show ?thesis unfolding latest_subscription_def by (simp split: list.split)
qed

text \<open>The other tables a tier is made of.\<close>

definition plan_tables where
  "plan_tables w = (t_prices w, t_features w, t_limits w, t_plan_feature_limits w, w_fault w)"

lemma plan_tables_tiers:
  assumes "plan_tables w' = plan_tables w"
  shows "plan_tier p w' = plan_tier p w" "free_tier w' = free_tier w" "no_faults w' = no_faults w"
proof -
  have t: "t_prices w' = t_prices w" "t_features w' = t_features w" "t_limits w' = t_limits w"
    "t_plan_feature_limits w' = t_plan_feature_limits w" "w_fault w' = w_fault w"
    using assms by (simp_all add: plan_tables_def)
  have "plan_features q w' = plan_features q w" for q by (simp add: plan_features_def t)
  then have "plan_tier q w' = plan_tier q w" for q
    by (simp add: plan_tier_def live_prices_def t split: list.split)
  then show "plan_tier p w' = plan_tier p w" "free_tier w' = free_tier w"
    by (simp_all add: free_tier_def live_prices_def t split: list.split)
  show "no_faults w' = no_faults w" by (simp add: no_faults_def t)
qed

section \<open>A new subscription\<close>

text \<open>What CreateSubscription stores.\<close>

lemma CreateSubscription_Ok:
  assumes "CreateSubscription sub s = (Ok (), s')"
  shows "\<exists>cust u item rest p r. ss_CustomerID sub = Some cust \<and> u \<in> set (t_users s) \<and>
    us_StripeCustomerID u = Some cust \<and> ss_Items sub = (item, pr_StripeID p) # rest \<and>
    p \<in> set (t_prices (aw_world s)) \<and> su_UserID r = us_ID u \<and> su_PriceID r = pr_ID p \<and> su_StripeID r = ss_ID sub \<and>
    su_Status r = ss_Status sub \<and> su_CreatedAt r = w_now (aw_world s) \<and>
    t_subscriptions (aw_world s') = t_subscriptions (aw_world s) @ [r] \<and>
    plan_tables (aw_world s') = plan_tables (aw_world s)"
proof -
  obtain cust where cust: "ss_CustomerID sub = Some cust"
    using assms by (cases "ss_CustomerID sub") (auto simp: CreateSubscription_def panicE_def)
  obtain item stripe rest where items: "ss_Items sub = (item, stripe) # rest"
    using assms by (cases "ss_Items sub") (auto simp: CreateSubscription_def first_item_def panicE_def cust ok_simps)
  from assms obtain u us p ps where
    a: "filter (\<lambda>u. us_StripeCustomerID u = Some cust) (t_users s) = u # us"
      "filter (\<lambda>p. pr_StripeID p = stripe) (t_prices (aw_world s)) = p # ps" and
    st: "store_CreateSubscription \<lparr>csp_UserID = us_ID u, csp_PriceID = pr_ID p, csp_StripeID = ss_ID sub,
            csp_Status = ss_Status sub, csp_StartDate = unix_time (ss_CurrentPeriodStart sub),
            csp_EndDate = unix_time (ss_CurrentPeriodEnd sub),
            csp_NextBillingDate = unix_time (ss_CurrentPeriodEnd sub)\<rparr> (aw_ticked (aw_ticked s)) = (Ok (), s')"
    by (auto simp: CreateSubscription_def first_item_def GetUserByStripeCustomerID_def GetPriceByStripeID_def ok_simps
        user_of_def cust items map_eq_Cons_conv)
  have "u \<in> set (filter (\<lambda>u. us_StripeCustomerID u = Some cust) (t_users s))"
    "p \<in> set (filter (\<lambda>p. pr_StripeID p = stripe) (t_prices (aw_world s)))" unfolding a by simp_all
  then have up: "u \<in> set (t_users s)" "us_StripeCustomerID u = Some cust" "p \<in> set (t_prices (aw_world s))" "pr_StripeID p = stripe"
    by simp_all
  define r where "r = \<lparr>su_ID = w_uuids (aw_world s) (w_fresh (aw_world s)), su_UserID = us_ID u, su_PriceID = pr_ID p,
     su_StripeID = ss_ID sub, su_Status = ss_Status sub, su_StartDate = unix_time (ss_CurrentPeriodStart sub),
     su_EndDate = unix_time (ss_CurrentPeriodEnd sub), su_NextBillingDate = unix_time (ss_CurrentPeriodEnd sub),
     su_CreatedAt = w_now (aw_world s)\<rparr>"
  have "t_subscriptions (aw_world s') = t_subscriptions (aw_world s) @ [r]" "plan_tables (aw_world s') = plan_tables (aw_world s)"
    using st unfolding r_def by (auto simp: store_CreateSubscription_def ok_simps of_world_def plan_tables_def aw_ticked_def)
  moreover have "su_UserID r = us_ID u" "su_PriceID r = pr_ID p" "su_StripeID r = ss_ID sub" "su_Status r = ss_Status sub"
    "su_CreatedAt r = w_now (aw_world s)" by (simp_all add: r_def)
  ultimately show ?thesis using cust items up
    by (intro exI [of _ cust] exI [of _ u] exI [of _ item] exI [of _ rest] exI [of _ p] exI [of _ r]) simp
qed

text \<open>C39: A subscription event puts its user on the plan it was bought for: when the event of an
  active or trialing subscription is handled, the tier of the user who owns the Stripe customer is
  that of the price of the subscription's first item, the newest row, and the tier of every other
  user is what it was.\<close>

theorem subscription_event_sets_tier:
  assumes "bp_HandleWebhook ev s = (Ok (), s')" "ev_Type ev = ''customer.subscription.created''"
    "ev_Data ev = Some d" "ed_Subscription d = Some sub" "ss_Status sub \<in> {''active'', ''trialing''}"
    "no_aw_faults s" "\<forall>x\<in>set (t_subscriptions (aw_world s)). su_CreatedAt x < w_now (aw_world s)"
  shows "\<exists>u item p rest. u \<in> set (t_users s) \<and> us_StripeCustomerID u = ss_CustomerID sub \<and>
    ss_Items sub = (item, pr_StripeID p) # rest \<and> p \<in> set (t_prices (aw_world s)) \<and>
    outcome (aw_world s') (store_GetTierInfoByUserID (us_ID u) (aw_world s')) (plan_tier (pr_ID p) (aw_world s)) \<and>
    (\<forall>v. v \<noteq> us_ID u \<longrightarrow>
       outcome (aw_world s') (store_GetTierInfoByUserID v (aw_world s')) (user_tier v (aw_world s)))"
proof -
  have "CreateSubscription sub s = (Ok (), s')"
    using assms(1-4) by (simp add: bp_HandleWebhook_def Let_def event_data_def parsed_def SubscriptionCreated_def ok_simps)
  from CreateSubscription_Ok [OF this] obtain cust u item rest p r where
    a: "ss_CustomerID sub = Some cust" "u \<in> set (t_users s)" "us_StripeCustomerID u = Some cust"
      "ss_Items sub = (item, pr_StripeID p) # rest" "p \<in> set (t_prices (aw_world s))" and
    r: "su_UserID r = us_ID u" "su_PriceID r = pr_ID p" "su_Status r = ss_Status sub" "su_CreatedAt r = w_now (aw_world s)"
      "t_subscriptions (aw_world s') = t_subscriptions (aw_world s) @ [r]" and
    t: "plan_tables (aw_world s') = plan_tables (aw_world s)" by blast
  have latest: "latest_subscription v (aw_world s') = (if us_ID u = v then Some r else latest_subscription v (aw_world s))" for v
    using latest_subscription_new [OF r(5), of v] assms(7) r(1,4) by simp
  have tier: "user_tier v (aw_world s') = (if v = us_ID u then plan_tier (pr_ID p) (aw_world s) else user_tier v (aw_world s))" for v
    using assms(5) r(2,3) by (simp add: user_tier_def latest plan_tables_tiers [OF t] split: option.split)
  have "no_faults (aw_world s')" using assms(6) plan_tables_tiers(3) [OF t] by (simp add: no_aw_faults_def)
  then have "outcome (aw_world s') (store_GetTierInfoByUserID v (aw_world s')) (user_tier v (aw_world s'))" for v
    using user_tier_answers unfolding answers_def by blast
  then have "outcome (aw_world s') (store_GetTierInfoByUserID v (aw_world s'))
      (if v = us_ID u then plan_tier (pr_ID p) (aw_world s) else user_tier v (aw_world s))" for v unfolding tier .
  note out = this
  show ?thesis
  proof (intro exI [of _ u] exI [of _ item] exI [of _ p] exI [of _ rest] conjI allI impI)
    show "outcome (aw_world s') (store_GetTierInfoByUserID (us_ID u) (aw_world s')) (plan_tier (pr_ID p) (aw_world s))"
      using out [of "us_ID u"] by simp
    show "outcome (aw_world s') (store_GetTierInfoByUserID v (aw_world s')) (user_tier v (aw_world s))" if "v \<noteq> us_ID u" for v
      using out [of v] that by simp
  qed (simp_all add: a)
qed

definition sample_stripe_sub :: stripe_Subscription where
  "sample_stripe_sub = \<lparr>ss_ID = ''sub_1'', ss_CustomerID = Some ''cus_1'', ss_Items = [(''si_1'', ''price_pro'')],
     ss_Status = ''active'', ss_CurrentPeriodStart = 0, ss_CurrentPeriodEnd = 2592000, ss_CancelAt = 0\<rparr>"

definition sample_billing :: auth_world where
  "sample_billing = sample_auth\<lparr>
     aw_world := (aw_world sample_auth)\<lparr>t_prices := [\<lparr>pr_ID = 9, pr_ProductID = 8, pr_StripeID = ''price_pro'',
       pr_Description = ''lc_pro_monthly'', pr_UnitAmount = Some 1900, pr_Currency = None, pr_Interval = None,
       pr_CreatedAt = '''', pr_UpdatedAt = '''', pr_DeletedAt = None\<rparr>]\<rparr>,
     t_users := [\<lparr>us_ID = 2, us_FirstName = ''Ann'', us_LastName = ''Lee'', us_StripeCustomerID = Some ''cus_1''\<rparr>]\<rparr>"

definition sample_event :: "string \<Rightarrow> stripe_Subscription \<Rightarrow> stripe_Event" where
  "sample_event t sub = \<lparr>ev_Type = t, ev_Data = Some \<lparr>ed_Product = None, ed_Price = None, ed_Subscription = Some sub,
     ed_Invoice = None, ed_PreviousStatus = None\<rparr>\<rparr>"

lemma sample_billing_faults: "no_aw_faults sample_billing"
  using sample_auth_faults by (simp add: no_aw_faults_def no_faults_def sample_billing_def)

theorem subscription_event_sets_tier_witness:
  "\<exists>s' ti. bp_HandleWebhook (sample_event ''customer.subscription.created'' sample_stripe_sub) sample_billing = (Ok (), s') \<and>
     fst (store_GetTierInfoByUserID 2 (aw_world s')) = Ok ti \<and> st_PriceDescription ti = ''lc_pro_monthly''"
proof -
  let ?e = "sample_event ''customer.subscription.created'' sample_stripe_sub"
  have "fst (bp_HandleWebhook ?e sample_billing) = Ok ()" by code_simp
  then obtain s' where r: "bp_HandleWebhook ?e sample_billing = (Ok (), s')" by (cases "bp_HandleWebhook ?e sample_billing") simp
  obtain d where d: "ev_Type ?e = ''customer.subscription.created''" "ev_Data ?e = Some d" "ed_Subscription d = Some sample_stripe_sub"
    by (simp add: sample_event_def)
  have rows: "\<forall>x\<in>set (t_subscriptions (aw_world sample_billing)). su_CreatedAt x < w_now (aw_world sample_billing)"
    by (simp add: sample_billing_def sample_auth_def sample_world_def empty_world_def)
  have "ss_Status sample_stripe_sub \<in> {''active'', ''trialing''}" by (simp add: sample_stripe_sub_def)
  from subscription_event_sets_tier [OF r d this sample_billing_faults rows] obtain u p where
    "u \<in> set (t_users sample_billing)" "p \<in> set (t_prices (aw_world sample_billing))" and
    o: "outcome (aw_world s') (store_GetTierInfoByUserID (us_ID u) (aw_world s')) (plan_tier (pr_ID p) (aw_world sample_billing))"
    by blast
  then have "us_ID u = 2" "pr_ID p = 9" by (simp_all add: sample_billing_def)
  moreover obtain ti where "plan_tier 9 (aw_world sample_billing) = Some ti" "st_PriceDescription ti = ''lc_pro_monthly''"
    by (simp add: plan_tier_def live_prices_def plan_features_def sample_billing_def sample_auth_def sample_world_def empty_world_def)
  ultimately show ?thesis using o r by (auto simp: outcome_def)
qed

section \<open>A scheduled cancellation\<close>

lemma in_world_run: "m (aw_world s) = (r, w) \<Longrightarrow> in_world m s = (r, s\<lparr>aw_world := w\<rparr>)"
  by (simp add: in_world_def)

lemma latest_subscription_ticked [simp]: "latest_subscription u (ticked w) = latest_subscription u w"
  by (simp add: latest_subscription_def tick_tables(5) [OF tick_ticked])

text \<open>Any row of a subscription, whatever its status, is an active subscription to the processor.\<close>

lemma GetActiveSubscription_row:
  assumes "no_faults (aw_world s)" "latest_subscription u (aw_world s) = Some r"
  shows "fst (GetActiveSubscription u s) = Ok (Subscription.truncate r)"
proof -
  have "store_GetSubscriptionByUserID u (aw_world s) = (Ok r, ticked (aw_world s))"
    using assms by (auto simp: store_GetSubscriptionByUserID_def row_or_def sql_get_no_faults go_defs latest_subscription_def
        split: list.splits)
  then show ?thesis by (simp add: GetActiveSubscription_def GetSubscriptionByUserID_def in_world_run go_defs)
qed

text \<open>C40: A cancellation scheduled for the end of the period takes effect at once: after the event the
  user whose latest subscription it is has the free tier, though the row's end date is still to
  come, and cannot buy a plan, because the checkout takes the canceled row for a running
  subscription.\<close>

theorem scheduled_cancellation_ends_plan:
  assumes "no_aw_faults s" "ev_Type ev = ''customer.subscription.updated''" "ev_Data ev = Some d"
    "ed_Subscription d = Some sub" "ed_PreviousStatus d \<noteq> Some ''incomplete''" "0 < ss_CancelAt sub"
    "latest_subscription u (aw_world s) = Some r" "su_StripeID r = ss_ID sub"
  shows "\<exists>s'. bp_HandleWebhook ev s = (Ok (), s') \<and>
    map_option su_EndDate (latest_subscription u (aw_world s')) = Some (unix_time (ss_CancelAt sub)) \<and>
    outcome (aw_world s') (store_GetTierInfoByUserID u (aw_world s')) (free_tier (aw_world s)) \<and>
    fst (CreateCheckoutSession host u price s') = Err (Sentinel (BL BL_ErrSubscriptionAlreadyExists))"
proof -
  let ?f = "\<lambda>r. r\<lparr>su_EndDate := unix_time (ss_CancelAt sub), su_Status := ''canceled''\<rparr>"
  define s' where "s' = snd (bp_HandleWebhook ev s)"
  have run: "bp_HandleWebhook ev s = (Ok (), s')"
    "t_subscriptions (aw_world s') = upd_where (\<lambda>r. su_StripeID r = ss_ID sub) ?f (t_subscriptions (aw_world s))"
    "plan_tables (aw_world s') = plan_tables (aw_world s)"
    unfolding s'_def using assms(1-6)
    by (simp_all add: bp_HandleWebhook_def Let_def event_data_def parsed_def SubscriptionUpdated_def CancelSubscription_def
        store_CancelSubscription_def exec_or_def aw_update_def aw_db_run of_world_def go_defs plan_tables_def aw_ticked_def)
  have latest: "latest_subscription u (aw_world s') = Some (?f r)"
    using latest_subscription_updated [OF run(2)] assms(7,8) by simp
  have nf: "no_faults (aw_world s')" using assms(1) plan_tables_tiers(3) [OF run(3)] by (simp add: no_aw_faults_def)
  have "user_tier u (aw_world s') = free_tier (aw_world s)"
    by (simp add: user_tier_def latest plan_tables_tiers [OF run(3)])
  then have "outcome (aw_world s') (store_GetTierInfoByUserID u (aw_world s')) (free_tier (aw_world s))"
    using user_tier_answers [of u] nf unfolding answers_def by metis
  moreover have "fst (CreateCheckoutSession host u price s') = Err (Sentinel (BL BL_ErrSubscriptionAlreadyExists))"
    using GetActiveSubscription_row [OF nf latest]
    by (cases "GetActiveSubscription u s'") (simp add: CreateCheckoutSession_def go_defs)
  ultimately show ?thesis using run(1) latest by (intro exI [of _ s']) simp
qed

theorem scheduled_cancellation_ends_plan_witness:
  "\<exists>s'. bp_HandleWebhook (sample_event ''customer.subscription.updated'' (sample_stripe_sub\<lparr>ss_CancelAt := 2592000\<rparr>))
      (sample_billing\<lparr>aw_world := (aw_world sample_billing)\<lparr>t_subscriptions := [\<lparr>su_ID = 1, su_UserID = 2, su_PriceID = 9,
         su_StripeID = ''sub_1'', su_Status = ''active'', su_StartDate = 0, su_EndDate = 0, su_NextBillingDate = 0,
         su_CreatedAt = 0\<rparr>]\<rparr>\<rparr>) = (Ok (), s') \<and>
     fst (store_GetTierInfoByUserID 2 (aw_world s')) = Ok getDefaultFreeTier \<and>
     fst (CreateCheckoutSession ''https://x.io'' 2 ''9'' s') = Err (Sentinel (BL BL_ErrSubscriptionAlreadyExists))"
proof -
  let ?r = "\<lparr>su_ID = 1, su_UserID = 2, su_PriceID = 9, su_StripeID = ''sub_1'', su_Status = ''active'', su_StartDate = 0,
     su_EndDate = 0, su_NextBillingDate = 0, su_CreatedAt = 0\<rparr>"
  let ?s = "sample_billing\<lparr>aw_world := (aw_world sample_billing)\<lparr>t_subscriptions := [?r]\<rparr>\<rparr>"
  let ?sub = "sample_stripe_sub\<lparr>ss_CancelAt := 2592000\<rparr>"
  have nf: "no_aw_faults ?s" using sample_billing_faults by (simp add: no_aw_faults_def no_faults_def)
  obtain d where d: "ev_Type (sample_event ''customer.subscription.updated'' ?sub) = ''customer.subscription.updated''"
    "ev_Data (sample_event ''customer.subscription.updated'' ?sub) = Some d" "ed_Subscription d = Some ?sub"
    "ed_PreviousStatus d \<noteq> Some ''incomplete''"
    by (simp add: sample_event_def)
  have r: "latest_subscription 2 (aw_world ?s) = Some ?r" "su_StripeID ?r = ss_ID ?sub" "0 < ss_CancelAt ?sub"
    by (simp_all add: latest_subscription_def sample_stripe_sub_def)
  have f: "free_tier (aw_world ?s) = Some getDefaultFreeTier"
    by (simp add: free_tier_def live_prices_def sample_billing_def)
  from scheduled_cancellation_ends_plan [OF nf d r(3,1,2), of "''https://x.io''" "''9''"] obtain s' where
    "bp_HandleWebhook (sample_event ''customer.subscription.updated'' ?sub) ?s = (Ok (), s')"
    "outcome (aw_world s') (store_GetTierInfoByUserID 2 (aw_world s')) (free_tier (aw_world ?s))"
    "fst (CreateCheckoutSession ''https://x.io'' 2 ''9'' s') = Err (Sentinel (BL BL_ErrSubscriptionAlreadyExists))" by blast
  then show ?thesis unfolding f by (auto simp: outcome_def)
qed

end
