(* ===== verification/Spec2Isabelle.thy ===== *)
theory Spec2Isabelle
  imports Position WaitlistFacts Segments BlastBatches BlastRecipients BlastSchedule Arrays WebhookFacts SpamFacts RewardFacts Referrals PositionWorker AnalyticsFacts CampaignFacts IntegrationFacts EmailFacts SignupFacts
    WaitlistHttp CampaignHttp SegmentsHttp BlastsHttp RewardsHttp ReferralsHttp AnalyticsHttp WebhooksHttp
    TemplatesHttp Auth WaitlistHttpFacts AuthFacts BillingFacts
begin

text \<open>
  Verification development for base-server, the Go backend of a waitlist platform: companies run
  campaigns, visitors sign up, refer each other and move up a ranking; the company segments its
  users, mails them in blasts, gives rewards and has events pushed to its webhooks.

  \<^bold>\<open>The program.\<close> The sources are under src/internal. Each feature has a store file (SQL over
  PostgreSQL), a processor (the business rules) and an HTTP handler (request parsing); processors
  publish events to one Kafka topic, and workers consume them: webhook delivery, spam detection,
  position calculation, e-mail blasts. A handler or worker reads and writes the database one
  statement at a time; only the bulk creation of recipients and of positions runs in a
  transaction. What is modelled is the path of the data from a processor's parameters through its
  statements to the tables, the topic, the mails and the HTTP requests.

  \<^bold>\<open>The shape of the model.\<close> A Go function that can fail is a term of type (world, 'a) go, a
  function from the world to a result (Ok, Err with the error value, or Panic) and the new world.
  bindE is the idiom if err != nil return err, tryE its form with a handler for the error, wrapE
  fmt.Errorf with percent-w, logE an error that is logged and dropped. Names are those of the
  source; store operations have the prefix store_, and a two-letter prefix tells apart methods or
  struct fields that the source distinguishes by their package (wl_ waitlist, cp_ campaign, sg_
  segments, rf_ referral, an_ analytics). Structs are records with the source's field names
  behind a prefix, pointers are options, nil and empty slices are told apart where the code does.

  \<^bold>\<open>Foundations.\<close>
   \<^item> Prelude: errors with errors.Is and their text, the combinators, the named collections
     go_defs (unfolding), ok_simps (what a successful run consists of), reads and moves_intros
     (what a step may change), the locale step_preorder for a reflexive and transitive relation
     between states that every statement respects, with its interpretations for invariants
     and frames.
   \<^item> GoLib: 64-bit int with wrap-around and truncated division, float64 of an int, the functions
     of strings, strconv and sort the code calls, JSON values and what a round trip through
     encoding/json does to them. The locale keyed_less gives the laws of sort.Slice under a
     comparator that is the order of a key.
   \<^item> Models and Enums: the rows and enums of store/models.go and store/enums.go.
   \<^item> World: tables, topic, outbox, HTTP log, and the environment; one SQL statement is one atomic
     step that the environment may let fail (w_fault, indexed by the number of the statement);
     the predicates tick (only the statement counter moved) and no_faults.
   \<^item> Tables: what a statement does to one table, as locales (table, row_relation, other_rows)
     interpreted on the tables of the model. Wp: weakest preconditions for long handlers.
     Samples: concrete states for the witnesses. Arrays: text[] and uuid[] columns of models.go.
     Calendar: the part of package time that the analytics use.

  \<^bold>\<open>Components.\<close> Each bullet names the theory of the definitions and that of longer proofs.
   \<^item> Tiers: store/tier.go, the package tiers. The features and limits of an account are refined
     against the specification account_tier.
   \<^item> CampaignStore, CampaignSettings, Campaigns, CampaignFacts: store/campaign.go, the seven
     campaign settings files, campaign/processor. What creating a campaign checks, stores and
     shows, and what a refused creation leaves behind.
   \<^item> Access: the check that a campaign is of the account, shared by the processors.
   \<^item> WaitlistStore, Utils, Events, Waitlist, WaitlistFacts: store/waitlist_user.go with its
     query builders, store/user_channel_codes.go, waitlist/utils, the event dispatcher and
     producer, waitlist/processor. The builders number placeholders by hand; lemmas show that the
     text they build selects what the parameters say. Properties: signing up, listing, verifying,
     isolation between campaigns and accounts.
   \<^item> Position, PositionWorker: the position calculator and the worker that runs it on events. The
     ranking is a permutation numbered from 1, ordered by the effective score, then creation
     time, then the text of the id.
   \<^item> Segments: store/segment.go and segments/processor.
   \<^item> Blasts, EmailBlasts, with BlastLife, BlastBatches, BlastRecipients, BlastSchedule:
     store/email_blast.go, emailblasts/processor, the blast worker and scheduler, the custom
     template path of the e-mail service. BlastLife is a step relation (handlers, worker with any
     message at any time, scheduler, others) with the life cycle as a reachability property;
     BlastBatches proves invariants of the reachable states.
   \<^item> WebhookStore, Webhooks, WebhookFacts: store/webhook.go, webhooks/service, worker, processor
     and event processor: whom a delivery reaches, well-formed delivery rows, retries.
   \<^item> Spam, SpamFacts: the three detectors and the blocking of users.
   \<^item> Rewards, RewardFacts: rewards with their limits as an invariant of every run.
   \<^item> Referrals: referral links, tracking, statistics.
   \<^item> Analytics, AnalyticsFacts: every query and handler of the analytics; the locale consecutive
     states what a partition of time into periods promises and is interpreted for the hours, days,
     weeks and months of the code.

   \<^item> EmailTemplates, EmailEvents, EmailFacts: the stored templates of campaigns and blasts with
     their processors, the built-in templates and senders of email/service.go, the event processor
     of the mail worker: what mails a signup and a verification lead to, and that stored templates
     parse.
   \<^item> Http, ApiKeys, Zapier, Integrations, IntegrationFacts: the answers of the package apierrors,
     keys with their handlers and the middleware, the Zapier endpoints, the deliveries to
     integrations. SignupFacts: signups with a channel code.
   \<^item> Requests and WaitlistHttp, CampaignHttp, SegmentsHttp, BlastsHttp, RewardsHttp, ReferralsHttp,
     AnalyticsHttp, WebhooksHttp, TemplatesHttp: the HTTP handlers. gin's context is a record of
     what its methods answer for one request (gin_Context); a body is an argument, None when it
     does not decode, and the binding tags of its struct are a function that gives the failed
     fields; a handler returns the status and the body it answers with. A panic ends the handler.
     WaitlistHttpFacts: an import stays within the leads limit, resending a verification panics.
   \<^item> AuthStore, Billing, BillingProcessor, Auth: users, credentials, accounts, team members and
     payment methods; products, prices and subscriptions with the Stripe webhook; signup, login,
     Google sign-in, tokens and the middleware in front of the handlers. Their state, auth_world,
     holds the world and the tables only they use; in_world runs an operation of the other
     theories in it, aw_transaction is BEGIN to COMMIT with the deferred rollback, stripe a call
     of Stripe. AuthFacts: what a signup stores, that its password logs in and its token admits the
     user until it expires, what a failed signup leaves behind, how an error answer of Google signs
     in. BillingFacts: how events on subscriptions move the tier of their user, over the
     specification user_tier of Tiers.

  \<^bold>\<open>Bounds and recursion.\<close> No fuel is used: loops of the code run over finite lists and are
  structural; the loops over time periods are a function with a measure, and the property
  period_loops_end is about them. int is 64 bits wide and wraps where the code computes with
  it (CalculatePositionChange, the scores of the calculator); columns of type integer reject
  what does not fit where the code can get there, and counts of rows are taken to fit.

  \<^bold>\<open>Assumptions about the environment.\<close>
   \<^item> A statement is atomic and either takes effect or fails as a whole; handlers run one after
     the other (the step relations interleave whole handlers, never statements of two of them).
     now() is w_now, constant during a run. UUIDs come from w_uuids, random bytes from w_rand.
   \<^item> Constraints are those of src/migrations: enum types, UNIQUE, CHECK, varchar lengths and the
     foreign keys the code can violate. An array literal without quotes, backslashes or white
     space is handed back by the server as it was written. DATE_TRUNC and ILIKE are parameters
     (w_date_trunc, w_ilike), since they depend on time zone and collation.
   \<^item> Mails, HTTP requests, HMAC, template execution and the captcha are parameters of the world;
     the answers may depend on the number of the statement, so nothing is assumed of them beyond
     what a property names. json.Marshal of the program's own values succeeds. Published data is
     what a consumer reads after a JSON round trip; the order of delivery is free.
   \<^item> Floats: only ratios and rounded values occur; they are rationals, rounding is w_round.
   \<^item> The server's local zone is UTC. Contexts, logging, tracing and metrics have no effect.

  \<^bold>\<open>Not modelled.\<close>
   \<^item> The route table (api/api.go), server, configuration and bootstrap: they only connect what is
     modelled. The logger.
   \<^item> The packages ai-capabilities, voice and voicecall with their clients and tables: streams of
     external services, apart from the waitlist.
   \<^item> bcrypt, the JWT library, Google, Stripe, Turnstile, Kafka, gin's decoding and validation of
     bodies: libraries and services that are parameters. Kafka consumers only hand a message to the
     functions modelled; tickers and goroutines around the rounds of the scheduler and the workers.
  \<close>

end
